(* ===== verification/Ferric_Prelude.thy ===== *)
theory Ferric_Prelude
  imports Main "HOL-Library.Char_ord" "HOL-Library.List_Lexorder"
begin

text \<open>
  The prelude of the development: fallible computations as values of a sum type
  (\<open>Inl\<close> is Rust's \<open>Err\<close>, \<open>Inr\<close> its \<open>Ok\<close>), the early return of a
  sequence of checks, Rust's checked and saturating arithmetic on unsigned integers
  (kept as \<^typ>\<open>nat\<close> with the bound written out), and the slice combinators the
  components share (\<open>windows(2)\<close>, \<open>partition_point\<close>, \<open>dedup\<close>). The
  collections \<open>result_simps\<close> and \<open>int_simps\<close> carry the component proofs.
\<close>

named_theorems result_simps \<open>rewriting of results and early returns\<close>
named_theorems int_simps \<open>unfolding of bounded integer operations\<close>

section \<open>Results and early returns\<close>

text \<open>\<^verbatim>\<open>Result<(), E>\<close>: a check that either passes or names its error.\<close>

type_synonym 'e check = "'e + unit"

abbreviation ok :: "'e check" where
  "ok \<equiv> Inr ()"

text \<open>The guard \<^verbatim>\<open>if !p { return Err(e); }\<close>.\<close>

definition require :: "bool \<Rightarrow> 'e \<Rightarrow> 'e check" where
  "require p e = (if p then ok else Inl e)"

text \<open>A sequence of checks, each followed by the question-mark operator: the first error
  wins and later checks are not reached.\<close>

fun checks :: "'e check list \<Rightarrow> 'e check" where
  "checks [] = ok"
| "checks (c # cs) = (case c of Inl e \<Rightarrow> Inl e | Inr _ \<Rightarrow> checks cs)"

text \<open>A loop that applies a check to every element and returns at the first error.\<close>

definition check_all :: "('a \<Rightarrow> 'e check) \<Rightarrow> 'a list \<Rightarrow> 'e check" where
  "check_all f xs = checks (map f xs)"

text \<open>\<^verbatim>\<open>Option::ok_or\<close>, and the question-mark operator on a result with a value.\<close>

definition ok_or :: "'a option \<Rightarrow> 'e \<Rightarrow> 'e + 'a" where
  "ok_or x e = (case x of None \<Rightarrow> Inl e | Some v \<Rightarrow> Inr v)"

definition and_then :: "('e + 'a) \<Rightarrow> ('a \<Rightarrow> 'e + 'b) \<Rightarrow> 'e + 'b" where
  "and_then r f = (case r of Inl e \<Rightarrow> Inl e | Inr v \<Rightarrow> f v)"

definition is_ok :: "'e + 'a \<Rightarrow> bool" where
  "is_ok r = (case r of Inl _ \<Rightarrow> False | Inr _ \<Rightarrow> True)"

section \<open>Bounded integers\<close>

definition u32_max :: nat where "u32_max = 4294967295"
definition u64_max :: nat where "u64_max = 18446744073709551615"

definition checked_add :: "nat \<Rightarrow> nat \<Rightarrow> nat \<Rightarrow> nat option" where
  "checked_add bound a b = (if a + b \<le> bound then Some (a + b) else None)"

definition checked_sub :: "nat \<Rightarrow> nat \<Rightarrow> nat option" where
  "checked_sub a b = (if b \<le> a then Some (a - b) else None)"

definition saturating_add :: "nat \<Rightarrow> nat \<Rightarrow> nat \<Rightarrow> nat" where
  "saturating_add bound a b = min bound (a + b)"

definition saturating_mul :: "nat \<Rightarrow> nat \<Rightarrow> nat \<Rightarrow> nat" where
  "saturating_mul bound a b = min bound (a * b)"

text \<open>A cast to \<^verbatim>\<open>u32\<close>.\<close>

definition as_u32 :: "nat \<Rightarrow> nat" where
  "as_u32 n = n mod (u32_max + 1)"

section \<open>Slices\<close>

text \<open>\<^verbatim>\<open>xs.windows(2).any(|pair| p(pair[0], pair[1]))\<close>\<close>

fun windows2_any :: "('a \<Rightarrow> 'a \<Rightarrow> bool) \<Rightarrow> 'a list \<Rightarrow> bool" where
  "windows2_any p (x # y # zs) = (p x y \<or> windows2_any p (y # zs))"
| "windows2_any p _ = False"

text \<open>\<^verbatim>\<open>Vec::dedup\<close>: removes consecutive repetitions.\<close>

fun dedup :: "'a list \<Rightarrow> 'a list" where
  "dedup (x # y # zs) = (if x = y then dedup (y # zs) else x # dedup (y # zs))"
| "dedup xs = xs"

text \<open>\<^verbatim>\<open>iter.position(p)\<close> and \<^verbatim>\<open>iter.find(p)\<close>.\<close>

fun position :: "('a \<Rightarrow> bool) \<Rightarrow> 'a list \<Rightarrow> nat option" where
  "position p [] = None"
| "position p (x # xs) = (if p x then Some 0 else map_option Suc (position p xs))"

section \<open>Lemmas\<close>

lemma require_ok [result_simps]: "require p e = Inr u \<longleftrightarrow> p"
  by (simp add: require_def)

lemma require_err [result_simps]: "require p e = Inl e' \<longleftrightarrow> \<not> p \<and> e' = e"
  by (auto simp: require_def)

lemma checks_ok [result_simps]: "checks cs = Inr u \<longleftrightarrow> (\<forall>c \<in> set cs. c = ok)"
  by (induction cs) (auto split: sum.splits)

lemma checks_err_in: "checks cs = Inl e \<Longrightarrow> Inl e \<in> set cs"
  by (induction cs) (auto split: sum.splits)

lemma check_all_ok [result_simps]: "check_all f xs = Inr u \<longleftrightarrow> (\<forall>x \<in> set xs. f x = ok)"
  by (auto simp: check_all_def result_simps)

lemma check_all_err: "check_all f xs = Inl e \<Longrightarrow> \<exists>x \<in> set xs. f x = Inl e"
  using checks_err_in[of "map f xs" e] by (auto simp: check_all_def intro: sym)

lemma ok_or_ok [result_simps]: "ok_or x e = Inr v \<longleftrightarrow> x = Some v"
  by (auto simp: ok_or_def split: option.splits)

lemma ok_or_err [result_simps]: "ok_or x e = Inl e' \<longleftrightarrow> x = None \<and> e' = e"
  by (auto simp: ok_or_def split: option.splits)

lemma and_then_ok [result_simps]:
  "and_then r f = Inr v \<longleftrightarrow> (\<exists>w. r = Inr w \<and> f w = Inr v)"
  by (auto simp: and_then_def split: sum.splits)

lemma and_then_err [result_simps]:
  "and_then r f = Inl e \<longleftrightarrow> r = Inl e \<or> (\<exists>w. r = Inr w \<and> f w = Inl e)"
  by (auto simp: and_then_def split: sum.splits)

lemma and_then_Inr [simp]: "and_then (Inr v) f = f v"
  by (simp add: and_then_def)

lemma and_then_Inl [simp]: "and_then (Inl e) f = Inl e"
  by (simp add: and_then_def)

lemma is_ok_iff [result_simps]: "is_ok r \<longleftrightarrow> (\<exists>v. r = Inr v)"
  by (auto simp: is_ok_def split: sum.splits)

lemma not_ok_iff [result_simps]: "(r :: 'e check) \<noteq> ok \<longleftrightarrow> (\<exists>e. r = Inl e)"
  by (cases r) auto

lemma checked_add_Some [int_simps]:
  "checked_add bound a b = Some c \<longleftrightarrow> c = a + b \<and> a + b \<le> bound"
  by (auto simp: checked_add_def)

lemma checked_add_None [int_simps]: "checked_add bound a b = None \<longleftrightarrow> bound < a + b"
  by (auto simp: checked_add_def)

lemma checked_sub_Some [int_simps]: "checked_sub a b = Some c \<longleftrightarrow> a = b + c"
  by (auto simp: checked_sub_def)

lemma checked_sub_None [int_simps]: "checked_sub a b = None \<longleftrightarrow> a < b"
  by (auto simp: checked_sub_def)

text \<open>Sorted without duplicates, as the \<open>windows(2)\<close> test of the source decides it.\<close>

lemma windows2_any_ge_iff:
  fixes xs :: "'a::linorder list"
  shows "\<not> windows2_any (\<lambda>x y. y \<le> x) xs \<longleftrightarrow> sorted_wrt (<) xs"
  by (induction "\<lambda>x y :: 'a. y \<le> x" xs rule: windows2_any.induct)
     (auto simp: not_le dest: less_trans)

lemma windows2_any_eq_sorted:
  fixes xs :: "'a::linorder list"
  assumes "sorted xs"
  shows "windows2_any (=) xs \<longleftrightarrow> \<not> distinct xs"
  using assms
proof (induction "(=) :: 'a \<Rightarrow> 'a \<Rightarrow> bool" xs rule: windows2_any.induct)
  case (1 x y zs)
  then have "x \<in> set (y # zs) \<longleftrightarrow> x = y" by force
  with 1 show ?case by auto
qed auto

lemma set_dedup [simp]: "set (dedup xs) = set xs"
  by (induction xs rule: dedup.induct) auto

lemma sorted_dedup: "sorted xs \<Longrightarrow> sorted_wrt (<) (dedup (xs :: 'a::linorder list))"
proof (induction xs rule: dedup.induct)
  case (1 x y zs)
  then have "\<And>z. z \<in> set (dedup (y # zs)) \<Longrightarrow> y \<le> z" by (auto simp del: dedup.simps)
  with 1 show ?case by (fastforce simp del: dedup.simps simp: dedup.simps(1))
qed auto

lemma position_Some:
  "position p xs = Some i \<Longrightarrow> i < length xs \<and> p (xs ! i) \<and> (\<forall>j < i. \<not> p (xs ! j))"
proof (induction xs arbitrary: i)
  case (Cons x xs)
  show ?case
  proof (cases "p x")
    case False
    with Cons.prems obtain k where k: "position p xs = Some k" "i = Suc k" by auto
    with Cons.IH[OF k(1)] False show ?thesis by (auto simp: less_Suc_eq_0_disj)
  qed (use Cons.prems in auto)
qed simp

lemma position_None: "position p xs = None \<longleftrightarrow> (\<forall>x \<in> set xs. \<not> p x)"
  by (induction xs) auto

end
