(* ===== verification/Rust_Collections.thy ===== *)
theory Rust_Collections
  imports Ferric_Prelude
begin

text \<open>
  The ordered collections of Rust's standard library that the components use:
  \<^verbatim>\<open>BTreeMap\<close> as an association list and \<^verbatim>\<open>BTreeSet\<close> as a list,
  both strictly sorted by key, so that iteration order and extensional equality are those
  of the source. What a client may rely on is stated once, as the locales
  \<open>ordered_map\<close> and \<open>ordered_set\<close>; the list operations interpret them.
\<close>

section \<open>Operations\<close>

type_synonym ('k, 'v) btree_map = "('k \<times> 'v) list"
type_synonym 'a btree_set = "'a list"

definition bt_wf :: "('k::linorder, 'v) btree_map \<Rightarrow> bool" where
  "bt_wf m \<longleftrightarrow> sorted_wrt (<) (map fst m)"

definition bt_get :: "('k::linorder, 'v) btree_map \<Rightarrow> 'k \<Rightarrow> 'v option" where
  "bt_get m k = map_of m k"

fun bt_insert :: "'k::linorder \<Rightarrow> 'v \<Rightarrow> ('k, 'v) btree_map \<Rightarrow> ('k, 'v) btree_map" where
  "bt_insert k v [] = [(k, v)]"
| "bt_insert k v ((k', v') # m) =
     (if k < k' then (k, v) # (k', v') # m
      else if k = k' then (k, v) # m
      else (k', v') # bt_insert k v m)"

fun bt_remove :: "'k::linorder \<Rightarrow> ('k, 'v) btree_map \<Rightarrow> ('k, 'v) btree_map" where
  "bt_remove k [] = []"
| "bt_remove k ((k', v') # m) = (if k = k' then m else (k', v') # bt_remove k m)"

definition bt_values :: "('k, 'v) btree_map \<Rightarrow> 'v list" where
  "bt_values m = map snd m"

definition bt_map_values :: "('v \<Rightarrow> 'w) \<Rightarrow> ('k, 'v) btree_map \<Rightarrow> ('k, 'w) btree_map" where
  "bt_map_values f m = map (\<lambda>(k, v). (k, f v)) m"

definition bs_wf :: "'a::linorder btree_set \<Rightarrow> bool" where
  "bs_wf s \<longleftrightarrow> sorted_wrt (<) s"

fun bs_insert :: "'a::linorder \<Rightarrow> 'a btree_set \<Rightarrow> 'a btree_set" where
  "bs_insert x [] = [x]"
| "bs_insert x (y # s) =
     (if x < y then x # y # s else if x = y then y # s else y # bs_insert x s)"

definition bs_extend :: "'a::linorder btree_set \<Rightarrow> 'a list \<Rightarrow> 'a btree_set" where
  "bs_extend s xs = fold bs_insert xs s"

definition bs_of_list :: "'a::linorder list \<Rightarrow> 'a btree_set" where
  "bs_of_list xs = bs_extend [] xs"

definition bs_contains :: "'a::linorder btree_set \<Rightarrow> 'a \<Rightarrow> bool" where
  "bs_contains s x \<longleftrightarrow> x \<in> set s"

section \<open>The interfaces\<close>

locale ordered_map =
  fixes wf :: "'m \<Rightarrow> bool"
    and empty :: 'm
    and lookup :: "'m \<Rightarrow> 'k::linorder \<Rightarrow> 'v option"
    and update :: "'k \<Rightarrow> 'v \<Rightarrow> 'm \<Rightarrow> 'm"
    and delete :: "'k \<Rightarrow> 'm \<Rightarrow> 'm"
    and entries :: "'m \<Rightarrow> ('k \<times> 'v) list"
  assumes wf_empty: "wf empty"
    and wf_update: "wf m \<Longrightarrow> wf (update k v m)"
    and wf_delete: "wf m \<Longrightarrow> wf (delete k m)"
    and lookup_empty: "lookup empty k = None"
    and lookup_update: "wf m \<Longrightarrow> lookup (update k v m) k' = (if k' = k then Some v else lookup m k')"
    and lookup_delete: "wf m \<Longrightarrow> lookup (delete k m) k' = (if k' = k then None else lookup m k')"
    and entries_lookup: "wf m \<Longrightarrow> (k, v) \<in> set (entries m) \<longleftrightarrow> lookup m k = Some v"
    and entries_sorted: "wf m \<Longrightarrow> sorted_wrt (<) (map fst (entries m))"
    and entries_inj: "wf m \<Longrightarrow> wf n \<Longrightarrow> entries m = entries n \<Longrightarrow> m = n"
begin

lemma strict_sorted_keys_ext:
  "sorted_wrt (<) (map fst (xs :: ('k \<times> 'v) list)) \<Longrightarrow> sorted_wrt (<) (map fst ys) \<Longrightarrow>
   set xs = set ys \<Longrightarrow> xs = ys"
proof (induction xs arbitrary: ys)
  case (Cons x xs)
  then obtain y ys' where ys: "ys = y # ys'" by (cases ys) auto
  have "y = x"
  proof (rule ccontr)
    assume "y \<noteq> x"
    with Cons.prems ys have "x \<in> set ys'" "y \<in> set xs" by auto
    with Cons.prems ys have "fst y < fst x" "fst x < fst y" by auto
    then show False by simp
  qed
  moreover have "set xs = set ys'"
  proof -
    have "x \<notin> set xs" using Cons.prems(1) by auto
    moreover have "x \<notin> set ys'" using Cons.prems(2) \<open>y = x\<close> ys by auto
    ultimately show ?thesis using Cons.prems(3) \<open>y = x\<close> ys by auto
  qed
  ultimately show ?case using Cons ys by auto
qed auto

lemma extensional:
  assumes "wf m" "wf n" "\<And>k. lookup m k = lookup n k"
  shows "m = n"
proof (rule entries_inj[OF assms(1,2)])
  have "set (entries m) = set (entries n)"
    using assms entries_lookup by (auto simp: set_eq_iff)
  then show "entries m = entries n"
    using assms(1,2) entries_sorted strict_sorted_keys_ext by blast
qed

lemma wf_fold_update: "wf m \<Longrightarrow> wf (fold (\<lambda>(k, v). update k v) es m)"
  by (induction es arbitrary: m) (auto simp: wf_update)

lemma lookup_fold_update:
  "wf m \<Longrightarrow> distinct (map fst es) \<Longrightarrow>
   lookup (fold (\<lambda>(k, v). update k v) es m) k =
     (case map_of es k of Some v \<Rightarrow> Some v | None \<Rightarrow> lookup m k)"
proof (induction es arbitrary: m)
  case (Cons e es)
  obtain a b where e: "e = (a, b)" by (cases e)
  have "map_of es a = None" using Cons.prems e by (simp add: map_of_eq_None_iff)
  then show ?case
    using Cons e by (auto simp: wf_update lookup_update split: option.splits)
qed simp

text \<open>Inserting the entries of a map, one by one, into an empty map rebuilds the map.\<close>

lemma rebuild:
  assumes "wf m"
  shows "fold (\<lambda>(k, v). update k v) (entries m) empty = m"
proof (rule extensional)
  let ?n = "fold (\<lambda>(k, v). update k v) (entries m) empty"
  show "wf ?n" by (simp add: wf_fold_update wf_empty)
  show "wf m" by fact
  fix k
  have d: "distinct (map fst (entries m))"
    using entries_sorted[OF assms] by (simp add: strict_sorted_iff)
  show "lookup ?n k = lookup m k"
  proof (cases "lookup m k")
    case None
    then have "map_of (entries m) k = None"
      using entries_lookup[OF assms] by (force simp: map_of_eq_None_iff)
    then show ?thesis using None d by (simp add: lookup_fold_update wf_empty lookup_empty)
  next
    case (Some v)
    then have "map_of (entries m) k = Some v"
      using entries_lookup[OF assms] d by simp
    then show ?thesis using Some d by (simp add: lookup_fold_update wf_empty)
  qed
qed

end

locale ordered_set =
  fixes wf :: "'s \<Rightarrow> bool"
    and empty :: 's
    and insert_elem :: "'a::linorder \<Rightarrow> 's \<Rightarrow> 's"
    and elems :: "'s \<Rightarrow> 'a list"
  assumes wf_empty: "wf empty"
    and wf_insert: "wf s \<Longrightarrow> wf (insert_elem x s)"
    and elems_empty: "elems empty = []"
    and elems_insert: "wf s \<Longrightarrow> set (elems (insert_elem x s)) = insert x (set (elems s))"
    and elems_sorted: "wf s \<Longrightarrow> sorted_wrt (<) (elems s)"
    and elems_inj: "wf s \<Longrightarrow> wf t \<Longrightarrow> elems s = elems t \<Longrightarrow> s = t"
begin

lemma wf_fold_insert: "wf s \<Longrightarrow> wf (fold insert_elem xs s)"
  by (induction xs arbitrary: s) (auto simp: wf_insert)

lemma elems_fold_insert:
  "wf s \<Longrightarrow> set (elems (fold insert_elem xs s)) = set xs \<union> set (elems s)"
  by (induction xs arbitrary: s) (auto simp: wf_insert elems_insert)

lemma set_extensional:
  assumes "wf s" "wf t" "set (elems s) = set (elems t)"
  shows "s = t"
  using elems_inj[OF assms(1,2)] elems_sorted[OF assms(1)] elems_sorted[OF assms(2)] assms(3)
  by (simp add: strict_sorted_equal)

lemma collect_elems:
  assumes "wf s"
  shows "fold insert_elem (elems s) empty = s"
  using assms by (intro set_extensional) (auto simp: wf_fold_insert wf_empty elems_fold_insert elems_empty)

end

section \<open>The lists implement the interfaces\<close>

lemma set_bs_insert [simp]: "set (bs_insert x s) = insert x (set s)"
  by (induction s) auto

lemma bs_wf_insert [simp]: "bs_wf s \<Longrightarrow> bs_wf (bs_insert x s)"
  by (induction s) (auto simp: bs_wf_def)

lemma keys_bt_insert [simp]: "map fst (bt_insert k v m) = bs_insert k (map fst m)"
  by (induction m) auto

lemma bt_wf_insert [simp]: "bt_wf m \<Longrightarrow> bt_wf (bt_insert k v m)"
  using bs_wf_insert[of "map fst m" k] by (simp add: bt_wf_def bs_wf_def)

lemma set_bt_remove: "set (bt_remove k m) \<subseteq> set m"
  by (induction m) (auto split: if_splits)

lemma bt_wf_remove [simp]: "bt_wf m \<Longrightarrow> bt_wf (bt_remove k m)"
proof (induction m)
  case (Cons e m)
  then show ?case using set_bt_remove[of k m] by (cases e) (auto simp: bt_wf_def)
qed simp

lemma bt_wf_Nil [simp]: "bt_wf []"
  by (simp add: bt_wf_def)

lemma bt_get_Nil [simp]: "bt_get [] k = None"
  by (simp add: bt_get_def)

lemma bt_get_insert [simp]: "bt_get (bt_insert k v m) k' = (if k' = k then Some v else bt_get m k')"
  by (induction m) (auto simp: bt_get_def)

lemma bt_get_remove:
  "bt_wf m \<Longrightarrow> bt_get (bt_remove k m) k' = (if k' = k then None else bt_get m k')"
proof (induction m)
  case (Cons e m)
  obtain a b where e: "e = (a, b)" by (cases e)
  have "bt_get m a = None" using Cons.prems e
    by (auto simp: bt_get_def bt_wf_def map_of_eq_None_iff)
  then show ?case using Cons e by (auto simp: bt_get_def bt_wf_def)
qed simp

lemma bt_wf_distinct: "bt_wf m \<Longrightarrow> distinct (map fst m)"
  by (simp add: bt_wf_def strict_sorted_iff)

lemma bt_entries: "bt_wf m \<Longrightarrow> (k, v) \<in> set m \<longleftrightarrow> bt_get m k = Some v"
  by (simp add: bt_get_def bt_wf_distinct)

interpretation bt: ordered_map bt_wf "[]" bt_get bt_insert bt_remove id
  by unfold_locales
     (auto simp: bt_get_remove bt_entries, auto simp: bt_wf_def)

lemma bs_wf_Nil [simp]: "bs_wf []"
  by (simp add: bs_wf_def)

interpretation bs: ordered_set bs_wf "[]" bs_insert id
  by unfold_locales (auto, auto simp: bs_wf_def)

lemma bs_wf_extend [simp]: "bs_wf s \<Longrightarrow> bs_wf (bs_extend s xs)"
  by (simp add: bs_extend_def bs.wf_fold_insert)

lemma set_bs_extend [simp]: "bs_wf s \<Longrightarrow> set (bs_extend s xs) = set xs \<union> set s"
  using bs.elems_fold_insert[of s xs] by (simp add: bs_extend_def)

lemma bs_wf_of_list [simp]: "bs_wf (bs_of_list xs)"
  by (simp add: bs_of_list_def)

lemma set_bs_of_list [simp]: "set (bs_of_list xs) = set xs"
  by (simp add: bs_of_list_def)

lemma bs_of_list_id: "bs_wf s \<Longrightarrow> bs_of_list s = s"
  using bs.collect_elems[of s] by (simp add: bs_of_list_def bs_extend_def)

lemma bt_wf_map_values [simp]: "bt_wf (bt_map_values f m) \<longleftrightarrow> bt_wf m"
  by (simp add: bt_wf_def bt_map_values_def case_prod_beta comp_def)

lemma bt_get_map_values [simp]: "bt_get (bt_map_values f m) k = map_option f (bt_get m k)"
  by (induction m) (auto simp: bt_get_def bt_map_values_def)

lemma bt_values_map_values: "bt_values (bt_map_values f m) = map f (bt_values m)"
  by (simp add: bt_values_def bt_map_values_def case_prod_beta comp_def)

lemma set_bt_values: "bt_wf m \<Longrightarrow> v \<in> set (bt_values m) \<longleftrightarrow> (\<exists>k. bt_get m k = Some v)"
  by (force simp: bt_values_def simp flip: bt_entries)

lemma bt_insert_self: "bt_wf m \<Longrightarrow> bt_get m k = Some v \<Longrightarrow> bt_insert k v m = m"
  by (rule bt.extensional) auto

end
