(* ===== verification/Rust_Strings.thy ===== *)
theory Rust_Strings
  imports Ferric_Prelude
begin

text \<open>
  Rust's \<^verbatim>\<open>str\<close> as its UTF-8 bytes: a \<^typ>\<open>string\<close> is the byte sequence,
  \<^const>\<open>length\<close> is \<^verbatim>\<open>str::len\<close>, the order of \<^verbatim>\<open>str\<close> is the
  lexicographic order of the bytes, and a substring search answers byte offsets. Only what
  is defined on characters rather than bytes needs care: \<^verbatim>\<open>char::is_whitespace\<close>
  is Unicode's \<^verbatim>\<open>White_Space\<close>, so \<open>trim\<close> recognises the UTF-8 encodings of
  all its code points.
\<close>

section \<open>Bytes and characters\<close>

definition byte :: "char \<Rightarrow> nat" where
  "byte c = of_char c"

definition in_range :: "nat \<Rightarrow> nat \<Rightarrow> char \<Rightarrow> bool" where
  "in_range lo hi c \<longleftrightarrow> lo \<le> byte c \<and> byte c \<le> hi"

definition is_ascii_digit :: "char \<Rightarrow> bool" where
  "is_ascii_digit c \<longleftrightarrow> in_range 48 57 c"

definition is_ascii_lowercase :: "char \<Rightarrow> bool" where
  "is_ascii_lowercase c \<longleftrightarrow> in_range 97 122 c"

definition is_ascii_uppercase :: "char \<Rightarrow> bool" where
  "is_ascii_uppercase c \<longleftrightarrow> in_range 65 90 c"

definition is_ascii_alphanumeric :: "char \<Rightarrow> bool" where
  "is_ascii_alphanumeric c \<longleftrightarrow>
     is_ascii_digit c \<or> is_ascii_lowercase c \<or> is_ascii_uppercase c"

definition is_ascii_hexdigit :: "char \<Rightarrow> bool" where
  "is_ascii_hexdigit c \<longleftrightarrow> is_ascii_digit c \<or> in_range 97 102 c \<or> in_range 65 70 c"

definition to_ascii_lower :: "char \<Rightarrow> char" where
  "to_ascii_lower c = (if is_ascii_uppercase c then char_of (byte c + 32) else c)"

definition to_ascii_lowercase :: "string \<Rightarrow> string" where
  "to_ascii_lowercase s = map to_ascii_lower s"

section \<open>Whitespace\<close>

definition is_cont :: "char \<Rightarrow> bool" where
  "is_cont c \<longleftrightarrow> in_range 128 191 c"

definition is_ascii_ws :: "char \<Rightarrow> bool" where
  "is_ascii_ws c \<longleftrightarrow> in_range 9 13 c \<or> byte c = 32"

text \<open>The two-byte (U+0085, U+00A0) and three-byte (U+1680, U+2000 to U+200A, U+2028,
  U+2029, U+202F, U+205F, U+3000) white-space code points.\<close>

definition is_ws2 :: "char \<Rightarrow> char \<Rightarrow> bool" where
  "is_ws2 a b \<longleftrightarrow> byte a = 194 \<and> (byte b = 133 \<or> byte b = 160)"

definition is_ws3 :: "char \<Rightarrow> char \<Rightarrow> char \<Rightarrow> bool" where
  "is_ws3 a b c \<longleftrightarrow>
     (byte a = 225 \<and> byte b = 154 \<and> byte c = 128) \<or>
     (byte a = 226 \<and> byte b = 128 \<and>
        (in_range 128 138 c \<or> byte c = 168 \<or> byte c = 169 \<or> byte c = 175)) \<or>
     (byte a = 226 \<and> byte b = 129 \<and> byte c = 159) \<or>
     (byte a = 227 \<and> byte b = 128 \<and> byte c = 128)"

fun trim_start :: "string \<Rightarrow> string" where
  "trim_start [] = []"
| "trim_start (a # s) =
     (if is_ascii_ws a then trim_start s
      else case s of
        [] \<Rightarrow> a # s
      | b # s' \<Rightarrow>
          if is_ws2 a b then trim_start s'
          else case s' of
            [] \<Rightarrow> a # s
          | c # s'' \<Rightarrow> if is_ws3 a b c then trim_start s'' else a # s)"

text \<open>The same from the end, over the reversed bytes.\<close>

fun trim_rev :: "string \<Rightarrow> string" where
  "trim_rev [] = []"
| "trim_rev (c # s) =
     (if is_ascii_ws c then trim_rev s
      else case s of
        [] \<Rightarrow> c # s
      | b # s' \<Rightarrow>
          if is_ws2 b c then trim_rev s'
          else case s' of
            [] \<Rightarrow> c # s
          | a # s'' \<Rightarrow> if is_ws3 a b c then trim_rev s'' else c # s)"

definition trim_end :: "string \<Rightarrow> string" where
  "trim_end s = rev (trim_rev (rev s))"

definition trim :: "string \<Rightarrow> string" where
  "trim s = trim_end (trim_start s)"

section \<open>Searching and splitting\<close>

fun strip_prefix :: "string \<Rightarrow> string \<Rightarrow> string option" where
  "strip_prefix [] s = Some s"
| "strip_prefix (p # ps) [] = None"
| "strip_prefix (p # ps) (c # s) = (if p = c then strip_prefix ps s else None)"

definition starts_with :: "string \<Rightarrow> string \<Rightarrow> bool" where
  "starts_with s p \<longleftrightarrow> strip_prefix p s \<noteq> None"

definition ends_with :: "string \<Rightarrow> string \<Rightarrow> bool" where
  "ends_with s p \<longleftrightarrow> starts_with (rev s) (rev p)"

text \<open>\<^verbatim>\<open>s.find(pat)\<close>: the byte offset of the first occurrence.\<close>

fun find_str :: "string \<Rightarrow> string \<Rightarrow> nat option" where
  "find_str pat [] = (if pat = [] then Some 0 else None)"
| "find_str pat (c # s) =
     (if starts_with (c # s) pat then Some 0 else map_option Suc (find_str pat s))"

definition contains_str :: "string \<Rightarrow> string \<Rightarrow> bool" where
  "contains_str s pat \<longleftrightarrow> find_str pat s \<noteq> None"

text \<open>\<^verbatim>\<open>s.split(sep)\<close> for a separator character; a string without one splits into
  itself, so the result is never empty.\<close>

fun split_char :: "char \<Rightarrow> string \<Rightarrow> string list" where
  "split_char sep [] = [[]]"
| "split_char sep (c # s) =
     (if c = sep then [] # split_char sep s
      else case split_char sep s of
        [] \<Rightarrow> [[c]]
      | part # parts \<Rightarrow> (c # part) # parts)"

text \<open>\<^verbatim>\<open>str::lines\<close>: lines end at a newline, a trailing carriage return is dropped
  and a final empty line is not reported.\<close>

definition strip_cr :: "string \<Rightarrow> string" where
  "strip_cr l = (case rev l of c # r \<Rightarrow> if byte c = 13 then rev r else l | [] \<Rightarrow> l)"

definition str_lines :: "string \<Rightarrow> string list" where
  "str_lines s =
     (let parts = split_char (CHR 0x0A) s;
          terminated = butlast parts;
          tail = last parts
      in map strip_cr terminated @ (if tail = [] then [] else [tail]))"

text \<open>\<^verbatim>\<open>s.trim_matches(c)\<close> and \<^verbatim>\<open>parts.join(sep)\<close>.\<close>

definition trim_char :: "char \<Rightarrow> string \<Rightarrow> string" where
  "trim_char c s = rev (dropWhile ((=) c) (rev (dropWhile ((=) c) s)))"

fun join :: "string \<Rightarrow> string list \<Rightarrow> string" where
  "join sep [] = []"
| "join sep [s] = s"
| "join sep (s # t # ss) = s @ sep @ join sep (t # ss)"

text \<open>Decimal rendering of an unsigned integer, as \<^verbatim>\<open>Display\<close> prints it.\<close>

fun show_nat :: "nat \<Rightarrow> string" where
  "show_nat n =
     (if n < 10 then [char_of (48 + n)] else show_nat (n div 10) @ [char_of (48 + n mod 10)])"

declare show_nat.simps [simp del]

section \<open>Lemmas\<close>

lemma byte_char_of [simp]: "n < 256 \<Longrightarrow> byte (char_of n) = n"
  by (simp add: byte_def)

lemma byte_less [simp]: "byte c < 256"
  using of_char_of[of "byte c"] by (metis byte_def char_of_char of_char_of mod_less_divisor zero_less_numeral)

lemma byte_inject [simp]: "byte c = byte d \<longleftrightarrow> c = d"
  by (simp add: byte_def)

lemma byte_to_ascii_lower:
  "byte (to_ascii_lower c) = (if is_ascii_uppercase c then byte c + 32 else byte c)"
  by (simp add: to_ascii_lower_def is_ascii_uppercase_def in_range_def)

lemma to_ascii_lower_idem [simp]: "to_ascii_lower (to_ascii_lower c) = to_ascii_lower c"
  by (auto simp: to_ascii_lower_def is_ascii_uppercase_def in_range_def)

lemma to_ascii_lowercase_idem [simp]:
  "to_ascii_lowercase (to_ascii_lowercase s) = to_ascii_lowercase s"
  by (simp add: to_ascii_lowercase_def)

lemma length_to_ascii_lowercase [simp]: "length (to_ascii_lowercase s) = length s"
  by (simp add: to_ascii_lowercase_def)

lemma strip_prefix_Some: "strip_prefix p s = Some r \<longleftrightarrow> s = p @ r"
  by (induction p s rule: strip_prefix.induct) auto

lemma starts_with_iff: "starts_with s p \<longleftrightarrow> (\<exists>r. s = p @ r)"
  using strip_prefix_Some[of p s] by (auto simp: starts_with_def)

lemma ends_with_iff: "ends_with s p \<longleftrightarrow> (\<exists>r. s = r @ p)"
proof -
  have "(\<exists>r. rev s = rev p @ r) \<longleftrightarrow> (\<exists>r. s = r @ p)"
    by (metis rev_append rev_rev_ident)
  then show ?thesis by (simp add: ends_with_def starts_with_iff)
qed

lemma find_str_Some: "find_str pat s = Some i \<Longrightarrow> \<exists>r. s = take i s @ pat @ r \<and> i \<le> length s"
proof (induction pat s arbitrary: i rule: find_str.induct)
  case (2 pat c s)
  show ?case
  proof (cases "starts_with (c # s) pat")
    case True
    then show ?thesis using 2 by (auto simp: starts_with_iff)
  next
    case False
    with "2.prems" obtain j where j: "find_str pat s = Some j" "i = Suc j" by auto
    from 2(1)[OF False j(1)] obtain r where "s = take j s @ pat @ r" "j \<le> length s" by blast
    with j show ?thesis by (intro exI[of _ r]) auto
  qed
qed (auto split: if_splits)

lemma find_str_None: "find_str pat s = None \<longleftrightarrow> (\<nexists>a b. s = a @ pat @ b)"
proof (induction pat s rule: find_str.induct)
  case (2 pat c s)
  have "(\<exists>a b. c # s = a @ pat @ b) \<longleftrightarrow>
        starts_with (c # s) pat \<or> (\<exists>a b. s = a @ pat @ b)"
    unfolding starts_with_iff by (metis append_Cons append_Nil list.exhaust list.inject)
  then show ?case using 2 by auto
qed auto

lemma find_str_leftmost: "find_str pat s = Some i \<Longrightarrow> s = a @ pat @ b \<Longrightarrow> i \<le> length a"
proof (induction pat s arbitrary: i a rule: find_str.induct)
  case (2 pat c s)
  show ?case
  proof (cases "starts_with (c # s) pat")
    case False
    then obtain a' where a: "a = c # a'" "s = a' @ pat @ b"
      using "2.prems"(2) by (cases a) (auto simp: starts_with_iff)
    then show ?thesis using 2(1)[OF False _ a(2)] "2.prems"(1) False by auto
  next
    case True
    then show ?thesis using "2.prems"(1) by simp
  qed
qed (auto split: if_splits)

lemma contains_str_iff: "contains_str s pat \<longleftrightarrow> (\<exists>a b. s = a @ pat @ b)"
  using find_str_None[of pat s] by (auto simp: contains_str_def)

lemma split_char_not_Nil [simp]: "split_char sep s \<noteq> []"
  by (cases s) (auto split: list.splits)

lemma join_split_char: "join [sep] (split_char sep s) = s"
proof (induction s)
  case (Cons c s)
  obtain p ps where ps: "split_char sep s = p # ps" by (cases "split_char sep s") auto
  with Cons show ?case by (cases ps) auto
qed simp

lemma split_char_no_sep: "p \<in> set (split_char sep s) \<Longrightarrow> sep \<notin> set p"
proof (induction s arbitrary: p)
  case (Cons c s)
  then show ?case by (auto split: if_splits list.splits)
qed simp

lemma split_char_single: "sep \<notin> set s \<Longrightarrow> split_char sep s = [s]"
  by (induction s) auto

lemma split_char_append:
  "sep \<notin> set a \<Longrightarrow> split_char sep (a @ sep # b) = a # split_char sep b"
  by (induction a) auto

lemma split_join:
  "ns \<noteq> [] \<Longrightarrow> \<forall>n \<in> set ns. sep \<notin> set n \<Longrightarrow> split_char sep (join [sep] ns) = ns"
proof (induction "[sep]" ns rule: join.induct)
  case (2 n)
  then show ?case by (simp add: split_char_single)
next
  case (3 n m ns)
  then show ?case using split_char_append[of sep n "join [sep] (m # ns)"] by simp
qed simp

lemma show_nat_not_Nil [simp]: "show_nat n \<noteq> []"
  by (subst show_nat.simps) simp

lemma show_nat_digits: "c \<in> set (show_nat n) \<Longrightarrow> is_ascii_digit c"
proof (induction n rule: show_nat.induct)
  case (1 n)
  then show ?case using show_nat.simps[of n]
    by (cases "n < 10") (auto simp: is_ascii_digit_def in_range_def)
qed

lemma trim_start_id: "s \<noteq> [] \<Longrightarrow> byte (hd s) < 128 \<Longrightarrow> \<not> is_ascii_ws (hd s) \<Longrightarrow> trim_start s = s"
  by (cases s) (auto simp: is_ws2_def is_ws3_def split: list.splits)

lemma trim_rev_id: "s \<noteq> [] \<Longrightarrow> byte (hd s) < 128 \<Longrightarrow> \<not> is_ascii_ws (hd s) \<Longrightarrow> trim_rev s = s"
  by (cases s) (auto simp: is_ws2_def is_ws3_def in_range_def split: list.splits)

lemma trim_newline:
  assumes "s \<noteq> []" "byte (hd s) < 128" "\<not> is_ascii_ws (hd s)" "byte (last s) < 128" "\<not> is_ascii_ws (last s)"
  shows "trim (s @ [CHR 0x0A]) = s"
proof -
  have "trim_start (s @ [CHR 0x0A]) = s @ [CHR 0x0A]"
    using assms by (intro trim_start_id) auto
  moreover have "trim_rev (rev (s @ [CHR 0x0A])) = trim_rev (rev s)"
    by (simp add: is_ascii_ws_def in_range_def byte_def)
  moreover have "trim_rev (rev s) = rev s" using assms by (intro trim_rev_id) (auto simp: hd_rev)
  ultimately show ?thesis by (simp add: trim_def trim_end_def)
qed

definition plain_char :: "char \<Rightarrow> bool" where
  "plain_char c \<longleftrightarrow> byte c < 128 \<and> \<not> is_ascii_ws c"

lemma trim_plain: "s \<noteq> [] \<Longrightarrow> plain_char (hd s) \<Longrightarrow> plain_char (last s) \<Longrightarrow> trim s = s"
  using trim_start_id[of s] trim_rev_id[of "rev s"] by (simp add: plain_char_def trim_def trim_end_def hd_rev)

lemma trim_space [simp]: "trim (CHR 0x20 # s) = trim s"
  by (simp add: trim_def is_ascii_ws_def in_range_def byte_def)

lemma trim_trailing_space [simp]: "s \<noteq> [] \<Longrightarrow> plain_char (hd s) \<Longrightarrow> plain_char (last s) \<Longrightarrow> trim (s @ [CHR 0x20]) = s"
proof -
  assume a: "s \<noteq> []" "plain_char (hd s)" "plain_char (last s)"
  then have "trim_start (s @ [CHR 0x20]) = s @ [CHR 0x20]" by (intro trim_start_id) (auto simp: plain_char_def)
  moreover have "trim_rev (rev (s @ [CHR 0x20])) = trim_rev (rev s)" by (simp add: is_ascii_ws_def in_range_def byte_def)
  ultimately show ?thesis using a trim_rev_id[of "rev s"] by (simp add: trim_def trim_end_def plain_char_def hd_rev)
qed

text \<open>The lines of a text whose lines all end in a newline.\<close>

definition unlines :: "string list \<Rightarrow> string" where
  "unlines ls = concat (map (\<lambda>l. l @ [CHR 0x0A]) ls)"

lemma split_unlines: "\<forall>l \<in> set ls. CHR 0x0A \<notin> set l \<Longrightarrow> split_char (CHR 0x0A) (unlines ls) = ls @ [[]]"
  by (induction ls) (simp_all add: unlines_def split_char_append)

lemma strip_cr_id: "CHR 0x0D \<notin> set l \<Longrightarrow> strip_cr l = l"
proof (cases l rule: rev_cases)
  case (snoc ys y)
  assume "CHR 0x0D \<notin> set l"
  then have "byte y \<noteq> 13" using snoc byte_inject[of y "CHR 0x0D"] by (auto simp: byte_def)
  then show ?thesis using snoc by (simp add: strip_cr_def)
qed (simp add: strip_cr_def)

lemma str_lines_unlines:
  assumes "\<forall>l \<in> set ls. CHR 0x0A \<notin> set l \<and> CHR 0x0D \<notin> set l"
  shows "str_lines (unlines ls) = ls"
  using assms split_unlines[of ls] by (simp add: str_lines_def Let_def strip_cr_id map_idI)

end
