(* ===== verification/Harness_Policy.thy ===== *)
theory Harness_Policy
  imports Rust_Strings
begin

text \<open>
  \<^verbatim>\<open>ferric-core/src/harness.rs\<close>: which autonomous-controller behaviour a run uses,
  and its stable wire label.
\<close>

datatype harness_policy = Legacy | Evidence | EvidencePlanner

definition default_harness_policy :: harness_policy where
  "default_harness_policy = Legacy"

fun harness_label :: "harness_policy \<Rightarrow> string" where
  "harness_label Legacy = ''legacy''"
| "harness_label Evidence = ''evidence''"
| "harness_label EvidencePlanner = ''evidence_planner''"

text \<open>\<^verbatim>\<open>FromStr\<close>; the error carries the rejected value.\<close>

definition harness_from_str :: "string \<Rightarrow> string + harness_policy" where
  "harness_from_str value =
     (if value = ''legacy'' then Inr Legacy
      else if value = ''evidence'' then Inr Evidence
      else if value = ''evidence_planner'' then Inr EvidencePlanner
      else Inl value)"

lemma harness_from_str_label: "harness_from_str (harness_label p) = Inr p"
  by (cases p) (simp_all add: harness_from_str_def)

lemma harness_label_from_str: "harness_from_str s = Inr p \<Longrightarrow> harness_label p = s"
  by (auto simp: harness_from_str_def split: if_splits)

end
