(* ===== verification/Controller_Records.thy ===== *)
theory Controller_Records
  imports Rust_Collections Harness_Policy
begin

text \<open>
  The typed records of the evidence controller, \<^verbatim>\<open>ferric-trace/src/event.rs\<close>:
  observations, refusals and their witnesses, measured workspace effects, named checks, the
  file-evidence ledger and the durable checkpoint. Counters are natural numbers; where the
  source relies on their width the operation writes the bound out.
\<close>

definition CONTROLLER_RECORD_VERSION :: nat where "CONTROLLER_RECORD_VERSION = 1"
definition CONTROLLER_CHECKPOINT_VERSION :: nat where "CONTROLLER_CHECKPOINT_VERSION = 1"
definition RECOVERY_PACKET_VERSION :: nat where "RECOVERY_PACKET_VERSION = 1"

text \<open>One inclusive, one-indexed range of lines shown to the model.\<close>

record line_range =
  lr_start :: nat
  lr_end :: nat

record requested_range =
  rr_start :: "nat option"
  rr_end :: "nat option"

record file_observation =
  fo_path :: string
  fo_sha256 :: string
  fo_total_bytes :: nat
  fo_total_lines :: nat
  fo_requested_range :: "requested_range option"
  fo_returned_range :: "line_range option"
  fo_complete :: bool
  fo_model_truncated :: bool

record navigation_observation =
  nav_root :: string
  nav_literal :: string
  nav_match_count :: nat
  nav_max_results :: nat
  nav_exhausted :: bool
  nav_result_sha256 :: string

datatype observation_detail =
    ObsFile file_observation
  | ObsSearch navigation_observation
  | ObsFind navigation_observation

record observation =
  obs_version :: nat
  obs_detail :: observation_detail

datatype block_reason =
    BlindMutation | SameTurnObservation | StaleObservation | UnsupportedMutation
  | RepairInspectionRequired | NoEffect | SyntaxRegression | RepeatedCheck

datatype path_identity = Absent | FileId string nat | Directory | OtherId

record prepared_path_state =
  pps_path :: string
  pps_before :: path_identity
  pps_candidate :: path_identity

datatype unsupported_kind = OpaqueMutation | UnsupportedOperation

datatype syntax_state = SynAbsent | SynValid | SynInvalid | SynUnchecked

datatype block_witness =
    WStaleObservation path_identity path_identity
  | WNoEffect "prepared_path_state list"
  | WSyntaxRegression syntax_state syntax_state string
  | WUnsupportedMutation unsupported_kind

record controller_block =
  cb_version :: nat
  cb_reason :: block_reason
  cb_mutation_epoch :: nat
  cb_paths :: "string list"
  cb_check_name :: "string option"
  cb_witness :: "block_witness option"

datatype path_effect_kind =
    Created | Modified | Deleted | CreatedDirectory | DeletedDirectory | Opaque

record path_effect =
  pe_path :: string
  pe_kind :: path_effect_kind
  pe_before_sha256 :: "string option"
  pe_after_sha256 :: "string option"
  pe_after_bytes :: "nat option"
  pe_after_lines :: "nat option"

record workspace_effect =
  we_version :: nat
  we_mutation_epoch :: nat
  we_effects :: "path_effect list"

datatype verification_outcome = Passed | Failed

record verification_check =
  vc_version :: nat
  vc_name :: string
  vc_mutation_epoch :: nat
  vc_attempt :: nat
  vc_outcome :: verification_outcome
  vc_diagnostic_sha256 :: "string option"

datatype evidence_origin = ModelRead | AuthoredMutation

text \<open>One entry of the file-evidence ledger.\<close>

record file_evidence =
  fe_path :: string
  fe_sha256 :: string
  fe_total_bytes :: nat
  fe_total_lines :: nat
  fe_covered_ranges :: "line_range list"
  fe_complete :: bool
  fe_fresh :: bool
  fe_observed_turn :: nat
  fe_origin :: evidence_origin

record check_execution =
  ce_turn :: nat
  ce_name :: string
  ce_mutation_epoch :: nat
  ce_attempt :: nat
  ce_outcome :: verification_outcome
  ce_diagnostic_sha256 :: "string option"

record failed_check =
  fc_turn :: nat
  fc_name :: string
  fc_mutation_epoch :: nat
  fc_attempt :: nat
  fc_diagnostic_sha256 :: string

record controller_checkpoint =
  cp_version :: nat
  cp_harness_policy :: harness_policy
  cp_mutation_epoch :: nat
  cp_required_checks :: "string list"
  cp_passed_checks :: "(string, nat) btree_map"
  cp_file_evidence :: "file_evidence list"
  cp_check_executions :: "check_execution list"
  cp_last_failed_check :: "failed_check option"
  cp_changed_paths :: "string list"
  cp_repair_paths :: "string list"
  cp_repair_observation_after_turn :: "nat option"
  cp_inherited_pause_reason :: "string option"

record recovery_packet =
  rp_version :: nat
  rp_pause_reason :: string
  rp_mutation_epoch :: nat
  rp_required_checks :: "string list"
  rp_passed_checks :: "(string, nat) btree_map"
  rp_last_failed_check :: "failed_check option"
  rp_changed_paths :: "string list"
  rp_reread_paths :: "string list"

end
