(* ===== verification/Rust_Paths.thy ===== *)
theory Rust_Paths
  imports Rust_Strings
begin

text \<open>
  \<^verbatim>\<open>std::path\<close> on Unix. A path is the sequence of components that
  \<^verbatim>\<open>Path::components\<close> yields (Rust compares paths by it): repeated separators and
  a trailing one disappear, \<^verbatim>\<open>.\<close> is kept only at the very start of a relative
  path, \<^verbatim>\<open>..\<close> is kept as \<^verbatim>\<open>ParentDir\<close>. A path prefix exists on Windows
  only and is not part of the model.
\<close>

datatype component = RootDir | CurDir | ParentDir | Normal string

type_synonym path = "component list"

definition part_component :: "string \<Rightarrow> path" where
  "part_component s =
     (if s = '''' \<or> s = ''.'' then [] else if s = ''..'' then [ParentDir] else [Normal s])"

definition components :: "string \<Rightarrow> path" where
  "components s =
     (case split_char (CHR ''/'') s of
        [] \<Rightarrow> []
      | p # ps \<Rightarrow>
          (if starts_with s ''/'' then [RootDir]
           else if p = ''.'' then [CurDir]
           else part_component p) @ concat (map part_component ps))"

definition is_absolute :: "path \<Rightarrow> bool" where
  "is_absolute p = (case p of RootDir # _ \<Rightarrow> True | _ \<Rightarrow> False)"

fun normal_name :: "component \<Rightarrow> string option" where
  "normal_name (Normal n) = Some n"
| "normal_name _ = None"

definition is_normal :: "component \<Rightarrow> bool" where
  "is_normal c \<longleftrightarrow> normal_name c \<noteq> None"

text \<open>The names of the \<^verbatim>\<open>Normal\<close> components, in order.\<close>

fun normal_names :: "path \<Rightarrow> string list" where
  "normal_names [] = []"
| "normal_names (c # p) =
     (case normal_name c of Some n \<Rightarrow> n # normal_names p | None \<Rightarrow> normal_names p)"

definition file_name :: "path \<Rightarrow> string option" where
  "file_name p = (if p = [] then None else normal_name (last p))"

definition parent :: "path \<Rightarrow> path option" where
  "parent p = (if p = [] \<or> last p = RootDir then None else Some (butlast p))"

text \<open>\<^verbatim>\<open>base.join(tail)\<close> for a relative \<open>tail\<close>: its leading \<^verbatim>\<open>.\<close> is no
  longer at the start of the path.\<close>

definition join_path :: "path \<Rightarrow> path \<Rightarrow> path" where
  "join_path base tail =
     (if is_absolute tail then tail
      else if base = [] then tail
      else base @ filter (\<lambda>c. c \<noteq> CurDir) tail)"

text \<open>\<^verbatim>\<open>path.strip_prefix(base)\<close>, component-wise.\<close>

fun strip_path_prefix :: "path \<Rightarrow> path \<Rightarrow> path option" where
  "strip_path_prefix [] p = Some p"
| "strip_path_prefix (b # bs) (c # cs) = (if b = c then strip_path_prefix bs cs else None)"
| "strip_path_prefix _ _ = None"

section \<open>Lemmas\<close>

lemma strip_path_prefix_Some: "strip_path_prefix b p = Some r \<longleftrightarrow> p = b @ r"
  by (induction b p rule: strip_path_prefix.induct) auto

lemma is_normal_simps [simp]:
  "is_normal (Normal n)" "\<not> is_normal RootDir" "\<not> is_normal CurDir" "\<not> is_normal ParentDir"
  by (simp_all add: is_normal_def)

lemma is_normal_iff: "is_normal c \<longleftrightarrow> (\<exists>n. c = Normal n)"
  by (cases c) auto

lemma normal_name_Some [simp]: "normal_name c = Some n \<longleftrightarrow> c = Normal n"
  by (cases c) auto

lemma normal_names_in: "n \<in> set (normal_names p) \<longleftrightarrow> Normal n \<in> set p"
  by (induction p) (auto split: option.splits)

lemma normal_names_append [simp]: "normal_names (p @ q) = normal_names p @ normal_names q"
  by (induction p) (auto split: option.splits)

lemma all_normal_map: "(\<forall>c \<in> set p. is_normal c) \<Longrightarrow> map Normal (normal_names p) = p"
  by (induction p) (auto simp: is_normal_iff)

end
