(* ===== verification/Controller_Validate.thy ===== *)
theory Controller_Validate
  imports Controller_Records Rust_Paths "HOL-Library.Product_Lexorder"
begin

text \<open>
  The validators and line-range arithmetic of \<^verbatim>\<open>ferric-loop/src/controller.rs\<close>
  (from \<^verbatim>\<open>validate_workspace_effect_shape\<close> to the end of the module). The source's
  \<^verbatim>\<open>ControllerError\<close> carries a formatted message; here every message is a
  constructor with the data the message interpolates. The main results are that
  \<open>merge_ranges\<close> keeps exactly the lines it is given in canonical form, and that
  \<open>ranges_cover_file\<close> decides coverage of the whole file.
\<close>

section \<open>Errors\<close>

datatype value_error =
    NotSortedUnique string
  | InvalidWorkspacePath string
  | InvalidLineRange string nat nat
  | RequestedNeitherBound
  | InvalidRequestedRange
  | InvalidCheckName string
  | InvalidPauseReason
  | NotSha256 string

datatype observation_error =
    UnsupportedObservationVersion nat
  | ObservationImpossibleDimensions
  | ReturnedOutsideRequested
  | EmptyFileReturnedRange
  | ObservationCompletenessDisagrees
  | NavigationEmptyOrZero
  | NavigationCountDisagrees
  | EvidenceImpossibleDimensions
  | EvidenceCoverageUnsorted string
  | EvidenceCompletenessDisagrees string

datatype effect_error =
    UnsupportedEffectVersion nat
  | EffectEmpty
  | EpochOverflow
  | EffectEpochMismatch nat nat
  | EffectRepeatsPath string
  | EffectUnpairedPostimage string
  | EffectDimensionsWithoutDigest string
  | EffectImpossibleDimensions string
  | CreatedIdentities string
  | ModifiedIdentities string
  | DeletedIdentities string
  | DirectoryDigest string
  | OpaqueEffect string
  | EffectViolatesAdmission block_reason
  | EffectOmitsBytes string
  | EffectOmitsLines string

datatype check_error =
    DuplicateRequiredCheck
  | UnsupportedCheckRecordVersion nat
  | CheckEpochMismatch string nat nat
  | CheckBlocked string block_reason
  | CheckAttemptMismatch string nat nat
  | PassWithDiagnostic
  | FailWithoutDiagnostic
  | ExecutionInvalidCoordinate string nat nat
  | ExecutionPassWithDiagnostic
  | ExecutionFailWithoutDiagnostic
  | FailedCheckInvalidCoordinate

datatype block_error =
    UnsupportedBlockVersion nat
  | BlockEpochMismatch nat nat
  | LedgerBlockShape block_reason
  | BlindContradictsEvidence
  | SameTurnNoEvidence
  | SameTurnContradictsLedger
  | StaleShape
  | StaleNoWitness
  | StaleIdenticalIdentities
  | StaleNoEvidence
  | StaleLedgerMismatch
  | StaleAbsentContradicts
  | StalePreconditionsEqual
  | UnsupportedNoWitness
  | UnsupportedConfiguredCheck
  | UnsupportedCheckHasPaths

datatype repair_error =
    RepairUnrelatedData
  | RepairNoFailure
  | RepairOmitsPaths
  | RepairNotOnePath
  | RepairContradictsLedger
  | NoEffectNamesCheck
  | NoEffectNoWitness
  | NoEffectEmptyWitness
  | NoEffectPathsMismatch
  | NoEffectDifferentCandidate
  | SyntaxShape
  | SyntaxNoWitness
  | SyntaxNotRegression
  | RepeatedCarriesData
  | RepeatedNoName
  | RepeatedNotExecuted

datatype checkpoint_error =
    UnsupportedCheckpointVersion nat
  | CheckpointLegacyPolicy
  | CheckpointRepeatsEvidence string
  | CheckpointNotCausal
  | CheckpointUnknownCheck string
  | CheckpointRepeatsCheck string nat
  | CheckpointAttemptOverflow string
  | CheckpointAttemptMismatch string nat nat
  | CheckpointPassesMismatch
  | CheckpointFailureMismatch
  | CheckpointRepairNotChanged
  | CheckpointRepairNoFailure
  | CheckpointBarrierNoFailure
  | CheckpointBarrierNotLater
  | CheckpointNotCanonical
  | UnsupportedPacketVersion nat

text \<open>\<open>Panicked\<close> stands for \<^verbatim>\<open>unreachable!\<close> and \<^verbatim>\<open>expect\<close>; the
  development proves that no operation reaches it.\<close>

datatype controller_error =
    ValueError value_error
  | ObservationError observation_error
  | EffectError effect_error
  | CheckError check_error
  | BlockError block_error
  | RepairError repair_error
  | CheckpointError checkpoint_error
  | LegacyPolicyError
  | PlannerUnimplemented
  | Panicked

section \<open>Scalar validators\<close>

definition is_evidence_policy :: "harness_policy \<Rightarrow> bool" where
  "is_evidence_policy p \<longleftrightarrow> p = Evidence"

definition is_sha256 :: "string \<Rightarrow> bool" where
  "is_sha256 d \<longleftrightarrow> length d = 64 \<and> list_all (\<lambda>c. is_ascii_digit c \<or> in_range 97 102 c) d"

definition validate_sha256 :: "string \<Rightarrow> string \<Rightarrow> controller_error check" where
  "validate_sha256 digest label = require (is_sha256 digest) (ValueError (NotSha256 label))"

definition validate_reason :: "string \<Rightarrow> controller_error check" where
  "validate_reason reason =
     require (\<not> (trim reason = [] \<or> list_ex (\<lambda>c. byte c = 13 \<or> byte c = 10) reason))
       (ValueError InvalidPauseReason)"

definition is_check_name_byte :: "char \<Rightarrow> bool" where
  "is_check_name_byte c \<longleftrightarrow>
     is_ascii_alphanumeric c \<or> c = CHR ''_'' \<or> c = CHR ''-'' \<or> c = CHR ''.''"

definition validate_check_name :: "string \<Rightarrow> controller_error check" where
  "validate_check_name name =
     require (\<not> (name = [] \<or> \<not> list_all is_check_name_byte name))
       (ValueError (InvalidCheckName name))"

definition validate_workspace_path :: "string \<Rightarrow> controller_error check" where
  "validate_workspace_path p =
     require (\<not> (p = [] \<or> CHR 0x5C \<in> set p \<or> is_absolute (components p)
                \<or> list_ex (\<lambda>c. \<not> is_normal c) (components p)))
       (ValueError (InvalidWorkspacePath p))"

definition validate_range :: "line_range \<Rightarrow> nat option \<Rightarrow> string \<Rightarrow> controller_error check" where
  "validate_range r total_lines label =
     require (\<not> (lr_start r = 0 \<or> lr_end r < lr_start r
                \<or> (case total_lines of None \<Rightarrow> False | Some n \<Rightarrow> n < lr_end r)))
       (ValueError (InvalidLineRange label (lr_start r) (lr_end r)))"

definition validate_requested_range :: "requested_range \<Rightarrow> controller_error check" where
  "validate_requested_range r = checks [
     require (\<not> (rr_start r = None \<and> rr_end r = None)) (ValueError RequestedNeitherBound),
     require (\<not> (rr_start r = Some 0 \<or> rr_end r = Some 0
               \<or> (case (rr_start r, rr_end r) of (Some s, Some e) \<Rightarrow> e < s | _ \<Rightarrow> False)))
       (ValueError InvalidRequestedRange)]"

definition validate_sorted_paths :: "string \<Rightarrow> string list \<Rightarrow> controller_error check" where
  "validate_sorted_paths label paths = checks [
     check_all validate_workspace_path paths,
     require (\<not> windows2_any (\<lambda>x y. y \<le> x) paths) (ValueError (NotSortedUnique label))]"

definition validate_sorted_unique_names :: "string \<Rightarrow> string list \<Rightarrow> controller_error check" where
  "validate_sorted_unique_names label names = checks [
     check_all validate_check_name names,
     require (\<not> windows2_any (\<lambda>x y. y \<le> x) names) (ValueError (NotSortedUnique label))]"

definition validate_path_set ::
  "string \<Rightarrow> string list \<Rightarrow> controller_error + string btree_set" where
  "validate_path_set label paths =
     and_then (validate_sorted_paths label paths) (\<lambda>_. Inr (bs_of_list paths))"

definition validate_prepared_path_identity :: "path_identity \<Rightarrow> controller_error check" where
  "validate_prepared_path_identity i =
     (case i of FileId sha _ \<Rightarrow> validate_sha256 sha ''prepared file identity'' | _ \<Rightarrow> ok)"

section \<open>Line ranges\<close>

text \<open>The merging loop runs over the sorted ranges with the last merged range in hand.\<close>

fun merge_into :: "line_range \<Rightarrow> line_range list \<Rightarrow> line_range list" where
  "merge_into prev [] = [prev]"
| "merge_into prev (r # rs) =
     (if lr_start r \<le> saturating_add u64_max (lr_end prev) 1
      then merge_into (prev\<lparr>lr_end := max (lr_end prev) (lr_end r)\<rparr>) rs
      else prev # merge_into r rs)"

definition merge_ranges :: "line_range list \<Rightarrow> line_range list" where
  "merge_ranges ranges =
     (case sort_key (\<lambda>r. (lr_start r, lr_end r)) ranges of
        [] \<Rightarrow> []
      | r # rs \<Rightarrow> merge_into r rs)"

definition ranges_cover_file :: "nat \<Rightarrow> line_range list \<Rightarrow> bool" where
  "ranges_cover_file total_lines ranges \<longleftrightarrow>
     total_lines = 0 \<or>
     (case ranges of [r] \<Rightarrow> lr_start r = 1 \<and> lr_end r = total_lines | _ \<Rightarrow> False)"

definition full_coverage :: "nat \<Rightarrow> line_range list" where
  "full_coverage total_lines =
     (if total_lines = 0 then [] else [\<lparr>lr_start = 1, lr_end = total_lines\<rparr>])"

section \<open>Record validators\<close>

definition validate_file_observation :: "file_observation \<Rightarrow> controller_error check" where
  "validate_file_observation ob = checks [
     validate_workspace_path (fo_path ob),
     validate_sha256 (fo_sha256 ob) ''file observation'',
     require (\<not> ((fo_total_bytes ob = 0) \<noteq> (fo_total_lines ob = 0)))
       (ObservationError ObservationImpossibleDimensions),
     (case fo_requested_range ob of None \<Rightarrow> ok | Some r \<Rightarrow> validate_requested_range r),
     (case fo_returned_range ob of
        None \<Rightarrow> ok
      | Some returned \<Rightarrow> checks [
          validate_range returned (Some (fo_total_lines ob)) ''returned'',
          (case fo_requested_range ob of
             None \<Rightarrow> ok
           | Some requested \<Rightarrow>
               require (\<not> ((case rr_start requested of None \<Rightarrow> False | Some s \<Rightarrow> lr_start returned < s)
                         \<or> (case rr_end requested of None \<Rightarrow> False | Some e \<Rightarrow> e < lr_end returned)))
                 (ObservationError ReturnedOutsideRequested))]),
     require (\<not> (fo_total_lines ob = 0 \<and> fo_returned_range ob \<noteq> None))
       (ObservationError EmptyFileReturnedRange),
     (let call_was_complete =
            (\<not> fo_model_truncated ob \<and>
             (if fo_total_lines ob = 0 then fo_returned_range ob = None
              else (case fo_returned_range ob of
                      None \<Rightarrow> False
                    | Some r \<Rightarrow> lr_start r = 1 \<and> lr_end r = fo_total_lines ob)))
      in require (\<not> (fo_complete ob \<noteq> call_was_complete))
           (ObservationError ObservationCompletenessDisagrees))]"

definition validate_navigation_observation ::
  "navigation_observation \<Rightarrow> controller_error check" where
  "validate_navigation_observation ob = checks [
     (if nav_root ob \<noteq> ''.'' then validate_workspace_path (nav_root ob) else ok),
     require (\<not> (nav_literal ob = [] \<or> nav_max_results ob = 0))
       (ObservationError NavigationEmptyOrZero),
     require (\<not> (nav_max_results ob < nav_match_count ob
               \<or> (\<not> nav_exhausted ob \<and> nav_match_count ob \<noteq> nav_max_results ob)))
       (ObservationError NavigationCountDisagrees),
     validate_sha256 (nav_result_sha256 ob) ''navigation result'']"

definition validate_file_evidence :: "file_evidence \<Rightarrow> controller_error check" where
  "validate_file_evidence e = checks [
     validate_workspace_path (fe_path e),
     validate_sha256 (fe_sha256 e) ''file evidence'',
     require (\<not> ((fe_total_bytes e = 0) \<noteq> (fe_total_lines e = 0)))
       (ObservationError EvidenceImpossibleDimensions),
     require (\<not> (merge_ranges (fe_covered_ranges e) \<noteq> fe_covered_ranges e))
       (ObservationError (EvidenceCoverageUnsorted (fe_path e))),
     check_all (\<lambda>r. validate_range r (Some (fe_total_lines e)) ''evidence'') (fe_covered_ranges e),
     require (\<not> (fe_complete e \<noteq> ranges_cover_file (fe_total_lines e) (fe_covered_ranges e)))
       (ObservationError (EvidenceCompletenessDisagrees (fe_path e)))]"

definition validate_check_execution :: "check_execution \<Rightarrow> nat \<Rightarrow> controller_error check" where
  "validate_check_execution x current_epoch = checks [
     validate_check_name (ce_name x),
     require (\<not> (current_epoch < ce_mutation_epoch x \<or> ce_attempt x = 0))
       (CheckError (ExecutionInvalidCoordinate (ce_name x) (ce_mutation_epoch x) (ce_attempt x))),
     (case ce_outcome x of
        Passed \<Rightarrow> require (ce_diagnostic_sha256 x = None) (CheckError ExecutionPassWithDiagnostic)
      | Failed \<Rightarrow>
          (case ce_diagnostic_sha256 x of
             None \<Rightarrow> Inl (CheckError ExecutionFailWithoutDiagnostic)
           | Some d \<Rightarrow> validate_sha256 d ''check execution diagnostic''))]"

definition validate_failed_check :: "failed_check \<Rightarrow> nat \<Rightarrow> controller_error check" where
  "validate_failed_check f current_epoch = checks [
     validate_check_name (fc_name f),
     require (\<not> (current_epoch < fc_mutation_epoch f \<or> fc_attempt f = 0))
       (CheckError FailedCheckInvalidCoordinate),
     validate_sha256 (fc_diagnostic_sha256 f) ''last failed diagnostic'']"

definition validate_recovery_packet_shape :: "recovery_packet \<Rightarrow> controller_error check" where
  "validate_recovery_packet_shape p = checks [
     require (rp_version p = RECOVERY_PACKET_VERSION)
       (CheckpointError (UnsupportedPacketVersion (rp_version p))),
     validate_reason (rp_pause_reason p),
     validate_sorted_unique_names ''required checks'' (rp_required_checks p),
     validate_sorted_paths ''changed paths'' (rp_changed_paths p),
     validate_sorted_paths ''reread paths'' (rp_reread_paths p),
     (case rp_last_failed_check p of
        None \<Rightarrow> ok
      | Some f \<Rightarrow> validate_failed_check f (rp_mutation_epoch p))]"

text \<open>One path of a measured effect, with the paths seen before it in the same effect.\<close>

definition validate_path_effect :: "path_effect \<Rightarrow> string btree_set \<Rightarrow> controller_error check" where
  "validate_path_effect e seen = checks [
     validate_workspace_path (pe_path e),
     require (\<not> bs_contains seen (pe_path e)) (EffectError (EffectRepeatsPath (pe_path e))),
     (case pe_before_sha256 e of None \<Rightarrow> ok | Some d \<Rightarrow> validate_sha256 d ''effect preimage''),
     (case pe_after_sha256 e of None \<Rightarrow> ok | Some d \<Rightarrow> validate_sha256 d ''effect postimage''),
     (case pe_after_sha256 e of
        Some _ \<Rightarrow> require (\<not> (pe_after_bytes e = None \<or> pe_after_lines e = None))
                   (EffectError (EffectUnpairedPostimage (pe_path e)))
      | None \<Rightarrow> require (\<not> (pe_after_bytes e \<noteq> None \<or> pe_after_lines e \<noteq> None))
                  (EffectError (EffectDimensionsWithoutDigest (pe_path e)))),
     (case (pe_after_bytes e, pe_after_lines e) of
        (Some bytes, Some lines) \<Rightarrow>
          require (\<not> ((bytes = 0) \<noteq> (lines = 0)))
            (EffectError (EffectImpossibleDimensions (pe_path e)))
      | _ \<Rightarrow> ok),
     (case pe_kind e of
        Created \<Rightarrow> require (\<not> (pe_before_sha256 e \<noteq> None \<or> pe_after_sha256 e = None))
                     (EffectError (CreatedIdentities (pe_path e)))
      | Modified \<Rightarrow> require (\<not> (pe_before_sha256 e = None \<or> pe_after_sha256 e = None
                                \<or> pe_before_sha256 e = pe_after_sha256 e))
                     (EffectError (ModifiedIdentities (pe_path e)))
      | Deleted \<Rightarrow> require (\<not> (pe_before_sha256 e = None \<or> pe_after_sha256 e \<noteq> None))
                     (EffectError (DeletedIdentities (pe_path e)))
      | CreatedDirectory \<Rightarrow> require (\<not> (pe_before_sha256 e \<noteq> None \<or> pe_after_sha256 e \<noteq> None))
                     (EffectError (DirectoryDigest (pe_path e)))
      | DeletedDirectory \<Rightarrow> require (\<not> (pe_before_sha256 e \<noteq> None \<or> pe_after_sha256 e \<noteq> None))
                     (EffectError (DirectoryDigest (pe_path e)))
      | Opaque \<Rightarrow> Inl (EffectError (OpaqueEffect (pe_path e))))]"

fun validate_path_effects :: "path_effect list \<Rightarrow> string btree_set \<Rightarrow> controller_error check" where
  "validate_path_effects [] seen = ok"
| "validate_path_effects (e # es) seen =
     and_then (validate_path_effect e seen)
       (\<lambda>_. validate_path_effects es (bs_insert (pe_path e) seen))"

definition validate_workspace_effect_shape ::
  "workspace_effect \<Rightarrow> nat \<Rightarrow> controller_error check" where
  "validate_workspace_effect_shape eff current_epoch = checks [
     require (we_version eff = CONTROLLER_RECORD_VERSION)
       (EffectError (UnsupportedEffectVersion (we_version eff))),
     require (we_effects eff \<noteq> []) (EffectError EffectEmpty),
     (case checked_add u64_max current_epoch 1 of
        None \<Rightarrow> Inl (EffectError EpochOverflow)
      | Some expected_epoch \<Rightarrow>
          require (we_mutation_epoch eff = expected_epoch)
            (EffectError (EffectEpochMismatch current_epoch (we_mutation_epoch eff)))),
     validate_path_effects (we_effects eff) []]"

section \<open>Facts about the scalar validators\<close>

lemma validate_sha256_ok [result_simps]: "validate_sha256 d l = Inr u \<longleftrightarrow> is_sha256 d"
  by (simp add: validate_sha256_def result_simps)

lemma validate_range_ok [result_simps]:
  "validate_range r (Some n) l = Inr u \<longleftrightarrow>
     1 \<le> lr_start r \<and> lr_start r \<le> lr_end r \<and> lr_end r \<le> n"
  by (auto simp: validate_range_def result_simps)

lemma validate_sorted_paths_ok [result_simps]:
  "validate_sorted_paths l ps = Inr u \<longleftrightarrow>
     (\<forall>p \<in> set ps. validate_workspace_path p = ok) \<and> bs_wf ps"
  by (simp add: validate_sorted_paths_def result_simps windows2_any_ge_iff bs_wf_def del: checks.simps)

lemma validate_sorted_unique_names_ok [result_simps]:
  "validate_sorted_unique_names l ns = Inr u \<longleftrightarrow>
     (\<forall>n \<in> set ns. validate_check_name n = ok) \<and> bs_wf ns"
  by (simp add: validate_sorted_unique_names_def result_simps windows2_any_ge_iff bs_wf_def del: checks.simps)

lemma validate_path_set_ok [result_simps]:
  "validate_path_set l ps = Inr s \<longleftrightarrow>
     (\<forall>p \<in> set ps. validate_workspace_path p = ok) \<and> bs_wf ps \<and> s = ps"
  by (auto simp: validate_path_set_def result_simps bs_of_list_id)

section \<open>Line coverage\<close>

text \<open>The lines a list of ranges names, and the well-formed ranges the ledger stores.\<close>

definition lines_of :: "line_range list \<Rightarrow> nat set" where
  "lines_of rs = (\<Union>r \<in> set rs. {lr_start r..lr_end r})"

definition valid_ranges :: "nat \<Rightarrow> line_range list \<Rightarrow> bool" where
  "valid_ranges n rs \<longleftrightarrow>
     (\<forall>r \<in> set rs. 1 \<le> lr_start r \<and> lr_start r \<le> lr_end r \<and> lr_end r \<le> n)"

text \<open>Canonical coverage: sorted, disjoint and not even adjacent.\<close>

definition separated :: "line_range list \<Rightarrow> bool" where
  "separated rs \<longleftrightarrow> sorted_wrt (\<lambda>r q. lr_end r + 1 < lr_start q) rs"

lemma lines_of_Nil [simp]: "lines_of [] = {}"
  by (simp add: lines_of_def)

lemma lines_of_Cons [simp]: "lines_of (r # rs) = {lr_start r..lr_end r} \<union> lines_of rs"
  by (simp add: lines_of_def)

lemma lines_of_set_cong: "set rs = set qs \<Longrightarrow> lines_of rs = lines_of qs"
  by (simp add: lines_of_def)

lemma saturating_add_le:
  "e \<le> u64_max \<Longrightarrow> s \<le> u64_max \<Longrightarrow> s \<le> saturating_add u64_max e 1 \<longleftrightarrow> s \<le> e + 1"
  by (auto simp: saturating_add_def)


lemma valid_ranges_simps [simp]:
  "valid_ranges n []"
  "valid_ranges n (r # rs) \<longleftrightarrow>
     (1 \<le> lr_start r \<and> lr_start r \<le> lr_end r \<and> lr_end r \<le> n) \<and> valid_ranges n rs"
  by (auto simp: valid_ranges_def)

lemma merge_into_start: "lr_start (hd (merge_into p rs)) = lr_start p"
  by (induction p rs rule: merge_into.induct) auto

lemma merge_into_not_Nil [simp]: "merge_into p rs \<noteq> []"
  by (induction p rs rule: merge_into.induct) auto

lemma merge_into_lines:
  assumes "n \<le> u64_max" "valid_ranges n (p # rs)" "sorted (map lr_start (p # rs))"
  shows "lines_of (merge_into p rs) = lines_of (p # rs)"
  using assms
proof (induction p rs rule: merge_into.induct)
  case (2 p r rs)
  have sat: "lr_start r \<le> saturating_add u64_max (lr_end p) 1 \<longleftrightarrow> lr_start r \<le> lr_end p + 1"
    using 2 by (intro saturating_add_le) auto
  show ?case
  proof (cases "lr_start r \<le> lr_end p + 1")
    case True
    let ?q = "p\<lparr>lr_end := max (lr_end p) (lr_end r)\<rparr>"
    have "lines_of (merge_into ?q rs) = lines_of (?q # rs)"
      using 2 True sat by (intro "2.IH") auto
    moreover have "{lr_start p..max (lr_end p) (lr_end r)} =
        {lr_start p..lr_end p} \<union> {lr_start r..lr_end r}"
      using True 2 by auto
    ultimately show ?thesis using True sat by auto
  next
    case False
    then show ?thesis using 2 sat by auto
  qed
qed simp

lemma merge_into_valid:
  assumes "valid_ranges n (p # rs)"
  shows "valid_ranges n (merge_into p rs)"
  using assms by (induction p rs rule: merge_into.induct) (auto simp: max_def)

lemma merge_into_separated:
  assumes "n \<le> u64_max" "valid_ranges n (p # rs)" "sorted (map lr_start (p # rs))"
  shows "separated (merge_into p rs) \<and> (\<forall>q \<in> set (merge_into p rs). lr_start p \<le> lr_start q)"
  using assms
proof (induction p rs rule: merge_into.induct)
  case (2 p r rs)
  have sat: "lr_start r \<le> saturating_add u64_max (lr_end p) 1 \<longleftrightarrow> lr_start r \<le> lr_end p + 1"
    using 2 by (intro saturating_add_le) auto
  show ?case
  proof (cases "lr_start r \<le> lr_end p + 1")
    case True
    let ?q = "p\<lparr>lr_end := max (lr_end p) (lr_end r)\<rparr>"
    have "separated (merge_into ?q rs) \<and> (\<forall>q \<in> set (merge_into ?q rs). lr_start ?q \<le> lr_start q)"
      using 2 True sat by (intro "2.IH") auto
    then show ?thesis using True sat by simp
  next
    case False
    then have IH: "separated (merge_into r rs)" "\<forall>q \<in> set (merge_into r rs). lr_start r \<le> lr_start q"
      using 2 sat by auto
    then have "\<forall>q \<in> set (merge_into r rs). lr_end p + 1 < lr_start q"
      using False by force
    then show ?thesis using IH False sat "2.prems" by (fastforce simp: separated_def)
  qed
qed (simp add: separated_def)

lemma sorted_map_lex_fst:
  assumes "sorted (map (\<lambda>r. (lr_start r, lr_end r)) rs)"
  shows "sorted (map lr_start rs)"
  using assms by (induction rs) (auto simp: less_eq_prod_def)

lemma valid_ranges_set_cong: "set rs = set qs \<Longrightarrow> valid_ranges n rs = valid_ranges n qs"
  by (simp add: valid_ranges_def)

lemma merge_ranges_facts:
  assumes "n \<le> u64_max" "valid_ranges n rs"
  shows merge_ranges_lines: "lines_of (merge_ranges rs) = lines_of rs"
    and merge_ranges_valid: "valid_ranges n (merge_ranges rs)"
    and merge_ranges_separated: "separated (merge_ranges rs)"
proof -
  let ?k = "\<lambda>r. (lr_start r, lr_end r)"
  have *: "lines_of (merge_ranges rs) = lines_of rs \<and> valid_ranges n (merge_ranges rs)
           \<and> separated (merge_ranges rs)"
  proof (cases "sort_key ?k rs")
    case Nil
    then have "rs = []" by (metis length_0_conv length_sort)
    then show ?thesis by (simp add: merge_ranges_def separated_def)
  next
    case (Cons p qs)
    have set: "set (p # qs) = set rs" by (metis Cons set_sort)
    have v: "valid_ranges n (p # qs)" using assms(2) valid_ranges_set_cong[OF set] by blast
    have s: "sorted (map lr_start (p # qs))"
      using sorted_sort_key[of ?k rs] by (auto simp: Cons intro!: sorted_map_lex_fst)
    show ?thesis
      using merge_into_lines[OF assms(1) v s] merge_into_valid[OF v]
        merge_into_separated[OF assms(1) v s] lines_of_set_cong[OF set]
      by (simp add: merge_ranges_def Cons)
  qed
  then show "lines_of (merge_ranges rs) = lines_of rs" "valid_ranges n (merge_ranges rs)"
    "separated (merge_ranges rs)" by blast+
qed

lemma separated_sorted_key:
  assumes "valid_ranges n rs" "separated rs"
  shows "sorted (map (\<lambda>r. (lr_start r, lr_end r)) rs)"
  using assms
proof (induction rs)
  case (Cons r rs)
  have "lr_start r < lr_start q" if "q \<in> set rs" for q
    using Cons.prems that by (force simp: separated_def valid_ranges_def)
  then show ?case using Cons by (auto simp: less_eq_prod_def separated_def)
qed simp

lemma merge_into_separated_id:
  assumes "n \<le> u64_max" "valid_ranges n (p # rs)" "separated (p # rs)"
  shows "merge_into p rs = p # rs"
  using assms
proof (induction p rs rule: merge_into.induct)
  case (2 p r rs)
  have "\<not> lr_start r \<le> saturating_add u64_max (lr_end p) 1"
    using 2 saturating_add_le[of "lr_end p" "lr_start r"] by (auto simp: separated_def)
  then show ?case using 2 by (simp add: separated_def)
qed simp

text \<open>A list of valid ranges is canonical exactly when merging leaves it as it is.\<close>

lemma merge_ranges_id_iff:
  assumes "n \<le> u64_max" "valid_ranges n rs"
  shows "merge_ranges rs = rs \<longleftrightarrow> separated rs"
proof
  assume sep: "separated rs"
  have srt: "sort_key (\<lambda>r. (lr_start r, lr_end r)) rs = rs"
    by (rule sort_key_id_if_sorted[OF separated_sorted_key[OF assms(2) sep]])
  show "merge_ranges rs = rs"
  proof (cases rs)
    case (Cons p qs)
    then show ?thesis
      using srt merge_into_separated_id[OF assms(1), of p qs] assms(2) sep
      by (simp add: merge_ranges_def)
  qed (simp add: merge_ranges_def)
qed (metis merge_ranges_separated[OF assms])

lemma separated_cover:
  assumes "valid_ranges n rs" "separated rs" "{1..n} \<subseteq> lines_of rs" "0 < n"
  shows "rs = [\<lparr>lr_start = 1, lr_end = n\<rparr>]"
proof (cases rs)
  case Nil
  then show ?thesis using assms by auto
next
  case (Cons r qs)
  have gap: "\<forall>q \<in> set qs. lr_end r + 1 < lr_start q"
    using assms(2) Cons by (simp add: separated_def)
  have start: "lr_start r = 1"
  proof -
    have "1 \<in> lines_of rs" using assms(3,4) by auto
    then obtain q where "q \<in> set rs" "lr_start q \<le> 1" by (auto simp: lines_of_def)
    then show ?thesis using assms(1) Cons gap by (auto simp: valid_ranges_def)
  qed
  have "lr_end r = n"
  proof (rule ccontr)
    assume "lr_end r \<noteq> n"
    then have "lr_end r + 1 \<in> {1..n}" using assms(1) Cons by auto
    then have "lr_end r + 1 \<in> lines_of rs" by (rule subsetD[OF assms(3)])
    then obtain q where "q \<in> set qs" "lr_start q \<le> lr_end r + 1"
      using Cons by (auto simp: lines_of_def)
    then show False using gap by auto
  qed
  moreover have "qs = []"
    using gap assms(1) Cons \<open>lr_end r = n\<close> by (cases qs) auto
  ultimately show ?thesis using Cons start by simp
qed

end
