(* ===== verification/Evidence_Controller.thy ===== *)
theory Evidence_Controller
  imports Controller_Validate
begin

text \<open>
  The state of the evidence controller and its transitions,
  \<^verbatim>\<open>ferric-loop/src/controller.rs\<close>. Methods on \<^verbatim>\<open>&mut self\<close> return
  the state after the call beside their result, so that what a failing call leaves behind is
  part of the model. Membership in the sorted check list (\<^verbatim>\<open>binary_search\<close>) is
  \<open>bs_contains\<close>. The JSON string printer of serde_json is the parameter
  \<open>to_json\<close> of the rendering functions.
\<close>

section \<open>State\<close>

record mutation_requirement =
  mr_path :: string
  mr_current :: path_identity

definition mr_existing :: "string \<Rightarrow> string \<Rightarrow> nat \<Rightarrow> mutation_requirement" where
  "mr_existing path sha bytes = \<lparr>mr_path = path, mr_current = FileId sha bytes\<rparr>"

definition mr_absent :: "string \<Rightarrow> mutation_requirement" where
  "mr_absent path = \<lparr>mr_path = path, mr_current = Absent\<rparr>"

record controller_state =
  policy :: harness_policy
  file_evidence_map :: "(string, file_evidence) btree_map"
  mutation_epoch :: nat
  required_checks :: "string list"
  passed_checks :: "(string, nat) btree_map"
  executed_checks :: "(string \<times> nat) btree_set"
  attempts :: "(string, nat) btree_map"
  check_executions :: "check_execution list"
  last_failed_check :: "failed_check option"
  changed_paths :: "string btree_set"
  repair_paths :: "string btree_set"
  repair_observation_after_turn :: "nat option"
  inherited_pause_reason :: "string option"

definition pristine :: "harness_policy \<Rightarrow> string list \<Rightarrow> controller_state" where
  "pristine pol names =
     \<lparr>policy = pol, file_evidence_map = [], mutation_epoch = 0, required_checks = names,
      passed_checks = [], executed_checks = [], attempts = [], check_executions = [],
      last_failed_check = None, changed_paths = [], repair_paths = [],
      repair_observation_after_turn = None, inherited_pause_reason = None\<rparr>"

definition controller_new ::
  "harness_policy \<Rightarrow> string list \<Rightarrow> controller_error + controller_state" where
  "controller_new pol names =
     and_then (check_all validate_check_name names) (\<lambda>_.
       if windows2_any (=) (sort names) then Inl (CheckError DuplicateRequiredCheck)
       else Inr (pristine pol (sort names)))"

section \<open>Accessors\<close>

definition evidence_for :: "controller_state \<Rightarrow> string \<Rightarrow> file_evidence option" where
  "evidence_for s path = bt_get (file_evidence_map s) path"

definition check_was_executed :: "controller_state \<Rightarrow> string \<Rightarrow> nat \<Rightarrow> bool" where
  "check_was_executed s name epoch = bs_contains (executed_checks s) (name, epoch)"

definition attempts_for :: "controller_state \<Rightarrow> string \<Rightarrow> nat" where
  "attempts_for s name = (case bt_get (attempts s) name of None \<Rightarrow> 0 | Some n \<Rightarrow> n)"

definition ensure_evidence_policy :: "controller_state \<Rightarrow> controller_error check" where
  "ensure_evidence_policy s =
     (case policy s of
        Evidence \<Rightarrow> ok
      | Legacy \<Rightarrow> Inl LegacyPolicyError
      | EvidencePlanner \<Rightarrow> Inl PlannerUnimplemented)"

definition mk_block ::
  "controller_state \<Rightarrow> block_reason \<Rightarrow> string list \<Rightarrow> string option \<Rightarrow>
   block_witness option \<Rightarrow> controller_block" where
  "mk_block s reason paths check_name wit =
     \<lparr>cb_version = CONTROLLER_RECORD_VERSION, cb_reason = reason,
      cb_mutation_epoch = mutation_epoch s, cb_paths = paths, cb_check_name = check_name,
      cb_witness = wit\<rparr>"

definition unsupported_block :: "controller_state \<Rightarrow> string list \<Rightarrow> string option \<Rightarrow> controller_block" where
  "unsupported_block s paths check_name =
     mk_block s UnsupportedMutation paths check_name (Some (WUnsupportedMutation UnsupportedOperation))"

section \<open>Observations\<close>

definition later_than_failure :: "controller_state \<Rightarrow> nat \<Rightarrow> bool" where
  "later_than_failure s turn =
     (case last_failed_check s of None \<Rightarrow> False | Some f \<Rightarrow> fc_turn f < turn)"

definition raise_barrier :: "nat \<Rightarrow> controller_state \<Rightarrow> controller_state" where
  "raise_barrier turn s = s\<lparr>repair_observation_after_turn :=
     Some (case repair_observation_after_turn s of None \<Rightarrow> turn | Some prior \<Rightarrow> max prior turn)\<rparr>"

definition record_repair_observation_barrier :: "nat \<Rightarrow> controller_state \<Rightarrow> controller_state" where
  "record_repair_observation_barrier turn s =
     (if later_than_failure s turn then raise_barrier turn s else s)"

definition starts_repair_reread :: "controller_state \<Rightarrow> nat \<Rightarrow> string \<Rightarrow> bool" where
  "starts_repair_reread s turn path =
     (case last_failed_check s of
        None \<Rightarrow> False
      | Some failure \<Rightarrow>
          fc_turn failure < turn \<and> bs_contains (repair_paths s) path \<and>
          (case evidence_for s path of
             None \<Rightarrow> False
           | Some ev \<Rightarrow> fe_origin ev \<noteq> ModelRead \<or> fe_observed_turn ev \<le> fc_turn failure))"

definition same_identity :: "file_evidence \<Rightarrow> file_observation \<Rightarrow> bool" where
  "same_identity ev ob \<longleftrightarrow>
     fe_sha256 ev = fo_sha256 ob \<and> fe_total_bytes ev = fo_total_bytes ob \<and>
     fe_total_lines ev = fo_total_lines ob"

definition new_evidence :: "nat \<Rightarrow> file_observation \<Rightarrow> file_evidence" where
  "new_evidence turn ob =
     \<lparr>fe_path = fo_path ob, fe_sha256 = fo_sha256 ob, fe_total_bytes = fo_total_bytes ob,
      fe_total_lines = fo_total_lines ob, fe_covered_ranges = [], fe_complete = False,
      fe_fresh = True, fe_observed_turn = turn, fe_origin = ModelRead\<rparr>"

text \<open>The entry a page extends: the existing one when the file identity agrees and no repair
  reread starts, a new one otherwise.\<close>

definition base_evidence :: "controller_state \<Rightarrow> nat \<Rightarrow> file_observation \<Rightarrow> file_evidence" where
  "base_evidence s turn ob =
     (case evidence_for s (fo_path ob) of
        None \<Rightarrow> new_evidence turn ob
      | Some ev \<Rightarrow>
          if \<not> starts_repair_reread s turn (fo_path ob) \<and> same_identity ev ob
          then ev else new_evidence turn ob)"

definition extend_evidence :: "nat \<Rightarrow> file_observation \<Rightarrow> file_evidence \<Rightarrow> file_evidence" where
  "extend_evidence turn ob ev =
     (let was_complete = fe_complete ev;
          covered = (if fo_model_truncated ob then fe_covered_ranges ev
                     else (case fo_returned_range ob of
                             None \<Rightarrow> fe_covered_ranges ev
                           | Some returned \<Rightarrow> merge_ranges (fe_covered_ranges ev @ [returned])));
          complete = ranges_cover_file (fo_total_lines ob) covered
      in ev\<lparr>fe_fresh := True, fe_origin := ModelRead, fe_covered_ranges := covered,
            fe_complete := complete,
            fe_observed_turn := (if fo_complete ob \<or> (\<not> was_complete \<and> complete)
                                 then turn else fe_observed_turn ev)\<rparr>)"

definition apply_file_observation ::
  "nat \<Rightarrow> file_observation \<Rightarrow> controller_state \<Rightarrow> controller_state \<times> controller_error check" where
  "apply_file_observation turn ob s =
     (case validate_file_observation ob of
        Inl e \<Rightarrow> (s, Inl e)
      | Inr _ \<Rightarrow>
          let path = fo_path ob;
              evidence = extend_evidence turn ob (base_evidence s turn ob);
              s1 = s\<lparr>file_evidence_map := bt_insert path evidence (file_evidence_map s)\<rparr>;
              s2 = record_repair_observation_barrier turn s1;
              s3 = (if bs_contains (repair_paths s2) path \<and> later_than_failure s2 turn
                       \<and> (case evidence_for s2 path of
                            None \<Rightarrow> False | Some ev \<Rightarrow> fe_complete ev \<and> fe_fresh ev)
                    then raise_barrier turn s2 else s2)
          in (s3, ok))"

definition apply_observation ::
  "nat \<Rightarrow> observation \<Rightarrow> controller_state \<Rightarrow> controller_state \<times> controller_error check" where
  "apply_observation turn obs s =
     (case checks [
        ensure_evidence_policy s,
        require (obs_version obs = CONTROLLER_RECORD_VERSION)
          (ObservationError (UnsupportedObservationVersion (obs_version obs)))] of
        Inl e \<Rightarrow> (s, Inl e)
      | Inr _ \<Rightarrow>
          (case obs_detail obs of
             ObsFile ob \<Rightarrow> apply_file_observation turn ob s
           | ObsSearch nav \<Rightarrow>
               (case validate_navigation_observation nav of
                  Inl e \<Rightarrow> (s, Inl e)
                | Inr _ \<Rightarrow> (record_repair_observation_barrier turn s, ok))
           | ObsFind nav \<Rightarrow>
               (case validate_navigation_observation nav of
                  Inl e \<Rightarrow> (s, Inl e)
                | Inr _ \<Rightarrow> (record_repair_observation_barrier turn s, ok))))"

section \<open>Mutation admission\<close>

definition unsupported_identity :: "path_identity \<Rightarrow> bool" where
  "unsupported_identity i =
     (case i of Absent \<Rightarrow> False | Directory \<Rightarrow> False | FileId sha _ \<Rightarrow> \<not> is_sha256 sha | OtherId \<Rightarrow> True)"

text \<open>The first loop: \<open>Inl\<close> is the refused path, \<open>Inr\<close> the set of paths seen.\<close>

fun scan_requirements ::
  "mutation_requirement list \<Rightarrow> string btree_set \<Rightarrow> string + string btree_set" where
  "scan_requirements [] seen = Inr seen"
| "scan_requirements (r # rs) seen =
     (if validate_workspace_path (mr_path r) \<noteq> ok \<or> bs_contains seen (mr_path r)
         \<or> unsupported_identity (mr_current r)
      then Inl (mr_path r)
      else scan_requirements rs (bs_insert (mr_path r) seen))"

definition barrier_satisfied :: "controller_state \<Rightarrow> failed_check \<Rightarrow> nat \<Rightarrow> bool" where
  "barrier_satisfied s failure turn =
     (case repair_observation_after_turn s of
        None \<Rightarrow> False
      | Some barrier \<Rightarrow> fc_turn failure < barrier \<and> barrier < turn)"

definition inspected_after_failure :: "controller_state \<Rightarrow> file_evidence \<Rightarrow> nat \<Rightarrow> bool" where
  "inspected_after_failure s ev turn =
     (case last_failed_check s of
        None \<Rightarrow> False
      | Some failure \<Rightarrow>
          fe_origin ev = ModelRead \<and> fc_turn failure < fe_observed_turn ev
          \<and> fe_observed_turn ev < turn)"

text \<open>The body of the second loop for one requirement.\<close>

definition requirement_block ::
  "controller_state \<Rightarrow> nat \<Rightarrow> mutation_requirement \<Rightarrow> controller_error + controller_block option" where
  "requirement_block s turn r =
     (case mr_current r of
        Absent \<Rightarrow> Inr None
      | Directory \<Rightarrow> Inr None
      | OtherId \<Rightarrow> Inl Panicked
      | FileId sha bytes \<Rightarrow>
          (case evidence_for s (mr_path r) of
             None \<Rightarrow> Inr (Some (mk_block s BlindMutation [mr_path r] None None))
           | Some ev \<Rightarrow>
               if \<not> fe_complete ev
               then Inr (Some (mk_block s BlindMutation [mr_path r] None None))
               else if \<not> fe_fresh ev \<or> fe_sha256 ev \<noteq> sha \<or> fe_total_bytes ev \<noteq> bytes
               then Inr (Some (mk_block s StaleObservation [mr_path r] None
                      (Some (WStaleObservation (FileId (fe_sha256 ev) (fe_total_bytes ev))
                              (mr_current r)))))
               else if turn \<le> fe_observed_turn ev
               then Inr (Some (mk_block s SameTurnObservation [mr_path r] None None))
               else if bs_contains (repair_paths s) (mr_path r) \<and> \<not> inspected_after_failure s ev turn
               then Inr (Some (mk_block s RepairInspectionRequired [mr_path r] None None))
               else Inr None))"

fun requirements_block ::
  "controller_state \<Rightarrow> nat \<Rightarrow> mutation_requirement list \<Rightarrow> controller_error + controller_block option" where
  "requirements_block s turn [] = Inr None"
| "requirements_block s turn (r # rs) =
     (case requirement_block s turn r of
        Inl e \<Rightarrow> Inl e
      | Inr (Some b) \<Rightarrow> Inr (Some b)
      | Inr None \<Rightarrow> requirements_block s turn rs)"

definition mutation_block ::
  "controller_state \<Rightarrow> nat \<Rightarrow> mutation_requirement list \<Rightarrow> controller_error + controller_block option" where
  "mutation_block s turn reqs =
     (if \<not> is_evidence_policy (policy s) then Inr (Some (unsupported_block s [] None))
      else (case scan_requirements reqs [] of
              Inl p \<Rightarrow> Inr (Some (unsupported_block s [p] None))
            | Inr seen \<Rightarrow>
                if seen = [] then Inr (Some (unsupported_block s [] None))
                else (case last_failed_check s of
                        None \<Rightarrow> requirements_block s turn reqs
                      | Some failure \<Rightarrow>
                          if \<not> barrier_satisfied s failure turn
                          then Inr (Some (mk_block s RepairInspectionRequired seen None None))
                          else requirements_block s turn reqs)))"

definition stale_precondition_block ::
  "controller_state \<Rightarrow> string \<Rightarrow> path_identity \<Rightarrow> path_identity \<Rightarrow> controller_error + controller_block" where
  "stale_precondition_block s path expected current =
     and_then (checks [
       validate_workspace_path path,
       validate_prepared_path_identity expected,
       validate_prepared_path_identity current,
       require (expected \<noteq> current) (BlockError StalePreconditionsEqual)])
     (\<lambda>_. Inr (mk_block s StaleObservation [path] None (Some (WStaleObservation expected current))))"

section \<open>Validation of recorded refusals\<close>

definition require_ledger_block_shape :: "controller_block \<Rightarrow> nat \<Rightarrow> controller_error check" where
  "require_ledger_block_shape b path_count =
     require (\<not> (length (cb_paths b) \<noteq> path_count \<or> cb_check_name b \<noteq> None \<or> cb_witness b \<noteq> None))
       (BlockError (LedgerBlockShape (cb_reason b)))"

definition validate_blind_block :: "controller_state \<Rightarrow> controller_block \<Rightarrow> controller_error check" where
  "validate_blind_block s b = checks [
     require_ledger_block_shape b 1,
     require (\<not> (case evidence_for s (hd (cb_paths b)) of None \<Rightarrow> False | Some ev \<Rightarrow> fe_complete ev))
       (BlockError BlindContradictsEvidence)]"

definition validate_same_turn_block ::
  "controller_state \<Rightarrow> nat \<Rightarrow> controller_block \<Rightarrow> controller_error check" where
  "validate_same_turn_block s turn b = checks [
     require_ledger_block_shape b 1,
     (case evidence_for s (hd (cb_paths b)) of
        None \<Rightarrow> Inl (BlockError SameTurnNoEvidence)
      | Some ev \<Rightarrow>
          require (\<not> (\<not> fe_complete ev \<or> \<not> fe_fresh ev \<or> fe_observed_turn ev \<noteq> turn))
            (BlockError SameTurnContradictsLedger))]"

definition validate_stale_witness ::
  "controller_state \<Rightarrow> string \<Rightarrow> path_identity \<Rightarrow> path_identity \<Rightarrow> controller_error check" where
  "validate_stale_witness s path expected current = checks [
     validate_prepared_path_identity expected,
     validate_prepared_path_identity current,
     require (expected \<noteq> current) (BlockError StaleIdenticalIdentities),
     (case expected of
        FileId sha bytes \<Rightarrow>
          (case evidence_for s path of
             None \<Rightarrow> Inl (BlockError StaleNoEvidence)
           | Some ev \<Rightarrow>
               require (\<not> (\<not> fe_complete ev \<or> fe_sha256 ev \<noteq> sha \<or> fe_total_bytes ev \<noteq> bytes))
                 (BlockError StaleLedgerMismatch))
      | Absent \<Rightarrow> require (evidence_for s path = None) (BlockError StaleAbsentContradicts)
      | Directory \<Rightarrow> ok
      | OtherId \<Rightarrow> ok)]"

definition validate_stale_block :: "controller_state \<Rightarrow> controller_block \<Rightarrow> controller_error check" where
  "validate_stale_block s b = checks [
     require (\<not> (length (cb_paths b) \<noteq> 1 \<or> cb_check_name b \<noteq> None)) (BlockError StaleShape),
     (case cb_witness b of
        Some (WStaleObservation expected current) \<Rightarrow>
          validate_stale_witness s (hd (cb_paths b)) expected current
      | _ \<Rightarrow> Inl (BlockError StaleNoWitness))]"

definition validate_unsupported_block ::
  "controller_state \<Rightarrow> controller_block \<Rightarrow> controller_error check" where
  "validate_unsupported_block s b = checks [
     (case cb_witness b of
        Some (WUnsupportedMutation _) \<Rightarrow> ok
      | _ \<Rightarrow> Inl (BlockError UnsupportedNoWitness)),
     (case cb_check_name b of
        None \<Rightarrow> ok
      | Some name \<Rightarrow> checks [
          validate_check_name name,
          require (\<not> (bs_contains (required_checks s) name \<and> attempts_for s name \<noteq> u32_max))
            (BlockError UnsupportedConfiguredCheck),
          require (cb_paths b = []) (BlockError UnsupportedCheckHasPaths)])]"

definition validate_repair_block ::
  "controller_state \<Rightarrow> nat \<Rightarrow> controller_block \<Rightarrow> controller_error check" where
  "validate_repair_block s turn b = checks [
     require (\<not> (cb_check_name b \<noteq> None \<or> cb_witness b \<noteq> None)) (RepairError RepairUnrelatedData),
     (case last_failed_check s of
        None \<Rightarrow> Inl (RepairError RepairNoFailure)
      | Some failure \<Rightarrow>
          if \<not> barrier_satisfied s failure turn
          then require (cb_paths b \<noteq> []) (RepairError RepairOmitsPaths)
          else checks [
            require (length (cb_paths b) = 1) (RepairError RepairNotOnePath),
            (let path = hd (cb_paths b);
                 still_blocked = (bs_contains (repair_paths s) path \<and>
                   \<not> (case evidence_for s path of
                        None \<Rightarrow> False
                      | Some ev \<Rightarrow> fe_complete ev \<and> fe_fresh ev \<and> fe_origin ev = ModelRead
                          \<and> fc_turn failure < fe_observed_turn ev \<and> fe_observed_turn ev < turn))
             in require still_blocked (RepairError RepairContradictsLedger))])]"

definition validate_no_effect_state :: "prepared_path_state \<Rightarrow> controller_error check" where
  "validate_no_effect_state st = checks [
     validate_workspace_path (pps_path st),
     validate_prepared_path_identity (pps_before st),
     validate_prepared_path_identity (pps_candidate st),
     require (pps_before st = pps_candidate st) (RepairError NoEffectDifferentCandidate)]"

definition validate_no_effect_block :: "controller_block \<Rightarrow> controller_error check" where
  "validate_no_effect_block b = checks [
     require (cb_check_name b = None) (RepairError NoEffectNamesCheck),
     (case cb_witness b of
        Some (WNoEffect states) \<Rightarrow> checks [
          require (states \<noteq> []) (RepairError NoEffectEmptyWitness),
          require (map pps_path states = cb_paths b) (RepairError NoEffectPathsMismatch),
          check_all validate_no_effect_state states]
      | _ \<Rightarrow> Inl (RepairError NoEffectNoWitness))]"

definition validate_syntax_block :: "controller_block \<Rightarrow> controller_error check" where
  "validate_syntax_block b = checks [
     require (\<not> (length (cb_paths b) \<noteq> 1 \<or> cb_check_name b \<noteq> None)) (RepairError SyntaxShape),
     (case cb_witness b of
        Some (WSyntaxRegression before candidate digest) \<Rightarrow> checks [
          require (\<not> (\<not> (before = SynAbsent \<or> before = SynValid) \<or> candidate \<noteq> SynInvalid))
            (RepairError SyntaxNotRegression),
          validate_sha256 digest ''syntax diagnostic'']
      | _ \<Rightarrow> Inl (RepairError SyntaxNoWitness))]"

definition validate_repeated_block ::
  "controller_state \<Rightarrow> controller_block \<Rightarrow> controller_error check" where
  "validate_repeated_block s b = checks [
     require (\<not> (cb_paths b \<noteq> [] \<or> cb_witness b \<noteq> None)) (RepairError RepeatedCarriesData),
     (case cb_check_name b of
        None \<Rightarrow> Inl (RepairError RepeatedNoName)
      | Some name \<Rightarrow>
          require (check_was_executed s name (mutation_epoch s)) (RepairError RepeatedNotExecuted))]"

definition validate_block ::
  "controller_state \<Rightarrow> nat \<Rightarrow> controller_block \<Rightarrow> controller_error check" where
  "validate_block s turn b = checks [
     ensure_evidence_policy s,
     require (cb_version b = CONTROLLER_RECORD_VERSION)
       (BlockError (UnsupportedBlockVersion (cb_version b))),
     require (cb_mutation_epoch b = mutation_epoch s)
       (BlockError (BlockEpochMismatch (cb_mutation_epoch b) (mutation_epoch s))),
     validate_sorted_paths ''controller block paths'' (cb_paths b),
     (case cb_reason b of
        BlindMutation \<Rightarrow> validate_blind_block s b
      | SameTurnObservation \<Rightarrow> validate_same_turn_block s turn b
      | StaleObservation \<Rightarrow> validate_stale_block s b
      | UnsupportedMutation \<Rightarrow> validate_unsupported_block s b
      | RepairInspectionRequired \<Rightarrow> validate_repair_block s turn b
      | NoEffect \<Rightarrow> validate_no_effect_block b
      | SyntaxRegression \<Rightarrow> validate_syntax_block b
      | RepeatedCheck \<Rightarrow> validate_repeated_block s b)]"

section \<open>Refusals built at the preparation boundary\<close>

definition validated_block ::
  "controller_state \<Rightarrow> controller_block \<Rightarrow> controller_error + controller_block" where
  "validated_block s b = and_then (validate_block s 0 b) (\<lambda>_. Inr b)"

definition no_effect_block ::
  "controller_state \<Rightarrow> prepared_path_state list \<Rightarrow> controller_error + controller_block" where
  "no_effect_block s states =
     (let sorted_states = sort_key pps_path states
      in validated_block s (mk_block s NoEffect (map pps_path sorted_states) None
           (Some (WNoEffect sorted_states))))"

definition syntax_regression_block ::
  "controller_state \<Rightarrow> string \<Rightarrow> syntax_state \<Rightarrow> syntax_state \<Rightarrow> string \<Rightarrow>
   controller_error + controller_block" where
  "syntax_regression_block s path before candidate digest =
     validated_block s (mk_block s SyntaxRegression [path] None
       (Some (WSyntaxRegression before candidate digest)))"

definition unsupported_mutation_block ::
  "controller_state \<Rightarrow> string list \<Rightarrow> unsupported_kind \<Rightarrow> controller_error + controller_block" where
  "unsupported_mutation_block s paths control_kind =
     validated_block s (mk_block s UnsupportedMutation (dedup (sort paths)) None
       (Some (WUnsupportedMutation control_kind)))"

section \<open>Workspace effects\<close>

definition effect_requirement :: "controller_state \<Rightarrow> path_effect \<Rightarrow> mutation_requirement" where
  "effect_requirement s e =
     (case pe_before_sha256 e of
        None \<Rightarrow> mr_absent (pe_path e)
      | Some digest \<Rightarrow>
          mr_existing (pe_path e) digest
            (case evidence_for s (pe_path e) of None \<Rightarrow> 0 | Some ev \<Rightarrow> fe_total_bytes ev))"

definition authored_evidence :: "nat \<Rightarrow> string \<Rightarrow> string \<Rightarrow> nat \<Rightarrow> nat \<Rightarrow> file_evidence" where
  "authored_evidence turn path sha bytes lines =
     \<lparr>fe_path = path, fe_sha256 = sha, fe_total_bytes = bytes, fe_total_lines = lines,
      fe_covered_ranges = full_coverage lines, fe_complete = True, fe_fresh = True,
      fe_observed_turn = turn, fe_origin = AuthoredMutation\<rparr>"

definition apply_path_effect ::
  "nat \<Rightarrow> path_effect \<Rightarrow> controller_state \<Rightarrow> controller_state \<times> controller_error check" where
  "apply_path_effect turn e s =
     (let s1 = s\<lparr>changed_paths := bs_insert (pe_path e) (changed_paths s)\<rparr>
      in case pe_after_sha256 e of
           None \<Rightarrow> (s1\<lparr>file_evidence_map := bt_remove (pe_path e) (file_evidence_map s1)\<rparr>, ok)
         | Some after \<Rightarrow>
             (case pe_after_bytes e of
                None \<Rightarrow> (s1, Inl (EffectError (EffectOmitsBytes (pe_path e))))
              | Some bytes \<Rightarrow>
                  (case pe_after_lines e of
                     None \<Rightarrow> (s1, Inl (EffectError (EffectOmitsLines (pe_path e))))
                   | Some lines \<Rightarrow>
                       (s1\<lparr>file_evidence_map := bt_insert (pe_path e)
                            (authored_evidence turn (pe_path e) after bytes lines)
                            (file_evidence_map s1)\<rparr>, ok))))"

fun apply_path_effects ::
  "nat \<Rightarrow> path_effect list \<Rightarrow> controller_state \<Rightarrow> controller_state \<times> controller_error check" where
  "apply_path_effects turn [] s = (s, ok)"
| "apply_path_effects turn (e # es) s =
     (case apply_path_effect turn e s of
        (s1, Inl err) \<Rightarrow> (s1, Inl err)
      | (s1, Inr _) \<Rightarrow> apply_path_effects turn es s1)"

definition admit_effect ::
  "controller_state \<Rightarrow> nat \<Rightarrow> workspace_effect \<Rightarrow> controller_error check" where
  "admit_effect s turn eff = checks [
     ensure_evidence_policy s,
     validate_workspace_effect_shape eff (mutation_epoch s),
     (case mutation_block s turn (map (effect_requirement s) (we_effects eff)) of
        Inl e \<Rightarrow> Inl e
      | Inr (Some b) \<Rightarrow> Inl (EffectError (EffectViolatesAdmission (cb_reason b)))
      | Inr None \<Rightarrow> ok)]"

definition apply_workspace_effect ::
  "nat \<Rightarrow> workspace_effect \<Rightarrow> controller_state \<Rightarrow> controller_state \<times> controller_error check" where
  "apply_workspace_effect turn eff s =
     (case admit_effect s turn eff of
        Inl e \<Rightarrow> (s, Inl e)
      | Inr _ \<Rightarrow>
          (case apply_path_effects turn (we_effects eff) s of
             (s1, Inl e) \<Rightarrow> (s1, Inl e)
           | (s1, Inr _) \<Rightarrow> (s1\<lparr>mutation_epoch := we_mutation_epoch eff\<rparr>, ok)))"

section \<open>Named checks\<close>

definition admit_check :: "controller_state \<Rightarrow> string \<Rightarrow> controller_block + nat" where
  "admit_check s name =
     (if \<not> is_evidence_policy (policy s) \<or> validate_check_name name \<noteq> ok
         \<or> \<not> bs_contains (required_checks s) name
      then Inl (unsupported_block s [] (Some name))
      else if check_was_executed s name (mutation_epoch s)
      then Inl (mk_block s RepeatedCheck [] (Some name) None)
      else (case checked_add u32_max (attempts_for s name) 1 of
              None \<Rightarrow> Inl (unsupported_block s [] (Some name))
            | Some next \<Rightarrow> Inr next))"

definition validate_verification_check ::
  "controller_state \<Rightarrow> verification_check \<Rightarrow> controller_error check" where
  "validate_verification_check s c = checks [
     ensure_evidence_policy s,
     validate_check_name (vc_name c),
     require (vc_version c = CONTROLLER_RECORD_VERSION)
       (CheckError (UnsupportedCheckRecordVersion (vc_version c))),
     require (vc_mutation_epoch c = mutation_epoch s)
       (CheckError (CheckEpochMismatch (vc_name c) (vc_mutation_epoch c) (mutation_epoch s))),
     (case admit_check s (vc_name c) of
        Inl b \<Rightarrow> Inl (CheckError (CheckBlocked (vc_name c) (cb_reason b)))
      | Inr expected \<Rightarrow>
          require (vc_attempt c = expected)
            (CheckError (CheckAttemptMismatch (vc_name c) (vc_attempt c) expected))),
     (case vc_outcome c of
        Passed \<Rightarrow> require (vc_diagnostic_sha256 c = None) (CheckError PassWithDiagnostic)
      | Failed \<Rightarrow>
          (case vc_diagnostic_sha256 c of
             None \<Rightarrow> Inl (CheckError FailWithoutDiagnostic)
           | Some d \<Rightarrow> validate_sha256 d ''verification diagnostic''))]"

definition execution_of :: "nat \<Rightarrow> verification_check \<Rightarrow> check_execution" where
  "execution_of turn c =
     \<lparr>ce_turn = turn, ce_name = vc_name c, ce_mutation_epoch = vc_mutation_epoch c,
      ce_attempt = vc_attempt c, ce_outcome = vc_outcome c,
      ce_diagnostic_sha256 = vc_diagnostic_sha256 c\<rparr>"

definition failure_of :: "check_execution \<Rightarrow> string \<Rightarrow> failed_check" where
  "failure_of x digest =
     \<lparr>fc_turn = ce_turn x, fc_name = ce_name x, fc_mutation_epoch = ce_mutation_epoch x,
      fc_attempt = ce_attempt x, fc_diagnostic_sha256 = digest\<rparr>"

definition record_execution :: "check_execution \<Rightarrow> controller_state \<Rightarrow> controller_state" where
  "record_execution x s =
     s\<lparr>executed_checks := bs_insert (ce_name x, ce_mutation_epoch x) (executed_checks s),
       attempts := bt_insert (ce_name x) (ce_attempt x) (attempts s),
       check_executions := check_executions s @ [x]\<rparr>"

definition failure_named :: "string \<Rightarrow> failed_check option \<Rightarrow> bool" where
  "failure_named name f = (case f of None \<Rightarrow> False | Some g \<Rightarrow> fc_name g = name)"

definition apply_verification_check ::
  "nat \<Rightarrow> verification_check \<Rightarrow> controller_state \<Rightarrow> controller_state \<times> controller_error check" where
  "apply_verification_check turn c s =
     (case validate_verification_check s c of
        Inl e \<Rightarrow> (s, Inl e)
      | Inr _ \<Rightarrow>
          let x = execution_of turn c;
              s1 = record_execution x s
          in case vc_outcome c of
               Passed \<Rightarrow>
                 let s2 = s1\<lparr>passed_checks := bt_insert (vc_name c) (vc_mutation_epoch c) (passed_checks s1)\<rparr>
                 in (if failure_named (vc_name c) (last_failed_check s2)
                     then s2\<lparr>last_failed_check := None, repair_paths := [],
                            repair_observation_after_turn := None\<rparr>
                     else s2, ok)
             | Failed \<Rightarrow>
                 let s2 = s1\<lparr>passed_checks := bt_remove (vc_name c) (passed_checks s1)\<rparr>
                 in (case vc_diagnostic_sha256 c of
                       None \<Rightarrow> (s2, Inl Panicked)
                     | Some d \<Rightarrow>
                         (s2\<lparr>last_failed_check := Some (failure_of x d),
                             repair_paths := changed_paths s2,
                             repair_observation_after_turn := None\<rparr>, ok)))"

section \<open>Checkpoints\<close>

definition checkpoint :: "controller_state \<Rightarrow> controller_checkpoint" where
  "checkpoint s =
     \<lparr>cp_version = CONTROLLER_CHECKPOINT_VERSION, cp_harness_policy = policy s,
      cp_mutation_epoch = mutation_epoch s, cp_required_checks = required_checks s,
      cp_passed_checks = passed_checks s, cp_file_evidence = bt_values (file_evidence_map s),
      cp_check_executions = check_executions s, cp_last_failed_check = last_failed_check s,
      cp_changed_paths = changed_paths s, cp_repair_paths = repair_paths s,
      cp_repair_observation_after_turn = repair_observation_after_turn s,
      cp_inherited_pause_reason = inherited_pause_reason s\<rparr>"

definition checkpoint_for_pause ::
  "controller_state \<Rightarrow> string \<Rightarrow> controller_error + controller_checkpoint" where
  "checkpoint_for_pause s reason =
     and_then (validate_reason reason)
       (\<lambda>_. Inr ((checkpoint s)\<lparr>cp_inherited_pause_reason := Some reason\<rparr>))"

fun restore_evidence ::
  "file_evidence list \<Rightarrow> controller_state \<Rightarrow> controller_error + controller_state" where
  "restore_evidence [] s = Inr s"
| "restore_evidence (e # es) s =
     and_then (validate_file_evidence e) (\<lambda>_.
       let s1 = s\<lparr>file_evidence_map := bt_insert (fe_path e) e (file_evidence_map s)\<rparr>
       in case evidence_for s (fe_path e) of
            Some _ \<Rightarrow> Inl (CheckpointError (CheckpointRepeatsEvidence (fe_path e)))
          | None \<Rightarrow> restore_evidence es s1)"

text \<open>The locals of the replay loop beside the state: the derived passes, the derived last
  failure and the previous execution.\<close>

record replay_locals =
  derived_passes :: "(string, nat) btree_map"
  derived_last_failure :: "failed_check option"
  previous_execution :: "check_execution option"

definition validate_replayed ::
  "nat \<Rightarrow> check_execution \<Rightarrow> replay_locals \<Rightarrow> controller_state \<Rightarrow> controller_error check" where
  "validate_replayed epoch x l s = checks [
     validate_check_execution x epoch,
     require (\<not> (case previous_execution l of
                    None \<Rightarrow> False
                  | Some prev \<Rightarrow> ce_turn x < ce_turn prev
                      \<or> ce_mutation_epoch x < ce_mutation_epoch prev))
       (CheckpointError CheckpointNotCausal),
     require (bs_contains (required_checks s) (ce_name x))
       (CheckpointError (CheckpointUnknownCheck (ce_name x))),
     require (\<not> bs_contains (executed_checks s) (ce_name x, ce_mutation_epoch x))
       (CheckpointError (CheckpointRepeatsCheck (ce_name x) (ce_mutation_epoch x))),
     (case checked_add u32_max (attempts_for s (ce_name x)) 1 of
        None \<Rightarrow> Inl (CheckpointError (CheckpointAttemptOverflow (ce_name x)))
      | Some expected \<Rightarrow>
          require (ce_attempt x = expected)
            (CheckpointError (CheckpointAttemptMismatch (ce_name x) (ce_attempt x) expected)))]"

definition replay_outcome :: "check_execution \<Rightarrow> replay_locals \<Rightarrow> controller_error + replay_locals" where
  "replay_outcome x l =
     (case ce_outcome x of
        Passed \<Rightarrow> Inr (l\<lparr>derived_passes := bt_insert (ce_name x) (ce_mutation_epoch x) (derived_passes l),
                        derived_last_failure :=
                          (if failure_named (ce_name x) (derived_last_failure l) then None
                           else derived_last_failure l),
                        previous_execution := Some x\<rparr>)
      | Failed \<Rightarrow>
          (case ce_diagnostic_sha256 x of
             None \<Rightarrow> Inl Panicked
           | Some d \<Rightarrow> Inr (l\<lparr>derived_passes := bt_remove (ce_name x) (derived_passes l),
                              derived_last_failure := Some (failure_of x d),
                              previous_execution := Some x\<rparr>)))"

fun replay_executions ::
  "nat \<Rightarrow> check_execution list \<Rightarrow> replay_locals \<Rightarrow> controller_state \<Rightarrow>
   controller_error + replay_locals \<times> controller_state" where
  "replay_executions epoch [] l s = Inr (l, s)"
| "replay_executions epoch (x # xs) l s =
     and_then (validate_replayed epoch x l s) (\<lambda>_.
       and_then (replay_outcome x l) (\<lambda>l1. replay_executions epoch xs l1 (record_execution x s)))"

definition validate_barrier :: "controller_checkpoint \<Rightarrow> controller_error check" where
  "validate_barrier cp =
     (case cp_repair_observation_after_turn cp of
        None \<Rightarrow> ok
      | Some barrier \<Rightarrow>
          (case cp_last_failed_check cp of
             None \<Rightarrow> Inl (CheckpointError CheckpointBarrierNoFailure)
           | Some f \<Rightarrow> require (\<not> barrier \<le> fc_turn f) (CheckpointError CheckpointBarrierNotLater)))"

definition validate_checkpoint ::
  "controller_checkpoint \<Rightarrow> controller_error + controller_state" where
  "validate_checkpoint cp =
     and_then (checks [
       require (cp_version cp = CONTROLLER_CHECKPOINT_VERSION)
         (CheckpointError (UnsupportedCheckpointVersion (cp_version cp))),
       require (is_evidence_policy (cp_harness_policy cp)) (CheckpointError CheckpointLegacyPolicy)])
     (\<lambda>_. and_then (controller_new (cp_harness_policy cp) (cp_required_checks cp))
     (\<lambda>s0. and_then (restore_evidence (cp_file_evidence cp) (s0\<lparr>mutation_epoch := cp_mutation_epoch cp\<rparr>))
     (\<lambda>s1. and_then (replay_executions (cp_mutation_epoch cp) (cp_check_executions cp)
              \<lparr>derived_passes = [], derived_last_failure = None, previous_execution = None\<rparr> s1)
     (\<lambda>(l, s2). and_then (checks [
         require (cp_passed_checks cp = derived_passes l) (CheckpointError CheckpointPassesMismatch),
         require (cp_last_failed_check cp = derived_last_failure l)
           (CheckpointError CheckpointFailureMismatch)])
     (\<lambda>_. and_then (validate_path_set ''changed_paths'' (cp_changed_paths cp))
     (\<lambda>changed. and_then (validate_path_set ''repair_paths'' (cp_repair_paths cp))
     (\<lambda>repair.
        let s3 = s2\<lparr>passed_checks := cp_passed_checks cp, last_failed_check := cp_last_failed_check cp,
                    changed_paths := changed, repair_paths := repair,
                    repair_observation_after_turn := cp_repair_observation_after_turn cp,
                    inherited_pause_reason := cp_inherited_pause_reason cp\<rparr>
        in and_then (checks [
             require (list_all (bs_contains changed) repair) (CheckpointError CheckpointRepairNotChanged),
             require (\<not> (repair \<noteq> [] \<and> cp_last_failed_check cp = None))
               (CheckpointError CheckpointRepairNoFailure),
             validate_barrier cp,
             (case cp_inherited_pause_reason cp of None \<Rightarrow> ok | Some r \<Rightarrow> validate_reason r),
             require (checkpoint s3 = cp) (CheckpointError CheckpointNotCanonical)])
           (\<lambda>_. Inr s3))))))))"

definition from_checkpoint :: "controller_checkpoint \<Rightarrow> controller_error + controller_state" where
  "from_checkpoint cp = validate_checkpoint cp"

definition invalidate_evidence :: "file_evidence \<Rightarrow> file_evidence" where
  "invalidate_evidence e = e\<lparr>fe_fresh := False, fe_complete := False, fe_covered_ranges := []\<rparr>"

definition resume_conservatively ::
  "controller_checkpoint \<Rightarrow> controller_error + controller_state" where
  "resume_conservatively cp =
     and_then (validate_checkpoint cp) (\<lambda>s.
       Inr (s\<lparr>file_evidence_map := bt_map_values invalidate_evidence (file_evidence_map s),
              repair_observation_after_turn := None\<rparr>))"

section \<open>Recovery packets\<close>

definition controller_recovery_packet ::
  "controller_state \<Rightarrow> string \<Rightarrow> controller_error + recovery_packet" where
  "controller_recovery_packet s pause_reason =
     and_then (validate_reason pause_reason) (\<lambda>_.
       let reread = bs_extend (bs_extend (changed_paths s) (repair_paths s))
             (map fe_path (filter (\<lambda>e. \<not> fe_fresh e) (bt_values (file_evidence_map s))))
       in Inr \<lparr>rp_version = RECOVERY_PACKET_VERSION, rp_pause_reason = pause_reason,
               rp_mutation_epoch = mutation_epoch s, rp_required_checks = required_checks s,
               rp_passed_checks = passed_checks s, rp_last_failed_check = last_failed_check s,
               rp_changed_paths = changed_paths s, rp_reread_paths = reread\<rparr>)"

definition render_json_list :: "(string \<Rightarrow> string) \<Rightarrow> string list \<Rightarrow> string" where
  "render_json_list to_json vals =
     (if vals = [] then ''none'' else join '', '' (map to_json vals))"

definition render_passed :: "(string \<Rightarrow> string) \<Rightarrow> (string, nat) btree_map \<Rightarrow> string" where
  "render_passed to_json m =
     (if m = [] then ''none''
      else join '', '' (map (\<lambda>(name, epoch). to_json name @ ''@'' @ show_nat epoch) m))"

definition render_failure :: "(string \<Rightarrow> string) \<Rightarrow> failed_check option \<Rightarrow> string" where
  "render_failure to_json f =
     (case f of
        None \<Rightarrow> ''none''
      | Some failed \<Rightarrow>
          to_json (fc_name failed) @ ''@'' @ show_nat (fc_mutation_epoch failed) @ '' attempt ''
          @ show_nat (fc_attempt failed) @ '' diagnostic '' @ to_json (fc_diagnostic_sha256 failed))"

definition newline :: string where "newline = [CHR 0x0A]"

definition render_recovery_packet ::
  "(string \<Rightarrow> string) \<Rightarrow> recovery_packet \<Rightarrow> controller_error + string" where
  "render_recovery_packet to_json p =
     and_then (validate_recovery_packet_shape p) (\<lambda>_. Inr (
       ''[Ferric recovery packet v'' @ show_nat (rp_version p) @ '']'' @ newline
       @ ''Pause reason: '' @ to_json (rp_pause_reason p) @ newline
       @ ''Mutation epoch: '' @ show_nat (rp_mutation_epoch p) @ newline
       @ ''Required checks: '' @ render_json_list to_json (rp_required_checks p) @ newline
       @ ''Recorded passes: '' @ render_passed to_json (rp_passed_checks p) @ newline
       @ ''Last failed check: '' @ render_failure to_json (rp_last_failed_check p) @ newline
       @ ''Changed paths: '' @ render_json_list to_json (rp_changed_paths p) @ newline
       @ ''Reread before mutation: '' @ render_json_list to_json (rp_reread_paths p) @ newline
       @ ''Continue from these facts. Inspect listed paths before editing and do not rerun a named check at the same mutation epoch.''))"

end
