(* ===== verification/Controller_Session.thy ===== *)
theory Controller_Session
  imports Evidence_Controller
begin

text \<open>
  Sessions of the evidence controller: the accepted transitions of one run as a step
  relation that keeps the history of events, and the invariants of the states it reaches.
  A session starts from \<open>controller_new\<close>, and its turns never decrease; a pause
  followed by \<open>resume_conservatively\<close> is one of its steps. Inputs are typed: the
  counters an observation or effect carries fit in the widths of the source's fields.
\<close>

section \<open>Sessions\<close>

datatype event =
    Observed observation
  | Effected workspace_effect
  | Checked verification_check
  | Resumed string

definition typed_observation :: "observation \<Rightarrow> bool" where
  "typed_observation obs =
     (case obs_detail obs of ObsFile ob \<Rightarrow> fo_total_lines ob \<le> u64_max | _ \<Rightarrow> True)"

definition typed_effect :: "workspace_effect \<Rightarrow> bool" where
  "typed_effect eff =
     list_all (\<lambda>e. case pe_after_lines e of None \<Rightarrow> True | Some n \<Rightarrow> n \<le> u64_max) (we_effects eff)"

definition pause_and_resume :: "string \<Rightarrow> controller_state \<Rightarrow> controller_error + controller_state" where
  "pause_and_resume reason s = and_then (checkpoint_for_pause s reason) resume_conservatively"

inductive session :: "(nat \<times> event) list \<Rightarrow> nat \<Rightarrow> controller_state \<Rightarrow> bool" where
  start: "controller_new Evidence names = Inr s \<Longrightarrow> session [] 0 s"
| observe: "session tr t s \<Longrightarrow> t \<le> t' \<Longrightarrow> typed_observation obs \<Longrightarrow>
    apply_observation t' obs s = (s', ok) \<Longrightarrow> session ((t', Observed obs) # tr) t' s'"
| mutate: "session tr t s \<Longrightarrow> t \<le> t' \<Longrightarrow> typed_effect eff \<Longrightarrow>
    apply_workspace_effect t' eff s = (s', ok) \<Longrightarrow> session ((t', Effected eff) # tr) t' s'"
| verify: "session tr t s \<Longrightarrow> t \<le> t' \<Longrightarrow>
    apply_verification_check t' c s = (s', ok) \<Longrightarrow> session ((t', Checked c) # tr) t' s'"
| resume: "session tr t s \<Longrightarrow> pause_and_resume reason s = Inr s' \<Longrightarrow>
    session ((t, Resumed reason) # tr) t s'"

section \<open>The file ledger\<close>

definition entry_ok :: "file_evidence \<Rightarrow> bool" where
  "entry_ok e \<longleftrightarrow>
     validate_workspace_path (fe_path e) = ok \<and> is_sha256 (fe_sha256 e) \<and>
     (fe_total_bytes e = 0 \<longleftrightarrow> fe_total_lines e = 0) \<and> fe_total_lines e \<le> u64_max \<and>
     valid_ranges (fe_total_lines e) (fe_covered_ranges e) \<and> separated (fe_covered_ranges e) \<and>
     (if fe_fresh e then fe_complete e = ranges_cover_file (fe_total_lines e) (fe_covered_ranges e)
      else \<not> fe_complete e \<and> fe_covered_ranges e = [])"

definition ledger_ok :: "nat \<Rightarrow> (string, file_evidence) btree_map \<Rightarrow> bool" where
  "ledger_ok t m \<longleftrightarrow> bt_wf m \<and>
     (\<forall>p e. bt_get m p = Some e \<longrightarrow> fe_path e = p \<and> entry_ok e \<and> fe_observed_turn e \<le> t)"

lemma ledger_ok_Nil [simp]: "ledger_ok t []"
  by (simp add: ledger_ok_def)

lemma ledger_ok_mono: "ledger_ok t m \<Longrightarrow> t \<le> t' \<Longrightarrow> ledger_ok t' m"
  unfolding ledger_ok_def using le_trans by blast

lemma ledger_ok_insert:
  assumes "ledger_ok t m" "fe_path e = p" "entry_ok e" "fe_observed_turn e \<le> t"
  shows "ledger_ok t (bt_insert p e m)"
  using assms by (simp add: ledger_ok_def)

lemma ledger_ok_remove: "ledger_ok t m \<Longrightarrow> ledger_ok t (bt_remove p m)"
  by (simp add: ledger_ok_def bt_get_remove)

lemma ledger_ok_lookup:
  "ledger_ok t m \<Longrightarrow> bt_get m p = Some e \<Longrightarrow> fe_path e = p \<and> entry_ok e \<and> fe_observed_turn e \<le> t"
  by (simp add: ledger_ok_def)

lemma full_coverage_facts:
  shows "valid_ranges n (full_coverage n)" "separated (full_coverage n)"
    and "ranges_cover_file n (full_coverage n)" "lines_of (full_coverage n) = {1..n}"
  by (auto simp: full_coverage_def separated_def ranges_cover_file_def)

lemma entry_ok_authored:
  assumes "validate_workspace_path p = ok" "is_sha256 h" "b = 0 \<longleftrightarrow> n = 0" "n \<le> u64_max"
  shows "entry_ok (authored_evidence t p h b n)"
  using assms by (simp add: entry_ok_def authored_evidence_def full_coverage_facts)

lemma entry_ok_new:
  assumes "validate_file_observation ob = ok" "fo_total_lines ob \<le> u64_max" "0 < fo_total_lines ob"
  shows "entry_ok (new_evidence t ob)"
  using assms
  by (simp add: entry_ok_def new_evidence_def validate_file_observation_def result_simps
      ranges_cover_file_def separated_def del: checks.simps)

text \<open>What a validated page tells.\<close>

lemma validate_file_observation_facts:
  assumes "validate_file_observation ob = ok"
  shows "validate_workspace_path (fo_path ob) = ok" "is_sha256 (fo_sha256 ob)"
    and "fo_total_bytes ob = 0 \<longleftrightarrow> fo_total_lines ob = 0"
    and "fo_returned_range ob = Some r \<Longrightarrow>
           1 \<le> lr_start r \<and> lr_start r \<le> lr_end r \<and> lr_end r \<le> fo_total_lines ob"
    and "fo_complete ob \<Longrightarrow> \<not> fo_model_truncated ob \<and>
           (fo_total_lines ob = 0 \<or> fo_returned_range ob = Some \<lparr>lr_start = 1, lr_end = fo_total_lines ob\<rparr>)"
  using assms
  by (auto simp: validate_file_observation_def Let_def result_simps simp del: checks.simps
      split: option.splits if_splits)

section \<open>Pages extend the ledger\<close>

text \<open>The lines one page shows the model: none when the registry truncated its output.\<close>

definition page_ranges :: "file_observation \<Rightarrow> line_range list" where
  "page_ranges ob =
     (if fo_model_truncated ob then []
      else (case fo_returned_range ob of None \<Rightarrow> [] | Some r \<Rightarrow> [r]))"

lemma page_ranges_valid:
  "validate_file_observation ob = ok \<Longrightarrow> valid_ranges (fo_total_lines ob) (page_ranges ob)"
  using validate_file_observation_facts(4) by (auto simp: page_ranges_def split: option.splits)

lemma page_ranges_complete:
  assumes "validate_file_observation ob = ok" "fo_complete ob"
  shows "{1..fo_total_lines ob} \<subseteq> lines_of (page_ranges ob)"
  using validate_file_observation_facts(5)[OF assms] by (auto simp: page_ranges_def)

lemma valid_ranges_append [simp]:
  "valid_ranges n (xs @ ys) \<longleftrightarrow> valid_ranges n xs \<and> valid_ranges n ys"
  by (auto simp: valid_ranges_def)

lemma lines_of_append [simp]: "lines_of (xs @ ys) = lines_of xs \<union> lines_of ys"
  by (auto simp: lines_of_def)

lemma extend_evidence_simps [simp]:
  "fe_path (extend_evidence t ob e) = fe_path e"
  "fe_sha256 (extend_evidence t ob e) = fe_sha256 e"
  "fe_total_bytes (extend_evidence t ob e) = fe_total_bytes e"
  "fe_total_lines (extend_evidence t ob e) = fe_total_lines e"
  "fe_fresh (extend_evidence t ob e)"
  "fe_origin (extend_evidence t ob e) = ModelRead"
  "fe_complete (extend_evidence t ob e) =
     ranges_cover_file (fo_total_lines ob) (fe_covered_ranges (extend_evidence t ob e))"
  "fe_observed_turn (extend_evidence t ob e) =
     (if fo_complete ob \<or> \<not> fe_complete e \<and> fe_complete (extend_evidence t ob e)
      then t else fe_observed_turn e)"
  by (simp_all add: extend_evidence_def Let_def)

lemma extend_evidence_ranges:
  assumes "fo_total_lines ob \<le> u64_max" "validate_file_observation ob = ok"
    and "valid_ranges (fo_total_lines ob) (fe_covered_ranges e)" "separated (fe_covered_ranges e)"
  shows "valid_ranges (fo_total_lines ob) (fe_covered_ranges (extend_evidence t ob e))"
    and "separated (fe_covered_ranges (extend_evidence t ob e))"
    and "lines_of (fe_covered_ranges (extend_evidence t ob e)) =
           lines_of (fe_covered_ranges e) \<union> lines_of (page_ranges ob)"
proof -
  let ?c = "fe_covered_ranges (extend_evidence t ob e)"
  have "valid_ranges (fo_total_lines ob) ?c \<and> separated ?c \<and>
        lines_of ?c = lines_of (fe_covered_ranges e) \<union> lines_of (page_ranges ob)"
  proof (cases "page_ranges ob")
    case Nil
    then have "?c = fe_covered_ranges e"
      by (auto simp: page_ranges_def extend_evidence_def Let_def split: option.splits if_splits)
    then show ?thesis using assms Nil by simp
  next
    case (Cons r rs)
    then have "?c = merge_ranges (fe_covered_ranges e @ page_ranges ob)"
      by (auto simp: page_ranges_def extend_evidence_def Let_def split: option.splits if_splits)
    moreover have v: "valid_ranges (fo_total_lines ob) (fe_covered_ranges e @ page_ranges ob)"
      using assms page_ranges_valid by simp
    ultimately show ?thesis
      using merge_ranges_facts[OF assms(1) v] by simp
  qed
  then show "valid_ranges (fo_total_lines ob) ?c" "separated ?c"
    "lines_of ?c = lines_of (fe_covered_ranges e) \<union> lines_of (page_ranges ob)" by blast+
qed

lemma ranges_cover_lines:
  assumes "valid_ranges n rs" "separated rs"
  shows "ranges_cover_file n rs \<longleftrightarrow> {1..n} \<subseteq> lines_of rs"
proof
  assume "ranges_cover_file n rs"
  then show "{1..n} \<subseteq> lines_of rs"
    by (auto simp: ranges_cover_file_def split: list.splits)
next
  assume "{1..n} \<subseteq> lines_of rs"
  then show "ranges_cover_file n rs"
    using separated_cover[OF assms] by (cases "n = 0") (auto simp: ranges_cover_file_def)
qed

lemma base_evidence_cases:
  obtains (fresh_pass) "base_evidence s t ob = new_evidence t ob"
  | (continued) e where "base_evidence s t ob = e" "evidence_for s (fo_path ob) = Some e"
      "same_identity e ob"
proof (cases "evidence_for s (fo_path ob)")
  case None
  then show ?thesis by (intro that(1)) (simp add: base_evidence_def)
next
  case (Some e)
  then show ?thesis using that
    by (cases "\<not> starts_repair_reread s t (fo_path ob) \<and> same_identity e ob")
       (simp_all add: base_evidence_def)
qed

lemma base_evidence_facts:
  assumes "ledger_ok t m" "m = file_evidence_map s"
  shows "fe_path (base_evidence s t' ob) = fo_path ob"
    and "fe_sha256 (base_evidence s t' ob) = fo_sha256 ob"
    and "fe_total_bytes (base_evidence s t' ob) = fo_total_bytes ob"
    and "fe_total_lines (base_evidence s t' ob) = fo_total_lines ob"
    and "valid_ranges (fo_total_lines ob) (fe_covered_ranges (base_evidence s t' ob))"
    and "separated (fe_covered_ranges (base_evidence s t' ob))"
    and "t \<le> t' \<Longrightarrow> fe_observed_turn (base_evidence s t' ob) \<le> t'"
proof -
  have "fe_path (base_evidence s t' ob) = fo_path ob \<and> fe_sha256 (base_evidence s t' ob) = fo_sha256 ob \<and>
    fe_total_bytes (base_evidence s t' ob) = fo_total_bytes ob \<and>
    fe_total_lines (base_evidence s t' ob) = fo_total_lines ob \<and>
    valid_ranges (fo_total_lines ob) (fe_covered_ranges (base_evidence s t' ob)) \<and>
    separated (fe_covered_ranges (base_evidence s t' ob)) \<and>
    (t \<le> t' \<longrightarrow> fe_observed_turn (base_evidence s t' ob) \<le> t')"
  proof (cases s t' ob rule: base_evidence_cases)
    case fresh_pass
    then show ?thesis by (simp add: new_evidence_def separated_def)
  next
    case (continued e)
    then have "fe_path e = fo_path ob \<and> entry_ok e \<and> fe_observed_turn e \<le> t"
      using ledger_ok_lookup[OF assms(1)] assms(2) by (simp add: evidence_for_def)
    then show ?thesis using continued by (auto simp: same_identity_def entry_ok_def)
  qed
  then show "fe_path (base_evidence s t' ob) = fo_path ob" "fe_sha256 (base_evidence s t' ob) = fo_sha256 ob"
    "fe_total_bytes (base_evidence s t' ob) = fo_total_bytes ob"
    "fe_total_lines (base_evidence s t' ob) = fo_total_lines ob"
    "valid_ranges (fo_total_lines ob) (fe_covered_ranges (base_evidence s t' ob))"
    "separated (fe_covered_ranges (base_evidence s t' ob))"
    "t \<le> t' \<Longrightarrow> fe_observed_turn (base_evidence s t' ob) \<le> t'" by blast+
qed

lemma extended_entry_ok:
  assumes "ledger_ok t (file_evidence_map s)" "t \<le> t'"
    and "validate_file_observation ob = ok" "fo_total_lines ob \<le> u64_max"
  defines "e \<equiv> extend_evidence t' ob (base_evidence s t' ob)"
  shows "fe_path e = fo_path ob" "entry_ok e" "fe_observed_turn e \<le> t'"
  using base_evidence_facts[OF assms(1) refl, where t' = t' and ob = ob] assms(2,4)
    validate_file_observation_facts(1-3)[OF assms(3)]
    extend_evidence_ranges[OF assms(4,3), of "base_evidence s t' ob" t']
  unfolding e_def by (auto simp: entry_ok_def intro: le_trans)

section \<open>Observations\<close>

definition barrier_after :: "controller_state \<Rightarrow> nat \<Rightarrow> nat option" where
  "barrier_after s t = repair_observation_after_turn (record_repair_observation_barrier t s)"

definition observed_map ::
  "nat \<Rightarrow> observation \<Rightarrow> controller_state \<Rightarrow> (string, file_evidence) btree_map" where
  "observed_map t obs s =
     (case obs_detail obs of
        ObsFile ob \<Rightarrow>
          bt_insert (fo_path ob) (extend_evidence t ob (base_evidence s t ob)) (file_evidence_map s)
      | _ \<Rightarrow> file_evidence_map s)"

lemma raise_barrier_idem: "raise_barrier t (raise_barrier t s) = raise_barrier t s"
  by (auto simp: raise_barrier_def split: option.splits)

lemma later_than_failure_raise [simp]: "later_than_failure (raise_barrier t s) t' = later_than_failure s t'"
  by (simp add: later_than_failure_def raise_barrier_def)

lemma later_than_failure_evidence [simp]:
  "later_than_failure (s\<lparr>file_evidence_map := m\<rparr>) t = later_than_failure s t"
  by (simp add: later_than_failure_def)

lemma barrier_record_ext:
  "record_repair_observation_barrier t (s\<lparr>file_evidence_map := m\<rparr>) =
     s\<lparr>file_evidence_map := m, repair_observation_after_turn := barrier_after s t\<rparr>"
  by (simp add: record_repair_observation_barrier_def barrier_after_def raise_barrier_def)

lemma apply_file_observation_eq:
  assumes "validate_file_observation ob = ok"
  shows "apply_file_observation t ob s =
    (s\<lparr>file_evidence_map := bt_insert (fo_path ob)
         (extend_evidence t ob (base_evidence s t ob)) (file_evidence_map s),
       repair_observation_after_turn := barrier_after s t\<rparr>, ok)"
proof -
  let ?s1 = "s\<lparr>file_evidence_map := bt_insert (fo_path ob)
               (extend_evidence t ob (base_evidence s t ob)) (file_evidence_map s)\<rparr>"
  let ?s2 = "record_repair_observation_barrier t ?s1"
  have "raise_barrier t ?s2 = ?s2" if "later_than_failure ?s2 t"
    using that by (auto simp: record_repair_observation_barrier_def raise_barrier_idem)
  then show ?thesis using assms
    by (simp add: apply_file_observation_def Let_def barrier_record_ext)
qed

lemma apply_observation_okE:
  assumes "apply_observation t obs s = (s', ok)"
  obtains "policy s = Evidence"
    "s' = s\<lparr>file_evidence_map := observed_map t obs s, repair_observation_after_turn := barrier_after s t\<rparr>"
    "\<And>ob. obs_detail obs = ObsFile ob \<Longrightarrow> validate_file_observation ob = ok"
proof -
  have pol: "policy s = Evidence"
    using assms by (auto simp: apply_observation_def ensure_evidence_policy_def split: harness_policy.splits)
  have nav: "s\<lparr>repair_observation_after_turn := barrier_after s t\<rparr> = record_repair_observation_barrier t s"
    by (simp add: record_repair_observation_barrier_def barrier_after_def raise_barrier_def)
  show ?thesis
  proof (cases "obs_detail obs")
    case (ObsFile ob)
    then have "apply_file_observation t ob s = (s', ok)"
      using assms by (auto simp: apply_observation_def split: sum.splits)
    moreover from this have "validate_file_observation ob = ok"
      by (auto simp: apply_file_observation_def split: sum.splits)
    ultimately show ?thesis using pol ObsFile
      by (intro that) (auto simp: apply_file_observation_eq observed_map_def)
  qed (use assms pol nav in \<open>auto intro!: that simp: apply_observation_def observed_map_def split: sum.splits\<close>)
qed

lemma ledger_ok_observed:
  assumes "ledger_ok t (file_evidence_map s)" "t \<le> t'" "typed_observation obs"
    and "\<And>ob. obs_detail obs = ObsFile ob \<Longrightarrow> validate_file_observation ob = ok"
  shows "ledger_ok t' (observed_map t' obs s)"
proof (cases "obs_detail obs")
  case (ObsFile ob)
  then have "validate_file_observation ob = ok" "fo_total_lines ob \<le> u64_max"
    using assms(3,4) by (auto simp: typed_observation_def)
  then show ?thesis using ObsFile assms(1,2) extended_entry_ok[OF assms(1,2)]
    by (simp add: observed_map_def ledger_ok_insert ledger_ok_mono)
qed (use assms(1,2) in \<open>simp_all add: observed_map_def ledger_ok_mono\<close>)

section \<open>Admission\<close>

text \<open>What admission means, without the code's order of tests: the paths are pairwise
  distinct valid workspace paths of supported identity; every existing file has complete and
  fresh evidence of exactly this identity from an earlier turn; and after a failed check
  something was observed at a later turn, and every repair target was read by the model at a
  later turn.\<close>

definition requirement_admissible :: "controller_state \<Rightarrow> nat \<Rightarrow> mutation_requirement \<Rightarrow> bool" where
  "requirement_admissible s turn r \<longleftrightarrow>
     (case mr_current r of
        Absent \<Rightarrow> True
      | Directory \<Rightarrow> True
      | OtherId \<Rightarrow> False
      | FileId sha bytes \<Rightarrow> is_sha256 sha \<and>
          (\<exists>ev. evidence_for s (mr_path r) = Some ev \<and> fe_complete ev \<and> fe_fresh ev
             \<and> fe_sha256 ev = sha \<and> fe_total_bytes ev = bytes \<and> fe_observed_turn ev < turn
             \<and> (mr_path r \<in> set (repair_paths s) \<longrightarrow>
                  fe_origin ev = ModelRead \<and>
                  (\<exists>f. last_failed_check s = Some f \<and> fc_turn f < fe_observed_turn ev))))"

definition mutation_admissible :: "controller_state \<Rightarrow> nat \<Rightarrow> mutation_requirement list \<Rightarrow> bool" where
  "mutation_admissible s turn reqs \<longleftrightarrow>
     policy s = Evidence \<and> reqs \<noteq> [] \<and> distinct (map mr_path reqs) \<and>
     (\<forall>r \<in> set reqs. validate_workspace_path (mr_path r) = ok \<and> requirement_admissible s turn r) \<and>
     (\<forall>f. last_failed_check s = Some f \<longrightarrow>
        (\<exists>b. repair_observation_after_turn s = Some b \<and> fc_turn f < b \<and> b < turn))"

lemma scan_requirements_Inr:
  "scan_requirements rs seen = Inr out \<longleftrightarrow>
     (\<forall>r \<in> set rs. validate_workspace_path (mr_path r) = ok \<and> \<not> unsupported_identity (mr_current r)) \<and>
     distinct (map mr_path rs) \<and> set (map mr_path rs) \<inter> set seen = {} \<and>
     out = bs_extend seen (map mr_path rs)"
  by (induction rs seen rule: scan_requirements.induct)
     (auto simp: bs_contains_def bs_extend_def)

lemma scan_requirements_Inl:
  "scan_requirements rs seen = Inl p \<Longrightarrow> p \<in> mr_path ` set rs"
  by (induction rs seen rule: scan_requirements.induct) (auto split: if_splits)

lemma scan_requirements_seen:
  "scan_requirements rs [] = Inr out \<Longrightarrow> out = bs_of_list (map mr_path rs)"
  by (simp add: scan_requirements_Inr bs_of_list_def)

lemma requirement_block_None:
  "\<not> unsupported_identity (mr_current r) \<Longrightarrow>
     requirement_block s t r = Inr None \<longleftrightarrow> requirement_admissible s t r"
  by (auto simp: requirement_block_def requirement_admissible_def inspected_after_failure_def
      bs_contains_def unsupported_identity_def split: path_identity.splits option.splits)

lemma requirement_block_no_panic:
  "\<not> unsupported_identity (mr_current r) \<Longrightarrow> requirement_block s t r \<noteq> Inl e"
  by (auto simp: requirement_block_def unsupported_identity_def split: path_identity.splits option.splits)

lemma requirements_block_None:
  "\<forall>r \<in> set rs. \<not> unsupported_identity (mr_current r) \<Longrightarrow>
     requirements_block s t rs = Inr None \<longleftrightarrow> (\<forall>r \<in> set rs. requirement_admissible s t r)"
proof (induction rs)
  case (Cons r rs)
  then show ?case
    using requirement_block_None[of r s t] requirement_block_no_panic[of r s t]
    by (cases "requirement_block s t r") (auto split: option.splits)
qed simp

lemma requirements_block_no_panic:
  "\<forall>r \<in> set rs. \<not> unsupported_identity (mr_current r) \<Longrightarrow> requirements_block s t rs \<noteq> Inl e"
proof (induction rs)
  case (Cons r rs)
  then show ?case using requirement_block_no_panic[of r s t]
    by (cases "requirement_block s t r") (auto split: option.splits)
qed simp

lemma admissible_supported: "requirement_admissible s t r \<Longrightarrow> \<not> unsupported_identity (mr_current r)"
  by (auto simp: requirement_admissible_def unsupported_identity_def split: path_identity.splits)

lemma bs_of_list_eq_Nil [simp]: "bs_of_list xs = [] \<longleftrightarrow> xs = []"
  using set_bs_of_list[of xs] by (metis set_empty)

lemma mutation_block_None:
  "mutation_block s t reqs = Inr None \<longleftrightarrow> mutation_admissible s t reqs"
proof (cases "policy s = Evidence")
  case True
  show ?thesis
  proof (cases "scan_requirements reqs []")
    case (Inl p)
    have "\<not> mutation_admissible s t reqs"
    proof
      assume "mutation_admissible s t reqs"
      then have "scan_requirements reqs [] = Inr (bs_extend [] (map mr_path reqs))"
        unfolding scan_requirements_Inr mutation_admissible_def using admissible_supported by auto
      with Inl show False by simp
    qed
    then show ?thesis using True Inl by (simp add: mutation_block_def)
  next
    case (Inr seen)
    then have sup: "\<forall>r \<in> set reqs. \<not> unsupported_identity (mr_current r)"
      and paths: "\<forall>r \<in> set reqs. validate_workspace_path (mr_path r) = ok" "distinct (map mr_path reqs)"
      by (simp_all add: scan_requirements_Inr)
    have seen: "seen = [] \<longleftrightarrow> reqs = []" using scan_requirements_seen[OF Inr] by simp
    show ?thesis
      using True paths seen requirements_block_None[OF sup, of s t]
      by (cases "last_failed_check s"; cases "repair_observation_after_turn s")
         (auto simp: mutation_block_def is_evidence_policy_def mutation_admissible_def
          barrier_satisfied_def Inr)
  qed
qed (simp add: mutation_block_def is_evidence_policy_def mutation_admissible_def)

lemma mutation_block_total: "\<exists>b. mutation_block s t reqs = Inr b"
proof (cases "scan_requirements reqs []")
  case (Inr seen)
  then have "requirements_block s t reqs \<noteq> Inl e" for e
    by (intro requirements_block_no_panic) (simp add: scan_requirements_Inr)
  then have "\<exists>b. requirements_block s t reqs = Inr b"
    by (cases "requirements_block s t reqs") auto
  then show ?thesis using Inr by (auto simp: mutation_block_def split: option.splits)
qed (simp add: mutation_block_def)

section \<open>Workspace effects\<close>

definition effect_map ::
  "nat \<Rightarrow> path_effect \<Rightarrow> (string, file_evidence) btree_map \<Rightarrow> (string, file_evidence) btree_map" where
  "effect_map t e m =
     (case pe_after_sha256 e of
        None \<Rightarrow> bt_remove (pe_path e) m
      | Some h \<Rightarrow> bt_insert (pe_path e)
          (authored_evidence t (pe_path e) h (the (pe_after_bytes e)) (the (pe_after_lines e))) m)"

text \<open>A path effect that passed the shape check: its postimage comes with its dimensions.\<close>

definition effect_ok :: "path_effect \<Rightarrow> bool" where
  "effect_ok e \<longleftrightarrow> validate_workspace_path (pe_path e) = ok \<and>
     (\<forall>h. pe_after_sha256 e = Some h \<longrightarrow> is_sha256 h \<and>
        (\<exists>b n. pe_after_bytes e = Some b \<and> pe_after_lines e = Some n \<and> (b = 0 \<longleftrightarrow> n = 0)))"

lemma validate_path_effect_ok:
  "validate_path_effect e seen = ok \<Longrightarrow> effect_ok e \<and> pe_path e \<notin> set seen"
  by (auto simp: validate_path_effect_def effect_ok_def result_simps bs_contains_def
      simp del: checks.simps split: option.splits)

lemma validate_path_effects_ok:
  "validate_path_effects es seen = ok \<Longrightarrow>
     (\<forall>e \<in> set es. effect_ok e) \<and> distinct (map pe_path es) \<and> pe_path ` set es \<inter> set seen = {}"
  by (induction es seen rule: validate_path_effects.induct)
     (auto simp: result_simps dest: validate_path_effect_ok)

lemma apply_path_effect_ok:
  "effect_ok e \<Longrightarrow> apply_path_effect t e s =
     (s\<lparr>changed_paths := bs_insert (pe_path e) (changed_paths s),
        file_evidence_map := effect_map t e (file_evidence_map s)\<rparr>, ok)"
  by (auto simp: apply_path_effect_def effect_ok_def effect_map_def Let_def split: option.splits)

lemma apply_path_effects_ok:
  "\<forall>e \<in> set es. effect_ok e \<Longrightarrow> apply_path_effects t es s =
     (s\<lparr>changed_paths := bs_extend (changed_paths s) (map pe_path es),
        file_evidence_map := fold (effect_map t) es (file_evidence_map s)\<rparr>, ok)"
  by (induction es arbitrary: s) (simp_all add: apply_path_effect_ok bs_extend_def)

lemma validate_workspace_effect_shape_ok:
  assumes "validate_workspace_effect_shape eff epoch = ok"
  shows "\<forall>e \<in> set (we_effects eff). effect_ok e" "distinct (map pe_path (we_effects eff))"
    and "we_mutation_epoch eff = epoch + 1" "epoch + 1 \<le> u64_max"
  using assms
  by (auto simp: validate_workspace_effect_shape_def result_simps int_simps simp del: checks.simps
      dest: validate_path_effects_ok split: option.splits)

lemma admit_effect_ok:
  assumes "admit_effect s t eff = ok"
  shows "policy s = Evidence" "validate_workspace_effect_shape eff (mutation_epoch s) = ok"
    and "mutation_admissible s t (map (effect_requirement s) (we_effects eff))"
proof -
  show "policy s = Evidence" "validate_workspace_effect_shape eff (mutation_epoch s) = ok"
    using assms by (auto simp: admit_effect_def ensure_evidence_policy_def result_simps
        simp del: checks.simps split: harness_policy.splits)
  have "mutation_block s t (map (effect_requirement s) (we_effects eff)) = Inr None"
    using assms by (auto simp: admit_effect_def result_simps simp del: checks.simps
        split: sum.splits option.splits)
  then show "mutation_admissible s t (map (effect_requirement s) (we_effects eff))"
    by (simp add: mutation_block_None)
qed

text \<open>The loop over the effects of an admitted effect cannot fail half way.\<close>

lemma apply_workspace_effect_eq:
  "apply_workspace_effect t eff s =
     (case admit_effect s t eff of
        Inl e \<Rightarrow> (s, Inl e)
      | Inr _ \<Rightarrow> (s\<lparr>changed_paths := bs_extend (changed_paths s) (map pe_path (we_effects eff)),
                   file_evidence_map := fold (effect_map t) (we_effects eff) (file_evidence_map s),
                   mutation_epoch := mutation_epoch s + 1\<rparr>, ok))"
proof (cases "admit_effect s t eff")
  case (Inr u)
  then have "admit_effect s t eff = ok" by simp
  from validate_workspace_effect_shape_ok[OF admit_effect_ok(2)[OF this]] Inr show ?thesis
    by (simp add: apply_workspace_effect_def apply_path_effects_ok)
qed (simp add: apply_workspace_effect_def)

lemma apply_workspace_effect_okE:
  assumes "apply_workspace_effect t eff s = (s', ok)"
  shows "admit_effect s t eff = ok"
    and "s' = s\<lparr>changed_paths := bs_extend (changed_paths s) (map pe_path (we_effects eff)),
                file_evidence_map := fold (effect_map t) (we_effects eff) (file_evidence_map s),
                mutation_epoch := mutation_epoch s + 1\<rparr>"
  using assms by (auto simp: apply_workspace_effect_eq split: sum.splits)

lemma ledger_ok_effects:
  assumes "ledger_ok t m" "\<forall>e \<in> set es. effect_ok e"
    and "\<forall>e \<in> set es. case pe_after_lines e of None \<Rightarrow> True | Some n \<Rightarrow> n \<le> u64_max"
  shows "ledger_ok t (fold (effect_map t) es m)"
  using assms
proof (induction es arbitrary: m)
  case (Cons e es)
  have "ledger_ok t (effect_map t e m)"
    using Cons.prems
    by (auto simp: effect_map_def effect_ok_def ledger_ok_remove split: option.splits
        intro!: ledger_ok_insert entry_ok_authored) (simp_all add: authored_evidence_def)
  then show ?case using Cons by simp
qed simp

section \<open>The check history\<close>

abbreviation replay_start :: replay_locals where
  "replay_start \<equiv> \<lparr>derived_passes = [], derived_last_failure = None, previous_execution = None\<rparr>"

definition blank :: "controller_state \<Rightarrow> controller_state" where
  "blank s = s\<lparr>executed_checks := [], attempts := [], check_executions := []\<rparr>"

abbreviation coordinate :: "check_execution \<Rightarrow> string \<times> nat" where
  "coordinate x \<equiv> (ce_name x, ce_mutation_epoch x)"

text \<open>The recorded executions replay to the state's own derived facts.\<close>

definition history_ok :: "nat \<Rightarrow> controller_state \<Rightarrow> bool" where
  "history_ok t s \<longleftrightarrow>
     (\<exists>l. replay_executions (mutation_epoch s) (check_executions s) replay_start (blank s) = Inr (l, s)
        \<and> derived_passes l = passed_checks s \<and> derived_last_failure l = last_failed_check s)
     \<and> (\<forall>x \<in> set (check_executions s). ce_turn x \<le> t)"

lemma replay_append:
  "replay_executions e (xs @ ys) l s =
     and_then (replay_executions e xs l s) (\<lambda>(l1, s1). replay_executions e ys l1 s1)"
proof (induction xs arbitrary: l s)
  case (Cons x xs)
  then show ?case
    by (cases "validate_replayed e x l s"; cases "replay_outcome x l") simp_all
qed simp

lemma validate_replayed_ok:
  "validate_replayed e x l s = ok \<longleftrightarrow>
     validate_check_execution x e = ok \<and>
     (\<forall>prev. previous_execution l = Some prev \<longrightarrow>
        ce_turn prev \<le> ce_turn x \<and> ce_mutation_epoch prev \<le> ce_mutation_epoch x) \<and>
     ce_name x \<in> set (required_checks s) \<and> coordinate x \<notin> set (executed_checks s) \<and>
     ce_attempt x = attempts_for s (ce_name x) + 1 \<and> attempts_for s (ce_name x) + 1 \<le> u32_max"
  by (auto simp: validate_replayed_def result_simps bs_contains_def checked_add_def
      simp del: checks.simps split: option.splits)

lemma validate_check_execution_mono:
  "validate_check_execution x e = ok \<Longrightarrow> e \<le> e' \<Longrightarrow> validate_check_execution x e' = ok"
  by (auto simp: validate_check_execution_def result_simps simp del: checks.simps)

lemma replay_mono:
  "replay_executions e xs l s = Inr out \<Longrightarrow> e \<le> e' \<Longrightarrow> replay_executions e' xs l s = Inr out"
proof (induction xs arbitrary: l s)
  case (Cons x xs)
  from Cons.prems obtain l1 where "validate_replayed e x l s = ok" "replay_outcome x l = Inr l1"
    "replay_executions e xs l1 (record_execution x s) = Inr out"
    by (auto simp: result_simps)
  moreover from this have "validate_replayed e' x l s = ok"
    using Cons.prems(2) validate_check_execution_mono unfolding validate_replayed_ok by blast
  ultimately show ?case using Cons.IH Cons.prems(2) by simp
qed simp

lemma replay_frame:
  assumes "\<And>s. required_checks (f s) = required_checks s"
    and "\<And>s. executed_checks (f s) = executed_checks s" "\<And>s. attempts (f s) = attempts s"
    and "\<And>x s. record_execution x (f s) = f (record_execution x s)"
  shows "replay_executions e xs l s = Inr (l', s') \<Longrightarrow> replay_executions e xs l (f s) = Inr (l', f s')"
proof (induction xs arbitrary: l s)
  case (Cons x xs)
  have "validate_replayed e x l (f s) = validate_replayed e x l s"
    by (simp add: validate_replayed_def attempts_for_def assms)
  then show ?case using Cons by (auto simp: result_simps assms(4))
qed simp

lemma replay_facts:
  assumes "replay_executions e xs l s = Inr (l', s')" "bs_wf (executed_checks s)"
  shows "check_executions s' = check_executions s @ xs"
    and "previous_execution l' = (if xs = [] then previous_execution l else Some (last xs))"
    and "set (executed_checks s') = coordinate ` set xs \<union> set (executed_checks s)"
    and "attempts_for s' n = attempts_for s n + length (filter (\<lambda>x. ce_name x = n) xs)"
    and "distinct (map coordinate xs) \<and> coordinate ` set xs \<inter> set (executed_checks s) = {}"
    and "\<forall>x \<in> set xs. ce_mutation_epoch x \<le> e \<and> ce_name x \<in> set (required_checks s)"
proof -
  have "check_executions s' = check_executions s @ xs \<and>
    previous_execution l' = (if xs = [] then previous_execution l else Some (last xs)) \<and>
    set (executed_checks s') = coordinate ` set xs \<union> set (executed_checks s) \<and>
    attempts_for s' n = attempts_for s n + length (filter (\<lambda>x. ce_name x = n) xs) \<and>
    distinct (map coordinate xs) \<and> coordinate ` set xs \<inter> set (executed_checks s) = {} \<and>
    (\<forall>x \<in> set xs. ce_mutation_epoch x \<le> e \<and> ce_name x \<in> set (required_checks s))"
    using assms
  proof (induction xs arbitrary: l s)
    case (Cons x xs)
    let ?s1 = "record_execution x s"
    from Cons.prems(1) obtain l1 where step: "validate_replayed e x l s = ok" "replay_outcome x l = Inr l1"
      and rest: "replay_executions e xs l1 ?s1 = Inr (l', s')"
      by (auto simp: result_simps)
    have prev: "previous_execution l1 = Some x"
      using step(2) by (auto simp: replay_outcome_def split: verification_outcome.splits option.splits)
    have att: "attempts_for ?s1 n = attempts_for s n + (if ce_name x = n then 1 else 0)"
      using step(1) by (auto simp: validate_replayed_ok attempts_for_def record_execution_def)
    have ep: "ce_mutation_epoch x \<le> e"
      using step(1) by (auto simp: validate_replayed_ok validate_check_execution_def result_simps
          simp del: checks.simps)
    have "bs_wf (executed_checks ?s1)" using Cons.prems(2) by (simp add: record_execution_def)
    from Cons.IH[OF rest this] show ?case using prev att ep step(1)
      by (auto simp: validate_replayed_ok record_execution_def)
  qed simp
  then show "check_executions s' = check_executions s @ xs"
    "previous_execution l' = (if xs = [] then previous_execution l else Some (last xs))"
    "set (executed_checks s') = coordinate ` set xs \<union> set (executed_checks s)"
    "attempts_for s' n = attempts_for s n + length (filter (\<lambda>x. ce_name x = n) xs)"
    "distinct (map coordinate xs) \<and> coordinate ` set xs \<inter> set (executed_checks s) = {}"
    "\<forall>x \<in> set xs. ce_mutation_epoch x \<le> e \<and> ce_name x \<in> set (required_checks s)"
    by blast+
qed

lemma history_facts:
  assumes "history_ok t s"
  shows "set (executed_checks s) = coordinate ` set (check_executions s)"
    and "attempts_for s n = length (filter (\<lambda>x. ce_name x = n) (check_executions s))"
    and "distinct (map coordinate (check_executions s))"
    and "\<forall>x \<in> set (check_executions s). ce_mutation_epoch x \<le> mutation_epoch s"
    and "\<forall>x \<in> set (check_executions s). ce_name x \<in> set (required_checks s)"
proof -
  from assms obtain l where
    r: "replay_executions (mutation_epoch s) (check_executions s) replay_start (blank s) = Inr (l, s)"
    by (auto simp: history_ok_def)
  have b: "bs_wf (executed_checks (blank s))" "executed_checks (blank s) = []"
    "attempts_for (blank s) n = 0" "required_checks (blank s) = required_checks s"
    by (simp_all add: blank_def attempts_for_def)
  show "set (executed_checks s) = coordinate ` set (check_executions s)"
    "attempts_for s n = length (filter (\<lambda>x. ce_name x = n) (check_executions s))"
    "distinct (map coordinate (check_executions s))"
    "\<forall>x \<in> set (check_executions s). ce_mutation_epoch x \<le> mutation_epoch s"
    "\<forall>x \<in> set (check_executions s). ce_name x \<in> set (required_checks s)"
    using replay_facts[OF r b(1)] b by auto
qed

section \<open>Named checks\<close>

definition verified_locals :: "nat \<Rightarrow> verification_check \<Rightarrow> controller_state \<Rightarrow> controller_state" where
  "verified_locals t c s =
     (case vc_outcome c of
        Passed \<Rightarrow>
          s\<lparr>passed_checks := bt_insert (vc_name c) (vc_mutation_epoch c) (passed_checks s),
            last_failed_check := (if failure_named (vc_name c) (last_failed_check s) then None
                                  else last_failed_check s),
            repair_paths := (if failure_named (vc_name c) (last_failed_check s) then []
                             else repair_paths s),
            repair_observation_after_turn :=
              (if failure_named (vc_name c) (last_failed_check s) then None
               else repair_observation_after_turn s)\<rparr>
      | Failed \<Rightarrow>
          s\<lparr>passed_checks := bt_remove (vc_name c) (passed_checks s),
            last_failed_check :=
              Some (failure_of (execution_of t c) (the (vc_diagnostic_sha256 c))),
            repair_paths := changed_paths s,
            repair_observation_after_turn := None\<rparr>)"

lemma validate_verification_check_ok:
  "validate_verification_check s c = ok \<longleftrightarrow>
     policy s = Evidence \<and> validate_check_name (vc_name c) = ok \<and>
     vc_version c = CONTROLLER_RECORD_VERSION \<and> vc_mutation_epoch c = mutation_epoch s \<and>
     vc_name c \<in> set (required_checks s) \<and>
     (vc_name c, mutation_epoch s) \<notin> set (executed_checks s) \<and>
     vc_attempt c = attempts_for s (vc_name c) + 1 \<and> attempts_for s (vc_name c) + 1 \<le> u32_max \<and>
     (case vc_outcome c of
        Passed \<Rightarrow> vc_diagnostic_sha256 c = None
      | Failed \<Rightarrow> \<exists>d. vc_diagnostic_sha256 c = Some d \<and> is_sha256 d)"
  by (auto simp: validate_verification_check_def ensure_evidence_policy_def admit_check_def
      is_evidence_policy_def bs_contains_def check_was_executed_def result_simps checked_add_def
      simp del: checks.simps
      split: harness_policy.splits verification_outcome.splits option.splits if_splits)

lemma apply_verification_check_eq:
  "apply_verification_check t c s =
     (case validate_verification_check s c of
        Inl e \<Rightarrow> (s, Inl e)
      | Inr _ \<Rightarrow> (verified_locals t c (record_execution (execution_of t c) s), ok))"
proof (cases "validate_verification_check s c")
  case (Inr u)
  then have "case vc_outcome c of Passed \<Rightarrow> True | Failed \<Rightarrow> vc_diagnostic_sha256 c \<noteq> None"
    using validate_verification_check_ok[of s c] by (auto split: verification_outcome.splits)
  then show ?thesis using Inr
    by (auto simp: apply_verification_check_def verified_locals_def
        Let_def record_execution_def split: verification_outcome.splits)
qed (simp add: apply_verification_check_def)

lemma apply_verification_check_okE:
  assumes "apply_verification_check t c s = (s', ok)"
  shows "validate_verification_check s c = ok"
    and "s' = verified_locals t c (record_execution (execution_of t c) s)"
  using assms by (auto simp: apply_verification_check_eq split: sum.splits)

lemma verified_locals_simps [simp]:
  "policy (verified_locals t c s) = policy s"
  "file_evidence_map (verified_locals t c s) = file_evidence_map s"
  "mutation_epoch (verified_locals t c s) = mutation_epoch s"
  "required_checks (verified_locals t c s) = required_checks s"
  "executed_checks (verified_locals t c s) = executed_checks s"
  "attempts (verified_locals t c s) = attempts s"
  "check_executions (verified_locals t c s) = check_executions s"
  "changed_paths (verified_locals t c s) = changed_paths s"
  "inherited_pause_reason (verified_locals t c s) = inherited_pause_reason s"
  by (simp_all add: verified_locals_def split: verification_outcome.splits)

lemma record_execution_simps [simp]:
  "policy (record_execution x s) = policy s"
  "file_evidence_map (record_execution x s) = file_evidence_map s"
  "mutation_epoch (record_execution x s) = mutation_epoch s"
  "required_checks (record_execution x s) = required_checks s"
  "check_executions (record_execution x s) = check_executions s @ [x]"
  "passed_checks (record_execution x s) = passed_checks s"
  "last_failed_check (record_execution x s) = last_failed_check s"
  "changed_paths (record_execution x s) = changed_paths s"
  "repair_paths (record_execution x s) = repair_paths s"
  "repair_observation_after_turn (record_execution x s) = repair_observation_after_turn s"
  "inherited_pause_reason (record_execution x s) = inherited_pause_reason s"
  by (simp_all add: record_execution_def)

text \<open>The history does not depend on the fields the replay neither reads nor writes.\<close>

lemma history_ok_frame:
  assumes "history_ok t s" "t \<le> t'" "mutation_epoch s \<le> mutation_epoch s'"
    and "s' = s\<lparr>policy := policy s', file_evidence_map := file_evidence_map s',
               mutation_epoch := mutation_epoch s', changed_paths := changed_paths s',
               repair_paths := repair_paths s',
               repair_observation_after_turn := repair_observation_after_turn s',
               inherited_pause_reason := inherited_pause_reason s'\<rparr>"
  shows "history_ok t' s'"
proof -
  define f :: "controller_state \<Rightarrow> controller_state" where "f = (\<lambda>u. u\<lparr>policy := policy s', file_evidence_map := file_evidence_map s',
    mutation_epoch := mutation_epoch s', changed_paths := changed_paths s',
    repair_paths := repair_paths s', repair_observation_after_turn := repair_observation_after_turn s',
    inherited_pause_reason := inherited_pause_reason s'\<rparr>)"
  have s': "s' = f s" using assms(4) by (simp add: f_def)
  have fields: "check_executions (f s) = check_executions s" "passed_checks (f s) = passed_checks s"
    "last_failed_check (f s) = last_failed_check s" "blank (f s) = f (blank s)"
    by (simp_all add: f_def blank_def)
  from assms(1) obtain l where
    r: "replay_executions (mutation_epoch s) (check_executions s) replay_start (blank s) = Inr (l, s)"
    and l: "derived_passes l = passed_checks s" "derived_last_failure l = last_failed_check s"
    by (auto simp: history_ok_def)
  have "replay_executions (mutation_epoch s) (check_executions s) replay_start (f (blank s)) = Inr (l, f s)"
    by (rule replay_frame[OF _ _ _ _ r]) (simp_all add: f_def record_execution_def)
  then have "replay_executions (mutation_epoch s') (check_executions s) replay_start (f (blank s)) = Inr (l, f s)"
    using replay_mono assms(3) by blast
  then show ?thesis using l assms(1,2) s' fields le_trans by (auto simp: history_ok_def)
qed

lemma execution_of_simps [simp]:
  "ce_turn (execution_of t c) = t" "ce_name (execution_of t c) = vc_name c"
  "ce_mutation_epoch (execution_of t c) = vc_mutation_epoch c"
  "ce_attempt (execution_of t c) = vc_attempt c" "ce_outcome (execution_of t c) = vc_outcome c"
  "ce_diagnostic_sha256 (execution_of t c) = vc_diagnostic_sha256 c"
  by (simp_all add: execution_of_def)

lemma execution_of_valid:
  assumes "validate_verification_check s c = ok"
  shows "validate_check_execution (execution_of t c) (mutation_epoch s) = ok"
  using assms
  by (auto simp: validate_verification_check_ok validate_check_execution_def result_simps
      simp del: checks.simps split: verification_outcome.splits)

lemma history_ok_verify:
  assumes "history_ok t s" "t \<le> t'" "validate_verification_check s c = ok"
  shows "history_ok t' (verified_locals t' c (record_execution (execution_of t' c) s))"
    (is "history_ok t' ?s'")
proof -
  let ?x = "execution_of t' c"
  from assms(1) obtain l where
    r: "replay_executions (mutation_epoch s) (check_executions s) replay_start (blank s) = Inr (l, s)"
    and l: "derived_passes l = passed_checks s" "derived_last_failure l = last_failed_check s"
    and turns: "\<forall>x \<in> set (check_executions s). ce_turn x \<le> t"
    by (auto simp: history_ok_def)
  have prev: "previous_execution l = (if check_executions s = [] then None else Some (last (check_executions s)))"
    using replay_facts(2)[OF r] by (simp add: blank_def)
  have v: "validate_replayed (mutation_epoch s) ?x l s = ok"
  proof -
    have "ce_turn p \<le> t' \<and> ce_mutation_epoch p \<le> mutation_epoch s" if "previous_execution l = Some p" for p
    proof -
      have "p \<in> set (check_executions s)" using that prev by (auto split: if_splits)
      then show ?thesis using turns assms(2) history_facts(4)[OF assms(1)] by fastforce
    qed
    then show ?thesis using assms(3) execution_of_valid[OF assms(3)]
      by (simp add: validate_replayed_ok validate_verification_check_ok)
  qed
  obtain l1 where l1: "replay_outcome ?x l = Inr l1" "derived_passes l1 = passed_checks ?s'"
    "derived_last_failure l1 = last_failed_check ?s'"
    using assms(3) l
    by (auto simp: replay_outcome_def validate_verification_check_ok verified_locals_def
        split: verification_outcome.splits)
  have long: "replay_executions (mutation_epoch s) (check_executions s @ [?x]) replay_start (blank s) =
        Inr (l1, record_execution ?x s)"
    by (simp add: replay_append r v l1(1))
  define f :: "controller_state \<Rightarrow> controller_state" where "f = (\<lambda>u. u\<lparr>passed_checks := passed_checks ?s',
    last_failed_check := last_failed_check ?s', repair_paths := repair_paths ?s',
    repair_observation_after_turn := repair_observation_after_turn ?s'\<rparr>)"
  have "replay_executions (mutation_epoch s) (check_executions s @ [?x]) replay_start (f (blank s)) =
        Inr (l1, f (record_execution ?x s))"
    by (rule replay_frame[OF _ _ _ _ long]) (simp_all add: f_def record_execution_def)
  moreover have "f (record_execution ?x s) = ?s'" "f (blank s) = blank ?s'"
    by (simp_all add: f_def verified_locals_def blank_def record_execution_def
        split: verification_outcome.splits)
  ultimately show ?thesis using l1 turns assms(2) by (auto simp: history_ok_def)
qed

section \<open>The invariant of a session\<close>

definition controller_inv :: "nat \<Rightarrow> controller_state \<Rightarrow> bool" where
  "controller_inv t s \<longleftrightarrow>
     policy s = Evidence \<and> ledger_ok t (file_evidence_map s) \<and> history_ok t s \<and>
     bs_wf (required_checks s) \<and> (\<forall>n \<in> set (required_checks s). validate_check_name n = ok) \<and>
     bs_wf (changed_paths s) \<and> (\<forall>p \<in> set (changed_paths s). validate_workspace_path p = ok) \<and>
     bs_wf (repair_paths s) \<and> set (repair_paths s) \<subseteq> set (changed_paths s) \<and>
     (repair_paths s \<noteq> [] \<longrightarrow> last_failed_check s \<noteq> None) \<and>
     (\<forall>b. repair_observation_after_turn s = Some b \<longrightarrow>
        (\<exists>f. last_failed_check s = Some f \<and> fc_turn f < b \<and> b \<le> t)) \<and>
     (\<forall>r. inherited_pause_reason s = Some r \<longrightarrow> validate_reason r = ok) \<and>
     mutation_epoch s \<le> u64_max"

lemma controller_new_Inr:
  "controller_new pol names = Inr s \<longleftrightarrow>
     (\<forall>n \<in> set names. validate_check_name n = ok) \<and> distinct names \<and> s = pristine pol (sort names)"
  using windows2_any_eq_sorted[of "sort names"]
  by (auto simp: controller_new_def result_simps)

lemma inv_start:
  assumes "controller_new Evidence names = Inr s"
  shows "controller_inv 0 s"
  using assms
  by (auto simp: controller_new_Inr controller_inv_def pristine_def history_ok_def blank_def bs_wf_def
      strict_sorted_iff)

lemma barrier_after_ok:
  assumes "\<forall>b. repair_observation_after_turn s = Some b \<longrightarrow>
        (\<exists>f. last_failed_check s = Some f \<and> fc_turn f < b \<and> b \<le> t)" "t \<le> t'" "barrier_after s t' = Some b"
  shows "\<exists>f. last_failed_check s = Some f \<and> fc_turn f < b \<and> b \<le> t'"
  using assms
  by (fastforce simp: barrier_after_def record_repair_observation_barrier_def raise_barrier_def
      later_than_failure_def split: option.splits if_splits)

lemma inv_observe:
  assumes "controller_inv t s" "t \<le> t'" "typed_observation obs" "apply_observation t' obs s = (s', ok)"
  shows "controller_inv t' s'"
  using assms(4)
proof (rule apply_observation_okE)
  assume s': "s' = s\<lparr>file_evidence_map := observed_map t' obs s,
      repair_observation_after_turn := barrier_after s t'\<rparr>"
    and v: "\<And>ob. obs_detail obs = ObsFile ob \<Longrightarrow> validate_file_observation ob = ok"
  have "ledger_ok t' (observed_map t' obs s)"
    using assms(1) ledger_ok_observed[OF _ assms(2,3) v] by (simp add: controller_inv_def)
  moreover have "history_ok t' s'"
    using assms(1,2) by (intro history_ok_frame[of t s t' s']) (simp_all add: s' controller_inv_def)
  ultimately show ?thesis
    using assms(1,2) barrier_after_ok[of s t t'] by (simp add: s' controller_inv_def)
qed

lemma inv_mutate:
  assumes "controller_inv t s" "t \<le> t'" "typed_effect eff" "apply_workspace_effect t' eff s = (s', ok)"
  shows "controller_inv t' s'"
proof -
  note adm = apply_workspace_effect_okE(1)[OF assms(4)] and s' = apply_workspace_effect_okE(2)[OF assms(4)]
  note shape = validate_workspace_effect_shape_ok[OF admit_effect_ok(2)[OF adm]]
  have "ledger_ok t' (file_evidence_map s')"
    using assms(1-3) shape(1) ledger_ok_mono[of t _ t']
    by (simp add: s' controller_inv_def typed_effect_def list_all_iff ledger_ok_effects)
  moreover have "history_ok t' s'"
    using assms(1,2) by (intro history_ok_frame[of t s t' s']) (simp_all add: s' controller_inv_def)
  moreover have "\<forall>b. repair_observation_after_turn s = Some b \<longrightarrow>
      (\<exists>f. last_failed_check s = Some f \<and> fc_turn f < b \<and> b \<le> t')"
    using assms(1,2) le_trans unfolding controller_inv_def by blast
  ultimately show ?thesis using assms(1) shape
    by (auto simp: s' controller_inv_def effect_ok_def)
qed

lemma inv_verify:
  assumes "controller_inv t s" "t \<le> t'" "apply_verification_check t' c s = (s', ok)"
  shows "controller_inv t' s'"
proof -
  note v = apply_verification_check_okE(1)[OF assms(3)] and s' = apply_verification_check_okE(2)[OF assms(3)]
  have "history_ok t' s'" using assms(1,2) v history_ok_verify[of t s t' c] by (simp add: s' controller_inv_def)
  moreover have "ledger_ok t' (file_evidence_map s')"
    using assms(1,2) ledger_ok_mono[of t _ t'] by (simp add: s' controller_inv_def)
  moreover have "bs_wf (repair_paths s') \<and> set (repair_paths s') \<subseteq> set (changed_paths s') \<and>
     (repair_paths s' \<noteq> [] \<longrightarrow> last_failed_check s' \<noteq> None) \<and>
     (\<forall>b. repair_observation_after_turn s' = Some b \<longrightarrow>
        (\<exists>f. last_failed_check s' = Some f \<and> fc_turn f < b \<and> b \<le> t'))"
    using assms(1,2)
    by (force simp: s' controller_inv_def verified_locals_def split: verification_outcome.splits)
  ultimately show ?thesis using assms(1) by (simp add: s' controller_inv_def)
qed

section \<open>Checkpoints of session states\<close>

text \<open>The one thing that can keep a session state from being restored: an entry for an empty
  file that a resume has made stale.\<close>

definition stale_empty_file :: "controller_state \<Rightarrow> bool" where
  "stale_empty_file s \<longleftrightarrow>
     (\<exists>e \<in> set (bt_values (file_evidence_map s)). \<not> fe_fresh e \<and> fe_total_lines e = 0)"

lemma ranges_cover_file_Nil: "ranges_cover_file n [] \<longleftrightarrow> n = 0"
  by (simp add: ranges_cover_file_def)

lemma validate_file_evidence_entry:
  assumes "entry_ok e"
  shows "validate_file_evidence e = ok \<longleftrightarrow> fe_fresh e \<or> fe_total_lines e \<noteq> 0"
proof -
  have "merge_ranges (fe_covered_ranges e) = fe_covered_ranges e"
    using assms merge_ranges_id_iff[of "fe_total_lines e"] by (simp add: entry_ok_def)
  then show ?thesis using assms
    by (cases "fe_fresh e")
       (auto simp: entry_ok_def validate_file_evidence_def result_simps valid_ranges_def
        ranges_cover_file_Nil simp del: checks.simps)
qed

definition with_entries :: "file_evidence list \<Rightarrow> (string, file_evidence) btree_map \<Rightarrow> (string, file_evidence) btree_map" where
  "with_entries es m = fold (\<lambda>e. bt_insert (fe_path e) e) es m"

lemma restore_evidence_Inr:
  "restore_evidence es s = Inr s' \<longleftrightarrow>
     (\<forall>e \<in> set es. validate_file_evidence e = ok) \<and> distinct (map fe_path es) \<and>
     (\<forall>e \<in> set es. evidence_for s (fe_path e) = None) \<and>
     s' = s\<lparr>file_evidence_map := with_entries es (file_evidence_map s)\<rparr>"
proof (induction es arbitrary: s)
  case (Cons e es)
  show ?case
  proof (cases "validate_file_evidence e = ok \<and> evidence_for s (fe_path e) = None")
    case True
    have "(\<forall>q \<in> set es. bt_get (bt_insert (fe_path e) e (file_evidence_map s)) (fe_path q) = None) \<longleftrightarrow>
          (\<forall>q \<in> set es. bt_get (file_evidence_map s) (fe_path q) = None) \<and> fe_path e \<notin> fe_path ` set es"
      by (auto simp: image_iff split: if_splits)
    then show ?thesis using True
      by (auto simp: Cons.IH evidence_for_def with_entries_def)
  next
    case False
    then show ?thesis by (cases "validate_file_evidence e") (auto split: option.splits)
  qed
qed (auto simp: with_entries_def)

lemma with_entries_rebuild:
  assumes "ledger_ok t m"
  shows "with_entries (bt_values m) [] = m"
proof -
  have keyed: "\<forall>(k, e) \<in> set m. fe_path e = k"
    using assms bt_entries by (fastforce simp: ledger_ok_def)
  then have "with_entries (bt_values m) a = fold (\<lambda>(k, e). bt_insert k e) m a" for a
    by (induction m arbitrary: a) (auto simp: with_entries_def bt_values_def)
  then show ?thesis using bt.rebuild[of m] assms by (simp add: ledger_ok_def)
qed

lemma ledger_paths:
  assumes "ledger_ok t m"
  shows "map fe_path (bt_values m) = map fst m"
  using assms bt_entries by (fastforce simp: ledger_ok_def bt_values_def)

lemma restore_ledger:
  assumes "ledger_ok t m" "file_evidence_map s = []"
  shows "restore_evidence (bt_values m) s = Inr s' \<longleftrightarrow>
      \<not> (\<exists>e \<in> set (bt_values m). \<not> fe_fresh e \<and> fe_total_lines e = 0) \<and>
      s' = s\<lparr>file_evidence_map := m\<rparr>"
proof -
  have entries: "\<forall>e \<in> set (bt_values m). entry_ok e"
    using assms(1) by (auto simp: ledger_ok_def set_bt_values)
  have "distinct (map fe_path (bt_values m))"
    using assms(1) by (simp only: ledger_paths[OF assms(1)]) (simp add: ledger_ok_def bt_wf_distinct)
  then show ?thesis
    using entries validate_file_evidence_entry with_entries_rebuild[OF assms(1)]
    by (auto simp: restore_evidence_Inr evidence_for_def assms(2))
qed

lemma controller_new_restored:
  assumes "bs_wf names" "\<forall>n \<in> set names. validate_check_name n = ok"
  shows "controller_new pol names = Inr (pristine pol names)"
  using assms by (auto simp: controller_new_Inr bs_wf_def strict_sorted_iff sorted_sort_id)

text \<open>The state the replay loop of a checkpoint starts from.\<close>

definition restored :: "controller_state \<Rightarrow> controller_state" where
  "restored s = s\<lparr>passed_checks := [], last_failed_check := None, changed_paths := [],
     repair_paths := [], repair_observation_after_turn := None, inherited_pause_reason := None\<rparr>"

lemma replay_restored:
  assumes "history_ok t s"
  obtains l where "replay_executions (mutation_epoch s) (check_executions s) replay_start
      (restored (blank s)) = Inr (l, restored s)"
    "derived_passes l = passed_checks s" "derived_last_failure l = last_failed_check s"
proof -
  from assms obtain l where
    r: "replay_executions (mutation_epoch s) (check_executions s) replay_start (blank s) = Inr (l, s)"
    and l: "derived_passes l = passed_checks s" "derived_last_failure l = last_failed_check s"
    by (auto simp: history_ok_def)
  have "replay_executions (mutation_epoch s) (check_executions s) replay_start (restored (blank s))
      = Inr (l, restored s)"
    by (rule replay_frame[OF _ _ _ _ r]) (simp_all add: restored_def record_execution_def)
  with l that show ?thesis by blast
qed

lemma pristine_restored:
  "policy s = Evidence \<Longrightarrow>
   (pristine Evidence (required_checks s))\<lparr>mutation_epoch := mutation_epoch s,
      file_evidence_map := file_evidence_map s\<rparr> = restored (blank s)"
  by (simp add: pristine_def restored_def blank_def)

lemma validate_checkpoint_session:
  assumes "controller_inv t s"
  shows "validate_checkpoint (checkpoint s) = Inr s \<longleftrightarrow> \<not> stale_empty_file s"
    and "stale_empty_file s \<Longrightarrow> \<exists>e. validate_checkpoint (checkpoint s) = Inl e"
proof -
  let ?s0 = "(pristine Evidence (required_checks s))\<lparr>mutation_epoch := mutation_epoch s\<rparr>"
  have inv: "policy s = Evidence" "ledger_ok t (file_evidence_map s)" "history_ok t s"
    "bs_wf (required_checks s)" "\<forall>n \<in> set (required_checks s). validate_check_name n = ok"
    "bs_wf (changed_paths s)" "\<forall>p \<in> set (changed_paths s). validate_workspace_path p = ok"
    "bs_wf (repair_paths s)" "set (repair_paths s) \<subseteq> set (changed_paths s)"
    "repair_paths s \<noteq> [] \<longrightarrow> last_failed_check s \<noteq> None"
    "\<forall>r. inherited_pause_reason s = Some r \<longrightarrow> validate_reason r = ok"
    using assms by (auto simp: controller_inv_def)
  have e0: "file_evidence_map ?s0 = []" by (simp add: pristine_def)
  have barrier: "validate_barrier (checkpoint s) = ok"
    using assms by (auto simp: controller_inv_def validate_barrier_def checkpoint_def result_simps
        split: option.splits)
  obtain l where l: "replay_executions (mutation_epoch s) (check_executions s) replay_start
      (restored (blank s)) = Inr (l, restored s)"
    "derived_passes l = passed_checks s" "derived_last_failure l = last_failed_check s"
    using replay_restored[OF inv(3)] .
  have changed: "validate_path_set ''changed_paths'' (changed_paths s) = Inr (changed_paths s)"
    and repair: "validate_path_set ''repair_paths'' (repair_paths s) = Inr (repair_paths s)"
    using inv by (auto simp: result_simps)
  have new: "controller_new Evidence (required_checks s) = Inr (pristine Evidence (required_checks s))"
    using inv by (simp add: controller_new_restored)
  show stale: "stale_empty_file s \<Longrightarrow> \<exists>e. validate_checkpoint (checkpoint s) = Inl e"
  proof -
    assume "stale_empty_file s"
    then obtain e where "restore_evidence (bt_values (file_evidence_map s)) ?s0 = Inl e"
      using restore_ledger[OF inv(2) e0] by (metis stale_empty_file_def sum.exhaust)
    then show ?thesis using inv(1) new
      by (simp add: validate_checkpoint_def checkpoint_def is_evidence_policy_def require_def)
  qed
  have "validate_checkpoint (checkpoint s) = Inr s" if "\<not> stale_empty_file s"
  proof -
    have restore: "restore_evidence (bt_values (file_evidence_map s)) ?s0 = Inr (restored (blank s))"
      unfolding restore_ledger[OF inv(2) e0]
      using that pristine_restored[OF inv(1)] by (simp add: stale_empty_file_def)
    have final: "(restored s)\<lparr>passed_checks := passed_checks s, last_failed_check := last_failed_check s,
        changed_paths := changed_paths s, repair_paths := repair_paths s,
        repair_observation_after_turn := repair_observation_after_turn s,
        inherited_pause_reason := inherited_pause_reason s\<rparr> = s"
      by (simp add: restored_def)
    show ?thesis using inv new restore l changed repair barrier final
      by (auto simp: validate_checkpoint_def checkpoint_def is_evidence_policy_def require_def
          Let_def list_all_iff bs_contains_def split: option.splits)
  qed
  with stale show "validate_checkpoint (checkpoint s) = Inr s \<longleftrightarrow> \<not> stale_empty_file s"
    by auto
qed

lemma inv_pause_reason:
  assumes "controller_inv t s" "validate_reason r = ok"
  shows "controller_inv t (s\<lparr>inherited_pause_reason := Some r\<rparr>)"
proof -
  have "history_ok t (s\<lparr>inherited_pause_reason := Some r\<rparr>)"
    using assms(1) by - (rule history_ok_frame[of t s t], simp_all add: controller_inv_def)
  then show ?thesis using assms by (simp add: controller_inv_def)
qed

definition resumed :: "controller_state \<Rightarrow> controller_state" where
  "resumed s = s\<lparr>file_evidence_map := bt_map_values invalidate_evidence (file_evidence_map s),
                repair_observation_after_turn := None\<rparr>"

lemma pause_and_resume_Inr:
  assumes "controller_inv t s"
  shows "pause_and_resume r s = Inr s' \<longleftrightarrow>
     validate_reason r = ok \<and> \<not> stale_empty_file s \<and>
     s' = resumed (s\<lparr>inherited_pause_reason := Some r\<rparr>)"
proof (cases "validate_reason r = ok")
  case True
  let ?p = "s\<lparr>inherited_pause_reason := Some r\<rparr>"
  have cp: "(checkpoint s)\<lparr>cp_inherited_pause_reason := Some r\<rparr> = checkpoint ?p"
    by (simp add: checkpoint_def)
  have st: "stale_empty_file ?p = stale_empty_file s" by (simp add: stale_empty_file_def)
  show ?thesis
    using True cp st validate_checkpoint_session[OF inv_pause_reason[OF assms True]]
    by (auto simp: pause_and_resume_def checkpoint_for_pause_def resume_conservatively_def resumed_def
        result_simps)
next
  case False
  then show ?thesis
    by (cases "validate_reason r") (auto simp: pause_and_resume_def checkpoint_for_pause_def)
qed

lemma ledger_ok_resumed:
  assumes "ledger_ok t m"
  shows "ledger_ok t (bt_map_values invalidate_evidence m)"
proof -
  have "entry_ok (invalidate_evidence e)" if "entry_ok e" for e
    using that by (simp add: entry_ok_def invalidate_evidence_def separated_def)
  then show ?thesis using assms by (auto simp: ledger_ok_def) (auto simp: invalidate_evidence_def)
qed

lemma inv_resume:
  assumes "controller_inv t s" "pause_and_resume r s = Inr s'"
  shows "controller_inv t s'"
proof -
  have s': "s' = resumed (s\<lparr>inherited_pause_reason := Some r\<rparr>)" and r: "validate_reason r = ok"
    using assms(2) pause_and_resume_Inr[OF assms(1)] by auto
  have "history_ok t s'"
    using assms(1) by - (rule history_ok_frame[of t s t], simp_all add: s' resumed_def controller_inv_def)
  then show ?thesis using assms(1) r
    by (simp add: s' resumed_def controller_inv_def ledger_ok_resumed)
qed

theorem session_inv: "session tr t s \<Longrightarrow> controller_inv t s"
  by (induction rule: session.induct)
     (auto intro: inv_start inv_observe inv_mutate inv_verify inv_resume)

end
