(* ===== verification/Controller_History.thy ===== *)
theory Controller_History
  imports Controller_Session
begin

text \<open>
  The ledger against the history of a session: complete evidence means that every line of
  exactly this file identity was shown to the model by an untruncated page, or written by the
  model itself, no later than the turn the ledger names; and evidence that satisfies a repair
  was read page by page after the failure.
\<close>

definition page_shows :: "event \<Rightarrow> string \<Rightarrow> string \<Rightarrow> nat \<Rightarrow> bool" where
  "page_shows ev p h line =
     (case ev of
        Observed obs \<Rightarrow>
          (case obs_detail obs of
             ObsFile ob \<Rightarrow> fo_path ob = p \<and> fo_sha256 ob = h \<and> line \<in> lines_of (page_ranges ob)
           | _ \<Rightarrow> False)
      | _ \<Rightarrow> False)"

definition authored :: "event \<Rightarrow> string \<Rightarrow> string \<Rightarrow> bool" where
  "authored ev p h =
     (case ev of
        Effected eff \<Rightarrow> list_ex (\<lambda>e. pe_path e = p \<and> pe_after_sha256 e = Some h) (we_effects eff)
      | _ \<Rightarrow> False)"

definition seen_by :: "(nat \<times> event) list \<Rightarrow> nat \<Rightarrow> string \<Rightarrow> string \<Rightarrow> nat \<Rightarrow> bool" where
  "seen_by tr bound p h line \<longleftrightarrow>
     (\<exists>u ev. (u, ev) \<in> set tr \<and> u \<le> bound \<and> (page_shows ev p h line \<or> authored ev p h))"

definition read_between :: "(nat \<times> event) list \<Rightarrow> nat \<Rightarrow> nat \<Rightarrow> string \<Rightarrow> string \<Rightarrow> nat \<Rightarrow> bool" where
  "read_between tr lo hi p h line \<longleftrightarrow>
     (\<exists>u ev. (u, ev) \<in> set tr \<and> lo < u \<and> u \<le> hi \<and> page_shows ev p h line)"

lemma seen_by_le: "seen_by tr b p h line \<Longrightarrow> b \<le> b' \<Longrightarrow> seen_by tr b' p h line"
  unfolding seen_by_def by (meson le_trans)

lemma read_between_le: "read_between tr lo b p h line \<Longrightarrow> b \<le> b' \<Longrightarrow> read_between tr lo b' p h line"
  unfolding read_between_def by (meson le_trans)

lemma seen_by_mono: "seen_by tr b p h line \<Longrightarrow> b \<le> b' \<Longrightarrow> seen_by (x # tr) b' p h line"
  unfolding seen_by_def by (meson le_trans list.set_intros(2))

lemma read_between_mono:
  "read_between tr lo b p h line \<Longrightarrow> b \<le> b' \<Longrightarrow> read_between (x # tr) lo b' p h line"
  unfolding read_between_def by (meson le_trans list.set_intros(2))

lemma page_shows_here:
  "obs_detail obs = ObsFile ob \<Longrightarrow> line \<in> lines_of (page_ranges ob) \<Longrightarrow>
   page_shows (Observed obs) (fo_path ob) (fo_sha256 ob) line"
  by (simp add: page_shows_def)

text \<open>A claim about one ledger entry, generic in what it means to have seen a line by a turn:
  covered lines were seen by now, and a complete entry was seen by its own turn.\<close>

definition covered_by :: "(nat \<Rightarrow> nat \<Rightarrow> bool) \<Rightarrow> nat \<Rightarrow> file_evidence \<Rightarrow> bool" where
  "covered_by seen t e \<longleftrightarrow>
     (\<forall>line \<in> lines_of (fe_covered_ranges e). seen t line) \<and>
     (fe_complete e \<longrightarrow> (\<forall>line \<in> {1..fe_total_lines e}. seen (fe_observed_turn e) line))"

lemma covered_by_mono:
  assumes "covered_by seen t e" "t \<le> t'" "\<And>b b' line. seen b line \<Longrightarrow> b \<le> b' \<Longrightarrow> seen' b' line"
  shows "covered_by seen' t' e"
  using assms unfolding covered_by_def by blast

lemma covered_by_invalidate: "covered_by seen t (invalidate_evidence e)"
  by (simp add: covered_by_def invalidate_evidence_def)

text \<open>Extending an entry by a page keeps the claim when the page itself is seen.\<close>

lemma covered_by_extend:
  assumes ob: "validate_file_observation ob = ok" "fo_total_lines ob \<le> u64_max"
    and e: "fe_total_lines e = fo_total_lines ob"
      "valid_ranges (fo_total_lines ob) (fe_covered_ranges e)" "separated (fe_covered_ranges e)"
    and cov: "covered_by seen t e" "t \<le> t'"
    and mono: "\<And>b b' line. seen b line \<Longrightarrow> b \<le> b' \<Longrightarrow> seen' b' line"
    and page: "\<And>line. line \<in> lines_of (page_ranges ob) \<Longrightarrow> seen' t' line"
  shows "covered_by seen' t' (extend_evidence t' ob e)"
proof -
  let ?e = "extend_evidence t' ob e"
  note ext = extend_evidence_ranges[OF ob(2,1) e(2,3), of t']
  have lines: "\<forall>line \<in> lines_of (fe_covered_ranges ?e). seen' t' line"
    using cov(1) ext(3) mono[OF _ cov(2)] page by (auto simp: covered_by_def)
  have "\<forall>line \<in> {1..fe_total_lines ?e}. seen' (fe_observed_turn ?e) line" if comp: "fe_complete ?e"
  proof (cases "fo_complete ob \<or> \<not> fe_complete e")
    case True
    then have "fe_observed_turn ?e = t'" using comp by auto
    moreover have "{1..fe_total_lines ?e} \<subseteq> lines_of (fe_covered_ranges ?e)"
      using comp ranges_cover_lines[OF ext(1,2)] e(1) by simp
    ultimately show ?thesis using lines by auto
  next
    case False
    then have "fe_observed_turn ?e = fe_observed_turn e" by simp
    then show ?thesis using False cov(1) mono by (auto simp: covered_by_def)
  qed
  with lines show ?thesis by (simp add: covered_by_def)
qed

definition ledger_seen :: "(nat \<times> event) list \<Rightarrow> nat \<Rightarrow> controller_state \<Rightarrow> bool" where
  "ledger_seen tr t s \<longleftrightarrow>
     (\<forall>p e. evidence_for s p = Some e \<longrightarrow>
        covered_by (\<lambda>b line. seen_by tr b p (fe_sha256 e) line) t e)"

definition repair_read :: "(nat \<times> event) list \<Rightarrow> nat \<Rightarrow> controller_state \<Rightarrow> bool" where
  "repair_read tr t s \<longleftrightarrow>
     (\<forall>p e f. evidence_for s p = Some e \<longrightarrow> p \<in> set (repair_paths s) \<longrightarrow>
        last_failed_check s = Some f \<longrightarrow> fe_origin e = ModelRead \<longrightarrow>
        fc_turn f < fe_observed_turn e \<longrightarrow>
        covered_by (\<lambda>b line. read_between tr (fc_turn f) b p (fe_sha256 e) line) t e)"

lemma covered_by_new: "covered_by seen t (new_evidence t' ob)"
  by (simp add: covered_by_def new_evidence_def)

lemma evidence_for_observed:
  "evidence_for (s\<lparr>file_evidence_map := observed_map t obs s, repair_observation_after_turn := b\<rparr>) p =
     (case obs_detail obs of
        ObsFile ob \<Rightarrow> if p = fo_path ob then Some (extend_evidence t ob (base_evidence s t ob))
                       else evidence_for s p
      | _ \<Rightarrow> evidence_for s p)"
  by (simp add: evidence_for_def observed_map_def split: observation_detail.splits)

lemma ledger_seen_observe:
  assumes "controller_inv t s" "ledger_seen tr t s" "t \<le> t'" "typed_observation obs"
    and "apply_observation t' obs s = (s', ok)"
  shows "ledger_seen ((t', Observed obs) # tr) t' s'"
  using assms(5)
proof (rule apply_observation_okE)
  assume s': "s' = s\<lparr>file_evidence_map := observed_map t' obs s,
      repair_observation_after_turn := barrier_after s t'\<rparr>"
    and v: "\<And>ob. obs_detail obs = ObsFile ob \<Longrightarrow> validate_file_observation ob = ok"
  have inv: "ledger_ok t (file_evidence_map s)" using assms(1) by (simp add: controller_inv_def)
  let ?seen = "\<lambda>p h b line. seen_by ((t', Observed obs) # tr) b p h line"
  have old: "covered_by (?seen p (fe_sha256 e)) t' e" if "evidence_for s p = Some e" for p e
    using assms(2,3) that unfolding ledger_seen_def by (blast intro: covered_by_mono seen_by_mono)
  have new: "covered_by (?seen (fo_path ob) (fo_sha256 ob)) t' (extend_evidence t' ob (base_evidence s t' ob))"
    if ob: "obs_detail obs = ObsFile ob" for ob
  proof (rule covered_by_extend)
    show "validate_file_observation ob = ok" by (rule v[OF ob])
    show "fo_total_lines ob \<le> u64_max" using assms(4) ob by (simp add: typed_observation_def)
    show "covered_by (?seen (fo_path ob) (fo_sha256 ob)) t' (base_evidence s t' ob)"
    proof (cases s t' ob rule: base_evidence_cases)
      case fresh_pass
      then show ?thesis by (simp add: covered_by_new)
    next
      case (continued e)
      then show ?thesis using old[OF continued(2)] by (simp add: same_identity_def)
    qed
    show "line \<in> lines_of (page_ranges ob) \<Longrightarrow> ?seen (fo_path ob) (fo_sha256 ob) t' line" for line
      using page_shows_here[OF ob] by (auto simp: seen_by_def)
  qed (use base_evidence_facts[OF inv refl] in \<open>auto intro: seen_by_le\<close>)
  show ?thesis unfolding ledger_seen_def s' evidence_for_observed
    using old new base_evidence_facts(2)[OF inv refl] by (auto split: observation_detail.splits if_splits)
qed

lemma effects_lookup:
  assumes "bt_wf m" "bt_get (fold (effect_map t) es m) p = Some e"
  shows "bt_get m p = Some e \<or>
    (\<exists>ef \<in> set es. \<exists>h. pe_path ef = p \<and> pe_after_sha256 ef = Some h \<and>
       e = authored_evidence t p h (the (pe_after_bytes ef)) (the (pe_after_lines ef)))"
  using assms
proof (induction es arbitrary: m)
  case (Cons ef es)
  have wf: "bt_wf (effect_map t ef m)"
    using Cons.prems(1) by (simp add: effect_map_def split: option.splits)
  show ?case
    using Cons.IH[OF wf] Cons.prems
    by (auto simp: effect_map_def bt_get_remove split: option.splits if_splits)
qed simp

lemma ledger_seen_mutate:
  assumes "controller_inv t s" "ledger_seen tr t s" "t \<le> t'"
    and "apply_workspace_effect t' eff s = (s', ok)"
  shows "ledger_seen ((t', Effected eff) # tr) t' s'"
  unfolding ledger_seen_def
proof (intro allI impI)
  fix p e
  assume "evidence_for s' p = Some e"
  then have "bt_get (fold (effect_map t') (we_effects eff) (file_evidence_map s)) p = Some e"
    by (simp add: apply_workspace_effect_okE(2)[OF assms(4)] evidence_for_def)
  moreover have "bt_wf (file_evidence_map s)" using assms(1) by (simp add: controller_inv_def ledger_ok_def)
  ultimately consider (old) "evidence_for s p = Some e"
    | (new) ef h where "ef \<in> set (we_effects eff)" "pe_path ef = p" "pe_after_sha256 ef = Some h"
        "e = authored_evidence t' p h (the (pe_after_bytes ef)) (the (pe_after_lines ef))"
    using effects_lookup[of "file_evidence_map s" t' "we_effects eff" p e]
    unfolding evidence_for_def by blast
  then show "covered_by (\<lambda>b line. seen_by ((t', Effected eff) # tr) b p (fe_sha256 e) line) t' e"
  proof cases
    case old
    then show ?thesis using assms(2,3) unfolding ledger_seen_def
      by (blast intro: covered_by_mono seen_by_mono)
  next
    case new
    then have "authored (Effected eff) p h" by (auto simp: authored_def list_ex_iff)
    then show ?thesis by (auto simp: new covered_by_def authored_evidence_def seen_by_def)
  qed
qed

lemma ledger_seen_frame:
  assumes "ledger_seen tr t s" "t \<le> t'" "file_evidence_map s' = file_evidence_map s"
  shows "ledger_seen (x # tr) t' s'"
  using assms unfolding ledger_seen_def evidence_for_def by (auto intro: covered_by_mono seen_by_mono)

lemma ledger_seen_resume: "ledger_seen tr t (resumed s)"
  by (auto simp: ledger_seen_def resumed_def evidence_for_def covered_by_invalidate)

lemma session_ledger_seen: "session tr t s \<Longrightarrow> ledger_seen tr t s"
proof (induction rule: session.induct)
  case (start names s)
  then show ?case by (simp add: controller_new_Inr pristine_def ledger_seen_def evidence_for_def)
next
  case (observe tr t s t' obs s')
  then show ?case using session_inv ledger_seen_observe by blast
next
  case (mutate tr t s t' eff s')
  then show ?case using session_inv ledger_seen_mutate by blast
next
  case (verify tr t s t' c s')
  then show ?case using apply_verification_check_okE(2)[OF verify.hyps(3)]
    by (auto intro: ledger_seen_frame)
next
  case (resume tr t s reason s')
  then show ?case
    using pause_and_resume_Inr[OF session_inv[OF resume.hyps(1)]] ledger_seen_resume by simp
qed

section \<open>Repairs\<close>

lemma repair_read_observe:
  assumes "controller_inv t s" "repair_read tr t s" "t \<le> t'" "typed_observation obs"
    and "apply_observation t' obs s = (s', ok)"
  shows "repair_read ((t', Observed obs) # tr) t' s'"
  using assms(5)
proof (rule apply_observation_okE)
  assume s': "s' = s\<lparr>file_evidence_map := observed_map t' obs s,
      repair_observation_after_turn := barrier_after s t'\<rparr>"
    and v: "\<And>ob. obs_detail obs = ObsFile ob \<Longrightarrow> validate_file_observation ob = ok"
  have inv: "ledger_ok t (file_evidence_map s)" using assms(1) by (simp add: controller_inv_def)
  let ?tr = "(t', Observed obs) # tr"
  have old: "covered_by (\<lambda>b line. read_between ?tr (fc_turn f) b p (fe_sha256 e) line) t' e"
    if "evidence_for s p = Some e" "p \<in> set (repair_paths s)" "last_failed_check s = Some f"
      "fe_origin e = ModelRead" "fc_turn f < fe_observed_turn e" for p e f
    using assms(2,3) that unfolding repair_read_def by (blast intro: covered_by_mono read_between_mono)
  have new: "covered_by (\<lambda>b line. read_between ?tr (fc_turn f) b (fo_path ob) (fo_sha256 ob) line) t'
      (extend_evidence t' ob (base_evidence s t' ob))"
    if ob: "obs_detail obs = ObsFile ob" and rp: "fo_path ob \<in> set (repair_paths s)"
      and f: "last_failed_check s = Some f"
      and late: "fc_turn f < fe_observed_turn (extend_evidence t' ob (base_evidence s t' ob))" for ob f
  proof (rule covered_by_extend)
    have t': "fc_turn f < t'"
      using extended_entry_ok(3)[OF inv assms(3) v[OF ob]] late assms(4) ob
      by (simp add: typed_observation_def)
    show "validate_file_observation ob = ok" by (rule v[OF ob])
    show "fo_total_lines ob \<le> u64_max" using assms(4) ob by (simp add: typed_observation_def)
    show "covered_by (\<lambda>b line. read_between ?tr (fc_turn f) b (fo_path ob) (fo_sha256 ob) line) t'
        (base_evidence s t' ob)"
    proof (cases "\<exists>e. evidence_for s (fo_path ob) = Some e \<and>
        \<not> starts_repair_reread s t' (fo_path ob) \<and> same_identity e ob")
      case True
      then obtain e where e: "evidence_for s (fo_path ob) = Some e"
        "\<not> starts_repair_reread s t' (fo_path ob)" "same_identity e ob" by blast
      then have "fe_origin e = ModelRead" "fc_turn f < fe_observed_turn e"
        using t' f rp by (auto simp: starts_repair_reread_def bs_contains_def)
      then show ?thesis using old[OF e(1) rp f] e by (simp add: base_evidence_def same_identity_def)
    next
      case False
      then have "base_evidence s t' ob = new_evidence t' ob"
        by (auto simp: base_evidence_def split: option.splits)
      then show ?thesis by (simp add: covered_by_new)
    qed
    show "line \<in> lines_of (page_ranges ob) \<Longrightarrow>
        read_between ?tr (fc_turn f) t' (fo_path ob) (fo_sha256 ob) line" for line
      using page_shows_here[OF ob] t' by (auto simp: read_between_def)
  qed (use base_evidence_facts[OF inv refl] in \<open>auto intro: read_between_le\<close>)
  show ?thesis unfolding repair_read_def s' evidence_for_observed
    using old new base_evidence_facts(2)[OF inv refl]
    by (auto split: observation_detail.splits if_splits simp del: extend_evidence_simps(8))
qed

lemma repair_read_frame:
  assumes "repair_read tr t s" "t \<le> t'"
    and "set (repair_paths s') \<subseteq> set (repair_paths s)"
    and "\<And>f. last_failed_check s' = Some f \<Longrightarrow> last_failed_check s = Some f"
    and "\<And>p e. evidence_for s' p = Some e \<Longrightarrow> fe_origin e = ModelRead \<Longrightarrow> evidence_for s p = Some e"
  shows "repair_read (x # tr) t' s'"
  unfolding repair_read_def
proof (intro allI impI)
  fix p e f
  assume "evidence_for s' p = Some e" "p \<in> set (repair_paths s')" "last_failed_check s' = Some f"
    and e: "fe_origin e = ModelRead" "fc_turn f < fe_observed_turn e"
  then have "evidence_for s p = Some e" "p \<in> set (repair_paths s)" "last_failed_check s = Some f"
    using assms(3-5) by blast+
  then show "covered_by (\<lambda>b line. read_between (x # tr) (fc_turn f) b p (fe_sha256 e) line) t' e"
    using assms(1,2) e unfolding repair_read_def by (blast intro: covered_by_mono read_between_mono)
qed

lemma repair_read_mutate:
  assumes "controller_inv t s" "repair_read tr t s" "t \<le> t'"
    and "apply_workspace_effect t' eff s = (s', ok)"
  shows "repair_read (x # tr) t' s'"
proof (rule repair_read_frame[OF assms(2,3)])
  note s' = apply_workspace_effect_okE(2)[OF assms(4)]
  show "set (repair_paths s') \<subseteq> set (repair_paths s)" by (simp add: s')
  show "last_failed_check s' = Some f \<Longrightarrow> last_failed_check s = Some f" for f by (simp add: s')
  fix p e
  assume e: "evidence_for s' p = Some e" "fe_origin e = ModelRead"
  then have "bt_get (fold (effect_map t') (we_effects eff) (file_evidence_map s)) p = Some e"
    by (simp add: s' evidence_for_def)
  moreover have "bt_wf (file_evidence_map s)" using assms(1) by (simp add: controller_inv_def ledger_ok_def)
  ultimately show "evidence_for s p = Some e"
    using effects_lookup[of "file_evidence_map s" t' "we_effects eff" p e] e(2)
    by (auto simp: evidence_for_def authored_evidence_def)
qed

lemma repair_read_verify:
  assumes "controller_inv t s" "repair_read tr t s" "t \<le> t'"
    and "apply_verification_check t' c s = (s', ok)"
  shows "repair_read (x # tr) t' s'"
proof (cases "vc_outcome c")
  case Passed
  then show ?thesis
    using apply_verification_check_okE(2)[OF assms(4)]
    by (intro repair_read_frame[OF assms(2,3)])
       (auto simp: verified_locals_def evidence_for_def split: if_splits)
next
  case Failed
  then have f: "last_failed_check s' = Some f \<Longrightarrow> fc_turn f = t'" for f
    using apply_verification_check_okE(2)[OF assms(4)] by (auto simp: verified_locals_def failure_of_def)
  have e: "evidence_for s' p = Some e \<Longrightarrow> fe_observed_turn e \<le> t" for p e
    using apply_verification_check_okE(2)[OF assms(4)] assms(1)
    by (auto simp: controller_inv_def ledger_ok_def evidence_for_def)
  show ?thesis unfolding repair_read_def using f e assms(3) by fastforce
qed

lemma repair_read_resume: "repair_read tr t (resumed s)"
  by (auto simp: repair_read_def resumed_def evidence_for_def covered_by_invalidate)

lemma session_repair_read: "session tr t s \<Longrightarrow> repair_read tr t s"
proof (induction rule: session.induct)
  case (start names s)
  then show ?case by (simp add: controller_new_Inr pristine_def repair_read_def evidence_for_def)
next
  case (observe tr t s t' obs s')
  then show ?case using session_inv repair_read_observe by blast
next
  case (mutate tr t s t' eff s')
  then show ?case using session_inv repair_read_mutate by blast
next
  case (verify tr t s t' c s')
  then show ?case using session_inv repair_read_verify by blast
next
  case (resume tr t s reason s')
  then show ?case
    using pause_and_resume_Inr[OF session_inv[OF resume.hyps(1)]] repair_read_resume by simp
qed

section \<open>Admitted mutations\<close>

text \<open>An admitted requirement on an existing file rests on lines the history shows before the turn.\<close>

lemma admitted_lines_seen:
  assumes "session tr t s" "mutation_block s turn reqs = Inr None"
    and "r \<in> set reqs" "mr_current r = FileId h bytes"
  obtains ev where "evidence_for s (mr_path r) = Some ev" "fe_sha256 ev = h" "fe_total_bytes ev = bytes"
    and "\<forall>line \<in> {1..fe_total_lines ev}. \<exists>u e. (u, e) \<in> set tr \<and> u < turn \<and>
        (page_shows e (mr_path r) h line \<or> authored e (mr_path r) h)"
proof -
  obtain ev where ev: "evidence_for s (mr_path r) = Some ev" "fe_complete ev" "fe_sha256 ev = h"
    "fe_total_bytes ev = bytes" "fe_observed_turn ev < turn"
    using assms(2-4) unfolding mutation_block_None mutation_admissible_def
    by (force simp: requirement_admissible_def)
  have "\<forall>line \<in> {1..fe_total_lines ev}. seen_by tr (fe_observed_turn ev) (mr_path r) h line"
    using session_ledger_seen[OF assms(1)] ev by (auto simp: ledger_seen_def covered_by_def)
  then have "\<forall>line \<in> {1..fe_total_lines ev}. \<exists>u e. (u, e) \<in> set tr \<and> u < turn \<and>
        (page_shows e (mr_path r) h line \<or> authored e (mr_path r) h)"
    unfolding seen_by_def using ev(5) by (meson le_less_trans)
  then show ?thesis using that ev by blast
qed

end
