(* ===== verification/Controller_Props.thy ===== *)
theory Controller_Props
  imports Controller_History "HOL-Library.Code_Target_Nat"
begin

text \<open>
  The properties of the evidence controller. The concrete session of the first section is
  where the properties with hypotheses are applied: a check named \<open>t\<close>, a file read at
  turn 1, rewritten at turn 2, checked without success at turn 3 and read again at turn 4.
\<close>

section \<open>A concrete session\<close>

definition sha_a :: string where "sha_a = replicate 64 (CHR ''a'')"
definition sha_b :: string where "sha_b = replicate 64 (CHR ''b'')"

definition read_of :: "string \<Rightarrow> string \<Rightarrow> nat \<Rightarrow> nat \<Rightarrow> observation" where
  "read_of p h bytes n =
     \<lparr>obs_version = 1, obs_detail = ObsFile
       \<lparr>fo_path = p, fo_sha256 = h, fo_total_bytes = bytes, fo_total_lines = n,
        fo_requested_range = None,
        fo_returned_range = (if n = 0 then None else Some \<lparr>lr_start = 1, lr_end = n\<rparr>),
        fo_complete = True, fo_model_truncated = False\<rparr>\<rparr>"

definition rewrite_a :: workspace_effect where
  "rewrite_a = \<lparr>we_version = 1, we_mutation_epoch = 1, we_effects =
     [\<lparr>pe_path = ''a'', pe_kind = Modified, pe_before_sha256 = Some sha_a,
       pe_after_sha256 = Some sha_b, pe_after_bytes = Some 7, pe_after_lines = Some 2\<rparr>]\<rparr>"

definition failed_t :: verification_check where
  "failed_t = \<lparr>vc_version = 1, vc_name = ''t'', vc_mutation_epoch = 1, vc_attempt = 1,
     vc_outcome = Failed, vc_diagnostic_sha256 = Some sha_a\<rparr>"

definition st0 :: controller_state where "st0 = pristine Evidence [''t'']"
definition st1 :: controller_state where "st1 = fst (apply_observation 1 (read_of ''a'' sha_a 5 1) st0)"
definition st2 :: controller_state where "st2 = fst (apply_workspace_effect 2 rewrite_a st1)"
definition st3 :: controller_state where "st3 = fst (apply_verification_check 3 failed_t st2)"
definition st4 :: controller_state where "st4 = fst (apply_observation 4 (read_of ''a'' sha_b 7 2) st3)"

definition tr4 :: "(nat \<times> event) list" where
  "tr4 = [(4, Observed (read_of ''a'' sha_b 7 2)), (3, Checked failed_t), (2, Effected rewrite_a),
          (1, Observed (read_of ''a'' sha_a 5 1))]"

lemma pairI: "snd x = y \<Longrightarrow> x = (fst x, y)"
  by (cases x) simp

lemma session_st4: "session tr4 4 st4"
proof -
  have s0: "session [] 0 st0" by (rule start[of "[''t'']"]) code_simp
  have a1: "apply_observation 1 (read_of ''a'' sha_a 5 1) st0 = (st1, ok)"
    unfolding st1_def by (rule pairI) code_simp
  have s1: "session [(1, Observed (read_of ''a'' sha_a 5 1))] 1 st1"
    by (rule observe[OF s0 _ _ a1]) (simp_all add: typed_observation_def read_of_def u64_max_def)
  have a2: "apply_workspace_effect 2 rewrite_a st1 = (st2, ok)"
    unfolding st2_def by (rule pairI) code_simp
  have s2: "session [(2, Effected rewrite_a), (1, Observed (read_of ''a'' sha_a 5 1))] 2 st2"
    by (rule mutate[OF s1 _ _ a2]) (simp_all add: typed_effect_def rewrite_a_def u64_max_def)
  have a3: "apply_verification_check 3 failed_t st2 = (st3, ok)"
    unfolding st3_def by (rule pairI) code_simp
  have s3: "session [(3, Checked failed_t), (2, Effected rewrite_a),
      (1, Observed (read_of ''a'' sha_a 5 1))] 3 st3"
    by (rule verify[OF s2 _ a3]) simp
  have a4: "apply_observation 4 (read_of ''a'' sha_b 7 2) st3 = (st4, ok)"
    unfolding st4_def by (rule pairI) code_simp
  show ?thesis unfolding tr4_def
    by (rule observe[OF s3 _ _ a4]) (simp_all add: typed_observation_def read_of_def u64_max_def)
qed

text \<open>A session that reads an empty file, and its pause and resume.\<close>

definition se1 :: controller_state where "se1 = fst (apply_observation 1 (read_of ''e'' sha_a 0 0) st0)"
definition se2 :: controller_state where
  "se2 = (case pause_and_resume ''budget'' se1 of Inl _ \<Rightarrow> se1 | Inr s \<Rightarrow> s)"

lemma session_se1: "session [(1, Observed (read_of ''e'' sha_a 0 0))] 1 se1"
proof -
  have s0: "session [] 0 st0" by (rule start[of "[''t'']"]) code_simp
  have a1: "apply_observation 1 (read_of ''e'' sha_a 0 0) st0 = (se1, ok)"
    unfolding se1_def by (rule pairI) code_simp
  show ?thesis
    by (rule observe[OF s0 _ _ a1]) (simp_all add: typed_observation_def read_of_def u64_max_def)
qed

section \<open>Mutations are never blind\<close>

text \<open>
  C9. Whenever \<open>mutation_block\<close> admits a mutation of an existing file in a state a
  session has reached, the ledger has evidence of exactly the file identity the preparation
  measured, and the session's history shows every one of its lines: at a strictly earlier turn
  an untruncated page of this path and digest showed the line to the model, or the model itself
  wrote this digest to this path.
\<close>

theorem no_blind_mutation:
  assumes "session tr t s" "mutation_block s turn reqs = Inr None"
    and "r \<in> set reqs" "mr_current r = FileId h bytes"
  shows "\<exists>ev. evidence_for s (mr_path r) = Some ev \<and> fe_sha256 ev = h \<and> fe_total_bytes ev = bytes \<and>
     (\<forall>line \<in> {1..fe_total_lines ev}. \<exists>u e. (u, e) \<in> set tr \<and> u < turn \<and>
        (page_shows e (mr_path r) h line \<or> authored e (mr_path r) h))"
  using admitted_lines_seen[OF assms] by metis

theorem no_blind_mutation_witness:
  "mutation_block st4 5 [mr_existing ''a'' sha_b 7] = Inr None \<and>
   (\<exists>u e. (u, e) \<in> set tr4 \<and> u < 5 \<and> (page_shows e ''a'' sha_b 2 \<or> authored e ''a'' sha_b))"
proof -
  have adm: "mutation_block st4 5 [mr_existing ''a'' sha_b 7] = Inr None" by code_simp
  obtain ev where "evidence_for st4 ''a'' = Some ev"
    and lines: "\<forall>line \<in> {1..fe_total_lines ev}. \<exists>u e. (u, e) \<in> set tr4 \<and> u < 5 \<and>
        (page_shows e ''a'' sha_b line \<or> authored e ''a'' sha_b)"
    using no_blind_mutation[OF session_st4 adm, of "mr_existing ''a'' sha_b 7" sha_b 7]
    by (auto simp: mr_existing_def)
  moreover have "map_option fe_total_lines (evidence_for st4 ''a'') = Some 2" by code_simp
  ultimately show ?thesis using adm by auto
qed

text \<open>
  C10. While a failed check stands, an admitted mutation of a file that the failing state had
  changed was preceded by a reread: every line of the file was shown to the model, under the
  identity the preparation measured, by pages of turns strictly between the failure and the
  mutation. What the model wrote itself does not count.
\<close>

theorem repair_needs_reread:
  assumes "session tr t s" "mutation_block s turn reqs = Inr None"
    and "r \<in> set reqs" "mr_current r = FileId h bytes" "mr_path r \<in> set (repair_paths s)"
  shows "\<exists>f ev. last_failed_check s = Some f \<and> evidence_for s (mr_path r) = Some ev \<and>
     (\<forall>line \<in> {1..fe_total_lines ev}. \<exists>u e. (u, e) \<in> set tr \<and> fc_turn f < u \<and> u < turn \<and>
        page_shows e (mr_path r) h line)"
proof -
  obtain ev f where ev: "evidence_for s (mr_path r) = Some ev" "fe_complete ev" "fe_sha256 ev = h"
    "fe_observed_turn ev < turn" "fe_origin ev = ModelRead"
    and f: "last_failed_check s = Some f" "fc_turn f < fe_observed_turn ev"
    using assms(2-5) unfolding mutation_block_None mutation_admissible_def
    by (force simp: requirement_admissible_def)
  have "\<forall>line \<in> {1..fe_total_lines ev}.
      read_between tr (fc_turn f) (fe_observed_turn ev) (mr_path r) h line"
    using session_repair_read[OF assms(1)] ev f assms(5) by (auto simp: repair_read_def covered_by_def)
  then have "\<forall>line \<in> {1..fe_total_lines ev}. \<exists>u e. (u, e) \<in> set tr \<and> fc_turn f < u \<and> u < turn \<and>
        page_shows e (mr_path r) h line"
    unfolding read_between_def using ev(4) by (meson le_less_trans)
  then show ?thesis using ev f by blast
qed

theorem repair_needs_reread_witness:
  "''a'' \<in> set (repair_paths st4) \<and>
   (\<exists>f u e. last_failed_check st4 = Some f \<and> (u, e) \<in> set tr4 \<and> fc_turn f < u \<and> u < 5 \<and>
      page_shows e ''a'' sha_b 1)"
proof -
  have adm: "mutation_block st4 5 [mr_existing ''a'' sha_b 7] = Inr None" by code_simp
  have rp: "''a'' \<in> set (repair_paths st4)" by code_simp
  obtain f ev where "last_failed_check st4 = Some f" "evidence_for st4 ''a'' = Some ev"
    and lines: "\<forall>line \<in> {1..fe_total_lines ev}. \<exists>u e. (u, e) \<in> set tr4 \<and> fc_turn f < u \<and> u < 5 \<and>
        page_shows e ''a'' sha_b line"
    using repair_needs_reread[OF session_st4 adm, of "mr_existing ''a'' sha_b 7" sha_b 7] rp
    by (auto simp: mr_existing_def)
  moreover have "map_option fe_total_lines (evidence_for st4 ''a'') = Some 2" by code_simp
  ultimately show ?thesis using rp by auto
qed

text \<open>
  C14. Admission is exactly its specification: \<open>mutation_block\<close> returns no refusal if
  and only if the policy is \<open>Evidence\<close>, there is at least one requirement, the paths are
  pairwise distinct valid workspace paths, every existing file has complete and fresh evidence
  of its current identity from an earlier turn, and after a failed check an observation at a
  later, already finished turn was made and repair targets were read by the model after it.
\<close>

theorem mutation_block_spec:
  "mutation_block s turn reqs = Inr None \<longleftrightarrow> mutation_admissible s turn reqs"
  by (rule mutation_block_None)

section \<open>Failing calls\<close>

lemma checks_no_panic: "\<forall>c \<in> set cs. c \<noteq> Inl Panicked \<Longrightarrow> checks cs \<noteq> Inl Panicked"
  using checks_err_in[of cs Panicked] by blast

lemma check_all_no_panic: "(\<And>x. f x \<noteq> Inl Panicked) \<Longrightarrow> check_all f xs \<noteq> Inl Panicked"
  using check_all_err[of f xs Panicked] by blast

lemma require_no_panic: "e \<noteq> Panicked \<Longrightarrow> require b e \<noteq> Inl Panicked"
  by (simp add: require_def)

lemma scalar_no_panic:
  "validate_sha256 d l \<noteq> Inl Panicked" "validate_workspace_path p \<noteq> Inl Panicked"
  "validate_check_name n \<noteq> Inl Panicked" "validate_range r b l \<noteq> Inl Panicked"
  "ensure_evidence_policy s \<noteq> Inl Panicked"
  by (simp_all add: validate_sha256_def validate_workspace_path_def validate_check_name_def
      validate_range_def require_no_panic ensure_evidence_policy_def split: harness_policy.splits)

lemma requested_no_panic: "validate_requested_range r \<noteq> Inl Panicked"
  unfolding validate_requested_range_def by (intro checks_no_panic) (simp add: require_no_panic)

lemma observation_no_panic: "validate_file_observation ob \<noteq> Inl Panicked"
  unfolding validate_file_observation_def
  by (intro checks_no_panic)
     (auto simp: scalar_no_panic require_no_panic requested_no_panic Let_def
       scalar_no_panic[THEN not_sym] require_no_panic[THEN not_sym] simp del: checks.simps
       split: option.splits intro!: checks_no_panic)

lemma navigation_no_panic: "validate_navigation_observation ob \<noteq> Inl Panicked"
  unfolding validate_navigation_observation_def
  by (intro checks_no_panic) (simp add: scalar_no_panic require_no_panic)

lemma path_effects_no_panic: "validate_path_effects es seen \<noteq> Inl Panicked"
proof (induction es seen rule: validate_path_effects.induct)
  case (2 e es seen)
  have "validate_path_effect e seen \<noteq> Inl Panicked"
    unfolding validate_path_effect_def
    by (intro checks_no_panic)
       (auto simp: scalar_no_panic require_no_panic split: option.splits path_effect_kind.splits)
  then show ?case using 2 by (auto simp: result_simps)
qed simp

lemma admit_effect_no_panic: "admit_effect s t eff \<noteq> Inl Panicked"
proof -
  have "validate_workspace_effect_shape eff n \<noteq> Inl Panicked" for n
    unfolding validate_workspace_effect_shape_def
    by (intro checks_no_panic) (auto simp: require_no_panic path_effects_no_panic split: option.splits)
  moreover obtain b where "mutation_block s t (map (effect_requirement s) (we_effects eff)) = Inr b"
    using mutation_block_total by blast
  ultimately show ?thesis unfolding admit_effect_def
    by (intro checks_no_panic) (auto simp: scalar_no_panic split: option.splits)
qed

lemma verification_no_panic: "validate_verification_check s c \<noteq> Inl Panicked"
  unfolding validate_verification_check_def
  by (intro checks_no_panic)
     (auto simp: scalar_no_panic require_no_panic
       split: option.splits sum.splits verification_outcome.splits)

text \<open>
  C15. A failing call changes nothing and never panics: when \<open>apply_observation\<close>,
  \<open>apply_workspace_effect\<close> or \<open>apply_verification_check\<close> returns an error, the
  controller state is the one before the call, although the effect loop updates the ledger
  entry by entry with fallible steps, and the \<open>unreachable!\<close> and \<open>expect\<close> of
  the code are never reached.
\<close>

theorem errors_leave_state:
  "(apply_observation t obs s = (s1, Inl e1) \<longrightarrow> s1 = s \<and> e1 \<noteq> Panicked) \<and>
   (apply_workspace_effect t eff s = (s2, Inl e2) \<longrightarrow> s2 = s \<and> e2 \<noteq> Panicked) \<and>
   (apply_verification_check t c s = (s3, Inl e3) \<longrightarrow> s3 = s \<and> e3 \<noteq> Panicked)"
proof (intro conjI impI)
  assume "apply_observation t obs s = (s1, Inl e1)"
  then have "s1 = s \<and> e1 \<noteq> Panicked"
    using observation_no_panic navigation_no_panic scalar_no_panic(5)[of s]
    by (auto simp: apply_observation_def apply_file_observation_def Let_def require_def
        split: sum.splits observation_detail.splits if_splits)
  then show "s1 = s" "e1 \<noteq> Panicked" by simp_all
next
  assume "apply_workspace_effect t eff s = (s2, Inl e2)"
  then have "s2 = s \<and> e2 \<noteq> Panicked"
    using admit_effect_no_panic by (auto simp: apply_workspace_effect_eq split: sum.splits)
  then show "s2 = s" "e2 \<noteq> Panicked" by simp_all
next
  assume "apply_verification_check t c s = (s3, Inl e3)"
  then have "s3 = s \<and> e3 \<noteq> Panicked"
    using verification_no_panic by (auto simp: apply_verification_check_eq split: sum.splits)
  then show "s3 = s" "e3 \<noteq> Panicked" by simp_all
qed

lemma failing_calls:
  "snd (apply_observation 5 (read_of ''/a'' sha_a 5 1) st4) \<noteq> ok"
  "snd (apply_workspace_effect 5 rewrite_a st4) \<noteq> ok"
  "snd (apply_verification_check 5 failed_t st4) \<noteq> ok"
  by code_simp+

theorem errors_leave_state_witness:
  "\<exists>e1 e2 e3. apply_observation 5 (read_of ''/a'' sha_a 5 1) st4 = (st4, Inl e1) \<and> e1 \<noteq> Panicked \<and>
     apply_workspace_effect 5 rewrite_a st4 = (st4, Inl e2) \<and> e2 \<noteq> Panicked \<and>
     apply_verification_check 5 failed_t st4 = (st4, Inl e3) \<and> e3 \<noteq> Panicked"
proof -
  have neg: "snd r \<noteq> ok \<Longrightarrow> \<exists>s' e. r = (s', Inl e)"
    for r :: "controller_state \<times> controller_error check"
    by (cases r; cases "snd r") auto
  obtain s1 e1 s2 e2 s3 e3 where
    "apply_observation 5 (read_of ''/a'' sha_a 5 1) st4 = (s1, Inl e1)"
    "apply_workspace_effect 5 rewrite_a st4 = (s2, Inl e2)"
    "apply_verification_check 5 failed_t st4 = (s3, Inl e3)"
    using neg[of "apply_observation 5 (read_of ''/a'' sha_a 5 1) st4"]
      neg[of "apply_workspace_effect 5 rewrite_a st4"] neg[of "apply_verification_check 5 failed_t st4"]
    by (metis (mono_tags) failing_calls)
  then show ?thesis using errors_leave_state by metis
qed

section \<open>The ledger is the history\<close>

fun executions_in :: "(nat \<times> event) list \<Rightarrow> check_execution list" where
  "executions_in [] = []"
| "executions_in ((t, Checked c) # tr) = executions_in tr @ [execution_of t c]"
| "executions_in (_ # tr) = executions_in tr"

fun effects_in :: "(nat \<times> event) list \<Rightarrow> nat" where
  "effects_in [] = 0"
| "effects_in ((t, Effected eff) # tr) = effects_in tr + 1"
| "effects_in (_ # tr) = effects_in tr"

text \<open>
  C16. Epochs and executions are counted from the history, across pauses and resumes: the
  mutation epoch of a reached state is the number of workspace effects applied so far, and its
  execution list is exactly the sequence of checks that ran, in order.
\<close>

theorem ledger_is_history:
  assumes "session tr t s"
  shows "mutation_epoch s = effects_in tr \<and> check_executions s = executions_in tr"
  using assms
proof (induction rule: session.induct)
  case (start names s)
  then show ?case by (simp add: controller_new_Inr pristine_def)
next
  case (observe tr t s t' obs s')
  then show ?case by (auto elim: apply_observation_okE)
next
  case (mutate tr t s t' eff s')
  then show ?case using apply_workspace_effect_okE(2)[OF mutate.hyps(4)] by simp
next
  case (verify tr t s t' c s')
  then show ?case using apply_verification_check_okE(2)[OF verify.hyps(3)] by simp
next
  case (resume tr t s reason s')
  then show ?case
    using pause_and_resume_Inr[OF session_inv[OF resume.hyps(1)]] by (simp add: resumed_def)
qed

theorem ledger_is_history_witness:
  "effects_in tr4 = 1 \<and> mutation_epoch st4 = 1 \<and> length (check_executions st4) = 1"
  using ledger_is_history[OF session_st4] by (simp add: tr4_def)

lemma replay_attempts:
  assumes "replay_executions e xs l s = Inr (l', s')" "bs_wf (executed_checks s)"
  shows "map ce_attempt (filter (\<lambda>x. ce_name x = n) xs) =
           [attempts_for s n + 1 ..< attempts_for s' n + 1]"
  using assms
proof (induction xs arbitrary: l s)
  case (Cons x xs)
  let ?s1 = "record_execution x s"
  from Cons.prems(1) obtain l1 where step: "validate_replayed e x l s = ok"
    and rest: "replay_executions e xs l1 ?s1 = Inr (l', s')"
    by (auto simp: result_simps)
  have wf: "bs_wf (executed_checks ?s1)" using Cons.prems(2) by (simp add: record_execution_def)
  have att: "attempts_for ?s1 n = (if ce_name x = n then ce_attempt x else attempts_for s n)"
    by (simp add: attempts_for_def record_execution_def)
  have "attempts_for ?s1 n \<le> attempts_for s' n" using replay_facts(4)[OF rest wf] by simp
  then show ?case using Cons.IH[OF rest wf] step att
    by (auto simp: validate_replayed_ok upt_conv_Cons)
qed simp

lemma history_attempts:
  assumes "history_ok t s"
  shows "map ce_attempt (filter (\<lambda>x. ce_name x = n) (check_executions s)) = [1 ..< attempts_for s n + 1]"
proof -
  from assms obtain l where
    "replay_executions (mutation_epoch s) (check_executions s) replay_start (blank s) = Inr (l, s)"
    by (auto simp: history_ok_def)
  from replay_attempts[OF this, of n] show ?thesis by (simp add: blank_def attempts_for_def)
qed

text \<open>
  C17. No named check executes twice at one mutation epoch, and the attempts of a name are
  numbered 1, 2, 3, \<dots> without a gap: \<open>attempts_for\<close> is the number of its executions.
\<close>

theorem checks_once_per_epoch:
  assumes "session tr t s"
  shows "distinct (map coordinate (check_executions s)) \<and>
    map ce_attempt (filter (\<lambda>x. ce_name x = n) (check_executions s)) = [1 ..< attempts_for s n + 1]"
proof -
  have "history_ok t s" using session_inv[OF assms] by (simp add: controller_inv_def)
  then show ?thesis using history_facts(3) history_attempts by simp
qed

theorem checks_once_per_epoch_witness:
  "map ce_attempt (filter (\<lambda>x. ce_name x = ''t'') (check_executions st4)) = [1]"
proof -
  have "attempts_for st4 ''t'' = 1" by code_simp
  then show ?thesis using checks_once_per_epoch[OF session_st4, of "''t''"] by simp
qed

text \<open>
  \<open>admit_check\<close> admits a name exactly when it is configured, has not executed at the
  current epoch, and the 32-bit attempt counter does not overflow; the attempt it hands out is
  one more than the executions of the name so far.
\<close>

theorem admit_check_spec:
  assumes "session tr t s"
  shows "admit_check s n = Inr k \<longleftrightarrow>
     n \<in> set (required_checks s) \<and> (n, mutation_epoch s) \<notin> coordinate ` set (check_executions s) \<and>
     k = length (filter (\<lambda>x. ce_name x = n) (check_executions s)) + 1 \<and> k \<le> u32_max"
proof -
  note inv = session_inv[OF assms]
  then have h: "history_ok t s" by (simp add: controller_inv_def)
  show ?thesis
    using inv history_facts(1,2)[OF h]
    by (auto simp: admit_check_def controller_inv_def is_evidence_policy_def bs_contains_def
        check_was_executed_def checked_add_def split: option.splits)
qed

theorem admit_check_spec_witness:
  "admit_check st1 ''t'' = Inr 1 \<and> (\<forall>k. admit_check st4 ''t'' \<noteq> Inr k)"
proof -
  have "(''t'', mutation_epoch st4) \<in> coordinate ` set (check_executions st4)" by code_simp
  then have "\<forall>k. admit_check st4 ''t'' \<noteq> Inr k" using admit_check_spec[OF session_st4, of "''t''"] by auto
  moreover have "admit_check st1 ''t'' = Inr 1" by code_simp
  ultimately show ?thesis by simp
qed

section \<open>Recorded refusals\<close>

lemma requirements_block_Some:
  "requirements_block s t rs = Inr (Some b) \<Longrightarrow> \<exists>r \<in> set rs. requirement_block s t r = Inr (Some b)"
  by (induction rs) (auto split: sum.splits option.splits)

lemma mk_block_simps [simp]:
  "cb_version (mk_block s r ps n w) = CONTROLLER_RECORD_VERSION"
  "cb_mutation_epoch (mk_block s r ps n w) = mutation_epoch s"
  "cb_reason (mk_block s r ps n w) = r" "cb_paths (mk_block s r ps n w) = ps"
  "cb_check_name (mk_block s r ps n w) = n" "cb_witness (mk_block s r ps n w) = w"
  by (simp_all add: mk_block_def)

lemma validate_block_ok:
  "policy s = Evidence \<Longrightarrow>
   validate_block s t (mk_block s reason paths name wit) = ok \<longleftrightarrow>
     (\<forall>p \<in> set paths. validate_workspace_path p = ok) \<and> bs_wf paths \<and>
     (case reason of
        BlindMutation \<Rightarrow> validate_blind_block s (mk_block s reason paths name wit)
      | SameTurnObservation \<Rightarrow> validate_same_turn_block s t (mk_block s reason paths name wit)
      | StaleObservation \<Rightarrow> validate_stale_block s (mk_block s reason paths name wit)
      | UnsupportedMutation \<Rightarrow> validate_unsupported_block s (mk_block s reason paths name wit)
      | RepairInspectionRequired \<Rightarrow> validate_repair_block s t (mk_block s reason paths name wit)
      | NoEffect \<Rightarrow> validate_no_effect_block (mk_block s reason paths name wit)
      | SyntaxRegression \<Rightarrow> validate_syntax_block (mk_block s reason paths name wit)
      | RepeatedCheck \<Rightarrow> validate_repeated_block s (mk_block s reason paths name wit)) = ok"
  by (auto simp: validate_block_def result_simps ensure_evidence_policy_def simp del: checks.simps)

lemma replay_attempts_bound:
  "replay_executions e xs l s = Inr (l', s') \<Longrightarrow> attempts_for s n \<le> u32_max \<Longrightarrow>
   attempts_for s' n \<le> u32_max"
proof (induction xs arbitrary: l s)
  case (Cons x xs)
  then obtain l1 where "validate_replayed e x l s = ok"
    "replay_executions e xs l1 (record_execution x s) = Inr (l', s')"
    by (auto simp: result_simps)
  moreover from this Cons.prems have "attempts_for (record_execution x s) n \<le> u32_max"
    by (auto simp: validate_replayed_ok attempts_for_def record_execution_def)
  ultimately show ?case using Cons.IH by blast
qed simp

lemma attempts_for_bound:
  assumes "history_ok t s"
  shows "attempts_for s n \<le> u32_max"
proof -
  from assms obtain l where
    "replay_executions (mutation_epoch s) (check_executions s) replay_start (blank s) = Inr (l, s)"
    by (auto simp: history_ok_def)
  from replay_attempts_bound[OF this, of n] show ?thesis by (simp add: blank_def attempts_for_def)
qed

lemma bs_wf_single [simp]: "bs_wf [p]"
  by (simp add: bs_wf_def)

lemma requirement_block_validates:
  assumes inv: "controller_inv t s" and "t \<le> turn" "validate_workspace_path (mr_path r) = ok"
    and "\<not> unsupported_identity (mr_current r)" "requirement_block s turn r = Inr (Some b)"
    and barrier: "\<forall>f. last_failed_check s = Some f \<longrightarrow> barrier_satisfied s f turn"
  shows "validate_block s turn b = ok"
proof -
  have pol: "policy s = Evidence" using inv by (simp add: controller_inv_def)
  obtain h n where cur: "mr_current r = FileId h n" "is_sha256 h"
    using assms(4,5) by (auto simp: requirement_block_def unsupported_identity_def split: path_identity.splits)
  show ?thesis
  proof (cases "evidence_for s (mr_path r)")
    case None
    then have "b = mk_block s BlindMutation [mr_path r] None None"
      using assms(5) cur by (simp add: requirement_block_def)
    then show ?thesis using None assms(3) pol
      by (simp add: validate_block_ok validate_blind_block_def require_ledger_block_shape_def require_def)
  next
    case (Some ev)
    then have ev: "entry_ok ev" "fe_observed_turn ev \<le> t"
      using inv ledger_ok_lookup by (auto simp: controller_inv_def evidence_for_def)
    have repair: "last_failed_check s \<noteq> None" if "mr_path r \<in> set (repair_paths s)"
      using inv that by (auto simp: controller_inv_def)
    show ?thesis
      using assms(5) cur Some ev repair barrier pol assms(2,3)
      by (auto simp: requirement_block_def validate_block_ok validate_blind_block_def entry_ok_def
          require_ledger_block_shape_def require_def validate_same_turn_block_def
          validate_stale_block_def validate_stale_witness_def validate_prepared_path_identity_def
          validate_sha256_def validate_repair_block_def bs_contains_def inspected_after_failure_def
          Let_def split: if_splits option.splits)
  qed
qed

text \<open>
  What the controller refuses it also accepts as a recorded refusal: a block that
  \<open>mutation_block\<close> returns in a reached state for valid workspace paths passes
  \<open>validate_block\<close> at the same turn, and so does every block of \<open>admit_check\<close>
  for a valid check name. A trace that records the refusals of a session therefore validates.
\<close>

theorem refusals_validate:
  assumes "session tr t s" "t \<le> turn"
  shows "(mutation_block s turn reqs = Inr (Some b) \<longrightarrow>
            (\<forall>r \<in> set reqs. validate_workspace_path (mr_path r) = ok) \<longrightarrow> validate_block s turn b = ok) \<and>
         (admit_check s n = Inl c \<longrightarrow> validate_check_name n = ok \<longrightarrow> validate_block s turn c = ok)"
proof (intro conjI impI)
  note inv = session_inv[OF assms(1)]
  then have pol: "policy s = Evidence" by (simp add: controller_inv_def)
  assume b: "mutation_block s turn reqs = Inr (Some b)"
    and valid: "\<forall>r \<in> set reqs. validate_workspace_path (mr_path r) = ok"
  show "validate_block s turn b = ok"
  proof (cases "scan_requirements reqs []")
    case (Inl p)
    then have "validate_workspace_path p = ok" using valid scan_requirements_Inl by blast
    then show ?thesis using b Inl pol
      by (auto simp: mutation_block_def is_evidence_policy_def unsupported_block_def validate_block_ok
          validate_unsupported_block_def)
  next
    case (Inr seen)
    have seen: "bs_wf seen" "set seen = mr_path ` set reqs"
      using scan_requirements_seen[OF Inr] by simp_all
    have sup: "\<forall>r \<in> set reqs. \<not> unsupported_identity (mr_current r)"
      using Inr by (simp add: scan_requirements_Inr)
    show ?thesis
    proof (cases "seen = [] \<or> (\<exists>f. last_failed_check s = Some f \<and> \<not> barrier_satisfied s f turn)")
      case True
      then show ?thesis using b Inr pol seen valid
        by (auto simp: mutation_block_def is_evidence_policy_def unsupported_block_def validate_block_ok
            validate_unsupported_block_def validate_repair_block_def require_def split: if_splits)
    next
      case False
      then have "requirements_block s turn reqs = Inr (Some b)"
        using b Inr pol by (auto simp: mutation_block_def is_evidence_policy_def split: option.splits)
      then obtain r where "r \<in> set reqs" "requirement_block s turn r = Inr (Some b)"
        using requirements_block_Some by blast
      then show ?thesis using requirement_block_validates[OF inv assms(2)] valid sup False by blast
    qed
  qed
next
  note inv = session_inv[OF assms(1)]
  assume "admit_check s n = Inl c" "validate_check_name n = ok"
  then show "validate_block s turn c = ok" using inv attempts_for_bound[of t s n]
    by (auto simp: admit_check_def controller_inv_def is_evidence_policy_def unsupported_block_def
        validate_block_ok validate_unsupported_block_def validate_repeated_block_def require_def
        checked_add_def split: if_splits)
qed

theorem refusals_validate_witness:
  "\<exists>b c. mutation_block st4 4 [mr_existing ''a'' sha_b 7] = Inr (Some b) \<and> validate_block st4 4 b = ok \<and>
     admit_check st4 ''t'' = Inl c \<and> validate_block st4 4 c = ok"
proof -
  have refused: "mutation_block st4 4 [mr_existing ''a'' sha_b 7] \<noteq> Inr None" by code_simp
  have repeated: "\<not> is_ok (admit_check st4 ''t'')" by code_simp
  obtain b where b: "mutation_block st4 4 [mr_existing ''a'' sha_b 7] = Inr (Some b)"
    using refused mutation_block_total[of st4 4 "[mr_existing ''a'' sha_b 7]"]
    by (metis option.exhaust)
  obtain c where c: "admit_check st4 ''t'' = Inl c"
    using repeated by (cases "admit_check st4 ''t''") (simp_all add: is_ok_def)
  have "validate_workspace_path ''a'' = ok" "validate_check_name ''t'' = ok" by code_simp+
  then have "validate_block st4 4 b = ok" "validate_block st4 4 c = ok"
    using refusals_validate[OF session_st4 order_refl, of "[mr_existing ''a'' sha_b 7]" b "''t''" c] b c
    by (simp_all add: mr_existing_def)
  with b c show ?thesis by blast
qed

section \<open>Checkpoints\<close>

text \<open>
  C18. Checkpoints round-trip exactly up to one case: restoring the checkpoint of a reached state
  gives back that very state, every derived field included, if and only if the ledger has no
  stale entry for an empty file; otherwise the restore fails.
\<close>

theorem checkpoint_roundtrip:
  assumes "session tr t s"
  shows "from_checkpoint (checkpoint s) = Inr s \<longleftrightarrow> \<not> stale_empty_file s"
  unfolding from_checkpoint_def by (rule validate_checkpoint_session(1)[OF session_inv[OF assms]])

theorem checkpoint_roundtrip_witness: "from_checkpoint (checkpoint st4) = Inr st4"
proof -
  have "\<not> stale_empty_file st4" by code_simp
  then show ?thesis using checkpoint_roundtrip[OF session_st4] by simp
qed



lemma resumes:
  "is_ok (pause_and_resume ''budget'' st4)" "is_ok (pause_and_resume ''budget'' se1)"
  by code_simp+


lemma pause_se1: "pause_and_resume ''budget'' se1 = Inr se2"
  using resumes(2) unfolding se2_def is_ok_def by (cases "pause_and_resume ''budget'' se1") auto


text \<open>
  A resumed session that had read an empty file cannot checkpoint: when the ledger of a
  reached state holds evidence for a file of zero lines, the state
  \<open>resume_conservatively\<close> builds from its pause checkpoint writes checkpoints that
  \<open>from_checkpoint\<close> rejects, and a second pause of the segment cannot be resumed. The
  resume clears \<open>complete\<close> while an empty file is always covered, so the entry no longer
  passes \<open>validate_file_evidence\<close>.
\<close>

theorem resumed_empty_file_unrestorable:
  assumes "session tr t s" "evidence_for s p = Some e" "fe_total_lines e = 0"
    and "pause_and_resume reason s = Inr s'"
  shows "(\<forall>s''. from_checkpoint (checkpoint s') \<noteq> Inr s'') \<and>
         (\<forall>reason' s''. pause_and_resume reason' s' \<noteq> Inr s'')"
proof -
  note inv = session_inv[OF assms(1)]
  have s': "s' = resumed (s\<lparr>inherited_pause_reason := Some reason\<rparr>)"
    using assms(4) pause_and_resume_Inr[OF inv] by simp
  have "invalidate_evidence e \<in> set (bt_values (file_evidence_map s'))"
    using assms(2) inv by (auto simp: s' resumed_def set_bt_values controller_inv_def ledger_ok_def evidence_for_def)
  moreover have "\<not> fe_fresh (invalidate_evidence e)" "fe_total_lines (invalidate_evidence e) = 0"
    using assms(3) by (simp_all add: invalidate_evidence_def)
  ultimately have stale: "stale_empty_file s'" by (auto simp: stale_empty_file_def)
  have inv': "controller_inv t s'" by (rule inv_resume[OF inv assms(4)])
  have "\<forall>s''. from_checkpoint (checkpoint s') \<noteq> Inr s''"
    using validate_checkpoint_session(2)[OF inv' stale] by (auto simp: from_checkpoint_def)
  moreover have "\<forall>reason' s''. pause_and_resume reason' s' \<noteq> Inr s''"
    using stale pause_and_resume_Inr[OF inv'] by simp
  ultimately show ?thesis by blast
qed

theorem resumed_empty_file_unrestorable_witness:
  "is_ok (from_checkpoint (checkpoint se1)) \<and> (\<forall>s''. from_checkpoint (checkpoint se2) \<noteq> Inr s'')"
proof -
  have "\<exists>e. evidence_for se1 ''e'' = Some e \<and> fe_total_lines e = 0"
  proof -
    have "map_option fe_total_lines (evidence_for se1 ''e'') = Some 0" by code_simp
    then show ?thesis by auto
  qed
  then have "\<forall>s''. from_checkpoint (checkpoint se2) \<noteq> Inr s''"
    using resumed_empty_file_unrestorable[OF session_se1 _ _ pause_se1] by blast
  moreover have "is_ok (from_checkpoint (checkpoint se1))" by code_simp
  ultimately show ?thesis by simp
qed

lemma with_entries_get:
  "bt_get (with_entries es m) p = Some e \<Longrightarrow> bt_get m p = Some e \<or> e \<in> set es \<and> fe_path e = p"
  by (induction es arbitrary: m) (fastforce simp: with_entries_def split: if_splits)+

lemma replay_keeps:
  "replay_executions e xs l s = Inr (l', s') \<Longrightarrow>
     policy s' = policy s \<and> file_evidence_map s' = file_evidence_map s \<and>
     required_checks s' = required_checks s"
  by (induction xs arbitrary: l s) (fastforce simp: result_simps)+

text \<open>
  What \<open>from_checkpoint\<close> accepts from disk is consistent, whoever wrote it: the
  restored state writes back the very same checkpoint, runs under the evidence policy, repeats
  no check at one epoch, numbers the attempts of every name from 1 without a gap, keys every
  ledger entry by its own path and holds only entries that pass the entry validator, and its
  repair targets are among its changed paths.
\<close>

theorem from_checkpoint_sound:
  assumes "from_checkpoint cp = Inr s"
  shows "checkpoint s = cp \<and> policy s = Evidence \<and>
    distinct (map coordinate (check_executions s)) \<and>
    map ce_attempt (filter (\<lambda>x. ce_name x = n) (check_executions s)) = [1 ..< attempts_for s n + 1] \<and>
    (evidence_for s p = Some e \<longrightarrow> fe_path e = p \<and> validate_file_evidence e = ok) \<and>
    set (repair_paths s) \<subseteq> set (changed_paths s)"
proof -
  obtain names s1 l s2 where new: "s1 = pristine Evidence names" "cp_harness_policy cp = Evidence"
    and ev: "\<forall>e \<in> set (cp_file_evidence cp). validate_file_evidence e = ok"
    and rep: "replay_executions (cp_mutation_epoch cp) (cp_check_executions cp) replay_start
      (s1\<lparr>mutation_epoch := cp_mutation_epoch cp,
          file_evidence_map := with_entries (cp_file_evidence cp) []\<rparr>) = Inr (l, s2)"
    and sub: "set (cp_repair_paths cp) \<subseteq> set (cp_changed_paths cp)"
    and s: "s = s2\<lparr>passed_checks := cp_passed_checks cp, last_failed_check := cp_last_failed_check cp,
      changed_paths := cp_changed_paths cp, repair_paths := cp_repair_paths cp,
      repair_observation_after_turn := cp_repair_observation_after_turn cp,
      inherited_pause_reason := cp_inherited_pause_reason cp\<rparr>" "checkpoint s = cp"
    using assms
    by (auto simp: from_checkpoint_def validate_checkpoint_def result_simps Let_def controller_new_Inr
        restore_evidence_Inr is_evidence_policy_def list_all_iff bs_contains_def pristine_def
        subset_iff simp del: checks.simps)
  have execs: "check_executions s2 = cp_check_executions cp"
    and dist: "distinct (map coordinate (cp_check_executions cp))"
    using replay_facts(1,5)[OF rep] by (simp_all add: new pristine_def)
  have att: "map ce_attempt (filter (\<lambda>x. ce_name x = n) (cp_check_executions cp)) = [1 ..< attempts_for s2 n + 1]"
    using replay_attempts[OF rep, of n] by (simp add: new pristine_def attempts_for_def)
  have same: "attempts_for s n = attempts_for s2 n" by (simp add: s(1) attempts_for_def)
  have entry: "fe_path e = p \<and> validate_file_evidence e = ok" if "evidence_for s p = Some e"
    using that replay_keeps[OF rep] with_entries_get[of "cp_file_evidence cp" "[]" p e] ev
    by (auto simp: s(1) evidence_for_def)
  show ?thesis using execs dist att same entry sub s(2) replay_keeps[OF rep] new
    by (simp add: s(1) pristine_def)
qed

theorem from_checkpoint_sound_witness:
  "\<exists>s. from_checkpoint (checkpoint st4) = Inr s \<and> checkpoint s = checkpoint st4 \<and>
     set (repair_paths s) \<subseteq> set (changed_paths s)"
proof -
  have "is_ok (from_checkpoint (checkpoint st4))" by code_simp
  then obtain s where "from_checkpoint (checkpoint st4) = Inr s" by (auto simp: is_ok_iff)
  then show ?thesis using from_checkpoint_sound[of "checkpoint st4" s] by blast
qed

section \<open>Recovery packets\<close>

lemma validate_failed_check_mono:
  "validate_failed_check f e = ok \<Longrightarrow> e \<le> e' \<Longrightarrow> validate_failed_check f e' = ok"
  by (auto simp: validate_failed_check_def result_simps simp del: checks.simps)

lemma replay_failure_valid:
  assumes "replay_executions e xs l s = Inr (l', s')"
    and "\<forall>f. derived_last_failure l = Some f \<longrightarrow> validate_failed_check f e = ok"
  shows "\<forall>f. derived_last_failure l' = Some f \<longrightarrow> validate_failed_check f e = ok"
  using assms
proof (induction xs arbitrary: l s)
  case (Cons x xs)
  then obtain l1 where x: "validate_check_execution x e = ok" and l1: "replay_outcome x l = Inr l1"
    and rest: "replay_executions e xs l1 (record_execution x s) = Inr (l', s')"
    by (auto simp: result_simps validate_replayed_ok)
  have "\<forall>f. derived_last_failure l1 = Some f \<longrightarrow> validate_failed_check f e = ok"
  proof (cases "ce_outcome x")
    case Passed
    then show ?thesis using l1 Cons.prems(2) by (auto simp: replay_outcome_def split: if_splits)
  next
    case Failed
    then show ?thesis using l1 x
      by (auto simp: replay_outcome_def failure_of_def validate_failed_check_def
          validate_check_execution_def result_simps simp del: checks.simps split: option.splits)
  qed
  then show ?case using Cons.IH[OF rest] by blast
qed simp

lemma session_failure_valid:
  assumes "history_ok t s" "last_failed_check s = Some f"
  shows "validate_failed_check f (mutation_epoch s) = ok"
proof -
  from assms(1) obtain l where
    "replay_executions (mutation_epoch s) (check_executions s) replay_start (blank s) = Inr (l, s)"
    "derived_last_failure l = last_failed_check s"
    by (auto simp: history_ok_def)
  then show ?thesis using replay_failure_valid assms(2) by fastforce
qed

text \<open>
  C27. Every reached state renders its recovery packet for every pause reason that is accepted,
  with any JSON printer; the packet tells the model to reread exactly the changed paths, the
  repair targets and the files whose evidence is stale.
\<close>

theorem recovery_packet_renders:
  assumes "session tr t s" "validate_reason reason = ok"
  shows "\<exists>p m. controller_recovery_packet s reason = Inr p \<and> render_recovery_packet to_json p = Inr m \<and>
    set (rp_reread_paths p) = set (changed_paths s) \<union> set (repair_paths s) \<union>
      {q. \<exists>e. evidence_for s q = Some e \<and> \<not> fe_fresh e}"
proof -
  note inv = session_inv[OF assms(1)]
  let ?stale = "map fe_path (filter (\<lambda>e. \<not> fe_fresh e) (bt_values (file_evidence_map s)))"
  have wf: "bs_wf (changed_paths s)" "bt_wf (file_evidence_map s)" "history_ok t s"
    using inv by (auto simp: controller_inv_def ledger_ok_def)
  obtain p where p: "controller_recovery_packet s reason = Inr p"
    and reread: "rp_reread_paths p = bs_extend (bs_extend (changed_paths s) (repair_paths s)) ?stale"
    and fields: "rp_version p = RECOVERY_PACKET_VERSION" "rp_pause_reason p = reason"
      "rp_mutation_epoch p = mutation_epoch s" "rp_required_checks p = required_checks s"
      "rp_last_failed_check p = last_failed_check s" "rp_changed_paths p = changed_paths s"
    using assms(2) by (simp add: controller_recovery_packet_def Let_def)
  have keyed: "\<forall>q e. evidence_for s q = Some e \<longrightarrow> fe_path e = q \<and> validate_workspace_path q = ok"
    using inv by (auto simp: controller_inv_def ledger_ok_def entry_ok_def evidence_for_def)
  have stale: "set ?stale = {q. \<exists>e. evidence_for s q = Some e \<and> \<not> fe_fresh e}"
    using keyed set_bt_values[OF wf(2)] by (force simp: evidence_for_def)
  have set: "set (rp_reread_paths p) = set (changed_paths s) \<union> set (repair_paths s) \<union>
      {q. \<exists>e. evidence_for s q = Some e \<and> \<not> fe_fresh e}"
    using wf(1) stale by (auto simp: reread)
  have "validate_recovery_packet_shape p = ok"
    using inv fields assms(2) keyed set reread wf(1) session_failure_valid[OF wf(3)]
    by (auto simp: validate_recovery_packet_shape_def result_simps controller_inv_def
        simp del: checks.simps split: option.splits)
  then show ?thesis using p set by (simp add: render_recovery_packet_def)
qed

theorem recovery_packet_renders_witness:
  "\<exists>p m. controller_recovery_packet st4 ''budget'' = Inr p \<and> render_recovery_packet id p = Inr m \<and>
     ''a'' \<in> set (rp_reread_paths p)"
proof -
  have "validate_reason ''budget'' = ok" "''a'' \<in> set (changed_paths st4)" by code_simp+
  then show ?thesis using recovery_packet_renders[OF session_st4, of "''budget''" id] by blast
qed

section \<open>Line coverage\<close>

text \<open>
  \<open>merge_ranges\<close> loses and invents nothing: on valid ranges of a file whose line
  count fits in 64 bits the merged ranges name exactly the same lines, stay valid, and are
  canonical (sorted, disjoint and with a gap between neighbours), and merging a second time
  changes nothing; a list of valid ranges is left as it is exactly when it was canonical.
\<close>

theorem merge_ranges_canonical:
  assumes "n \<le> u64_max" "valid_ranges n rs"
  shows "lines_of (merge_ranges rs) = lines_of rs \<and> valid_ranges n (merge_ranges rs) \<and>
    separated (merge_ranges rs) \<and> merge_ranges (merge_ranges rs) = merge_ranges rs \<and>
    (merge_ranges rs = rs \<longleftrightarrow> separated rs)"
  using merge_ranges_facts[OF assms] merge_ranges_id_iff[OF assms(1)] assms(2) by simp

theorem merge_ranges_canonical_witness:
  "lines_of (merge_ranges [\<lparr>lr_start = 4, lr_end = 6\<rparr>, \<lparr>lr_start = 1, lr_end = 3\<rparr>]) = {4..6} \<union> {1..3}"
proof -
  have "(6::nat) \<le> u64_max" "valid_ranges 6 [\<lparr>lr_start = 4, lr_end = 6\<rparr>, \<lparr>lr_start = 1, lr_end = 3\<rparr>]"
    by (simp_all add: u64_max_def)
  from merge_ranges_canonical[OF this] show ?thesis by simp
qed

text \<open>
  The completeness flag of the ledger means what it says: for canonical valid ranges,
  \<open>ranges_cover_file\<close> (which only looks for one range that starts at 1 and ends at the
  last line) holds exactly when every line of the file is covered.
\<close>

theorem ranges_cover_file_iff:
  assumes "valid_ranges n rs" "separated rs"
  shows "ranges_cover_file n rs \<longleftrightarrow> {1..n} \<subseteq> lines_of rs"
  by (rule ranges_cover_lines[OF assms])

theorem ranges_cover_file_iff_witness:
  "ranges_cover_file 6 [\<lparr>lr_start = 1, lr_end = 6\<rparr>] \<and> \<not> ranges_cover_file 6 [\<lparr>lr_start = 1, lr_end = 5\<rparr>]"
  using ranges_cover_file_iff[of 6 "[\<lparr>lr_start = 1, lr_end = 6\<rparr>]"]
    ranges_cover_file_iff[of 6 "[\<lparr>lr_start = 1, lr_end = 5\<rparr>]"]
  by (auto simp: separated_def)

end
