(* ===== verification/Path_Guard.thy ===== *)
theory Path_Guard
  imports Rust_Paths
begin

text \<open>
  The hardcoded security layer, \<^verbatim>\<open>ferric-guard\<close>: the compile-time deny lists
  (\<^verbatim>\<open>denylist.rs\<close>), the permission check (\<^verbatim>\<open>checker.rs\<close>), the additive
  \<^verbatim>\<open>.ferricignore\<close> rules (\<^verbatim>\<open>ignore.rs\<close>), the sink policy
  (\<^verbatim>\<open>sink.rs\<close>) and the workspace boundary (\<^verbatim>\<open>workspace.rs\<close>). The file
  system is a parameter: \<open>exists\<close> and \<open>canonicalize\<close> stand for
  \<^verbatim>\<open>Path::exists\<close> and \<^verbatim>\<open>std::fs::canonicalize\<close>. File names are valid
  UTF-8, so \<^verbatim>\<open>OsStr::to_str\<close> always succeeds.
\<close>

section \<open>Deny lists\<close>

definition DENIED_WRITE_SEGMENTS :: "string list" where
  "DENIED_WRITE_SEGMENTS = [''.git'', ''.ferric'', ''.ssh'', ''.gnupg'', ''.aws'', ''.kube'', ''.gpg'']"

definition DENIED_WRITE_FILES :: "string list" where
  "DENIED_WRITE_FILES =
     [''id_rsa'', ''id_ecdsa'', ''id_ed25519'', ''authorized_keys'', ''known_hosts'', ''credentials'',
      ''.ferricignore'', ''.ferric-startup.lock'']"

definition DENIED_COMMAND_PATTERNS :: "string list" where
  "DENIED_COMMAND_PATTERNS =
     [''rm -rf /'', ''mkfs'', ''dd if='', ''git push --force'', ''shutdown'', ''reboot'']"

definition DENIED_READ_SEGMENTS :: "string list" where
  "DENIED_READ_SEGMENTS = [''.ssh'', ''.gnupg'', ''.aws'', ''.kube'', ''.ferric'']"

definition DENIED_READ_FILES :: "string list" where
  "DENIED_READ_FILES =
     [''id_rsa'', ''id_ecdsa'', ''id_ed25519'', ''authorized_keys'', ''known_hosts'', ''credentials'',
      ''.env'']"

section \<open>The ignore file\<close>

datatype pattern = Segment string | Glob string | PathPrefix "string list"

record ignore_rule =
  ir_pattern :: pattern
  ir_source :: string

type_synonym ignore_list = "ignore_rule list"

definition parse_line :: "string \<Rightarrow> ignore_rule option" where
  "parse_line raw =
     (let line = trim raw
      in if line = [] \<or> starts_with line ''#'' then None
         else let body = trim_char (CHR ''/'') line
           in if body = [] then None
              else Some \<lparr>ir_pattern =
                     (if CHR ''/'' \<in> set body then PathPrefix (split_char (CHR ''/'') body)
                      else if CHR ''*'' \<in> set body then Glob body
                      else Segment body),
                    ir_source = line\<rparr>)"

definition parse_ignore :: "string \<Rightarrow> ignore_list" where
  "parse_ignore text = List.map_filter parse_line (str_lines text)"

text \<open>\<open>read_file\<close> stands for reading the file at the root: \<open>None\<close> when it is absent or
  unreadable.\<close>

definition load_ignore :: "string option \<Rightarrow> ignore_list" where
  "load_ignore read_file = (case read_file of None \<Rightarrow> [] | Some text \<Rightarrow> parse_ignore text)"

definition starts_with_components :: "string list \<Rightarrow> string list \<Rightarrow> bool" where
  "starts_with_components comps prefix \<longleftrightarrow>
     length prefix \<le> length comps \<and> list_all (\<lambda>(c, p). c = p) (zip comps prefix)"

text \<open>The loop of \<open>glob_match\<close> over the parts between the wildcards; the flags say whether
  a part is the first or the last one, \<open>name\<close> is the remaining text.\<close>

fun glob_parts :: "bool \<Rightarrow> string list \<Rightarrow> string \<Rightarrow> bool" where
  "glob_parts first [] name = True"
| "glob_parts first (part # parts) name =
     (if part = [] then glob_parts False parts name
      else if first then
        (case strip_prefix part name of
           None \<Rightarrow> False
         | Some rest \<Rightarrow> glob_parts False parts rest)
      else if parts = [] then ends_with name part
      else (case find_str part name of
              None \<Rightarrow> False
            | Some found \<Rightarrow> glob_parts False parts (drop (found + length part) name)))"

definition glob_match :: "string \<Rightarrow> string \<Rightarrow> bool" where
  "glob_match pat name =
     (let parts = split_char (CHR ''*'') pat
      in if length parts = 1 then pat = name else glob_parts True parts name)"

definition rule_hits :: "string list \<Rightarrow> ignore_rule \<Rightarrow> bool" where
  "rule_hits comps rule =
     (case ir_pattern rule of
        Segment s \<Rightarrow> list_ex ((=) s) comps
      | Glob g \<Rightarrow> glob_match g (if comps = [] then [] else last comps)
      | PathPrefix prefix \<Rightarrow> starts_with_components comps prefix)"

definition ignore_matches :: "ignore_list \<Rightarrow> path \<Rightarrow> path \<Rightarrow> string option" where
  "ignore_matches rules resolved root =
     (if rules = [] then None
      else let rel = (case strip_path_prefix root resolved of None \<Rightarrow> resolved | Some r \<Rightarrow> r)
        in map_option ir_source (List.find (rule_hits (normal_names rel)) rules))"

section \<open>The permission check\<close>

datatype permission_level = Read | Write | Execute

record deny_reason =
  dr_rule :: string
  dr_matched :: string

datatype decision = Allow | Deny deny_reason

definition deny :: "string \<Rightarrow> string \<Rightarrow> decision" where
  "deny rule matched = Deny \<lparr>dr_rule = rule, dr_matched = matched\<rparr>"

definition check_target ::
  "path \<Rightarrow> string list \<Rightarrow> string \<Rightarrow> string list \<Rightarrow> string \<Rightarrow> decision" where
  "check_target p segments segment_rule files file_rule =
     (case List.find (\<lambda>n. to_ascii_lowercase n \<in> set segments) (normal_names p) of
        Some n \<Rightarrow> deny segment_rule (to_ascii_lowercase n)
      | None \<Rightarrow>
          (case file_name p of
             None \<Rightarrow> Allow
           | Some n \<Rightarrow>
               if to_ascii_lowercase n \<in> set files then deny file_rule (to_ascii_lowercase n)
               else Allow))"

definition check_read_target :: "path \<Rightarrow> decision" where
  "check_read_target p =
     check_target p DENIED_READ_SEGMENTS ''denied_read_segment'' DENIED_READ_FILES ''denied_read_file''"

definition check_write_target :: "path \<Rightarrow> decision" where
  "check_write_target p =
     check_target p DENIED_WRITE_SEGMENTS ''denied_write_segment'' DENIED_WRITE_FILES ''denied_write_file''"

definition check_permission :: "permission_level \<Rightarrow> path \<Rightarrow> decision" where
  "check_permission level p =
     (case level of
        Read \<Rightarrow> check_read_target p
      | Write \<Rightarrow> check_write_target p
      | Execute \<Rightarrow> check_write_target p)"

definition check_with_ignore ::
  "permission_level \<Rightarrow> path \<Rightarrow> path \<Rightarrow> ignore_list \<Rightarrow> decision" where
  "check_with_ignore level p root ignore =
     (case check_permission level p of
        Deny r \<Rightarrow> Deny r
      | Allow \<Rightarrow>
          (case ignore_matches ignore p root of
             Some matched \<Rightarrow> deny ''ferricignore'' matched
           | None \<Rightarrow> Allow))"

definition check_command :: "string \<Rightarrow> decision" where
  "check_command command =
     (let lowered = to_ascii_lowercase command
      in case List.find (contains_str lowered) DENIED_COMMAND_PATTERNS of
           Some pat \<Rightarrow> deny ''denied_command_pattern'' pat
         | None \<Rightarrow> Allow)"

section \<open>The sink policy\<close>

datatype sink_action = SinkDeny | SinkRequireApproval | SinkWarn

datatype sink_decision = DecisionAllow | DecisionDeny | DecisionRequireApproval | DecisionWarn

record sink_policy =
  tainted_sink :: sink_action

datatype provenance = Clean | UntrustedIngested

definition decide :: "sink_policy \<Rightarrow> permission_level \<Rightarrow> provenance \<Rightarrow> sink_decision" where
  "decide pol permission prov =
     (if prov \<noteq> UntrustedIngested then DecisionAllow
      else (case permission of
              Read \<Rightarrow> DecisionAllow
            | _ \<Rightarrow> (case tainted_sink pol of
                      SinkDeny \<Rightarrow> DecisionDeny
                    | SinkRequireApproval \<Rightarrow> DecisionRequireApproval
                    | SinkWarn \<Rightarrow> DecisionWarn)))"

section \<open>The workspace boundary\<close>

datatype guard_error = BoundaryViolation path | IoError

datatype admit_error = Boundary guard_error | Denied path deny_reason

record workspace =
  ws_root :: path
  ws_ignore :: ignore_list

type_synonym canonicalizer = "path \<Rightarrow> path option"

definition workspace_new ::
  "canonicalizer \<Rightarrow> (path \<Rightarrow> string option) \<Rightarrow> path \<Rightarrow> guard_error + workspace" where
  "workspace_new canonicalize read_file root =
     (case canonicalize root of
        None \<Rightarrow> Inl IoError
      | Some r \<Rightarrow> Inr \<lparr>ws_root = r, ws_ignore = load_ignore (read_file (r @ [Normal ''.ferricignore'']))\<rparr>)"

fun normalize_onto :: "path \<Rightarrow> path \<Rightarrow> path option" where
  "normalize_onto out [] = Some out"
| "normalize_onto out (c # p) =
     (case c of
        CurDir \<Rightarrow> normalize_onto out p
      | ParentDir \<Rightarrow> if out \<noteq> [] \<and> is_normal (last out) then normalize_onto (butlast out) p else None
      | _ \<Rightarrow> normalize_onto (out @ [c]) p)"

definition lexical_normalize :: "path \<Rightarrow> path option" where
  "lexical_normalize p = normalize_onto [] p"

text \<open>The loop that climbs to the deepest existing ancestor, collecting the names it drops.\<close>

function climb :: "(path \<Rightarrow> bool) \<Rightarrow> path \<Rightarrow> string list \<Rightarrow> path \<times> string list" where
  "climb exists existing tail =
     (if exists existing then (existing, tail)
      else (case (file_name existing, parent existing) of
              (Some name, Some up) \<Rightarrow> climb exists up (tail @ [name])
            | _ \<Rightarrow> (existing, tail)))"
  by pat_completeness auto
termination
  by (relation "measure (\<lambda>(_, p, _). length p)")
     (auto simp: parent_def split: if_splits)

declare climb.simps [simp del]

definition canonicalize_existing_prefix ::
  "(path \<Rightarrow> bool) \<Rightarrow> canonicalizer \<Rightarrow> path \<Rightarrow> guard_error + path" where
  "canonicalize_existing_prefix exists canonicalize p =
     (case climb exists p [] of
        (existing, tail) \<Rightarrow>
          (case canonicalize existing of
             None \<Rightarrow> Inl IoError
           | Some resolved \<Rightarrow> Inr (resolved @ map Normal (rev tail))))"

definition is_contained :: "path \<Rightarrow> path \<Rightarrow> bool" where
  "is_contained root p \<longleftrightarrow> length root \<le> length p \<and> take (length root) p = root"

definition resolve ::
  "(path \<Rightarrow> bool) \<Rightarrow> canonicalizer \<Rightarrow> workspace \<Rightarrow> path \<Rightarrow> guard_error + path" where
  "resolve exists canonicalize ws candidate =
     (let joined = (if is_absolute candidate then candidate else join_path (ws_root ws) candidate)
      in case lexical_normalize joined of
           None \<Rightarrow> Inl (BoundaryViolation candidate)
         | Some normalized \<Rightarrow>
             and_then (canonicalize_existing_prefix exists canonicalize normalized) (\<lambda>resolved.
               if is_contained (ws_root ws) resolved then Inr resolved
               else Inl (BoundaryViolation candidate)))"

definition admit ::
  "(path \<Rightarrow> bool) \<Rightarrow> canonicalizer \<Rightarrow> workspace \<Rightarrow> permission_level \<Rightarrow> path \<Rightarrow> admit_error + path" where
  "admit exists canonicalize ws level candidate =
     (case resolve exists canonicalize ws candidate of
        Inl e \<Rightarrow> Inl (Boundary e)
      | Inr resolved \<Rightarrow>
          (case check_with_ignore level resolved (ws_root ws) (ws_ignore ws) of
             Allow \<Rightarrow> Inr resolved
           | Deny reason \<Rightarrow> Inl (Denied resolved reason)))"

definition replace_backslash :: "string \<Rightarrow> string" where
  "replace_backslash s = map (\<lambda>c. if c = CHR 0x5C then CHR ''/'' else c) s"

definition relative :: "workspace \<Rightarrow> path \<Rightarrow> string option" where
  "relative ws resolved =
     map_option (\<lambda>r. replace_backslash (join ''/'' (normal_names r)))
       (strip_path_prefix (ws_root ws) resolved)"

end
