(* ===== verification/Guard_Props.thy ===== *)
theory Guard_Props
  imports Path_Guard "HOL-Library.Code_Target_Nat"
begin

text \<open>
  The properties of the guard: glob matching against its declarative meaning, the additive
  nature of \<^verbatim>\<open>.ferricignore\<close>, containment of every admitted path and the reach of
  the deny lists. What is assumed of \<^verbatim>\<open>std::fs::canonicalize\<close> is its documented
  contract: the result is absolute and has no \<^verbatim>\<open>.\<close> or \<^verbatim>\<open>..\<close> component.
\<close>

section \<open>Globs\<close>

text \<open>The meaning of a pattern: a star stands for any run of characters.\<close>

fun glob_spec :: "string \<Rightarrow> string \<Rightarrow> bool" where
  "glob_spec [] s \<longleftrightarrow> s = []"
| "glob_spec (p # ps) s \<longleftrightarrow>
     (if p = CHR ''*'' then glob_spec ps s \<or> (case s of [] \<Rightarrow> False | c # s' \<Rightarrow> glob_spec (p # ps) s')
      else (case s of [] \<Rightarrow> False | c # s' \<Rightarrow> p = c \<and> glob_spec ps s'))"

text \<open>The same over the parts between the stars, anchored and floating.\<close>

fun parts_spec :: "string list \<Rightarrow> string \<Rightarrow> bool" where
  "parts_spec [] s \<longleftrightarrow> s = []"
| "parts_spec [p] s \<longleftrightarrow> s = p"
| "parts_spec (p # q # ps) s \<longleftrightarrow> (\<exists>mid rest. s = p @ mid @ rest \<and> parts_spec (q # ps) rest)"

definition floating :: "string list \<Rightarrow> string \<Rightarrow> bool" where
  "floating ps s \<longleftrightarrow> (\<exists>mid rest. s = mid @ rest \<and> parts_spec ps rest)"

lemma glob_spec_star:
  "glob_spec (CHR ''*'' # ps) s \<longleftrightarrow> (\<exists>mid rest. s = mid @ rest \<and> glob_spec ps rest)"
proof (induction s)
  case (Cons c s)
  have "(\<exists>mid rest. c # s = mid @ rest \<and> glob_spec ps rest) \<longleftrightarrow>
        glob_spec ps (c # s) \<or> (\<exists>mid rest. s = mid @ rest \<and> glob_spec ps rest)"
    by (metis append_Cons append_Nil list.exhaust list.inject)
  with Cons show ?case by simp
qed simp

lemma glob_spec_parts: "glob_spec pat s \<longleftrightarrow> parts_spec (split_char (CHR ''*'') pat) s"
proof (induction pat arbitrary: s)
  case (Cons c pat)
  obtain p ps where ps: "split_char (CHR ''*'') pat = p # ps"
    by (cases "split_char (CHR ''*'') pat") auto
  show ?case
  proof (cases "c = CHR ''*''")
    case True
    then show ?thesis using Cons ps glob_spec_star[of pat s] by auto
  next
    case False
    have "parts_spec ((c # p) # ps) s \<longleftrightarrow> (case s of [] \<Rightarrow> False | d # s' \<Rightarrow> c = d \<and> parts_spec (p # ps) s')"
      by (cases ps; cases s) auto
    then show ?thesis using False Cons ps by (cases s) auto
  qed
qed simp

lemma floating_skip: "floating ps s \<Longrightarrow> floating ps (a @ s)"
  unfolding floating_def by (metis append.assoc)

lemma floating_Cons: "floating (q # r # ps) s \<longleftrightarrow> (\<exists>a b. s = a @ q @ b \<and> floating (r # ps) b)"
  by (auto simp: floating_def)

lemma glob_parts_floating: "ps \<noteq> [] \<Longrightarrow> glob_parts False ps s \<longleftrightarrow> floating ps s"
proof (induction "False" ps s rule: glob_parts.induct)
  case (2 part parts s)
  show ?case
  proof (cases parts)
    case Nil
    then show ?thesis by (auto simp: floating_def ends_with_iff)
  next
    case (Cons r ps)
    show ?thesis
    proof (cases "part = []")
      case True
      then show ?thesis using 2 Cons by (auto simp: floating_Cons floating_skip)
    next
      case False
      show ?thesis
      proof (cases "find_str part s")
        case None
        then have "\<not> floating (part # parts) s"
          using Cons by (auto simp: floating_Cons dest: find_str_None[THEN iffD1])
        then show ?thesis using False Cons None by simp
      next
        case (Some i)
        obtain b where b: "s = take i s @ part @ b" "i \<le> length s" using find_str_Some[OF Some] by blast
        then have rest: "drop (i + length part) s = b"
          by (metis append_eq_conv_conj drop_drop length_take min.absorb2 add.commute)
        have "floating parts b" if "s = a @ part @ b'" "floating parts b'" for a b'
        proof -
          have "i \<le> length a" by (rule find_str_leftmost[OF Some that(1)])
          then have "b = drop (i + length part) a @ drop (i + length part - length a) (part @ b')"
            using rest that(1) by (simp flip: rest)
          then have "\<exists>c. b = c @ b'"
            using \<open>i \<le> length a\<close> by (auto simp: diff_le_self)
          then show ?thesis using floating_skip that(2) by blast
        qed
        then have "floating (part # parts) s \<longleftrightarrow> floating parts b"
          using b(1) Cons by (auto simp: floating_Cons)
        moreover have "glob_parts False parts b \<longleftrightarrow> floating parts b"
          using 2 False Cons Some rest by (simp del: glob_parts.simps)
        ultimately show ?thesis using False Cons Some rest
          by (subst glob_parts.simps) (simp del: glob_parts.simps)
      qed
    qed
  qed
qed simp

lemma glob_match_iff: "glob_match pat name \<longleftrightarrow> glob_spec pat name"
proof -
  obtain p ps where ps: "split_char (CHR ''*'') pat = p # ps"
    by (cases "split_char (CHR ''*'') pat") auto
  show ?thesis
  proof (cases ps)
    case Nil
    then have "pat = p" using join_split_char[of "CHR ''*''" pat] ps by simp
    then show ?thesis using ps Nil by (auto simp: glob_match_def glob_spec_parts)
  next
    case (Cons q qs)
    have "glob_parts True (p # ps) name \<longleftrightarrow> (\<exists>rest. name = p @ rest \<and> floating ps rest)"
      using Cons glob_parts_floating[of ps] by (auto simp: strip_prefix_Some split: option.splits)
        (metis option.distinct(1) strip_prefix_Some)
    then show ?thesis using ps Cons by (auto simp: glob_match_def glob_spec_parts floating_def)
  qed
qed

text \<open>
  \<open>glob_match\<close>, which searches part by part from the left without backtracking,
  decides exactly the declarative meaning of a pattern with any number of stars: there is a way
  to replace every star by some run of characters that gives the name.
\<close>

theorem glob_match_spec: "glob_match pat name \<longleftrightarrow> glob_spec pat name"
  by (rule glob_match_iff)

section \<open>The deny lists\<close>

definition denied_segments :: "permission_level \<Rightarrow> string list" where
  "denied_segments level = (if level = Read then DENIED_READ_SEGMENTS else DENIED_WRITE_SEGMENTS)"

definition denied_files :: "permission_level \<Rightarrow> string list" where
  "denied_files level = (if level = Read then DENIED_READ_FILES else DENIED_WRITE_FILES)"

lemma check_target_Allow:
  "check_target p segs sr files fr = Allow \<longleftrightarrow>
     (\<forall>n \<in> set (normal_names p). to_ascii_lowercase n \<notin> set segs) \<and>
     (\<forall>n. file_name p = Some n \<longrightarrow> to_ascii_lowercase n \<notin> set files)"
  by (cases "List.find (\<lambda>n. to_ascii_lowercase n \<in> set segs) (normal_names p)")
     (auto simp: check_target_def deny_def find_None_iff find_Some_iff split: option.splits)

lemma check_permission_Allow:
  "check_permission level p = Allow \<longleftrightarrow>
     (\<forall>n \<in> set (normal_names p). to_ascii_lowercase n \<notin> set (denied_segments level)) \<and>
     (\<forall>n. file_name p = Some n \<longrightarrow> to_ascii_lowercase n \<notin> set (denied_files level))"
  by (cases level)
     (simp_all add: check_permission_def check_read_target_def check_write_target_def
       check_target_Allow denied_segments_def denied_files_def)

lemma ignore_matches_None:
  "strip_path_prefix root p = Some rel \<Longrightarrow>
   ignore_matches rules p root = None \<longleftrightarrow> (\<forall>rule \<in> set rules. \<not> rule_hits (normal_names rel) rule)"
  by (auto simp: ignore_matches_def find_None_iff)

lemma check_with_ignore_Allow:
  "check_with_ignore level p root rules = Allow \<longleftrightarrow>
     check_permission level p = Allow \<and> ignore_matches rules p root = None"
  by (auto simp: check_with_ignore_def deny_def split: decision.splits option.splits)

lemma ignore_matches_append_None:
  "ignore_matches (rs @ qs) p root = None \<longleftrightarrow>
     ignore_matches rs p root = None \<and> ignore_matches qs p root = None"
  by (auto simp: ignore_matches_def find_None_iff Let_def)

text \<open>
  \<^verbatim>\<open>.ferricignore\<close> is additive: with any rules at all, a path the hardcoded
  floor denies is denied with the floor's own reason, and rules added before or after others
  never turn a denial into a permission.
\<close>

theorem ignore_is_additive:
  "(check_permission level p = Deny r \<longrightarrow> check_with_ignore level p root rules = Deny r) \<and>
   (check_with_ignore level p root rules \<noteq> Allow \<longrightarrow>
      check_with_ignore level p root (before @ rules @ after) \<noteq> Allow)"
  by (simp add: check_with_ignore_Allow ignore_matches_append_None) (simp add: check_with_ignore_def)

theorem ignore_is_additive_witness:
  "check_with_ignore Write [RootDir, Normal ''w'', Normal ''.GIT''] [RootDir] [] =
     deny ''denied_write_segment'' ''.git'' \<and>
   check_with_ignore Read [RootDir, Normal ''k.pem''] [RootDir]
     (parse_ignore ''a'' @ parse_ignore ''*.pem'' @ []) \<noteq> Allow"
proof
  have "check_permission Write [RootDir, Normal ''w'', Normal ''.GIT''] =
      Deny \<lparr>dr_rule = ''denied_write_segment'', dr_matched = ''.git''\<rparr>" by code_simp
  then show "check_with_ignore Write [RootDir, Normal ''w'', Normal ''.GIT''] [RootDir] [] =
     deny ''denied_write_segment'' ''.git''"
    using ignore_is_additive[where level = Write and p = "[RootDir, Normal ''w'', Normal ''.GIT'']"]
    by (simp add: deny_def)
  have "check_with_ignore Read [RootDir, Normal ''k.pem''] [RootDir] (parse_ignore ''*.pem'') \<noteq> Allow"
    by code_simp
  then show "check_with_ignore Read [RootDir, Normal ''k.pem''] [RootDir]
     (parse_ignore ''a'' @ parse_ignore ''*.pem'' @ []) \<noteq> Allow"
    using ignore_is_additive by blast
qed

section \<open>The boundary\<close>

definition canonical :: "path \<Rightarrow> bool" where
  "canonical p \<longleftrightarrow> (\<exists>ns. p = RootDir # map Normal ns)"

definition canonical_fs :: "canonicalizer \<Rightarrow> bool" where
  "canonical_fs canonicalize \<longleftrightarrow> (\<forall>p q. canonicalize p = Some q \<longrightarrow> canonical q)"

lemma canonical_extend: "canonical p \<Longrightarrow> canonical (p @ map Normal ns)"
  unfolding canonical_def by (metis append_Cons map_append)

lemma canonical_below:
  assumes "canonical root" "canonical p" "is_contained root p"
  shows "\<exists>ns. p = root @ map Normal ns"
proof -
  obtain rs ps where r: "root = RootDir # map Normal rs" and p: "p = RootDir # map Normal ps"
    using assms by (auto simp: canonical_def)
  have "p = root @ drop (length root) p"
    using assms(3) by (metis append_take_drop_id is_contained_def)
  moreover have "drop (length root) p = map Normal (drop (length rs) ps)"
    by (simp add: r p drop_map)
  ultimately show ?thesis by metis
qed

lemma resolve_canonical:
  assumes "canonical_fs canonicalize" "canonical (ws_root ws)"
    and "resolve exists canonicalize ws candidate = Inr p"
  shows "\<exists>ns. p = ws_root ws @ map Normal ns"
proof -
  obtain existing tail resolved where "canonicalize existing = Some resolved"
    "p = resolved @ map Normal (rev tail)" "is_contained (ws_root ws) p"
    using assms(3)
    by (auto simp: resolve_def canonicalize_existing_prefix_def Let_def result_simps
        split: option.splits prod.splits if_splits)
  then show ?thesis
    using assms(1,2) canonical_below canonical_extend unfolding canonical_fs_def by blast
qed

text \<open>
  C31. Whatever \<open>admit\<close> lets through is inside the workspace and off the deny lists: for a
  workspace opened on a canonicalizing file system, an admitted path is the canonical root
  followed by plain names only (so neither \<^verbatim>\<open>..\<close>, nor a symbolic link, nor a sibling
  with the root's name as a prefix leads outside), no component is a denied segment and its
  last name is not a denied file at this permission level, compared without case, and no
  \<^verbatim>\<open>.ferricignore\<close> rule matches the part below the root.
\<close>

theorem admitted_paths_confined:
  assumes "canonical_fs canonicalize" "workspace_new canonicalize read_file root = Inr ws"
    and "admit exists canonicalize ws level candidate = Inr p"
  shows "\<exists>ns. p = ws_root ws @ map Normal ns \<and>
    (\<forall>n \<in> set (normal_names p). to_ascii_lowercase n \<notin> set (denied_segments level)) \<and>
    (ns \<noteq> [] \<longrightarrow> to_ascii_lowercase (last ns) \<notin> set (denied_files level)) \<and>
    (\<forall>rule \<in> set (ws_ignore ws). \<not> rule_hits ns rule)"
proof -
  have root: "canonical (ws_root ws)"
    using assms(1,2) by (auto simp: workspace_new_def canonical_fs_def split: option.splits)
  have res: "resolve exists canonicalize ws candidate = Inr p"
    and chk: "check_with_ignore level p (ws_root ws) (ws_ignore ws) = Allow"
    using assms(3) by (auto simp: admit_def split: sum.splits decision.splits)
  obtain ns where p: "p = ws_root ws @ map Normal ns"
    using resolve_canonical[OF assms(1) root res] by blast
  have names: "normal_names (map Normal ns) = ns" by (induction ns) auto
  have "ns \<noteq> [] \<Longrightarrow> file_name p = Some (last ns)" by (simp add: p file_name_def last_map)
  then show ?thesis
    using chk p names ignore_matches_None[of "ws_root ws" p "map Normal ns"]
    by (auto simp: check_with_ignore_Allow check_permission_Allow strip_path_prefix_Some)
qed

text \<open>A file system with the directory \<^verbatim>\<open>/w\<close>, a link in it that leads outside, and a sibling.\<close>

definition toy_canonicalize :: canonicalizer where
  "toy_canonicalize p =
     (if p = [RootDir, Normal ''w'', Normal ''link''] then Some [RootDir, Normal ''w-evil'']
      else if p = [RootDir, Normal ''w''] \<or> p = [RootDir] then Some p else None)"

definition toy_exists :: "path \<Rightarrow> bool" where
  "toy_exists p \<longleftrightarrow> toy_canonicalize p \<noteq> None"

definition toy_ws :: workspace where
  "toy_ws = \<lparr>ws_root = [RootDir, Normal ''w''], ws_ignore = parse_ignore ''secrets/''\<rparr>"

lemma toy_ws_new:
  "workspace_new toy_canonicalize (\<lambda>_. Some ''secrets/'') [RootDir, Normal ''w''] = Inr toy_ws"
  by (simp add: workspace_new_def toy_canonicalize_def load_ignore_def toy_ws_def)

lemma toy_fs: "canonical_fs toy_canonicalize"
  unfolding canonical_fs_def
proof (intro allI impI)
  fix p q
  assume "toy_canonicalize p = Some q"
  then have "q = RootDir # map Normal [''w-evil''] \<or> q = RootDir # map Normal [''w''] \<or> q = RootDir # map Normal []"
    by (simp add: toy_canonicalize_def split: if_splits)
  then show "canonical q" unfolding canonical_def by blast
qed

theorem admitted_paths_confined_witness:
  "\<exists>ns. admit toy_exists toy_canonicalize toy_ws Write (components ''src/../lib/a.rs'') =
     Inr ([RootDir, Normal ''w''] @ map Normal ns)"
proof -
  have "is_ok (admit toy_exists toy_canonicalize toy_ws Write (components ''src/../lib/a.rs''))" by code_simp
  then obtain p where p: "admit toy_exists toy_canonicalize toy_ws Write (components ''src/../lib/a.rs'') = Inr p"
    by (auto simp: is_ok_iff)
  show ?thesis using admitted_paths_confined[OF toy_fs toy_ws_new p] p by (auto simp: toy_ws_def)
qed

lemma toy_refusals:
  "\<not> is_ok (admit toy_exists toy_canonicalize toy_ws Read (components ''../w-evil/x''))"
  "\<not> is_ok (admit toy_exists toy_canonicalize toy_ws Read (components ''link/x''))"
  "\<not> is_ok (admit toy_exists toy_canonicalize toy_ws Read (components ''secrets/x''))"
  by code_simp+

section \<open>Lexical normalization\<close>

text \<open>How far a path climbs: the names it enters minus the steps it takes up.\<close>

definition climbs_out :: "path \<Rightarrow> bool" where
  "climbs_out cs \<longleftrightarrow>
     (\<exists>k \<le> length cs. length (filter is_normal (take k cs)) < count_list (take k cs) ParentDir)"

lemma normalize_onto_names:
  "RootDir \<notin> set cs \<Longrightarrow>
   normalize_onto (RootDir # map Normal ns) cs = None \<longleftrightarrow>
     (\<exists>k \<le> length cs. length ns + length (filter is_normal (take k cs)) < count_list (take k cs) ParentDir)"
proof (induction cs arbitrary: ns)
  case (Cons c cs)
  have shift: "(\<exists>k \<le> length (c # cs). P k) \<longleftrightarrow> P 0 \<or> (\<exists>k \<le> length cs. P (Suc k))" for P
    by (metis Suc_le_mono le0 length_Cons not0_implies_Suc)
  show ?case
  proof (cases c)
    case CurDir
    then show ?thesis unfolding shift using Cons by simp
  next
    case (Normal n)
    have "normalize_onto (RootDir # map Normal ns) (c # cs) = normalize_onto (RootDir # map Normal (ns @ [n])) cs"
      by (simp add: Normal)
    then show ?thesis unfolding shift using Cons.IH[of "ns @ [n]"] Cons.prems Normal by simp
  next
    case ParentDir
    show ?thesis
    proof (cases ns rule: rev_cases)
      case Nil
      then show ?thesis unfolding shift using ParentDir by (auto intro: exI[of _ 0])
    next
      case (snoc ms m)
      have "normalize_onto (RootDir # map Normal ns) (c # cs) = normalize_onto (RootDir # map Normal ms) cs"
        by (simp add: ParentDir snoc)
      then show ?thesis unfolding shift using Cons.IH[of ms] Cons.prems ParentDir snoc by simp
    qed
  next
    case RootDir
    then show ?thesis using Cons.prems by simp
  qed
qed simp

lemma normalize_onto_canonical:
  "RootDir \<notin> set cs \<Longrightarrow> normalize_onto (RootDir # map Normal ns) cs = Some q \<Longrightarrow> canonical q"
proof (induction cs arbitrary: ns)
  case Nil
  then show ?case by (auto simp: canonical_def)
next
  case (Cons c cs)
  show ?case
  proof (cases c)
    case CurDir
    then show ?thesis using Cons.IH[of ns] Cons.prems by simp
  next
    case (Normal n)
    then show ?thesis using Cons.IH[of "ns @ [n]"] Cons.prems by simp
  next
    case ParentDir
    then show ?thesis using Cons.IH[of "butlast ns"] Cons.prems
      by (cases ns rule: rev_cases) (auto split: if_splits)
  next
    case RootDir
    then show ?thesis using Cons.prems by simp
  qed
qed

text \<open>
  Lexical normalization of an absolute path fails exactly when some prefix of it steps up
  more often than it has entered a name, that is when \<^verbatim>\<open>..\<close> would leave the root;
  otherwise its result has neither \<^verbatim>\<open>.\<close> nor \<^verbatim>\<open>..\<close> left.
\<close>

theorem lexical_normalize_spec:
  assumes "RootDir \<notin> set cs"
  shows "(lexical_normalize (RootDir # cs) = None \<longleftrightarrow> climbs_out cs) \<and>
    (\<forall>q. lexical_normalize (RootDir # cs) = Some q \<longrightarrow> canonical q)"
proof -
  have "lexical_normalize (RootDir # cs) = normalize_onto (RootDir # map Normal []) cs"
    by (simp add: lexical_normalize_def)
  then show ?thesis
    using normalize_onto_names[OF assms, of "[]"] normalize_onto_canonical[OF assms, of "[]"]
    by (simp add: climbs_out_def)
qed

theorem lexical_normalize_spec_witness:
  "climbs_out [Normal ''a'', ParentDir, ParentDir] \<and>
   canonical (the (lexical_normalize [RootDir, Normal ''a'', CurDir, ParentDir, Normal ''b'']))"
proof
  have "lexical_normalize [RootDir, Normal ''a'', ParentDir, ParentDir] = None" by code_simp
  then show "climbs_out [Normal ''a'', ParentDir, ParentDir]"
    using lexical_normalize_spec[of "[Normal ''a'', ParentDir, ParentDir]"] by simp
  have "lexical_normalize [RootDir, Normal ''a'', CurDir, ParentDir, Normal ''b''] =
      Some [RootDir, Normal ''b'']" by code_simp
  then show "canonical (the (lexical_normalize [RootDir, Normal ''a'', CurDir, ParentDir, Normal ''b'']))"
    using lexical_normalize_spec[of "[Normal ''a'', CurDir, ParentDir, Normal ''b'']"] by simp
qed

section \<open>Workspace-relative names\<close>

text \<open>A name a file can have and that needs no rewriting of backslashes.\<close>

definition plain_name :: "string \<Rightarrow> bool" where
  "plain_name n \<longleftrightarrow> n \<noteq> '''' \<and> n \<noteq> ''.'' \<and> n \<noteq> ''..'' \<and> CHR ''/'' \<notin> set n \<and> CHR 0x5C \<notin> set n"

lemma components_join:
  assumes "\<forall>n \<in> set ns. plain_name n"
  shows "components (join ''/'' ns) = map Normal ns"
proof (cases ns)
  case Nil
  then show ?thesis by (simp add: components_def part_component_def starts_with_def)
next
  case (Cons n ms)
  have split: "split_char (CHR ''/'') (join ''/'' ns) = n # ms"
    using split_join[of ns "CHR ''/''"] assms Cons by (simp add: plain_name_def)
  have n: "plain_name n" using assms Cons by simp
  obtain c n' where c: "n = c # n'" "c \<noteq> CHR ''/''" using n by (cases n) (auto simp: plain_name_def)
  then have "\<not> starts_with (join ''/'' ns) ''/''"
    using Cons by (cases ms) (auto simp: starts_with_def)
  moreover have "concat (map part_component ms) = map Normal ms"
    using assms unfolding Cons by (induction ms) (auto simp: plain_name_def part_component_def)
  ultimately show ?thesis using split n by (simp add: components_def part_component_def plain_name_def Cons)
qed

lemma join_no_backslash:
  "\<forall>n \<in> set ns. plain_name n \<Longrightarrow> CHR 0x5C \<notin> set (join ''/'' ns)"
  by (induction "''/''" ns rule: join.induct) (auto simp: plain_name_def)

text \<open>
  The workspace-relative spelling of a path inside the workspace names it again: joining
  the root with the path that \<open>relative\<close> prints gives back the resolved path, for file
  names without a backslash.
\<close>

theorem relative_roundtrip:
  assumes "ws_root ws \<noteq> []" "\<forall>n \<in> set ns. plain_name n" "p = ws_root ws @ map Normal ns"
  shows "\<exists>r. relative ws p = Some r \<and> join_path (ws_root ws) (components r) = p"
proof -
  have strip: "strip_path_prefix (ws_root ws) p = Some (map Normal ns)"
    using assms(3) by (simp add: strip_path_prefix_Some)
  have names: "normal_names (map Normal ns) = ns" by (induction ns) auto
  have id: "replace_backslash (join ''/'' ns) = join ''/'' ns"
    using join_no_backslash[OF assms(2)] by (auto simp: replace_backslash_def intro!: map_idI)
  have rel: "relative ws p = Some (join ''/'' ns)"
    by (simp add: relative_def strip names id)
  have "\<not> is_absolute (map Normal ns)" by (cases ns) (auto simp: is_absolute_def)
  then have "join_path (ws_root ws) (map Normal ns) = p"
    using assms(1,3) by (auto simp: join_path_def intro!: filter_True)
  then show ?thesis using rel components_join[OF assms(2)] by simp
qed

theorem relative_roundtrip_witness:
  "\<exists>r. relative toy_ws [RootDir, Normal ''w'', Normal ''src'', Normal ''a.rs''] = Some r \<and>
     join_path (ws_root toy_ws) (components r) = [RootDir, Normal ''w'', Normal ''src'', Normal ''a.rs'']"
proof (rule relative_roundtrip)
  show "\<forall>n \<in> set [''src'', ''a.rs'']. plain_name n" by code_simp
qed (simp_all add: toy_ws_def)

end
