(* ===== verification/Network_Gate.thy ===== *)
theory Network_Gate
  imports Rust_Paths "HOL-Library.Word"
begin

text \<open>
  The network boundary of Ferric's local services, \<^verbatim>\<open>ferric-gate\<close>: the bearer token
  (\<^verbatim>\<open>token.rs\<close>), the request check (\<^verbatim>\<open>guard.rs\<close>), the middleware
  (\<^verbatim>\<open>layer.rs\<close>) and the listen-address check (\<^verbatim>\<open>bind.rs\<close>). SHA-256 is
  the parameter \<open>sha256\<close> and hexadecimal encoding the parameter \<open>hex_encode\<close>; the operating system's random bytes and what reading the
  token file yields are arguments. Headers are a list of lower-case names with the raw bytes of
  their values, in order; \<open>get_header\<close> returns the first one.
\<close>

unbundle bit_operations_syntax

section \<open>Tokens\<close>

datatype gate_error =
    RandomFailure
  | GateIo
  | TokenFileTooOpen "32 word"
  | MalformedToken
  | TunnelError string

definition TOKEN_PREFIX :: string where "TOKEN_PREFIX = ''ferric_''"

definition token_generate :: "(8 word list \<Rightarrow> string) \<Rightarrow> 8 word list option \<Rightarrow> gate_error + string" where
  "token_generate hex_encode random32 =
     (case random32 of None \<Rightarrow> Inl RandomFailure | Some bs \<Rightarrow> Inr (TOKEN_PREFIX @ hex_encode bs))"

definition token_parse :: "string \<Rightarrow> string option" where
  "token_parse text =
     (let t = trim text
      in case strip_prefix TOKEN_PREFIX t of
           None \<Rightarrow> None
         | Some hex_part \<Rightarrow>
             if length hex_part = 64 \<and> list_all is_ascii_hexdigit hex_part then Some t else None)"

text \<open>The secret file: absent, unreadable, or its text with the permission bits of its mode.\<close>

datatype secret_file = NotFound | Unreadable | Contents string "32 word"

definition check_private :: "32 word \<Rightarrow> gate_error check" where
  "check_private mode =
     (let m = mode AND 0x1FF in require (m AND 0x3F = 0) (TokenFileTooOpen m))"

text \<open>\<open>write_private\<close> creates the file exclusively with mode 0600 and a final newline (octal modes are written in hexadecimal).\<close>

definition write_private :: "bool \<Rightarrow> secret_file \<Rightarrow> string \<Rightarrow> gate_error + secret_file" where
  "write_private io_ok file text =
     (if io_ok \<and> file = NotFound then Inr (Contents (text @ [CHR 0x0A]) 0x180) else Inl GateIo)"

definition load_or_create ::
  "(8 word list \<Rightarrow> string) \<Rightarrow> 8 word list option \<Rightarrow> bool \<Rightarrow> secret_file
     \<Rightarrow> gate_error + (string \<times> bool \<times> secret_file)" where
  "load_or_create hex_encode random32 io_ok file =
     (case file of
        Contents text mode \<Rightarrow>
          and_then (check_private mode) (\<lambda>_.
            and_then (ok_or (token_parse text) MalformedToken) (\<lambda>t. Inr (t, False, file)))
      | NotFound \<Rightarrow>
          and_then (token_generate hex_encode random32) (\<lambda>t.
            and_then (write_private io_ok file t) (\<lambda>file'. Inr (t, True, file')))
      | Unreadable \<Rightarrow> Inl GateIo)"

definition env_dir :: "(string \<Rightarrow> string option) \<Rightarrow> string \<Rightarrow> path option" where
  "env_dir env name =
     (case env name of None \<Rightarrow> None | Some v \<Rightarrow> if v = [] then None else Some (components v))"

definition state_dir :: "(string \<Rightarrow> string option) \<Rightarrow> path option" where
  "state_dir env =
     (case env_dir env ''FERRIC_STATE_DIR'' of
        Some dir \<Rightarrow> Some dir
      | None \<Rightarrow>
          map_option (\<lambda>dir. dir @ [Normal ''ferric''])
            (case env_dir env ''XDG_STATE_HOME'' of
               Some dir \<Rightarrow> Some dir
             | None \<Rightarrow> map_option (\<lambda>home. home @ [Normal ''.local'', Normal ''state''])
                         (env_dir env ''HOME'')))"

definition default_token_path :: "(string \<Rightarrow> string option) \<Rightarrow> string \<Rightarrow> path option" where
  "default_token_path env service =
     map_option (\<lambda>dir. dir @ [Normal ''gate'', Normal (service @ ''.token'')]) (state_dir env)"

section \<open>Header values\<close>

type_synonym headers = "(string \<times> string) list"

definition get_header :: "headers \<Rightarrow> string \<Rightarrow> string option" where
  "get_header hs name = map_of hs name"

definition remove_header :: "string \<Rightarrow> headers \<Rightarrow> headers" where
  "remove_header name hs = filter (\<lambda>(n, _). n \<noteq> name) hs"

text \<open>\<^verbatim>\<open>HeaderValue::to_str\<close> succeeds on visible ASCII and tab.\<close>

definition is_visible_ascii :: "char \<Rightarrow> bool" where
  "is_visible_ascii c \<longleftrightarrow> in_range 32 126 c \<or> byte c = 9"

definition to_str :: "string \<Rightarrow> string option" where
  "to_str v = (if list_all is_visible_ascii v then Some v else None)"

text \<open>\<^verbatim>\<open>String::from_utf8_lossy\<close>: every maximal invalid prefix of a sequence becomes
  U+FFFD.\<close>

definition replacement :: string where
  "replacement = [CHR 0xEF, CHR 0xBF, CHR 0xBD]"

definition second_ok :: "char \<Rightarrow> char \<Rightarrow> bool" where
  "second_ok a b \<longleftrightarrow>
     (if byte a = 224 then in_range 160 191 b
      else if byte a = 237 then in_range 128 159 b
      else if byte a = 240 then in_range 144 191 b
      else if byte a = 244 then in_range 128 143 b
      else is_cont b)"

definition utf8_width :: "char \<Rightarrow> nat" where
  "utf8_width a =
     (if byte a < 128 then 1 else if in_range 194 223 a then 2
      else if in_range 224 239 a then 3 else if in_range 240 244 a then 4 else 0)"

text \<open>The first sequence of a non-empty byte string: how many bytes it takes and whether it is
  a character.\<close>

definition utf8_step :: "char \<Rightarrow> string \<Rightarrow> nat \<times> bool" where
  "utf8_step a s =
     (let w = utf8_width a
      in if w = 0 then (1, False)
         else if w = 1 then (1, True)
         else (case s of
                 [] \<Rightarrow> (1, False)
               | b # s1 \<Rightarrow>
                   if \<not> second_ok a b then (1, False)
                   else if w = 2 then (2, True)
                   else (case s1 of
                           [] \<Rightarrow> (2, False)
                         | c # s2 \<Rightarrow>
                             if \<not> is_cont c then (2, False)
                             else if w = 3 then (3, True)
                             else (case s2 of
                                     [] \<Rightarrow> (3, False)
                                   | d # _ \<Rightarrow> if is_cont d then (4, True) else (3, False)))))"

lemma utf8_step_pos: "0 < fst (utf8_step a s)"
  by (auto simp: utf8_step_def Let_def split: list.splits)

function lossy :: "string \<Rightarrow> string" where
  "lossy [] = []"
| "lossy (a # s) =
     (case utf8_step a s of
        (n, valid) \<Rightarrow> (if valid then take n (a # s) else replacement) @ lossy (drop n (a # s)))"
  by pat_completeness auto
termination
proof (relation "measure length")
  fix a s n valid
  assume "(n, valid) = utf8_step a s"
  then have "0 < n" using utf8_step_pos[of a s] by (metis fst_conv)
  then show "(drop n (a # s), a # s) \<in> measure length" by simp
qed simp

section \<open>The request check\<close>

datatype denial =
    MissingHost
  | ForeignHost string
  | BrowserOrigin string
  | BrowserFetch string
  | MissingToken
  | BadToken
  | NotJson string

definition denial_status :: "denial \<Rightarrow> nat" where
  "denial_status d =
     (case d of
        MissingHost \<Rightarrow> 403 | ForeignHost _ \<Rightarrow> 403 | BrowserOrigin _ \<Rightarrow> 403 | BrowserFetch _ \<Rightarrow> 403
      | MissingToken \<Rightarrow> 401 | BadToken \<Rightarrow> 401
      | NotJson _ \<Rightarrow> 415)"

definition denial_code :: "denial \<Rightarrow> string" where
  "denial_code d =
     (case d of
        MissingHost \<Rightarrow> ''missing-host'' | ForeignHost _ \<Rightarrow> ''foreign-host''
      | BrowserOrigin _ \<Rightarrow> ''browser-origin'' | BrowserFetch _ \<Rightarrow> ''browser-fetch''
      | MissingToken \<Rightarrow> ''missing-token'' | BadToken \<Rightarrow> ''bad-token'' | NotJson _ \<Rightarrow> ''not-json'')"

definition denial_message :: "denial \<Rightarrow> string" where
  "denial_message d =
     (case d of
        MissingHost \<Rightarrow> ''request has no Host header''
      | ForeignHost host \<Rightarrow>
          ''Host '' @ [CHR 0x27] @ host @ [CHR 0x27]
          @ '' does not name this listener (DNS rebinding is refused)''
      | BrowserOrigin origin \<Rightarrow>
          ''browser request from origin '' @ [CHR 0x27] @ origin @ [CHR 0x27]
          @ '' refused: Ferric services do not serve web pages''
      | BrowserFetch site \<Rightarrow>
          ''browser request (Sec-Fetch-Site: '' @ site
          @ '') refused: Ferric services do not serve web pages''
      | MissingToken \<Rightarrow>
          ''missing bearer token: send `Authorization: Bearer <token>` from the service''
          @ [CHR 0x27] @ ''s token file''
      | BadToken \<Rightarrow> ''bearer token does not match''
      | NotJson found \<Rightarrow>
          ''request body must be application/json, not '' @ [CHR 0x27] @ found @ [CHR 0x27])"

datatype http_method = GET | POST | PUT | PATCH | OtherMethod string

record gate =
  g_digest :: "8 word list"
  g_hosts :: "string list"
  g_open_paths :: "string list"

definition gate_new :: "(string \<Rightarrow> 8 word list) \<Rightarrow> string \<Rightarrow> 16 word \<Rightarrow> gate" where
  "gate_new sha256 token port =
     \<lparr>g_digest = sha256 token,
      g_hosts = [''127.0.0.1:'' @ show_nat (unat port), ''localhost:'' @ show_nat (unat port),
                 ''[::1]:'' @ show_nat (unat port)],
      g_open_paths = []\<rparr>"

definition allow_host :: "string \<Rightarrow> gate \<Rightarrow> gate" where
  "allow_host authority g = g\<lparr>g_hosts := g_hosts g @ [to_ascii_lowercase authority]\<rparr>"

definition open_path :: "string \<Rightarrow> gate \<Rightarrow> gate" where
  "open_path p g = g\<lparr>g_open_paths := g_open_paths g @ [p]\<rparr>"

definition constant_time_eq :: "8 word list \<Rightarrow> 8 word list \<Rightarrow> bool" where
  "constant_time_eq a b \<longleftrightarrow> fold (\<lambda>(x, y) acc. acc OR (x XOR y)) (zip a b) 0 = 0"

definition check_host :: "gate \<Rightarrow> headers \<Rightarrow> denial check" where
  "check_host g hs =
     (case get_header hs ''host'' of
        None \<Rightarrow> Inl MissingHost
      | Some v \<Rightarrow>
          (case to_str v of
             None \<Rightarrow> Inl (ForeignHost ''<non-ascii>'')
           | Some s \<Rightarrow>
               let host = to_ascii_lowercase (trim s)
               in require (host \<in> set (g_hosts g)) (ForeignHost host)))"

fun first_fetch :: "headers \<Rightarrow> string list \<Rightarrow> denial check" where
  "first_fetch hs [] = ok"
| "first_fetch hs (n # ns) =
     (case get_header hs n of Some v \<Rightarrow> Inl (BrowserFetch (lossy v)) | None \<Rightarrow> first_fetch hs ns)"

definition check_browser :: "headers \<Rightarrow> denial check" where
  "check_browser hs =
     (case get_header hs ''origin'' of
        Some origin \<Rightarrow> Inl (BrowserOrigin (lossy origin))
      | None \<Rightarrow> first_fetch hs [''sec-fetch-site'', ''sec-fetch-mode'', ''sec-fetch-dest''])"

definition presented_token :: "headers \<Rightarrow> string option" where
  "presented_token hs =
     (case get_header hs ''authorization'' of
        None \<Rightarrow> None
      | Some v \<Rightarrow>
          (case to_str v of
             None \<Rightarrow> None
           | Some s \<Rightarrow>
               map_option trim
                 (case strip_prefix ''Bearer '' s of
                    Some r \<Rightarrow> Some r
                  | None \<Rightarrow> strip_prefix ''bearer '' s)))"

definition is_open :: "gate \<Rightarrow> http_method \<Rightarrow> string \<Rightarrow> bool" where
  "is_open g meth p \<longleftrightarrow> meth = GET \<and> p \<in> set (g_open_paths g)"

definition check_token ::
  "(string \<Rightarrow> 8 word list) \<Rightarrow> gate \<Rightarrow> http_method \<Rightarrow> string \<Rightarrow> headers \<Rightarrow> denial check" where
  "check_token sha256 g meth p hs =
     (if is_open g meth p then ok
      else (case presented_token hs of
              None \<Rightarrow> Inl MissingToken
            | Some t \<Rightarrow> require (constant_time_eq (sha256 t) (g_digest g)) BadToken))"

definition essence :: "string \<Rightarrow> string" where
  "essence content_type = to_ascii_lowercase (trim (hd (split_char (CHR '';'') content_type)))"

definition check_json :: "http_method \<Rightarrow> headers \<Rightarrow> denial check" where
  "check_json meth hs =
     (if meth = POST \<or> meth = PUT \<or> meth = PATCH then
        let content_type = (case get_header hs ''content-type'' of None \<Rightarrow> [] | Some v \<Rightarrow> lossy v)
        in require (essence content_type = ''application/json'')
             (NotJson (if content_type = [] then ''<none>'' else content_type))
      else ok)"

definition gate_check ::
  "(string \<Rightarrow> 8 word list) \<Rightarrow> gate \<Rightarrow> http_method \<Rightarrow> string \<Rightarrow> headers \<Rightarrow> denial check" where
  "gate_check sha256 g meth p hs = checks [
     check_host g hs,
     check_browser hs,
     check_token sha256 g meth p hs,
     check_json meth hs]"

section \<open>The middleware\<close>

record request =
  rq_method :: http_method
  rq_path :: string
  rq_headers :: headers
  rq_body :: string

record response =
  rs_status :: nat
  rs_headers :: headers
  rs_error :: "(string \<times> string) list"

definition DENIAL_HEADER :: string where "DENIAL_HEADER = ''x-ferric-gate''"

definition denial_response :: "denial \<Rightarrow> response" where
  "denial_response d =
     \<lparr>rs_status = denial_status d,
      rs_headers =
        [(''content-type'', ''application/json''), (''cache-control'', ''no-store''),
         (DENIAL_HEADER, denial_code d)]
        @ (if d = MissingToken \<or> d = BadToken
           then [(''www-authenticate'', ''Bearer realm='' @ [CHR 0x22] @ ''ferric'' @ [CHR 0x22])] else []),
      rs_error = [(''type'', ''ferric_gate''), (''code'', denial_code d),
                  (''message'', denial_message d)]\<rparr>"

text \<open>\<open>next\<close> is the wrapped router.\<close>

definition enforce ::
  "(string \<Rightarrow> 8 word list) \<Rightarrow> gate \<Rightarrow> (request \<Rightarrow> response) \<Rightarrow> request \<Rightarrow> response" where
  "enforce sha256 g next_handler rq =
     (case gate_check sha256 g (rq_method rq) (rq_path rq) (rq_headers rq) of
        Inr _ \<Rightarrow> next_handler (rq\<lparr>rq_headers := remove_header ''authorization'' (rq_headers rq)\<rparr>)
      | Inl d \<Rightarrow> denial_response d)"

section \<open>Listen addresses\<close>

datatype ip_addr =
    V4 "8 word" "8 word" "8 word" "8 word"
  | V6 "16 word list"

definition is_loopback :: "ip_addr \<Rightarrow> bool" where
  "is_loopback ip =
     (case ip of V4 a _ _ _ \<Rightarrow> a = 127 | V6 segs \<Rightarrow> segs = [0, 0, 0, 0, 0, 0, 0, 1])"

definition is_unspecified :: "ip_addr \<Rightarrow> bool" where
  "is_unspecified ip =
     (case ip of V4 a b c d \<Rightarrow> a = 0 \<and> b = 0 \<and> c = 0 \<and> d = 0 | V6 segs \<Rightarrow> segs = replicate 8 0)"

definition is_private :: "ip_addr \<Rightarrow> bool" where
  "is_private ip =
     (case ip of
        V4 a b c d \<Rightarrow>
          (a = 10 \<or> (a = 172 \<and> 16 \<le> b \<and> b \<le> 31) \<or> (a = 192 \<and> b = 168))
          \<or> (a = 100 \<and> 64 \<le> b \<and> b < 128)
      | V6 segs \<Rightarrow> (hd segs AND 0xfe00) = 0xfc00)"

datatype bind_error = WildcardAddress | TunnelNotPrivate | NotLoopback

definition check_bind :: "ip_addr \<Rightarrow> ip_addr option \<Rightarrow> bind_error check" where
  "check_bind ip tunnel =
     (if is_loopback ip then ok
      else if is_unspecified ip then Inl WildcardAddress
      else (case tunnel of
              Some t \<Rightarrow> if t = ip \<and> is_private ip then ok
                        else if t = ip then Inl TunnelNotPrivate else Inl NotLoopback
            | None \<Rightarrow> Inl NotLoopback))"

end
