(* ===== verification/Run_Policy.thy ===== *)
theory Run_Policy
  imports Rust_Strings "HOL-Library.Log_Nat"
begin

text \<open>
  The scale function of \<^verbatim>\<open>ferric-core\<close> (\<^verbatim>\<open>scale.rs\<close>), the hardware
  fit estimate (\<^verbatim>\<open>fit.rs\<close>) and the clarification request
  (\<^verbatim>\<open>user_input.rs\<close>). An \<^verbatim>\<open>f32\<close> is an exact rational, an infinity or NaN;
  the sign of zero is left out, since the code only multiplies and compares.
\<close>

section \<open>Single precision\<close>

datatype f32 = Finite rat | PosInf | NegInf | NaN

definition round_half_even :: "rat \<Rightarrow> int" where
  "round_half_even r =
     (let f = \<lfloor>r\<rfloor>; d = r - of_int f
      in if d < 1 / 2 then f else if 1 / 2 < d then f + 1 else if even f then f else f + 1)"

text \<open>The largest \<open>e\<close> with \<open>2^e \<le> q\<close>, for positive \<open>q\<close>.\<close>

definition log2_floor :: "rat \<Rightarrow> int" where
  "log2_floor q =
     (if 1 \<le> q then int (floorlog 2 (nat \<lfloor>q\<rfloor>)) - 1
      else - int (floorlog 2 (nat (\<lceil>1 / q\<rceil> - 1))))"

definition pow2 :: "int \<Rightarrow> rat" where
  "pow2 e = (if 0 \<le> e then 2 ^ nat e else 1 / 2 ^ nat (- e))"

text \<open>Round to nearest, ties to even, with 24 significant bits and gradual underflow at
  \<open>2^-149\<close>.\<close>

definition f32_of_rat :: "rat \<Rightarrow> f32" where
  "f32_of_rat q =
     (if q = 0 then Finite 0
      else let a = \<bar>q\<bar>; e = max (log2_floor a - 23) (- 149);
               r = of_int (round_half_even (a / pow2 e)) * pow2 e
        in if pow2 128 \<le> r then (if 0 < q then PosInf else NegInf)
           else Finite (if 0 < q then r else - r))"

fun f32_lt :: "f32 \<Rightarrow> f32 \<Rightarrow> bool" where
  "f32_lt NaN _ = False"
| "f32_lt _ NaN = False"
| "f32_lt (Finite a) (Finite b) = (a < b)"
| "f32_lt NegInf NegInf = False"
| "f32_lt NegInf _ = True"
| "f32_lt _ PosInf = True"
| "f32_lt _ _ = False"

definition f32_sign :: "rat \<Rightarrow> f32" where
  "f32_sign q = (if q = 0 then NaN else if 0 < q then PosInf else NegInf)"

fun f32_mul :: "f32 \<Rightarrow> f32 \<Rightarrow> f32" where
  "f32_mul NaN _ = NaN"
| "f32_mul _ NaN = NaN"
| "f32_mul (Finite a) (Finite b) = f32_of_rat (a * b)"
| "f32_mul (Finite a) PosInf = f32_sign a"
| "f32_mul (Finite a) NegInf = f32_sign (- a)"
| "f32_mul PosInf (Finite b) = f32_sign b"
| "f32_mul NegInf (Finite b) = f32_sign (- b)"
| "f32_mul PosInf PosInf = PosInf"
| "f32_mul NegInf NegInf = PosInf"
| "f32_mul _ _ = NegInf"

definition f32_of_u32 :: "nat \<Rightarrow> f32" where
  "f32_of_u32 n = f32_of_rat (of_nat n)"

section \<open>Tiers\<close>

datatype tier = Nano | Small | Medium | Large | Xl | Ultra

fun tier_rank :: "tier \<Rightarrow> nat" where
  "tier_rank Nano = 0"
| "tier_rank Small = 1"
| "tier_rank Medium = 2"
| "tier_rank Large = 3"
| "tier_rank Xl = 4"
| "tier_rank Ultra = 5"

lemma tier_rank_inject: "tier_rank a = tier_rank b \<longleftrightarrow> a = b"
  by (cases a; cases b) simp_all

instantiation tier :: linorder
begin

definition less_eq_tier :: "tier \<Rightarrow> tier \<Rightarrow> bool" where
  "less_eq_tier a b \<longleftrightarrow> tier_rank a \<le> tier_rank b"

definition less_tier :: "tier \<Rightarrow> tier \<Rightarrow> bool" where
  "less_tier a b \<longleftrightarrow> tier_rank a < tier_rank b"

instance
  by standard (auto simp: less_eq_tier_def less_tier_def tier_rank_inject)

end

record model_profile =
  params_b :: f32
  quant :: string
  ctx :: nat
  family :: string
  measured_level :: "nat option"

datatype action_protocol = NativeTools | ConstrainedJson | TextXml | Plan

fun protocol_key :: "action_protocol \<Rightarrow> string" where
  "protocol_key NativeTools = ''NativeTools''"
| "protocol_key ConstrainedJson = ''ConstrainedJson''"
| "protocol_key TextXml = ''TextXml''"
| "protocol_key Plan = ''Plan''"

datatype output_budget_source = Policy | Explicit | Caller

record output_budget =
  requested :: "nat option"
  effective :: nat
  declared_ctx :: "nat option"
  source :: output_budget_source

datatype tier_source = Measured | Params | Override | Conservative

fun tier_source_label :: "tier_source \<Rightarrow> string" where
  "tier_source_label Measured = ''measured''"
| "tier_source_label Params = ''params''"
| "tier_source_label Override = ''override''"
| "tier_source_label Conservative = ''conservative''"

record run_policy =
  rp_tier :: tier
  rp_tier_source :: tier_source
  max_turns :: nat
  max_tools :: nat
  prompt_budget_tokens :: nat
  max_output_tokens :: nat
  output_budget_of :: "output_budget option"
  max_ring :: "nat option"
  compact_trigger_fraction :: f32
  compact_keep_last_turns :: nat

definition DEFAULT_TRUNCATION_LIMIT :: nat where "DEFAULT_TRUNCATION_LIMIT = 4000"

section \<open>The scale function\<close>

definition tier_for_params :: "f32 \<Rightarrow> tier" where
  "tier_for_params p =
     (if f32_lt p (Finite 4) then Nano
      else if f32_lt p (Finite 13) then Small
      else if f32_lt p (Finite 30) then Medium
      else if f32_lt p (Finite 70) then Large
      else if f32_lt p (Finite 200) then Xl
      else Ultra)"

definition tier_for_level :: "nat \<Rightarrow> tier" where
  "tier_for_level level =
     (let l = min level 6
      in if l \<le> 1 then Nano else if l \<le> 4 then Small else if l = 5 then Medium else Large)"

fun ring_for_tier :: "tier \<Rightarrow> nat" where
  "ring_for_tier Nano = 0"
| "ring_for_tier Small = 1"
| "ring_for_tier Medium = 2"
| "ring_for_tier _ = 3"

fun tier_row :: "tier \<Rightarrow> nat \<times> nat \<times> nat \<times> nat \<times> f32 \<times> nat" where
  "tier_row Nano = (15, 10, 2800, 512, f32_of_rat (75 / 100), 1)"
| "tier_row Small = (20, 14, 5600, 768, f32_of_rat (80 / 100), 2)"
| "tier_row Medium = (25, 20, 11200, 1024, f32_of_rat (85 / 100), 2)"
| "tier_row Large = (40, 28, 22400, 1536, f32_of_rat (85 / 100), 3)"
| "tier_row Xl = (60, 36, 44800, 2048, f32_of_rat (85 / 100), 3)"
| "tier_row Ultra = (80, 52, 89600, 2048, f32_of_rat (90 / 100), 4)"

definition tier_decision :: "model_profile \<Rightarrow> tier option \<Rightarrow> tier \<times> tier_source" where
  "tier_decision profile override_tier =
     (case (override_tier, measured_level profile) of
        (Some t, _) \<Rightarrow> (t, Override)
      | (None, Some level) \<Rightarrow> (tier_for_level level, Measured)
      | (None, None) \<Rightarrow> (tier_for_params (params_b profile), Params))"

definition policy_for_with_override :: "model_profile \<Rightarrow> tier option \<Rightarrow> run_policy" where
  "policy_for_with_override profile override_tier =
     (let (t, src) = tier_decision profile override_tier;
          (turns, tools, budget_cap, output, fraction, keep) = tier_row t
      in \<lparr>rp_tier = t, rp_tier_source = src, max_turns = turns, max_tools = tools,
          prompt_budget_tokens = min ((ctx profile * 7 div 10) mod (u32_max + 1)) budget_cap,
          max_output_tokens = output, output_budget_of = None, max_ring = None,
          compact_trigger_fraction = fraction, compact_keep_last_turns = keep\<rparr>)"

definition policy_for :: "model_profile \<Rightarrow> run_policy" where
  "policy_for profile = policy_for_with_override profile None"

definition resolve_output_budget ::
  "run_policy \<Rightarrow> nat \<Rightarrow> nat option \<Rightarrow> string + output_budget" where
  "resolve_output_budget policy context request =
     (let remaining = (if 0 < context then checked_sub context (prompt_budget_tokens policy) else None);
          refused = (case request of None \<Rightarrow> False
             | Some cap \<Rightarrow> cap = 0 \<or> (case remaining of None \<Rightarrow> True | Some r \<Rightarrow> r < cap))
      in if refused then Inl (
           ''--max-output-tokens must be positive and fit declared context '' @ show_nat context
           @ '' minus prompt reserve '' @ show_nat (prompt_budget_tokens policy)
           @ '' (available output: ''
           @ (case remaining of None \<Rightarrow> ''invalid reserve'' | Some r \<Rightarrow> show_nat r)
           @ ''). Choose a smaller output cap or an explicitly supported context.'')
         else Inr \<lparr>requested = request,
                   effective = (case request of None \<Rightarrow> max_output_tokens policy | Some cap \<Rightarrow> cap),
                   declared_ctx = Some context,
                   source = (if request \<noteq> None then Explicit else Policy)\<rparr>)"

section \<open>Hardware fit\<close>

definition CONTEXT_KV_BYTES_PER_TOKEN :: nat where "CONTEXT_KV_BYTES_PER_TOKEN = 256 * 1024"
definition BASE_HEADROOM_BYTES :: nat where "BASE_HEADROOM_BYTES = 512 * 1024 * 1024"
definition TIGHT_NUM :: nat where "TIGHT_NUM = 8"
definition TIGHT_DEN :: nat where "TIGHT_DEN = 10"

definition estimate_model_memory :: "nat \<Rightarrow> nat \<Rightarrow> nat" where
  "estimate_model_memory file_bytes context =
     (let kv = saturating_mul u64_max context CONTEXT_KV_BYTES_PER_TOKEN
      in saturating_add u64_max (saturating_add u64_max file_bytes kv) BASE_HEADROOM_BYTES)"

datatype fit = Fits | Tight | WontFit | Unknown

definition classify_fit :: "nat \<Rightarrow> nat option \<Rightarrow> fit" where
  "classify_fit estimate available =
     (case available of
        None \<Rightarrow> Unknown
      | Some a \<Rightarrow>
          if a < estimate then WontFit
          else if saturating_mul u64_max a TIGHT_NUM < saturating_mul u64_max estimate TIGHT_DEN
          then Tight else Fits)"

section \<open>Clarification requests\<close>

record user_input_request =
  question :: string
  ui_context :: string
  options :: "string list"

datatype user_input_error = EmptyQuestion | EmptyContext | EmptyOption nat

definition validate_user_input :: "user_input_request \<Rightarrow> user_input_error check" where
  "validate_user_input r =
     (if trim (question r) = [] then Inl EmptyQuestion
      else if trim (ui_context r) = [] then Inl EmptyContext
      else case position (\<lambda>o1. trim o1 = []) (options r) of
             Some index \<Rightarrow> Inl (EmptyOption index)
           | None \<Rightarrow> ok)"

section \<open>Monotone agency\<close>

lemma tier_cases:
  obtains "t = Nano" | "t = Small" | "t = Medium" | "t = Large" | "t = Xl" | "t = Ultra"
  by (cases t) auto

lemmas budget_defs = resolve_output_budget_def Let_def checked_sub_def

lemma f32_below_mono:
  assumes "f32_lt p (Finite c)" "c \<le> d"
  shows "f32_lt p (Finite d)"
  using assms by (cases p) auto

lemma f32_le_lt:
  assumes "\<not> f32_lt q p" "p \<noteq> NaN" "f32_lt q (Finite c)" "q \<noteq> NaN"
  shows "f32_lt p (Finite c)"
  using assms by (cases p; cases q) auto

lemma tier_for_params_mono:
  assumes "\<not> f32_lt q p" "p \<noteq> NaN" "q \<noteq> NaN"
  shows "tier_for_params p \<le> tier_for_params q"
  using f32_le_lt[OF assms(1,2) _ assms(3), of 4] f32_le_lt[OF assms(1,2) _ assms(3), of 13]
    f32_le_lt[OF assms(1,2) _ assms(3), of 30] f32_le_lt[OF assms(1,2) _ assms(3), of 70]
    f32_le_lt[OF assms(1,2) _ assms(3), of 200]
    f32_below_mono[of p 4 13] f32_below_mono[of p 13 30] f32_below_mono[of p 30 70]
  by (auto simp: tier_for_params_def less_eq_tier_def)

lemma tier_for_level_mono: "a \<le> b \<Longrightarrow> tier_for_level a \<le> tier_for_level b"
  by (auto simp: tier_for_level_def less_eq_tier_def Let_def)

text \<open>What a tier grants, as the list of its numeric ceilings.\<close>

definition grants :: "run_policy \<Rightarrow> nat list" where
  "grants p = [max_turns p, max_tools p, prompt_budget_tokens p, max_output_tokens p,
     ring_for_tier (rp_tier p), compact_keep_last_turns p]"

lemma policy_tier [simp]:
  "rp_tier (policy_for_with_override m ov) = fst (tier_decision m ov)"
  "rp_tier_source (policy_for_with_override m ov) = snd (tier_decision m ov)"
  by (simp_all add: policy_for_with_override_def split: prod.splits)

lemma policy_keep_positive: "0 < compact_keep_last_turns (policy_for_with_override m ov)"
  by (cases "fst (tier_decision m ov)" rule: tier_cases)
     (auto simp: policy_for_with_override_def split: prod.splits)

lemma policy_prompt_budget:
  "ctx m \<le> u32_max \<Longrightarrow> 10 * prompt_budget_tokens (policy_for_with_override m ov) \<le> 7 * ctx m"
proof -
  assume "ctx m \<le> u32_max"
  then have "ctx m * 7 div 10 < u32_max + 1" by simp
  then have "prompt_budget_tokens (policy_for_with_override m ov) \<le> ctx m * 7 div 10"
    by (simp add: policy_for_with_override_def split: prod.splits)
  then show ?thesis by linarith
qed

lemma tier_row_mono:
  assumes "t \<le> t'" "tier_row t = (a1, b1, c1, d1, f1, g1)" "tier_row t' = (a2, b2, c2, d2, f2, g2)"
  shows "a1 \<le> a2 \<and> b1 \<le> b2 \<and> c1 \<le> c2 \<and> d1 \<le> d2 \<and> ring_for_tier t \<le> ring_for_tier t' \<and> g1 \<le> g2"
  using assms by (cases t; cases t') (simp_all add: less_eq_tier_def)

lemma grants_mono:
  assumes "fst (tier_decision m a) \<le> fst (tier_decision m' b)" "ctx m \<le> ctx m'" "ctx m' \<le> u32_max"
  shows "list_all2 (\<le>) (grants (policy_for_with_override m a)) (grants (policy_for_with_override m' b))"
proof -
  have "ctx m * 7 div 10 \<le> ctx m' * 7 div 10" using assms(2) by (intro div_le_mono) simp
  moreover have "ctx m' * 7 div 10 < u32_max + 1" using assms(3) by simp
  ultimately have budget: "ctx m * 7 div 10 mod Suc u32_max \<le> ctx m' * 7 div 10 mod Suc u32_max" by simp
  obtain t s t' s' where t: "tier_decision m a = (t, s)" "tier_decision m' b = (t', s')" by fastforce
  obtain a1 b1 c1 d1 f1 g1 where r: "tier_row t = (a1, b1, c1, d1, f1, g1)" by (cases "tier_row t")
  obtain a2 b2 c2 d2 f2 g2 where r': "tier_row t' = (a2, b2, c2, d2, f2, g2)" by (cases "tier_row t'")
  have "t \<le> t'" using assms(1) t by simp
  from tier_row_mono[OF this r r'] budget show ?thesis
    by (simp add: grants_def policy_for_with_override_def t r r' min.coboundedI1 min.coboundedI2)
qed

end
