(* ===== verification/Messages.thy ===== *)
theory Messages
  imports Run_Policy
begin

text \<open>
  The conversation: JSON values, tool calls and messages (\<^verbatim>\<open>ferric-core\<close>'s
  \<^verbatim>\<open>message.rs\<close>), the control actions the model may call
  (\<^verbatim>\<open>ferric-iron\<close>'s \<^verbatim>\<open>terminator.rs\<close> and \<^verbatim>\<open>render.rs\<close>), the
  model-facing truncation of \<^verbatim>\<open>ferric-tools\<close> and the completion request of
  \<^verbatim>\<open>ferric-provider\<close>. A JSON value is the tree serde_json builds; an object keeps its
  entries in the order of the map, its keys are distinct, and a number is its text.
\<close>

section \<open>Values, calls and messages\<close>

datatype json =
    JNull
  | JBool bool
  | JNum string
  | JStr string
  | JArr "json list"
  | JObj "(string \<times> json) list"

fun json_get :: "json \<Rightarrow> string \<Rightarrow> json option" where
  "json_get (JObj m) k = map_of m k"
| "json_get _ _ = None"

fun json_as_str :: "json \<Rightarrow> string option" where
  "json_as_str (JStr s) = Some s"
| "json_as_str _ = None"

record tool_call =
  tc_id :: string
  tc_name :: string
  tc_args :: json

record media_part =
  mime :: string
  media_data :: string

datatype role = System | User | Assistant | Tool

record message =
  msg_role :: role
  msg_text :: "string option"
  msg_tool_calls :: "tool_call list"
  msg_tool_call_id :: "string option"
  msg_media :: "media_part list"

definition text_message :: "role \<Rightarrow> string \<Rightarrow> message" where
  "text_message r t = \<lparr>msg_role = r, msg_text = Some t, msg_tool_calls = [],
     msg_tool_call_id = None, msg_media = []\<rparr>"

definition system_message :: "string \<Rightarrow> message" where
  "system_message t = text_message System t"

definition user_message :: "string \<Rightarrow> message" where
  "user_message t = text_message User t"

definition assistant_message :: "string \<Rightarrow> message" where
  "assistant_message t = text_message Assistant t"

definition tool_result_message :: "string \<Rightarrow> string \<Rightarrow> message" where
  "tool_result_message call_id output = \<lparr>msg_role = Tool, msg_text = Some output, msg_tool_calls = [],
     msg_tool_call_id = Some call_id, msg_media = []\<rparr>"

definition user_with_media :: "string \<Rightarrow> media_part list \<Rightarrow> message" where
  "user_with_media t media = \<lparr>msg_role = User, msg_text = Some t, msg_tool_calls = [],
     msg_tool_call_id = None, msg_media = media\<rparr>"

section \<open>Rendering\<close>

definition tool_result_text :: "string \<Rightarrow> string \<Rightarrow> string" where
  "tool_result_text name output = ''[tool_result for '' @ name @ ''] '' @ output"

text \<open>Characters are counted, not bytes: a character starts at a byte that is not a UTF-8
  continuation.\<close>

definition char_count :: "string \<Rightarrow> nat" where
  "char_count s = length (filter (\<lambda>c. \<not> is_cont c) s)"

fun take_chars :: "nat \<Rightarrow> string \<Rightarrow> string" where
  "take_chars _ [] = []"
| "take_chars n (c # s) =
     (if is_cont c then c # take_chars n s
      else case n of 0 \<Rightarrow> [] | Suc m \<Rightarrow> c # take_chars m s)"

definition truncation_notice :: string where
  "truncation_notice = CHR 0x0A # ''[... output truncated for model; full output in trace]''"

definition truncate_for_model :: "string \<Rightarrow> nat \<Rightarrow> string" where
  "truncate_for_model text limit =
     (if char_count text \<le> limit then text else take_chars limit text @ truncation_notice)"

record tool_descriptor =
  td_name :: string
  td_description :: string
  td_input_schema :: json

definition render_tool_listing :: "tool_descriptor list \<Rightarrow> string" where
  "render_tool_listing tools =
     [CHR 0x0A, CHR 0x0A] @ ''Available tools:'' @ [CHR 0x0A]
     @ concat (map (\<lambda>t. ''- '' @ td_name t @ '': '' @ td_description t @ [CHR 0x0A]) tools)"

section \<open>Control actions\<close>

definition TASK_COMPLETE :: string where "TASK_COMPLETE = ''task_complete''"
definition SUBMIT_PLAN :: string where "SUBMIT_PLAN = ''submit_plan''"
definition REQUEST_USER_INPUT :: string where "REQUEST_USER_INPUT = ''request_user_input''"

definition schema_field :: "(string \<times> json) list \<Rightarrow> string \<Rightarrow> string \<Rightarrow> json" where
  "schema_field extra ty d = JObj ([(''type'', JStr ty)] @ extra @ [(''description'', JStr d)])"

definition descriptor :: tool_descriptor where
  "descriptor = \<lparr>td_name = TASK_COMPLETE,
     td_description = ''Call this when the task is finished. Args: {\"summary\": string} - a one-sentence summary of what was done.'',
     td_input_schema = JObj [(''type'', JStr ''object''),
       (''properties'', JObj [(''summary'', schema_field [] ''string'' ''One-sentence summary of the completed task'')]),
       (''required'', JArr [JStr ''summary''])]\<rparr>"

definition plan_descriptor :: tool_descriptor where
  "plan_descriptor = \<lparr>td_name = SUBMIT_PLAN,
     td_description = ''Call this when your implementation plan is complete. Args: {\"plan\": string} - the full markdown text of the implementation plan.'',
     td_input_schema = JObj [(''type'', JStr ''object''),
       (''properties'', JObj [(''plan'', schema_field [] ''string'' ''The full markdown implementation plan'')]),
       (''required'', JArr [JStr ''plan''])]\<rparr>"

definition request_user_input_descriptor :: tool_descriptor where
  "request_user_input_descriptor = \<lparr>td_name = REQUEST_USER_INPUT,
     td_description = ''Call this only when a missing user decision or fact materially changes the correct next action and cannot be recovered from the workspace. This must be the only tool call in the turn. Use an empty options array for a free-form answer.'',
     td_input_schema = JObj [(''type'', JStr ''object''),
       (''properties'', JObj [
          (''question'', schema_field [(''minLength'', JNum ''1'')] ''string'' ''The concrete decision or missing fact the user must supply''),
          (''context'', schema_field [(''minLength'', JNum ''1'')] ''string'' ''Why the answer is material and unavailable from the workspace''),
          (''options'', schema_field [(''items'', JObj [(''type'', JStr ''string''), (''minLength'', JNum ''1'')])] ''array''
             ''Suggested answers; use an empty array for free-form input'')]),
       (''required'', JArr [JStr ''question'', JStr ''context'', JStr ''options'']),
       (''additionalProperties'', JBool False)]\<rparr>"

definition control_descriptors :: "action_protocol \<Rightarrow> tool_descriptor list" where
  "control_descriptors protocol =
     [request_user_input_descriptor, if protocol = Plan then plan_descriptor else descriptor]"

definition is_task_complete :: "string \<Rightarrow> bool" where
  "is_task_complete name \<longleftrightarrow> name = TASK_COMPLETE"

definition is_submit_plan :: "string \<Rightarrow> bool" where
  "is_submit_plan name \<longleftrightarrow> name = SUBMIT_PLAN"

definition is_request_user_input :: "string \<Rightarrow> bool" where
  "is_request_user_input name \<longleftrightarrow> name = REQUEST_USER_INPUT"

datatype user_input_request_error = Shape | Validation user_input_error

fun strings_of :: "json list \<Rightarrow> string list option" where
  "strings_of [] = Some []"
| "strings_of (JStr s # vs) = map_option ((#) s) (strings_of vs)"
| "strings_of _ = None"

text \<open>The derived decoder accepts an object with exactly the three fields and, as for every
  struct, the array of the three values in order.\<close>

definition request_fields :: "json \<Rightarrow> json \<Rightarrow> json \<Rightarrow> user_input_request option" where
  "request_fields q c os =
     (case (q, c, os) of
        (JStr q', JStr c', JArr vs) \<Rightarrow>
          map_option (\<lambda>os'. \<lparr>question = q', ui_context = c', options = os'\<rparr>) (strings_of vs)
      | _ \<Rightarrow> None)"

fun request_from_value :: "json \<Rightarrow> user_input_request option" where
  "request_from_value (JObj m) =
     (if list_all (\<lambda>(k, _). k \<in> {''question'', ''context'', ''options''}) m then
        case (map_of m ''question'', map_of m ''context'', map_of m ''options'') of
          (Some q, Some c, Some os) \<Rightarrow> request_fields q c os
        | _ \<Rightarrow> None
      else None)"
| "request_from_value (JArr [q, c, os]) = request_fields q c os"
| "request_from_value _ = None"

definition request_of :: "json \<Rightarrow> user_input_request_error + user_input_request" where
  "request_of args =
     (case request_from_value args of
        None \<Rightarrow> Inl Shape
      | Some r \<Rightarrow>
          case validate_user_input r of
            Inl e \<Rightarrow> Inl (Validation e)
          | Inr _ \<Rightarrow> Inr r)"

definition field_text :: "string \<Rightarrow> json \<Rightarrow> string" where
  "field_text k args =
     (case args of
        JStr s \<Rightarrow> s
      | other \<Rightarrow>
          (case Option.bind (json_get other k) json_as_str of Some s \<Rightarrow> s | None \<Rightarrow> []))"

definition summary_of :: "json \<Rightarrow> string" where
  "summary_of args = field_text ''summary'' args"

definition plan_of :: "json \<Rightarrow> string" where
  "plan_of args = field_text ''plan'' args"

section \<open>Completion requests\<close>

datatype decode_constraint = JsonSchema json | Regex string | Lark string

record sampling_params =
  temperature :: f32
  top_p :: f32
  max_tokens :: nat

definition default_sampling :: sampling_params where
  "default_sampling = \<lparr>temperature = f32_of_rat (7 / 10), top_p = f32_of_rat (95 / 100), max_tokens = 2048\<rparr>"

record completion_request =
  cr_messages :: "message list"
  cr_sampling :: sampling_params
  cr_tools :: "tool_descriptor list"
  cr_constraint :: "decode_constraint option"

definition invalid_request :: string where
  "invalid_request = ''constraint and tools are mutually exclusive (ADR-010): a constraint governs the whole output and fights tool-call syntax''"

definition validate_request :: "completion_request \<Rightarrow> string check" where
  "validate_request r = require (cr_constraint r = None \<or> cr_tools r = []) invalid_request"

section \<open>Lemmas\<close>

lemma char_count_take_chars [simp]: "char_count (take_chars n s) = min n (char_count s)"
  by (induction n s rule: take_chars.induct) (auto simp: char_count_def split: nat.splits)

lemma take_chars_prefix: "\<exists>t. s = take_chars n s @ t"
proof (induction n s rule: take_chars.induct)
  case (2 n c s)
  then show ?case by (cases "is_cont c"; cases n) auto
qed simp

lemma char_count_append [simp]: "char_count (a @ b) = char_count a + char_count b"
  by (simp add: char_count_def)

lemma truncate_bounded: "char_count (truncate_for_model s n) \<le> n + 55"
  by (auto simp: truncate_for_model_def)
     (auto simp: truncation_notice_def char_count_def is_cont_def in_range_def byte_def)

lemma request_of_valid: "request_of args = Inr r \<Longrightarrow> validate_user_input r = ok"
  by (auto simp: request_of_def split: option.splits sum.splits)

end
