(* ===== verification/Tunnel_Plan.thy ===== *)
theory Tunnel_Plan
  imports Network_Gate Messages
begin

text \<open>
  The WireGuard tunnel plan of \<^verbatim>\<open>ferric-gate\<close> (\<^verbatim>\<open>tunnel.rs\<close>): the key pairs, the
  two configuration files, the translation of the host's file into a UAPI request, and the peers
  read from a UAPI status. Base64 (\<open>b64_encode\<close>, \<open>b64_decode\<close>), hexadecimal
  (\<open>hex_encode\<close>, \<open>hex_decode\<close>), X25519 (\<open>public_of\<close>), the printer of JSON
  (\<open>show_json\<close>) and of paths (\<open>display\<close>) are parameters.
\<close>

section \<open>Keys\<close>

definition DEFAULT_INTERFACE :: string where "DEFAULT_INTERFACE = ''ferric0''"
definition DEFAULT_LISTEN_PORT :: "16 word" where "DEFAULT_LISTEN_PORT = 51820"
definition HOST_ADDRESS :: string where "HOST_ADDRESS = ''10.77.0.1''"
definition CLIENT_ADDRESS :: string where "CLIENT_ADDRESS = ''10.77.0.2''"
definition PREFIX :: nat where "PREFIX = 24"

definition default_tunnel_dir :: "(string \<Rightarrow> string option) \<Rightarrow> path option" where
  "default_tunnel_dir env = map_option (\<lambda>dir. join_path dir (components ''tunnel'')) (state_dir env)"

definition uapi_socket_path :: "string \<Rightarrow> path" where
  "uapi_socket_path interface = components (''/var/run/wireguard/'' @ interface @ ''.sock'')"

record key_pair =
  kp_secret :: "8 word list"
  kp_public :: "8 word list"

definition key_from_secret :: "(8 word list \<Rightarrow> 8 word list) \<Rightarrow> 8 word list \<Rightarrow> key_pair" where
  "key_from_secret public_of secret = \<lparr>kp_secret = secret, kp_public = public_of secret\<rparr>"

definition clamp :: "8 word list \<Rightarrow> 8 word list" where
  "clamp s = (let s1 = s[0 := (s ! 0) AND 248]; s2 = s1[31 := (s1 ! 31) AND 127]
     in s2[31 := (s2 ! 31) OR 64])"

definition key_generate ::
  "(8 word list \<Rightarrow> 8 word list) \<Rightarrow> 8 word list option \<Rightarrow> gate_error + key_pair" where
  "key_generate public_of random32 =
     (case random32 of
        None \<Rightarrow> Inl RandomFailure
      | Some bytes \<Rightarrow> Inr (key_from_secret public_of (clamp bytes)))"

record tunnel_plan =
  interface :: string
  listen_port :: "16 word"
  endpoint :: "string option"
  host :: key_pair
  client :: key_pair
  psk :: "8 word list"

text \<open>The three random draws come in order, and the first that fails ends the generation.\<close>

definition plan_generate ::
  "(8 word list \<Rightarrow> 8 word list) \<Rightarrow> 8 word list option \<Rightarrow> 8 word list option \<Rightarrow> 8 word list option
     \<Rightarrow> string option \<Rightarrow> gate_error + tunnel_plan" where
  "plan_generate public_of r1 r2 r3 ep =
     and_then (key_generate public_of r1) (\<lambda>h.
     and_then (key_generate public_of r2) (\<lambda>c.
     and_then (ok_or r3 RandomFailure) (\<lambda>k.
       Inr \<lparr>interface = DEFAULT_INTERFACE, listen_port = DEFAULT_LISTEN_PORT, endpoint = ep,
            host = h, client = c, psk = k\<rparr>)))"

section \<open>Configuration files\<close>

definition host_conf_lines :: "(8 word list \<Rightarrow> string) \<Rightarrow> tunnel_plan \<Rightarrow> string list" where
  "host_conf_lines b64_encode p = [
     ''# Ferric tunnel: the Ferric host. Secret; mode 0600.'',
     ''[Interface]'',
     ''PrivateKey = '' @ b64_encode (kp_secret (host p)),
     ''Address = '' @ HOST_ADDRESS @ ''/'' @ show_nat PREFIX,
     ''ListenPort = '' @ show_nat (unat (listen_port p)),
     [],
     ''[Peer]'',
     ''# client-1'',
     ''PublicKey = '' @ b64_encode (kp_public (client p)),
     ''PresharedKey = '' @ b64_encode (psk p),
     ''AllowedIPs = '' @ CLIENT_ADDRESS @ ''/32'']"

definition host_conf :: "(8 word list \<Rightarrow> string) \<Rightarrow> tunnel_plan \<Rightarrow> string" where
  "host_conf b64_encode p = unlines (host_conf_lines b64_encode p)"

definition client_conf_lines :: "(8 word list \<Rightarrow> string) \<Rightarrow> tunnel_plan \<Rightarrow> string list" where
  "client_conf_lines b64_encode p = [
     ''# Ferric tunnel: client-1. Secret; mode 0600. Import into any WireGuard client.'',
     ''[Interface]'',
     ''PrivateKey = '' @ b64_encode (kp_secret (client p)),
     ''Address = '' @ CLIENT_ADDRESS @ ''/32'',
     [],
     ''[Peer]'',
     ''# the Ferric host'',
     ''PublicKey = '' @ b64_encode (kp_public (host p)),
     ''PresharedKey = '' @ b64_encode (psk p),
     ''AllowedIPs = '' @ HOST_ADDRESS @ ''/32'',
     ''Endpoint = '' @ (case endpoint p of
        Some e \<Rightarrow> e | None \<Rightarrow> ''<ferric-host>:'' @ show_nat (unat (listen_port p))),
     ''PersistentKeepalive = 25'']"

definition client_conf :: "(8 word list \<Rightarrow> string) \<Rightarrow> tunnel_plan \<Rightarrow> string" where
  "client_conf b64_encode p = unlines (client_conf_lines b64_encode p)"

definition plan_info :: "(8 word list \<Rightarrow> string) \<Rightarrow> tunnel_plan \<Rightarrow> json" where
  "plan_info b64_encode p = JObj [
     (''interface'', JStr (interface p)),
     (''host_address'', JStr HOST_ADDRESS),
     (''client_address'', JStr CLIENT_ADDRESS),
     (''prefix'', JNum (show_nat PREFIX)),
     (''listen_port'', JNum (show_nat (unat (listen_port p)))),
     (''host_public_key'', JStr (b64_encode (kp_public (host p)))),
     (''client_public_key'', JStr (b64_encode (kp_public (client p)))),
     (''endpoint'', case endpoint p of Some e \<Rightarrow> JStr e | None \<Rightarrow> JNull)]"

record tunnel_dir =
  td_host_conf :: secret_file
  td_client_conf :: secret_file
  td_info :: secret_file

definition tunnel_file :: "path \<Rightarrow> string \<Rightarrow> path" where
  "tunnel_file dir name = join_path dir (components name)"

definition plan_exists :: "string \<Rightarrow> gate_error" where
  "plan_exists p = TunnelError (p @ '' already exists; a tunnel plan is never overwritten (move the directory aside to start over)'')"

text \<open>A file that was written stays written when a later one fails; \<open>io_ok\<close> says of each of
  the three writes whether the system lets it through.\<close>

definition plan_write ::
  "(8 word list \<Rightarrow> string) \<Rightarrow> (json \<Rightarrow> string) \<Rightarrow> (path \<Rightarrow> string) \<Rightarrow> tunnel_plan \<Rightarrow> path
     \<Rightarrow> bool \<times> bool \<times> bool \<Rightarrow> tunnel_dir \<Rightarrow> gate_error check \<times> tunnel_dir" where
  "plan_write b64_encode show_json display p dir io_ok d =
     (if td_host_conf d \<noteq> NotFound then (Inl (plan_exists (display (tunnel_file dir ''host.conf''))), d)
      else if td_client_conf d \<noteq> NotFound then (Inl (plan_exists (display (tunnel_file dir ''client-1.conf''))), d)
      else if td_info d \<noteq> NotFound then (Inl (plan_exists (display (tunnel_file dir ''tunnel.json''))), d)
      else case write_private (fst io_ok) (td_host_conf d) (host_conf b64_encode p) of
        Inl e \<Rightarrow> (Inl e, d)
      | Inr f1 \<Rightarrow>
          let d1 = d\<lparr>td_host_conf := f1\<rparr>
          in case write_private (fst (snd io_ok)) (td_client_conf d1) (client_conf b64_encode p) of
            Inl e \<Rightarrow> (Inl e, d1)
          | Inr f2 \<Rightarrow>
              let d2 = d1\<lparr>td_client_conf := f2\<rparr>
              in case write_private (snd (snd io_ok)) (td_info d2) (show_json (plan_info b64_encode p)) of
                Inl e \<Rightarrow> (Inl e, d2)
              | Inr f3 \<Rightarrow> (ok, d2\<lparr>td_info := f3\<rparr>))"

section \<open>The UAPI request\<close>

definition split_once :: "char \<Rightarrow> string \<Rightarrow> (string \<times> string) option" where
  "split_once sep s =
     (if sep \<in> set s then Some (takeWhile (\<lambda>c. c \<noteq> sep) s, tl (dropWhile (\<lambda>c. c \<noteq> sep) s)) else None)"

definition b64_to_hex ::
  "(string \<Rightarrow> 8 word list option) \<Rightarrow> (8 word list \<Rightarrow> string) \<Rightarrow> string \<Rightarrow> gate_error + string" where
  "b64_to_hex b64_decode hex_encode value =
     (case b64_decode value of
        None \<Rightarrow> Inl (TunnelError ''key is not base64'')
      | Some bytes \<Rightarrow>
          if length bytes \<noteq> 32 then Inl (TunnelError ''key is not 32 bytes'') else Inr (hex_encode bytes))"

datatype conf_section = NoSection | InterfaceSection | PeerSection

record uapi_state =
  ua_out :: string
  ua_section :: conf_section
  ua_saw_private :: bool

definition uapi_entry ::
  "(string \<Rightarrow> 8 word list option) \<Rightarrow> (8 word list \<Rightarrow> string) \<Rightarrow> conf_section \<Rightarrow> string \<Rightarrow> string
     \<Rightarrow> gate_error + string list" where
  "uapi_entry b64_decode hex_encode sec key value =
     (let hexed = b64_to_hex b64_decode hex_encode value
      in if sec = InterfaceSection \<and> key = ''PrivateKey'' then and_then hexed (\<lambda>h. Inr [''private_key='' @ h])
         else if sec = InterfaceSection \<and> key = ''ListenPort'' then Inr [''listen_port='' @ value]
         else if sec = InterfaceSection \<and> key = ''Address'' then Inr []
         else if sec = PeerSection \<and> key = ''PublicKey'' then
           and_then hexed (\<lambda>h. Inr [''public_key='' @ h, ''replace_allowed_ips=true''])
         else if sec = PeerSection \<and> key = ''PresharedKey'' then and_then hexed (\<lambda>h. Inr [''preshared_key='' @ h])
         else if sec = PeerSection \<and> key = ''AllowedIPs'' then
           Inr (map (\<lambda>ip. ''allowed_ip='' @ trim ip) (split_char (CHR '','') value))
         else if sec = PeerSection \<and> key = ''Endpoint'' then Inr [''endpoint='' @ value]
         else if sec = PeerSection \<and> key = ''PersistentKeepalive'' then Inr [''persistent_keepalive_interval='' @ value]
         else Inl (TunnelError (''unsupported key `'' @ key @ ''`'')))"

definition eq_ignore_ascii_case :: "string \<Rightarrow> string \<Rightarrow> bool" where
  "eq_ignore_ascii_case a b \<longleftrightarrow> to_ascii_lowercase a = to_ascii_lowercase b"

definition uapi_line ::
  "(string \<Rightarrow> 8 word list option) \<Rightarrow> (8 word list \<Rightarrow> string) \<Rightarrow> uapi_state \<Rightarrow> string
     \<Rightarrow> gate_error + uapi_state" where
  "uapi_line b64_decode hex_encode st raw =
     (let line = trim (hd (split_char (CHR ''#'') raw))
      in if line = [] then Inr st
         else if starts_with line ''['' then
           (if eq_ignore_ascii_case line ''[Interface]'' then Inr (st\<lparr>ua_section := InterfaceSection\<rparr>)
            else if eq_ignore_ascii_case line ''[Peer]'' then Inr (st\<lparr>ua_section := PeerSection\<rparr>)
            else Inl (TunnelError (''unknown section '' @ line)))
         else case split_once (CHR ''='') line of
           None \<Rightarrow> Inl (TunnelError (''cannot parse `'' @ line @ ''`''))
         | Some (k, v) \<Rightarrow>
             let key = trim k; value = trim v
             in case uapi_entry b64_decode hex_encode (ua_section st) key value of
               Inl e \<Rightarrow> Inl e
             | Inr ls \<Rightarrow> Inr (st\<lparr>ua_out := ua_out st @ unlines ls,
                 ua_saw_private := (ua_saw_private st \<or> (ua_section st = InterfaceSection \<and> key = ''PrivateKey''))\<rparr>))"

fun uapi_lines ::
  "(string \<Rightarrow> 8 word list option) \<Rightarrow> (8 word list \<Rightarrow> string) \<Rightarrow> uapi_state \<Rightarrow> string list
     \<Rightarrow> gate_error + uapi_state" where
  "uapi_lines b64_decode hex_encode st [] = Inr st"
| "uapi_lines b64_decode hex_encode st (raw # raws) =
     (case uapi_line b64_decode hex_encode st raw of
        Inl e \<Rightarrow> Inl e
      | Inr st1 \<Rightarrow> uapi_lines b64_decode hex_encode st1 raws)"

definition uapi_set_request ::
  "(string \<Rightarrow> 8 word list option) \<Rightarrow> (8 word list \<Rightarrow> string) \<Rightarrow> string \<Rightarrow> gate_error + string" where
  "uapi_set_request b64_decode hex_encode conf =
     (case uapi_lines b64_decode hex_encode
        \<lparr>ua_out = unlines [''set=1'', ''replace_peers=true''], ua_section = NoSection, ua_saw_private = False\<rparr>
        (str_lines conf) of
        Inl e \<Rightarrow> Inl e
      | Inr st \<Rightarrow>
          if \<not> ua_saw_private st then Inl (TunnelError ''host config has no PrivateKey'')
          else Inr (ua_out st @ [CHR 0x0A]))"

definition read_host_conf :: "tunnel_dir \<Rightarrow> gate_error + string" where
  "read_host_conf d =
     (case td_host_conf d of
        Contents t mode \<Rightarrow> and_then (check_private mode) (\<lambda>_. Inr t)
      | _ \<Rightarrow> Inl GateIo)"

section \<open>Peer status\<close>

record peer_status =
  ps_public_key :: string
  ps_endpoint :: "string option"
  ps_last_handshake_sec :: nat
  ps_rx_bytes :: nat
  ps_tx_bytes :: nat

text \<open>\<^verbatim>\<open>str::parse\<close> at \<^verbatim>\<open>u64\<close>: an optional plus sign and digits, without overflow.\<close>

definition parse_u64 :: "string \<Rightarrow> nat option" where
  "parse_u64 s =
     (let ds = (case s of c # r \<Rightarrow> if c = CHR ''+'' then r else s | [] \<Rightarrow> s);
          n = foldl (\<lambda>n c. n * 10 + (byte c - 48)) 0 ds
      in if ds \<noteq> [] \<and> list_all is_ascii_digit ds \<and> n \<le> u64_max then Some n else None)"

definition update_last :: "('a \<Rightarrow> 'a) \<Rightarrow> 'a list \<Rightarrow> 'a list" where
  "update_last f xs = (if xs = [] then [] else butlast xs @ [f (last xs)])"

definition number_or_zero :: "string \<Rightarrow> nat" where
  "number_or_zero s = (case parse_u64 s of Some n \<Rightarrow> n | None \<Rightarrow> 0)"

definition status_line ::
  "(string \<Rightarrow> 8 word list option) \<Rightarrow> (8 word list \<Rightarrow> string) \<Rightarrow> peer_status list \<Rightarrow> string
     \<Rightarrow> peer_status list" where
  "status_line hex_decode b64_encode peers line =
     (case split_once (CHR ''='') line of
        None \<Rightarrow> peers
      | Some (key, value) \<Rightarrow>
          if key = ''public_key'' then
            peers @ [\<lparr>ps_public_key = (case hex_decode value of Some bytes \<Rightarrow> b64_encode bytes | None \<Rightarrow> value),
                      ps_endpoint = None, ps_last_handshake_sec = 0, ps_rx_bytes = 0, ps_tx_bytes = 0\<rparr>]
          else if key = ''endpoint'' then update_last (\<lambda>p. p\<lparr>ps_endpoint := Some value\<rparr>) peers
          else if key = ''last_handshake_time_sec'' then
            update_last (\<lambda>p. p\<lparr>ps_last_handshake_sec := number_or_zero value\<rparr>) peers
          else if key = ''rx_bytes'' then update_last (\<lambda>p. p\<lparr>ps_rx_bytes := number_or_zero value\<rparr>) peers
          else if key = ''tx_bytes'' then update_last (\<lambda>p. p\<lparr>ps_tx_bytes := number_or_zero value\<rparr>) peers
          else peers)"

definition parse_status ::
  "(string \<Rightarrow> 8 word list option) \<Rightarrow> (8 word list \<Rightarrow> string) \<Rightarrow> string \<Rightarrow> peer_status list" where
  "parse_status hex_decode b64_encode response = foldl (status_line hex_decode b64_encode) [] (str_lines response)"

text \<open>The verdict on a UAPI response: the last line that reports an error number decides.\<close>

definition uapi_verdict :: "string \<Rightarrow> gate_error + string" where
  "uapi_verdict response =
     (case List.find (\<lambda>l. starts_with l ''errno='') (rev (str_lines response)) of
        Some l \<Rightarrow> if l = ''errno=0'' then Inr response else Inl (TunnelError (''WireGuard UAPI refused: '' @ l))
      | None \<Rightarrow> Inl (TunnelError ''WireGuard UAPI gave no errno''))"

end
