(* ===== verification/Gate_Props.thy ===== *)
theory Gate_Props
  imports Network_Gate "HOL-Library.Code_Target_Nat"
begin

text \<open>
  The properties of the gate: the request check as a conjunction of independent conditions,
  what the middleware hands on and what it answers, the life of a token file, and the
  addresses a service may listen on, as network prefixes. Of SHA-256 only the length of a
  digest is assumed.
\<close>

unbundle bit_operations_syntax

section \<open>Words and digests\<close>

lemma unat_byte_less: "unat (a :: 8 word) < 256"
  using unsigned_less[of a, where 'a = nat] by simp

lemma unat_u16_less: "unat (a :: 16 word) < 65536"
  using unsigned_less[of a, where 'a = nat] by simp




section \<open>The request check\<close>











section \<open>The middleware\<close>

lemma get_remove_header:
  "get_header (remove_header n hs) m = (if m = n then None else get_header hs m)"
  by (induction hs) (auto simp: get_header_def remove_header_def)

text \<open>
  C33. The middleware runs the wrapped service only on requests the gate admits, and only after
  it has removed the credential: the handler sees the same method, path, body and every other
  header, and no Authorization header. Every refusal is answered by the gate itself with status
  401, 403 or 415, the denial code in its header, no caching and no CORS header of any kind.
\<close>

theorem enforce_spec:
  "(\<exists>rq'. gate_check sha256 g (rq_method rq) (rq_path rq) (rq_headers rq) = ok \<and>
      enforce sha256 g handler rq = handler rq' \<and> rq_method rq' = rq_method rq \<and>
      rq_path rq' = rq_path rq \<and> rq_body rq' = rq_body rq \<and>
      get_header (rq_headers rq') ''authorization'' = None \<and>
      {n. get_header (rq_headers rq') n \<noteq> get_header (rq_headers rq) n} \<subseteq> {''authorization''}) \<or>
   (\<exists>d. gate_check sha256 g (rq_method rq) (rq_path rq) (rq_headers rq) = Inl d \<and>
      enforce sha256 g handler rq = denial_response d \<and>
      rs_status (denial_response d) \<in> {401, 403, 415} \<and>
      get_header (rs_headers (denial_response d)) DENIAL_HEADER = Some (denial_code d) \<and>
      get_header (rs_headers (denial_response d)) ''cache-control'' = Some ''no-store'' \<and>
      list_all (\<lambda>(n, v). n \<in> {''content-type'', ''cache-control'', DENIAL_HEADER, ''www-authenticate''})
        (rs_headers (denial_response d)))"
proof (cases "gate_check sha256 g (rq_method rq) (rq_path rq) (rq_headers rq)")
  case (Inl d)
  have "rs_status (denial_response d) \<in> {401, 403, 415}"
    by (cases d) (simp_all add: denial_response_def denial_status_def)
  moreover have "get_header (rs_headers (denial_response d)) DENIAL_HEADER = Some (denial_code d)"
    "get_header (rs_headers (denial_response d)) ''cache-control'' = Some ''no-store''"
    by (simp_all add: denial_response_def get_header_def DENIAL_HEADER_def)
  moreover have "list_all (\<lambda>(n, v). n \<in> {''content-type'', ''cache-control'', DENIAL_HEADER, ''www-authenticate''})
        (rs_headers (denial_response d))"
    by (simp add: denial_response_def)
  ultimately show ?thesis using Inl by (simp add: enforce_def)
next
  case (Inr u)
  let ?rq = "rq\<lparr>rq_headers := remove_header ''authorization'' (rq_headers rq)\<rparr>"
  have "enforce sha256 g handler rq = handler ?rq" using Inr by (simp add: enforce_def)
  then show ?thesis using Inr by (intro disjI1 exI[of _ ?rq]) (auto simp: get_remove_header)
qed

section \<open>Token files\<close>

text \<open>What is assumed of the hexadecimal encoder, and one that has it.\<close>

definition hex_encoder :: "(8 word list \<Rightarrow> string) \<Rightarrow> bool" where
  "hex_encoder h \<longleftrightarrow> (\<forall>bs. length (h bs) = 2 * length bs \<and> list_all is_ascii_hexdigit (h bs))"

definition hex_digit :: "nat \<Rightarrow> char" where
  "hex_digit n = (if n < 10 then char_of (48 + n) else char_of (87 + n))"

definition hex_lower :: "8 word list \<Rightarrow> string" where
  "hex_lower bs = concat (map (\<lambda>b. [hex_digit (unat b div 16), hex_digit (unat b mod 16)]) bs)"

lemma hex_digit_ok:
  assumes "n < 16"
  shows "is_ascii_hexdigit (hex_digit n)" "\<not> is_ascii_ws (hex_digit n)" "byte (hex_digit n) < 128"
  using assms
  by (auto simp: hex_digit_def is_ascii_hexdigit_def is_ascii_digit_def in_range_def is_ascii_ws_def)

lemma hex_lower_ok:
  "length (hex_lower bs) = 2 * length bs" "list_all is_ascii_hexdigit (hex_lower bs)"
proof (induction bs)
  case (Cons b bs)
  have "unat b div 16 < 16" using unat_byte_less[of b] by simp
  then show "length (hex_lower (b # bs)) = 2 * length (b # bs)"
    "list_all is_ascii_hexdigit (hex_lower (b # bs))"
    using Cons hex_digit_ok by (auto simp: hex_lower_def)
qed (simp_all add: hex_lower_def)

lemma hex_lower_encoder: "hex_encoder hex_lower"
  using hex_lower_ok by (simp add: hex_encoder_def)

lemma hexdigit_plain: "is_ascii_hexdigit c \<Longrightarrow> byte c < 128 \<and> \<not> is_ascii_ws c"
  by (auto simp: is_ascii_hexdigit_def is_ascii_digit_def in_range_def is_ascii_ws_def)

text \<open>
  A token that was minted is the token that is read back: when no token file exists and
  the system gives 32 random bytes, \<open>load_or_create\<close> writes a private file, and loading
  that file again succeeds, creates nothing and yields the very same token, the prefix followed
  by 64 hexadecimal digits.
\<close>

theorem token_file_roundtrip:
  assumes "length bytes = 32" "hex_encoder hex"
  shows "\<exists>t file. load_or_create hex (Some bytes) True NotFound = Inr (t, True, file) \<and>
    load_or_create hex rnd io file = Inr (t, False, file) \<and>
    (\<exists>h. t = TOKEN_PREFIX @ h \<and> length h = 64 \<and> list_all is_ascii_hexdigit h)"
proof -
  let ?h = "hex bytes" and ?t = "TOKEN_PREFIX @ hex bytes"
  have "length ?h = 64 \<and> list_all is_ascii_hexdigit ?h" using assms by (simp add: hex_encoder_def)
  moreover from this have "?h \<noteq> []" by (metis length_0_conv zero_neq_numeral)
  ultimately have h: "length ?h = 64" "list_all is_ascii_hexdigit ?h" "?h \<noteq> []" by simp_all
  then have last: "is_ascii_hexdigit (last ?h)" by (metis last_in_set list_all_iff)
  have "trim (?t @ [CHR 0x0A]) = ?t"
    by (rule trim_newline)
       (use h hexdigit_plain[OF last] in \<open>auto simp: TOKEN_PREFIX_def is_ascii_ws_def in_range_def byte_def\<close>)
  then have parse: "token_parse (?t @ [CHR 0x0A]) = Some ?t"
    using h strip_prefix_Some[of TOKEN_PREFIX ?t ?h] by (simp add: token_parse_def)
  have "load_or_create hex (Some bytes) True NotFound = Inr (?t, True, Contents (?t @ [CHR 0x0A]) 0x180)"
    by (simp add: load_or_create_def token_generate_def write_private_def)
  moreover have "load_or_create hex rnd io (Contents (?t @ [CHR 0x0A]) 0x180) =
      Inr (?t, False, Contents (?t @ [CHR 0x0A]) 0x180)"
    using parse by (simp add: load_or_create_def check_private_def require_def ok_or_def)
  ultimately show ?thesis using h by blast
qed

theorem token_file_roundtrip_witness:
  "\<exists>t file. load_or_create hex_lower (Some (replicate 32 7)) True NotFound = Inr (t, True, file) \<and>
    load_or_create hex_lower None False file = Inr (t, False, file)"
  using token_file_roundtrip[of "replicate 32 7" hex_lower None False] hex_lower_encoder by auto

section \<open>Listen addresses\<close>

text \<open>An address as a number, and membership in a network given by its prefix and length.\<close>

definition ip_num :: "ip_addr \<Rightarrow> nat" where
  "ip_num ip =
     (case ip of
        V4 a b c d \<Rightarrow> ((unat a * 256 + unat b) * 256 + unat c) * 256 + unat d
      | V6 segs \<Rightarrow> foldl (\<lambda>n s. n * 65536 + unat s) 0 segs)"

definition ip_bits :: "ip_addr \<Rightarrow> nat" where
  "ip_bits ip = (case ip of V4 _ _ _ _ \<Rightarrow> 32 | V6 _ \<Rightarrow> 128)"

definition in_net :: "ip_addr \<Rightarrow> nat \<Rightarrow> nat \<Rightarrow> bool" where
  "in_net ip prefix len \<longleftrightarrow> ip_num ip div 2 ^ (ip_bits ip - len) = prefix"

text \<open>10/8, 172.16/12, 192.168/16, 100.64/10 and fc00::/7.\<close>

definition private_nets :: "ip_addr \<Rightarrow> (nat \<times> nat) list" where
  "private_nets ip =
     (case ip of
        V4 _ _ _ _ \<Rightarrow> [(10, 8), (172 * 16 + 1, 12), (192 * 256 + 168, 16), (100 * 4 + 1, 10)]
      | V6 _ \<Rightarrow> [(126, 7)])"

definition well_formed_ip :: "ip_addr \<Rightarrow> bool" where
  "well_formed_ip ip = (case ip of V4 _ _ _ _ \<Rightarrow> True | V6 segs \<Rightarrow> length segs = 8)"

lemma high_bits: "(s :: 16 word) AND 0xfe00 = 0xfc00 \<longleftrightarrow> unat s div 512 = 126"
proof -
  have m: "(0xfe00 :: 16 word) = push_bit 9 (mask 7)" by (simp add: mask_eq_exp_minus_1)
  have "s AND 0xfe00 = push_bit 9 (drop_bit 9 s)"
    by (rule bit_word_eqI) (auto simp: m bit_simps)
  moreover have "push_bit 9 (drop_bit 9 s) = (0xfc00 :: 16 word) \<longleftrightarrow> drop_bit 9 s = 126"
  proof
    assume "push_bit 9 (drop_bit 9 s) = (0xfc00 :: 16 word)"
    then have "drop_bit 9 (push_bit 9 (drop_bit 9 s)) = drop_bit 9 (0xfc00 :: 16 word)" by simp
    moreover have "drop_bit 9 (push_bit 9 (drop_bit 9 s)) = drop_bit 9 s"
      by (rule bit_word_eqI) (auto simp: bit_simps dest: bit_imp_le_length)
    ultimately show "drop_bit 9 s = 126" by simp
  qed simp
  moreover have "drop_bit 9 s = 126 \<longleftrightarrow> unat s div 512 = 126"
    by (simp add: word_unat_eq_iff drop_bit_eq_div unat_div_distrib)
  ultimately show ?thesis by simp
qed

lemma v6_high:
  assumes "length segs = 8"
  shows "foldl (\<lambda>n s. n * 65536 + unat s) 0 segs div 2 ^ 121 = unat (hd segs :: 16 word) div 512"
proof -
  have bound: "foldl (\<lambda>n s. n * 65536 + unat s) k ss < (k + 1) * 65536 ^ length ss \<and>
      k * 65536 ^ length ss \<le> foldl (\<lambda>n s. n * 65536 + unat s) k ss" for k and ss :: "16 word list"
  proof (induction ss arbitrary: k)
    case (Cons s ss)
    let ?f = "foldl (\<lambda>n s. n * 65536 + unat s) (k * 65536 + unat s) ss"
    have "unat s + 1 \<le> 65536" using unat_u16_less[of s] by simp
    then have "k * 65536 + unat s + 1 \<le> (k + 1) * 65536" by simp
    then have hi: "(k * 65536 + unat s + 1) * 65536 ^ length ss \<le> (k + 1) * 65536 * 65536 ^ length ss"
      by (rule mult_le_mono1)
    have lo: "k * 65536 * 65536 ^ length ss \<le> (k * 65536 + unat s) * 65536 ^ length ss"
      by (intro mult_le_mono1) simp
    have IH: "?f < (k * 65536 + unat s + 1) * 65536 ^ length ss" "(k * 65536 + unat s) * 65536 ^ length ss \<le> ?f"
      using Cons[of "k * 65536 + unat s"] by blast+
    from less_le_trans[OF IH(1) hi] le_trans[OF lo IH(2)] show ?case by (simp add: algebra_simps)
  qed simp
  obtain s ss where segs: "segs = s # ss" "length ss = 7" using assms by (cases segs) auto
  have "foldl (\<lambda>n s. n * 65536 + unat s) 0 segs div 2 ^ 112 = unat s"
    using bound[of "unat s" ss] segs by (intro div_nat_eqI) (simp_all add: mult.commute)
  then have "foldl (\<lambda>n s. n * 65536 + unat s) 0 segs div (2 ^ 112 * 2 ^ 9) = unat s div 2 ^ 9"
    by (simp only: div_mult2_eq)
  then show ?thesis by (simp add: segs)
qed

lemma byte_pair:
  assumes "(x :: nat) < 256" "y < 256"
  shows "(x * 256 + y) div 16 = 2753 \<longleftrightarrow> x = 172 \<and> 16 \<le> y \<and> y \<le> 31"
    and "(x * 256 + y) div 64 = 401 \<longleftrightarrow> x = 100 \<and> 64 \<le> y \<and> y < 128"
    and "x * 256 + y = 49320 \<longleftrightarrow> x = 192 \<and> y = 168"
proof -
  have d: "(x * 256 + y) div 16 = x * 16 + y div 16" "(x * 256 + y) div 64 = x * 4 + y div 64" by simp_all
  have b: "y div 16 < 16" "y div 64 < 4" using assms by simp_all
  have q: "y div 16 = 1 \<longleftrightarrow> 16 \<le> y \<and> y \<le> 31" "y div 64 = 1 \<longleftrightarrow> 64 \<le> y \<and> y < 128" by linarith+
  have "x * 16 + k = 2753 \<longleftrightarrow> x = 172 \<and> k = 1" if "k < 16" for k using that by presburger
  from this[OF b(1)] show "(x * 256 + y) div 16 = 2753 \<longleftrightarrow> x = 172 \<and> 16 \<le> y \<and> y \<le> 31" using d q by simp
  have "x * 4 + k = 401 \<longleftrightarrow> x = 100 \<and> k = 1" if "k < 4" for k using that by presburger
  from this[OF b(2)] show "(x * 256 + y) div 64 = 401 \<longleftrightarrow> x = 100 \<and> 64 \<le> y \<and> y < 128" using d q by simp
  have "(x * 256 + y) div 256 = x" using assms by simp
  then have "x * 256 + y = 49320 \<Longrightarrow> x = 192" by simp
  then show "x * 256 + y = 49320 \<longleftrightarrow> x = 192 \<and> y = 168" by auto
qed

lemma is_private_nets:
  assumes "well_formed_ip ip"
  shows "is_private ip \<longleftrightarrow> (\<exists>(prefix, len) \<in> set (private_nets ip). in_net ip prefix len)"
proof (cases ip)
  case (V4 a b c d)
  have bounds: "unat a < 256" "unat b < 256" "unat c < 256" "unat d < 256" by (rule unat_byte_less)+
  let ?n = "ip_num ip"
  have n: "?n = unat a * 16777216 + unat b * 65536 + unat c * 256 + unat d"
    by (simp add: V4 ip_num_def)
  have "?n div 2 ^ 24 = unat a" using bounds unfolding n by (intro div_nat_eqI) simp_all
  moreover have "?n div 2 ^ 16 = unat a * 256 + unat b" using bounds unfolding n by (intro div_nat_eqI) simp_all
  moreover from this have "?n div 2 ^ 20 = (unat a * 256 + unat b) div 16"
    using div_mult2_eq[of ?n "2 ^ 16" 16] by simp
  moreover have "?n div 2 ^ 22 = (unat a * 256 + unat b) div 64"
    using div_mult2_eq[of ?n "2 ^ 16" 64] \<open>?n div 2 ^ 16 = unat a * 256 + unat b\<close> by simp
  ultimately have "(\<exists>(prefix, len) \<in> set (private_nets ip). in_net ip prefix len) \<longleftrightarrow>
      unat a = 10 \<or> (unat a * 256 + unat b) div 16 = 2753 \<or> unat a * 256 + unat b = 49320 \<or>
      (unat a * 256 + unat b) div 64 = 401"
    by (simp add: V4 private_nets_def in_net_def ip_bits_def)
  also have "\<dots> \<longleftrightarrow> unat a = 10 \<or> (unat a = 172 \<and> 16 \<le> unat b \<and> unat b \<le> 31) \<or>
      (unat a = 192 \<and> unat b = 168) \<or> (unat a = 100 \<and> 64 \<le> unat b \<and> unat b < 128)"
    using byte_pair[OF bounds(1,2)] by metis
  also have "\<dots> \<longleftrightarrow> is_private ip"
    by (auto simp: V4 is_private_def word_le_nat_alt word_less_nat_alt word_unat_eq_iff)
  finally show ?thesis by blast
next
  case (V6 segs)
  then have "length segs = 8" using assms by (simp add: well_formed_ip_def)
  then show ?thesis using v6_high[of segs] high_bits[of "hd segs"]
    by (simp add: V6 is_private_def private_nets_def in_net_def ip_bits_def ip_num_def)
qed

text \<open>
  A service listens on loopback, or on the tunnel's own address when that lies in one of
  the private networks 10/8, 172.16/12, 192.168/16, 100.64/10 and fc00::/7, and on nothing
  else: the octet and mask tests of the code decide exactly these prefixes, and a wildcard or
  public address is refused whatever the tunnel plan says.
\<close>

theorem check_bind_spec:
  assumes "well_formed_ip ip"
  shows "check_bind ip tunnel = ok \<longleftrightarrow>
    is_loopback ip \<or>
    (tunnel = Some ip \<and> (\<exists>(prefix, len) \<in> set (private_nets ip). in_net ip prefix len))"
proof -
  have "is_private ip \<Longrightarrow> \<not> is_unspecified ip"
    by (cases ip) (auto simp: is_private_def is_unspecified_def)
  then show ?thesis unfolding is_private_nets[OF assms, symmetric]
    by (auto simp: check_bind_def split: option.splits)
qed

theorem check_bind_spec_witness:
  "check_bind (V4 10 77 0 1) (Some (V4 10 77 0 1)) = ok \<and> check_bind (V4 0 0 0 0) (Some (V4 0 0 0 0)) \<noteq> ok"
proof -
  have "well_formed_ip (V4 10 77 0 1)" "well_formed_ip (V4 0 0 0 0)" by (simp_all add: well_formed_ip_def)
  from this[THEN check_bind_spec] show ?thesis
    by (simp add: private_nets_def in_net_def ip_num_def ip_bits_def is_loopback_def)
qed

end
