(* ===== verification/Tunnel_Props.thy ===== *)
theory Tunnel_Props
  imports Tunnel_Plan Gate_Props
begin

text \<open>
  The tunnel plan written to disk, read back and handed to the WireGuard implementation.
\<close>

section \<open>Reading configuration lines\<close>

definition key_char :: "char \<Rightarrow> bool" where
  "key_char c \<longleftrightarrow> plain_char c \<and> c \<noteq> CHR ''#'' \<and> c \<noteq> CHR ''='' \<and> c \<noteq> CHR ''[''"

definition value_char :: "char \<Rightarrow> bool" where
  "value_char c \<longleftrightarrow> plain_char c \<and> c \<noteq> CHR ''#''"

lemma space_chars [simp]: "\<not> value_char (CHR 0x20)" "CHR ''='' \<noteq> CHR 0x20" "\<not> plain_char (CHR 0x0A)" "\<not> plain_char (CHR 0x0D)"
  by (simp_all add: value_char_def plain_char_def is_ascii_ws_def in_range_def byte_def)

lemma entry_split:
  assumes "list_all key_char key" "key \<noteq> []" "list_all value_char v" "v \<noteq> []"
  shows "trim (hd (split_char (CHR ''#'') (key @ '' = '' @ v))) = key @ '' = '' @ v"
    and "\<not> starts_with (key @ '' = '' @ v) ''[''"
    and "split_once (CHR ''='') (key @ '' = '' @ v) = Some (key @ [CHR 0x20], CHR 0x20 # v)"
    and "trim (key @ [CHR 0x20]) = key" "trim (CHR 0x20 # v) = v"
proof -
  have k: "plain_char (hd key)" "plain_char (last key)" "hd key \<noteq> CHR ''[''" "\<forall>c \<in> set key. c \<noteq> CHR ''#'' \<and> c \<noteq> CHR ''=''"
    using assms(1,2) hd_in_set[of key] last_in_set[of key] by (auto simp: key_char_def list_all_iff)
  have v: "plain_char (hd v)" "plain_char (last v)" "\<forall>c \<in> set v. c \<noteq> CHR ''#''"
    using assms(3,4) hd_in_set[of v] last_in_set[of v] by (auto simp: value_char_def list_all_iff)
  have "CHR ''#'' \<notin> set (key @ '' = '' @ v)" using k v by auto
  moreover have "trim (key @ '' = '' @ v) = key @ '' = '' @ v" using k v assms by (intro trim_plain) auto
  ultimately show "trim (hd (split_char (CHR ''#'') (key @ '' = '' @ v))) = key @ '' = '' @ v"
    by (simp add: split_char_single)
  show "\<not> starts_with (key @ '' = '' @ v) ''[''" using k assms(2) by (cases key) (auto simp: starts_with_def)
  have "takeWhile (\<lambda>c. c \<noteq> CHR ''='') (key @ '' = '' @ v) = key @ [CHR 0x20]"
    "dropWhile (\<lambda>c. c \<noteq> CHR ''='') (key @ '' = '' @ v) = ''= '' @ v"
    using k(4) by (auto simp: takeWhile_append dropWhile_append)
  then show "split_once (CHR ''='') (key @ '' = '' @ v) = Some (key @ [CHR 0x20], CHR 0x20 # v)"
    by (simp add: split_once_def)
  show "trim (key @ [CHR 0x20]) = key" using k assms(2) by simp
  show "trim (CHR 0x20 # v) = v" using v assms(4) by (simp add: trim_plain)
qed

lemma uapi_line_pair:
  assumes "trim (hd (split_char (CHR ''#'') raw)) = line" "line \<noteq> []" "\<not> starts_with line ''[''"
    and "split_once (CHR ''='') line = Some (k, v)" "trim k = key" "trim v = value"
  shows "uapi_line dec hex st raw =
    (case uapi_entry dec hex (ua_section st) key value of
       Inl e \<Rightarrow> Inl e
     | Inr ls \<Rightarrow> Inr (st\<lparr>ua_out := ua_out st @ unlines ls,
         ua_saw_private := (ua_saw_private st \<or> (ua_section st = InterfaceSection \<and> key = ''PrivateKey''))\<rparr>))"
  using assms unfolding uapi_line_def Let_def by (simp split: sum.splits)

lemma entry_line:
  assumes "list_all key_char key" "key \<noteq> []" "list_all value_char v" "v \<noteq> []"
  shows "uapi_line dec hex st (key @ '' = '' @ v) =
    (case uapi_entry dec hex (ua_section st) key v of
       Inl e \<Rightarrow> Inl e
     | Inr ls \<Rightarrow> Inr (st\<lparr>ua_out := ua_out st @ unlines ls,
         ua_saw_private := (ua_saw_private st \<or> (ua_section st = InterfaceSection \<and> key = ''PrivateKey''))\<rparr>))"
  by (rule uapi_line_pair[OF entry_split(1)[OF assms] _ entry_split(2,3,4,5)[OF assms]]) (use assms(2) in simp)

text \<open>Comments and empty lines are skipped, section headers switch the section.\<close>

lemma skipped_line: "uapi_line dec hex st [] = Inr st" "uapi_line dec hex st (CHR ''#'' # s) = Inr st"
  by (simp_all add: uapi_line_def trim_def trim_end_def)

lemma section_line:
  "uapi_line dec hex st ''[Interface]'' = Inr (st\<lparr>ua_section := InterfaceSection\<rparr>)"
  "uapi_line dec hex st ''[Peer]'' = Inr (st\<lparr>ua_section := PeerSection\<rparr>)"
proof -
  have "trim ''[Interface]'' = ''[Interface]''" "trim ''[Peer]'' = ''[Peer]''"
    by (intro trim_plain; simp add: plain_char_def is_ascii_ws_def in_range_def byte_def)+
  then show "uapi_line dec hex st ''[Interface]'' = Inr (st\<lparr>ua_section := InterfaceSection\<rparr>)"
    "uapi_line dec hex st ''[Peer]'' = Inr (st\<lparr>ua_section := PeerSection\<rparr>)"
    by (simp_all add: uapi_line_def split_char_single starts_with_def eq_ignore_ascii_case_def
        to_ascii_lowercase_def to_ascii_lower_def is_ascii_uppercase_def in_range_def byte_def)
qed

section \<open>The codecs\<close>

text \<open>What is assumed of base64: it decodes what it encodes, and writes characters of its
  alphabet only.\<close>

definition is_base64_char :: "char \<Rightarrow> bool" where
  "is_base64_char c \<longleftrightarrow> is_ascii_alphanumeric c \<or> c = CHR ''+'' \<or> c = CHR ''/'' \<or> c = CHR ''=''"

definition base64_codec :: "(8 word list \<Rightarrow> string) \<Rightarrow> (string \<Rightarrow> 8 word list option) \<Rightarrow> 8 word list \<Rightarrow> bool" where
  "base64_codec enc dec bs \<longleftrightarrow> dec (enc bs) = Some bs \<and> enc bs \<noteq> [] \<and> list_all is_base64_char (enc bs)"

lemma base64_value: "is_base64_char c \<Longrightarrow> value_char c"
  by (auto simp: is_base64_char_def value_char_def plain_char_def is_ascii_alphanumeric_def is_ascii_digit_def
      is_ascii_lowercase_def is_ascii_uppercase_def in_range_def is_ascii_ws_def byte_def)

lemma hexdigit_base64: "is_ascii_hexdigit c \<Longrightarrow> is_base64_char c"
  by (auto simp: is_base64_char_def is_ascii_hexdigit_def is_ascii_alphanumeric_def is_ascii_digit_def
      is_ascii_lowercase_def is_ascii_uppercase_def in_range_def)

lemma digit_value: "is_ascii_digit c \<Longrightarrow> value_char c"
  by (auto simp: value_char_def plain_char_def is_ascii_digit_def in_range_def is_ascii_ws_def byte_def)

lemma codec_value: "base64_codec enc dec bs \<Longrightarrow> list_all value_char (enc bs) \<and> enc bs \<noteq> []"
  unfolding base64_codec_def list_all_iff using base64_value by blast

lemma show_nat_value: "list_all value_char (show_nat n) \<and> show_nat n \<noteq> []"
  unfolding list_all_iff using show_nat_digits digit_value show_nat_not_Nil by blast

lemma value_no_newline: "list_all value_char v \<Longrightarrow> CHR 0x0A \<notin> set v \<and> CHR 0x0D \<notin> set v"
  unfolding list_all_iff value_char_def using space_chars(3,4) by blast

lemma unlines_append [simp]: "unlines (a @ b) = unlines a @ unlines b"
  by (simp add: unlines_def)

section \<open>The host's configuration\<close>

definition keys_encodable :: "(8 word list \<Rightarrow> string) \<Rightarrow> (string \<Rightarrow> 8 word list option) \<Rightarrow> tunnel_plan \<Rightarrow> bool" where
  "keys_encodable enc dec p \<longleftrightarrow>
     list_all (\<lambda>k. length k = 32 \<and> base64_codec enc dec k)
       [kp_secret (host p), kp_public (host p), kp_secret (client p), kp_public (client p), psk p]"

lemma b64_to_hex_key: "length k = 32 \<Longrightarrow> base64_codec enc dec k \<Longrightarrow> b64_to_hex dec hex (enc k) = Inr (hex k)"
  by (simp add: b64_to_hex_def base64_codec_def)

lemmas char_defs = key_char_def value_char_def plain_char_def is_ascii_ws_def in_range_def byte_def

definition emit :: "string list \<Rightarrow> bool \<Rightarrow> uapi_state \<Rightarrow> uapi_state" where
  "emit ls priv st = st\<lparr>ua_out := ua_out st @ unlines ls, ua_saw_private := (ua_saw_private st \<or> priv)\<rparr>"

lemma emit_simps [simp]:
  "ua_section (emit ls priv st) = ua_section st" "ua_out (emit ls priv st) = ua_out st @ unlines ls"
  "ua_saw_private (emit ls priv st) \<longleftrightarrow> ua_saw_private st \<or> priv"
  by (simp_all add: emit_def)

lemma entry_ok:
  assumes "uapi_entry dec hex sec key v = Inr ls" "ua_section st = sec"
    and "list_all key_char key" "key \<noteq> []" "list_all value_char v \<and> v \<noteq> []"
  shows "uapi_line dec hex st (key @ '' = '' @ v) = Inr (emit ls (sec = InterfaceSection \<and> key = ''PrivateKey'') st)"
  using entry_line[OF assms(3,4), of v dec hex st] assms by (simp add: emit_def)

lemma interface_lines:
  assumes "ua_section st = InterfaceSection"
  shows "length k = 32 \<Longrightarrow> base64_codec enc dec k \<Longrightarrow>
      uapi_line dec hex st (''PrivateKey'' @ '' = '' @ enc k) = Inr (emit [''private_key='' @ hex k] True st)"
    and "uapi_line dec hex st (''Address'' @ '' = '' @ ''10.77.0.1/24'') = Inr (emit [] False st)"
    and "uapi_line dec hex st (''ListenPort'' @ '' = '' @ show_nat n) = Inr (emit [''listen_port='' @ show_nat n] False st)"
proof -
  show "uapi_line dec hex st (''PrivateKey'' @ '' = '' @ enc k) = Inr (emit [''private_key='' @ hex k] True st)"
    if k: "length k = 32" "base64_codec enc dec k"
  proof -
    have "uapi_entry dec hex InterfaceSection ''PrivateKey'' (enc k) = Inr [''private_key='' @ hex k]"
      by (simp add: uapi_entry_def b64_to_hex_key[OF k])
    from entry_ok[OF this assms _ _ codec_value[OF k(2)]] show ?thesis by (simp add: char_defs)
  qed
  have "uapi_entry dec hex InterfaceSection ''Address'' ''10.77.0.1/24'' = Inr []" by (simp add: uapi_entry_def)
  from entry_ok[OF this assms] show "uapi_line dec hex st (''Address'' @ '' = '' @ ''10.77.0.1/24'') = Inr (emit [] False st)"
    by (simp add: char_defs)
  have "uapi_entry dec hex InterfaceSection ''ListenPort'' (show_nat n) = Inr [''listen_port='' @ show_nat n]"
    by (simp add: uapi_entry_def)
  from entry_ok[OF this assms _ _ show_nat_value]
  show "uapi_line dec hex st (''ListenPort'' @ '' = '' @ show_nat n) = Inr (emit [''listen_port='' @ show_nat n] False st)"
    by (simp add: char_defs)
qed

lemma peer_lines:
  assumes "ua_section st = PeerSection"
  shows "length k = 32 \<Longrightarrow> base64_codec enc dec k \<Longrightarrow>
      uapi_line dec hex st (''PublicKey'' @ '' = '' @ enc k) = Inr (emit [''public_key='' @ hex k, ''replace_allowed_ips=true''] False st)"
    and "length k = 32 \<Longrightarrow> base64_codec enc dec k \<Longrightarrow>
      uapi_line dec hex st (''PresharedKey'' @ '' = '' @ enc k) = Inr (emit [''preshared_key='' @ hex k] False st)"
    and "uapi_line dec hex st (''AllowedIPs'' @ '' = '' @ ''10.77.0.2/32'') = Inr (emit [''allowed_ip=10.77.0.2/32''] False st)"
proof -
  show "uapi_line dec hex st (''PublicKey'' @ '' = '' @ enc k) = Inr (emit [''public_key='' @ hex k, ''replace_allowed_ips=true''] False st)"
    if k: "length k = 32" "base64_codec enc dec k"
  proof -
    have "uapi_entry dec hex PeerSection ''PublicKey'' (enc k) = Inr [''public_key='' @ hex k, ''replace_allowed_ips=true'']"
      by (simp add: uapi_entry_def b64_to_hex_key[OF k])
    from entry_ok[OF this assms _ _ codec_value[OF k(2)]] show ?thesis by (simp add: char_defs)
  qed
  show "uapi_line dec hex st (''PresharedKey'' @ '' = '' @ enc k) = Inr (emit [''preshared_key='' @ hex k] False st)"
    if k: "length k = 32" "base64_codec enc dec k"
  proof -
    have "uapi_entry dec hex PeerSection ''PresharedKey'' (enc k) = Inr [''preshared_key='' @ hex k]"
      by (simp add: uapi_entry_def b64_to_hex_key[OF k])
    from entry_ok[OF this assms _ _ codec_value[OF k(2)]] show ?thesis by (simp add: char_defs)
  qed
  have "trim ''10.77.0.2/32'' = ''10.77.0.2/32''" by (intro trim_plain) (simp_all add: char_defs)
  then have "uapi_entry dec hex PeerSection ''AllowedIPs'' ''10.77.0.2/32'' = Inr [''allowed_ip=10.77.0.2/32'']"
    by (simp add: uapi_entry_def split_char_single)
  from entry_ok[OF this assms]
  show "uapi_line dec hex st (''AllowedIPs'' @ '' = '' @ ''10.77.0.2/32'') = Inr (emit [''allowed_ip=10.77.0.2/32''] False st)"
    by (simp add: char_defs)
qed

lemma host_conf_text:
  "host_conf_lines enc p @ [[]] = [
     ''# Ferric tunnel: the Ferric host. Secret; mode 0600.'', ''[Interface]'',
     ''PrivateKey'' @ '' = '' @ enc (kp_secret (host p)), ''Address'' @ '' = '' @ ''10.77.0.1/24'',
     ''ListenPort'' @ '' = '' @ show_nat (unat (listen_port p)), [], ''[Peer]'', ''# client-1'',
     ''PublicKey'' @ '' = '' @ enc (kp_public (client p)), ''PresharedKey'' @ '' = '' @ enc (psk p),
     ''AllowedIPs'' @ '' = '' @ ''10.77.0.2/32'', []]"
proof -
  have "show_nat 24 = ''24''" by code_simp
  then show ?thesis by (simp add: host_conf_lines_def HOST_ADDRESS_def CLIENT_ADDRESS_def PREFIX_def)
qed

text \<open>The request the WireGuard implementation is to receive.\<close>

definition expected_request :: "(8 word list \<Rightarrow> string) \<Rightarrow> tunnel_plan \<Rightarrow> string" where
  "expected_request hex p = unlines [
     ''set=1'', ''replace_peers=true'',
     ''private_key='' @ hex (kp_secret (host p)),
     ''listen_port='' @ show_nat (unat (listen_port p)),
     ''public_key='' @ hex (kp_public (client p)), ''replace_allowed_ips=true'',
     ''preshared_key='' @ hex (psk p),
     ''allowed_ip=10.77.0.2/32'', []]"

lemma uapi_lines_step:
  "uapi_line dec hex st raw = Inr st1 \<Longrightarrow> uapi_lines dec hex st1 raws = r \<Longrightarrow> uapi_lines dec hex st (raw # raws) = r"
  by simp

lemma host_lines_request:
  assumes "keys_encodable enc dec p"
  shows "\<exists>st'. uapi_lines dec hex st (host_conf_lines enc p @ [[]]) = Inr st' \<and> ua_saw_private st' \<and>
    ua_out st' = ua_out st @ unlines [''private_key='' @ hex (kp_secret (host p)),
      ''listen_port='' @ show_nat (unat (listen_port p)), ''public_key='' @ hex (kp_public (client p)),
      ''replace_allowed_ips=true'', ''preshared_key='' @ hex (psk p), ''allowed_ip=10.77.0.2/32'']"
proof -
  have k: "length (kp_secret (host p)) = 32" "base64_codec enc dec (kp_secret (host p))"
    "length (kp_public (client p)) = 32" "base64_codec enc dec (kp_public (client p))"
    "length (psk p) = 32" "base64_codec enc dec (psk p)"
    using assms by (simp_all add: keys_encodable_def)
  let ?i = "st\<lparr>ua_section := InterfaceSection\<rparr>"
  let ?a = "emit [''listen_port='' @ show_nat (unat (listen_port p))] False
    (emit [] False (emit [''private_key='' @ hex (kp_secret (host p))] True ?i))"
  let ?p = "?a\<lparr>ua_section := PeerSection\<rparr>"
  let ?z = "emit [''allowed_ip=10.77.0.2/32''] False (emit [''preshared_key='' @ hex (psk p)] False
    (emit [''public_key='' @ hex (kp_public (client p)), ''replace_allowed_ips=true''] False ?p))"
  have "uapi_lines dec hex st (host_conf_lines enc p @ [[]]) = Inr ?z"
    unfolding host_conf_text
    by (rule uapi_lines_step, rule skipped_line(2), rule uapi_lines_step, rule section_line(1),
        rule uapi_lines_step, rule interface_lines(1)[OF _ k(1,2)], simp,
        rule uapi_lines_step, rule interface_lines(2), simp,
        rule uapi_lines_step, rule interface_lines(3), simp,
        rule uapi_lines_step, rule skipped_line(1), rule uapi_lines_step, rule section_line(2),
        rule uapi_lines_step, rule skipped_line(2),
        rule uapi_lines_step, rule peer_lines(1)[OF _ k(3,4)], simp,
        rule uapi_lines_step, rule peer_lines(2)[OF _ k(5,6)], simp,
        rule uapi_lines_step, rule peer_lines(3), simp,
        rule uapi_lines_step, rule skipped_line(1), rule uapi_lines.simps(1))
  then show ?thesis by (intro exI[of _ ?z]) (simp add: unlines_def)
qed

lemma host_conf_newlines:
  assumes "keys_encodable enc dec p"
  shows "\<forall>l \<in> set (host_conf_lines enc p @ [[]]). CHR 0x0A \<notin> set l \<and> CHR 0x0D \<notin> set l"
proof -
  have "base64_codec enc dec (kp_secret (host p))" "base64_codec enc dec (kp_public (client p))" "base64_codec enc dec (psk p)"
    using assms by (simp_all add: keys_encodable_def)
  then have v: "list_all value_char (enc (kp_secret (host p)))" "list_all value_char (enc (kp_public (client p)))"
    "list_all value_char (enc (psk p))"
    using codec_value by blast+
  show ?thesis unfolding host_conf_text
    using value_no_newline[OF v(1)] value_no_newline[OF v(2)] value_no_newline[OF v(3)]
      value_no_newline[OF conjunct1[OF show_nat_value[of "unat (listen_port p)"]]]
    by simp
qed

text \<open>
  C40. A tunnel plan survives the disk: written into an empty directory and read back, the host's
  configuration is accepted and becomes the WireGuard request with the host's own private key
  and port, the client as its only peer with the plan's preshared key, and nothing but the
  client's one address allowed through.
\<close>

theorem tunnel_plan_roundtrip:
  assumes "keys_encodable enc dec p" "td_host_conf d = NotFound" "td_client_conf d = NotFound" "td_info d = NotFound"
  shows "case plan_write enc show_json display p dir (True, True, True) d of
    (r, d') \<Rightarrow> r = ok \<and>
      and_then (read_host_conf d') (uapi_set_request dec hex) = Inr (expected_request hex p)"
proof -
  let ?conf = "host_conf enc p @ [CHR 0x0A]"
  obtain d' where w: "plan_write enc show_json display p dir (True, True, True) d = (ok, d')"
    and c: "td_host_conf d' = Contents ?conf 0x180"
    using assms(2-4) by (simp add: plan_write_def write_private_def Let_def)
  have read: "read_host_conf d' = Inr ?conf"
    using c by (simp add: read_host_conf_def check_private_def require_def)
  have "?conf = unlines (host_conf_lines enc p @ [[]])" by (simp add: host_conf_def unlines_def)
  then have lines: "str_lines ?conf = host_conf_lines enc p @ [[]]"
    using str_lines_unlines[OF host_conf_newlines[OF assms(1)]] by simp
  let ?st = "\<lparr>ua_out = unlines [''set=1'', ''replace_peers=true''], ua_section = NoSection, ua_saw_private = False\<rparr>"
  from host_lines_request[OF assms(1), of hex ?st] obtain st' where
    "uapi_lines dec hex ?st (host_conf_lines enc p @ [[]]) = Inr st'" "ua_saw_private st'"
    "ua_out st' @ [CHR 0x0A] = expected_request hex p"
    by (auto simp: expected_request_def unlines_def)
  then have "uapi_set_request dec hex ?conf = Inr (expected_request hex p)"
    unfolding uapi_set_request_def lines by simp
  then show ?thesis using w read by simp
qed

definition sample_key :: "8 word list" where "sample_key = replicate 32 7"

definition sample_plan :: tunnel_plan where
  "sample_plan = (let k = \<lparr>kp_secret = sample_key, kp_public = sample_key\<rparr>
     in \<lparr>interface = DEFAULT_INTERFACE, listen_port = DEFAULT_LISTEN_PORT, endpoint = None, host = k, client = k, psk = sample_key\<rparr>)"

definition empty_dir :: tunnel_dir where
  "empty_dir = \<lparr>td_host_conf = NotFound, td_client_conf = NotFound, td_info = NotFound\<rparr>"

theorem tunnel_plan_roundtrip_witness:
  "case plan_write hex_lower (\<lambda>_. ''{}'') (\<lambda>_. ''file'') sample_plan [] (True, True, True) empty_dir of
    (r, d') \<Rightarrow> r = ok \<and>
      and_then (read_host_conf d') (uapi_set_request (\<lambda>_. Some sample_key) hex_lower)
        = Inr (expected_request hex_lower sample_plan)"
proof -
  have len: "length sample_key = 32" by (simp add: sample_key_def)
  then have "length (hex_lower sample_key) = 64" using hex_lower_ok(1)[of sample_key] by simp
  moreover have "list_all is_base64_char (hex_lower sample_key)"
    using hex_lower_ok(2)[of sample_key] hexdigit_base64 by (simp add: list_all_iff)
  ultimately have "base64_codec hex_lower (\<lambda>_. Some sample_key) sample_key"
    by (auto simp: base64_codec_def)
  then have k: "keys_encodable hex_lower (\<lambda>_. Some sample_key) sample_plan"
    using len by (simp add: keys_encodable_def sample_plan_def Let_def)
  show ?thesis by (rule tunnel_plan_roundtrip[OF k]) (simp_all add: empty_dir_def)
qed

end
