(* ===== verification/Loop_Guards.thy ===== *)
theory Loop_Guards
  imports Rust_Collections Messages
begin

text \<open>
  The four loop guards of \<^verbatim>\<open>ferric-loop\<close> (\<^verbatim>\<open>repetition.rs\<close>,
  \<^verbatim>\<open>progress.rs\<close>, \<^verbatim>\<open>failure.rs\<close>, \<^verbatim>\<open>oscillation.rs\<close>), the
  stop reasons (\<^verbatim>\<open>outcome.rs\<close>) and the retry loop around the provider
  (\<^verbatim>\<open>backoff.rs\<close>). How serde_json prints a value is the parameter
  \<open>to_string\<close>. The three streak guards share the contract
  \<open>streak_guard\<close>, the two of them that compare keys the contract \<open>keyed_streak\<close>.
\<close>

section \<open>Verdicts\<close>

datatype verdict = Proceed | Warn | Stop

definition u8_max :: nat where "u8_max = 255"

section \<open>Repetition\<close>

record repetition_guard =
  last_signature :: "string option"
  consecutive_repeats :: nat

definition repetition_init :: repetition_guard where
  "repetition_init = \<lparr>last_signature = None, consecutive_repeats = 0\<rparr>"

definition unit_sep :: char where "unit_sep = CHR 0x1F"
definition record_sep :: char where "record_sep = CHR 0x1E"

definition signature_of :: "(json \<Rightarrow> string) \<Rightarrow> tool_call list \<Rightarrow> string" where
  "signature_of to_string calls =
     join [record_sep] (map (\<lambda>c. tc_name c @ [unit_sep] @ to_string (tc_args c)) calls)"

text \<open>The counter is a \<^verbatim>\<open>u8\<close> and wraps.\<close>

definition repetition_observe ::
  "(json \<Rightarrow> string) \<Rightarrow> repetition_guard \<Rightarrow> tool_call list \<Rightarrow> repetition_guard \<times> verdict" where
  "repetition_observe to_string g calls =
     (let signature = signature_of to_string calls;
          repeated = (last_signature g = Some signature);
          g1 = g\<lparr>last_signature := Some signature\<rparr>
      in if \<not> repeated then (g1\<lparr>consecutive_repeats := 0\<rparr>, Proceed)
         else let n = (consecutive_repeats g1 + 1) mod (u8_max + 1)
           in (g1\<lparr>consecutive_repeats := n\<rparr>, if n = 1 then Warn else Stop))"

section \<open>No progress\<close>

record progress_guard =
  last_names :: "string option"
  streak :: nat

definition progress_init :: progress_guard where
  "progress_init = \<lparr>last_names = None, streak = 0\<rparr>"

definition PROGRESS_WARN_AT :: nat where "PROGRESS_WARN_AT = 4"
definition PROGRESS_STOP_AT :: nat where "PROGRESS_STOP_AT = 5"

definition names_of :: "tool_call list \<Rightarrow> string" where
  "names_of calls = join [unit_sep] (bs_of_list (map tc_name calls))"

definition progress_observe ::
  "progress_guard \<Rightarrow> tool_call list \<Rightarrow> progress_guard \<times> verdict" where
  "progress_observe g calls =
     (let names = names_of calls
      in if last_names g \<noteq> Some names then (g\<lparr>last_names := Some names, streak := 0\<rparr>, Proceed)
         else let n = saturating_add u8_max (streak g) 1
           in (g\<lparr>streak := n\<rparr>,
               if PROGRESS_STOP_AT \<le> n then Stop
               else if PROGRESS_WARN_AT \<le> n then Warn else Proceed))"

section \<open>Repeated failure\<close>

definition FAILURE_WARN_AT :: nat where "FAILURE_WARN_AT = 2"
definition FAILURE_STOP_AT :: nat where "FAILURE_STOP_AT = 3"

text \<open>Counts are \<^verbatim>\<open>usize\<close> of 64 bits.\<close>

definition failure_observation :: "nat \<Rightarrow> nat \<Rightarrow> nat \<Rightarrow> bool \<Rightarrow> (nat \<times> nat) option" where
  "failure_observation raw_dispatched raw_errored controller_blocks completion_was_blocked =
     (case checked_add u64_max controller_blocks (if completion_was_blocked then 1 else 0) of
        None \<Rightarrow> let failed = max (max raw_dispatched raw_errored) 1 in Some (failed, failed)
      | Some excluded \<Rightarrow>
          if raw_dispatched < raw_errored \<or> raw_dispatched < excluded \<or> raw_errored < excluded
          then let failed = max (max raw_dispatched raw_errored) 1 in Some (failed, failed)
          else let dispatched = raw_dispatched - excluded;
                   errored = raw_errored - excluded
            in if 0 < dispatched \<or> completion_was_blocked then Some (dispatched, errored) else None)"

record failure_guard =
  consecutive_failed_turns :: nat

definition failure_init :: failure_guard where
  "failure_init = \<lparr>consecutive_failed_turns = 0\<rparr>"

definition all_failed :: "nat \<times> nat \<Rightarrow> bool" where
  "all_failed ob = (case ob of (dispatched, errored) \<Rightarrow> 0 < dispatched \<and> errored = dispatched)"

definition observe_turn :: "failure_guard \<Rightarrow> nat \<times> nat \<Rightarrow> failure_guard \<times> verdict" where
  "observe_turn g ob =
     (if \<not> all_failed ob then (g\<lparr>consecutive_failed_turns := 0\<rparr>, Proceed)
      else let n = saturating_add u8_max (consecutive_failed_turns g) 1
        in (g\<lparr>consecutive_failed_turns := n\<rparr>,
            if FAILURE_STOP_AT \<le> n then Stop
            else if FAILURE_WARN_AT \<le> n then Warn else Proceed))"

section \<open>Oscillation\<close>

definition OSC_WARN_AT :: nat where "OSC_WARN_AT = 6"
definition OSC_STOP_AT :: nat where "OSC_STOP_AT = 8"
definition MAX_DISTINCT :: nat where "MAX_DISTINCT = 2"

text \<open>The entries of an object are formatted first and then ordered by key, which is the order
  the sorted map yields them in.\<close>

fun canonical_args :: "(json \<Rightarrow> string) \<Rightarrow> json \<Rightarrow> string" where
  "canonical_args to_string (JObj m) =
     ''{'' @ join '','' (map (\<lambda>(k, v). k @ '':'' @ v)
        (sort_key fst (map (\<lambda>(k, v). (k, canonical_args to_string v)) m))) @ ''}''"
| "canonical_args to_string (JArr items) =
     ''['' @ join '','' (map (canonical_args to_string) items) @ '']''"
| "canonical_args to_string other = to_string other"

definition signature :: "(json \<Rightarrow> string) \<Rightarrow> tool_call list \<Rightarrow> string" where
  "signature to_string calls =
     join ''|'' (sort (map (\<lambda>c. tc_name c @ ''('' @ canonical_args to_string (tc_args c) @ '')'') calls))"

definition distinct_count :: "string list \<Rightarrow> nat" where
  "distinct_count xs = length (bs_of_list xs)"

definition oscillation_observe ::
  "(json \<Rightarrow> string) \<Rightarrow> string list \<Rightarrow> tool_call list \<Rightarrow> string list \<times> verdict" where
  "oscillation_observe to_string window calls =
     (if calls = [] then (window, Proceed)
      else let pushed = window @ [signature to_string calls];
               w = (if OSC_STOP_AT < length pushed then tl pushed else pushed)
        in (w, if OSC_STOP_AT \<le> length w \<and> distinct_count w \<le> MAX_DISTINCT then Stop
               else if OSC_WARN_AT \<le> length w
                       \<and> distinct_count (drop (length w - OSC_WARN_AT) w) \<le> MAX_DISTINCT then Warn
               else Proceed))"

section \<open>Stop reasons\<close>

datatype stop_reason =
    FinalText | TaskComplete | PlanSubmitted | MaxTurns | RepetitionGuard | NoProgress
  | RepeatedFailure | Oscillation | ProviderError | EmptyCompletion | TruncatedAction
  | Interrupted | HookFailed | NeedsInput

definition all_stop_reasons :: "stop_reason list" where
  "all_stop_reasons =
     [FinalText, TaskComplete, PlanSubmitted, MaxTurns, RepetitionGuard, NoProgress,
      RepeatedFailure, Oscillation, ProviderError, EmptyCompletion, TruncatedAction,
      Interrupted, HookFailed, NeedsInput]"

fun stop_as_str :: "stop_reason \<Rightarrow> string" where
  "stop_as_str FinalText = ''final_text''"
| "stop_as_str TaskComplete = ''task_complete''"
| "stop_as_str PlanSubmitted = ''plan_submitted''"
| "stop_as_str MaxTurns = ''max_turns''"
| "stop_as_str RepetitionGuard = ''repetition_guard''"
| "stop_as_str NoProgress = ''no_progress''"
| "stop_as_str RepeatedFailure = ''repeated_failure''"
| "stop_as_str Oscillation = ''oscillation''"
| "stop_as_str ProviderError = ''provider_error''"
| "stop_as_str EmptyCompletion = ''empty_completion''"
| "stop_as_str TruncatedAction = ''truncated_action''"
| "stop_as_str Interrupted = ''interrupted''"
| "stop_as_str HookFailed = ''hook_failed''"
| "stop_as_str NeedsInput = ''needs_input''"

definition stop_parse :: "string \<Rightarrow> stop_reason option" where
  "stop_parse reason = List.find (\<lambda>stop. stop_as_str stop = reason) all_stop_reasons"

definition is_success :: "stop_reason \<Rightarrow> bool" where
  "is_success r \<longleftrightarrow> r = FinalText \<or> r = TaskComplete \<or> r = PlanSubmitted"

definition is_failure :: "stop_reason \<Rightarrow> bool" where
  "is_failure r \<longleftrightarrow> \<not> is_success r \<and> r \<noteq> NeedsInput"

section \<open>Backoff\<close>

definition BASE_DELAY_MS :: nat where "BASE_DELAY_MS = 250"
definition MAX_RETRIES :: nat where "MAX_RETRIES = 3"

text \<open>\<open>attempt_result k\<close> is what the provider answers to the \<open>k\<close>-th attempt of the same
  request, \<open>retryable\<close> the error's own classification. The result is paired with the delays
  slept, in order, and the number of attempts made.\<close>

function backoff_loop ::
  "('e \<Rightarrow> bool) \<Rightarrow> (nat \<Rightarrow> 'e + 'c) \<Rightarrow> nat \<Rightarrow> nat list \<Rightarrow> ('e + 'c) \<times> nat list \<times> nat" where
  "backoff_loop retryable attempt_result attempt slept =
     (case attempt_result attempt of
        Inr completion \<Rightarrow> (Inr completion, slept, attempt + 1)
      | Inl e \<Rightarrow>
          if retryable e \<and> attempt < MAX_RETRIES
          then backoff_loop retryable attempt_result (attempt + 1)
                 (slept @ [push_bit attempt BASE_DELAY_MS])
          else (Inl e, slept, attempt + 1))"
  by pat_completeness auto
termination
  by (relation "measure (\<lambda>(_, _, a, _). MAX_RETRIES - a)") (auto simp: MAX_RETRIES_def)

declare backoff_loop.simps [simp del]

definition complete_with_backoff ::
  "('e \<Rightarrow> bool) \<Rightarrow> (nat \<Rightarrow> 'e + 'c) \<Rightarrow> ('e + 'c) \<times> nat list \<times> nat" where
  "complete_with_backoff retryable attempt_result = backoff_loop retryable attempt_result 0 []"

section \<open>Driving a guard\<close>

text \<open>The state after a sequence of observations, the verdict on the next one, whether no verdict
  on the way was a stop, and the length of the run of equal keys at the end of a list.\<close>

definition guard_after :: "('s \<Rightarrow> 'o \<Rightarrow> 's \<times> verdict) \<Rightarrow> 's \<Rightarrow> 'o list \<Rightarrow> 's" where
  "guard_after step init obs = foldl (\<lambda>s ob. fst (step s ob)) init obs"

definition guard_verdict :: "('s \<Rightarrow> 'o \<Rightarrow> 's \<times> verdict) \<Rightarrow> 's \<Rightarrow> 'o list \<Rightarrow> 'o \<Rightarrow> verdict" where
  "guard_verdict step init obs ob = snd (step (guard_after step init obs) ob)"

definition guard_running :: "('s \<Rightarrow> 'o \<Rightarrow> 's \<times> verdict) \<Rightarrow> 's \<Rightarrow> 'o list \<Rightarrow> bool" where
  "guard_running step init obs \<longleftrightarrow>
     (\<forall>k < length obs. guard_verdict step init (take k obs) (obs ! k) \<noteq> Stop)"

definition tail_run :: "('o \<Rightarrow> 'k) \<Rightarrow> 'o list \<Rightarrow> nat" where
  "tail_run key obs = length (takeWhile (\<lambda>ob. key ob = key (last obs)) (rev obs))"

section \<open>The contract of a streak guard\<close>

locale streak_guard =
  fixes init :: 's
    and step :: "'s \<Rightarrow> 'o \<Rightarrow> 's \<times> verdict"
    and hit :: "'s \<Rightarrow> 'o \<Rightarrow> bool"
    and count :: "'s \<Rightarrow> nat"
    and warn_at stop_at :: nat
  assumes positive: "0 < stop_at"
    and count_init: "count init = 0"
    and step_miss: "\<not> hit s ob \<Longrightarrow> count (fst (step s ob)) = 0 \<and> snd (step s ob) = Proceed"
    and step_hit: "hit s ob \<Longrightarrow> count s < stop_at \<Longrightarrow>
       count (fst (step s ob)) = count s + 1 \<and>
       snd (step s ob) = (if stop_at \<le> count s + 1 then Stop
                         else if warn_at \<le> count s + 1 then Warn else Proceed)"
begin

lemma after_snoc: "guard_after step init (obs @ [ob]) = fst (step (guard_after step init obs) ob)"
  by (simp add: guard_after_def)

lemma running_snoc: "guard_running step init (obs @ [ob]) \<longleftrightarrow> guard_running step init obs \<and> guard_verdict step init obs ob \<noteq> Stop"
  by (auto simp: guard_running_def nth_append less_Suc_eq)

lemma count_running: "guard_running step init obs \<Longrightarrow> count (guard_after step init obs) < stop_at"
proof (induction obs rule: rev_induct)
  case Nil
  then show ?case by (simp add: guard_after_def count_init positive)
next
  case (snoc ob obs)
  then have IH: "count (guard_after step init obs) < stop_at" "guard_verdict step init obs ob \<noteq> Stop"
    by (simp_all add: running_snoc)
  show ?case
  proof (cases "hit (guard_after step init obs) ob")
    case True
    then show ?thesis using step_hit[OF True IH(1)] IH(2)
      by (auto simp: after_snoc guard_verdict_def split: if_splits)
  next
    case False
    then show ?thesis using step_miss[OF False] positive by (simp add: after_snoc)
  qed
qed

lemma verdict_cases:
  assumes "guard_running step init obs"
  shows "guard_verdict step init obs ob =
    (if hit (guard_after step init obs) ob
     then (if stop_at \<le> count (guard_after step init obs) + 1 then Stop
           else if warn_at \<le> count (guard_after step init obs) + 1 then Warn else Proceed)
     else Proceed)"
  using step_hit[of "guard_after step init obs" ob] step_miss[of "guard_after step init obs" ob] count_running[OF assms]
  by (auto simp: guard_verdict_def)

end

text \<open>A streak guard whose hit is the repetition of a key of the observation.\<close>

locale keyed_streak = streak_guard +
  fixes key :: "'b \<Rightarrow> 'k"
    and last_key :: "'a \<Rightarrow> 'k option"
  assumes last_key_init: "last_key init = None"
    and last_key_step: "last_key (fst (step s ob)) = Some (key ob)"
    and hit_key: "hit s ob \<longleftrightarrow> last_key s = Some (key ob)"
begin

lemma last_key_after: "last_key (guard_after step init obs) = (if obs = [] then None else Some (key (last obs)))"
  by (cases obs rule: rev_cases) (simp_all add: after_snoc last_key_step last_key_init guard_after_def)

lemma tail_run_snoc:
  "tail_run key (obs @ [ob]) = (if obs \<noteq> [] \<and> key (last obs) = key ob then tail_run key obs + 1 else 1)"
  by (cases obs rule: rev_cases) (auto simp: tail_run_def)

lemma count_tail_run: "guard_running step init obs \<Longrightarrow> obs \<noteq> [] \<Longrightarrow> count (guard_after step init obs) + 1 = tail_run key obs"
proof (induction obs rule: rev_induct)
  case (snoc ob obs)
  then have r: "guard_running step init obs" by (simp add: running_snoc)
  show ?case
  proof (cases "hit (guard_after step init obs) ob")
    case True
    then have "obs \<noteq> []" "key (last obs) = key ob"
      by (auto simp: hit_key last_key_after split: if_splits)
    then show ?thesis using snoc.IH[OF r] step_hit[OF True count_running[OF r]]
      by (simp add: after_snoc tail_run_snoc)
  next
    case False
    then show ?thesis using step_miss[OF False]
      by (auto simp: after_snoc tail_run_snoc hit_key last_key_after)
  qed
qed simp

text \<open>The verdict, read off the keys of the observations alone.\<close>

lemma verdict_tail_run:
  assumes "guard_running step init obs" "0 < warn_at"
  shows "guard_verdict step init obs ob =
    (if stop_at < tail_run key (obs @ [ob]) then Stop
     else if warn_at < tail_run key (obs @ [ob]) then Warn else Proceed)"
proof (cases "obs \<noteq> [] \<and> key (last obs) = key ob")
  case True
  then show ?thesis
    using verdict_cases[OF assms(1)] count_tail_run[OF assms(1)]
    by (auto simp: tail_run_snoc hit_key last_key_after)
next
  case False
  then show ?thesis using verdict_cases[OF assms(1), of ob] positive assms(2)
    by (auto simp: tail_run_snoc hit_key last_key_after)
qed

lemma verdict_stop_iff:
  assumes "guard_running step init obs" "0 < warn_at"
  shows "guard_verdict step init obs ob = Stop \<longleftrightarrow> stop_at < tail_run key (obs @ [ob])"
  using verdict_tail_run[OF assms] by simp

end

section \<open>The guards keep the contract\<close>

interpretation repetition: keyed_streak repetition_init "repetition_observe to_string"
  "\<lambda>g calls. last_signature g = Some (signature_of to_string calls)" consecutive_repeats 1 2
  "signature_of to_string" last_signature for to_string
  by unfold_locales (auto simp: repetition_observe_def repetition_init_def Let_def u8_max_def)

interpretation progress: keyed_streak progress_init progress_observe
  "\<lambda>g calls. last_names g = Some (names_of calls)" streak PROGRESS_WARN_AT PROGRESS_STOP_AT
  names_of last_names
  by unfold_locales
     (auto simp: progress_observe_def progress_init_def Let_def u8_max_def saturating_add_def
       PROGRESS_STOP_AT_def PROGRESS_WARN_AT_def)

interpretation failing: streak_guard failure_init observe_turn "\<lambda>_. all_failed"
  consecutive_failed_turns FAILURE_WARN_AT FAILURE_STOP_AT
  by unfold_locales
     (auto simp: observe_turn_def failure_init_def Let_def u8_max_def saturating_add_def
       FAILURE_STOP_AT_def FAILURE_WARN_AT_def)

end
