(* ===== verification/Loop_Props.thy ===== *)
theory Loop_Props
  imports Loop_Guards "HOL-Library.Multiset" "HOL-Library.Code_Target_Nat"
begin

text \<open>
  The properties of the loop guards: their verdicts read off the turns themselves, the retry
  schedule, and the names of the stop reasons. Of serde_json's printer it is assumed that
  different values print differently and that control characters are escaped.
\<close>

definition args_in :: "tool_call list list \<Rightarrow> json set" where
  "args_in turns = tc_args ` set (concat turns)"

definition json_printer :: "(json \<Rightarrow> string) \<Rightarrow> json set \<Rightarrow> bool" where
  "json_printer to_string V \<longleftrightarrow>
     inj_on to_string V \<and> (\<forall>v \<in> V. unit_sep \<notin> set (to_string v) \<and> record_sep \<notin> set (to_string v))"

definition calls_key :: "tool_call list \<Rightarrow> (string \<times> json) list" where
  "calls_key calls = map (\<lambda>c. (tc_name c, tc_args c)) calls"

definition plain_names :: "tool_call list \<Rightarrow> bool" where
  "plain_names calls \<longleftrightarrow>
     list_all (\<lambda>c. tc_name c \<noteq> [] \<and> unit_sep \<notin> set (tc_name c) \<and> record_sep \<notin> set (tc_name c)) calls"

lemma tail_run_cong:
  assumes "\<forall>a \<in> set obs. \<forall>b \<in> set obs. key a = key b \<longleftrightarrow> key' a = key' b"
  shows "tail_run key obs = tail_run key' obs"
proof (cases "obs = []")
  case False
  then have "takeWhile (\<lambda>ob. key ob = key (last obs)) (rev obs) = takeWhile (\<lambda>ob. key' ob = key' (last obs)) (rev obs)"
    using assms by (intro takeWhile_cong) auto
  then show ?thesis by (simp add: tail_run_def)
qed (simp add: tail_run_def)

lemma append_sep_inject:
  "sep \<notin> set a \<Longrightarrow> sep \<notin> set b \<Longrightarrow> a @ sep # x = b @ sep # y \<Longrightarrow> a = b \<and> x = y"
proof (induction a arbitrary: b)
  case Nil
  then show ?case by (cases b) auto
next
  case (Cons c a)
  then show ?case by (cases b) auto
qed

lemma signature_of_inject:
  assumes "json_printer ts V" "plain_names a" "plain_names b"
    and "tc_args ` set a \<subseteq> V" "tc_args ` set b \<subseteq> V"
  shows "signature_of ts a = signature_of ts b \<longleftrightarrow> calls_key a = calls_key b"
proof
  let ?p = "\<lambda>c. tc_name c @ [unit_sep] @ ts (tc_args c)"
  have nosep: "\<forall>x \<in> set (map ?p c). record_sep \<notin> set x"
    if "plain_names c" "tc_args ` set c \<subseteq> V" for c
    using assms(1) that
    by (auto simp: json_printer_def plain_names_def list_all_iff unit_sep_def record_sep_def)
  have empty: "signature_of ts c = [] \<longleftrightarrow> c = []" for c
    by (cases c; cases "tl c") (auto simp: signature_of_def)
  assume eq: "signature_of ts a = signature_of ts b"
  have "map ?p a = map ?p b"
  proof (cases "a = [] \<or> b = []")
    case True
    then show ?thesis using eq empty by metis
  next
    case False
    then have "split_char record_sep (signature_of ts c) = map ?p c" if "c = a \<or> c = b" for c
      using that assms(2-5) split_join[of "map ?p c" record_sep] nosep[of c]
      by (auto simp: signature_of_def)
    then show ?thesis using eq by metis
  qed
  then show "calls_key a = calls_key b" using assms(2-5)
  proof (induction a arbitrary: b)
    case (Cons c a)
    then obtain d b' where b: "b = d # b'" by (cases b) auto
    have "tc_name c = tc_name d \<and> ts (tc_args c) = ts (tc_args d)"
      using Cons.prems b append_sep_inject[of unit_sep "tc_name c" "tc_name d"] by (auto simp: plain_names_def)
    then have "tc_name c = tc_name d \<and> tc_args c = tc_args d"
      using assms(1) Cons.prems b by (auto simp: json_printer_def inj_on_def)
    then show ?case using Cons b by (auto simp: calls_key_def plain_names_def)
  qed (auto simp: calls_key_def)
next
  assume "calls_key a = calls_key b"
  then have "map (\<lambda>(n, v). n @ [unit_sep] @ ts v) (calls_key a) = map (\<lambda>(n, v). n @ [unit_sep] @ ts v) (calls_key b)"
    by simp
  then show "signature_of ts a = signature_of ts b"
    by (simp add: signature_of_def calls_key_def comp_def)
qed

text \<open>
  The repetition guard stops exactly when the third turn in a row makes the same calls:
  as long as no earlier turn was stopped, the verdict on a turn is read off the length of the
  run of turns at the end with the same names and arguments in the same order, ids aside. One
  is no repetition, two warns, three stops.
\<close>

theorem repetition_verdict:
  assumes "json_printer ts (args_in (turns @ [calls]))" "list_all plain_names (turns @ [calls])"
    and "guard_running (repetition_observe ts) repetition_init turns"
  shows "guard_verdict (repetition_observe ts) repetition_init turns calls =
    (let k = tail_run calls_key (turns @ [calls])
     in if 3 \<le> k then Stop else if 2 \<le> k then Warn else Proceed)"
proof -
  have "tail_run (signature_of ts) (turns @ [calls]) = tail_run calls_key (turns @ [calls])"
    using assms(2) signature_of_inject[OF assms(1)]
    by (intro tail_run_cong) (auto simp: list_all_iff args_in_def image_subset_iff)
  then show ?thesis
    using repetition.verdict_tail_run[OF assms(3), of calls] by (auto simp: Let_def)
qed

definition call_of :: "string \<Rightarrow> tool_call" where
  "call_of n = \<lparr>tc_id = ''0'', tc_name = n, tc_args = JNull\<rparr>"

theorem repetition_verdict_witness:
  "guard_verdict (repetition_observe (\<lambda>_. ''null'')) repetition_init
     [[call_of ''read''], [call_of ''read'']] [call_of ''read''] = Stop"
proof -
  have "json_printer (\<lambda>_. ''null'') (args_in ([[call_of ''read''], [call_of ''read'']] @ [[call_of ''read'']]))"
    by (simp add: json_printer_def args_in_def call_of_def unit_sep_def record_sep_def)
  moreover have "list_all plain_names ([[call_of ''read''], [call_of ''read'']] @ [[call_of ''read'']])"
    "guard_running (repetition_observe (\<lambda>_. ''null'')) repetition_init [[call_of ''read''], [call_of ''read'']]"
    "tail_run calls_key ([[call_of ''read''], [call_of ''read'']] @ [[call_of ''read'']]) = 3"
    by code_simp+
  ultimately show ?thesis by (subst repetition_verdict) (simp_all add: Let_def)
qed

section \<open>No progress\<close>

lemma join_names_inject:
  assumes "\<forall>x \<in> set xs. x \<noteq> [] \<and> sep \<notin> set x" "\<forall>x \<in> set ys. x \<noteq> [] \<and> sep \<notin> set x"
    and "join [sep] xs = join [sep] ys"
  shows "xs = ys"
proof -
  have nonempty: "zs \<noteq> [] \<Longrightarrow> \<forall>x \<in> set zs. x \<noteq> [] \<Longrightarrow> join [sep] zs \<noteq> []" for zs
    by (cases zs; cases "tl zs") auto
  show ?thesis
  proof (cases "xs = [] \<or> ys = []")
    case True
    then show ?thesis using assms nonempty by (metis join.simps(1))
  next
    case False
    then show ?thesis using assms split_join[of xs sep] split_join[of ys sep] by metis
  qed
qed

lemma names_of_inject:
  assumes "plain_names a" "plain_names b"
  shows "names_of a = names_of b \<longleftrightarrow> tc_name ` set a = tc_name ` set b"
proof -
  have "names_of a = names_of b \<longleftrightarrow> bs_of_list (map tc_name a) = bs_of_list (map tc_name b)"
    using assms join_names_inject[of "bs_of_list (map tc_name a)" unit_sep "bs_of_list (map tc_name b)"]
    by (auto simp: names_of_def plain_names_def list_all_iff)
  also have "\<dots> \<longleftrightarrow> tc_name ` set a = tc_name ` set b"
  proof
    assume "bs_of_list (map tc_name a) = bs_of_list (map tc_name b)"
    then have "set (bs_of_list (map tc_name a)) = set (bs_of_list (map tc_name b))" by (rule arg_cong)
    then show "tc_name ` set a = tc_name ` set b" by simp
  next
    assume "tc_name ` set a = tc_name ` set b"
    then show "bs_of_list (map tc_name a) = bs_of_list (map tc_name b)"
      by (intro bs.set_extensional) simp_all
  qed
  finally show ?thesis .
qed

text \<open>
  The no-progress guard reads off the length of the run of turns at the end that use the
  same set of tools, whatever their arguments, order and number: five such turns warn, six
  stop, and a turn that uses another set starts over.
\<close>

theorem progress_verdict:
  assumes "list_all plain_names (turns @ [calls])"
    and "guard_running progress_observe progress_init turns"
  shows "guard_verdict progress_observe progress_init turns calls =
    (let k = tail_run (\<lambda>t. tc_name ` set t) (turns @ [calls])
     in if 6 \<le> k then Stop else if 5 \<le> k then Warn else Proceed)"
proof -
  have "tail_run names_of (turns @ [calls]) = tail_run (\<lambda>t. tc_name ` set t) (turns @ [calls])"
    using assms(1) names_of_inject by (intro tail_run_cong) (auto simp: list_all_iff)
  then show ?thesis
    using progress.verdict_tail_run[OF assms(2), of calls]
    by (auto simp: Let_def PROGRESS_STOP_AT_def PROGRESS_WARN_AT_def)
qed

theorem progress_verdict_witness:
  "guard_verdict progress_observe progress_init (replicate 4 [call_of ''make_dir''])
     [call_of ''make_dir'', call_of ''make_dir''] = Warn"
proof -
  have "list_all plain_names (replicate 4 [call_of ''make_dir''] @ [[call_of ''make_dir'', call_of ''make_dir'']])"
    "guard_running progress_observe progress_init (replicate 4 [call_of ''make_dir''])"
    "tail_run (\<lambda>t. tc_name ` set t)
       (replicate 4 [call_of ''make_dir''] @ [[call_of ''make_dir'', call_of ''make_dir'']]) = 5"
    by code_simp+
  then show ?thesis by (subst progress_verdict) (simp_all add: Let_def)
qed

section \<open>Repeated failure\<close>

lemma failing_count:
  "guard_running observe_turn failure_init obs \<Longrightarrow>
   consecutive_failed_turns (guard_after observe_turn failure_init obs) = length (takeWhile all_failed (rev obs))"
proof (induction obs rule: rev_induct)
  case Nil
  then show ?case by (simp add: guard_after_def failure_init_def)
next
  case (snoc ob obs)
  then have r: "guard_running observe_turn failure_init obs" by (simp add: failing.running_snoc)
  show ?case
    using snoc.IH[OF r] failing.step_hit[OF _ failing.count_running[OF r], of ob]
      failing.step_miss[of ob "guard_after observe_turn failure_init obs"]
    by (cases "all_failed ob") (simp_all add: failing.after_snoc)
qed

text \<open>
  The failure guard stops at the third result-bearing turn in a row in which every
  dispatched tool failed and warns at the second; any turn with a success, or with nothing
  dispatched, starts over.
\<close>

theorem failure_verdict:
  assumes "guard_running observe_turn failure_init obs"
  shows "guard_verdict observe_turn failure_init obs ob =
    (let k = length (takeWhile all_failed (rev (obs @ [ob])))
     in if 3 \<le> k then Stop else if 2 \<le> k then Warn else Proceed)"
  using failing.verdict_cases[OF assms, of ob] failing_count[OF assms]
  by (auto simp: Let_def FAILURE_STOP_AT_def FAILURE_WARN_AT_def)

theorem failure_verdict_witness:
  "guard_verdict observe_turn failure_init [(2, 1), (1, 1), (3, 3)] (2, 2) = Stop"
proof -
  have "guard_running observe_turn failure_init [(2, 1), (1, 1), (3, 3)]" by code_simp
  from failure_verdict[OF this, of "(2, 2)"] show ?thesis by (simp add: Let_def all_failed_def)
qed

text \<open>
  What the failure guard is shown never looks better than what happened: the number of
  successes it sees is at most the number of calls that succeeded, inconsistent counts count as
  a failed turn, and a turn is left out only when each of its calls was refused by the
  controller.
\<close>

theorem failure_observation_fail_closed:
  "case failure_observation dispatched errored blocks blocked of
     Some (d, e) \<Rightarrow> e \<le> d \<and> d - e \<le> dispatched - errored \<and>
       (dispatched < errored \<or> errored < blocks \<longrightarrow> all_failed (d, e)) \<and>
       (errored = dispatched \<and> blocks < dispatched \<and> \<not> blocked \<longrightarrow> all_failed (d, e))
   | None \<Rightarrow> dispatched = blocks \<and> errored = blocks \<and> \<not> blocked"
  by (auto simp: failure_observation_def Let_def all_failed_def checked_add_def split: option.splits)

theorem failure_observation_fail_closed_witness:
  "failure_observation 2 3 0 False = Some (3, 3) \<and> all_failed (3, 3)"
  using failure_observation_fail_closed[of 2 3 0 False]
  by (simp add: failure_observation_def checked_add_def u64_max_def all_failed_def)

section \<open>Oscillation\<close>

lemma distinct_count_card [simp]: "distinct_count xs = card (set xs)"
proof -
  have "distinct (bs_of_list xs)"
    using bs_wf_of_list[of xs] by (simp add: bs_wf_def strict_sorted_iff)
  then have "card (set (bs_of_list xs)) = length (bs_of_list xs)" by (rule distinct_card)
  then show ?thesis by (simp add: distinct_count_def)
qed

definition acting_signatures :: "(json \<Rightarrow> string) \<Rightarrow> tool_call list list \<Rightarrow> string list" where
  "acting_signatures ts turns = map (signature ts) (filter (\<lambda>calls. calls \<noteq> []) turns)"

definition last_n :: "nat \<Rightarrow> 'a list \<Rightarrow> 'a list" where
  "last_n n xs = drop (length xs - n) xs"

lemma length_last_n [simp]: "length (last_n n xs) = min n (length xs)"
  by (simp add: last_n_def)

lemma last_n_last_n [simp]: "m \<le> n \<Longrightarrow> last_n m (last_n n xs) = last_n m xs"
  by (cases "length xs \<le> n"; cases "length xs \<le> m") (auto simp: last_n_def)

lemma last_n_push:
  assumes "0 < n"
  shows "(if n < length (last_n n xs @ [x]) then tl (last_n n xs @ [x]) else last_n n xs @ [x]) = last_n n (xs @ [x])"
proof (cases "n \<le> length xs")
  case True
  then have "last_n n xs \<noteq> []" using assms length_last_n[of n xs] by (metis length_0_conv min.absorb1 less_irrefl)
  then have "tl (last_n n xs @ [x]) = drop (Suc (length xs - n)) xs @ [x]"
    by (simp add: last_n_def tl_append_if tl_drop drop_Suc)
  then show ?thesis using True assms by (simp add: last_n_def Suc_diff_le)
qed (simp add: last_n_def)

lemma window_push:
  "calls \<noteq> [] \<Longrightarrow> fst (oscillation_observe ts (last_n 8 xs) calls) = last_n 8 (xs @ [signature ts calls])"
  using last_n_push[of 8 xs "signature ts calls"]
  by (auto simp: oscillation_observe_def Let_def OSC_STOP_AT_def)

lemma window_idle [simp]: "oscillation_observe ts w [] = (w, Proceed)"
  by (simp add: oscillation_observe_def)

lemma window_after:
  "guard_after (oscillation_observe ts) [] turns = last_n 8 (acting_signatures ts turns)"
proof (induction turns rule: rev_induct)
  case Nil
  then show ?case by (simp add: guard_after_def acting_signatures_def last_n_def)
next
  case (snoc calls turns)
  then have "guard_after (oscillation_observe ts) [] (turns @ [calls]) =
      fst (oscillation_observe ts (last_n 8 (acting_signatures ts turns)) calls)"
    by (simp add: guard_after_def)
  then show ?case
    by (cases "calls = []") (simp_all add: window_push acting_signatures_def)
qed

text \<open>The signature of a turn does not depend on the order of its calls.\<close>

lemma signature_order: "mset a = mset b \<Longrightarrow> signature ts a = signature ts b"
proof -
  assume "mset a = mset b"
  then have "mset (map f a) = mset (map f b)" for f :: "tool_call \<Rightarrow> string" by simp
  then have "sort (map f a) = sort (map f b)" for f :: "tool_call \<Rightarrow> string"
    by (intro properties_for_sort) simp_all
  then show ?thesis by (simp add: signature_def)
qed

text \<open>
  The oscillation guard looks at the last turns that called a tool, however other turns
  are interleaved: it stops exactly when the last eight of them hold at most two different
  actions, and warns when the last six do. A turn without calls neither fires nor moves the
  window.
\<close>

theorem oscillation_verdict:
  "guard_verdict (oscillation_observe ts) [] turns calls =
    (let s = acting_signatures ts (turns @ [calls])
     in if calls = [] then Proceed
        else if 8 \<le> length s \<and> card (set (last_n 8 s)) \<le> 2 then Stop
        else if 6 \<le> length s \<and> card (set (last_n 6 s)) \<le> 2 then Warn
        else Proceed)"
proof (cases "calls = []")
  case False
  let ?s = "acting_signatures ts (turns @ [calls])"
  have w: "fst (oscillation_observe ts (last_n 8 (acting_signatures ts turns)) calls) = last_n 8 ?s"
    using False by (simp add: window_push acting_signatures_def)
  have "snd (oscillation_observe ts win calls) =
      (let w = fst (oscillation_observe ts win calls)
       in if 8 \<le> length w \<and> card (set w) \<le> 2 then Stop
          else if 6 \<le> length w \<and> card (set (last_n 6 w)) \<le> 2 then Warn else Proceed)" for win
    using False
    by (simp add: oscillation_observe_def Let_def OSC_STOP_AT_def OSC_WARN_AT_def MAX_DISTINCT_def last_n_def)
  then show ?thesis using False by (simp add: guard_verdict_def window_after w Let_def)
qed (simp add: guard_verdict_def oscillation_observe_def)

section \<open>Backoff\<close>

definition retried :: "('e \<Rightarrow> bool) \<Rightarrow> ('e + 'c) \<Rightarrow> bool" where
  "retried retryable r = (case r of Inl e \<Rightarrow> retryable e | Inr _ \<Rightarrow> False)"

lemma backoff_loop_spec:
  assumes "backoff_loop retryable f a slept = (r, slept', n)" "a \<le> 3"
  shows "a < n \<and> n \<le> 4 \<and> r = f (n - 1) \<and> slept' = slept @ map (\<lambda>k. 250 * 2 ^ k) [a ..< n - 1]
    \<and> (\<forall>k. a \<le> k \<and> k < n - 1 \<longrightarrow> retried retryable (f k)) \<and> (n = 4 \<or> \<not> retried retryable r)"
  using assms
proof (induction retryable f a slept rule: backoff_loop.induct)
  case (1 retryable f a slept)
  show ?case
  proof (cases "retried retryable (f a) \<and> a < 3")
    case True
    then obtain e where e: "f a = Inl e" "retryable e" "a < MAX_RETRIES"
      by (auto simp: retried_def MAX_RETRIES_def split: sum.splits)
    then have "backoff_loop retryable f (a + 1) (slept @ [250 * 2 ^ a]) = (r, slept', n)"
      using "1.prems"(1)
      by (subst (asm) backoff_loop.simps) (simp add: push_bit_eq_mult BASE_DELAY_MS_def mult.commute)
    then have IH: "a + 1 < n" "n \<le> 4" "r = f (n - 1)"
      "slept' = slept @ [250 * 2 ^ a] @ map (\<lambda>k. 250 * 2 ^ k) [a + 1 ..< n - 1]"
      "\<forall>k. a + 1 \<le> k \<and> k < n - 1 \<longrightarrow> retried retryable (f k)" "n = 4 \<or> \<not> retried retryable r"
      using "1.IH"[OF e(1)] e True
      by (auto simp: push_bit_eq_mult BASE_DELAY_MS_def mult.commute)
    have "[a ..< n - 1] = a # [a + 1 ..< n - 1]" using IH(1) by (simp add: upt_conv_Cons)
    moreover have "retried retryable (f k)" if "a \<le> k" "k < n - 1" for k
      using that IH(5) True by (cases "k = a") auto
    ultimately show ?thesis using IH by auto
  next
    case False
    then have "(r, slept', n) = (f a, slept, a + 1)"
      using "1.prems"(1)
      by (subst (asm) backoff_loop.simps)
         (auto simp: retried_def MAX_RETRIES_def split: sum.splits if_splits)
    then show ?thesis using False "1.prems"(2) by auto
  qed
qed

text \<open>
  C38. A provider call ends after one to four attempts whatever the provider answers. The result
  is the answer to the last attempt, each earlier one was a retryable error, an answer that is
  still a retryable error came on the fourth, and the sleeps between the attempts are 250, 500
  and 1000 milliseconds.
\<close>

theorem backoff_spec:
  "case complete_with_backoff retryable f of (r, slept, n) \<Rightarrow>
     1 \<le> n \<and> n \<le> 4 \<and> r = f (n - 1) \<and> slept = take (n - 1) [250, 500, 1000]
     \<and> (\<forall>k. k < n - 1 \<longrightarrow> retried retryable (f k)) \<and> (retried retryable r \<longrightarrow> n = 4)"
proof -
  obtain r slept n where b: "backoff_loop retryable f 0 [] = (r, slept, n)"
    by (cases "backoff_loop retryable f 0 []") auto
  have "map (\<lambda>k. 250 * 2 ^ k) [0 ..< m] = take m [250, 500, 1000 :: nat]" if "m \<le> 3" for m
  proof -
    have "m = 0 \<or> m = 1 \<or> m = 2 \<or> m = 3" using that by auto
    then show ?thesis by (auto simp: upt_rec numeral_eq_Suc)
  qed
  from this[of "n - 1"] show ?thesis
    using backoff_loop_spec[OF b] by (auto simp: complete_with_backoff_def b)
qed

definition flaky :: "nat \<Rightarrow> nat + nat" where
  "flaky k = (if k < 2 then Inl 0 else Inr k)"

theorem backoff_spec_witness:
  "complete_with_backoff (\<lambda>e. e = 0) flaky = (Inr 2, [250, 500], 3)
   \<and> retried (\<lambda>e. e = 0) (flaky 0) \<and> retried (\<lambda>e. e = 0) (flaky 1)"
proof -
  have b: "complete_with_backoff (\<lambda>e. e = 0) flaky = (Inr 2, [250, 500], 3)" by code_simp
  have "\<forall>k. k < 3 - 1 \<longrightarrow> retried (\<lambda>e. e = 0) (flaky k)"
    using backoff_spec[of flaky "\<lambda>e. e = 0"] unfolding b prod.case by blast
  then show ?thesis using b by simp
qed

section \<open>Stop reasons\<close>

text \<open>
  The name of a stop reason identifies it: parsing the printed name gives the reason back,
  a string parses only to the reason that prints as it, and every reason is a success, a failure
  or the request for input, and only one of them.
\<close>

theorem stop_reason_roundtrip:
  "stop_parse (stop_as_str r) = Some r
   \<and> (case stop_parse s of Some r' \<Rightarrow> stop_as_str r' = s | None \<Rightarrow> s \<notin> range stop_as_str)
   \<and> (if r = NeedsInput then \<not> is_success r \<and> \<not> is_failure r else is_success r \<noteq> is_failure r)"
proof -
  have all: "r' \<in> set all_stop_reasons" for r' by (cases r') (simp_all add: all_stop_reasons_def)
  have "case stop_parse s of Some r' \<Rightarrow> stop_as_str r' = s | None \<Rightarrow> s \<notin> range stop_as_str"
    using all by (auto simp: stop_parse_def find_None_iff find_Some_iff split: option.splits)
  moreover have "stop_parse (stop_as_str r) = Some r"
    by (cases r) (simp_all add: stop_parse_def all_stop_reasons_def)
  ultimately show ?thesis by (auto simp: is_success_def is_failure_def)
qed

end
