(* ===== verification/Policy_Props.thy ===== *)
theory Policy_Props
  imports Run_Policy "HOL-Library.Code_Target_Nat"
begin

text \<open>
  The properties of the scale function, of the explicit output budget and of the hardware fit
  estimate.
\<close>

section \<open>Agency grows with the model\<close>

text \<open>One profile is at least as strong as another when both are measured or both are not, and
  the level, or else the parameter count, is at least as high.\<close>

definition at_least_as_strong :: "model_profile \<Rightarrow> model_profile \<Rightarrow> bool" where
  "at_least_as_strong m' m =
     (case (measured_level m, measured_level m') of
        (Some a, Some b) \<Rightarrow> a \<le> b
      | (None, None) \<Rightarrow> params_b m \<noteq> NaN \<and> params_b m' \<noteq> NaN \<and> \<not> f32_lt (params_b m') (params_b m)
      | _ \<Rightarrow> False)"

text \<open>
  C39. A stronger model never gets less: with at least the same context window, every ceiling of
  its policy (turns, tools, prompt and output tokens, tool ring, turns kept by a compaction) is
  at least as high. The prompt budget leaves three tenths of the window for generation, at least
  one turn survives a compaction, and an operator's tier is taken as it is.
\<close>

theorem policy_monotone:
  assumes "at_least_as_strong m' m" "ctx m \<le> ctx m'" "ctx m' \<le> u32_max"
  shows "list_all2 (\<le>) (grants (policy_for m)) (grants (policy_for m'))
    \<and> 10 * prompt_budget_tokens (policy_for m) \<le> 7 * ctx m
    \<and> 0 < compact_keep_last_turns (policy_for m)
    \<and> rp_tier (policy_for_with_override m (Some t)) = t"
proof -
  have "fst (tier_decision m None) \<le> fst (tier_decision m' None)"
    using assms(1) tier_for_level_mono tier_for_params_mono
    by (auto simp: at_least_as_strong_def tier_decision_def split: option.splits)
  from grants_mono[OF this assms(2,3)] show ?thesis
    using policy_prompt_budget[of m None] policy_keep_positive[of m None] assms(2,3)
    by (simp add: policy_for_def tier_decision_def)
qed

definition profile_of :: "rat \<Rightarrow> nat \<Rightarrow> model_profile" where
  "profile_of p c = \<lparr>params_b = Finite p, quant = ''Q4_K_M'', ctx = c, family = ''qwen'', measured_level = None\<rparr>"

theorem policy_monotone_witness:
  "grants (policy_for (profile_of 7 4096)) = [20, 14, 2867, 768, 1, 2]
   \<and> list_all2 (\<le>) (grants (policy_for (profile_of 7 4096))) (grants (policy_for (profile_of 14 32768)))"
proof -
  have a: "at_least_as_strong (profile_of 14 32768) (profile_of 7 4096)"
    by (simp add: at_least_as_strong_def profile_of_def)
  have b: "ctx (profile_of 7 4096) \<le> ctx (profile_of 14 32768)" "ctx (profile_of 14 32768) \<le> u32_max"
    by (simp_all add: profile_of_def u32_max_def)
  from policy_monotone[OF a b] show ?thesis
    by (simp add: grants_def policy_for_def policy_for_with_override_def tier_decision_def profile_of_def
        tier_for_params_def u32_max_def)
qed

section \<open>The explicit output budget\<close>

text \<open>
  An explicit output cap is admitted exactly when it is positive and fits beside the prompt
  reserve in a positive context window, and is then the effective budget; omitting it is never
  refused and keeps the tier's cap. Under a policy of the scale function every positive cap of at
  most three tenths of the window is admitted.
\<close>

theorem output_budget_spec:
  "(case resolve_output_budget policy c req of
      Inr b \<Rightarrow> requested b = req \<and> declared_ctx b = Some c \<and>
        (case req of None \<Rightarrow> effective b = max_output_tokens policy \<and> source b = Policy
         | Some cap \<Rightarrow> effective b = cap \<and> source b = Explicit \<and> 0 < cap
             \<and> cap + prompt_budget_tokens policy \<le> c)
    | Inl _ \<Rightarrow> (case req of None \<Rightarrow> False
         | Some cap \<Rightarrow> cap = 0 \<or> c < cap + prompt_budget_tokens policy))
   \<and> (0 < cap' \<and> 10 * cap' \<le> 3 * ctx m \<and> ctx m \<le> u32_max \<longrightarrow>
       is_ok (resolve_output_budget (policy_for_with_override m ov) (ctx m) (Some cap')))"
proof (intro conjI impI)
  show "case resolve_output_budget policy c req of
      Inr b \<Rightarrow> requested b = req \<and> declared_ctx b = Some c \<and>
        (case req of None \<Rightarrow> effective b = max_output_tokens policy \<and> source b = Policy
         | Some cap \<Rightarrow> effective b = cap \<and> source b = Explicit \<and> 0 < cap
             \<and> cap + prompt_budget_tokens policy \<le> c)
    | Inl _ \<Rightarrow> (case req of None \<Rightarrow> False
         | Some cap \<Rightarrow> cap = 0 \<or> c < cap + prompt_budget_tokens policy)"
    by (cases req) (auto simp: budget_defs split: if_splits)
next
  assume "0 < cap' \<and> 10 * cap' \<le> 3 * ctx m \<and> ctx m \<le> u32_max"
  moreover from this have "10 * prompt_budget_tokens (policy_for_with_override m ov) \<le> 7 * ctx m"
    by (intro policy_prompt_budget) simp
  ultimately show "is_ok (resolve_output_budget (policy_for_with_override m ov) (ctx m) (Some cap'))"
    by (auto simp: budget_defs is_ok_def)
qed

theorem output_budget_spec_witness:
  "is_ok (resolve_output_budget (policy_for_with_override (profile_of 7 4096) None) 4096 (Some 1228))
   \<and> \<not> is_ok (resolve_output_budget (policy_for_with_override (profile_of 7 4096) None) 4096 (Some 1230))"
proof -
  let ?p = "policy_for_with_override (profile_of 7 4096) None"
  have "prompt_budget_tokens ?p = 2867"
    by (simp add: policy_for_with_override_def tier_decision_def profile_of_def tier_for_params_def u32_max_def)
  then have "\<not> is_ok (resolve_output_budget ?p 4096 (Some 1230))"
    by (simp add: budget_defs is_ok_def)
  then show ?thesis using output_budget_spec[where cap' = 1228 and m = "profile_of 7 4096" and ov = None]
    by (simp add: profile_of_def u32_max_def)
qed

section \<open>Hardware fit\<close>

text \<open>
  For sizes below \<open>2^60\<close> bytes the saturating arithmetic is exact: the estimate is the file
  plus 256 KiB per context token plus 512 MiB, a model that needs more than the available memory
  is reported as not fitting, one that needs more than four fifths of it as tight, and memory
  that could not be measured is never judged.
\<close>

theorem fit_spec:
  assumes "file < 2 ^ 60" "context \<le> u32_max" "\<forall>a. available = Some a \<longrightarrow> a < 2 ^ 60"
  shows "classify_fit (estimate_model_memory file context) available =
    (let need = file + context * 262144 + 536870912
     in case available of None \<Rightarrow> Unknown
        | Some a \<Rightarrow> if a < need then WontFit else if 4 * a < 5 * need then Tight else Fits)"
proof -
  let ?need = "file + context * 262144 + 536870912"
  have small: "?need \<le> 2 ^ 60 + 2 ^ 51"
    using assms(1,2) by (simp add: u32_max_def)
  then have e: "estimate_model_memory file context = ?need"
    by (simp add: estimate_model_memory_def saturating_mul_def saturating_add_def
        CONTEXT_KV_BYTES_PER_TOKEN_def BASE_HEADROOM_BYTES_def u64_max_def Let_def)
  show ?thesis
  proof (cases available)
    case (Some a)
    then have "a < 2 ^ 60" using assms(3) by simp
    then have "saturating_mul u64_max a 8 = a * 8" "saturating_mul u64_max ?need 10 = ?need * 10"
      using small by (simp_all add: saturating_mul_def u64_max_def)
    then show ?thesis
      unfolding e Some classify_fit_def option.case TIGHT_NUM_def TIGHT_DEN_def Let_def by auto
  qed (simp add: classify_fit_def)
qed

theorem fit_spec_witness:
  "classify_fit (estimate_model_memory 4000000000 8192) (Some 7000000000) = Tight"
  using fit_spec[of 4000000000 8192 "Some 7000000000"] by (simp add: u32_max_def Let_def)

end
