(* ===== verification/Trace_Events.thy ===== *)
theory Trace_Events
  imports Controller_Records Messages
begin

text \<open>
  The vocabulary of the durable trace (\<^verbatim>\<open>ferric-trace\<close>'s \<^verbatim>\<open>event.rs\<close>):
  the recovery checkpoint, the turns kept for the loop guards, and the events, one constructor
  per variant with its fields in the order of the source.
\<close>

definition TRACE_SCHEMA_VERSION :: nat where "TRACE_SCHEMA_VERSION = 1"
definition RECOVERY_CHECKPOINT_VERSION :: nat where "RECOVERY_CHECKPOINT_VERSION = 1"

record turn_boundary =
  tb_turn :: nat
  tb_message_index :: nat

record guard_turn =
  gt_turn :: nat
  gt_calls :: "tool_call list"
  gt_dispatched :: nat
  gt_errored :: nat
  gt_controller_blocks :: nat
  gt_controller_blocks_was_present :: bool

record recovery_checkpoint =
  rc_version :: nat
  rc_messages :: "message list"
  rc_next_turn :: nat
  rc_last_text :: "string option"
  rc_head_len :: nat
  rc_committed_turn_starts :: "turn_boundary list"
  rc_guard_history :: "guard_turn list"
  rc_nudged_for_no_action :: bool
  rc_truncated_once :: bool
  rc_last_input_tokens :: "nat option"
  rc_pending_input :: "user_input_request option"
  rc_mutation_epoch :: nat
  rc_passed_checks :: "(string, nat) btree_map"

datatype event =
    EvMainActionBudget nat output_budget
  | EvSessionStart string "string option"
  | EvSessionEnd string
  | EvSessionPaused string
  | EvPolicySelected tier action_protocol harness_policy nat nat nat nat nat string
  | EvPromptComposed string string "(string \<times> string) list"
  | EvSessionPrompt string string "media_part list"
  | EvRecoveryCheckpoint recovery_checkpoint
  | EvResumePrompt string "media_part list"
  | EvTurnStart nat
  | EvTurnEnd nat "string option" nat "nat option" "nat option" bool
  | EvActionsProposed nat "tool_call list"
  | EvPromptAssembled nat nat nat "string list"
  | EvConstraintApplied string
  | EvRepetitionGuard string
  | EvNoProgressGuard string
  | EvFailureGuard string
  | EvOscillationGuard string
  | EvPermissionCheck string string "string option" "string option"
  | EvToolCall string string json
  | EvToolResult string string string bool nat
  | EvObservationRecorded nat string observation
  | EvControllerBlocked nat string string controller_block
  | EvWorkspaceEffectRecorded nat string string workspace_effect
  | EvVerificationCheckRecorded nat string verification_check
  | EvWorkspaceMutation nat string nat
  | EvVerificationCheckPassed nat string nat
  | EvControllerCheckpoint controller_checkpoint
  | EvRecoveryPacketInjected recovery_packet string
  | EvTurnCommitted nat nat nat "string option" "string option"
  | EvCompletionGate nat "string list" "string list" string
  | EvNote string
  | EvHistoryCompacted nat nat string

end
