(* ===== verification/Trace_Projector.thy ===== *)
theory Trace_Projector
  imports Trace_Events
begin

text \<open>
  The trace projector of \<^verbatim>\<open>ferric-loop\<close> (\<^verbatim>\<open>projector.rs\<close>): the state machine
  that rebuilds the model's context window from the events of a trace, and on which the running
  loop and the replay of a trace both rest.
\<close>

section \<open>Model-facing texts\<close>

fun no_action_nudge :: "action_protocol \<Rightarrow> string" where
  "no_action_nudge NativeTools = ''Respond with a tool call, or your final answer as text.''"
| "no_action_nudge TextXml =
     ''Respond with an XML tool call: <tool_call><name>tool_name</name><args>{\"arg\": \"value\"}</args></tool_call>''"
| "no_action_nudge _ = ''Respond with a single JSON action: {\"tool\": \"tool_name\", \"args\": { ... }}''"

definition truncation_retry_message :: message where
  "truncation_retry_message =
     user_message ''Your last action was cut off by the token limit. Re-issue it more concisely.''"

definition em_dash :: string where "em_dash = [CHR 0xE2, CHR 0x80, CHR 0x94]"

definition repetition_warn_message :: "string list \<Rightarrow> message" where
  "repetition_warn_message repeated = user_message (
     ''You already called '' @ join '', '' repeated @ '' and have the result '' @ em_dash
     @ '' do not call it again. If the task is finished, call task_complete now with a one-sentence summary.'')"

definition no_progress_warn_message :: "string list \<Rightarrow> message" where
  "no_progress_warn_message repeated = user_message (
     ''You have called '' @ join '', '' repeated
     @ '' repeatedly without finishing. If the task is complete, call task_complete now; otherwise use a different tool or arguments that move toward the goal.'')"

definition oscillation_warn_message :: message where
  "oscillation_warn_message = user_message
     ''You are cycling between the same few tool calls without making progress. Their results will not change if you repeat them. Use what you already have to take a DIFFERENT next step, or call task_complete if the task is done.''"

definition failure_warn_message :: message where
  "failure_warn_message = user_message
     ''Your last tool call(s) failed. Read the error message and try a different approach, or call task_complete if you cannot proceed.''"

definition result_message ::
  "action_protocol \<Rightarrow> string \<Rightarrow> string \<Rightarrow> string \<Rightarrow> nat \<Rightarrow> message" where
  "result_message protocol call_id name output limit =
     (let shown = truncate_for_model output limit
      in if protocol = NativeTools then tool_result_message call_id shown
         else user_message (tool_result_text name shown))"

definition completion_gate_message :: "nat \<Rightarrow> string list \<Rightarrow> string list \<Rightarrow> string" where
  "completion_gate_message epoch required fresh =
     ''Completion is blocked: run the required verification check(s) at workspace mutation epoch ''
     @ show_nat epoch @ '': '' @ join '', '' (filter (\<lambda>n. n \<notin> set fresh) required)
     @ ''. Then call task_complete again.''"

section \<open>The pending turn\<close>

record pending_turn =
  pt_turn :: nat
  pt_turn_end :: "(string option \<times> bool) option"
  pt_actions_proposed :: "tool_call list option"
  pt_tool_calls :: "tool_call list"
  pt_tool_results :: "(string \<times> string \<times> string \<times> bool) list"
  pt_controller_blocks :: nat
  pt_repetition_warned :: bool
  pt_no_progress_warned :: bool
  pt_failure_warned :: bool
  pt_oscillation_warned :: bool
  pt_completion_gate_feedback :: "string option"

definition pending_new :: "nat \<Rightarrow> pending_turn" where
  "pending_new t = \<lparr>pt_turn = t, pt_turn_end = None, pt_actions_proposed = None, pt_tool_calls = [],
     pt_tool_results = [], pt_controller_blocks = 0, pt_repetition_warned = False,
     pt_no_progress_warned = False, pt_failure_warned = False, pt_oscillation_warned = False,
     pt_completion_gate_feedback = None\<rparr>"

definition constrained :: "action_protocol \<Rightarrow> bool" where
  "constrained p \<longleftrightarrow> p = ConstrainedJson \<or> p = Plan"

definition assistant_turn :: "action_protocol \<Rightarrow> string option \<Rightarrow> tool_call list \<Rightarrow> message" where
  "assistant_turn protocol text calls =
     (if protocol = NativeTools
      then \<lparr>msg_role = Assistant, msg_text = text, msg_tool_calls = calls, msg_tool_call_id = None, msg_media = []\<rparr>
      else assistant_message (case text of Some t \<Rightarrow> t | None \<Rightarrow> []))"

definition finalize :: "pending_turn \<Rightarrow> action_protocol \<Rightarrow> nat \<Rightarrow> message list option" where
  "finalize p protocol limit =
     (case pt_turn_end p of
        None \<Rightarrow> None
      | Some (text, truncated) \<Rightarrow>
          if truncated \<and> constrained protocol then Some [truncation_retry_message]
          else let assistant = assistant_turn protocol text (pt_tool_calls p)
            in if pt_tool_calls p = [] then
                 Some [assistant, user_message (case pt_completion_gate_feedback p of
                         Some f \<Rightarrow> f | None \<Rightarrow> no_action_nudge protocol)]
               else let names = map tc_name (pt_tool_calls p) in Some (
                 [assistant]
                 @ (if pt_repetition_warned p then [repetition_warn_message names] else [])
                 @ (if pt_no_progress_warned p then [no_progress_warn_message names] else [])
                 @ (if pt_oscillation_warned p then [oscillation_warn_message] else [])
                 @ map (\<lambda>(i, n, output, _). result_message protocol i n output limit) (pt_tool_results p)
                 @ (if pt_failure_warned p then [failure_warn_message] else [])))"

section \<open>The projector\<close>

record trace_projector =
  tp_protocol :: "action_protocol option"
  tp_messages :: "message list"
  tp_last_text :: "string option"
  tp_pending :: "pending_turn option"
  tp_head_len :: nat
  tp_turn_starts :: "(nat \<times> nat) list"
  tp_next_turn :: nat
  tp_guard_history :: "guard_turn list"
  tp_nudged :: bool
  tp_truncated_once :: bool
  tp_last_input_tokens :: "nat option"
  tp_pending_input :: "user_input_request option"
  tp_mutation_epoch :: nat
  tp_passed_checks :: "(string, nat) btree_map"
  tp_truncation_limit :: nat

definition projector_new :: trace_projector where
  "projector_new = \<lparr>tp_protocol = None, tp_messages = [], tp_last_text = None, tp_pending = None,
     tp_head_len = 0, tp_turn_starts = [], tp_next_turn = 0, tp_guard_history = [],
     tp_nudged = False, tp_truncated_once = False, tp_last_input_tokens = None,
     tp_pending_input = None, tp_mutation_epoch = 0, tp_passed_checks = [],
     tp_truncation_limit = DEFAULT_TRUNCATION_LIMIT\<rparr>"

text \<open>The four parts of committing a turn: the clarification it pauses on, the last answer text,
  the flags, and the guard history.\<close>

definition commit_input :: "string option \<Rightarrow> tool_call list \<Rightarrow> user_input_request option \<Rightarrow> user_input_request option" where
  "commit_input stop proposed pending_input =
     (if stop = Some ''needs_input'' \<and> pending_input = None then
        (case List.find (\<lambda>c. is_request_user_input (tc_name c)) proposed of
           None \<Rightarrow> None
         | Some c \<Rightarrow> (case request_of (tc_args c) of Inr r \<Rightarrow> Some r | Inl _ \<Rightarrow> None))
      else pending_input)"

definition commit_text :: "action_protocol \<Rightarrow> message list \<Rightarrow> string option \<Rightarrow> string option" where
  "commit_text protocol msgs last_text =
     (if protocol = NativeTools then
        (case msgs of
           m # _ \<Rightarrow> (case msg_text m of Some t \<Rightarrow> if t \<noteq> [] then Some t else last_text | None \<Rightarrow> last_text)
         | [] \<Rightarrow> last_text)
      else last_text)"

definition commit_turn :: "trace_projector \<Rightarrow> pending_turn \<Rightarrow> action_protocol \<Rightarrow> message list
    \<Rightarrow> nat \<Rightarrow> nat \<Rightarrow> string option \<Rightarrow> trace_projector" where
  "commit_turn p t protocol msgs dispatched errored stop =
     (let proposed = (case pt_actions_proposed t of Some cs \<Rightarrow> cs | None \<Rightarrow> []);
          truncated = (case pt_turn_end t of Some (_, v) \<Rightarrow> v | None \<Rightarrow> False)
      in p\<lparr>tp_last_text := commit_text protocol msgs (tp_last_text p),
           tp_turn_starts := tp_turn_starts p @ [(pt_turn t, length (tp_messages p))],
           tp_messages := tp_messages p @ msgs,
           tp_next_turn := max (tp_next_turn p) (saturating_add u32_max (pt_turn t) 1),
           tp_truncated_once := (truncated \<or> tp_truncated_once p),
           tp_nudged := (proposed = [] \<and> stop = None \<and> pt_completion_gate_feedback t = None
                          \<and> \<not> (truncated \<and> constrained protocol) \<or> tp_nudged p),
           tp_guard_history := tp_guard_history p
             @ (if proposed \<noteq> [] \<and> stop \<noteq> Some ''needs_input''
                then [\<lparr>gt_turn = pt_turn t, gt_calls = proposed, gt_dispatched = dispatched,
                       gt_errored = errored, gt_controller_blocks = pt_controller_blocks t,
                       gt_controller_blocks_was_present = True\<rparr>] else [])\<rparr>)"

definition commit_pending_with ::
  "nat \<Rightarrow> nat \<Rightarrow> string option \<Rightarrow> trace_projector \<Rightarrow> trace_projector" where
  "commit_pending_with dispatched errored stop p =
     (case (tp_pending p, tp_protocol p) of
        (Some t, Some protocol) \<Rightarrow>
          (let proposed = (case pt_actions_proposed t of Some cs \<Rightarrow> cs | None \<Rightarrow> []);
               p1 = p\<lparr>tp_pending := None, tp_pending_input := commit_input stop proposed (tp_pending_input p)\<rparr>
           in case finalize t protocol (tp_truncation_limit p) of
                None \<Rightarrow> p1
              | Some msgs \<Rightarrow> commit_turn p1 t protocol msgs dispatched errored stop)
      | _ \<Rightarrow> p\<lparr>tp_pending := None\<rparr>)"

definition commit_pending :: "trace_projector \<Rightarrow> trace_projector" where
  "commit_pending p =
     (let (dispatched, errored) =
        (case tp_pending p of
           None \<Rightarrow> (0, 0)
         | Some t \<Rightarrow> (length (pt_tool_results t) mod (u32_max + 1),
             length (filter (\<lambda>(_, _, _, is_error). is_error) (pt_tool_results t)) mod (u32_max + 1)))
      in commit_pending_with dispatched errored None p)"

definition with_pending :: "(pending_turn \<Rightarrow> pending_turn) \<Rightarrow> trace_projector \<Rightarrow> trace_projector" where
  "with_pending f p = p\<lparr>tp_pending := map_option f (tp_pending p)\<rparr>"

definition with_turn :: "nat \<Rightarrow> (pending_turn \<Rightarrow> pending_turn) \<Rightarrow> trace_projector \<Rightarrow> trace_projector" where
  "with_turn turn f p = with_pending (\<lambda>t. if pt_turn t = turn then f t else t) p"

definition projector_checkpoint :: "trace_projector \<Rightarrow> recovery_checkpoint" where
  "projector_checkpoint p = \<lparr>rc_version = RECOVERY_CHECKPOINT_VERSION, rc_messages = tp_messages p,
     rc_next_turn = tp_next_turn p, rc_last_text = tp_last_text p, rc_head_len = tp_head_len p,
     rc_committed_turn_starts = map (\<lambda>(t, i). \<lparr>tb_turn = t, tb_message_index = i\<rparr>) (tp_turn_starts p),
     rc_guard_history = tp_guard_history p, rc_nudged_for_no_action = tp_nudged p,
     rc_truncated_once = tp_truncated_once p, rc_last_input_tokens = tp_last_input_tokens p,
     rc_pending_input = tp_pending_input p, rc_mutation_epoch = tp_mutation_epoch p,
     rc_passed_checks = tp_passed_checks p\<rparr>"

definition restore_checkpoint :: "recovery_checkpoint \<Rightarrow> trace_projector \<Rightarrow> trace_projector" where
  "restore_checkpoint s p = p\<lparr>tp_messages := rc_messages s, tp_next_turn := rc_next_turn s,
     tp_last_text := rc_last_text s, tp_head_len := rc_head_len s,
     tp_turn_starts := map (\<lambda>b. (tb_turn b, tb_message_index b)) (rc_committed_turn_starts s),
     tp_guard_history := rc_guard_history s, tp_nudged := rc_nudged_for_no_action s,
     tp_truncated_once := rc_truncated_once s, tp_last_input_tokens := rc_last_input_tokens s,
     tp_pending_input := rc_pending_input s, tp_mutation_epoch := rc_mutation_epoch s,
     tp_passed_checks := rc_passed_checks s, tp_pending := None\<rparr>"

section \<open>Compaction of the window\<close>

text \<open>\<^verbatim>\<open>partition_point\<close> is a binary search; on a list whose matching elements come
  first, as the turn numbers of a well-formed projector do, it is the length of that prefix.\<close>

definition partition_point :: "('a \<Rightarrow> bool) \<Rightarrow> 'a list \<Rightarrow> nat" where
  "partition_point f xs = length (takeWhile f xs)"

fun remap_boundaries :: "nat \<Rightarrow> nat \<Rightarrow> (nat \<times> nat) list \<Rightarrow> (nat \<times> nat) list option" where
  "remap_boundaries from_idx base [] = Some []"
| "remap_boundaries from_idx base ((turn, index) # bs) =
     (case Option.bind (checked_sub index from_idx) (checked_add u64_max base) of
        None \<Rightarrow> None
      | Some i \<Rightarrow> map_option ((#) (turn, i)) (remap_boundaries from_idx base bs))"

definition compact_history :: "nat \<Rightarrow> string \<Rightarrow> trace_projector \<Rightarrow> trace_projector" where
  "compact_history through_turn summary p =
     (let split_at = partition_point (\<lambda>(t, _). t \<le> through_turn) (tp_turn_starts p);
          later = drop split_at (tp_turn_starts p);
          preserve_from = (case later of (_, i) # _ \<Rightarrow> i | [] \<Rightarrow> length (tp_messages p))
      in if split_at = 0 then p
         else case checked_add u64_max (tp_head_len p) 1 of
           None \<Rightarrow> p
         | Some new_base \<Rightarrow>
             if length (tp_messages p) < tp_head_len p \<or> preserve_from < tp_head_len p
                \<or> length (tp_messages p) < preserve_from then p
             else case remap_boundaries preserve_from new_base later of
               None \<Rightarrow> p
             | Some boundaries \<Rightarrow> p\<lparr>
                 tp_messages := take (tp_head_len p) (tp_messages p)
                   @ [user_message (''[compacted history] '' @ summary)]
                   @ drop preserve_from (tp_messages p),
                 tp_turn_starts := boundaries\<rparr>)"

section \<open>The step function\<close>

fun projector_step :: "trace_projector \<Rightarrow> event \<Rightarrow> trace_projector" where
  "projector_step p (EvPolicySelected _ protocol _ _ _ _ _ limit _) =
     p\<lparr>tp_protocol := Some protocol, tp_truncation_limit := limit\<rparr>"
| "projector_step p (EvSessionPrompt system user media) =
     (let msgs = tp_messages p @ [system_message system, user_with_media user media]
      in p\<lparr>tp_messages := msgs, tp_head_len := length msgs\<rparr>)"
| "projector_step p (EvRecoveryCheckpoint state) =
     (if rc_version state = RECOVERY_CHECKPOINT_VERSION then restore_checkpoint state p else p)"
| "projector_step p (EvResumePrompt user media) =
     p\<lparr>tp_messages := tp_messages p @ [user_with_media user media], tp_pending_input := None\<rparr>"
| "projector_step p (EvRecoveryPacketInjected _ m) =
     p\<lparr>tp_messages := tp_messages p @ [user_message m]\<rparr>"
| "projector_step p (EvTurnStart turn) =
     (let p1 = (case tp_pending p of
                  Some t \<Rightarrow> if pt_actions_proposed t = None then commit_pending p else p
                | None \<Rightarrow> p)
      in p1\<lparr>tp_pending := Some (pending_new turn)\<rparr>)"
| "projector_step p (EvTurnEnd _ text _ input_tokens _ truncated) =
     (with_pending (\<lambda>t. t\<lparr>pt_turn_end := Some (text, truncated)\<rparr>) p)\<lparr>tp_last_input_tokens := input_tokens\<rparr>"
| "projector_step p (EvActionsProposed turn calls) =
     with_turn turn (\<lambda>t. t\<lparr>pt_actions_proposed := Some calls\<rparr>) p"
| "projector_step p (EvToolCall i name args) =
     with_pending (\<lambda>t. t\<lparr>pt_tool_calls := pt_tool_calls t @ [\<lparr>tc_id = i, tc_name = name, tc_args = args\<rparr>]\<rparr>) p"
| "projector_step p (EvToolResult i name output is_error _) =
     with_pending (\<lambda>t. t\<lparr>pt_tool_results := pt_tool_results t @ [(i, name, output, is_error)]\<rparr>) p"
| "projector_step p (EvControllerBlocked turn _ _ _) =
     with_turn turn (\<lambda>t. t\<lparr>pt_controller_blocks := saturating_add u32_max (pt_controller_blocks t) 1\<rparr>) p"
| "projector_step p (EvWorkspaceMutation _ _ epoch) =
     p\<lparr>tp_mutation_epoch := max (tp_mutation_epoch p) epoch\<rparr>"
| "projector_step p (EvVerificationCheckPassed _ name epoch) =
     p\<lparr>tp_passed_checks := bt_insert name epoch (tp_passed_checks p)\<rparr>"
| "projector_step p (EvVerificationCheckRecorded _ _ check) =
     (if vc_outcome check = Failed then p\<lparr>tp_passed_checks := bt_remove (vc_name check) (tp_passed_checks p)\<rparr> else p)"
| "projector_step p (EvTurnCommitted turn dispatched errored stop _) =
     (case tp_pending p of
        Some t \<Rightarrow> if pt_turn t = turn then commit_pending_with dispatched errored stop p else p
      | None \<Rightarrow> p)"
| "projector_step p (EvCompletionGate epoch required fresh decision) =
     (if decision = ''blocked''
      then with_pending (\<lambda>t. t\<lparr>pt_completion_gate_feedback := Some (completion_gate_message epoch required fresh)\<rparr>) p
      else p)"
| "projector_step p (EvRepetitionGuard action) =
     (if action = ''warned'' then with_pending (\<lambda>t. t\<lparr>pt_repetition_warned := True\<rparr>) p else p)"
| "projector_step p (EvNoProgressGuard action) =
     (if action = ''warned'' then with_pending (\<lambda>t. t\<lparr>pt_no_progress_warned := True\<rparr>) p else p)"
| "projector_step p (EvFailureGuard action) =
     (if action = ''warned'' then with_pending (\<lambda>t. t\<lparr>pt_failure_warned := True\<rparr>) p else p)"
| "projector_step p (EvOscillationGuard action) =
     (if action = ''warned'' then with_pending (\<lambda>t. t\<lparr>pt_oscillation_warned := True\<rparr>) p else p)"
| "projector_step p (EvHistoryCompacted through_turn _ summary) = compact_history through_turn summary p"
| "projector_step p _ = p"

definition project :: "trace_projector \<Rightarrow> event list \<Rightarrow> trace_projector" where
  "project p evs = foldl projector_step p evs"

end
