(* ===== verification/Compaction.thy ===== *)
theory Compaction
  imports Trace_Projector Loop_Guards
begin

text \<open>
  Context-budget compaction (\<^verbatim>\<open>compact.rs\<close>): when and what the loop folds into a
  summary. The provider is the parameter \<open>answer\<close>: its answer to the \<open>k\<close>-th attempt of a
  request is an error or a completion with its text; \<open>retryable\<close> and \<open>show_error\<close> classify
  and print its errors. Indexing and slicing out of range panic.
\<close>

definition COMPACT_SYSTEM_PROMPT :: string where
  "COMPACT_SYSTEM_PROMPT = ''You are summarizing an in-progress coding agent'' @ [CHR 0x27] @ ''s own history so older turns can be dropped from context. Write a concise, factual account of what has been done and learned so far (files created/edited, commands run, decisions made, results observed) so the agent can continue the task without re-reading the full history.''"

fun role_name :: "role \<Rightarrow> string" where
  "role_name System = ''system''"
| "role_name User = ''user''"
| "role_name Assistant = ''assistant''"
| "role_name Tool = ''tool''"

definition render_message :: "message \<Rightarrow> string" where
  "render_message m =
     ''['' @ role_name (msg_role m) @ '']''
     @ (if msg_tool_calls m = [] then []
        else '' (calls: '' @ join '', '' (map tc_name (msg_tool_calls m)) @ '')'')
     @ '' '' @ (case msg_text m of Some t \<Rightarrow> t | None \<Rightarrow> [])"

definition render_transcript :: "message list \<Rightarrow> string" where
  "render_transcript messages = join [CHR 0x0A] (map render_message messages)"

definition summary_request :: "string \<Rightarrow> completion_request" where
  "summary_request transcript = \<lparr>cr_messages = [system_message COMPACT_SYSTEM_PROMPT, user_message transcript],
     cr_sampling = default_sampling, cr_tools = [], cr_constraint = None\<rparr>"

definition summarize_transcript ::
  "('e \<Rightarrow> bool) \<Rightarrow> ('e \<Rightarrow> string) \<Rightarrow> (completion_request \<Rightarrow> nat \<Rightarrow> 'e + string option) \<Rightarrow> string
     \<Rightarrow> string + string" where
  "summarize_transcript retryable show_error answer transcript =
     (case fst (complete_with_backoff retryable (answer (summary_request transcript))) of
        Inl e \<Rightarrow> Inl (show_error e)
      | Inr (Some t) \<Rightarrow> if trim t = [] then Inl ''compaction summarizer returned empty text'' else Inr t
      | Inr None \<Rightarrow> Inl ''compaction summarizer returned empty text'')"

datatype compact_panic = IndexOutOfBounds | SliceOutOfRange

definition slice :: "nat \<Rightarrow> nat \<Rightarrow> 'a list \<Rightarrow> 'a list option" where
  "slice from_idx to_idx xs =
     (if from_idx \<le> to_idx \<and> to_idx \<le> length xs then Some (take (to_idx - from_idx) (drop from_idx xs)) else None)"

definition fold_event ::
  "('e \<Rightarrow> bool) \<Rightarrow> ('e \<Rightarrow> string) \<Rightarrow> (completion_request \<Rightarrow> nat \<Rightarrow> 'e + string option)
     \<Rightarrow> nat \<Rightarrow> nat \<Rightarrow> message list \<Rightarrow> event" where
  "fold_event retryable show_error answer through_turn fold_count folded =
     (case summarize_transcript retryable show_error answer (render_transcript folded) of
        Inl e \<Rightarrow> EvNote (''compaction summarizer failed: '' @ e)
      | Inr summary \<Rightarrow> EvHistoryCompacted through_turn (fold_count mod (u32_max + 1)) summary)"

definition maybe_compact ::
  "('e \<Rightarrow> bool) \<Rightarrow> ('e \<Rightarrow> string) \<Rightarrow> (completion_request \<Rightarrow> nat \<Rightarrow> 'e + string option)
     \<Rightarrow> trace_projector \<Rightarrow> run_policy \<Rightarrow> nat option \<Rightarrow> compact_panic + event option" where
  "maybe_compact retryable show_error answer p policy last_tokens =
     (case last_tokens of
        None \<Rightarrow> Inr None
      | Some tokens \<Rightarrow>
          let completed = tp_turn_starts p; keep_last = compact_keep_last_turns policy
          in if f32_lt (f32_of_u32 tokens)
                 (f32_mul (compact_trigger_fraction policy) (f32_of_u32 (prompt_budget_tokens policy)))
             then Inr None
             else if completed = [] then Inr None
             else if length completed \<le> keep_last then Inr None
             else let fold_count = length completed - keep_last in
               if length completed \<le> fold_count then Inl IndexOutOfBounds
               else case slice (tp_head_len p) (snd (completed ! fold_count)) (tp_messages p) of
                 None \<Rightarrow> Inl SliceOutOfRange
               | Some folded \<Rightarrow>
                   Inr (Some (fold_event retryable show_error answer
                     (fst (completed ! (fold_count - 1))) fold_count folded)))"

end
