(* ===== verification/Projector_Inv.thy ===== *)
theory Projector_Inv
  imports Compaction
begin

text \<open>
  The well-formedness of the projector: the turns of the context window stand in order, each
  begins inside the window after its head, and no turn number reaches the next one. It holds of
  the fresh projector and is kept by every event that respects the turn numbering.
\<close>

section \<open>The invariant\<close>

definition starts_wf :: "nat \<Rightarrow> nat \<Rightarrow> nat \<Rightarrow> (nat \<times> nat) list \<Rightarrow> bool" where
  "starts_wf head len next_id bs \<longleftrightarrow>
     sorted_wrt (<) (map fst bs) \<and> sorted_wrt (<) (map snd bs) \<and>
     list_all (\<lambda>(t, i). t < next_id \<and> head \<le> i \<and> i < len) bs"

fun pending_wf :: "nat \<Rightarrow> pending_turn option \<Rightarrow> bool" where
  "pending_wf next_id None \<longleftrightarrow> True"
| "pending_wf next_id (Some t) \<longleftrightarrow> next_id \<le> pt_turn t \<and> pt_turn t < u32_max"

definition projector_wf :: "trace_projector \<Rightarrow> bool" where
  "projector_wf p \<longleftrightarrow>
     tp_head_len p \<le> length (tp_messages p) \<and>
     starts_wf (tp_head_len p) (length (tp_messages p)) (tp_next_turn p) (tp_turn_starts p) \<and>
     pending_wf (tp_next_turn p) (tp_pending p)"

text \<open>What the writer of a trace keeps: turns are numbered upwards, the session prompt comes
  before the first turn and outside an open turn, and a checkpoint is one a projector took.\<close>

definition checkpoint_wf :: "recovery_checkpoint \<Rightarrow> bool" where
  "checkpoint_wf s \<longleftrightarrow> rc_version s = RECOVERY_CHECKPOINT_VERSION \<and> rc_head_len s \<le> length (rc_messages s) \<and>
     starts_wf (rc_head_len s) (length (rc_messages s)) (rc_next_turn s)
       (map (\<lambda>b. (tb_turn b, tb_message_index b)) (rc_committed_turn_starts s))"

fun legal_event :: "trace_projector \<Rightarrow> event \<Rightarrow> bool" where
  "legal_event p (EvTurnStart turn) \<longleftrightarrow> tp_next_turn p \<le> turn \<and> turn < u32_max \<and>
     (case tp_pending p of None \<Rightarrow> True | Some t \<Rightarrow> pt_turn t < turn)"
| "legal_event p (EvSessionPrompt _ _ _) \<longleftrightarrow> tp_turn_starts p = []"
| "legal_event p (EvRecoveryCheckpoint s) \<longleftrightarrow> checkpoint_wf s"
| "legal_event p _ \<longleftrightarrow> True"

fun legal_trace :: "trace_projector \<Rightarrow> event list \<Rightarrow> bool" where
  "legal_trace p [] \<longleftrightarrow> True"
| "legal_trace p (ev # evs) \<longleftrightarrow> legal_event p ev \<and> legal_trace (projector_step p ev) evs"

lemma project_Nil [simp]: "project p [] = p"
  by (simp add: project_def)

lemma project_Cons [simp]: "project p (ev # evs) = project (projector_step p ev) evs"
  by (simp add: project_def)

lemma project_append: "project p (a @ b) = project (project p a) b"
  by (simp add: project_def)

section \<open>Lists of boundaries\<close>

lemma starts_wf_Nil [simp]: "starts_wf h l n []"
  by (simp add: starts_wf_def)

lemma starts_wf_mono: "starts_wf h l n bs \<Longrightarrow> l \<le> l' \<Longrightarrow> n \<le> n' \<Longrightarrow> starts_wf h l' n' bs"
  by (auto simp: starts_wf_def list_all_iff)

lemma starts_wf_snoc:
  assumes "starts_wf h l n bs" "n \<le> t" "h \<le> l" "t < n'" "l < l'"
  shows "starts_wf h l' n' (bs @ [(t, l)])"
  using assms by (fastforce simp: starts_wf_def sorted_wrt_append list_all_iff)

text \<open>The later turns of a sorted list are those after the split.\<close>

lemma drop_takeWhile_length: "drop (length (takeWhile P xs)) xs = dropWhile P xs"
  by (metis append_eq_conv_conj takeWhile_dropWhile_id)

lemma dropWhile_sorted:
  assumes "sorted_wrt (<) (map fst bs)"
  shows "dropWhile (\<lambda>(t, _). t \<le> c) bs = filter (\<lambda>(t, _). c < t) (bs :: (nat \<times> nat) list)"
  using assms
proof (induction bs)
  case (Cons b bs)
  show ?case
  proof (cases "fst b \<le> c")
    case False
    then have "\<forall>x \<in> set bs. c < fst x" using Cons.prems by fastforce
    then have "filter (\<lambda>(t, _). c < t) bs = bs" by (auto simp: filter_id_conv)
    then show ?thesis using False by (auto split: prod.splits)
  qed (use Cons in \<open>auto split: prod.splits\<close>)
qed simp

lemma remap_boundaries_Some:
  assumes "list_all (\<lambda>(t, i). f \<le> i \<and> base + (i - f) \<le> u64_max) bs"
  shows "remap_boundaries f base bs = Some (map (\<lambda>(t, i). (t, base + (i - f))) bs)"
  using assms by (induction bs) (auto simp: checked_sub_def checked_add_def split: prod.splits)

lemma starts_wf_later:
  assumes "starts_wf h l n ((t, f) # bs)"
  shows "list_all (\<lambda>(t, i). f \<le> i \<and> i < l) ((t, f) # bs)"
  using assms by (fastforce simp: starts_wf_def list_all_iff)

lemma sorted_shift:
  "sorted_wrt (<) is \<Longrightarrow> \<forall>i \<in> set is. f \<le> i \<Longrightarrow> sorted_wrt (<) (map (\<lambda>i. b + (i - f)) (is :: nat list))"
  by (induction "is") (auto intro!: diff_less_mono)

lemma starts_wf_remap:
  assumes "starts_wf h l n ((t, f) # bs)"
  shows "starts_wf h (h + 1 + (l - f)) n (map (\<lambda>(t, i). (t, h + 1 + (i - f))) ((t, f) # bs))"
proof -
  let ?bs = "(t, f) # bs" and ?g = "\<lambda>(t, i). (t, h + 1 + (i - f))"
  have later: "list_all (\<lambda>(t, i). f \<le> i \<and> i < l) ?bs" by (rule starts_wf_later[OF assms])
  then have "\<forall>i \<in> set (map snd ?bs). f \<le> i" by (auto simp: list_all_iff)
  then have "sorted_wrt (<) (map (\<lambda>i. h + 1 + (i - f)) (map snd ?bs))"
    using assms by (intro sorted_shift) (simp_all add: starts_wf_def)
  moreover have "map snd (map ?g ?bs) = map (\<lambda>i. h + 1 + (i - f)) (map snd ?bs)" by (simp add: case_prod_beta)
  moreover have "map fst (map ?g ?bs) = map fst ?bs" by (simp add: case_prod_beta)
  moreover have "list_all (\<lambda>(t, i). t < n \<and> h \<le> i \<and> i < h + 1 + (l - f)) (map ?g ?bs)"
    using assms later by (fastforce simp: starts_wf_def list_all_iff)
  ultimately show ?thesis using assms unfolding starts_wf_def by metis
qed

section \<open>Compaction\<close>

definition later_turns :: "nat \<Rightarrow> trace_projector \<Rightarrow> (nat \<times> nat) list" where
  "later_turns c p = filter (\<lambda>(t, _). c < t) (tp_turn_starts p)"

definition window_from :: "(nat \<times> nat) list \<Rightarrow> message list \<Rightarrow> nat" where
  "window_from bs msgs = (case bs of (_, i) # _ \<Rightarrow> i | [] \<Rightarrow> length msgs)"

lemma later_wf:
  "projector_wf p \<Longrightarrow> starts_wf (tp_head_len p) (length (tp_messages p)) (tp_next_turn p) (later_turns c p)"
  by (auto simp: projector_wf_def later_turns_def starts_wf_def sorted_wrt_map sorted_wrt_filter list_all_iff)

lemma window_from_bounds:
  assumes "projector_wf p"
  shows "tp_head_len p \<le> window_from (later_turns c p) (tp_messages p)
    \<and> window_from (later_turns c p) (tp_messages p) \<le> length (tp_messages p)"
  using later_wf[OF assms, of c] assms
  by (auto simp: window_from_def starts_wf_def projector_wf_def split: list.splits)

lemma remap_later:
  assumes "projector_wf p" "length (tp_messages p) < u64_max"
  shows "remap_boundaries (window_from (later_turns c p) (tp_messages p)) (tp_head_len p + 1) (later_turns c p)
    = Some (map (\<lambda>(t, i). (t, tp_head_len p + 1 + (i - window_from (later_turns c p) (tp_messages p)))) (later_turns c p))"
proof (cases "later_turns c p")
  case (Cons b bs)
  obtain t f where b: "b = (t, f)" by (cases b)
  have wf: "starts_wf (tp_head_len p) (length (tp_messages p)) (tp_next_turn p) ((t, f) # bs)"
    using later_wf[OF assms(1), of c] by (simp add: Cons b)
  have "tp_head_len p \<le> f" using wf by (simp add: starts_wf_def)
  then have "list_all (\<lambda>(t, i). f \<le> i \<and> tp_head_len p + 1 + (i - f) \<le> u64_max) ((t, f) # bs)"
    using starts_wf_later[OF wf] assms(2) by (fastforce simp: list_all_iff)
  then show ?thesis
    unfolding Cons b window_from_def list.case prod.case by (rule remap_boundaries_Some)
qed (simp add: window_from_def)

definition compacted :: "nat \<Rightarrow> string \<Rightarrow> trace_projector \<Rightarrow> trace_projector" where
  "compacted c summary p =
     (let f = window_from (later_turns c p) (tp_messages p) in
       p\<lparr>tp_messages := take (tp_head_len p) (tp_messages p)
           @ [user_message (''[compacted history] '' @ summary)] @ drop f (tp_messages p),
         tp_turn_starts := map (\<lambda>(t, i). (t, tp_head_len p + 1 + (i - f))) (later_turns c p)\<rparr>)"

lemma remap_boundaries_cases:
  "remap_boundaries f base bs = None \<or> remap_boundaries f base bs = Some (map (\<lambda>(t, i). (t, base + (i - f))) bs)"
  by (induction bs) (auto simp: checked_sub_def checked_add_def split: prod.splits option.splits if_splits)

lemma split_later:
  assumes "projector_wf p"
  shows "drop (partition_point (\<lambda>(t, _). t \<le> c) (tp_turn_starts p)) (tp_turn_starts p) = later_turns c p"
    and "partition_point (\<lambda>(t, _). t \<le> c) (tp_turn_starts p) = 0 \<longleftrightarrow> later_turns c p = tp_turn_starts p"
proof -
  let ?P = "\<lambda>(t, _). t \<le> c" and ?bs = "tp_turn_starts p"
  have "dropWhile ?P ?bs = later_turns c p"
    using assms by (simp add: later_turns_def dropWhile_sorted projector_wf_def starts_wf_def)
  then show later: "drop (partition_point ?P ?bs) ?bs = later_turns c p"
    by (simp add: partition_point_def drop_takeWhile_length)
  have "partition_point ?P ?bs \<le> length ?bs" by (simp add: partition_point_def length_takeWhile_le)
  then have "partition_point ?P ?bs = 0" if "later_turns c p = ?bs"
    using arg_cong[OF later, of length] that by simp
  then show "partition_point ?P ?bs = 0 \<longleftrightarrow> later_turns c p = ?bs"
    by (auto simp: later[symmetric])
qed

lemma compact_cases:
  assumes "projector_wf p"
  shows "compact_history c summary p = p \<or> compact_history c summary p = compacted c summary p"
  using remap_boundaries_cases[of "window_from (later_turns c p) (tp_messages p)" "tp_head_len p + 1" "later_turns c p"]
  unfolding compact_history_def compacted_def Let_def split_later[OF assms] window_from_def[symmetric]
  by (auto simp: checked_add_def split: option.splits)

text \<open>On a well-formed projector that fits in memory a compaction never bails out.\<close>

lemma compact_history_spec:
  assumes "projector_wf p" "length (tp_messages p) < u64_max"
  shows "compact_history c summary p =
    (if later_turns c p = tp_turn_starts p then p else compacted c summary p)"
proof -
  have head: "tp_head_len p + 1 \<le> u64_max" "\<not> length (tp_messages p) < tp_head_len p"
    using assms by (simp_all add: projector_wf_def)
  show ?thesis
    using head window_from_bounds[OF assms(1), of c] remap_later[OF assms, of c]
    unfolding compact_history_def Let_def split_later[OF assms(1)] window_from_def[symmetric] compacted_def
    by (simp add: checked_add_def)
qed

section \<open>Preservation\<close>

lemma with_pending_frame [simp]:
  "tp_protocol (with_pending f p) = tp_protocol p" "tp_messages (with_pending f p) = tp_messages p"
  "tp_head_len (with_pending f p) = tp_head_len p" "tp_turn_starts (with_pending f p) = tp_turn_starts p"
  "tp_next_turn (with_pending f p) = tp_next_turn p" "tp_pending (with_pending f p) = map_option f (tp_pending p)"
  by (simp_all add: with_pending_def)

lemma pending_wf_map:
  "(\<And>t. pt_turn (f t) = pt_turn t) \<Longrightarrow> pending_wf n (map_option f t) \<longleftrightarrow> pending_wf n t"
  by (cases t) simp_all

lemma with_pending_wf:
  "projector_wf p \<Longrightarrow> (\<And>t. pt_turn (f t) = pt_turn t) \<Longrightarrow> projector_wf (with_pending f p)"
  by (cases "tp_pending p") (simp_all add: projector_wf_def)

lemma finalize_nonempty: "finalize t protocol limit = Some msgs \<Longrightarrow> msgs \<noteq> []"
  by (auto simp: finalize_def Let_def split: option.splits prod.splits if_splits)

lemma commit_wf:
  assumes "projector_wf p"
  shows "projector_wf (commit_pending_with d e stop p)"
proof (cases "tp_pending p")
  case (Some t)
  note pending = this
  have t: "tp_next_turn p \<le> pt_turn t" "pt_turn t < u32_max" using assms Some by (simp_all add: projector_wf_def)
  show ?thesis
  proof (cases "tp_protocol p")
    case (Some protocol)
    show ?thesis
    proof (cases "finalize t protocol (tp_truncation_limit p)")
      case None
      then show ?thesis using assms pending Some by (simp add: commit_pending_with_def projector_wf_def Let_def)
    next
      case (Some msgs)
      then have "msgs \<noteq> []" by (rule finalize_nonempty)
      moreover have "saturating_add u32_max (pt_turn t) 1 = pt_turn t + 1" using t by (simp add: saturating_add_def)
      ultimately have "starts_wf (tp_head_len p) (length (tp_messages p) + length msgs)
          (max (tp_next_turn p) (pt_turn t + 1)) (tp_turn_starts p @ [(pt_turn t, length (tp_messages p))])"
        using assms t by (intro starts_wf_snoc[where n = "tp_next_turn p"]) (auto simp: projector_wf_def)
      then show ?thesis using assms pending \<open>tp_protocol p = Some protocol\<close> Some t
        by (simp add: commit_pending_with_def commit_turn_def projector_wf_def Let_def saturating_add_def)
    qed
  qed (use assms pending in \<open>simp add: commit_pending_with_def projector_wf_def\<close>)
qed (use assms in \<open>simp add: commit_pending_with_def projector_wf_def\<close>)

lemma commit_next_turn:
  assumes "projector_wf p" "tp_pending p = Some t" "tp_next_turn p \<le> turn" "pt_turn t < turn"
  shows "tp_next_turn (commit_pending_with d e stop p) \<le> turn"
  using assms
  by (auto simp: commit_pending_with_def commit_turn_def Let_def saturating_add_def projector_wf_def
      split: option.splits)

lemma compacted_wf:
  assumes "projector_wf p"
  shows "projector_wf (compacted c summary p)"
proof -
  let ?f = "window_from (later_turns c p) (tp_messages p)"
  let ?bs = "map (\<lambda>(t, i). (t, tp_head_len p + 1 + (i - ?f))) (later_turns c p)"
  have "starts_wf (tp_head_len p) (tp_head_len p + 1 + (length (tp_messages p) - ?f)) (tp_next_turn p) ?bs"
  proof (cases "later_turns c p")
    case (Cons b bs)
    then show ?thesis
      using starts_wf_remap[of "tp_head_len p" "length (tp_messages p)" "tp_next_turn p" "fst b" "snd b" bs]
        later_wf[OF assms, of c]
      by (cases b) (simp add: window_from_def)
  qed simp
  moreover have "length (tp_messages (compacted c summary p)) = tp_head_len p + 1 + (length (tp_messages p) - ?f)"
    using assms by (simp add: compacted_def projector_wf_def Let_def)
  moreover have "tp_turn_starts (compacted c summary p) = ?bs" "tp_head_len (compacted c summary p) = tp_head_len p"
    "tp_next_turn (compacted c summary p) = tp_next_turn p" "tp_pending (compacted c summary p) = tp_pending p"
    by (simp_all add: compacted_def Let_def)
  ultimately show ?thesis using assms by (simp add: projector_wf_def)
qed

lemma compact_wf: "projector_wf p \<Longrightarrow> projector_wf (compact_history c summary p)"
  using compact_cases[of p c summary] compacted_wf[of p c summary] by auto

lemma turn_start_wf:
  assumes "projector_wf p" "legal_event p (EvTurnStart turn)"
  shows "projector_wf (projector_step p (EvTurnStart turn))"
proof -
  let ?q = "case tp_pending p of Some t \<Rightarrow> if pt_actions_proposed t = None then commit_pending p else p | None \<Rightarrow> p"
  have "projector_wf ?q \<and> tp_next_turn ?q \<le> turn"
    using assms commit_wf[OF assms(1)] commit_next_turn[OF assms(1)]
    by (auto simp: commit_pending_def split: option.splits prod.splits)
  then show ?thesis using assms(2)
    by (simp add: projector_wf_def pending_new_def Let_def)
qed

lemma restore_wf: "checkpoint_wf s \<Longrightarrow> projector_wf (restore_checkpoint s p)"
  by (simp add: checkpoint_wf_def restore_checkpoint_def projector_wf_def)

lemma push_wf:
  "projector_wf p \<Longrightarrow> projector_wf (p\<lparr>tp_messages := tp_messages p @ ms\<rparr>)"
  by (auto simp: projector_wf_def intro: starts_wf_mono)

lemma step_wf:
  assumes "projector_wf p" "legal_event p ev"
  shows "projector_wf (projector_step p ev)"
proof (cases ev)
  case (EvTurnStart turn)
  then show ?thesis using turn_start_wf assms by blast
next
  case (EvRecoveryCheckpoint s)
  then show ?thesis using assms restore_wf[of s p] by simp
next
  case (EvTurnCommitted turn d e stop snap)
  then show ?thesis using commit_wf[OF assms(1)] assms(1) by (auto split: option.splits)
next
  case (EvHistoryCompacted c d summary)
  then show ?thesis using compact_wf[OF assms(1)] by simp
next
  case (EvResumePrompt user media)
  then show ?thesis using push_wf[OF assms(1), of "[user_with_media user media]"] by (simp add: projector_wf_def)
next
  case (EvTurnEnd t tx n i out tr)
  then show ?thesis
    using with_pending_wf[OF assms(1), of "\<lambda>t. t\<lparr>pt_turn_end := Some (tx, tr)\<rparr>"] by (simp add: projector_wf_def)
next
  case (EvRecoveryPacketInjected packet m)
  then show ?thesis using push_wf[OF assms(1)] by simp
qed (use assms in \<open>simp_all add: projector_wf_def with_turn_def pending_wf_map\<close>)

lemma project_wf: "projector_wf p \<Longrightarrow> legal_trace p evs \<Longrightarrow> projector_wf (project p evs)"
  by (induction evs arbitrary: p) (auto intro: step_wf)

lemma projector_new_wf [simp]: "projector_wf projector_new"
  by (simp add: projector_new_def projector_wf_def)

lemma checkpoint_of_wf: "projector_wf p \<Longrightarrow> checkpoint_wf (projector_checkpoint p)"
  by (simp add: projector_wf_def checkpoint_wf_def projector_checkpoint_def comp_def case_prod_beta)

end
