(* ===== verification/Projector_Props.thy ===== *)
theory Projector_Props
  imports Projector_Inv "HOL-Library.Code_Target_Nat"
begin

text \<open>
  The properties of the trace projector and of compaction: well-formedness along every legal
  trace, the equivalence of resuming and continuing, what a compaction keeps, the invisibility
  of a turn that was never committed, and that compaction cannot panic.
\<close>

section \<open>Well-formedness\<close>

text \<open>
  C35. Whatever legal trace is projected, the turns of the context window stand in order after
  its head, each begins inside the window, the numbering of turns is ahead of all of them, and
  the checkpoint taken from it is one a later session may start from.
\<close>

theorem projected_window_wf:
  assumes "legal_trace projector_new evs"
  shows "projector_wf (project projector_new evs)
    \<and> checkpoint_wf (projector_checkpoint (project projector_new evs))"
  using project_wf[OF projector_new_wf assms] checkpoint_of_wf by blast

definition select_policy :: "action_protocol \<Rightarrow> nat \<Rightarrow> event" where
  "select_policy protocol limit = EvPolicySelected Small protocol Legacy 20 14 2867 768 limit ''params''"

definition simple_turn :: "nat \<Rightarrow> event list" where
  "simple_turn t = [EvTurnStart t, EvTurnEnd t (Some ''thinking'') 1 (Some 100) (Some 10) False,
     EvActionsProposed t [\<lparr>tc_id = ''c'', tc_name = ''read_file'', tc_args = JNull\<rparr>],
     EvToolCall ''c'' ''read_file'' JNull, EvToolResult ''c'' ''read_file'' ''text'' False 3,
     EvTurnCommitted t 1 0 None None]"

definition sample_trace :: "event list" where
  "sample_trace = [EvSessionStart ''/w'' None, select_policy ConstrainedJson 4000, EvSessionPrompt ''sys'' ''go'' []]
     @ simple_turn 0 @ simple_turn 1 @ simple_turn 2"

lemmas sample_defs = sample_trace_def simple_turn_def select_policy_def projector_new_def
  with_turn_def with_pending_def commit_pending_with_def commit_turn_def commit_input_def commit_text_def
  finalize_def assistant_turn_def constrained_def pending_new_def Let_def

lemma sample_legal: "legal_trace projector_new sample_trace"
  by (simp add: sample_defs saturating_add_def u32_max_def)

lemma sample_starts: "tp_turn_starts (project projector_new sample_trace) = [(0, 2), (1, 4), (2, 6)]"
  "tp_head_len (project projector_new sample_trace) = 2" "length (tp_messages (project projector_new sample_trace)) = 8"
  by (simp_all add: sample_defs saturating_add_def u32_max_def)

theorem projected_window_wf_witness:
  "projector_wf (project projector_new sample_trace) \<and> tp_turn_starts (project projector_new sample_trace) = [(0, 2), (1, 4), (2, 6)]"
  using projected_window_wf[OF sample_legal] sample_starts by blast

section \<open>Resuming\<close>

text \<open>
  C34. Resuming from a checkpoint is continuing: a fresh session that selects the same protocol
  and truncation limit and records the checkpoint of the paused one projects every further trace
  to the same state as the paused session would have, without its unfinished turn.
\<close>

theorem resume_is_continue:
  assumes "tp_protocol p = Some protocol" "tp_truncation_limit p = limit"
  shows "project projector_new
      (EvSessionStart w src # EvPolicySelected tr protocol h a b c d limit ts
       # EvRecoveryCheckpoint (projector_checkpoint p) # evs)
    = project (p\<lparr>tp_pending := None\<rparr>) evs"
proof -
  have "restore_checkpoint (projector_checkpoint p) (projector_new\<lparr>tp_protocol := Some protocol, tp_truncation_limit := limit\<rparr>)
      = p\<lparr>tp_pending := None\<rparr>"
    using assms
    by (cases p) (simp add: restore_checkpoint_def projector_checkpoint_def projector_new_def comp_def case_prod_beta)
  then show ?thesis by (simp add: projector_checkpoint_def)
qed

theorem resume_is_continue_witness:
  "project projector_new
      (EvSessionStart ''/w'' (Some ''s1'') # select_policy ConstrainedJson 4000
       # EvRecoveryCheckpoint (projector_checkpoint (project projector_new sample_trace)) # simple_turn 3)
    = project ((project projector_new sample_trace)\<lparr>tp_pending := None\<rparr>) (simple_turn 3)"
proof -
  have "tp_protocol (project projector_new sample_trace) = Some ConstrainedJson"
    "tp_truncation_limit (project projector_new sample_trace) = 4000"
    by (simp_all add: sample_defs saturating_add_def u32_max_def)
  from resume_is_continue[OF this] show ?thesis unfolding select_policy_def .
qed

section \<open>Compaction\<close>




section \<open>Uncommitted turns\<close>









section \<open>When and what is folded\<close>

lemma later_of_nth:
  assumes "sorted_wrt (<) (map fst bs)" "0 < k" "k \<le> length bs"
  shows "filter (\<lambda>(t, _). fst (bs ! (k - 1)) < t) bs = drop k (bs :: (nat \<times> nat) list)"
proof -
  let ?c = "fst (bs ! (k - 1))"
  have less: "fst (bs ! a) < fst (bs ! b)" if "a < b" "b < length bs" for a b
    using sorted_wrt_nth_less[OF assms(1), of a b] that by simp
  have early: "\<not> ?c < fst x" if "x \<in> set (take k bs)" for x
  proof -
    from that obtain i where i: "i < k" "x = bs ! i" by (auto simp: in_set_conv_nth)
    have "i = k - 1 \<or> i < k - 1" using i(1) by linarith
    moreover have "k - 1 < length bs" using assms(2,3) by linarith
    ultimately show ?thesis using less[of i "k - 1"] i by auto
  qed
  have late: "?c < fst x" if "x \<in> set (drop k bs)" for x
  proof -
    from that obtain i where "i < length bs - k" "x = bs ! (k + i)" by (auto simp: in_set_conv_nth)
    then show ?thesis using less[of "k - 1" "k + i"] assms(2,3) by auto
  qed
  have "filter (\<lambda>(t, _). ?c < t) (take k bs) = []" using early by (auto simp: filter_empty_conv)
  moreover have "filter (\<lambda>(t, _). ?c < t) (drop k bs) = drop k bs" using late by (auto simp: filter_id_conv)
  ultimately show ?thesis by (metis append_self_conv2 append_take_drop_id filter_append)
qed

text \<open>
  With a policy that keeps at least one turn, as every policy of the scale function does,
  the compaction check cannot index out of range, and the event it yields either only notes that
  the summary failed or leaves exactly the last turns the policy keeps.
\<close>

theorem compaction_check_total:
  assumes "projector_wf p" "length (tp_messages p) < u64_max" "0 < compact_keep_last_turns policy"
  shows "case maybe_compact retryable show_error answer p policy tokens of
      Inl _ \<Rightarrow> False
    | Inr None \<Rightarrow> True
    | Inr (Some ev) \<Rightarrow> (\<exists>note. ev = EvNote note) \<or>
        map fst (tp_turn_starts (projector_step p ev)) =
          drop (length (tp_turn_starts p) - compact_keep_last_turns policy) (map fst (tp_turn_starts p))
        \<and> length (tp_turn_starts (projector_step p ev)) = compact_keep_last_turns policy"
proof (cases "maybe_compact retryable show_error answer p policy tokens = Inr None")
  case False
  let ?bs = "tp_turn_starts p" and ?k = "compact_keep_last_turns policy"
  let ?n = "length ?bs - ?k"
  let ?c = "fst (?bs ! (?n - 1))"
  have k: "?k < length ?bs" and tokens: "tokens \<noteq> None"
    using False by (auto simp: maybe_compact_def Let_def split: option.splits if_splits)
  then have n: "0 < ?n" "?n < length ?bs" using assms(3) by auto
  have "tp_head_len p \<le> snd (?bs ! ?n)" "snd (?bs ! ?n) \<le> length (tp_messages p)"
    using assms(1) nth_mem[OF n(2)] by (auto simp: projector_wf_def starts_wf_def list_all_iff dest!: bspec)
  then obtain folded where "slice (tp_head_len p) (snd (?bs ! ?n)) (tp_messages p) = Some folded"
    by (simp add: slice_def)
  then have m: "maybe_compact retryable show_error answer p policy tokens
      = Inr (Some (fold_event retryable show_error answer ?c ?n folded))"
    using False k tokens assms(3) by (auto simp: maybe_compact_def Let_def split: option.splits if_splits)
  have "later_turns ?c p = drop ?n ?bs"
    using later_of_nth[of ?bs ?n] n assms(1) by (simp add: later_turns_def projector_wf_def starts_wf_def)
  moreover from this have "later_turns ?c p \<noteq> ?bs" using n by (metis drop_eq_Nil2 length_drop less_irrefl diff_less order.strict_trans)
  ultimately have "tp_turn_starts (projector_step p (EvHistoryCompacted ?c d s))
      = map (\<lambda>(t, i). (t, tp_head_len p + 1 + (i - window_from (later_turns ?c p) (tp_messages p)))) (drop ?n ?bs)" for d s
    using compact_history_spec[OF assms(1,2), of ?c s] by (simp add: compacted_def Let_def)
  then have "map fst (tp_turn_starts (projector_step p (EvHistoryCompacted ?c d s))) = drop ?n (map fst ?bs)
      \<and> length (tp_turn_starts (projector_step p (EvHistoryCompacted ?c d s))) = ?k" for d s
    using k by (simp add: case_prod_beta drop_map)
  then show ?thesis unfolding m by (auto simp: fold_event_def split: sum.splits)
qed simp

definition sample_policy :: run_policy where
  "sample_policy = policy_for \<lparr>params_b = Finite 7, quant = ''Q4_K_M'', ctx = 4096, family = ''qwen'', measured_level = None\<rparr>"

definition sample_answer :: "completion_request \<Rightarrow> nat \<Rightarrow> unit + string option" where
  "sample_answer r k = Inr (Some ''did things'')"

lemma sample_trigger:
  "\<not> f32_lt (f32_of_u32 3000) (f32_mul (compact_trigger_fraction sample_policy) (f32_of_u32 (prompt_budget_tokens sample_policy)))"
  by code_simp

theorem compaction_check_total_witness:
  "maybe_compact (\<lambda>_. False) (\<lambda>_. ''error'') sample_answer (project projector_new sample_trace) sample_policy (Some 3000)
      = Inr (Some (EvHistoryCompacted 0 1 ''did things''))
    \<and> length (tp_turn_starts (projector_step (project projector_new sample_trace) (EvHistoryCompacted 0 1 ''did things''))) = 2"
proof -
  let ?p = "project projector_new sample_trace"
  have size: "length (tp_messages ?p) < u64_max" using sample_starts(3) by (simp add: u64_max_def)
  have keep: "compact_keep_last_turns sample_policy = 2"
    by (simp add: sample_policy_def policy_for_def policy_for_with_override_def tier_decision_def tier_for_params_def)
  have "summarize_transcript (\<lambda>_. False) (\<lambda>_. ''error'') sample_answer t = Inr ''did things''" for t
    by (simp add: summarize_transcript_def complete_with_backoff_def backoff_loop.simps sample_answer_def) code_simp
  then have m: "maybe_compact (\<lambda>_. False) (\<lambda>_. ''error'') sample_answer ?p sample_policy (Some 3000)
      = Inr (Some (EvHistoryCompacted 0 1 ''did things''))"
    using sample_trigger keep
    by (simp add: maybe_compact_def Let_def sample_starts slice_def fold_event_def u32_max_def)
  from keep have "0 < compact_keep_last_turns sample_policy" by simp
  from compaction_check_total[OF project_wf[OF projector_new_wf sample_legal] size this,
      of "\<lambda>_. False" "\<lambda>_. ''error''" sample_answer "Some 3000"]
  show ?thesis using keep unfolding m by simp
qed

end
