(* ===== verification/Tool_Control.thy ===== *)
theory Tool_Control
  imports Path_Guard Messages
begin

text \<open>
  The typed contract between a tool and the evidence controller, \<^verbatim>\<open>ferric-tools\<close>'s
  \<^verbatim>\<open>control.rs\<close> and \<^verbatim>\<open>spec.rs\<close>: what a preparation may claim, why it may be
  refused, what a commit reports, and the trait \<^verbatim>\<open>Tool\<close> as a record of functions over the
  state \<open>'w\<close> of the file system and the processes around it. Preparation receives that state
  and does not return one: it cannot change it. Names that the trace records already use carry a prefix.
  SHA-256 in hexadecimal is the parameter \<open>sha\<close>. Log lines are left out.
\<close>

section \<open>Observations and intents\<close>

datatype control_capability = CapReadOnly | CapContentMutation | CapVerification | CapOpaque

definition is_supported :: "control_capability \<Rightarrow> bool" where
  "is_supported c \<longleftrightarrow> c \<noteq> CapOpaque"

record tool_line_range =
  tlr_start :: nat
  tlr_end :: nat

record requested_line_range =
  rlr_start :: "nat option"
  rlr_end :: "nat option"

record tool_file_observation =
  tfo_path :: string
  tfo_sha256 :: string
  tfo_bytes :: nat
  tfo_total_lines :: nat
  tfo_requested :: requested_line_range
  tfo_returned :: "tool_line_range option"
  tfo_model_truncated :: bool
  tfo_complete :: bool
  tfo_coverage :: "tool_line_range list"

datatype navigation_kind = FindFiles | SearchFiles

record tool_navigation_observation =
  tno_kind :: navigation_kind
  tno_root :: string
  tno_literal :: string
  tno_result_sha256 :: string
  tno_matches :: nat
  tno_limit :: nat
  tno_cap_reached :: bool
  tno_has_more :: bool
  tno_model_truncated :: bool

datatype tool_observation =
    ToFile tool_file_observation
  | ToNavigation tool_navigation_observation

record observation_requirement =
  or_path :: string
  or_sha256 :: string

datatype path_state = PsAbsent | PsFile string nat nat | PsDirectory | PsOther

record candidate_path_state =
  cps_path :: string
  cps_before :: path_state
  cps_candidate :: path_state

datatype syntax_unchecked_reason = UnsupportedExtension | InputTooLarge | CompilerFailure

datatype tool_syntax_state = TsAbsent | TsValid | TsInvalid | TsUnchecked syntax_unchecked_reason

record syntax_transition =
  st_before :: tool_syntax_state
  st_candidate :: tool_syntax_state
  st_diagnostic_sha256 :: "string option"
  st_warning :: "string option"

definition blocks_mutation :: "syntax_transition \<Rightarrow> bool" where
  "blocks_mutation t \<longleftrightarrow>
     st_candidate t = TsInvalid \<and> st_before t \<in> {TsAbsent, TsValid, TsUnchecked CompilerFailure}"

datatype mutation_kind =
    CreateFile | ModifyFile | DeleteFile | MovePath | CreateDirectory | DeleteDirectory

record mutation_intent =
  mi_kind :: mutation_kind
  mi_requirements :: "observation_requirement list"
  mi_paths :: "string list"
  mi_states :: "candidate_path_state list"
  mi_syntax :: "syntax_transition option"

record verification_intent =
  vi_name :: string

datatype prepared_intent =
    PiReadOnly
  | PiFileObservation tool_file_observation
  | PiNavigation tool_navigation_observation
  | PiMutation mutation_intent
  | PiVerification verification_intent

section \<open>Refusals\<close>

datatype prepare_error_kind =
    PeInvalidArguments | PeIo | PeOutputLimitTooSmall | PeNoEffect | PeSyntaxRejected
  | PeOpaqueMutation | PeUnsupportedOperation

datatype no_effect_kind = Identity | MatchNotFound | NetZeroBatch | NetZeroPatch

datatype unsupported_mutation_kind = UmOpaqueMutation | UmUnsupportedOperation

datatype prepare_failure_witness =
    PwNoEffect no_effect_kind "candidate_path_state list"
  | PwSyntaxRegression syntax_transition
  | PwUnsupportedMutation unsupported_mutation_kind

record prepare_error =
  perr_kind :: prepare_error_kind
  perr_message :: string
  perr_witness :: "prepare_failure_witness option"

definition prepare_error_new :: "prepare_error_kind \<Rightarrow> string \<Rightarrow> prepare_error" where
  "prepare_error_new k m = \<lparr>perr_kind = k, perr_message = m, perr_witness = None\<rparr>"

definition with_witness :: "prepare_error \<Rightarrow> prepare_failure_witness \<Rightarrow> prepare_error" where
  "with_witness e w = e\<lparr>perr_witness := Some w\<rparr>"

text \<open>The derived \<^verbatim>\<open>Debug\<close> of a permission level.\<close>

fun permission_debug :: "permission_level \<Rightarrow> string" where
  "permission_debug Read = ''Read''"
| "permission_debug Write = ''Write''"
| "permission_debug Execute = ''Execute''"

definition prepare_error_opaque :: "permission_level \<Rightarrow> prepare_error" where
  "prepare_error_opaque permission =
     with_witness
       (prepare_error_new PeOpaqueMutation
          (''controlled execution rejected an opaque '' @ permission_debug permission
           @ '' tool; implement typed preparation before offering it to an evidence-policy model''))
       (PwUnsupportedMutation UmOpaqueMutation)"

section \<open>Effects and failures\<close>

datatype workspace_effect_kind =
    WkCreated | WkModified | WkDeleted | WkCreatedDirectory | WkDeletedDirectory | WkOpaque

record tool_workspace_effect =
  twe_path :: string
  twe_kind :: workspace_effect_kind
  twe_before :: path_state
  twe_after :: path_state

datatype workspace_effect_report =
    MeasuredEffects "tool_workspace_effect list"
  | UnmeasuredReadOnly
  | UnmeasuredLegacy

definition measured_none :: workspace_effect_report where
  "measured_none = MeasuredEffects []"

datatype control_failure_kind = CfToolError | CfStalePrecondition | CfIo

record stale_observation_witness =
  sow_path :: string
  sow_expected :: path_state
  sow_observed :: path_state

datatype control_failure_witness = CwStaleObservation stale_observation_witness

record control_failure =
  cf_kind :: control_failure_kind
  cf_message :: string
  cf_witness :: "control_failure_witness option"

record verification_attempt =
  va_name :: string
  va_passed :: bool

record control_metadata =
  cm_observation :: "tool_observation option"
  cm_verification :: "verification_attempt option"
  cm_effects :: workspace_effect_report
  cm_failure :: "control_failure option"

section \<open>Preparations\<close>

record file_mutation_candidate =
  fmc_path :: string
  fmc_expected :: path_state
  fmc_candidate :: string
  fmc_success :: string

datatype path_mutation_candidate =
    PmCreateDir string string
  | PmDelete string path_state string
  | PmMove string path_state string string

datatype prepared_execution =
    PxDeferred workspace_effect_report
  | PxImmediate string bool workspace_effect_report "control_failure option"
  | PxFileMutation file_mutation_candidate
  | PxPathMutation path_mutation_candidate

record tool_preparation =
  prep_intent :: prepared_intent
  prep_execution :: prepared_execution

definition deferred_read_only :: tool_preparation where
  "deferred_read_only = \<lparr>prep_intent = PiReadOnly, prep_execution = PxDeferred UnmeasuredReadOnly\<rparr>"

definition immediate_read_only :: "string \<Rightarrow> tool_preparation" where
  "immediate_read_only full =
     \<lparr>prep_intent = PiReadOnly, prep_execution = PxImmediate full False measured_none None\<rparr>"

definition prep_file_observation :: "string \<Rightarrow> tool_file_observation \<Rightarrow> tool_preparation" where
  "prep_file_observation full obs =
     \<lparr>prep_intent = PiFileObservation obs, prep_execution = PxImmediate full False measured_none None\<rparr>"

definition prep_navigation :: "string \<Rightarrow> tool_navigation_observation \<Rightarrow> tool_preparation" where
  "prep_navigation full obs =
     \<lparr>prep_intent = PiNavigation obs, prep_execution = PxImmediate full False measured_none None\<rparr>"

definition prep_verification :: "string \<Rightarrow> tool_preparation" where
  "prep_verification name =
     \<lparr>prep_intent = PiVerification \<lparr>vi_name = name\<rparr>, prep_execution = PxDeferred UnmeasuredLegacy\<rparr>"

definition prep_file_mutation :: "mutation_intent \<Rightarrow> file_mutation_candidate \<Rightarrow> tool_preparation" where
  "prep_file_mutation intent cand =
     \<lparr>prep_intent = PiMutation intent, prep_execution = PxFileMutation cand\<rparr>"

definition prep_path_mutation :: "mutation_intent \<Rightarrow> path_mutation_candidate \<Rightarrow> tool_preparation" where
  "prep_path_mutation intent cand =
     \<lparr>prep_intent = PiMutation intent, prep_execution = PxPathMutation cand\<rparr>"

definition logical_line_count :: "string \<Rightarrow> nat" where
  "logical_line_count bytes =
     (if bytes = [] then 0
      else length (filter (\<lambda>b. b = CHR 0x0A) bytes) + (if last bytes \<noteq> CHR 0x0A then 1 else 0))"

text \<open>\<open>render\<close> prints the header of an observation; \<open>mark_truncated\<close> is the update that
  records the truncation. The observation is returned as the code leaves it.\<close>

definition fitted :: "string \<Rightarrow> nat \<Rightarrow> string \<Rightarrow> string \<Rightarrow> prepare_error + string" where
  "fitted tool limit body header =
     (if limit < char_count header then
        Inl (prepare_error_new PeOutputLimitTooSmall
               (''model output limit '' @ show_nat limit @ '' is too small for the '' @ tool
                @ '' evidence envelope''))
      else Inr (header @ body))"

definition evidence_envelope ::
  "string \<Rightarrow> nat \<Rightarrow> 'o \<Rightarrow> string \<Rightarrow> ('o \<Rightarrow> string) \<Rightarrow> ('o \<Rightarrow> 'o) \<Rightarrow> prepare_error + (string \<times> 'o)" where
  "evidence_envelope tool limit obs body render mark_truncated =
     and_then (fitted tool limit body (render obs)) (\<lambda>full.
       if char_count full \<le> limit then Inr (full, obs)
       else and_then (fitted tool limit body (render (mark_truncated obs))) (\<lambda>full'.
              Inr (full', mark_truncated obs)))"

text \<open>The text of a path in the form the file system returns it.\<close>

fun component_text :: "component \<Rightarrow> string" where
  "component_text RootDir = ''/''"
| "component_text CurDir = ''.''"
| "component_text ParentDir = ''..''"
| "component_text (Normal n) = n"

definition display_path :: "path \<Rightarrow> string" where
  "display_path p =
     (case p of
        RootDir # q \<Rightarrow> ''/'' @ join ''/'' (map component_text q)
      | _ \<Rightarrow> join ''/'' (map component_text p))"

text \<open>The message of a guard error about the path the caller wrote; \<open>io_text\<close> is the message
  of the operating system.\<close>

definition guard_error_text :: "(path \<Rightarrow> string) \<Rightarrow> string \<Rightarrow> guard_error \<Rightarrow> string" where
  "guard_error_text io_text target e =
     (case e of
        BoundaryViolation _ \<Rightarrow> ''path escapes workspace boundary: '' @ target
      | IoError \<Rightarrow> ''I/O error: '' @ io_text (components target))"

definition normalized_relative_path :: "workspace \<Rightarrow> path \<Rightarrow> prepare_error + string" where
  "normalized_relative_path ws resolved =
     (case relative ws resolved of
        None \<Rightarrow> Inl (prepare_error_new PeIo
                  (''resolved path '' @ display_path resolved @ '' is not relative to workspace ''
                   @ display_path (ws_root ws)))
      | Some s \<Rightarrow> Inr (if s = [] then ''.'' else s))"

section \<open>Tools\<close>

record tool_spec =
  ts_name :: string
  ts_description :: string
  ts_input_schema :: json
  ts_permission :: permission_level
  ts_ring :: nat

definition descriptor_of_spec :: "tool_spec \<Rightarrow> tool_descriptor" where
  "descriptor_of_spec s =
     \<lparr>td_name = ts_name s, td_description = ts_description s, td_input_schema = ts_input_schema s\<rparr>"

record 'w tool =
  t_spec :: tool_spec
  t_capability :: control_capability
  t_prepare :: "'w \<Rightarrow> workspace \<Rightarrow> nat \<Rightarrow> json \<Rightarrow> prepare_error + tool_preparation"
  t_target_paths :: "json \<Rightarrow> string list"
  t_target_commands :: "json \<Rightarrow> string list"
  t_run :: "'w \<Rightarrow> workspace \<Rightarrow> json \<Rightarrow> (string + string) \<times> 'w"

text \<open>The provided methods of the trait.\<close>

definition default_capability :: control_capability where
  "default_capability = CapOpaque"

definition default_prepare ::
  "tool_spec \<Rightarrow> 'w \<Rightarrow> workspace \<Rightarrow> nat \<Rightarrow> json \<Rightarrow> prepare_error + tool_preparation" where
  "default_prepare spec w ws limit args =
     (case ts_permission spec of
        Read \<Rightarrow> Inr deferred_read_only
      | permission \<Rightarrow> Inl (prepare_error_opaque permission))"

definition default_target_paths :: "json \<Rightarrow> string list" where
  "default_target_paths args =
     (case Option.bind (json_get args ''path'') json_as_str of None \<Rightarrow> [] | Some s \<Rightarrow> [s])"

definition default_target_commands :: "json \<Rightarrow> string list" where
  "default_target_commands args = []"

section \<open>Lemmas\<close>

lemma evidence_envelope_fits:
  assumes "evidence_envelope tool limit obs body render mark = Inr (full, obs')"
  shows "(obs' = obs \<and> full = render obs @ body \<and> char_count full \<le> limit)
       \<or> (obs' = mark obs \<and> full = render (mark obs) @ body \<and> limit < char_count (render obs @ body)
          \<and> char_count (render (mark obs)) \<le> limit)"
  using assms
  by (auto simp: evidence_envelope_def fitted_def result_simps not_le split: if_splits)

lemma logical_line_count_append_newline:
  "logical_line_count (s @ [CHR 0x0A]) = length (filter (\<lambda>b. b = CHR 0x0A) s) + 1"
  by (simp add: logical_line_count_def)

end
