(* ===== verification/Rust_Utf8.thy ===== *)
theory Rust_Utf8
  imports Messages
begin

text \<open>
  \<^verbatim>\<open>std::str::from_utf8\<close>: the validation loop of the standard library with the two fields
  of its error (how many bytes are valid, and the length of the offending sequence, absent when the
  text merely ends too early), its message, and the readings of JSON numbers that the tools use.
\<close>

definition is_continuation :: "char \<Rightarrow> bool" where
  "is_continuation c \<longleftrightarrow> in_range 128 191 c"

definition utf8_width :: "char \<Rightarrow> nat" where
  "utf8_width c =
     (if byte c < 128 then 1
      else if in_range 194 223 c then 2
      else if in_range 224 239 c then 3
      else if in_range 240 244 c then 4
      else 0)"

text \<open>Which second byte may follow the first byte of a sequence of three or four.\<close>

definition utf8_second_ok :: "char \<Rightarrow> char \<Rightarrow> bool" where
  "utf8_second_ok a b \<longleftrightarrow>
     (if byte a = 224 then in_range 160 191 b
      else if byte a = 237 then in_range 128 159 b
      else if byte a = 240 then in_range 144 191 b
      else if byte a = 244 then in_range 128 143 b
      else is_continuation b)"

datatype sequence_check = SequenceOk | SequenceBad nat | SequenceShort

text \<open>The bytes after the second one: each must continue the sequence.\<close>

fun utf8_tail :: "nat \<Rightarrow> nat \<Rightarrow> string \<Rightarrow> sequence_check" where
  "utf8_tail 0 seen s = SequenceOk"
| "utf8_tail (Suc n) seen [] = SequenceShort"
| "utf8_tail (Suc n) seen (c # s) =
     (if is_continuation c then utf8_tail n (Suc seen) s else SequenceBad seen)"

definition utf8_sequence :: "char \<Rightarrow> string \<Rightarrow> sequence_check" where
  "utf8_sequence a s =
     (if utf8_width a = 0 then SequenceBad 1
      else if utf8_width a = 1 then SequenceOk
      else case s of
        [] \<Rightarrow> SequenceShort
      | b # s' \<Rightarrow>
          if (if utf8_width a = 2 then is_continuation b else utf8_second_ok a b)
          then utf8_tail (utf8_width a - 2) 2 s'
          else SequenceBad 1)"

record utf8_error =
  valid_up_to :: nat
  error_len :: "nat option"

lemma utf8_tail_code [code]:
  "utf8_tail n seen s =
     (if n = 0 then SequenceOk
      else case s of
        [] \<Rightarrow> SequenceShort
      | c # s' \<Rightarrow> if is_continuation c then utf8_tail (n - 1) (Suc seen) s' else SequenceBad seen)"
  by (cases n; cases s) simp_all

lemma utf8_tail_length: "utf8_tail n seen s = SequenceOk \<Longrightarrow> n \<le> length s"
  by (induction n seen s rule: utf8_tail.induct) (auto split: if_splits)

function from_utf8_at :: "nat \<Rightarrow> string \<Rightarrow> utf8_error option" where
  "from_utf8_at i [] = None"
| "from_utf8_at i (a # s) =
     (case utf8_sequence a s of
        SequenceOk \<Rightarrow> from_utf8_at (i + utf8_width a) (drop (utf8_width a - 1) s)
      | SequenceBad n \<Rightarrow> Some \<lparr>valid_up_to = i, error_len = Some n\<rparr>
      | SequenceShort \<Rightarrow> Some \<lparr>valid_up_to = i, error_len = None\<rparr>)"
  by pat_completeness auto
termination
  by (relation "measure (length \<circ> snd)") auto

definition from_utf8 :: "string \<Rightarrow> utf8_error option" where
  "from_utf8 s = from_utf8_at 0 s"

definition utf8_error_text :: "utf8_error \<Rightarrow> string" where
  "utf8_error_text e =
     (case error_len e of
        Some n \<Rightarrow> ''invalid utf-8 sequence of '' @ show_nat n @ '' bytes from index '' @ show_nat (valid_up_to e)
      | None \<Rightarrow> ''incomplete utf-8 byte sequence from index '' @ show_nat (valid_up_to e))"

section \<open>JSON readings\<close>

definition digit_value :: "char \<Rightarrow> nat" where
  "digit_value c = byte c - 48"

definition decimal_value :: "string \<Rightarrow> nat" where
  "decimal_value s = foldl (\<lambda>n c. 10 * n + digit_value c) 0 s"

fun json_as_u64 :: "json \<Rightarrow> nat option" where
  "json_as_u64 (JNum s) =
     (if s \<noteq> [] \<and> list_all is_ascii_digit s \<and> decimal_value s \<le> u64_max then Some (decimal_value s) else None)"
| "json_as_u64 _ = None"

fun json_as_array :: "json \<Rightarrow> json list option" where
  "json_as_array (JArr xs) = Some xs"
| "json_as_array _ = None"

fun json_as_bool :: "json \<Rightarrow> bool option" where
  "json_as_bool (JBool b) = Some b"
| "json_as_bool _ = None"

section \<open>Lemmas\<close>

lemma utf8_width_le: "utf8_width a \<le> 4"
  by (simp add: utf8_width_def)

text \<open>A valid text splits where a valid prefix ends.\<close>

lemma utf8_sequence_short: "utf8_sequence a s = SequenceOk \<Longrightarrow> utf8_width a - 1 \<le> length s \<and> 0 < utf8_width a"
  using utf8_tail_length[of "utf8_width a - 2" 2 "tl s"]
  by (auto simp: utf8_sequence_def split: if_splits list.splits)

lemma from_utf8_at_valid_up_to:
  "from_utf8_at i s = Some e \<Longrightarrow> i \<le> valid_up_to e \<and> valid_up_to e < i + length s"
proof (induction i s rule: from_utf8_at.induct)
  case (2 i a s)
  show ?case
  proof (cases "utf8_sequence a s")
    case SequenceOk
    then show ?thesis using 2(1)[OF SequenceOk] "2.prems" utf8_sequence_short[OF SequenceOk] by auto
  next
    case (SequenceBad n)
    then show ?thesis using "2.prems" by auto
  next
    case SequenceShort
    then show ?thesis using "2.prems" by auto
  qed
qed simp

lemma from_utf8_ascii: "\<forall>c \<in> set s. byte c < 128 \<Longrightarrow> from_utf8_at i s = None"
  by (induction s arbitrary: i) (auto simp: utf8_sequence_def utf8_width_def)

end
