(* ===== verification/Controlled_File.thy ===== *)
theory Controlled_File
  imports Tool_Control Rust_Utf8
begin

text \<open>
  Evidence-controlled file mutations, \<^verbatim>\<open>ferric-tools\<close>'s
  \<^verbatim>\<open>builtin/controlled_file.rs\<close> with the syntax gate of \<^verbatim>\<open>check_syntax.rs\<close>:
  how a request becomes a workspace path, what the preparation of every mutation inspects and refuses,
  the candidate it seals, and the commit of the structural mutations (create a directory, delete, move)
  with its compare-and-set check.

  The operating system and the libraries are the record \<open>host\<close> over the state \<open>'w\<close> of
  the world. \<open>h_pin_dir\<close> opens one directory below a retained handle without following links
  and revalidates it; \<open>h_observe\<close> inspects a leaf through its opened handle;
  \<open>h_publish\<close> is the atomic publication of candidate bytes. These three are the handle-level
  code of the same file and are not modelled further. \<open>h_python\<close> is the embedded Python
  compiler.
\<close>

section \<open>The world\<close>

datatype io_kind = DirectoryNotEmpty | OtherIo

record io_error =
  ioe_kind :: io_kind
  ioe_text :: string

record observed_target =
  ot_state :: path_state
  ot_bytes :: "string option"
  ot_unsupported :: "string option"

record file_commit_result =
  fcr_full :: string
  fcr_is_error :: bool
  fcr_effects :: workspace_effect_report
  fcr_failure :: "control_failure option"

datatype python_verdict = PyValid | PyNotImplemented | PyRejected string | PyTypeParameters | PyPanicked

record 'w host =
  h_exists :: "'w \<Rightarrow> path \<Rightarrow> bool"
  h_canonicalize :: "'w \<Rightarrow> path \<Rightarrow> path option"
  h_io_text :: "'w \<Rightarrow> path \<Rightarrow> string"
  h_pin_root :: "'w \<Rightarrow> path \<Rightarrow> string option"
  h_pin_dir :: "'w \<Rightarrow> path \<Rightarrow> string option"
  h_observe :: "'w \<Rightarrow> path \<Rightarrow> string + observed_target"
  h_dir_empty :: "'w \<Rightarrow> path \<Rightarrow> string + bool"
  h_create_dir :: "'w \<Rightarrow> path \<Rightarrow> io_error option \<times> 'w"
  h_remove_file :: "'w \<Rightarrow> path \<Rightarrow> io_error option \<times> 'w"
  h_remove_dir :: "'w \<Rightarrow> path \<Rightarrow> io_error option \<times> 'w"
  h_rename :: "'w \<Rightarrow> path \<Rightarrow> path \<Rightarrow> io_error option \<times> 'w"
  h_publish :: "'w \<Rightarrow> workspace \<Rightarrow> file_mutation_candidate \<Rightarrow> file_commit_result \<times> 'w"
  h_sha256 :: "string \<Rightarrow> string"
  h_python :: "string \<Rightarrow> python_verdict"
  h_json_str :: "string \<Rightarrow> string"
  h_debug_str :: "string \<Rightarrow> string"
  h_elapsed_ms :: "'w \<Rightarrow> string \<Rightarrow> json \<Rightarrow> nat"

section \<open>The syntax gate\<close>

text \<open>\<^verbatim>\<open>Path::extension\<close> of the last component: what follows the last dot, unless the
  only dot starts the name.\<close>

definition file_extension :: "path \<Rightarrow> string option" where
  "file_extension p =
     (case file_name p of
        None \<Rightarrow> None
      | Some n \<Rightarrow>
          (let parts = split_char (CHR ''.'') n
           in if length parts < 2 \<or> (length parts = 2 \<and> hd parts = []) then None else Some (last parts)))"

record syntax_compile_result =
  scr_state :: tool_syntax_state
  scr_diagnostic :: "string option"

definition MAX_CONTROLLED_PYTHON_BYTES :: nat where
  "MAX_CONTROLLED_PYTHON_BYTES = 2 * 1024 * 1024"

definition PYTHON_ADMISSION_COMPILER :: string where
  "PYTHON_ADMISSION_COMPILER = ''rustpython-compiler/0.5''"

definition compile_python_source :: "'w host \<Rightarrow> string \<Rightarrow> syntax_compile_result" where
  "compile_python_source h src =
     (case h_python h src of
        PyValid \<Rightarrow> \<lparr>scr_state = TsValid, scr_diagnostic = None\<rparr>
      | PyRejected e \<Rightarrow> \<lparr>scr_state = TsInvalid,
          scr_diagnostic = Some (take_chars 512 (PYTHON_ADMISSION_COMPILER @ '': '' @ e))\<rparr>
      | _ \<Rightarrow> \<lparr>scr_state = TsUnchecked CompilerFailure, scr_diagnostic = None\<rparr>)"

definition compile_python_bytes :: "'w host \<Rightarrow> string \<Rightarrow> syntax_compile_result" where
  "compile_python_bytes h bytes =
     (if MAX_CONTROLLED_PYTHON_BYTES < length bytes
      then \<lparr>scr_state = TsUnchecked InputTooLarge, scr_diagnostic = None\<rparr>
      else case from_utf8 bytes of
        Some e \<Rightarrow> \<lparr>scr_state = TsInvalid,
                   scr_diagnostic = Some (''source is not UTF-8 at byte '' @ show_nat (valid_up_to e))\<rparr>
      | None \<Rightarrow> compile_python_source h bytes)"

definition syntax_warning :: "tool_syntax_state \<Rightarrow> syntax_compile_result \<Rightarrow> string option" where
  "syntax_warning before cand =
     (if before = TsInvalid \<and> scr_state cand = TsInvalid
      then Some (''syntax check: candidate remains invalid while repairing an already-invalid file: ''
             @ (case scr_diagnostic cand of None \<Rightarrow> ''syntax error'' | Some d \<Rightarrow> d))
      else None)"

definition candidate_syntax_transition ::
  "'w host \<Rightarrow> path \<Rightarrow> string option \<Rightarrow> string \<Rightarrow> syntax_transition" where
  "candidate_syntax_transition h p before cand =
     (if file_extension p \<noteq> Some ''py'' then
        \<lparr>st_before = (case before of None \<Rightarrow> TsAbsent | Some _ \<Rightarrow> TsUnchecked UnsupportedExtension),
         st_candidate = TsUnchecked UnsupportedExtension, st_diagnostic_sha256 = None, st_warning = None\<rparr>
      else
        (let b = (case before of None \<Rightarrow> TsAbsent | Some bytes \<Rightarrow> scr_state (compile_python_bytes h bytes));
             c = compile_python_bytes h cand
         in \<lparr>st_before = b, st_candidate = scr_state c,
             st_diagnostic_sha256 = map_option (h_sha256 h) (scr_diagnostic c),
             st_warning = syntax_warning b c\<rparr>))"

section \<open>Targets\<close>

definition state_for_bytes :: "'w host \<Rightarrow> string \<Rightarrow> path_state" where
  "state_for_bytes h bytes = PsFile (h_sha256 h bytes) (length bytes) (logical_line_count bytes)"

definition no_effect_error :: "no_effect_kind \<Rightarrow> candidate_path_state \<Rightarrow> string \<Rightarrow> prepare_error" where
  "no_effect_error k st m = with_witness (prepare_error_new PeNoEffect m) (PwNoEffect k [st])"

definition unsupported_path_error :: "string \<Rightarrow> string \<Rightarrow> prepare_error" where
  "unsupported_path_error p reason =
     with_witness
       (prepare_error_new PeUnsupportedOperation
          (''unsupported controlled mutation target '' @ p @ '': '' @ reason))
       (PwUnsupportedMutation UmUnsupportedOperation)"

text \<open>The loop over the components of a request; the reader walks its paths in the same way with
  messages of its own.\<close>

datatype lexical_error = EscapesLexically | UnsupportedRoot

fun mutation_message :: "lexical_error \<Rightarrow> string" where
  "mutation_message EscapesLexically = ''controlled mutation path escapes the workspace lexically''"
| "mutation_message UnsupportedRoot = ''controlled mutation path contains an unsupported root or prefix''"

fun lexical_names :: "string list \<Rightarrow> path \<Rightarrow> lexical_error + string list" where
  "lexical_names out [] = Inr out"
| "lexical_names out (c # cs) =
     (case c of
        CurDir \<Rightarrow> lexical_names out cs
      | Normal n \<Rightarrow> lexical_names (out @ [n]) cs
      | ParentDir \<Rightarrow>
          if out = [] then Inl EscapesLexically
          else lexical_names (butlast out) cs
      | RootDir \<Rightarrow> Inl UnsupportedRoot)"

definition logical_target :: "workspace \<Rightarrow> string \<Rightarrow> prepare_error + (string \<times> path)" where
  "logical_target ws arg =
     (let req = components (replace_backslash arg);
          rel = (if is_absolute req then strip_path_prefix (ws_root ws) req else Some req)
      in case rel of
           None \<Rightarrow> Inl (prepare_error_new PeUnsupportedOperation
                     ''controlled mutation absolute path is not lexically rooted in the workspace'')
         | Some r \<Rightarrow>
             (case lexical_names [] r of
                Inl e \<Rightarrow> Inl (prepare_error_new PeUnsupportedOperation (mutation_message e))
              | Inr names \<Rightarrow>
                  Inr (if names = [] then ''.'' else replace_backslash (join ''/'' names),
                       ws_root ws @ map Normal names)))"

record shape_failure =
  sf_message :: string
  sf_observed :: path_state

definition shape_fail :: "string \<Rightarrow> shape_failure" where
  "shape_fail m = \<lparr>sf_message = m, sf_observed = PsOther\<rparr>"

text \<open>The chain of directories from the root to the parent of the leaf, opened one by one.\<close>

fun pin_chain :: "'w host \<Rightarrow> 'w \<Rightarrow> path \<Rightarrow> path \<Rightarrow> shape_failure check" where
  "pin_chain h w dir [] = ok"
| "pin_chain h w dir (c # cs) =
     (if \<not> is_normal c then Inl (shape_fail ''controlled parent contains an unsupported path component'')
      else case h_pin_dir h w (dir @ [c]) of
        Some m \<Rightarrow> Inl (shape_fail m)
      | None \<Rightarrow> pin_chain h w (dir @ [c]) cs)"

definition pin_parent :: "'w host \<Rightarrow> 'w \<Rightarrow> workspace \<Rightarrow> path \<Rightarrow> shape_failure check" where
  "pin_parent h w ws absolute =
     (case strip_path_prefix (ws_root ws) absolute of
        None \<Rightarrow> Inl (shape_fail ''target is not relative to the workspace capability'')
      | Some rel \<Rightarrow>
          (case file_name rel of
             None \<Rightarrow> Inl (shape_fail ''controlled mutation target must name a file'')
           | Some _ \<Rightarrow>
               (case h_pin_root h w (ws_root ws) of
                  Some m \<Rightarrow> Inl (shape_fail m)
                | None \<Rightarrow> pin_chain h w (ws_root ws) (butlast rel))))"

record inspected_file_target =
  ift_path :: string
  ift_state :: path_state
  ift_bytes :: "string option"

definition observe_logical ::
  "'w host \<Rightarrow> 'w \<Rightarrow> workspace \<Rightarrow> string \<Rightarrow> prepare_error + (string \<times> observed_target)" where
  "observe_logical h w ws arg =
     and_then (logical_target ws arg) (\<lambda>(p, absolute).
       case pin_parent h w ws absolute of
         Inl failure \<Rightarrow> Inl (unsupported_path_error p (sf_message failure))
       | Inr _ \<Rightarrow>
           (case h_observe h w absolute of
              Inl m \<Rightarrow> Inl (prepare_error_new PeIo m)
            | Inr observed \<Rightarrow>
                (case ot_unsupported observed of
                   Some reason \<Rightarrow> Inl (unsupported_path_error p reason)
                 | None \<Rightarrow> Inr (p, observed))))"

definition inspect_for_prepare ::
  "'w host \<Rightarrow> 'w \<Rightarrow> workspace \<Rightarrow> string \<Rightarrow> bool \<Rightarrow> prepare_error + inspected_file_target" where
  "inspect_for_prepare h w ws arg allow_absent =
     and_then (observe_logical h w ws arg) (\<lambda>(p, observed).
       let target = \<lparr>ift_path = p, ift_state = ot_state observed, ift_bytes = ot_bytes observed\<rparr>
       in case ot_state observed of
            PsDirectory \<Rightarrow> Inl (unsupported_path_error p ''target is a directory'')
          | PsOther \<Rightarrow> Inl (unsupported_path_error p ''target is not a regular file'')
          | PsAbsent \<Rightarrow>
              if allow_absent then Inr target
              else Inl (no_effect_error MatchNotFound
                     \<lparr>cps_path = p, cps_before = PsAbsent, cps_candidate = PsAbsent\<rparr>
                     (''file not found: '' @ p))
          | PsFile _ _ _ \<Rightarrow> Inr target)"

definition utf8_preimage :: "inspected_file_target \<Rightarrow> string \<Rightarrow> prepare_error + string" where
  "utf8_preimage target operation =
     (case ift_bytes target of
        None \<Rightarrow> Inl (prepare_error_new PeNoEffect (operation @ '': file not found: '' @ ift_path target))
      | Some bytes \<Rightarrow>
          (case from_utf8 bytes of
             None \<Rightarrow> Inr bytes
           | Some e \<Rightarrow> Inl (with_witness
               (prepare_error_new PeUnsupportedOperation
                  (operation @ '': '' @ ift_path target @ '' is not valid UTF-8 and cannot be text-edited: ''
                   @ utf8_error_text e))
               (PwUnsupportedMutation UmUnsupportedOperation))))"

definition reject_unchanged ::
  "inspected_file_target \<Rightarrow> no_effect_kind \<Rightarrow> string \<Rightarrow> prepare_error" where
  "reject_unchanged target k m =
     no_effect_error k
       \<lparr>cps_path = ift_path target, cps_before = ift_state target, cps_candidate = ift_state target\<rparr> m"

datatype edit_failure = EditInvalid string | EditNotFound string

fun edit_rejected :: "inspected_file_target \<Rightarrow> edit_failure \<Rightarrow> prepare_error" where
  "edit_rejected target (EditInvalid m) = prepare_error_new PeInvalidArguments m"
| "edit_rejected target (EditNotFound m) = reject_unchanged target MatchNotFound m"

fun edit_failure_text :: "edit_failure \<Rightarrow> string" where
  "edit_failure_text (EditInvalid m) = m"
| "edit_failure_text (EditNotFound m) = m"

text \<open>The derived \<^verbatim>\<open>Debug\<close> of a syntax state.\<close>

fun unchecked_debug :: "syntax_unchecked_reason \<Rightarrow> string" where
  "unchecked_debug UnsupportedExtension = ''UnsupportedExtension''"
| "unchecked_debug InputTooLarge = ''InputTooLarge''"
| "unchecked_debug CompilerFailure = ''CompilerFailure''"

fun syntax_debug :: "tool_syntax_state \<Rightarrow> string" where
  "syntax_debug TsAbsent = ''Absent''"
| "syntax_debug TsValid = ''Valid''"
| "syntax_debug TsInvalid = ''Invalid''"
| "syntax_debug (TsUnchecked r) = ''Unchecked('' @ unchecked_debug r @ '')''"

text \<open>The other two states do not reach \<open>compile_candidate\<close>: \<open>inspect_for_prepare\<close> refuses
  them, where the source says \<^verbatim>\<open>unreachable!\<close>.\<close>

fun file_requirement :: "string \<Rightarrow> path_state \<Rightarrow> observation_requirement list" where
  "file_requirement p (PsFile sha _ _) = [\<lparr>or_path = p, or_sha256 = sha\<rparr>]"
| "file_requirement p _ = []"

definition candidate_intent ::
  "inspected_file_target \<Rightarrow> candidate_path_state \<Rightarrow> syntax_transition \<Rightarrow> mutation_intent" where
  "candidate_intent target st syn =
     \<lparr>mi_kind = (if ift_state target = PsAbsent then CreateFile else ModifyFile),
      mi_requirements = file_requirement (ift_path target) (ift_state target),
      mi_paths = [ift_path target], mi_states = [st], mi_syntax = Some syn\<rparr>"

text \<open>The warning sign is the three bytes of U+26A0.\<close>

definition warned :: "string \<Rightarrow> string option \<Rightarrow> string" where
  "warned success w =
     (case w of
        None \<Rightarrow> success
      | Some m \<Rightarrow> success @ [CHR 0x0A, CHR 0xE2, CHR 0x9A, CHR 0xA0, CHR 0x20] @ m)"

definition compile_candidate ::
  "'w host \<Rightarrow> inspected_file_target \<Rightarrow> string \<Rightarrow> no_effect_kind \<Rightarrow> string \<Rightarrow>
   prepare_error + tool_preparation" where
  "compile_candidate h target cand no_effect success =
     (let st = \<lparr>cps_path = ift_path target, cps_before = ift_state target,
                cps_candidate = state_for_bytes h cand\<rparr>;
          syn = candidate_syntax_transition h (components (ift_path target)) (ift_bytes target) cand
      in if ift_bytes target = Some cand then
           Inl (no_effect_error no_effect st (''candidate produces no byte change for '' @ ift_path target))
         else if blocks_mutation syn then
           Inl (with_witness
             (prepare_error_new PeSyntaxRejected
                (''candidate syntax regression for '' @ ift_path target @ '' (before ''
                 @ syntax_debug (st_before syn) @ '', candidate invalid)''))
             (PwSyntaxRegression syn))
         else
           Inr (prep_file_mutation (candidate_intent target st syn)
             \<lparr>fmc_path = ift_path target, fmc_expected = ift_state target, fmc_candidate = cand,
              fmc_success = warned success (st_warning syn)\<rparr>))"

section \<open>Structural mutations: preparation\<close>

definition inspect_path_state ::
  "'w host \<Rightarrow> 'w \<Rightarrow> workspace \<Rightarrow> string \<Rightarrow> prepare_error + (string \<times> path_state)" where
  "inspect_path_state h w ws arg =
     and_then (observe_logical h w ws arg) (\<lambda>(p, observed). Inr (p, ot_state observed))"

definition structural_mutation_intent ::
  "mutation_kind \<Rightarrow> candidate_path_state list \<Rightarrow> mutation_intent" where
  "structural_mutation_intent k states =
     \<lparr>mi_kind = k,
      mi_requirements = concat (map (\<lambda>st. file_requirement (cps_path st) (cps_before st)) states),
      mi_paths = map cps_path states, mi_states = states, mi_syntax = None\<rparr>"

definition directory_is_empty ::
  "'w host \<Rightarrow> 'w \<Rightarrow> workspace \<Rightarrow> string \<Rightarrow> prepare_error + bool" where
  "directory_is_empty h w ws p =
     (let absolute = join_path (ws_root ws) (components p)
      in case pin_parent h w ws absolute of
           Inl failure \<Rightarrow> Inl (unsupported_path_error p (sf_message failure))
         | Inr _ \<Rightarrow>
             (case h_dir_empty h w absolute of
                Inl e \<Rightarrow> Inl (prepare_error_new PeIo (''inspect directory '' @ p @ '': '' @ e))
              | Inr b \<Rightarrow> Inr b))"

definition prepare_make_dir ::
  "'w host \<Rightarrow> 'w \<Rightarrow> workspace \<Rightarrow> string \<Rightarrow> prepare_error + tool_preparation" where
  "prepare_make_dir h w ws arg =
     and_then (inspect_path_state h w ws arg) (\<lambda>(p, st).
       case st of
         PsAbsent \<Rightarrow>
           Inr (prep_path_mutation
             (structural_mutation_intent CreateDirectory
                [\<lparr>cps_path = p, cps_before = PsAbsent, cps_candidate = PsDirectory\<rparr>])
             (PmCreateDir p (''created directory '' @ p)))
       | PsDirectory \<Rightarrow>
           Inl (no_effect_error Identity
             \<lparr>cps_path = p, cps_before = PsDirectory, cps_candidate = PsDirectory\<rparr>
             (''directory already exists: '' @ p))
       | _ \<Rightarrow> Inl (unsupported_path_error p (p @ '' already exists and is not a directory'')))"

definition prepare_delete ::
  "'w host \<Rightarrow> 'w \<Rightarrow> workspace \<Rightarrow> string \<Rightarrow> prepare_error + tool_preparation" where
  "prepare_delete h w ws arg =
     and_then (inspect_path_state h w ws arg) (\<lambda>(p, st).
       case st of
         PsAbsent \<Rightarrow>
           Inl (no_effect_error MatchNotFound
             \<lparr>cps_path = p, cps_before = PsAbsent, cps_candidate = PsAbsent\<rparr>
             (''path not found: '' @ p))
       | PsFile _ _ _ \<Rightarrow>
           Inr (prep_path_mutation
             (structural_mutation_intent DeleteFile
                [\<lparr>cps_path = p, cps_before = st, cps_candidate = PsAbsent\<rparr>])
             (PmDelete p st (''deleted file '' @ p)))
       | PsDirectory \<Rightarrow>
           and_then (directory_is_empty h w ws p) (\<lambda>empty.
             if \<not> empty then
               Inl (unsupported_path_error p
                      (''directory '' @ p @ '' is not empty; delete its contents first''))
             else
               Inr (prep_path_mutation
                 (structural_mutation_intent DeleteDirectory
                    [\<lparr>cps_path = p, cps_before = PsDirectory, cps_candidate = PsAbsent\<rparr>])
                 (PmDelete p PsDirectory (''deleted directory '' @ p))))
       | PsOther \<Rightarrow> Inl (unsupported_path_error p (p @ '' is not a regular file or directory'')))"

definition prepare_move ::
  "'w host \<Rightarrow> 'w \<Rightarrow> workspace \<Rightarrow> string \<Rightarrow> string \<Rightarrow> prepare_error + tool_preparation" where
  "prepare_move h w ws from_arg to_arg =
     and_then (inspect_path_state h w ws from_arg) (\<lambda>(src, src_state).
     and_then (inspect_path_state h w ws to_arg) (\<lambda>(dst, dst_state).
       case src_state of
         PsAbsent \<Rightarrow>
           Inl (no_effect_error MatchNotFound
             \<lparr>cps_path = src, cps_before = PsAbsent, cps_candidate = PsAbsent\<rparr>
             (''source not found: '' @ src))
       | PsOther \<Rightarrow>
           Inl (unsupported_path_error src (''source '' @ src @ '' is not a regular file or directory''))
       | _ \<Rightarrow>
           if dst_state \<noteq> PsAbsent then
             Inl (unsupported_path_error dst
                    (''destination '' @ dst @ '' already exists; move does not overwrite''))
           else
             Inr (prep_path_mutation
               (structural_mutation_intent MovePath
                  [\<lparr>cps_path = src, cps_before = src_state, cps_candidate = PsAbsent\<rparr>,
                   \<lparr>cps_path = dst, cps_before = PsAbsent, cps_candidate = src_state\<rparr>])
               (PmMove src src_state dst (''moved '' @ src @ '' -> '' @ dst)))))"

definition prepare_copy ::
  "'w host \<Rightarrow> 'w \<Rightarrow> workspace \<Rightarrow> string \<Rightarrow> string \<Rightarrow> prepare_error + tool_preparation" where
  "prepare_copy h w ws from_arg to_arg =
     and_then (inspect_for_prepare h w ws from_arg False) (\<lambda>src.
       case ift_bytes src of
         None \<Rightarrow> Inl (prepare_error_new PeIo (''copy: source '' @ ift_path src @ '' has no readable bytes''))
       | Some bytes \<Rightarrow>
           and_then (inspect_for_prepare h w ws to_arg True) (\<lambda>dst.
             compile_candidate h dst bytes Identity
               (''copied '' @ ift_path src @ '' -> '' @ ift_path dst)))"

section \<open>Structural mutations: commit\<close>

definition failure_result ::
  "control_failure_kind \<Rightarrow> string \<Rightarrow> control_failure_witness option \<Rightarrow> tool_workspace_effect list \<Rightarrow>
   file_commit_result" where
  "failure_result k m wit effects =
     \<lparr>fcr_full = m, fcr_is_error = True, fcr_effects = MeasuredEffects effects,
      fcr_failure = Some \<lparr>cf_kind = k, cf_message = m, cf_witness = wit\<rparr>\<rparr>"

definition stale_result ::
  "string \<Rightarrow> path_state \<Rightarrow> path_state \<Rightarrow> string \<Rightarrow> file_commit_result" where
  "stale_result p expected observed detail =
     failure_result CfStalePrecondition (''stale precondition for '' @ p @ '': '' @ detail)
       (Some (CwStaleObservation \<lparr>sow_path = p, sow_expected = expected, sow_observed = observed\<rparr>)) []"

fun structural_kind :: "path_state \<Rightarrow> path_state \<Rightarrow> workspace_effect_kind" where
  "structural_kind PsAbsent PsDirectory = WkCreatedDirectory"
| "structural_kind PsDirectory PsAbsent = WkDeletedDirectory"
| "structural_kind PsAbsent (PsFile _ _ _) = WkCreated"
| "structural_kind (PsFile _ _ _) PsAbsent = WkDeleted"
| "structural_kind _ _ = WkOpaque"

definition structural_effect :: "string \<Rightarrow> path_state \<Rightarrow> path_state \<Rightarrow> tool_workspace_effect" where
  "structural_effect p before after =
     \<lparr>twe_path = p, twe_kind = structural_kind before after, twe_before = before, twe_after = after\<rparr>"

fun measured_kind :: "path_state \<Rightarrow> path_state \<Rightarrow> workspace_effect_kind" where
  "measured_kind PsAbsent (PsFile _ _ _) = WkCreated"
| "measured_kind (PsFile _ _ _) (PsFile _ _ _) = WkModified"
| "measured_kind (PsFile _ _ _) PsAbsent = WkDeleted"
| "measured_kind _ _ = WkOpaque"

definition measured_effects ::
  "string \<Rightarrow> path_state \<Rightarrow> path_state \<Rightarrow> tool_workspace_effect list" where
  "measured_effects p before after =
     (if before = after then []
      else [\<lparr>twe_path = p, twe_kind = measured_kind before after, twe_before = before, twe_after = after\<rparr>])"

definition path_success ::
  "string \<Rightarrow> path_state \<Rightarrow> path_state \<Rightarrow> string \<Rightarrow> file_commit_result" where
  "path_success p before after success =
     \<lparr>fcr_full = success, fcr_is_error = False,
      fcr_effects = MeasuredEffects [structural_effect p before after], fcr_failure = None\<rparr>"

definition cas_leaf ::
  "'w host \<Rightarrow> 'w \<Rightarrow> workspace \<Rightarrow> string \<Rightarrow> path_state \<Rightarrow> file_commit_result + path" where
  "cas_leaf h w ws p expected =
     (let absolute = join_path (ws_root ws) (components p)
      in case pin_parent h w ws absolute of
           Inl failure \<Rightarrow> Inl (stale_result p expected (sf_observed failure) (sf_message failure))
         | Inr _ \<Rightarrow>
             (case h_observe h w absolute of
                Inl m \<Rightarrow> Inl (failure_result CfIo m None [])
              | Inr observed \<Rightarrow>
                  if ot_unsupported observed \<noteq> None \<or> ot_state observed \<noteq> expected then
                    Inl (stale_result p expected (ot_state observed)
                      (case ot_unsupported observed of
                         Some r \<Rightarrow> r
                       | None \<Rightarrow> ''target state changed after preparation''))
                  else Inr absolute))"

definition delete_leaf :: "'w host \<Rightarrow> 'w \<Rightarrow> path_state \<Rightarrow> path \<Rightarrow> (io_error option \<times> 'w) option" where
  "delete_leaf h w expected leaf =
     (case expected of
        PsFile _ _ _ \<Rightarrow> Some (h_remove_file h w leaf)
      | PsDirectory \<Rightarrow> Some (h_remove_dir h w leaf)
      | _ \<Rightarrow> None)"

fun commit_path_mutation ::
  "'w host \<Rightarrow> 'w \<Rightarrow> workspace \<Rightarrow> path_mutation_candidate \<Rightarrow> file_commit_result \<times> 'w" where
  "commit_path_mutation h w ws (PmCreateDir p success) =
     (case cas_leaf h w ws p PsAbsent of
        Inl r \<Rightarrow> (r, w)
      | Inr leaf \<Rightarrow>
          (case h_create_dir h w leaf of
             (None, w') \<Rightarrow> (path_success p PsAbsent PsDirectory success, w')
           | (Some e, w') \<Rightarrow>
               (failure_result CfIo (''create directory '' @ p @ '': '' @ ioe_text e) None [], w')))"
| "commit_path_mutation h w ws (PmDelete p expected success) =
     (case cas_leaf h w ws p expected of
        Inl r \<Rightarrow> (r, w)
      | Inr leaf \<Rightarrow>
          (case delete_leaf h w expected leaf of
             None \<Rightarrow> (failure_result CfIo (''delete '' @ p @ '': unsupported prepared state'') None [], w)
           | Some (None, w') \<Rightarrow> (path_success p expected PsAbsent success, w')
           | Some (Some e, w') \<Rightarrow>
               if expected = PsDirectory \<and> ioe_kind e = DirectoryNotEmpty then
                 (stale_result p PsDirectory PsDirectory
                    (''directory is no longer empty: '' @ ioe_text e), w')
               else (failure_result CfIo (''delete '' @ p @ '': '' @ ioe_text e) None [], w')))"
| "commit_path_mutation h w ws (PmMove src src_expected dst success) =
     (case cas_leaf h w ws src src_expected of
        Inl r \<Rightarrow> (r, w)
      | Inr src_leaf \<Rightarrow>
          (case cas_leaf h w ws dst PsAbsent of
             Inl r \<Rightarrow> (r, w)
           | Inr dst_leaf \<Rightarrow>
               (case h_rename h w src_leaf dst_leaf of
                  (None, w') \<Rightarrow>
                    (\<lparr>fcr_full = success, fcr_is_error = False,
                      fcr_effects = MeasuredEffects
                        [structural_effect src src_expected PsAbsent,
                         structural_effect dst PsAbsent src_expected],
                      fcr_failure = None\<rparr>, w')
                | (Some e, w') \<Rightarrow>
                    (failure_result CfIo (''move '' @ src @ '' -> '' @ dst @ '': '' @ ioe_text e) None [], w'))))"

section \<open>Facts\<close>

lemma lexical_names_normal:
  "lexical_names out p = Inr names \<Longrightarrow> \<forall>n \<in> set out. P n \<Longrightarrow> \<forall>n. Normal n \<in> set p \<longrightarrow> P n \<Longrightarrow>
   \<forall>n \<in> set names. P n"
proof (induction out p arbitrary: names rule: lexical_names.induct)
  case (2 out c cs)
  then show ?case by (cases c) (auto split: if_splits dest: in_set_butlastD)
qed simp

lemma inspect_for_prepare_state:
  assumes "inspect_for_prepare h w ws arg allow = Inr t"
  shows "(\<exists>a b c. ift_state t = PsFile a b c) \<or> (allow \<and> ift_state t = PsAbsent)"
proof -
  obtain p observed where "observe_logical h w ws arg = Inr (p, observed)"
    using assms by (auto simp: inspect_for_prepare_def result_simps)
  then show ?thesis using assms
    by (cases "ot_state observed") (auto simp: inspect_for_prepare_def Let_def split: if_splits)
qed

text \<open>A logical target lies below the workspace root, whatever the request.\<close>

lemma logical_target_rooted:
  assumes "logical_target ws arg = Inr (p, absolute)"
  obtains names where "absolute = ws_root ws @ map Normal names"
    and "p = (if names = [] then ''.'' else replace_backslash (join ''/'' names))"
  using assms by (auto simp: logical_target_def Let_def split: option.splits sum.splits if_splits)

end
