(* ===== verification/File_Tools.thy ===== *)
theory File_Tools
  imports Controlled_File
begin

text \<open>
  The builtin file tools of \<^verbatim>\<open>ferric-tools\<close> as evidence-controlled preparations:
  \<^verbatim>\<open>args.rs\<close>, \<^verbatim>\<open>write_file.rs\<close>, \<^verbatim>\<open>edit_file.rs\<close>,
  \<^verbatim>\<open>multi_edit.rs\<close>, \<^verbatim>\<open>apply_patch.rs\<close>, \<^verbatim>\<open>make_dir.rs\<close>,
  \<^verbatim>\<open>delete_path.rs\<close>, \<^verbatim>\<open>move_path.rs\<close>, \<^verbatim>\<open>copy_file.rs\<close> and
  \<^verbatim>\<open>read_file.rs\<close> with \<^verbatim>\<open>controlled_read.rs\<close>. The text algorithms (first
  replacement, batches, context-located hunks, line selection) are complete. The unguarded
  \<^verbatim>\<open>run\<close> of each tool, which is not reached under evidence control, is left to the trait
  parameter of the registry.
\<close>

section \<open>Arguments\<close>

text \<open>An \<^verbatim>\<open>ArgError\<close> is its message.\<close>

definition arg_error :: "string \<Rightarrow> prepare_error" where
  "arg_error m = prepare_error_new PeInvalidArguments m"

definition arg_string :: "json \<Rightarrow> string \<Rightarrow> string + string" where
  "arg_string args key =
     ok_or (Option.bind (json_get args key) json_as_str) (''missing required string argument: '' @ key)"

definition arg_array :: "json \<Rightarrow> string \<Rightarrow> string + json list" where
  "arg_array args key =
     ok_or (Option.bind (json_get args key) json_as_array) (''missing required array argument: '' @ key)"

definition optional_positive :: "json \<Rightarrow> string \<Rightarrow> string + nat option" where
  "optional_positive args key =
     (case json_get args key of
        None \<Rightarrow> Inr None
      | Some v \<Rightarrow>
          (case json_as_u64 v of
             Some n \<Rightarrow> if 0 < n then Inr (Some n) else Inl (key @ '' must be a positive integer'')
           | None \<Rightarrow> Inl (key @ '' must be a positive integer'')))"

definition endpoint_paths :: "json \<Rightarrow> string list" where
  "endpoint_paths args =
     List.map_filter (\<lambda>key. Option.bind (json_get args key) json_as_str) [''from'', ''to'']"

text \<open>The conversion of a failing argument into a refused preparation.\<close>

definition with_args :: "string + 'a \<Rightarrow> ('a \<Rightarrow> prepare_error + 'b) \<Rightarrow> prepare_error + 'b" where
  "with_args r f = (case r of Inl m \<Rightarrow> Inl (arg_error m) | Inr v \<Rightarrow> f v)"

section \<open>Whole files\<close>

definition write_file_prepare ::
  "'w host \<Rightarrow> 'w \<Rightarrow> workspace \<Rightarrow> json \<Rightarrow> prepare_error + tool_preparation" where
  "write_file_prepare h w ws args =
     with_args (arg_string args ''path'') (\<lambda>p.
     with_args (arg_string args ''content'') (\<lambda>content.
     and_then (inspect_for_prepare h w ws p True) (\<lambda>target.
       compile_candidate h target content Identity
         (''wrote '' @ show_nat (length content) @ '' bytes to '' @ p))))"

definition make_dir_prepare ::
  "'w host \<Rightarrow> 'w \<Rightarrow> workspace \<Rightarrow> json \<Rightarrow> prepare_error + tool_preparation" where
  "make_dir_prepare h w ws args = with_args (arg_string args ''path'') (prepare_make_dir h w ws)"

definition delete_path_prepare ::
  "'w host \<Rightarrow> 'w \<Rightarrow> workspace \<Rightarrow> json \<Rightarrow> prepare_error + tool_preparation" where
  "delete_path_prepare h w ws args = with_args (arg_string args ''path'') (prepare_delete h w ws)"

definition move_path_prepare ::
  "'w host \<Rightarrow> 'w \<Rightarrow> workspace \<Rightarrow> json \<Rightarrow> prepare_error + tool_preparation" where
  "move_path_prepare h w ws args =
     with_args (arg_string args ''from'') (\<lambda>src.
     with_args (arg_string args ''to'') (prepare_move h w ws src))"

definition copy_file_prepare ::
  "'w host \<Rightarrow> 'w \<Rightarrow> workspace \<Rightarrow> json \<Rightarrow> prepare_error + tool_preparation" where
  "copy_file_prepare h w ws args =
     with_args (arg_string args ''from'') (\<lambda>src.
     with_args (arg_string args ''to'') (prepare_copy h w ws src))"

section \<open>Edits\<close>

definition edit_args :: "json \<Rightarrow> string + (string \<times> string \<times> string)" where
  "edit_args args =
     and_then (arg_string args ''path'') (\<lambda>p.
     and_then (arg_string args ''old_string'') (\<lambda>old.
     and_then (arg_string args ''new_string'') (\<lambda>new.
       if old = [] then Inl ''old_string must not be empty'' else Inr (p, old, new))))"

text \<open>\<^verbatim>\<open>content.replacen(old, new, 1)\<close>.\<close>

definition replacen_first :: "string \<Rightarrow> string \<Rightarrow> string \<Rightarrow> string" where
  "replacen_first content old new =
     (case find_str old content of
        None \<Rightarrow> content
      | Some i \<Rightarrow> take i content @ new @ drop (i + length old) content)"

definition replace_first :: "string \<Rightarrow> string \<Rightarrow> string \<Rightarrow> string \<Rightarrow> edit_failure + string" where
  "replace_first content old new p =
     (if \<not> contains_str content old then Inl (EditNotFound (''old_string not found in '' @ p))
      else Inr (replacen_first content old new))"

definition edit_file_prepare ::
  "'w host \<Rightarrow> 'w \<Rightarrow> workspace \<Rightarrow> json \<Rightarrow> prepare_error + tool_preparation" where
  "edit_file_prepare h w ws args =
     with_args (edit_args args) (\<lambda>(p, old, new).
     and_then (inspect_for_prepare h w ws p False) (\<lambda>target.
     and_then (utf8_preimage target ''edit_file'') (\<lambda>content.
       case replace_first content old new p of
         Inl failure \<Rightarrow> Inl (edit_rejected target failure)
       | Inr edited \<Rightarrow>
           compile_candidate h target edited Identity (''edited '' @ p @ '' (replaced 1 occurrence)''))))"

definition multi_edit_args :: "json \<Rightarrow> string + (string \<times> json list)" where
  "multi_edit_args args =
     and_then (arg_string args ''path'') (\<lambda>p.
     and_then (arg_array args ''edits'') (\<lambda>edits.
       if edits = [] then Inl ''edits must not be empty'' else Inr (p, edits)))"

definition edit_field :: "nat \<Rightarrow> json \<Rightarrow> string \<Rightarrow> edit_failure + string" where
  "edit_field index edit key =
     ok_or (Option.bind (json_get edit key) json_as_str)
       (EditInvalid (''edit '' @ show_nat index @ '': missing string field '' @ key))"

text \<open>The loop over the edits, with the index of the next one.\<close>

fun apply_edits_from :: "string \<Rightarrow> nat \<Rightarrow> string \<Rightarrow> json list \<Rightarrow> edit_failure + string" where
  "apply_edits_from p index working [] = Inr working"
| "apply_edits_from p index working (edit # edits) =
     and_then (edit_field index edit ''old_string'') (\<lambda>old.
     and_then (edit_field index edit ''new_string'') (\<lambda>new.
       if old = [] then Inl (EditInvalid (''edit '' @ show_nat index @ '': old_string must not be empty''))
       else if \<not> contains_str working old then
         Inl (EditNotFound (''edit '' @ show_nat index @ '': old_string not found in '' @ p))
       else apply_edits_from p (index + 1) (replacen_first working old new) edits))"

definition apply_edits :: "string \<Rightarrow> json list \<Rightarrow> string \<Rightarrow> edit_failure + string" where
  "apply_edits content edits p = apply_edits_from p 0 content edits"

definition multi_edit_prepare ::
  "'w host \<Rightarrow> 'w \<Rightarrow> workspace \<Rightarrow> json \<Rightarrow> prepare_error + tool_preparation" where
  "multi_edit_prepare h w ws args =
     with_args (multi_edit_args args) (\<lambda>(p, edits).
     and_then (inspect_for_prepare h w ws p False) (\<lambda>target.
     and_then (utf8_preimage target ''multi_edit'') (\<lambda>content.
       case apply_edits content edits p of
         Inl failure \<Rightarrow> Inl (edit_rejected target failure)
       | Inr edited \<Rightarrow>
           compile_candidate h target edited NetZeroBatch
             (''applied '' @ show_nat (length edits) @ '' edits to '' @ p))))"

section \<open>Patches\<close>

record hunk =
  hk_before :: "string list"
  hk_after :: "string list"

definition hunk_default :: hunk where
  "hunk_default = \<lparr>hk_before = [], hk_after = []\<rparr>"

text \<open>The index of the first window of \<open>working\<close> that equals \<open>before\<close>.\<close>

definition locate :: "string list \<Rightarrow> string list \<Rightarrow> nat option" where
  "locate working before =
     (if before = [] \<or> length working < length before then None
      else List.find (\<lambda>i. take (length before) (drop i working) = before)
             [0 ..< length working - length before + 1])"

fun apply_hunks_from :: "string \<Rightarrow> nat \<Rightarrow> string list \<Rightarrow> hunk list \<Rightarrow> edit_failure + string list" where
  "apply_hunks_from p index working [] = Inr working"
| "apply_hunks_from p index working (hk # hks) =
     (if hk_before hk = [] then
        Inl (EditInvalid (''hunk '' @ show_nat index
          @ '': no context or removed lines to locate (need at least one '' @ [CHR 0x27, CHR 0x20, CHR 0x27]
          @ '' or '' @ [CHR 0x27, CHR ''-'', CHR 0x27] @ '' line)''))
      else case locate working (hk_before hk) of
        None \<Rightarrow>
          Inl (EditNotFound (''hunk '' @ show_nat index @ '': context not found in '' @ p @ '' (the ''
            @ [CHR 0x27, CHR 0x20, CHR 0x27, CHR ''/'', CHR 0x27, CHR ''-'', CHR 0x27] @ '' lines must match)''))
      | Some i \<Rightarrow>
          apply_hunks_from p (index + 1)
            (take i working @ hk_after hk @ drop (i + length (hk_before hk)) working) hks)"

definition apply_hunks :: "string \<Rightarrow> hunk list \<Rightarrow> string \<Rightarrow> edit_failure + string" where
  "apply_hunks content hunks p =
     and_then (apply_hunks_from p 0 (split_char (CHR 0x0A) content) hunks) (\<lambda>ls. Inr (join [CHR 0x0A] ls))"

text \<open>One line of a patch; the state is the finished hunks and the one being read. The message
  about a malformed line shows it through \<open>debug\<close>.\<close>

definition quoted :: "char \<Rightarrow> string" where
  "quoted c = [CHR 0x27, c, CHR 0x27]"

definition hunk_line :: "(string \<Rightarrow> string) \<Rightarrow> hunk \<Rightarrow> string \<Rightarrow> string + hunk" where
  "hunk_line debug hk line =
     (case line of
        c # s \<Rightarrow>
          if c = CHR 0x20 then Inr (hk\<lparr>hk_before := hk_before hk @ [s], hk_after := hk_after hk @ [s]\<rparr>)
          else if c = CHR ''-'' then Inr (hk\<lparr>hk_before := hk_before hk @ [s]\<rparr>)
          else if c = CHR ''+'' then Inr (hk\<lparr>hk_after := hk_after hk @ [s]\<rparr>)
          else Inl (''malformed patch line (must be '' @ [CHR 0x27] @ ''@@'' @ [CHR 0x27] @ '' or start with ''
                 @ quoted (CHR 0x20) @ '', '' @ quoted (CHR ''-'') @ '', or '' @ quoted (CHR ''+'') @ ''): '' @ debug line)
      | [] \<Rightarrow> Inl (''malformed patch line (must be '' @ [CHR 0x27] @ ''@@'' @ [CHR 0x27] @ '' or start with ''
                 @ quoted (CHR 0x20) @ '', '' @ quoted (CHR ''-'') @ '', or '' @ quoted (CHR ''+'') @ ''): '' @ debug line))"

fun parse_hunk_lines ::
  "(string \<Rightarrow> string) \<Rightarrow> hunk list \<Rightarrow> hunk option \<Rightarrow> string list \<Rightarrow> string + hunk list" where
  "parse_hunk_lines debug done current [] =
     Inr (case current of None \<Rightarrow> done | Some hk \<Rightarrow> done @ [hk])"
| "parse_hunk_lines debug done current (line # lines) =
     (if starts_with line ''@@'' then
        parse_hunk_lines debug (case current of None \<Rightarrow> done | Some hk \<Rightarrow> done @ [hk]) (Some hunk_default) lines
      else case current of
        None \<Rightarrow> Inl (''patch must start with an '' @ [CHR 0x27] @ ''@@'' @ [CHR 0x27] @ '' hunk header'')
      | Some hk \<Rightarrow>
          (case hunk_line debug hk line of
             Inl m \<Rightarrow> Inl m
           | Inr hk' \<Rightarrow> parse_hunk_lines debug done (Some hk') lines))"

definition patch_body :: "string \<Rightarrow> string" where
  "patch_body patch = (if patch \<noteq> [] \<and> last patch = CHR 0x0A then butlast patch else patch)"

definition parse_hunks :: "(string \<Rightarrow> string) \<Rightarrow> string \<Rightarrow> string + hunk list" where
  "parse_hunks debug patch =
     (if patch_body patch = [] then Inl ''patch is empty''
      else and_then (parse_hunk_lines debug [] None (split_char (CHR 0x0A) (patch_body patch))) (\<lambda>hks.
        if hks = [] then Inl (''patch contains no '' @ [CHR 0x27] @ ''@@'' @ [CHR 0x27] @ '' hunks'') else Inr hks))"

definition apply_patch_prepare ::
  "'w host \<Rightarrow> 'w \<Rightarrow> workspace \<Rightarrow> json \<Rightarrow> prepare_error + tool_preparation" where
  "apply_patch_prepare h w ws args =
     with_args (arg_string args ''path'') (\<lambda>p.
     with_args (arg_string args ''patch'') (\<lambda>patch.
     with_args (parse_hunks (h_debug_str h) patch) (\<lambda>hunks.
     and_then (inspect_for_prepare h w ws p False) (\<lambda>target.
     and_then (utf8_preimage target ''apply_patch'') (\<lambda>content.
       case apply_hunks content hunks p of
         Inl failure \<Rightarrow> Inl (edit_rejected target failure)
       | Inr patched \<Rightarrow>
           compile_candidate h target patched NetZeroPatch
             (''applied '' @ show_nat (length hunks) @ '' hunk(s) to '' @ p))))))"

section \<open>Reading\<close>

text \<open>The lines of a file as byte spans, with the position and the start of the current line.\<close>

fun spans_from :: "nat \<Rightarrow> nat \<Rightarrow> string \<Rightarrow> (nat \<times> nat) list" where
  "spans_from i start [] = (if start < i then [(start, i)] else [])"
| "spans_from i start (b # bs) =
     (if b = CHR 0x0A then (start, i + 1) # spans_from (i + 1) (i + 1) bs else spans_from (i + 1) start bs)"

definition raw_line_spans :: "string \<Rightarrow> (nat \<times> nat) list" where
  "raw_line_spans bytes = spans_from 0 0 bytes"

definition selected_line_range :: "nat \<Rightarrow> requested_line_range \<Rightarrow> tool_line_range option" where
  "selected_line_range line_total req =
     (let start = (case rlr_start req of None \<Rightarrow> 1 | Some n \<Rightarrow> n);
          stop = min (case rlr_end req of None \<Rightarrow> line_total | Some n \<Rightarrow> n) line_total
      in if line_total = 0 \<or> line_total < start then None
         else if start \<le> stop then Some \<lparr>tlr_start = start, tlr_end = stop\<rparr> else None)"

text \<open>The bytes of the selected lines.\<close>

definition selected_bytes :: "string \<Rightarrow> tool_line_range option \<Rightarrow> string" where
  "selected_bytes bytes returned =
     (case returned of
        None \<Rightarrow> []
      | Some r \<Rightarrow>
          (let spans = raw_line_spans bytes;
               first = fst (spans ! (tlr_start r - 1));
               stop = snd (spans ! (tlr_end r - 1))
           in take (stop - first) (drop first bytes)))"

definition flag :: "bool \<Rightarrow> string" where
  "flag b = (if b then ''1'' else ''0'')"

definition or_star :: "nat option \<Rightarrow> string" where
  "or_star n = (case n of None \<Rightarrow> ''*'' | Some k \<Rightarrow> show_nat k)"

definition header_lines :: "string list \<Rightarrow> string" where
  "header_lines ls = concat (map (\<lambda>l. l @ [CHR 0x0A]) ls)"

definition render_file_header :: "(string \<Rightarrow> string) \<Rightarrow> tool_file_observation \<Rightarrow> string" where
  "render_file_header json_str obs = header_lines [
     ''[ferric:file_observation:v1]'',
     ''path='' @ json_str (tfo_path obs),
     ''sha256='' @ tfo_sha256 obs,
     ''bytes='' @ show_nat (tfo_bytes obs),
     ''total_lines='' @ show_nat (tfo_total_lines obs),
     ''requested_start='' @ or_star (rlr_start (tfo_requested obs)),
     ''requested_end='' @ or_star (rlr_end (tfo_requested obs)),
     ''returned='' @ (case tfo_returned obs of None \<Rightarrow> ''none''
                     | Some r \<Rightarrow> show_nat (tlr_start r) @ ''..'' @ show_nat (tlr_end r)),
     ''model_truncated='' @ flag (tfo_model_truncated obs),
     ''complete='' @ flag (tfo_complete obs),
     ''[/ferric:file_observation:v1]'']"

text \<open>\<open>lexical_relative\<close>: the same walk as \<open>lexical_names\<close> with the messages of the
  reader.\<close>

fun read_message :: "lexical_error \<Rightarrow> string" where
  "read_message EscapesLexically = ''controlled path escapes the workspace lexically''"
| "read_message UnsupportedRoot = ''controlled path contains an unsupported root''"

definition lexical_relative :: "workspace \<Rightarrow> path \<Rightarrow> string + string list" where
  "lexical_relative ws req =
     (case (if is_absolute req then strip_path_prefix (ws_root ws) req else Some req) of
        None \<Rightarrow> Inl ''controlled path is not rooted in the workspace''
      | Some r \<Rightarrow> (case lexical_names [] r of Inl m \<Rightarrow> Inl (read_message m) | Inr ns \<Rightarrow> Inr ns))"

text \<open>The opened file is the parameter \<open>read\<close>: its bytes, or the message of the handle-level
  check that failed.\<close>

definition read_controlled_file ::
  "'w host \<Rightarrow> ('w \<Rightarrow> path \<Rightarrow> string + string) \<Rightarrow> 'w \<Rightarrow> workspace \<Rightarrow> string \<Rightarrow> string + (string \<times> string list)" where
  "read_controlled_file h read w ws arg =
     (let req = replace_backslash arg
      in case resolve (h_exists h w) (h_canonicalize h w) ws (components req) of
           Inl e \<Rightarrow> Inl (''boundary: '' @ guard_error_text (h_io_text h w) req e)
         | Inr _ \<Rightarrow>
             and_then (lexical_relative ws (components req)) (\<lambda>names.
               if names = [] then Inl ''controlled read path must name a file''
               else and_then (read w (ws_root ws @ map Normal names)) (\<lambda>bytes. Inr (bytes, names))))"

definition mark_file_truncated :: "tool_file_observation \<Rightarrow> tool_file_observation" where
  "mark_file_truncated obs = obs\<lparr>tfo_model_truncated := True, tfo_complete := False, tfo_coverage := []\<rparr>"

definition whole_file :: "nat \<Rightarrow> tool_line_range option \<Rightarrow> bool" where
  "whole_file line_total returned \<longleftrightarrow>
     line_total = 0 \<or> (case returned of None \<Rightarrow> False | Some r \<Rightarrow> tlr_start r = 1 \<and> tlr_end r = line_total)"

definition observe_file ::
  "'w host \<Rightarrow> string \<Rightarrow> string \<Rightarrow> requested_line_range \<Rightarrow> tool_file_observation" where
  "observe_file h p bytes req =
     (let line_total = logical_line_count bytes; returned = selected_line_range line_total req
      in \<lparr>tfo_path = p, tfo_sha256 = h_sha256 h bytes, tfo_bytes = length bytes, tfo_total_lines = line_total,
          tfo_requested = req, tfo_returned = returned, tfo_model_truncated = False,
          tfo_complete = whole_file line_total returned,
          tfo_coverage = (case returned of None \<Rightarrow> [] | Some r \<Rightarrow> [r])\<rparr>)"

definition read_request :: "json \<Rightarrow> string + requested_line_range" where
  "read_request args =
     and_then (optional_positive args ''start_line'') (\<lambda>first.
     and_then (optional_positive args ''end_line'') (\<lambda>stop.
       if (case (first, stop) of (Some a, Some b) \<Rightarrow> b < a | _ \<Rightarrow> False)
       then Inl ''start_line must not be greater than end_line''
       else Inr \<lparr>rlr_start = first, rlr_end = stop\<rparr>))"

definition read_file_prepare ::
  "'w host \<Rightarrow> ('w \<Rightarrow> path \<Rightarrow> string + string) \<Rightarrow> 'w \<Rightarrow> workspace \<Rightarrow> nat \<Rightarrow> json \<Rightarrow>
   prepare_error + tool_preparation" where
  "read_file_prepare h read w ws limit args =
     with_args (arg_string args ''path'') (\<lambda>arg.
     with_args (read_request args) (\<lambda>req.
       case read_controlled_file h read w ws arg of
         Inl m \<Rightarrow> Inl (prepare_error_new PeIo m)
       | Inr (bytes, names) \<Rightarrow>
           (case from_utf8 bytes of
              Some e \<Rightarrow> Inl (prepare_error_new PeIo
                (''read '' @ arg @ '': file is not valid UTF-8: '' @ utf8_error_text e))
            | None \<Rightarrow>
                and_then (normalized_relative_path ws (ws_root ws @ map Normal names)) (\<lambda>p.
                  let obs = observe_file h p bytes req
                  in and_then (evidence_envelope ''read_file'' limit obs
                        (selected_bytes bytes (tfo_returned obs))
                        (render_file_header (h_json_str h)) mark_file_truncated) (\<lambda>(full, obs').
                       Inr (prep_file_observation full obs'))))))"

end
