(* ===== verification/Navigate.thy ===== *)
theory Navigate
  imports File_Tools "HOL-Library.Multiset"
begin

text \<open>
  Repository navigation, \<^verbatim>\<open>builtin/navigate.rs\<close> with \<^verbatim>\<open>find_files.rs\<close> and
  \<^verbatim>\<open>search_files.rs\<close>: the bounded walk over the directory tree, the two matchers and the
  observation a navigation call prepares. The directory tree the handles reach is a value: a regular
  file with what reading it yields, a directory with its entries, an entry that cannot be opened with
  the message of the failing call, or anything else (a link, a device). The walk sorts the entries of a
  directory by name, as the source does.
\<close>

section \<open>The tree\<close>

record file_view =
  fv_changed :: "string option"
  fv_read :: "string + string"

datatype fs_node =
    FsFile string file_view
  | FsDir string "fs_node list"
  | FsBrokenDir string string
  | FsOther string

fun node_name :: "fs_node \<Rightarrow> string" where
  "node_name (FsFile n _) = n"
| "node_name (FsDir n _) = n"
| "node_name (FsBrokenDir n _) = n"
| "node_name (FsOther n) = n"

definition NOISE_DIRS :: "string list" where
  "NOISE_DIRS = [''.git'', ''target'', ''node_modules'', ''.ferric'']"

section \<open>Matching one file\<close>

text \<open>The lines of a file that contain the query, numbered from one and without trailing blanks; the
  loop leaves as soon as the results reach the cap.\<close>

fun push_lines :: "string \<Rightarrow> string \<Rightarrow> nat \<Rightarrow> nat \<Rightarrow> string list \<Rightarrow> string list \<Rightarrow> string list" where
  "push_lines shown query cap index [] out = out"
| "push_lines shown query cap index (line # lines) out =
     (if contains_str line query then
        (let out' = out @ [shown @ '':'' @ show_nat (index + 1) @ '':'' @ trim_end line]
         in if cap \<le> length out' then out' else push_lines shown query cap (index + 1) lines out')
      else push_lines shown query cap (index + 1) lines out)"

definition push_matching_lines ::
  "string \<Rightarrow> string \<Rightarrow> string \<Rightarrow> nat \<Rightarrow> string list \<Rightarrow> string list" where
  "push_matching_lines shown content query cap out = push_lines shown query cap 0 (str_lines content) out"

type_synonym matcher = "string \<Rightarrow> string \<Rightarrow> file_view \<Rightarrow> string \<Rightarrow> nat \<Rightarrow> string list \<Rightarrow> string + string list"

definition controlled_name_match :: matcher where
  "controlled_name_match shown name view pat cap out =
     (if \<not> contains_str name pat then Inr out
      else case fv_changed view of Some m \<Rightarrow> Inl m | None \<Rightarrow> Inr (out @ [shown]))"

definition controlled_content_match :: matcher where
  "controlled_content_match shown name view query cap out =
     (case fv_read view of
        Inl m \<Rightarrow> Inl m
      | Inr content \<Rightarrow> Inr (push_matching_lines shown content query cap out))"

record navigator =
  nv_kind :: navigation_kind
  nv_tool :: string
  nv_verb :: string
  nv_literal :: string
  nv_default_max_results :: nat
  nv_match :: matcher

definition FIND :: navigator where
  "FIND = \<lparr>nv_kind = FindFiles, nv_tool = ''find_files'', nv_verb = ''find'', nv_literal = ''pattern'',
           nv_default_max_results = 100, nv_match = controlled_name_match\<rparr>"

definition SEARCH :: navigator where
  "SEARCH = \<lparr>nv_kind = SearchFiles, nv_tool = ''search_files'', nv_verb = ''search'', nv_literal = ''query'',
             nv_default_max_results = 50, nv_match = controlled_content_match\<rparr>"

section \<open>The walk\<close>

definition shown_path :: "string list \<Rightarrow> string \<Rightarrow> string" where
  "shown_path rel name = replace_backslash (join ''/'' (rel @ [name]))"

lemma size_sort_key [simp]: "size_list f (sort_key g xs) = size_list f xs"
proof -
  have "size_list f xs = sum_list (map f xs) + length xs" for xs :: "'a list"
    by (induction xs) auto
  moreover have "sum_list (map f (sort_key g xs)) = sum_list (map f xs)"
    by (metis mset_map mset_sort sum_mset_sum_list)
  ultimately show ?thesis by simp
qed

function walk_controlled ::
  "matcher \<Rightarrow> string \<Rightarrow> nat \<Rightarrow> string list \<Rightarrow> fs_node list \<Rightarrow> string list \<Rightarrow> string + string list" where
  "walk_controlled mt literal cap rel [] out = Inr out"
| "walk_controlled mt literal cap rel (n # ns) out =
     (if cap \<le> length out then Inr out
      else case n of
        FsOther _ \<Rightarrow> walk_controlled mt literal cap rel ns out
      | FsFile name view \<Rightarrow>
          (case mt (shown_path rel name) name view literal cap out of
             Inl m \<Rightarrow> Inl m
           | Inr out' \<Rightarrow> walk_controlled mt literal cap rel ns out')
      | FsBrokenDir name m \<Rightarrow>
          if name \<in> set NOISE_DIRS then walk_controlled mt literal cap rel ns out else Inl m
      | FsDir name children \<Rightarrow>
          if name \<in> set NOISE_DIRS then walk_controlled mt literal cap rel ns out
          else (case walk_controlled mt literal cap (rel @ [name]) (sort_key node_name children) out of
                  Inl m \<Rightarrow> Inl m
                | Inr out' \<Rightarrow> walk_controlled mt literal cap rel ns out'))"
  by pat_completeness auto
termination
  by (relation "measure (\<lambda>(_, _, _, _, ns, _). size_list size ns)") auto

declare walk_controlled.simps(2) [simp del]

section \<open>Preparing a navigation call\<close>

definition search_path :: "json \<Rightarrow> string" where
  "search_path args = (case Option.bind (json_get args ''path'') json_as_str of None \<Rightarrow> ''.'' | Some s \<Rightarrow> s)"

text \<open>\<open>tree\<close> opens a directory through retained handles, \<open>rebound\<close> is the message when the
  path no longer names that directory.\<close>

definition open_controlled_dir ::
  "'w host \<Rightarrow> ('w \<Rightarrow> path \<Rightarrow> string + fs_node list) \<Rightarrow> 'w \<Rightarrow> workspace \<Rightarrow> string \<Rightarrow>
   string + (fs_node list \<times> string list)" where
  "open_controlled_dir h tree w ws arg =
     (let req = replace_backslash arg
      in case resolve (h_exists h w) (h_canonicalize h w) ws (components req) of
           Inl e \<Rightarrow> Inl (''boundary: '' @ guard_error_text (h_io_text h w) req e)
         | Inr _ \<Rightarrow>
             and_then (lexical_relative ws (components req)) (\<lambda>names.
             and_then (tree w (ws_root ws @ map Normal names)) (\<lambda>entries. Inr (entries, names))))"

definition render_header :: "(string \<Rightarrow> string) \<Rightarrow> string \<Rightarrow> tool_navigation_observation \<Rightarrow> string" where
  "render_header json_str tool obs = header_lines [
     ''[ferric:navigation_observation:v1]'',
     ''kind='' @ tool,
     ''root='' @ json_str (tno_root obs),
     ''literal='' @ json_str (tno_literal obs),
     ''result_sha256='' @ tno_result_sha256 obs,
     ''matches='' @ show_nat (tno_matches obs),
     ''limit='' @ show_nat (tno_limit obs),
     ''cap_reached='' @ flag (tno_cap_reached obs),
     ''has_more='' @ flag (tno_has_more obs),
     ''model_truncated='' @ flag (tno_model_truncated obs),
     ''[/ferric:navigation_observation:v1]'']"

definition mark_nav_truncated :: "tool_navigation_observation \<Rightarrow> tool_navigation_observation" where
  "mark_nav_truncated obs = obs\<lparr>tno_model_truncated := True\<rparr>"

definition navigation_args :: "navigator \<Rightarrow> json \<Rightarrow> string + (string \<times> nat \<times> nat)" where
  "navigation_args nav args =
     and_then (arg_string args (nv_literal nav)) (\<lambda>literal.
       if literal = [] then Inl (nv_literal nav @ '' must not be empty'')
       else and_then (optional_positive args ''max_results'') (\<lambda>m.
         let max_results = (case m of None \<Rightarrow> nv_default_max_results nav | Some n \<Rightarrow> n)
         in case checked_add u64_max max_results 1 of
              None \<Rightarrow> Inl ''max_results is too large to establish whether more results exist''
            | Some scan_limit \<Rightarrow> Inr (literal, max_results, scan_limit)))"

definition navigation_observation_of ::
  "'w host \<Rightarrow> navigator \<Rightarrow> string \<Rightarrow> string \<Rightarrow> nat \<Rightarrow> string list \<Rightarrow> tool_navigation_observation" where
  "navigation_observation_of h nav base literal max_results results =
     (let kept = take max_results results
      in \<lparr>tno_kind = nv_kind nav, tno_root = base, tno_literal = literal,
          tno_result_sha256 = h_sha256 h (join [CHR 0x0A] kept), tno_matches = length kept,
          tno_limit = max_results, tno_cap_reached = (length kept = max_results),
          tno_has_more = (max_results < length results), tno_model_truncated = False\<rparr>)"

definition navigation_body :: "nat \<Rightarrow> string list \<Rightarrow> string" where
  "navigation_body max_results results =
     (if take max_results results = [] then ''(no matches)'' else join [CHR 0x0A] (take max_results results))"

definition navigator_prepare ::
  "'w host \<Rightarrow> ('w \<Rightarrow> path \<Rightarrow> string + fs_node list) \<Rightarrow> ('w \<Rightarrow> path \<Rightarrow> string option) \<Rightarrow> navigator \<Rightarrow>
   'w \<Rightarrow> workspace \<Rightarrow> nat \<Rightarrow> json \<Rightarrow> prepare_error + tool_preparation" where
  "navigator_prepare h tree rebound nav w ws limit args =
     with_args (navigation_args nav args) (\<lambda>(literal, max_results, scan_limit).
       case open_controlled_dir h tree w ws (search_path args) of
         Inl m \<Rightarrow> Inl (prepare_error_new PeIo m)
       | Inr (entries, names) \<Rightarrow>
           (case walk_controlled (nv_match nav) literal scan_limit names (sort_key node_name entries) [] of
              Inl m \<Rightarrow> Inl (prepare_error_new PeIo m)
            | Inr results \<Rightarrow>
                (case rebound w (ws_root ws @ map Normal names) of
                   Some m \<Rightarrow> Inl (prepare_error_new PeIo m)
                 | None \<Rightarrow>
                     and_then (normalized_relative_path ws (ws_root ws @ map Normal names)) (\<lambda>base.
                     and_then (evidence_envelope (nv_tool nav) limit
                       (navigation_observation_of h nav base literal max_results results)
                       (navigation_body max_results results)
                       (render_header (h_json_str h) (nv_tool nav)) mark_nav_truncated) (\<lambda>(full, obs).
                         Inr (prep_navigation full obs))))))"

end
