(* ===== verification/Ferric_Monad.thy ===== *)
theory Ferric_Monad
  imports Controller_Validate
begin

text \<open>
  Computations of the loop: a function from a state to a result or an error, with the state it leaves
  behind in both cases, so that an error after a partial effect is visible. The interface
  \<open>step_order\<close> carries a reflexive and transitive relation between states through the
  combinators.
\<close>

section \<open>Errors and combinators\<close>

datatype contract_cause = ContractText string | ControllerCause controller_error

text \<open>The errors of a run: a failing write of the trace, a violated contract, refused input, any
  other message, and a panic.\<close>

datatype ferric_error =
    SinkError string
  | ContractError string contract_cause
  | InvalidInput string
  | OtherError string
  | Panic

type_synonym ('s, 'a) fm = "'s \<Rightarrow> (ferric_error + 'a) \<times> 's"

definition return_d :: "'a \<Rightarrow> ('s, 'a) fm" where
  "return_d v s = (Inr v, s)"

definition fail_d :: "ferric_error \<Rightarrow> ('s, 'a) fm" where
  "fail_d e s = (Inl e, s)"

definition bind_d :: "('s, 'a) fm \<Rightarrow> ('a \<Rightarrow> ('s, 'b) fm) \<Rightarrow> ('s, 'b) fm" where
  "bind_d m f s = (case m s of (Inl e, s') \<Rightarrow> (Inl e, s') | (Inr v, s') \<Rightarrow> f v s')"

definition then_d :: "('s, 'a) fm \<Rightarrow> ('s, 'b) fm \<Rightarrow> ('s, 'b) fm" where
  "then_d m n = bind_d m (\<lambda>_. n)"

definition lift_d :: "ferric_error + 'a \<Rightarrow> ('s, 'a) fm" where
  "lift_d r s = (r, s)"

section \<open>Relations that computations respect\<close>

text \<open>On every outcome, and on success only.\<close>

definition moves :: "('s \<Rightarrow> 's \<Rightarrow> bool) \<Rightarrow> ('s, 'a) fm \<Rightarrow> bool" where
  "moves R m \<longleftrightarrow> (\<forall>s. R s (snd (m s)))"

definition on_ok :: "('a \<Rightarrow> 's \<Rightarrow> bool) \<Rightarrow> (ferric_error + 'a) \<times> 's \<Rightarrow> bool" where
  "on_ok Q r \<longleftrightarrow> (\<forall>v. fst r = Inr v \<longrightarrow> Q v (snd r))"

definition succeeds :: "('s \<Rightarrow> 's \<Rightarrow> bool) \<Rightarrow> ('s, 'a) fm \<Rightarrow> bool" where
  "succeeds R m \<longleftrightarrow> (\<forall>s. on_ok (\<lambda>_. R s) (m s))"

lemma movesD: "moves R m \<Longrightarrow> m s = (r, s') \<Longrightarrow> R s s'"
  unfolding moves_def by (metis snd_conv)

lemma movesI: "(\<And>s. R s (snd (m s))) \<Longrightarrow> moves R m"
  by (simp add: moves_def)

lemma moves_run: "moves R m \<Longrightarrow> R s (snd (m s))"
  by (simp add: moves_def)

lemma succeedsD: "succeeds R m \<Longrightarrow> m s = (Inr v, s') \<Longrightarrow> R s s'"
  unfolding succeeds_def on_ok_def by (metis fst_conv snd_conv)

lemma succeedsI: "(\<And>s v s'. m s = (Inr v, s') \<Longrightarrow> R s s') \<Longrightarrow> succeeds R m"
  unfolding succeeds_def on_ok_def by (metis prod.collapse)

lemma succeeds_atI: "(\<And>s. on_ok (\<lambda>_. R s) (m s)) \<Longrightarrow> succeeds R m"
  by (simp add: succeeds_def)

lemma succeeds_run: "succeeds R m \<Longrightarrow> on_ok (\<lambda>_. R s) (m s)"
  by (simp add: succeeds_def)

lemma bind_d_Inr:
  "bind_d m f s = (Inr v, s') \<longleftrightarrow> (\<exists>u t. m s = (Inr u, t) \<and> f u t = (Inr v, s'))"
  by (auto simp: bind_d_def split: prod.splits sum.splits)

lemma then_d_Inr:
  "then_d m n s = (Inr v, s') \<longleftrightarrow> (\<exists>u t. m s = (Inr u, t) \<and> n t = (Inr v, s'))"
  by (simp add: then_d_def bind_d_Inr)

lemma return_d_Inr: "return_d v s = (Inr u, s') \<longleftrightarrow> u = v \<and> s' = s"
  by (auto simp: return_d_def)

lemma fail_d_Inr: "fail_d e s = (Inr u, s') \<longleftrightarrow> False"
  by (simp add: fail_d_def)

lemma lift_d_Inr: "lift_d r s = (Inr u, s') \<longleftrightarrow> r = Inr u \<and> s' = s"
  by (auto simp: lift_d_def)

lemmas run_simps = bind_d_Inr then_d_Inr return_d_Inr fail_d_Inr lift_d_Inr

locale step_order =
  fixes R :: "'s \<Rightarrow> 's \<Rightarrow> bool"
  assumes R_refl: "R s s"
    and R_trans: "R s t \<Longrightarrow> R t u \<Longrightarrow> R s u"
begin

lemma moves_return: "moves R (return_d v)"
  by (simp add: moves_def return_d_def R_refl)

lemma moves_fail: "moves R (fail_d e)"
  by (simp add: moves_def fail_d_def R_refl)

lemma moves_lift: "moves R (lift_d r)"
  by (simp add: moves_def lift_d_def R_refl)

lemma moves_bind:
  assumes "moves R m" "\<And>v. moves R (f v)"
  shows "moves R (bind_d m f)"
  unfolding moves_def
proof
  fix s
  obtain r t where m: "m s = (r, t)" by force
  have st: "R s t" using assms(1) m by (rule movesD)
  show "R s (snd (bind_d m f s))"
  proof (cases r)
    case (Inr v)
    have "R t (snd (f v t))" using assms(2)[of v] by (simp add: moves_def)
    with st Inr m show ?thesis by (auto simp: bind_d_def intro: R_trans)
  qed (use st m in \<open>simp add: bind_d_def\<close>)
qed

lemma moves_then: "moves R m \<Longrightarrow> moves R n \<Longrightarrow> moves R (then_d m n)"
  unfolding then_d_def by (rule moves_bind)

lemma moves_succeeds: "moves R m \<Longrightarrow> succeeds R m"
  by (rule succeedsI) (rule movesD)

lemma succeeds_bind:
  assumes "succeeds R m" "\<And>v. succeeds R (f v)"
  shows "succeeds R (bind_d m f)"
proof (rule succeedsI)
  fix s v s'
  assume "bind_d m f s = (Inr v, s')"
  then obtain u t where "m s = (Inr u, t)" "f u t = (Inr v, s')" by (auto simp: bind_d_Inr)
  then show "R s s'" using succeedsD[OF assms(1)] succeedsD[OF assms(2)] R_trans by metis
qed

lemma succeeds_then: "succeeds R m \<Longrightarrow> succeeds R n \<Longrightarrow> succeeds R (then_d m n)"
  unfolding then_d_def by (rule succeeds_bind)

lemmas move_rules = moves_return moves_fail moves_lift moves_bind moves_then

lemma succeeds_return: "succeeds R (return_d v)"
  by (rule moves_succeeds[OF moves_return])

lemma succeeds_fail: "succeeds R (fail_d e)"
  by (rule moves_succeeds[OF moves_fail])

lemma succeeds_lift: "succeeds R (lift_d r)"
  by (rule moves_succeeds[OF moves_lift])

lemmas success_rules = succeeds_return succeeds_fail succeeds_lift succeeds_bind succeeds_then

end

end
