(* ===== verification/Tool_Registry.thy ===== *)
theory Tool_Registry
  imports Controlled_File Rust_Collections "HOL-Library.Product_Lexorder"
begin

text \<open>
  The chokepoint every tool call passes, \<^verbatim>\<open>ferric-tools\<close>'s \<^verbatim>\<open>registry.rs\<close>:
  the vocabulary of a run policy, the guard over the declared targets and commands, the sink gate, the
  side-effect-free preparation, the commit of an admitted preparation and the unguarded-by-evidence
  \<^verbatim>\<open>execute\<close>. A call takes the state \<open>w\<close> of the world and returns the next one, so
  "the handler never ran" is a statement about it. An approver is a function of the request; the text of
  a path is what \<^verbatim>\<open>Path::display\<close> prints.
\<close>

section \<open>Results\<close>

record tool_output =
  to_full :: string
  to_for_model :: string
  to_is_error :: bool

record check_record =
  ck_path :: string
  ck_decision :: string
  ck_rule :: "string option"
  ck_matched :: "string option"

definition check_allow :: "string \<Rightarrow> check_record" where
  "check_allow p = \<lparr>ck_path = p, ck_decision = ''allow'', ck_rule = None, ck_matched = None\<rparr>"

definition check_deny :: "string \<Rightarrow> string \<Rightarrow> string \<Rightarrow> check_record" where
  "check_deny p rule matched =
     \<lparr>ck_path = p, ck_decision = ''deny'', ck_rule = Some rule, ck_matched = Some matched\<rparr>"

datatype execute_outcome =
    ExCompleted tool_output nat "check_record list"
  | ExDenied string "check_record list"
  | ExUnknownTool string

record 'w prepared_call =
  pc_tool :: "'w tool"
  pc_workspace :: workspace
  pc_args :: json
  pc_spec :: tool_spec
  pc_preparation :: tool_preparation
  pc_checks :: "check_record list"
  pc_duration_ms :: nat

datatype 'w prepare_outcome =
    PoPrepared "'w prepared_call"
  | PoRejected prepare_error nat "check_record list"
  | PoDenied string "check_record list"
  | PoUnknownTool string

definition pc_intent :: "'w prepared_call \<Rightarrow> prepared_intent" where
  "pc_intent c = prep_intent (pc_preparation c)"

definition pc_permission :: "'w prepared_call \<Rightarrow> permission_level" where
  "pc_permission c = ts_permission (pc_spec c)"

datatype controlled_outcome =
    CoCompleted tool_output control_metadata nat "check_record list"
  | CoDenied string "check_record list"

section \<open>The registry\<close>

record 'w registry =
  rg_tools :: "(string, 'w tool) btree_map"
  rg_truncation_limit :: nat
  rg_required_checks :: "string list"

definition with_truncation_limit :: "nat \<Rightarrow> 'w registry" where
  "with_truncation_limit n = \<lparr>rg_tools = [], rg_truncation_limit = n, rg_required_checks = []\<rparr>"

definition registry_new :: "'w registry" where
  "registry_new = with_truncation_limit DEFAULT_TRUNCATION_LIMIT"

definition set_required_checks :: "string list \<Rightarrow> 'w registry \<Rightarrow> 'w registry" where
  "set_required_checks names r = r\<lparr>rg_required_checks := dedup (sort names)\<rparr>"

definition register :: "'w tool \<Rightarrow> 'w registry \<Rightarrow> 'w registry" where
  "register t r = r\<lparr>rg_tools := bt_insert (ts_name (t_spec t)) t (rg_tools r)\<rparr>"

definition permission_of :: "'w registry \<Rightarrow> string \<Rightarrow> permission_level option" where
  "permission_of r name = map_option (\<lambda>t. ts_permission (t_spec t)) (bt_get (rg_tools r) name)"

fun capability_matches_permission :: "control_capability \<Rightarrow> permission_level \<Rightarrow> bool" where
  "capability_matches_permission CapReadOnly Read = True"
| "capability_matches_permission CapContentMutation Write = True"
| "capability_matches_permission CapVerification Execute = True"
| "capability_matches_permission _ _ = False"

fun intent_matches_permission :: "permission_level \<Rightarrow> prepared_intent \<Rightarrow> bool" where
  "intent_matches_permission Read PiReadOnly = True"
| "intent_matches_permission Read (PiFileObservation _) = True"
| "intent_matches_permission Read (PiNavigation _) = True"
| "intent_matches_permission Write (PiMutation _) = True"
| "intent_matches_permission Execute (PiVerification _) = True"
| "intent_matches_permission _ _ = False"

fun intent_label :: "prepared_intent \<Rightarrow> string" where
  "intent_label PiReadOnly = ''read-only''"
| "intent_label (PiFileObservation _) = ''file-observation''"
| "intent_label (PiNavigation _) = ''navigation''"
| "intent_label (PiMutation _) = ''mutation''"
| "intent_label (PiVerification _) = ''verification''"

section \<open>The vocabulary of a policy\<close>

definition ring_ceiling :: "run_policy \<Rightarrow> nat" where
  "ring_ceiling p =
     min (ring_for_tier (rp_tier p)) (case max_ring p of None \<Rightarrow> 255 | Some n \<Rightarrow> n)"

definition eligible_specs :: "'w registry \<Rightarrow> run_policy \<Rightarrow> ('w tool \<Rightarrow> bool) \<Rightarrow> tool_spec list" where
  "eligible_specs r p offered =
     filter (\<lambda>s. ts_ring s \<le> ring_ceiling p) (map t_spec (filter offered (bt_values (rg_tools r))))"

definition vocabulary :: "'w registry \<Rightarrow> run_policy \<Rightarrow> ('w tool \<Rightarrow> bool) \<Rightarrow> tool_spec list" where
  "vocabulary r p offered =
     sort_key ts_name
       (take (max_tools p) (sort_key (\<lambda>s. (ts_ring s, ts_name s)) (eligible_specs r p offered)))"

definition tools_for_policy :: "'w registry \<Rightarrow> run_policy \<Rightarrow> tool_spec list" where
  "tools_for_policy r p = vocabulary r p (\<lambda>_. True)"

definition controlled_offer :: "'w tool \<Rightarrow> bool" where
  "controlled_offer t \<longleftrightarrow>
     is_supported (t_capability t) \<and> capability_matches_permission (t_capability t) (ts_permission (t_spec t))"

definition tools_for_controlled_policy :: "'w registry \<Rightarrow> run_policy \<Rightarrow> tool_spec list" where
  "tools_for_controlled_policy r p = vocabulary r p controlled_offer"

section \<open>The guard\<close>

definition denial_text :: "deny_reason \<Rightarrow> string" where
  "denial_text r = ''permission: '' @ dr_rule r @ '' matched '' @ dr_matched r"

text \<open>The loop over the target paths: \<open>Inl\<close> is the denial with the records so far.\<close>

fun guard_paths ::
  "'w host \<Rightarrow> 'w \<Rightarrow> workspace \<Rightarrow> permission_level \<Rightarrow> check_record list \<Rightarrow> string list \<Rightarrow>
   (string \<times> check_record list) + check_record list" where
  "guard_paths h w ws perm acc [] = Inr acc"
| "guard_paths h w ws perm acc (target # targets) =
     (case admit (h_exists h w) (h_canonicalize h w) ws perm (components target) of
        Inr resolved \<Rightarrow> guard_paths h w ws perm (acc @ [check_allow (display_path resolved)]) targets
      | Inl (Boundary e) \<Rightarrow>
          (let m = guard_error_text (h_io_text h w) target e
           in Inl (''boundary: '' @ m, acc @ [check_deny target ''boundary'' m]))
      | Inl (Denied resolved reason) \<Rightarrow>
          Inl (denial_text reason,
               acc @ [check_deny (display_path resolved) (dr_rule reason) (dr_matched reason)]))"

fun guard_commands ::
  "check_record list \<Rightarrow> string list \<Rightarrow> (string \<times> check_record list) + check_record list" where
  "guard_commands acc [] = Inr acc"
| "guard_commands acc (command # commands) =
     (case check_command command of
        Deny reason \<Rightarrow>
          Inl (denial_text reason, acc @ [check_deny command (dr_rule reason) (dr_matched reason)])
      | Allow \<Rightarrow> guard_commands (acc @ [check_allow command]) commands)"

definition guard ::
  "'w host \<Rightarrow> 'w \<Rightarrow> 'w tool \<Rightarrow> tool_spec \<Rightarrow> workspace \<Rightarrow> json \<Rightarrow>
   (string \<times> check_record list) + check_record list" where
  "guard h w t spec ws args =
     and_then (guard_paths h w ws (ts_permission spec) [] (t_target_paths t args)) (\<lambda>acc.
       guard_commands acc (t_target_commands t args))"

section \<open>The sink gate\<close>

record approval_request =
  ar_tool :: string
  ar_permission :: permission_level
  ar_args :: json

type_synonym sink_approver = "approval_request \<Rightarrow> bool"

definition no_approver_text :: string where
  "no_approver_text = ''sink policy: this run has ingested untrusted research content, so mutations require human approval ''
     @ [CHR 0xE2, CHR 0x80, CHR 0x94]
     @ '' and this run has no approver. Re-run with --accept-edits to approve interactively, or --sink-action warn to proceed unguarded.''"

definition sink_gate ::
  "tool_spec \<Rightarrow> json \<Rightarrow> provenance \<Rightarrow> sink_policy \<Rightarrow> sink_approver option \<Rightarrow> string check" where
  "sink_gate spec args prov pol approver =
     (case decide pol (ts_permission spec) prov of
        DecisionAllow \<Rightarrow> ok
      | DecisionWarn \<Rightarrow> ok
      | DecisionRequireApproval \<Rightarrow>
          (case approver of
             Some approve \<Rightarrow>
               require (approve \<lparr>ar_tool = ts_name spec, ar_permission = ts_permission spec, ar_args = args\<rparr>)
                 ''sink policy: mutation rejected by human (run has ingested untrusted content)''
           | None \<Rightarrow> Inl no_approver_text)
      | DecisionDeny \<Rightarrow> Inl ''sink policy: mutation denied (run has ingested untrusted content)'')"

section \<open>Preparation and commit\<close>

fun capability_debug :: "control_capability \<Rightarrow> string" where
  "capability_debug CapReadOnly = ''ReadOnly''"
| "capability_debug CapContentMutation = ''ContentMutation''"
| "capability_debug CapVerification = ''Verification''"
| "capability_debug CapOpaque = ''Opaque''"

definition unsupported_operation :: "string \<Rightarrow> prepare_error" where
  "unsupported_operation m =
     with_witness (prepare_error_new PeUnsupportedOperation m) (PwUnsupportedMutation UmUnsupportedOperation)"

definition capability_mismatch :: "control_capability \<Rightarrow> permission_level \<Rightarrow> prepare_error" where
  "capability_mismatch c p = unsupported_operation
     (''controlled preparation rejected capability/permission mismatch: '' @ capability_debug c
      @ '' capability on '' @ permission_debug p @ '' tool'')"

definition intent_mismatch :: "permission_level \<Rightarrow> prepared_intent \<Rightarrow> prepare_error" where
  "intent_mismatch p i = unsupported_operation
     (''controlled preparation rejected permission/intent mismatch: '' @ permission_debug p
      @ '' tool returned '' @ intent_label i @ '' intent'')"

definition prepare_guarded ::
  "'w host \<Rightarrow> 'w \<Rightarrow> 'w registry \<Rightarrow> 'w tool \<Rightarrow> workspace \<Rightarrow> json \<Rightarrow> check_record list \<Rightarrow> 'w prepare_outcome" where
  "prepare_guarded h w r t ws args cks =
     (let spec = t_spec t; ms = h_elapsed_ms h w (ts_name spec) args
      in if \<not> is_supported (t_capability t) then
           PoRejected (prepare_error_opaque (ts_permission spec)) 0 cks
         else if \<not> capability_matches_permission (t_capability t) (ts_permission spec) then
           PoRejected (capability_mismatch (t_capability t) (ts_permission spec)) 0 cks
         else case t_prepare t w ws (rg_truncation_limit r) args of
           Inr preparation \<Rightarrow>
             if intent_matches_permission (ts_permission spec) (prep_intent preparation) then
               PoPrepared \<lparr>pc_tool = t, pc_workspace = ws, pc_args = args, pc_spec = spec,
                           pc_preparation = preparation, pc_checks = cks, pc_duration_ms = ms\<rparr>
             else PoRejected (intent_mismatch (ts_permission spec) (prep_intent preparation)) ms cks
         | Inl e \<Rightarrow> PoRejected e ms cks)"

definition prepare_controlled ::
  "'w host \<Rightarrow> 'w \<Rightarrow> 'w registry \<Rightarrow> workspace \<Rightarrow> string \<Rightarrow> json \<Rightarrow> 'w prepare_outcome" where
  "prepare_controlled h w r ws name args =
     (case bt_get (rg_tools r) name of
        None \<Rightarrow> PoUnknownTool name
      | Some t \<Rightarrow>
          (case guard h w t (t_spec t) ws args of
             Inl (reason, cks) \<Rightarrow> PoDenied reason cks
           | Inr cks \<Rightarrow> prepare_guarded h w r t ws args cks))"

text \<open>What an execution yields: the text, whether it is an error, the effects and an explicit failure.\<close>

record execution_result =
  er_full :: string
  er_is_error :: bool
  er_effects :: workspace_effect_report
  er_failure :: "control_failure option"

definition of_commit :: "file_commit_result \<Rightarrow> execution_result" where
  "of_commit c = \<lparr>er_full = fcr_full c, er_is_error = fcr_is_error c, er_effects = fcr_effects c,
                  er_failure = fcr_failure c\<rparr>"

definition of_run :: "workspace_effect_report \<Rightarrow> string + string \<Rightarrow> execution_result" where
  "of_run effects r =
     (case r of
        Inr out \<Rightarrow> \<lparr>er_full = out, er_is_error = False, er_effects = effects, er_failure = None\<rparr>
      | Inl err \<Rightarrow> \<lparr>er_full = err, er_is_error = True, er_effects = effects, er_failure = None\<rparr>)"

fun perform ::
  "'w host \<Rightarrow> 'w \<Rightarrow> 'w tool \<Rightarrow> workspace \<Rightarrow> json \<Rightarrow> prepared_execution \<Rightarrow> execution_result \<times> 'w" where
  "perform h w t ws args (PxDeferred effects) =
     (case t_run t w ws args of (r, w') \<Rightarrow> (of_run effects r, w'))"
| "perform h w t ws args (PxImmediate full is_error effects failure) =
     (\<lparr>er_full = full, er_is_error = is_error, er_effects = effects, er_failure = failure\<rparr>, w)"
| "perform h w t ws args (PxFileMutation cand) =
     (case h_publish h w ws cand of (r, w') \<Rightarrow> (of_commit r, w'))"
| "perform h w t ws args (PxPathMutation cand) =
     (case commit_path_mutation h w ws cand of (r, w') \<Rightarrow> (of_commit r, w'))"

fun intent_observation :: "prepared_intent \<Rightarrow> tool_observation option" where
  "intent_observation (PiFileObservation v) = Some (ToFile v)"
| "intent_observation (PiNavigation v) = Some (ToNavigation v)"
| "intent_observation _ = None"

fun intent_verification :: "bool \<Rightarrow> prepared_intent \<Rightarrow> verification_attempt option" where
  "intent_verification is_error (PiVerification v) = Some \<lparr>va_name = vi_name v, va_passed = (\<not> is_error)\<rparr>"
| "intent_verification is_error _ = None"

definition execution_failure :: "execution_result \<Rightarrow> control_failure option" where
  "execution_failure e =
     (case er_failure e of
        Some f \<Rightarrow> Some f
      | None \<Rightarrow>
          if er_is_error e then Some \<lparr>cf_kind = CfToolError, cf_message = er_full e, cf_witness = None\<rparr>
          else None)"

definition execution_metadata :: "prepared_intent \<Rightarrow> execution_result \<Rightarrow> control_metadata" where
  "execution_metadata intent e =
     \<lparr>cm_observation = (if er_is_error e then None else intent_observation intent),
      cm_verification = intent_verification (er_is_error e) intent,
      cm_effects = er_effects e, cm_failure = execution_failure e\<rparr>"

definition output_of :: "nat \<Rightarrow> string \<Rightarrow> bool \<Rightarrow> tool_output" where
  "output_of limit full is_error =
     \<lparr>to_full = full, to_for_model = truncate_for_model full limit, to_is_error = is_error\<rparr>"

definition commit_admitted ::
  "'w host \<Rightarrow> 'w \<Rightarrow> 'w registry \<Rightarrow> 'w prepared_call \<Rightarrow> provenance \<Rightarrow> sink_policy \<Rightarrow> sink_approver option \<Rightarrow>
   controlled_outcome \<times> 'w" where
  "commit_admitted h w r c prov pol approver =
     (case sink_gate (pc_spec c) (pc_args c) prov pol approver of
        Inl reason \<Rightarrow> (CoDenied reason (pc_checks c), w)
      | Inr _ \<Rightarrow>
          (case perform h w (pc_tool c) (pc_workspace c) (pc_args c) (prep_execution (pc_preparation c)) of
             (e, w') \<Rightarrow>
               (CoCompleted (output_of (rg_truncation_limit r) (er_full e) (er_is_error e))
                  (execution_metadata (pc_intent c) e)
                  (saturating_add u64_max (pc_duration_ms c) (h_elapsed_ms h w (ts_name (pc_spec c)) (pc_args c)))
                  (pc_checks c), w')))"

definition execute ::
  "'w host \<Rightarrow> 'w \<Rightarrow> 'w registry \<Rightarrow> workspace \<Rightarrow> string \<Rightarrow> json \<Rightarrow> provenance \<Rightarrow> sink_policy \<Rightarrow>
   sink_approver option \<Rightarrow> execute_outcome \<times> 'w" where
  "execute h w r ws name args prov pol approver =
     (case bt_get (rg_tools r) name of
        None \<Rightarrow> (ExUnknownTool name, w)
      | Some t \<Rightarrow>
          (case guard h w t (t_spec t) ws args of
             Inl (reason, cks) \<Rightarrow> (ExDenied reason cks, w)
           | Inr cks \<Rightarrow>
               (case sink_gate (t_spec t) args prov pol approver of
                  Inl reason \<Rightarrow> (ExDenied reason cks, w)
                | Inr _ \<Rightarrow>
                    (case t_run t w ws args of
                       (res, w') \<Rightarrow>
                         (let (full, is_error) = (case res of Inr out \<Rightarrow> (out, False) | Inl err \<Rightarrow> (err, True))
                          in (ExCompleted (output_of (rg_truncation_limit r) full is_error)
                                (h_elapsed_ms h w name args) cks, w'))))))"

section \<open>Facts\<close>

text \<open>What the guard has established when it lets a call pass.\<close>

definition guarded :: "'w host \<Rightarrow> 'w \<Rightarrow> workspace \<Rightarrow> 'w tool \<Rightarrow> json \<Rightarrow> bool" where
  "guarded h w ws t args \<longleftrightarrow>
     (\<forall>target \<in> set (t_target_paths t args).
        \<exists>p. admit (h_exists h w) (h_canonicalize h w) ws (ts_permission (t_spec t)) (components target) = Inr p)
     \<and> (\<forall>c \<in> set (t_target_commands t args). check_command c = Allow)"

text \<open>What the sink gate has established: a mutation of a contaminated run was approved or is only
  to be warned about.\<close>

definition sink_admitted ::
  "provenance \<Rightarrow> sink_policy \<Rightarrow> sink_approver option \<Rightarrow> tool_spec \<Rightarrow> json \<Rightarrow> bool" where
  "sink_admitted prov pol approver spec args \<longleftrightarrow>
     prov = Clean \<or> ts_permission spec = Read \<or> tainted_sink pol = SinkWarn
     \<or> (tainted_sink pol = SinkRequireApproval
        \<and> (\<exists>approve. approver = Some approve
             \<and> approve \<lparr>ar_tool = ts_name spec, ar_permission = ts_permission spec, ar_args = args\<rparr>))"

lemma guard_paths_ok:
  "guard_paths h w ws perm acc targets = Inr cks \<Longrightarrow>
   \<forall>target \<in> set targets. \<exists>p. admit (h_exists h w) (h_canonicalize h w) ws perm (components target) = Inr p"
  by (induction targets arbitrary: acc) (auto split: sum.splits admit_error.splits simp: Let_def)

lemma guard_commands_ok:
  "guard_commands acc commands = Inr cks \<Longrightarrow> \<forall>c \<in> set commands. check_command c = Allow"
  by (induction commands arbitrary: acc) (auto split: decision.splits)

lemma guard_ok: "guard h w t (t_spec t) ws args = Inr cks \<Longrightarrow> guarded h w ws t args"
  unfolding guard_def guarded_def
  by (auto simp: result_simps dest!: guard_paths_ok guard_commands_ok)

lemma sink_gate_ok:
  "sink_gate spec args prov pol approver = ok \<longleftrightarrow> sink_admitted prov pol approver spec args"
  by (cases prov; cases "tainted_sink pol"; cases "ts_permission spec"; cases approver)
     (auto simp: sink_gate_def sink_admitted_def decide_def result_simps)

lemma prepare_controlled_PoPrepared:
  assumes "prepare_controlled h w r ws name args = PoPrepared c"
  shows "\<exists>t. bt_get (rg_tools r) name = Some t \<and> pc_tool c = t \<and> pc_spec c = t_spec t \<and> pc_workspace c = ws
     \<and> pc_args c = args \<and> guarded h w ws t args \<and> controlled_offer t
     \<and> t_prepare t w ws (rg_truncation_limit r) args = Inr (pc_preparation c)
     \<and> intent_matches_permission (ts_permission (t_spec t)) (pc_intent c)"
proof -
  obtain t where t: "bt_get (rg_tools r) name = Some t"
    using assms by (auto simp: prepare_controlled_def split: option.splits)
  obtain cks where g: "guard h w t (t_spec t) ws args = Inr cks"
    and p: "prepare_guarded h w r t ws args cks = PoPrepared c"
    using assms t by (auto simp: prepare_controlled_def split: sum.splits)
  obtain prep where "t_prepare t w ws (rg_truncation_limit r) args = Inr prep"
    using p by (auto simp: prepare_guarded_def Let_def split: if_splits sum.splits)
  with p t guard_ok[OF g] show ?thesis
    by (auto simp: prepare_guarded_def Let_def controlled_offer_def pc_intent_def split: if_splits)
qed

definition registry_wf :: "'w registry \<Rightarrow> bool" where
  "registry_wf r \<longleftrightarrow> bt_wf (rg_tools r) \<and> (\<forall>k t. bt_get (rg_tools r) k = Some t \<longrightarrow> ts_name (t_spec t) = k)"

lemma registry_wf_new [simp]: "registry_wf (with_truncation_limit n)"
  by (simp add: registry_wf_def with_truncation_limit_def)

lemma registry_wf_register [simp]: "registry_wf r \<Longrightarrow> registry_wf (register t r)"
  by (simp add: registry_wf_def register_def)

end
