(* ===== verification/Controlled_Dispatch.thy ===== *)
theory Controlled_Dispatch
  imports Ferric_Monad Tool_Registry Trace_Projector Evidence_Controller
begin

text \<open>
  The dispatch of one tool call under the evidence policy, \<^verbatim>\<open>ferric-loop\<close>'s
  \<^verbatim>\<open>controlled_dispatch.rs\<close>. A computation takes the state of the dispatch (the controller, the
  trace written so far, the live projector and the world) and returns a result or an error with the state
  it leaves behind, so that an error after a partial effect is visible. Writing an event can fail: the
  environment's \<open>de_sink\<close> is given the trace so far and returns the error. A text of the controller
  inside a contract error is the typed error itself.
\<close>

section \<open>State, errors and records\<close>

record 'w dispatch_state =
  ds_controller :: controller_state
  ds_trace :: "event list"
  ds_projector :: trace_projector
  ds_world :: 'w

type_synonym ('w, 'a) dm = "('w dispatch_state, 'a) fm"

record edit_preview =
  ep_tool :: string
  ep_targets :: "string list"
  ep_detail :: string

record 'w dispatch_env =
  de_host :: "'w host"
  de_registry :: "'w registry"
  de_workspace :: workspace
  de_provenance :: provenance
  de_sink_policy :: sink_policy
  de_approver :: "(edit_preview \<Rightarrow> bool) option"
  de_sink :: "event list \<Rightarrow> event \<Rightarrow> string option"
  de_pretty :: "json \<Rightarrow> string"

record dispatch_result =
  dr_full :: string
  dr_is_error :: bool
  dr_duration_ms :: nat
  dr_controller_blocked :: bool

definition contract_error :: "string \<Rightarrow> string \<Rightarrow> ferric_error" where
  "contract_error tool m = ContractError tool (ContractText m)"

definition controller_contract :: "string \<Rightarrow> controller_error + 'a \<Rightarrow> ferric_error + 'a" where
  "controller_contract tool r =
     (case r of Inl e \<Rightarrow> Inl (ContractError tool (ControllerCause e)) | Inr v \<Rightarrow> Inr v)"

section \<open>Recording\<close>

definition record_event :: "'w dispatch_env \<Rightarrow> event \<Rightarrow> ('w, unit) dm" where
  "record_event env ev s =
     (case de_sink env (ds_trace s) ev of
        Some m \<Rightarrow> (Inl (SinkError m), s)
      | None \<Rightarrow> (Inr (), s\<lparr>ds_trace := ds_trace s @ [ev], ds_projector := projector_step (ds_projector s) ev\<rparr>))"

definition permission_event :: "check_record \<Rightarrow> event" where
  "permission_event c = EvPermissionCheck (ck_path c) (ck_decision c) (ck_rule c) (ck_matched c)"

fun record_permission_checks :: "'w dispatch_env \<Rightarrow> check_record list \<Rightarrow> ('w, unit) dm" where
  "record_permission_checks env [] = return_d ()"
| "record_permission_checks env (c # cs) =
     then_d (record_event env (permission_event c)) (record_permission_checks env cs)"

definition record_block :: "'w dispatch_env \<Rightarrow> nat \<Rightarrow> tool_call \<Rightarrow> controller_block \<Rightarrow> ('w, unit) dm" where
  "record_block env turn call b = record_event env (EvControllerBlocked turn (tc_id call) (tc_name call) b)"

definition record_result ::
  "'w dispatch_env \<Rightarrow> tool_call \<Rightarrow> string \<Rightarrow> bool \<Rightarrow> nat \<Rightarrow> ('w, dispatch_result) dm" where
  "record_result env call full is_error ms =
     then_d (record_event env (EvToolResult (tc_id call) (tc_name call) full is_error ms))
       (return_d \<lparr>dr_full = full, dr_is_error = is_error, dr_duration_ms = ms, dr_controller_blocked = False\<rparr>)"

definition record_blocked_result ::
  "'w dispatch_env \<Rightarrow> tool_call \<Rightarrow> string \<Rightarrow> nat \<Rightarrow> ('w, dispatch_result) dm" where
  "record_blocked_result env call full ms =
     bind_d (record_result env call full True ms) (\<lambda>r. return_d (r\<lparr>dr_controller_blocked := True\<rparr>))"

section \<open>Translations\<close>

fun prepared_identity :: "path_state \<Rightarrow> path_identity" where
  "prepared_identity PsAbsent = Absent"
| "prepared_identity (PsFile sha bytes _) = FileId sha bytes"
| "prepared_identity PsDirectory = Directory"
| "prepared_identity PsOther = OtherId"

definition prepared_path_state_of :: "candidate_path_state \<Rightarrow> prepared_path_state" where
  "prepared_path_state_of st =
     \<lparr>pps_path = cps_path st, pps_before = prepared_identity (cps_before st),
      pps_candidate = prepared_identity (cps_candidate st)\<rparr>"

fun syntax_state_of :: "tool_syntax_state \<Rightarrow> syntax_state" where
  "syntax_state_of TsAbsent = SynAbsent"
| "syntax_state_of TsValid = SynValid"
| "syntax_state_of TsInvalid = SynInvalid"
| "syntax_state_of (TsUnchecked _) = SynUnchecked"

fun unsupported_kind_of :: "unsupported_mutation_kind \<Rightarrow> unsupported_kind" where
  "unsupported_kind_of UmOpaqueMutation = OpaqueMutation"
| "unsupported_kind_of UmUnsupportedOperation = UnsupportedOperation"

definition mutation_requirements :: "mutation_intent \<Rightarrow> mutation_requirement list" where
  "mutation_requirements i =
     map (\<lambda>st. \<lparr>mr_path = cps_path st, mr_current = prepared_identity (cps_before st)\<rparr>) (mi_states i)"

fun effect_kind_of :: "workspace_effect_kind \<Rightarrow> path_effect_kind option" where
  "effect_kind_of WkCreated = Some Created"
| "effect_kind_of WkModified = Some Modified"
| "effect_kind_of WkDeleted = Some Deleted"
| "effect_kind_of WkCreatedDirectory = Some CreatedDirectory"
| "effect_kind_of WkDeletedDirectory = Some DeletedDirectory"
| "effect_kind_of WkOpaque = None"

fun state_digest :: "path_state \<Rightarrow> string option" where
  "state_digest (PsFile sha _ _) = Some sha"
| "state_digest _ = None"

fun state_bytes :: "path_state \<Rightarrow> nat option" where
  "state_bytes (PsFile _ bytes _) = Some bytes"
| "state_bytes _ = None"

fun state_lines :: "path_state \<Rightarrow> nat option" where
  "state_lines (PsFile _ _ lines) = Some lines"
| "state_lines _ = None"

definition path_effect_of :: "(string \<Rightarrow> string) \<Rightarrow> tool_workspace_effect \<Rightarrow> string + path_effect" where
  "path_effect_of debug e =
     (case effect_kind_of (twe_kind e) of
        None \<Rightarrow> Inl (''workspace effect for '' @ debug (twe_path e) @ '' is opaque'')
      | Some k \<Rightarrow>
          if twe_before e = PsOther then
            Inl (''workspace effect for '' @ debug (twe_path e) @ '' has a non-file preimage'')
          else if twe_after e = PsOther then
            Inl (''workspace effect for '' @ debug (twe_path e) @ '' has a non-file postimage'')
          else Inr \<lparr>pe_path = twe_path e, pe_kind = k, pe_before_sha256 = state_digest (twe_before e),
                    pe_after_sha256 = state_digest (twe_after e), pe_after_bytes = state_bytes (twe_after e),
                    pe_after_lines = state_lines (twe_after e)\<rparr>)"

fun collect_results :: "('e + 'a) list \<Rightarrow> 'e + 'a list" where
  "collect_results [] = Inr []"
| "collect_results (r # rs) = and_then r (\<lambda>v. and_then (collect_results rs) (\<lambda>vs. Inr (v # vs)))"

definition workspace_effect_of ::
  "(string \<Rightarrow> string) \<Rightarrow> nat \<Rightarrow> tool_workspace_effect list \<Rightarrow> string + workspace_effect" where
  "workspace_effect_of debug current_epoch effects =
     and_then (ok_or (checked_add u64_max current_epoch 1) ''workspace mutation epoch overflowed'') (\<lambda>epoch.
     and_then (collect_results (map (path_effect_of debug) effects)) (\<lambda>es.
       Inr \<lparr>we_version = CONTROLLER_RECORD_VERSION, we_mutation_epoch = epoch, we_effects = es\<rparr>))"

definition file_observation_of :: "tool_file_observation \<Rightarrow> observation" where
  "file_observation_of o' =
     \<lparr>obs_version = CONTROLLER_RECORD_VERSION,
      obs_detail = ObsFile
        \<lparr>fo_path = tfo_path o', fo_sha256 = tfo_sha256 o', fo_total_bytes = tfo_bytes o',
         fo_total_lines = tfo_total_lines o',
         fo_requested_range =
           (if rlr_start (tfo_requested o') \<noteq> None \<or> rlr_end (tfo_requested o') \<noteq> None
            then Some \<lparr>rr_start = rlr_start (tfo_requested o'), rr_end = rlr_end (tfo_requested o')\<rparr> else None),
         fo_returned_range = map_option (\<lambda>r. \<lparr>lr_start = tlr_start r, lr_end = tlr_end r\<rparr>) (tfo_returned o'),
         fo_complete = tfo_complete o', fo_model_truncated = tfo_model_truncated o'\<rparr>\<rparr>"

definition navigation_observation_v1 :: "tool_navigation_observation \<Rightarrow> observation" where
  "navigation_observation_v1 o' =
     (let nav = \<lparr>nav_root = tno_root o', nav_literal = tno_literal o', nav_match_count = tno_matches o',
                 nav_max_results = tno_limit o', nav_exhausted = (\<not> tno_has_more o'),
                 nav_result_sha256 = tno_result_sha256 o'\<rparr>
      in \<lparr>obs_version = CONTROLLER_RECORD_VERSION,
          obs_detail = (case tno_kind o' of FindFiles \<Rightarrow> ObsFind nav | SearchFiles \<Rightarrow> ObsSearch nav)\<rparr>)"

section \<open>Contracts of the metadata\<close>

definition require_no_effect_report ::
  "string \<Rightarrow> workspace_effect_report \<Rightarrow> bool \<Rightarrow> ferric_error check" where
  "require_no_effect_report tool report allow_unmeasured_read =
     require (report = MeasuredEffects [] \<or> (report = UnmeasuredReadOnly \<and> allow_unmeasured_read))
       (contract_error tool ''non-mutation returned incompatible workspace-effect metadata'')"

definition require_no_typed_metadata :: "string \<Rightarrow> control_metadata \<Rightarrow> ferric_error check" where
  "require_no_typed_metadata tool m =
     require (\<not> (cm_observation m \<noteq> None \<or> cm_verification m \<noteq> None))
       (contract_error tool ''read-only intent returned unrelated typed metadata'')"

definition require_verification_contract ::
  "string \<Rightarrow> control_metadata \<Rightarrow> bool \<Rightarrow> ferric_error check" where
  "require_verification_contract tool m is_error = checks [
     require (cm_effects m = UnmeasuredLegacy)
       (contract_error tool ''verification returned workspace-effect metadata outside its declared unmeasured contract''),
     require (cm_observation m = None)
       (contract_error tool ''verification returned unrelated observation metadata''),
     require (case cm_failure m of
                None \<Rightarrow> \<not> is_error
              | Some f \<Rightarrow> is_error \<and> cf_kind f = CfToolError \<and> cf_witness f = None)
       (contract_error tool ''verification returned an incompatible failure classification'')]"

section \<open>Preparation refusals\<close>

fun targets_of_keys ::
  "'w host \<Rightarrow> 'w \<Rightarrow> workspace \<Rightarrow> tool_call \<Rightarrow> string list \<Rightarrow> ferric_error + string list" where
  "targets_of_keys h w ws call [] = Inr []"
| "targets_of_keys h w ws call (key # keys) =
     (case Option.bind (json_get (tc_args call) key) json_as_str of
        None \<Rightarrow> Inl (contract_error (tc_name call)
                  (''missing string target argument '' @ h_debug_str h key))
      | Some v \<Rightarrow>
          (case resolve (h_exists h w) (h_canonicalize h w) ws (components v) of
             Inl e \<Rightarrow> Inl (contract_error (tc_name call)
                       (''cannot normalize target: '' @ guard_error_text (h_io_text h w) v e))
           | Inr resolved \<Rightarrow>
               (case relative ws resolved of
                  None \<Rightarrow> Inl (contract_error (tc_name call) ''normalized target escaped the workspace'')
                | Some p \<Rightarrow> and_then (targets_of_keys h w ws call keys) (\<lambda>ps. Inr (p # ps)))))"

definition controlled_target_paths ::
  "'w host \<Rightarrow> 'w \<Rightarrow> workspace \<Rightarrow> tool_call \<Rightarrow> ferric_error + string list" where
  "controlled_target_paths h w ws call =
     targets_of_keys h w ws call
       (if tc_name call \<in> {''write_file'', ''edit_file'', ''multi_edit'', ''apply_patch''} then [''path''] else [])"

definition no_effect_preparation ::
  "controller_state \<Rightarrow> tool_call \<Rightarrow> prepare_error \<Rightarrow> ferric_error + controller_block" where
  "no_effect_preparation c call e =
     (case perr_witness e of
        Some (PwNoEffect _ states) \<Rightarrow>
          controller_contract (tc_name call) (no_effect_block c (map prepared_path_state_of states))
      | _ \<Rightarrow> Inl (contract_error (tc_name call) ''no-effect preparation lacks its typed path witness''))"

definition syntax_preparation ::
  "'w host \<Rightarrow> 'w \<Rightarrow> controller_state \<Rightarrow> workspace \<Rightarrow> tool_call \<Rightarrow> prepare_error \<Rightarrow>
   ferric_error + controller_block" where
  "syntax_preparation h w c ws call e =
     (case perr_witness e of
        Some (PwSyntaxRegression t) \<Rightarrow>
          and_then (controlled_target_paths h w ws call) (\<lambda>paths.
            case paths of
              [p] \<Rightarrow>
                (case st_diagnostic_sha256 t of
                   None \<Rightarrow> Inl (contract_error (tc_name call) ''syntax rejection lacks a diagnostic digest'')
                 | Some d \<Rightarrow>
                     controller_contract (tc_name call)
                       (syntax_regression_block c p (syntax_state_of (st_before t))
                          (syntax_state_of (st_candidate t)) d))
            | _ \<Rightarrow> Inl (contract_error (tc_name call)
                     ''syntax rejection does not identify exactly one normalized target''))
      | _ \<Rightarrow> Inl (contract_error (tc_name call) ''syntax rejection lacks its typed transition witness''))"

definition unsupported_preparation ::
  "'w host \<Rightarrow> 'w \<Rightarrow> controller_state \<Rightarrow> workspace \<Rightarrow> tool_call \<Rightarrow> prepare_error \<Rightarrow> unsupported_kind \<Rightarrow>
   ferric_error + controller_block" where
  "unsupported_preparation h w c ws call e kind =
     (if (case perr_witness e of Some (PwUnsupportedMutation k) \<Rightarrow> unsupported_kind_of k \<noteq> kind | _ \<Rightarrow> False)
      then Inl (contract_error (tc_name call) ''unsupported preparation kind disagrees with its typed witness'')
      else and_then (controlled_target_paths h w ws call) (\<lambda>paths.
             controller_contract (tc_name call) (unsupported_mutation_block c paths kind)))"

definition preparation_block ::
  "'w host \<Rightarrow> 'w \<Rightarrow> controller_state \<Rightarrow> workspace \<Rightarrow> tool_call \<Rightarrow> prepare_error \<Rightarrow>
   ferric_error + controller_block option" where
  "preparation_block h w c ws call e =
     (case perr_kind e of
        PeInvalidArguments \<Rightarrow> Inr None
      | PeIo \<Rightarrow> Inr None
      | PeOutputLimitTooSmall \<Rightarrow> Inr None
      | PeNoEffect \<Rightarrow> and_then (no_effect_preparation c call e) (\<lambda>b. Inr (Some b))
      | PeSyntaxRejected \<Rightarrow> and_then (syntax_preparation h w c ws call e) (\<lambda>b. Inr (Some b))
      | PeOpaqueMutation \<Rightarrow>
          and_then (unsupported_preparation h w c ws call e OpaqueMutation) (\<lambda>b. Inr (Some b))
      | PeUnsupportedOperation \<Rightarrow>
          and_then (unsupported_preparation h w c ws call e UnsupportedOperation) (\<lambda>b. Inr (Some b)))"

section \<open>Model-facing refusals\<close>

fun block_reason_label :: "block_reason \<Rightarrow> string" where
  "block_reason_label BlindMutation = ''blind_mutation''"
| "block_reason_label SameTurnObservation = ''same_turn_observation''"
| "block_reason_label StaleObservation = ''stale_observation''"
| "block_reason_label UnsupportedMutation = ''unsupported_mutation''"
| "block_reason_label RepairInspectionRequired = ''repair_inspection_required''"
| "block_reason_label NoEffect = ''no_effect''"
| "block_reason_label SyntaxRegression = ''syntax_regression''"
| "block_reason_label RepeatedCheck = ''repeated_check''"

text \<open>\<^verbatim>\<open>trim_end_matches(['.', ' '])\<close>\<close>

definition trim_end_set :: "char set \<Rightarrow> string \<Rightarrow> string" where
  "trim_end_set cs s = rev (dropWhile (\<lambda>c. c \<in> cs) (rev s))"

definition no_effect_repair_condition :: "string \<Rightarrow> string" where
  "no_effect_repair_condition cause =
     trim_end_set {CHR ''.'', CHR 0x20} cause
     @ ''. If an authorized check just failed, inspect the relevant implementation implicated by its diagnostic in a later turn before making a material repair; changing unrelated or unchanged files does not repair the check''"

definition no_effect_next_action :: "(no_effect_kind \<times> string \<times> string) option \<Rightarrow> string" where
  "no_effect_next_action info = no_effect_repair_condition (
     case info of
       None \<Rightarrow> ''the candidate produced no measured change; do not retry the same unchanged mutation''
     | Some (kind, tool, diagnostic) \<Rightarrow>
         (case kind of
            MatchNotFound \<Rightarrow>
              if tool \<in> {''edit_file'', ''multi_edit'', ''apply_patch''} then
                ''the exact requested match was absent; reread the current file and copy the exact current span into the mutation request before retrying''
              else diagnostic @ ''; the requested path or source was absent, so inspect its current state and revise the structural operation before retrying''
          | Identity \<Rightarrow>
              if tool = ''make_dir'' then
                diagnostic @ ''; the requested result already equals the current path state, so do not retry the same operation''
              else ''the requested result already equals the current bytes; do not retry the same mutation''
          | NetZeroBatch \<Rightarrow>
              ''the requested batch edits cancel each other and produce no net byte change; revise the batch so its combined result is material''
          | NetZeroPatch \<Rightarrow>
              ''the requested patch changes cancel each other and produce no net byte change; revise the patch so its combined result is material''))"

definition next_action :: "block_reason \<Rightarrow> (no_effect_kind \<times> string \<times> string) option \<Rightarrow> string" where
  "next_action reason info =
     (case reason of
        BlindMutation \<Rightarrow>
          ''completely read every existing target path, then retry the mutation in a later turn''
      | SameTurnObservation \<Rightarrow>
          ''retry the mutation in a later turn; a same-turn observation cannot admit it''
      | StaleObservation \<Rightarrow>
          ''reread the current target path, then retry against that current state in a later turn''
      | UnsupportedMutation \<Rightarrow> ''use a supported controlled operation or check''
      | RepairInspectionRequired \<Rightarrow>
          ''after the failed check, read the current relevant path in a later turn, then make a material repair before rerunning the check''
      | NoEffect \<Rightarrow> no_effect_next_action info
      | SyntaxRegression \<Rightarrow> ''repair the candidate syntax before retrying the mutation''
      | RepeatedCheck \<Rightarrow>
          ''the check already ran at the unchanged mutation epoch; do not rerun it now. If it failed, read the current relevant path in a later turn, then make a material repair before rerunning. If it passed and all required checks are current, call task_complete'')"

definition json_string_array :: "(string \<Rightarrow> string) \<Rightarrow> string list \<Rightarrow> string" where
  "json_string_array json_str xs = ''['' @ join '','' (map json_str xs) @ '']''"

definition block_details :: "(string \<Rightarrow> string) \<Rightarrow> controller_block \<Rightarrow> string list" where
  "block_details json_str b =
     (let paths = dedup (sort (cb_paths b))
      in [''reason='' @ block_reason_label (cb_reason b), ''mutation_epoch='' @ show_nat (cb_mutation_epoch b)]
         @ (if paths = [] then [] else [''paths='' @ json_string_array json_str paths])
         @ (case cb_check_name b of None \<Rightarrow> [] | Some n \<Rightarrow> [''check_name='' @ json_str n]))"

definition format_controller_block_with_no_effect ::
  "(string \<Rightarrow> string) \<Rightarrow> controller_block \<Rightarrow> (no_effect_kind \<times> string \<times> string) option \<Rightarrow> string" where
  "format_controller_block_with_no_effect json_str b info =
     ''CONTROLLER_BLOCKED: '' @ join ''; '' (block_details json_str b)
     @ ''. No human approval is required. Next action: '' @ next_action (cb_reason b) info @ ''.''"

definition format_controller_block :: "(string \<Rightarrow> string) \<Rightarrow> controller_block \<Rightarrow> string" where
  "format_controller_block json_str b = format_controller_block_with_no_effect json_str b None"

definition format_preparation_block ::
  "(string \<Rightarrow> string) \<Rightarrow> controller_block \<Rightarrow> string \<Rightarrow> prepare_error \<Rightarrow> ferric_error + string" where
  "format_preparation_block json_str b tool e =
     (if cb_reason b \<noteq> NoEffect then Inr (format_controller_block json_str b)
      else case perr_witness e of
        Some (PwNoEffect kind _) \<Rightarrow>
          Inr (format_controller_block_with_no_effect json_str b (Some (kind, tool, perr_message e)))
      | _ \<Rightarrow> Inl (contract_error tool ''no-effect feedback lacks its typed kind''))"

section \<open>Diagnostics\<close>

text \<open>\<^verbatim>\<open>s.replace(pat, to)\<close> for a pattern that is not empty.\<close>

function replace_all :: "string \<Rightarrow> string \<Rightarrow> string \<Rightarrow> string" where
  "replace_all pat rep s =
     (if pat = [] then s
      else case find_str pat s of
        None \<Rightarrow> s
      | Some i \<Rightarrow> take i s @ rep @ replace_all pat rep (drop (i + length pat) s))"
  by pat_completeness auto
termination
proof (relation "measure (\<lambda>(_, _, s). length s)")
  fix pat rep s :: string and i
  assume "pat \<noteq> []" "find_str pat s = Some i"
  then obtain r where "s = take i s @ pat @ r" using find_str_Some by blast
  then have "length s = length (take i s) + length pat + length r"
    by (metis length_append add.assoc)
  with \<open>pat \<noteq> []\<close> show "((pat, rep, drop (i + length pat) s), pat, rep, s) \<in> measure (\<lambda>(_, _, s). length s)"
    by (cases s) auto
qed simp

declare replace_all.simps [simp del]

definition normalized_lines :: "string \<Rightarrow> string" where
  "normalized_lines d =
     join [CHR 0x0A] (map (trim_end_set {CHR 0x20, CHR 0x09})
       (split_char (CHR 0x0A) (replace_all [CHR 0x0D] [CHR 0x0A] (replace_all [CHR 0x0D, CHR 0x0A] [CHR 0x0A] d))))"

definition root_spellings :: "path \<Rightarrow> string list" where
  "root_spellings p =
     (let shown = display_path p
      in [shown, replace_backslash shown, map (\<lambda>c. if c = CHR ''/'' then CHR 0x5C else c) shown])"

definition diagnostic_roots :: "'w host \<Rightarrow> 'w \<Rightarrow> workspace \<Rightarrow> string list" where
  "diagnostic_roots h w ws =
     dedup (rev (sort_key length (rev (root_spellings (ws_root ws)
       @ (case h_canonicalize h w (ws_root ws) of None \<Rightarrow> [] | Some p \<Rightarrow> root_spellings p)))))"

definition normalize_diagnostic :: "'w host \<Rightarrow> 'w \<Rightarrow> workspace \<Rightarrow> string \<Rightarrow> string" where
  "normalize_diagnostic h w ws d =
     foldl (\<lambda>s root_text. if root_text = [] then s else replace_all root_text ''<workspace>'' s)
       (normalized_lines d) (diagnostic_roots h w ws)"

definition diagnostic_sha256 :: "'w host \<Rightarrow> 'w \<Rightarrow> workspace \<Rightarrow> string \<Rightarrow> string" where
  "diagnostic_sha256 h w ws d = h_sha256 h (normalize_diagnostic h w ws d)"

section \<open>Approvals\<close>

definition edit_preview_of :: "(json \<Rightarrow> string) \<Rightarrow> tool_call \<Rightarrow> bool \<Rightarrow> edit_preview" where
  "edit_preview_of pretty call tainted =
     \<lparr>ep_tool = tc_name call,
      ep_targets = List.map_filter (\<lambda>key. Option.bind (json_get (tc_args call) key) json_as_str)
        [''path'', ''from'', ''to'', ''src'', ''dest''],
      ep_detail = (if tainted then ''WARNING: this run has ingested untrusted research content, so every mutation is gated.'' @ [CHR 0x0A] else [])
        @ pretty (tc_args call)\<rparr>"

definition sink_approver_of :: "bool \<Rightarrow> sink_approver option" where
  "sink_approver_of already_approved = (if already_approved then Some (\<lambda>_. True) else None)"

definition EDIT_REJECTED :: string where
  "EDIT_REJECTED = ''edit rejected by user''"

section \<open>Applying outcomes\<close>

text \<open>The pattern the three transitions share: the copy of the controller is advanced first, its
  record is written next, and only then does the copy replace the controller.\<close>

definition advance ::
  "string \<Rightarrow> (controller_state \<Rightarrow> controller_state \<times> controller_error check) \<Rightarrow> ('w, unit) dm \<Rightarrow> ('w, unit) dm" where
  "advance tool f record s =
     (case f (ds_controller s) of
        (_, Inl e) \<Rightarrow> (Inl (ContractError tool (ControllerCause e)), s)
      | (c', Inr _) \<Rightarrow>
          (case record s of
             (Inl e, s') \<Rightarrow> (Inl e, s')
           | (Inr _, s') \<Rightarrow> (Inr (), s'\<lparr>ds_controller := c'\<rparr>)))"

definition dispatch_observation ::
  "'w dispatch_env \<Rightarrow> nat \<Rightarrow> tool_call \<Rightarrow> observation \<Rightarrow> ('w, unit) dm" where
  "dispatch_observation env turn call obs =
     advance (tc_name call) (apply_observation turn obs)
       (record_event env (EvObservationRecorded turn (tc_id call) obs))"

definition stale_witness :: "control_failure option \<Rightarrow> stale_observation_witness option" where
  "stale_witness failure =
     (case failure of
        Some f \<Rightarrow>
          if cf_kind f = CfStalePrecondition
          then map_option (\<lambda>wit. case wit of CwStaleObservation v \<Rightarrow> v) (cf_witness f) else None
      | None \<Rightarrow> None)"

definition dispatch_stale ::
  "'w dispatch_env \<Rightarrow> nat \<Rightarrow> tool_call \<Rightarrow> stale_observation_witness \<Rightarrow> ('w, string option) dm" where
  "dispatch_stale env turn call wit s =
     bind_d (lift_d (controller_contract (tc_name call)
         (stale_precondition_block (ds_controller s) (sow_path wit)
            (prepared_identity (sow_expected wit)) (prepared_identity (sow_observed wit))))) (\<lambda>b.
       then_d (record_block env turn call b)
         (return_d (Some (format_controller_block (h_json_str (de_host env)) b)))) s"

definition apply_mutation_outcome ::
  "'w dispatch_env \<Rightarrow> nat \<Rightarrow> tool_call \<Rightarrow> workspace_effect_report \<Rightarrow> control_failure option \<Rightarrow> ('w, string option) dm" where
  "apply_mutation_outcome env turn call report failure s =
     (case report of
        MeasuredEffects effects \<Rightarrow>
          if effects = [] then
            (case stale_witness failure of
               Some wit \<Rightarrow> dispatch_stale env turn call wit s
             | None \<Rightarrow> fail_d (contract_error (tc_name call)
                 ''mutation commit returned an empty measured effect without a typed no-effect classification'') s)
          else
            (case workspace_effect_of (h_debug_str (de_host env)) (mutation_epoch (ds_controller s)) effects of
               Inl m \<Rightarrow> fail_d (contract_error (tc_name call) m) s
             | Inr eff \<Rightarrow>
                 then_d (advance (tc_name call) (apply_workspace_effect turn eff)
                   (then_d (record_event env (EvWorkspaceEffectRecorded turn (tc_id call) (tc_name call) eff))
                      (record_event env (EvWorkspaceMutation turn (tc_name call) (we_mutation_epoch eff)))))
                   (return_d None) s)
      | _ \<Rightarrow> fail_d (contract_error (tc_name call) ''mutation commit returned an unmeasured effect report'') s)"

definition verification_record ::
  "'w dispatch_env \<Rightarrow> 'w dispatch_state \<Rightarrow> string \<Rightarrow> nat \<Rightarrow> bool \<Rightarrow> string \<Rightarrow> verification_check" where
  "verification_record env s name attempt passed diagnostic =
     \<lparr>vc_version = CONTROLLER_RECORD_VERSION, vc_name = name,
      vc_mutation_epoch = mutation_epoch (ds_controller s), vc_attempt = attempt,
      vc_outcome = (if passed then Passed else Failed),
      vc_diagnostic_sha256 =
        (if passed then None
         else Some (diagnostic_sha256 (de_host env) (ds_world s) (de_workspace env) diagnostic))\<rparr>"

definition apply_verification ::
  "'w dispatch_env \<Rightarrow> nat \<Rightarrow> tool_call \<Rightarrow> string \<Rightarrow> nat \<Rightarrow> bool \<Rightarrow> string \<Rightarrow> ('w, unit) dm" where
  "apply_verification env turn call name attempt passed diagnostic s =
     (let check = verification_record env s name attempt passed diagnostic
      in advance (tc_name call) (apply_verification_check turn check)
           (then_d (record_event env (EvVerificationCheckRecorded turn (tc_id call) check))
              (if passed then record_event env (EvVerificationCheckPassed turn name (vc_mutation_epoch check))
               else return_d ())) s)"

section \<open>Dispatch\<close>

text \<open>The admission of a prepared call: \<open>Inl\<close> is the controller's refusal, \<open>Inr\<close> the attempt
  number of an admitted check.\<close>

definition admission ::
  "nat \<Rightarrow> prepared_intent \<Rightarrow> controller_state \<Rightarrow> ferric_error + (controller_block + nat option)" where
  "admission turn intent c =
     (case intent of
        PiMutation i \<Rightarrow>
          (case mutation_block c turn (mutation_requirements i) of
             Inl _ \<Rightarrow> Inl Panic
           | Inr (Some b) \<Rightarrow> Inr (Inl b)
           | Inr None \<Rightarrow> Inr (Inr None))
      | PiVerification v \<Rightarrow>
          (case admit_check c (vi_name v) of
             Inr attempt \<Rightarrow> Inr (Inr (Some attempt))
           | Inl b \<Rightarrow> Inr (Inl b))
      | _ \<Rightarrow> Inr (Inr None))"

definition verification_outcome_of ::
  "'w dispatch_env \<Rightarrow> nat \<Rightarrow> tool_call \<Rightarrow> verification_intent \<Rightarrow> nat option \<Rightarrow> tool_output \<Rightarrow> control_metadata \<Rightarrow>
   ('w, string option) dm" where
  "verification_outcome_of env turn call i attempt out meta =
     (case attempt of
        None \<Rightarrow> fail_d (contract_error (tc_name call) ''verification lost its admitted attempt'')
      | Some n \<Rightarrow>
          then_d (lift_d (require_verification_contract (tc_name call) meta (to_is_error out)))
            (case cm_verification meta of
               None \<Rightarrow> fail_d (contract_error (tc_name call) ''verification outcome metadata is missing'')
             | Some v \<Rightarrow>
                 if va_name v \<noteq> vi_name i \<or> va_passed v = to_is_error out then
                   fail_d (contract_error (tc_name call)
                     ''verification outcome disagrees with its prepared intent or result'')
                 else then_d (apply_verification env turn call (vi_name i) n (va_passed v) (to_full out))
                        (return_d None)))"

definition apply_outcome ::
  "'w dispatch_env \<Rightarrow> nat \<Rightarrow> tool_call \<Rightarrow> prepared_intent \<Rightarrow> nat option \<Rightarrow> tool_output \<Rightarrow> control_metadata \<Rightarrow>
   ('w, string option) dm" where
  "apply_outcome env turn call intent attempt out meta =
     (case intent of
        PiReadOnly \<Rightarrow>
          then_d (lift_d (require_no_effect_report (tc_name call) (cm_effects meta) True))
            (then_d (lift_d (require_no_typed_metadata (tc_name call) meta)) (return_d None))
      | PiFileObservation expected \<Rightarrow>
          then_d (lift_d (require_no_effect_report (tc_name call) (cm_effects meta) False))
            (if cm_observation meta = Some (ToFile expected)
             then then_d (dispatch_observation env turn call (file_observation_of expected)) (return_d None)
             else fail_d (contract_error (tc_name call) ''file observation metadata drifted''))
      | PiNavigation expected \<Rightarrow>
          then_d (lift_d (require_no_effect_report (tc_name call) (cm_effects meta) False))
            (if cm_observation meta = Some (ToNavigation expected)
             then then_d (dispatch_observation env turn call (navigation_observation_v1 expected)) (return_d None)
             else fail_d (contract_error (tc_name call) ''navigation observation metadata drifted''))
      | PiMutation _ \<Rightarrow> apply_mutation_outcome env turn call (cm_effects meta) (cm_failure meta)
      | PiVerification i \<Rightarrow> verification_outcome_of env turn call i attempt out meta)"

definition dispatch_completed ::
  "'w dispatch_env \<Rightarrow> nat \<Rightarrow> tool_call \<Rightarrow> prepared_intent \<Rightarrow> nat option \<Rightarrow> tool_output \<Rightarrow> control_metadata \<Rightarrow> nat \<Rightarrow>
   ('w, dispatch_result) dm" where
  "dispatch_completed env turn call intent attempt out meta ms =
     bind_d (apply_outcome env turn call intent attempt out meta) (\<lambda>feedback.
       case feedback of
         Some fb \<Rightarrow>
           if \<not> to_is_error out then
             fail_d (contract_error (tc_name call) ''controller-blocked mutation returned a successful result'')
           else record_blocked_result env call fb ms
       | None \<Rightarrow> record_result env call (to_full out) (to_is_error out) ms)"

definition dispatch_commit ::
  "'w dispatch_env \<Rightarrow> nat \<Rightarrow> tool_call \<Rightarrow> 'w prepared_call \<Rightarrow> nat option \<Rightarrow> bool \<Rightarrow> ('w, dispatch_result) dm" where
  "dispatch_commit env turn call c attempt approved s =
     (case commit_admitted (de_host env) (ds_world s) (de_registry env) c (de_provenance env)
             (de_sink_policy env) (sink_approver_of approved) of
        (CoCompleted out meta ms _, w') \<Rightarrow>
          dispatch_completed env turn call (pc_intent c) attempt out meta ms (s\<lparr>ds_world := w'\<rparr>)
      | (CoDenied reason _, w') \<Rightarrow>
          record_result env call (''DENIED: '' @ reason) True 0 (s\<lparr>ds_world := w'\<rparr>))"

text \<open>The human is asked after the controller has admitted the call, and only about mutations.\<close>

definition dispatch_admitted ::
  "'w dispatch_env \<Rightarrow> nat \<Rightarrow> tool_call \<Rightarrow> 'w prepared_call \<Rightarrow> nat option \<Rightarrow> ('w, dispatch_result) dm" where
  "dispatch_admitted env turn call c attempt =
     (case (if pc_permission c = Read then None else de_approver env) of
        None \<Rightarrow> dispatch_commit env turn call c attempt False
      | Some approver \<Rightarrow>
          if approver (edit_preview_of (de_pretty env) call (de_provenance env = UntrustedIngested))
          then dispatch_commit env turn call c attempt True
          else record_result env call EDIT_REJECTED True 0)"

definition dispatch_prepared ::
  "'w dispatch_env \<Rightarrow> nat \<Rightarrow> tool_call \<Rightarrow> 'w prepared_call \<Rightarrow> ('w, dispatch_result) dm" where
  "dispatch_prepared env turn call c s =
     bind_d (lift_d (admission turn (pc_intent c) (ds_controller s))) (\<lambda>adm.
       case adm of
         Inl b \<Rightarrow>
           then_d (record_block env turn call b)
             (record_blocked_result env call (format_controller_block (h_json_str (de_host env)) b) 0)
       | Inr attempt \<Rightarrow> dispatch_admitted env turn call c attempt) s"

definition dispatch_rejected ::
  "'w dispatch_env \<Rightarrow> nat \<Rightarrow> tool_call \<Rightarrow> prepare_error \<Rightarrow> nat \<Rightarrow> ('w, dispatch_result) dm" where
  "dispatch_rejected env turn call e ms s =
     bind_d (lift_d (preparation_block (de_host env) (ds_world s) (ds_controller s) (de_workspace env) call e)) (\<lambda>ob.
       case ob of
         Some b \<Rightarrow>
           bind_d (lift_d (format_preparation_block (h_json_str (de_host env)) b (tc_name call) e)) (\<lambda>fb.
             then_d (record_block env turn call b) (record_blocked_result env call fb ms))
       | None \<Rightarrow> record_result env call (perr_message e) True ms) s"

definition dispatch ::
  "'w dispatch_env \<Rightarrow> nat \<Rightarrow> tool_call \<Rightarrow> ('w, dispatch_result) dm" where
  "dispatch env turn call s =
     (case prepare_controlled (de_host env) (ds_world s) (de_registry env) (de_workspace env)
             (tc_name call) (tc_args call) of
        PoPrepared c \<Rightarrow>
          then_d (record_permission_checks env (pc_checks c)) (dispatch_prepared env turn call c) s
      | PoRejected e ms cks \<Rightarrow>
          then_d (record_permission_checks env cks) (dispatch_rejected env turn call e ms) s
      | PoDenied reason cks \<Rightarrow>
          then_d (record_permission_checks env cks)
            (record_result env call (''DENIED: '' @ reason) True 0) s
      | PoUnknownTool name \<Rightarrow> record_result env call (''unknown tool: '' @ name) True 0 s)"

end
