(* ===== verification/Sample_World.thy ===== *)
theory Sample_World
  imports Controlled_Dispatch File_Tools "HOL-Library.AList"
begin

text \<open>
  A small world in which the properties of the dispatch and the loop are applied: a file system whose
  state is the list of its files, the host functions over it, and a registry with the reader and the
  writer of the builtin tools.
\<close>

type_synonym files = "(path \<times> string) list"

definition sample_root :: path where
  "sample_root = [RootDir, Normal ''w'']"

definition sample_workspace :: workspace where
  "sample_workspace = \<lparr>ws_root = sample_root, ws_ignore = []\<rparr>"

definition sample_digest :: "string \<Rightarrow> string" where
  "sample_digest s = replicate 64 (''0123456789abcdef'' ! (length s mod 16))"

definition file_state :: "string option \<Rightarrow> path_state" where
  "file_state b =
     (case b of
        None \<Rightarrow> PsAbsent
      | Some s \<Rightarrow> PsFile (sample_digest s) (length s) (logical_line_count s))"

definition sample_observe :: "files \<Rightarrow> path \<Rightarrow> string + observed_target" where
  "sample_observe fs p =
     Inr \<lparr>ot_state = file_state (map_of fs p), ot_bytes = map_of fs p, ot_unsupported = None\<rparr>"

definition sample_exists :: "files \<Rightarrow> path \<Rightarrow> bool" where
  "sample_exists fs p \<longleftrightarrow> p = [RootDir] \<or> p = sample_root \<or> map_of fs p \<noteq> None"

text \<open>The publication of a candidate compares the state once more and then replaces the bytes.\<close>

definition sample_publish :: "files \<Rightarrow> workspace \<Rightarrow> file_mutation_candidate \<Rightarrow> file_commit_result \<times> files" where
  "sample_publish fs ws cand =
     (let p = join_path (ws_root ws) (components (fmc_path cand)); now = file_state (map_of fs p)
      in if now \<noteq> fmc_expected cand then
           (stale_result (fmc_path cand) (fmc_expected cand) now ''target state changed after preparation'', fs)
         else (\<lparr>fcr_full = fmc_success cand, fcr_is_error = False,
                fcr_effects = MeasuredEffects (measured_effects (fmc_path cand) now (file_state (Some (fmc_candidate cand)))),
                fcr_failure = None\<rparr>, AList.update p (fmc_candidate cand) fs))"

definition sample_host :: "files host" where
  "sample_host =
     \<lparr>h_exists = sample_exists,
      h_canonicalize = (\<lambda>fs p. if sample_exists fs p then Some p else None),
      h_io_text = (\<lambda>_ _. ''not found''), h_pin_root = (\<lambda>_ _. None), h_pin_dir = (\<lambda>_ _. None),
      h_observe = sample_observe, h_dir_empty = (\<lambda>_ _. Inr True),
      h_create_dir = (\<lambda>fs _. (None, fs)),
      h_remove_file = (\<lambda>fs p. (None, AList.delete p fs)), h_remove_dir = (\<lambda>fs p. (None, AList.delete p fs)),
      h_rename = (\<lambda>fs p q. (None, map (\<lambda>(k, v). (if k = p then q else k, v)) fs)),
      h_publish = sample_publish, h_sha256 = sample_digest, h_python = (\<lambda>_. PyValid),
      h_json_str = (\<lambda>s. [CHR 0x22] @ s @ [CHR 0x22]), h_debug_str = (\<lambda>s. [CHR 0x22] @ s @ [CHR 0x22]),
      h_elapsed_ms = (\<lambda>_ _ _. 0)\<rparr>"

definition sample_read :: "files \<Rightarrow> path \<Rightarrow> string + string" where
  "sample_read fs p = (case map_of fs p of None \<Rightarrow> Inl ''not found'' | Some s \<Rightarrow> Inr s)"

definition spec_of :: "string \<Rightarrow> permission_level \<Rightarrow> nat \<Rightarrow> tool_spec" where
  "spec_of name perm ring =
     \<lparr>ts_name = name, ts_description = [], ts_input_schema = JObj [], ts_permission = perm, ts_ring = ring\<rparr>"

definition read_tool :: "files tool" where
  "read_tool =
     \<lparr>t_spec = spec_of ''read_file'' Read 0, t_capability = CapReadOnly,
      t_prepare = read_file_prepare sample_host sample_read, t_target_paths = default_target_paths,
      t_target_commands = default_target_commands, t_run = (\<lambda>fs _ _. (Inl ''not run'', fs))\<rparr>"

definition write_run :: "files \<Rightarrow> workspace \<Rightarrow> json \<Rightarrow> (string + string) \<times> files" where
  "write_run fs ws args =
     (case (arg_string args ''path'', arg_string args ''content'') of
        (Inr p, Inr s) \<Rightarrow> (Inr ''ok'', AList.update (join_path (ws_root ws) (components p)) s fs)
      | _ \<Rightarrow> (Inl ''bad arguments'', fs))"

definition write_tool :: "files tool" where
  "write_tool =
     \<lparr>t_spec = spec_of ''write_file'' Write 0, t_capability = CapContentMutation,
      t_prepare = (\<lambda>fs ws _ args. write_file_prepare sample_host fs ws args), t_target_paths = default_target_paths,
      t_target_commands = default_target_commands, t_run = write_run\<rparr>"

definition sample_registry :: "files registry" where
  "sample_registry = register write_tool (register read_tool registry_new)"

definition sample_env :: "files dispatch_env" where
  "sample_env =
     \<lparr>de_host = sample_host, de_registry = sample_registry, de_workspace = sample_workspace,
      de_provenance = Clean, de_sink_policy = \<lparr>tainted_sink = SinkRequireApproval\<rparr>,
      de_approver = None, de_sink = (\<lambda>_ _. None), de_pretty = (\<lambda>_. [])\<rparr>"

definition sample_files :: files where
  "sample_files = [(sample_root @ [Normal ''a''], ''one'')]"

definition sample_call :: "string \<Rightarrow> string \<Rightarrow> (string \<times> json) list \<Rightarrow> tool_call" where
  "sample_call i name args = \<lparr>tc_id = i, tc_name = name, tc_args = JObj args\<rparr>"

definition read_a :: tool_call where
  "read_a = sample_call ''c1'' ''read_file'' [(''path'', JStr ''a'')]"

definition write_a :: tool_call where
  "write_a = sample_call ''c2'' ''write_file'' [(''content'', JStr ''three''), (''path'', JStr ''a'')]"

definition sample_start :: "files dispatch_state" where
  "sample_start = \<lparr>ds_controller = pristine Evidence [], ds_trace = [], ds_projector = projector_new,
     ds_world = sample_files\<rparr>"

definition after_read :: "files dispatch_state" where
  "after_read = snd (dispatch sample_env 0 read_a sample_start)"

definition after_write :: "files dispatch_state" where
  "after_write = snd (dispatch sample_env 1 write_a after_read)"

lemma sample_env_sel [simp]:
  "de_host sample_env = sample_host" "de_registry sample_env = sample_registry"
  "de_workspace sample_env = sample_workspace" "de_provenance sample_env = Clean"
  "de_approver sample_env = None"
  by (simp_all add: sample_env_def)

lemma sample_call_sel [simp]:
  "tc_id (sample_call i name args) = i" "tc_name (sample_call i name args) = name"
  "tc_args (sample_call i name args) = JObj args"
  by (simp_all add: sample_call_def)

lemma sample_names [simp]:
  "tc_name read_a = ''read_file''" "tc_id read_a = ''c1''" "tc_name write_a = ''write_file''" "tc_id write_a = ''c2''"
  by (simp_all add: read_a_def write_a_def)

lemma write_tool_sel [simp]:
  "t_spec write_tool = spec_of ''write_file'' Write 0" "t_capability write_tool = CapContentMutation"
  "t_prepare write_tool = (\<lambda>fs ws _ args. write_file_prepare sample_host fs ws args)" "t_run write_tool = write_run"
  by (simp_all add: write_tool_def)

lemma sample_registry_write [simp]: "bt_get (rg_tools sample_registry) ''write_file'' = Some write_tool"
  by (simp add: sample_registry_def register_def registry_new_def with_truncation_limit_def
        read_tool_def write_tool_def spec_of_def bt_get_def)

definition small_policy :: run_policy where
  "small_policy = policy_for \<lparr>params_b = Finite 7, quant = ''Q4_K_M'', ctx = 4096, family = ''qwen'', measured_level = None\<rparr>"

end
