(* ===== verification/Registry_Props.thy ===== *)
theory Registry_Props
  imports Sample_World "HOL-Library.Code_Target_Nat"
begin

text \<open>
  The properties of the tool registry: what the direct execution of a tool needs before it runs, and
  which tools a run policy offers.
\<close>

section \<open>Direct execution\<close>

lemma guard_paths_iff:
  "(\<exists>cks. guard_paths h w ws perm acc targets = Inr cks) \<longleftrightarrow>
   (\<forall>target \<in> set targets. \<exists>p. admit (h_exists h w) (h_canonicalize h w) ws perm (components target) = Inr p)"
  by (induction targets arbitrary: acc) (auto split: sum.splits admit_error.splits simp: Let_def)

lemma guard_commands_iff:
  "(\<exists>cks. guard_commands acc commands = Inr cks) \<longleftrightarrow> (\<forall>c \<in> set commands. check_command c = Allow)"
  by (induction commands arbitrary: acc) (auto split: decision.splits)

lemma guard_iff: "(\<exists>cks. guard h w t (t_spec t) ws args = Inr cks) \<longleftrightarrow> guarded h w ws t args"
  unfolding guard_def guarded_def
  using guard_paths_iff[of h w ws "ts_permission (t_spec t)" "[]" "t_target_paths t args"] guard_commands_iff
  by (auto simp: result_simps)

lemma guard_cases:
  obtains (pass) cks where "guarded h w ws t args" "guard h w t (t_spec t) ws args = Inr cks"
  | (refuse) reason cks where "\<not> guarded h w ws t args" "guard h w t (t_spec t) ws args = Inl (reason, cks)"
  using guard_iff[of h w t ws args] by (cases "guard h w t (t_spec t) ws args") auto

lemma sink_cases:
  obtains (pass) "sink_admitted prov pol approver spec args" "sink_gate spec args prov pol approver = ok"
  | (refuse) reason where "\<not> sink_admitted prov pol approver spec args"
      "sink_gate spec args prov pol approver = Inl reason"
  using sink_gate_ok[of spec args prov pol approver] by (cases "sink_gate spec args prov pol approver") auto

text \<open>
  C13. The direct execution of a tool runs its handler, once and with the given arguments, exactly when
  the tool is registered, the guard admits every path and command it declares and the sink policy lets
  it pass. In every other case the world is untouched and the outcome says that the tool is unknown or
  that the call was denied.
\<close>

theorem execute_spec:
  "case bt_get (rg_tools r) name of
     None \<Rightarrow> execute h w r ws name args prov pol approver = (ExUnknownTool name, w)
   | Some t \<Rightarrow>
       if guarded h w ws t args \<and> sink_admitted prov pol approver (t_spec t) args then
         \<exists>out ms cks. execute h w r ws name args prov pol approver = (ExCompleted out ms cks, snd (t_run t w ws args))
           \<and> to_full out = (case fst (t_run t w ws args) of Inl e \<Rightarrow> e | Inr v \<Rightarrow> v)
           \<and> to_is_error out = (\<not> is_ok (fst (t_run t w ws args)))
       else \<exists>reason cks. execute h w r ws name args prov pol approver = (ExDenied reason cks, w)"
proof (cases "bt_get (rg_tools r) name")
  case (Some t)
  show ?thesis
  proof (cases rule: guard_cases[of h w ws t args])
    case (pass cks)
    note guard = pass
    show ?thesis
    proof (cases rule: sink_cases[of prov pol approver "t_spec t" args])
      case pass
      obtain res w' where "t_run t w ws args = (res, w')" by force
      with Some guard pass show ?thesis
        by (cases res) (simp_all add: execute_def output_of_def Let_def is_ok_def)
    qed (use Some guard in \<open>simp add: execute_def\<close>)
  qed (use Some in \<open>simp add: execute_def\<close>)
qed (simp add: execute_def)

section \<open>The vocabulary\<close>

lemma sort_key_sorted_wrt:
  "distinct (map f xs) \<Longrightarrow> sorted_wrt (<) (map f (sort_key f xs))"
  by (simp add: strict_sorted_iff distinct_map)

lemma sorted_take_below:
  assumes "sorted_wrt (<) (map f xs)" "v \<in> set (take k xs)" "s \<in> set xs" "s \<notin> set (take k xs)"
  shows "f v < f s"
proof -
  have "s \<in> set (drop k xs)" using assms(3,4) by (metis append_take_drop_id in_set_conv_decomp set_append Un_iff)
  moreover have "sorted_wrt (<) (map f (take k xs) @ map f (drop k xs))"
    using assms(1) by (metis append_take_drop_id map_append)
  ultimately show ?thesis using assms(2) by (auto simp: sorted_wrt_append)
qed

lemma eligible_iff:
  assumes "registry_wf r"
  shows "s \<in> set (eligible_specs r p offered) \<longleftrightarrow>
    ts_ring s \<le> ring_ceiling p
    \<and> (\<exists>t. bt_get (rg_tools r) (ts_name s) = Some t \<and> t_spec t = s \<and> offered t)"
  using assms by (auto simp: eligible_specs_def registry_wf_def set_bt_values)

lemma eligible_distinct:
  assumes "registry_wf r"
  shows "distinct (map ts_name (eligible_specs r p offered))"
proof -
  have keys: "\<forall>(k, t) \<in> set (rg_tools r). ts_name (t_spec t) = k"
    using assms by (auto simp: registry_wf_def bt_entries)
  then have names: "map (\<lambda>x. ts_name (t_spec (snd x))) (rg_tools r) = map fst (rg_tools r)"
    by (auto intro!: map_cong)
  have "distinct (map (\<lambda>x. ts_name (t_spec (snd x))) (rg_tools r))"
    unfolding names using assms by (simp add: registry_wf_def bt_wf_distinct)
  then have "distinct (map (ts_name \<circ> t_spec) (bt_values (rg_tools r)))"
    by (simp add: bt_values_def comp_def)
  then show ?thesis
    by (simp add: eligible_specs_def distinct_map inj_on_def filter_map comp_def distinct_filter)
qed

text \<open>
  The vocabulary of a policy is ordered by name without repetition, holds only registered tools of
  the wanted kind within the ring ceiling, and holds as many of them as the policy allows; when there are
  more, those it leaves out come after all it keeps in the order of rings, so an inner tool is never
  dropped for an outer one.
\<close>

theorem vocabulary_spec:
  assumes "registry_wf r"
  shows "sorted_wrt (<) (map ts_name (vocabulary r p offered))
     \<and> (\<forall>s \<in> set (vocabulary r p offered). ts_ring s \<le> ring_ceiling p
          \<and> (\<exists>t. bt_get (rg_tools r) (ts_name s) = Some t \<and> t_spec t = s \<and> offered t))
     \<and> length (vocabulary r p offered) = min (max_tools p) (length (eligible_specs r p offered))
     \<and> (\<forall>s \<in> set (eligible_specs r p offered) - set (vocabulary r p offered). \<forall>v \<in> set (vocabulary r p offered).
          (ts_ring v, ts_name v) < (ts_ring s, ts_name s))"
proof -
  let ?E = "eligible_specs r p offered" and ?k = "\<lambda>s. (ts_ring s, ts_name s)"
  let ?S = "sort_key ?k ?E"
  have names: "distinct (map ts_name ?E)" using assms by (rule eligible_distinct)
  then have keys: "sorted_wrt (<) (map ?k ?S)"
    by (intro sort_key_sorted_wrt) (auto simp: distinct_map inj_on_def)
  have set_V: "set (vocabulary r p offered) = set (take (max_tools p) ?S)" by (simp add: vocabulary_def)
  have "distinct (map ts_name ?S)" using names by (simp add: distinct_map)
  then have "distinct (map ts_name (take (max_tools p) ?S))" by (simp add: take_map[symmetric])
  then have "sorted_wrt (<) (map ts_name (vocabulary r p offered))"
    unfolding vocabulary_def by (rule sort_key_sorted_wrt)
  moreover have "\<forall>s \<in> set (vocabulary r p offered). s \<in> set ?E"
    unfolding set_V using set_take_subset[of "max_tools p" ?S] by auto
  moreover have "length (vocabulary r p offered) = min (max_tools p) (length ?E)"
    by (simp add: vocabulary_def)
  moreover have "\<forall>s \<in> set ?E - set (vocabulary r p offered). \<forall>v \<in> set (vocabulary r p offered). ?k v < ?k s"
    unfolding set_V using sorted_take_below[OF keys, of _ "max_tools p"] by auto
  ultimately show ?thesis using eligible_iff[OF assms] by blast
qed

lemma sample_registry_wf: "registry_wf sample_registry"
  by (simp add: sample_registry_def registry_new_def)

theorem vocabulary_spec_witness:
  "sorted_wrt (<) (map ts_name (vocabulary sample_registry small_policy (\<lambda>_. True)))
   \<and> length (vocabulary sample_registry small_policy (\<lambda>_. True)) = 2"
proof -
  have "min (max_tools small_policy) (length (eligible_specs sample_registry small_policy (\<lambda>_. True))) = 2"
    by code_simp
  then show ?thesis using vocabulary_spec[OF sample_registry_wf, of small_policy "\<lambda>_. True"] by simp
qed

end
