(* ===== verification/Dispatch_Inv.thy ===== *)
theory Dispatch_Inv
  imports Controlled_Dispatch Controller_Session Projector_Inv
begin

text \<open>
  What a dispatch does to its state, on every outcome and on success: interpretations of
  \<open>step_order\<close> say that a dispatch only appends to the trace, that the live projector is the
  projection of what was appended, that recording never touches the world, and that the controller
  follows the recorded events.
\<close>

section \<open>The relations of a dispatch\<close>

text \<open>The trace grows and the live projector is the projection of what was appended.\<close>

definition recorded :: "'w dispatch_state \<Rightarrow> 'w dispatch_state \<Rightarrow> bool" where
  "recorded s s' \<longleftrightarrow>
     (\<exists>evs. ds_trace s' = ds_trace s @ evs \<and> ds_projector s' = project (ds_projector s) evs)"

definition same_world :: "'w dispatch_state \<Rightarrow> 'w dispatch_state \<Rightarrow> bool" where
  "same_world s s' \<longleftrightarrow> ds_world s' = ds_world s"

text \<open>The controller that the recorded events lead to; a transition it refuses is \<open>None\<close>.\<close>

definition accepted :: "controller_state \<times> controller_error check \<Rightarrow> controller_state option" where
  "accepted r = (case r of (c, Inr _) \<Rightarrow> Some c | (_, Inl _) \<Rightarrow> None)"

fun follow_event :: "Trace_Events.event \<Rightarrow> controller_state \<Rightarrow> controller_state option" where
  "follow_event (EvObservationRecorded t _ obs) c = accepted (apply_observation t obs c)"
| "follow_event (EvWorkspaceEffectRecorded t _ _ eff) c = accepted (apply_workspace_effect t eff c)"
| "follow_event (EvVerificationCheckRecorded t _ chk) c = accepted (apply_verification_check t chk c)"
| "follow_event _ c = Some c"

fun follow :: "Trace_Events.event list \<Rightarrow> controller_state \<Rightarrow> controller_state option" where
  "follow [] c = Some c"
| "follow (ev # evs) c = Option.bind (follow_event ev c) (follow evs)"

text \<open>The events one dispatch may write before its result.\<close>

fun dispatch_event :: "nat \<Rightarrow> tool_call \<Rightarrow> Trace_Events.event \<Rightarrow> bool" where
  "dispatch_event turn call (EvPermissionCheck _ _ _ _) = True"
| "dispatch_event turn call (EvObservationRecorded t i _) = (t = turn \<and> i = tc_id call)"
| "dispatch_event turn call (EvControllerBlocked t i n _) = (t = turn \<and> i = tc_id call \<and> n = tc_name call)"
| "dispatch_event turn call (EvWorkspaceEffectRecorded t i n _) = (t = turn \<and> i = tc_id call \<and> n = tc_name call)"
| "dispatch_event turn call (EvVerificationCheckRecorded t i _) = (t = turn \<and> i = tc_id call)"
| "dispatch_event turn call (EvWorkspaceMutation t n _) = (t = turn \<and> n = tc_name call)"
| "dispatch_event turn call (EvVerificationCheckPassed t _ _) = (t = turn)"
| "dispatch_event turn call _ = False"

definition tracked ::
  "(Trace_Events.event \<Rightarrow> bool) \<Rightarrow> 'w dispatch_state \<Rightarrow> 'w dispatch_state \<Rightarrow> bool" where
  "tracked P s s' \<longleftrightarrow>
     (\<exists>evs. ds_trace s' = ds_trace s @ evs \<and> ds_projector s' = project (ds_projector s) evs
        \<and> follow evs (ds_controller s) = Some (ds_controller s') \<and> (\<forall>ev \<in> set evs. P ev))"

lemma follow_append: "follow (a @ b) c = Option.bind (follow a c) (follow b)"
proof (induction a arbitrary: c)
  case (Cons ev a)
  show ?case by (cases "follow_event ev c") (simp_all add: Cons.IH)
qed simp

interpretation rec: step_order recorded
  by unfold_locales (auto simp: recorded_def project_append)

interpretation still: step_order same_world
  by unfold_locales (auto simp: same_world_def)

interpretation track: step_order "tracked P"
proof
  fix s t u :: "'a dispatch_state"
  show "tracked P s s" by (simp add: tracked_def)
  assume "tracked P s t" "tracked P t u"
  then obtain a b where "ds_trace t = ds_trace s @ a" "ds_projector t = project (ds_projector s) a"
    "follow a (ds_controller s) = Some (ds_controller t)" "\<forall>ev \<in> set a. P ev"
    "ds_trace u = ds_trace t @ b" "ds_projector u = project (ds_projector t) b"
    "follow b (ds_controller t) = Some (ds_controller u)" "\<forall>ev \<in> set b. P ev"
    unfolding tracked_def by blast
  then show "tracked P s u" unfolding tracked_def
    by (intro exI[of _ "a @ b"]) (auto simp: follow_append project_append)
qed

section \<open>Recordings\<close>

lemma record_event_moves:
  "moves recorded (record_event env ev)" "moves same_world (record_event env ev)"
proof -
  have "recorded s (snd (record_event env ev s)) \<and> same_world s (snd (record_event env ev s))" for s
    by (cases "de_sink env (ds_trace s) ev")
       (auto simp: record_event_def recorded_def same_world_def intro: exI[of _ "[ev]"])
  then show "moves recorded (record_event env ev)" "moves same_world (record_event env ev)"
    by (simp_all add: moves_def)
qed

lemma record_event_Inr:
  "record_event env ev s = (Inr u, s') \<longleftrightarrow>
     de_sink env (ds_trace s) ev = None
     \<and> s' = s\<lparr>ds_trace := ds_trace s @ [ev], ds_projector := projector_step (ds_projector s) ev\<rparr>"
  by (auto simp: record_event_def split: option.splits)

lemma record_event_tracked:
  assumes "\<And>c. follow_event ev c = Some c" "P ev"
  shows "succeeds (tracked P) (record_event env ev)"
  by (rule succeedsI) (use assms in \<open>auto simp: record_event_Inr tracked_def intro!: exI[of _ "[ev]"]\<close>)

lemma advance_moves:
  assumes "moves recorded m" "moves same_world m"
  shows "moves recorded (advance tool f m)" "moves same_world (advance tool f m)"
proof -
  have "recorded s (snd (advance tool f m s)) \<and> same_world s (snd (advance tool f m s))" for s
  proof -
    obtain r t where m: "m s = (r, t)" by force
    have "recorded s t" "same_world s t" using movesD[OF assms(1) m] movesD[OF assms(2) m] .
    then show ?thesis using m
      by (auto simp: advance_def recorded_def same_world_def split: prod.splits sum.splits)
  qed
  then show "moves recorded (advance tool f m)" "moves same_world (advance tool f m)"
    by (simp_all add: moves_def)
qed

text \<open>An accepted transition whose record is the first of the events it writes.\<close>

lemma advance_tracked:
  assumes m: "\<And>u t. m s = (Inr u, t) \<Longrightarrow>
      \<exists>evs. ds_trace t = ds_trace s @ ev # evs \<and> ds_projector t = project (ds_projector s) (ev # evs)
        \<and> (\<forall>e \<in> set evs. P e \<and> (\<forall>c. follow_event e c = Some c))"
    and f: "\<And>c. follow_event ev c = accepted (f c)" and "P ev"
    and run: "advance tool f m s = (Inr v, s')"
  shows "tracked P s s'"
proof -
  obtain c' u where c: "f (ds_controller s) = (c', Inr u)"
    using run by (cases "f (ds_controller s)"; cases "snd (f (ds_controller s))") (auto simp: advance_def)
  obtain u' t where t: "m s = (Inr u', t)" "s' = t\<lparr>ds_controller := c'\<rparr>"
    using run c by (cases "m s"; cases "fst (m s)") (auto simp: advance_def)
  obtain evs where evs: "ds_trace t = ds_trace s @ ev # evs" "ds_projector t = project (ds_projector s) (ev # evs)"
    "\<forall>e \<in> set evs. P e \<and> (\<forall>c. follow_event e c = Some c)"
    using m[OF t(1)] by blast
  have "follow evs c = Some c" for c using evs(3) by (induction evs) auto
  then have "follow (ev # evs) (ds_controller s) = Some c'" by (simp add: f accepted_def c)
  then show ?thesis unfolding tracked_def using evs t(2) \<open>P ev\<close>
    by (intro exI[of _ "ev # evs"]) auto
qed

lemma permission_checks_moves:
  "moves recorded (record_permission_checks env cks)" "moves same_world (record_permission_checks env cks)"
  "succeeds (tracked (dispatch_event turn call)) (record_permission_checks env cks)"
proof -
  have "succeeds (tracked (dispatch_event turn call)) (record_event env (permission_event c))" for c
    by (rule record_event_tracked) (simp_all add: permission_event_def)
  then show "moves recorded (record_permission_checks env cks)" "moves same_world (record_permission_checks env cks)"
    "succeeds (tracked (dispatch_event turn call)) (record_permission_checks env cks)"
    by (induction cks) (simp_all add: rec.move_rules still.move_rules track.success_rules record_event_moves)
qed

lemma record_block_moves:
  "moves recorded (record_block env turn call b)" "moves same_world (record_block env turn call b)"
  "succeeds (tracked (dispatch_event turn call)) (record_block env turn call b)"
  by (simp_all add: record_block_def record_event_moves record_event_tracked)

lemma record_result_moves:
  "moves recorded (record_result env call full e ms)" "moves same_world (record_result env call full e ms)"
  "moves recorded (record_blocked_result env call full ms)" "moves same_world (record_blocked_result env call full ms)"
  unfolding record_blocked_result_def record_result_def
  by (intro rec.move_rules still.move_rules record_event_moves)+

lemma dispatch_observation_moves:
  "moves recorded (dispatch_observation env turn call obs)"
  "moves same_world (dispatch_observation env turn call obs)"
  "succeeds (tracked (dispatch_event turn call)) (dispatch_observation env turn call obs)"
proof -
  show "succeeds (tracked (dispatch_event turn call)) (dispatch_observation env turn call obs)"
    unfolding dispatch_observation_def
  proof (rule succeedsI)
    fix s s' :: "'a dispatch_state" and v
    assume "advance (tc_name call) (apply_observation turn obs)
      (record_event env (EvObservationRecorded turn (tc_id call) obs)) s = (Inr v, s')"
    then show "tracked (dispatch_event turn call) s s'"
      by (rule advance_tracked[where ev = "EvObservationRecorded turn (tc_id call) obs", rotated 3])
         (auto simp: record_event_Inr)
  qed
qed (simp_all add: dispatch_observation_def advance_moves record_event_moves)

lemma dispatch_stale_moves:
  "moves recorded (dispatch_stale env turn call wit)" "moves same_world (dispatch_stale env turn call wit)"
  "succeeds (tracked (dispatch_event turn call)) (dispatch_stale env turn call wit)"
proof -
  show "moves recorded (dispatch_stale env turn call wit)" "moves same_world (dispatch_stale env turn call wit)"
    by (rule movesI, simp add: dispatch_stale_def moves_run rec.move_rules still.move_rules record_block_moves)+
  show "succeeds (tracked (dispatch_event turn call)) (dispatch_stale env turn call wit)"
    by (rule succeeds_atI) (simp add: dispatch_stale_def succeeds_run track.success_rules record_block_moves)
qed

lemma effect_record_run:
  assumes "then_d (record_event env (EvWorkspaceEffectRecorded turn i n eff))
      (record_event env (EvWorkspaceMutation turn n k)) s = (Inr u, t)"
  shows "ds_trace t = ds_trace s @ [EvWorkspaceEffectRecorded turn i n eff, EvWorkspaceMutation turn n k]
     \<and> ds_projector t = project (ds_projector s) [EvWorkspaceEffectRecorded turn i n eff, EvWorkspaceMutation turn n k]"
  using assms by (auto simp: run_simps record_event_Inr)

lemma apply_mutation_outcome_moves:
  "moves recorded (apply_mutation_outcome env turn call report failure)"
  "moves same_world (apply_mutation_outcome env turn call report failure)"
  by (rule movesI, simp add: apply_mutation_outcome_def moves_run rec.move_rules still.move_rules advance_moves
        record_event_moves dispatch_stale_moves split: workspace_effect_report.split option.split sum.split)+

lemma apply_mutation_outcome_tracked:
  "succeeds (tracked (dispatch_event turn call)) (apply_mutation_outcome env turn call report failure)"
proof -
  have adv: "succeeds (tracked (dispatch_event turn call)) (advance (tc_name call) (apply_workspace_effect turn eff)
      (then_d (record_event env (EvWorkspaceEffectRecorded turn (tc_id call) (tc_name call) eff))
         (record_event env (EvWorkspaceMutation turn (tc_name call) k))))" for eff k
  proof (rule succeedsI)
    fix s s' :: "'a dispatch_state" and v
    assume "advance (tc_name call) (apply_workspace_effect turn eff)
      (then_d (record_event env (EvWorkspaceEffectRecorded turn (tc_id call) (tc_name call) eff))
         (record_event env (EvWorkspaceMutation turn (tc_name call) k))) s = (Inr v, s')"
    then show "tracked (dispatch_event turn call) s s'"
      by (rule advance_tracked[where ev = "EvWorkspaceEffectRecorded turn (tc_id call) (tc_name call) eff", rotated 3])
         (auto dest!: effect_record_run)
  qed
  show ?thesis
    by (rule succeeds_atI) (simp add: apply_mutation_outcome_def succeeds_run track.success_rules adv
        dispatch_stale_moves split: workspace_effect_report.split option.split sum.split)
qed

lemma apply_verification_moves:
  "moves recorded (apply_verification env turn call name attempt passed d)"
  "moves same_world (apply_verification env turn call name attempt passed d)"
  by (rule movesI, simp add: apply_verification_def Let_def moves_run rec.move_rules still.move_rules advance_moves
        record_event_moves)+

lemma apply_verification_tracked:
  "succeeds (tracked (dispatch_event turn call)) (apply_verification env turn call name attempt passed d)"
  unfolding apply_verification_def Let_def
proof (rule succeedsI)
  fix s s' :: "'a dispatch_state" and v
  let ?chk = "verification_record env s name attempt passed d"
  assume "advance (tc_name call) (apply_verification_check turn ?chk)
    (then_d (record_event env (EvVerificationCheckRecorded turn (tc_id call) ?chk))
       (if passed then record_event env (EvVerificationCheckPassed turn name (vc_mutation_epoch ?chk))
        else return_d ())) s = (Inr v, s')"
  then show "tracked (dispatch_event turn call) s s'"
    by (rule advance_tracked[where ev = "EvVerificationCheckRecorded turn (tc_id call) ?chk", rotated 3])
       (auto simp: run_simps record_event_Inr split: if_splits)
qed

lemmas outcome_moves = dispatch_observation_moves apply_mutation_outcome_moves apply_verification_moves
lemmas outcome_tracked = dispatch_observation_moves(3) apply_mutation_outcome_tracked apply_verification_tracked

lemma apply_outcome_moves:
  "moves recorded (apply_outcome env turn call intent attempt out meta)"
  "moves same_world (apply_outcome env turn call intent attempt out meta)"
  unfolding apply_outcome_def verification_outcome_of_def
  by (cases intent; simp add: rec.move_rules still.move_rules outcome_moves split: option.split)+

lemma apply_outcome_tracked:
  "succeeds (tracked (dispatch_event turn call)) (apply_outcome env turn call intent attempt out meta)"
  unfolding apply_outcome_def verification_outcome_of_def
  by (cases intent; simp add: track.success_rules outcome_tracked split: option.split)

section \<open>The result of a dispatch\<close>

text \<open>A computation that answers a call: it records what it may about the call and then its result, once
  and last.\<close>

definition result_event :: "tool_call \<Rightarrow> dispatch_result \<Rightarrow> Trace_Events.event" where
  "result_event call r = EvToolResult (tc_id call) (tc_name call) (dr_full r) (dr_is_error r) (dr_duration_ms r)"

definition answered ::
  "nat \<Rightarrow> tool_call \<Rightarrow> 'w dispatch_state \<Rightarrow> dispatch_result \<Rightarrow> 'w dispatch_state \<Rightarrow> bool" where
  "answered turn call s r s' \<longleftrightarrow>
     (\<exists>evs. ds_trace s' = ds_trace s @ evs @ [result_event call r]
        \<and> ds_projector s' = project (ds_projector s) (evs @ [result_event call r])
        \<and> follow evs (ds_controller s) = Some (ds_controller s')
        \<and> (\<forall>ev \<in> set evs. dispatch_event turn call ev))"

definition answers :: "nat \<Rightarrow> tool_call \<Rightarrow> ('w, dispatch_result) dm \<Rightarrow> bool" where
  "answers turn call m \<longleftrightarrow> (\<forall>s. on_ok (answered turn call s) (m s))"

lemma answersI: "(\<And>s. on_ok (answered turn call s) (m s)) \<Longrightarrow> answers turn call m"
  by (simp add: answers_def)

lemma answers_run: "answers turn call m \<Longrightarrow> on_ok (answered turn call s) (m s)"
  by (simp add: answers_def)

lemma answersD: "answers turn call m \<Longrightarrow> m s = (Inr r, s') \<Longrightarrow> answered turn call s r s'"
  unfolding answers_def on_ok_def by (metis fst_conv snd_conv)

lemma answers_okI: "(\<And>s r s'. m s = (Inr r, s') \<Longrightarrow> answered turn call s r s') \<Longrightarrow> answers turn call m"
  unfolding answers_def on_ok_def by (metis prod.collapse)

lemma answers_result:
  "answers turn call (record_result env call full e ms)"
  "answers turn call (record_blocked_result env call full ms)"
proof -
  have result: "answered turn call s r s'"
    if "record_event env (result_event call r) s = (Inr u, s')" for s s' :: "'a dispatch_state" and r u
    using that by (auto simp: answered_def record_event_Inr intro!: exI[of _ "[]"])
  show "answers turn call (record_result env call full e ms)"
    "answers turn call (record_blocked_result env call full ms)"
    by (rule answers_okI, auto simp: record_blocked_result_def record_result_def run_simps result_event_def
          intro!: result)+
qed

lemma answered_after:
  assumes "tracked (dispatch_event turn call) s t" "answered turn call t r s'"
  shows "answered turn call s r s'"
proof -
  obtain a where "ds_trace t = ds_trace s @ a" "ds_projector t = project (ds_projector s) a"
    "follow a (ds_controller s) = Some (ds_controller t)" "\<forall>ev \<in> set a. dispatch_event turn call ev"
    using assms(1) by (auto simp: tracked_def)
  moreover obtain b where "ds_trace s' = ds_trace t @ b @ [result_event call r]"
    "ds_projector s' = project (ds_projector t) (b @ [result_event call r])"
    "follow b (ds_controller t) = Some (ds_controller s')" "\<forall>ev \<in> set b. dispatch_event turn call ev"
    using assms(2) by (auto simp: answered_def)
  ultimately show ?thesis unfolding answered_def
    by (intro exI[of _ "a @ b"]) (auto simp: follow_append project_append)
qed

lemma answers_bind:
  assumes "succeeds (tracked (dispatch_event turn call)) m" "\<And>v. answers turn call (f v)"
  shows "answers turn call (bind_d m f)"
proof (rule answers_okI)
  fix s r s'
  assume "bind_d m f s = (Inr r, s')"
  then obtain u t where "m s = (Inr u, t)" "f u t = (Inr r, s')" by (auto simp: bind_d_Inr)
  then show "answered turn call s r s'"
    using succeedsD[OF assms(1)] answersD[OF assms(2)] answered_after by metis
qed

lemma answers_then:
  "succeeds (tracked (dispatch_event turn call)) m \<Longrightarrow> answers turn call n \<Longrightarrow> answers turn call (then_d m n)"
  unfolding then_d_def by (rule answers_bind)

lemma answers_fail: "answers turn call (fail_d e)"
  by (rule answers_okI) (simp add: fail_d_def)

lemma answered_world: "answered turn call (s\<lparr>ds_world := w\<rparr>) = answered turn call s"
  by (intro ext) (simp add: answered_def)

lemma answers_world_run: "answers turn call m \<Longrightarrow> on_ok (answered turn call s) (m (s\<lparr>ds_world := w\<rparr>))"
  using answers_run[of turn call m "s\<lparr>ds_world := w\<rparr>"] by (simp add: answered_world)

lemmas answer_rules = answers_bind answers_then answers_fail answers_result track.succeeds_lift record_block_moves

lemma dispatch_completed_answers: "answers turn call (dispatch_completed env turn call i a out meta ms)"
  unfolding dispatch_completed_def
  by (simp add: answer_rules apply_outcome_tracked split: option.split)

lemma dispatch_commit_answers: "answers turn call (dispatch_commit env turn call c a b)"
  by (rule answersI) (simp add: dispatch_commit_def answers_world_run dispatch_completed_answers answer_rules
        split: prod.split controlled_outcome.split)

lemma dispatch_prepared_answers: "answers turn call (dispatch_prepared env turn call c)"
proof -
  have "answers turn call (dispatch_admitted env turn call c a)" for a
    unfolding dispatch_admitted_def by (simp add: dispatch_commit_answers answer_rules split: option.split)
  then show ?thesis
    by (intro answersI) (simp add: dispatch_prepared_def answers_run answer_rules split: sum.split)
qed

lemma dispatch_rejected_answers: "answers turn call (dispatch_rejected env turn call e ms)"
  by (rule answersI) (simp add: dispatch_rejected_def answers_run answer_rules split: option.split)

lemma dispatch_answers: "answers turn call (dispatch env turn call)"
  by (rule answersI) (simp add: dispatch_def answers_run answer_rules permission_checks_moves
        dispatch_prepared_answers dispatch_rejected_answers split: prepare_outcome.split)

section \<open>Every outcome\<close>

lemma recorded_world: "recorded (s\<lparr>ds_world := w\<rparr>) = recorded s"
  by (intro ext) (simp add: recorded_def)

lemma moves_world_run: "moves recorded m \<Longrightarrow> recorded s (snd (m (s\<lparr>ds_world := w\<rparr>)))"
  using moves_run[of recorded m "s\<lparr>ds_world := w\<rparr>"] by (simp add: recorded_world)

lemma dispatch_completed_moves:
  "moves recorded (dispatch_completed env turn call i a out meta ms)"
  "moves same_world (dispatch_completed env turn call i a out meta ms)"
  unfolding dispatch_completed_def
  by (simp_all add: rec.move_rules still.move_rules apply_outcome_moves record_result_moves split: option.split)

lemma dispatch_recorded: "moves recorded (dispatch env turn call)"
proof -
  have "moves recorded (dispatch_commit env turn call c a b)" for c a b
    by (rule movesI) (simp add: dispatch_commit_def moves_world_run dispatch_completed_moves record_result_moves
          split: prod.split controlled_outcome.split)
  then have "moves recorded (dispatch_admitted env turn call c a)" for c a
    unfolding dispatch_admitted_def by (simp add: record_result_moves split: option.split)
  then have "moves recorded (dispatch_prepared env turn call c)" for c
    by (intro movesI) (simp add: dispatch_prepared_def moves_run rec.move_rules record_block_moves
          record_result_moves split: sum.split)
  moreover have "moves recorded (dispatch_rejected env turn call e ms)" for e ms
    by (rule movesI) (simp add: dispatch_rejected_def moves_run rec.move_rules record_block_moves
          record_result_moves split: option.split)
  ultimately show ?thesis
    by (intro movesI) (simp add: dispatch_def moves_run rec.move_rules permission_checks_moves
          record_result_moves split: prepare_outcome.split)
qed

section \<open>The world\<close>

text \<open>What stands between a call and a change of the world.\<close>

definition gated ::
  "'w dispatch_env \<Rightarrow> nat \<Rightarrow> tool_call \<Rightarrow> 'w dispatch_state \<Rightarrow> 'w prepared_call \<Rightarrow> bool" where
  "gated env turn call s c \<longleftrightarrow>
     prepare_controlled (de_host env) (ds_world s) (de_registry env) (de_workspace env)
       (tc_name call) (tc_args call) = PoPrepared c
     \<and> (\<exists>attempt. admission turn (pc_intent c) (ds_controller s) = Inr (Inr attempt))
     \<and> (pc_permission c = Read \<or> (\<forall>approver. de_approver env = Some approver \<longrightarrow>
          approver (edit_preview_of (de_pretty env) call (de_provenance env = UntrustedIngested))))
     \<and> sink_admitted (de_provenance env) (de_sink_policy env)
         (sink_approver_of (pc_permission c \<noteq> Read \<and> de_approver env \<noteq> None)) (pc_spec c) (pc_args c)"

definition performed :: "'w dispatch_env \<Rightarrow> 'w \<Rightarrow> 'w prepared_call \<Rightarrow> execution_result \<times> 'w" where
  "performed env w c =
     perform (de_host env) w (pc_tool c) (pc_workspace c) (pc_args c) (prep_execution (pc_preparation c))"

lemma world_run: "moves same_world m \<Longrightarrow> ds_world (snd (m s)) = ds_world s"
  using moves_run[of same_world m s] by (simp add: same_world_def)

lemma commit_world:
  assumes "ds_world (snd (dispatch_commit env turn call c a approved s)) \<noteq> ds_world s"
  shows "sink_admitted (de_provenance env) (de_sink_policy env) (sink_approver_of approved) (pc_spec c) (pc_args c)
     \<and> ds_world (snd (dispatch_commit env turn call c a approved s)) = snd (performed env (ds_world s) c)"
proof (cases "sink_gate (pc_spec c) (pc_args c) (de_provenance env) (de_sink_policy env) (sink_approver_of approved)")
  case (Inl reason)
  then have "ds_world (snd (dispatch_commit env turn call c a approved s)) = ds_world s"
    by (simp add: dispatch_commit_def commit_admitted_def world_run record_result_moves)
  with assms show ?thesis by simp
next
  case (Inr u)
  obtain e w' where p: "performed env (ds_world s) c = (e, w')" by force
  have "ds_world (snd (dispatch_commit env turn call c a approved s)) = w'"
    using p Inr
    by (simp add: dispatch_commit_def commit_admitted_def performed_def world_run dispatch_completed_moves)
  with p Inr show ?thesis by (simp add: sink_gate_ok[symmetric])
qed

lemma permission_checks_controller:
  "ds_controller (snd (record_permission_checks env cks s)) = ds_controller s"
proof (induction cks arbitrary: s)
  case (Cons c cks)
  obtain r t where t: "record_event env (permission_event c) s = (r, t)" by force
  then have "ds_controller t = ds_controller s" by (auto simp: record_event_def split: option.splits)
  with Cons.IH[of t] t show ?case by (cases r) (simp_all add: then_d_def bind_d_def)
qed (simp add: return_d_def)

lemma admitted_world:
  assumes "ds_world (snd (dispatch_admitted env turn call c a s)) \<noteq> ds_world s"
  shows "(pc_permission c = Read \<or> (\<forall>approver. de_approver env = Some approver \<longrightarrow>
          approver (edit_preview_of (de_pretty env) call (de_provenance env = UntrustedIngested))))
     \<and> sink_admitted (de_provenance env) (de_sink_policy env)
         (sink_approver_of (pc_permission c \<noteq> Read \<and> de_approver env \<noteq> None)) (pc_spec c) (pc_args c)
     \<and> ds_world (snd (dispatch_admitted env turn call c a s)) = snd (performed env (ds_world s) c)"
proof -
  have rejected: "ds_world (snd (record_result env call EDIT_REJECTED True 0 s)) = ds_world s"
    by (simp add: world_run record_result_moves)
  show ?thesis
  proof (cases "if pc_permission c = Read then None else de_approver env")
    case None
    with assms show ?thesis
      using commit_world[of env turn call c a False s] by (auto simp: dispatch_admitted_def split: if_splits)
  next
    case (Some approver)
    with assms rejected show ?thesis
      using commit_world[of env turn call c a True s] by (auto simp: dispatch_admitted_def split: if_splits)
  qed
qed

lemma dispatch_world:
  assumes "ds_world (snd (dispatch env turn call s)) \<noteq> ds_world s"
  shows "\<exists>c. gated env turn call s c \<and> ds_world (snd (dispatch env turn call s)) = snd (performed env (ds_world s) c)"
proof -
  have rejected: "moves same_world (dispatch_rejected env turn call e ms)" for e ms
    by (rule movesI) (simp add: dispatch_rejected_def moves_run still.move_rules record_block_moves
          record_result_moves split: option.split)
  obtain c where c: "prepare_controlled (de_host env) (ds_world s) (de_registry env) (de_workspace env)
      (tc_name call) (tc_args call) = PoPrepared c"
    using assms by (cases "prepare_controlled (de_host env) (ds_world s) (de_registry env) (de_workspace env)
          (tc_name call) (tc_args call)")
       (simp_all add: dispatch_def world_run still.move_rules rejected permission_checks_moves record_result_moves)
  obtain u t where t: "record_permission_checks env (pc_checks c) s = (u, t)" by force
  have same: "ds_world t = ds_world s" "ds_controller t = ds_controller s"
    using world_run[OF permission_checks_moves(2), of env "pc_checks c" s]
      permission_checks_controller[of env "pc_checks c" s] t by simp_all
  have d: "snd (dispatch env turn call s) = snd (dispatch_prepared env turn call c t)"
    using assms c t same(1) by (cases u) (simp_all add: dispatch_def then_d_def bind_d_def)
  have "\<exists>a. admission turn (pc_intent c) (ds_controller t) = Inr (Inr a)"
  proof (rule ccontr)
    assume no: "\<nexists>a. admission turn (pc_intent c) (ds_controller t) = Inr (Inr a)"
    then have "ds_world (snd (dispatch_prepared env turn call c t)) = ds_world t"
      by (cases "admission turn (pc_intent c) (ds_controller t)")
         (auto simp: dispatch_prepared_def world_run still.move_rules record_block_moves record_result_moves
            lift_d_def bind_d_def[of "lift_d _"] split: sum.split)
    with assms d same(1) show False by simp
  qed
  then obtain a where a: "admission turn (pc_intent c) (ds_controller t) = Inr (Inr a)" ..
  show ?thesis
    using admitted_world[of env turn call c a t] assms d a same c
    by (intro exI[of _ c]) (simp add: gated_def dispatch_prepared_def lift_d_def bind_d_def)
qed

end
