(* ===== verification/Trace_Structure.thy ===== *)
theory Trace_Structure
  imports Evidence_Controller Trace_Events Loop_Guards Path_Guard Rust_Utf8
begin

text \<open>
  The structural validator of recorded traces, \<^verbatim>\<open>trace_structure.rs\<close>: a state machine that
  reads the events of an untrusted trace one by one and rejects the first that breaks the recovery
  protocol. A caller abandons the validator at its first error, so an error carries no state. A message is
  its template with the values it is filled with; \<open>Within\<close> is a message about a part that failed.
\<close>

section \<open>Messages\<close>

datatype msg_arg =
    ArgText string
  | ArgOptText "string option"
  | ArgNat nat
  | ArgNames "string list"
  | ArgCall tool_call
  | ArgEvent event
  | ArgOutcome verification_outcome
  | ArgCause controller_error
  | ArgInput user_input_error

datatype structure_error =
    Msg string "msg_arg list"
  | Within string "msg_arg list" structure_error

type_synonym 'a checked = "structure_error + 'a"

definition inside :: "string \<Rightarrow> msg_arg list \<Rightarrow> 'a checked \<Rightarrow> 'a checked" where
  "inside t args r = (case r of Inl e \<Rightarrow> Inl (Within t args e) | Inr v \<Rightarrow> Inr v)"

definition caused :: "string \<Rightarrow> msg_arg list \<Rightarrow> controller_error + 'a \<Rightarrow> 'a checked" where
  "caused t args r = (case r of Inl e \<Rightarrow> Inl (Msg t (args @ [ArgCause e])) | Inr v \<Rightarrow> Inr v)"

section \<open>The shape of a checkpoint\<close>

fun validate_boundaries ::
  "recovery_checkpoint \<Rightarrow> (nat \<times> nat) option \<Rightarrow> turn_boundary list \<Rightarrow> structure_error check" where
  "validate_boundaries st prior [] = ok"
| "validate_boundaries st prior (b # bs) = checks [
     require (\<not> (tb_message_index b < rc_head_len st \<or> length (rc_messages st) \<le> tb_message_index b))
       (Msg ''checkpoint turn {} boundary {} is outside retained turn history''
          [ArgNat (tb_turn b), ArgNat (tb_message_index b)]),
     require (tb_turn b < rc_next_turn st)
       (Msg ''checkpoint turn boundary {} is not before next_turn {}'' [ArgNat (tb_turn b), ArgNat (rc_next_turn st)]),
     require (case prior of
                None \<Rightarrow> True
              | Some (prior_turn, prior_index) \<Rightarrow> \<not> (tb_turn b \<le> prior_turn \<or> tb_message_index b \<le> prior_index))
       (Msg ''checkpoint turn boundaries are not strictly increasing by turn and message index'' []),
     validate_boundaries st (Some (tb_turn b, tb_message_index b)) bs]"

definition blocked_completion_count :: "guard_turn \<Rightarrow> nat" where
  "blocked_completion_count g =
     (if 0 < gt_dispatched g \<and> 0 < gt_errored g \<and> list_ex (\<lambda>c. tc_name c = TASK_COMPLETE) (gt_calls g)
      then 1 else 0)"

definition validate_counts :: "guard_turn \<Rightarrow> structure_error check" where
  "validate_counts g =
     (case checked_add u32_max (gt_controller_blocks g) (blocked_completion_count g) of
        None \<Rightarrow> Inl (Msg ''checkpoint guard turn {} overflows attributed control errors'' [ArgNat (gt_turn g)])
      | Some attributed \<Rightarrow>
          require (\<not> (length (gt_calls g) < gt_dispatched g \<or> gt_dispatched g < gt_errored g
                    \<or> gt_errored g < attributed \<or> gt_dispatched g < attributed))
            (Msg ''checkpoint guard turn {} has incoherent dispatch/error counts'' [ArgNat (gt_turn g)]))"

definition retained_turns :: "recovery_checkpoint \<Rightarrow> nat btree_set" where
  "retained_turns st = bs_of_list (map tb_turn (rc_committed_turn_starts st))"

definition boundary_missing :: "recovery_checkpoint \<Rightarrow> nat \<Rightarrow> bool" where
  "boundary_missing st turn \<longleftrightarrow>
     (case rc_committed_turn_starts st of
        [] \<Rightarrow> False
      | b # _ \<Rightarrow> tb_turn b \<le> turn \<and> \<not> bs_contains (retained_turns st) turn)"

fun validate_guard_turns ::
  "recovery_checkpoint \<Rightarrow> nat option \<Rightarrow> guard_turn list \<Rightarrow> structure_error check" where
  "validate_guard_turns st prior [] = ok"
| "validate_guard_turns st prior (g # gs) = checks [
     require (gt_turn g < rc_next_turn st)
       (Msg ''checkpoint guard turn {} is not before next_turn {}'' [ArgNat (gt_turn g), ArgNat (rc_next_turn st)]),
     require (case prior of None \<Rightarrow> True | Some p \<Rightarrow> \<not> gt_turn g \<le> p)
       (Msg ''checkpoint guard turns are not strictly increasing'' []),
     require (gt_calls g \<noteq> [])
       (Msg ''checkpoint guard turn {} contains no proposed calls'' [ArgNat (gt_turn g)]),
     validate_counts g,
     require (\<not> boundary_missing st (gt_turn g))
       (Msg ''checkpoint guard turn {} has no retained message boundary'' [ArgNat (gt_turn g)]),
     validate_guard_turns st (Some (gt_turn g)) gs]"

definition validate_pending_input :: "user_input_request option \<Rightarrow> structure_error check" where
  "validate_pending_input req =
     (case req of
        None \<Rightarrow> ok
      | Some r \<Rightarrow>
          (case validate_user_input r of
             Inl e \<Rightarrow> Inl (Msg ''invalid pending input request: {error}'' [ArgInput e])
           | Inr _ \<Rightarrow> ok))"

definition validate_recovery_checkpoint_shape :: "recovery_checkpoint \<Rightarrow> structure_error check" where
  "validate_recovery_checkpoint_shape st = checks [
     require (rc_head_len st \<le> length (rc_messages st)) (Msg ''checkpoint head_len exceeds message count'' []),
     validate_pending_input (rc_pending_input st),
     require (\<not> list_ex (\<lambda>epoch. rc_mutation_epoch st < epoch) (bt_values (rc_passed_checks st)))
       (Msg ''checkpoint contains check evidence from a future epoch'' []),
     validate_boundaries st None (rc_committed_turn_starts st),
     validate_guard_turns st None (rc_guard_history st)]"

section \<open>State\<close>

datatype state_base = NoBase | FreshBase | ResumedBase

datatype controller_call_record =
    RecObservation
  | RecBlocked block_reason
  | RecEffect
  | RecVerification string verification_outcome

record recorded_call =
  rcd_call :: tool_call
  rcd_result :: "bool option"
  rcd_mutation_recorded :: bool
  rcd_check_recorded :: "string option"
  rcd_controller_record :: "controller_call_record option"

datatype checkpoint_context =
    CtxInitial
  | CtxResumeBase nat "(string, nat) btree_map"
  | CtxResumeAnchor
  | CtxPause string

record completion_gate_record =
  cg_mutation_epoch :: nat
  cg_passed :: bool

record active_turn =
  at_turn :: nat
  at_ended :: bool
  at_proposed :: "tool_call list option"
  at_calls :: "recorded_call list"
  at_pre_dispatch_stopped :: bool
  at_completion_gate :: "completion_gate_record option"

definition active_new :: "nat \<Rightarrow> active_turn" where
  "active_new turn = \<lparr>at_turn = turn, at_ended = False, at_proposed = None, at_calls = [],
     at_pre_dispatch_stopped = False, at_completion_gate = None\<rparr>"

definition is_modern :: "active_turn \<Rightarrow> bool" where
  "is_modern a \<longleftrightarrow> at_proposed a \<noteq> None"

record trace_structure =
  tv_base :: state_base
  tv_active :: "active_turn option"
  tv_saw_turn :: bool
  tv_last_turn :: "nat option"
  tv_expected_first_turn :: "nat option"
  tv_resume_prompt_seen :: bool
  tv_answer_anchor_seen :: bool
  tv_ended_reason :: "string option"
  tv_checkpoint_after_end :: bool
  tv_paused :: bool
  tv_awaiting_end :: "string option"
  tv_committed_terminal :: "string option"
  tv_mutation_epoch :: nat
  tv_passed_checks :: "(string, nat) btree_map"
  tv_harness_policy :: "harness_policy option"
  tv_controller :: "controller_state option"
  tv_pending_controller_checkpoint :: "checkpoint_context option"
  tv_recovery_packet_seen :: bool
  tv_resumed_pending_input :: bool
  tv_projected_controller_blocks :: "(nat, nat) btree_map"

definition structure_new :: trace_structure where
  "structure_new = \<lparr>tv_base = NoBase, tv_active = None, tv_saw_turn = False, tv_last_turn = None,
     tv_expected_first_turn = None, tv_resume_prompt_seen = False, tv_answer_anchor_seen = False,
     tv_ended_reason = None, tv_checkpoint_after_end = False, tv_paused = False, tv_awaiting_end = None,
     tv_committed_terminal = None, tv_mutation_epoch = 0, tv_passed_checks = [], tv_harness_policy = None,
     tv_controller = None, tv_pending_controller_checkpoint = None, tv_recovery_packet_seen = False,
     tv_resumed_pending_input = False, tv_projected_controller_blocks = []\<rparr>"

definition is_success_reason :: "string \<Rightarrow> bool" where
  "is_success_reason reason \<longleftrightarrow>
     reason = ''done'' \<or> (case stop_parse reason of None \<Rightarrow> False | Some r \<Rightarrow> is_success r)"

definition is_completion_control :: "string \<Rightarrow> bool" where
  "is_completion_control name \<longleftrightarrow> name = TASK_COMPLETE \<or> name = SUBMIT_PLAN"

definition is_unmeasured_read_only_or_control :: "string \<Rightarrow> bool" where
  "is_unmeasured_read_only_or_control name \<longleftrightarrow>
     name = ''list_dir'' \<or> name = ''fetch_reference'' \<or> name = REQUEST_USER_INPUT \<or> is_completion_control name"

definition evidence_trace :: "trace_structure \<Rightarrow> bool" where
  "evidence_trace st \<longleftrightarrow> tv_harness_policy st = Some Evidence"


section \<open>Calls and the paths they name\<close>

fun pop_parts :: "string list \<Rightarrow> string list \<Rightarrow> string list option" where
  "pop_parts acc [] = Some (rev acc)"
| "pop_parts acc (p # ps) =
     (if p = [] \<or> p = ''.'' then pop_parts acc ps
      else if p = ''..'' then (case acc of [] \<Rightarrow> None | _ # acc' \<Rightarrow> pop_parts acc' ps)
      else pop_parts (p # acc) ps)"

definition normalized_call_path :: "string \<Rightarrow> string checked" where
  "normalized_call_path arg =
     (let p = replace_backslash arg
      in if starts_with p ''/'' \<or> (1 < length p \<and> p ! 1 = CHR '':'')
         then Inl (Msg ''ToolCall path {path:?} is not workspace-relative'' [ArgText p])
         else case pop_parts [] (split_char (CHR ''/'') p) of
           None \<Rightarrow> Inl (Msg ''ToolCall path {path:?} escapes the workspace'' [ArgText p])
         | Some parts \<Rightarrow> Inr (if parts = [] then ''.'' else join ''/'' parts))"

definition required_string_arg :: "tool_call \<Rightarrow> string \<Rightarrow> string checked" where
  "required_string_arg call key =
     ok_or (Option.bind (json_get (tc_args call) key) json_as_str)
       (Msg ''ToolCall({}) lacks string arg {key:?}'' [ArgText (tc_id call), ArgText key])"

definition optional_u64_arg :: "tool_call \<Rightarrow> string \<Rightarrow> nat option checked" where
  "optional_u64_arg call key =
     (case json_get (tc_args call) key of
        None \<Rightarrow> Inr None
      | Some v \<Rightarrow>
          (case json_as_u64 v of
             Some n \<Rightarrow>
               if 0 < n then Inr (Some n)
               else Inl (Msg ''ToolCall({}) has invalid positive integer arg {key:?}'' [ArgText (tc_id call), ArgText key])
           | None \<Rightarrow> Inl (Msg ''ToolCall({}) has invalid positive integer arg {key:?}'' [ArgText (tc_id call), ArgText key])))"

definition is_single_target_content_tool :: "string \<Rightarrow> bool" where
  "is_single_target_content_tool name \<longleftrightarrow>
     name \<in> {''write_file'', ''edit_file'', ''multi_edit'', ''apply_patch''}"

definition is_effect_recording_tool :: "string \<Rightarrow> bool" where
  "is_effect_recording_tool name \<longleftrightarrow>
     is_single_target_content_tool name \<or> name \<in> {''make_dir'', ''delete_path'', ''move_path'', ''copy_file''}"

definition target_keys :: "string \<Rightarrow> string list option" where
  "target_keys name =
     (if is_single_target_content_tool name \<or> name \<in> {''delete_path'', ''make_dir''} then Some [''path'']
      else if name \<in> {''copy_file'', ''move_path''} then Some [''from'', ''to'']
      else if name = ''run_check'' then Some [] else None)"

fun collect_targets :: "tool_call \<Rightarrow> string btree_set \<Rightarrow> string list \<Rightarrow> string btree_set checked" where
  "collect_targets call acc [] = Inr acc"
| "collect_targets call acc (key # keys) =
     and_then (required_string_arg call key) (\<lambda>arg.
     and_then (normalized_call_path arg) (\<lambda>p. collect_targets call (bs_insert p acc) keys))"

definition statically_known_call_targets :: "tool_call \<Rightarrow> string btree_set option checked" where
  "statically_known_call_targets call =
     (case target_keys (tc_name call) of
        None \<Rightarrow> Inr None
      | Some keys \<Rightarrow> and_then (collect_targets call [] keys) (\<lambda>targets. Inr (Some targets)))"

definition validate_navigation_matches_call ::
  "tool_call \<Rightarrow> navigation_observation \<Rightarrow> string \<Rightarrow> string \<Rightarrow> nat \<Rightarrow> structure_error check" where
  "validate_navigation_matches_call call obs tool literal_arg default_limit =
     and_then (require (tc_name call = tool)
       (Msg ''navigation detail requires {tool}, active tool is {:?}'' [ArgText tool, ArgText (tc_name call)])) (\<lambda>_.
     and_then (required_string_arg call literal_arg) (\<lambda>literal.
     and_then (require (literal = nav_literal obs)
       (Msg ''literal query/pattern does not match ToolCall args'' [])) (\<lambda>_.
     and_then (if json_get (tc_args call) ''path'' = None then Inr ''.'' else required_string_arg call ''path'') (\<lambda>r.
     and_then (normalized_call_path r) (\<lambda>p.
     and_then (require (p = nav_root obs) (Msg ''navigation root does not match ToolCall args'' [])) (\<lambda>_.
     and_then (optional_u64_arg call ''max_results'') (\<lambda>limit.
       require ((case limit of None \<Rightarrow> default_limit | Some n \<Rightarrow> n) = nav_max_results obs)
         (Msg ''navigation result cap does not match ToolCall args'' []))))))))"

definition requested_matches :: "requested_range option \<Rightarrow> nat option \<Rightarrow> nat option \<Rightarrow> bool" where
  "requested_matches r first last_line =
     (case r of None \<Rightarrow> first = None \<and> last_line = None | Some q \<Rightarrow> rr_start q = first \<and> rr_end q = last_line)"

definition validate_file_matches_call :: "tool_call \<Rightarrow> file_observation \<Rightarrow> structure_error check" where
  "validate_file_matches_call call file =
     and_then (require (tc_name call = ''read_file'')
       (Msg ''file detail requires read_file, active tool is {:?}'' [ArgText (tc_name call)])) (\<lambda>_.
     and_then (required_string_arg call ''path'') (\<lambda>arg.
     and_then (normalized_call_path arg) (\<lambda>p.
     and_then (require (p = fo_path file) (Msg ''path does not match ToolCall args'' [])) (\<lambda>_.
     and_then (optional_u64_arg call ''start_line'') (\<lambda>first.
     and_then (optional_u64_arg call ''end_line'') (\<lambda>last_line.
       require (requested_matches (fo_requested_range file) first last_line)
         (Msg ''requested range does not match ToolCall args'' [])))))))"

definition validate_observation_matches_call :: "tool_call \<Rightarrow> observation \<Rightarrow> structure_error check" where
  "validate_observation_matches_call call obs =
     (case obs_detail obs of
        ObsFile file \<Rightarrow> validate_file_matches_call call file
      | ObsSearch nav \<Rightarrow> validate_navigation_matches_call call nav ''search_files'' ''query'' 50
      | ObsFind nav \<Rightarrow> validate_navigation_matches_call call nav ''find_files'' ''pattern'' 100)"

definition check_members :: "tool_call \<Rightarrow> string btree_set \<Rightarrow> string list \<Rightarrow> structure_error check" where
  "check_members call targets paths =
     check_all (\<lambda>p. require (bs_contains targets p)
       (Msg ''path {path:?} is not a target of ToolCall({})'' [ArgText p, ArgText (tc_id call)])) paths"

definition validate_effect_paths_match_call :: "tool_call \<Rightarrow> string list \<Rightarrow> structure_error check" where
  "validate_effect_paths_match_call call paths =
     and_then (statically_known_call_targets call) (\<lambda>known.
       case known of
         None \<Rightarrow> ok
       | Some targets \<Rightarrow> checks [
           require (\<not> (is_single_target_content_tool (tc_name call) \<and> bs_of_list paths \<noteq> targets))
             (Msg ''effect paths {paths:?} do not exactly match ToolCall({}) target'' [ArgNames paths, ArgText (tc_id call)]),
           check_members call targets paths])"

definition path_bearing :: "block_reason \<Rightarrow> bool" where
  "path_bearing r \<longleftrightarrow>
     r \<in> {BlindMutation, StaleObservation, SameTurnObservation, RepairInspectionRequired, NoEffect, SyntaxRegression}"

definition validate_block_paths_match_call :: "tool_call \<Rightarrow> controller_block \<Rightarrow> structure_error check" where
  "validate_block_paths_match_call call b =
     and_then (statically_known_call_targets call) (\<lambda>known.
       case known of
         None \<Rightarrow> ok
       | Some targets \<Rightarrow>
           (let paths = bs_of_list (cb_paths b);
                unsupported_path = (cb_reason b = UnsupportedMutation \<and> cb_check_name b = None)
            in checks [
                 require (\<not> (is_single_target_content_tool (tc_name call)
                            \<and> (path_bearing (cb_reason b) \<or> unsupported_path) \<and> paths \<noteq> targets))
                   (Msg ''block paths {:?} do not exactly match ToolCall({}) target''
                      [ArgNames (cb_paths b), ArgText (tc_id call)]),
                 require (\<not> (tc_name call \<in> {''copy_file'', ''move_path'', ''delete_path'', ''make_dir''}
                            \<and> cb_reason b = UnsupportedMutation \<and> paths \<noteq> targets))
                   (Msg ''unsupported structural block paths {:?} do not match ToolCall({}) targets''
                      [ArgNames (cb_paths b), ArgText (tc_id call)]),
                 check_members call targets (cb_paths b)]))"


section \<open>The active turn\<close>

definition active_mut :: "trace_structure \<Rightarrow> string \<Rightarrow> active_turn checked" where
  "active_mut st event_name =
     ok_or (tv_active st) (Msg ''{event} appears outside an active turn'' [ArgText event_name])"

definition put_active :: "active_turn \<Rightarrow> trace_structure \<Rightarrow> trace_structure" where
  "put_active a st = st\<lparr>tv_active := Some a\<rparr>"

text \<open>\<^verbatim>\<open>last_mut\<close> on the calls of a turn.\<close>

definition update_last :: "(recorded_call \<Rightarrow> recorded_call) \<Rightarrow> active_turn \<Rightarrow> active_turn" where
  "update_last f a = a\<lparr>at_calls := butlast (at_calls a) @ [f (last (at_calls a))]\<rparr>"

definition ensure_evidence_harness :: "trace_structure \<Rightarrow> string \<Rightarrow> structure_error check" where
  "ensure_evidence_harness st event_name =
     (case tv_harness_policy st of
        Some Evidence \<Rightarrow> ok
      | Some EvidencePlanner \<Rightarrow>
          Inl (Msg ''evidence_planner is unsupported until a planner trace protocol is defined'' [])
      | _ \<Rightarrow> Inl (Msg ''{event} is not valid under the legacy harness policy'' [ArgText event_name]))"

definition controller_call ::
  "trace_structure \<Rightarrow> string \<Rightarrow> nat \<Rightarrow> string \<Rightarrow> string option \<Rightarrow> recorded_call checked" where
  "controller_call st event_name turn call_id tool =
     and_then (active_mut st event_name) (\<lambda>a.
       if at_turn a \<noteq> turn \<or> \<not> at_ended a
       then Inl (Msg ''{event}({turn}) appears outside its ended turn'' [ArgText event_name, ArgNat turn])
       else if at_calls a = [] then Inl (Msg ''{event} has no matching ToolCall'' [ArgText event_name])
       else let r = last (at_calls a)
         in if tc_id (rcd_call r) \<noteq> call_id \<or> rcd_result r \<noteq> None
            then Inl (Msg ''{event}({call_id}) does not match the active unresolved ToolCall''
                   [ArgText event_name, ArgText call_id])
            else if (case tool of None \<Rightarrow> False | Some t \<Rightarrow> t \<noteq> tc_name (rcd_call r))
            then Inl (Msg ''{event}({call_id}) tool {tool:?} does not match {:?}''
                   [ArgText event_name, ArgText call_id, ArgOptText tool, ArgText (tc_name (rcd_call r))])
            else if rcd_controller_record r \<noteq> None
            then Inl (Msg ''ToolCall({call_id}) has more than one controller record'' [ArgText call_id])
            else Inr r)"

definition set_controller_call_record ::
  "string \<Rightarrow> controller_call_record \<Rightarrow> trace_structure \<Rightarrow> trace_structure checked" where
  "set_controller_call_record event_name rec st =
     and_then (active_mut st event_name) (\<lambda>a.
       if at_calls a = [] then Inl (Msg ''{event} has no matching ToolCall'' [ArgText event_name])
       else if rcd_controller_record (last (at_calls a)) \<noteq> None
       then Inl (Msg ''ToolCall({}) has more than one controller record''
              [ArgText (tc_id (rcd_call (last (at_calls a))))])
       else Inr (put_active (update_last (\<lambda>r. r\<lparr>rcd_controller_record := Some rec\<rparr>) a) st))"

definition controller_of :: "trace_structure \<Rightarrow> string \<Rightarrow> controller_state checked" where
  "controller_of st m = ok_or (tv_controller st) (Msg m [])"

text \<open>A transition of the controller: its pair of new state and verdict, as a result.\<close>

definition transition :: "controller_state \<times> controller_error check \<Rightarrow> controller_error + controller_state" where
  "transition r = (case r of (c, Inr _) \<Rightarrow> Inr c | (_, Inl e) \<Rightarrow> Inl e)"

section \<open>Controller events\<close>

definition observe_policy_selected :: "harness_policy \<Rightarrow> trace_structure \<Rightarrow> trace_structure checked" where
  "observe_policy_selected pol st =
     (if tv_harness_policy st \<noteq> None then Inl (Msg ''trace contains more than one PolicySelected'' [])
      else if tv_saw_turn st \<or> tv_base st \<noteq> NoBase
      then Inl (Msg ''PolicySelected appears after session state began'' [])
      else if pol = EvidencePlanner
      then Inl (Msg ''evidence_planner is unsupported until a planner trace protocol is defined'' [])
      else Inr (st\<lparr>tv_harness_policy := Some pol\<rparr>))"

definition observe_controller_observation ::
  "nat \<Rightarrow> string \<Rightarrow> observation \<Rightarrow> trace_structure \<Rightarrow> trace_structure checked" where
  "observe_controller_observation turn call_id obs st =
     and_then (ensure_evidence_harness st ''ObservationRecorded'') (\<lambda>_.
     and_then (controller_call st ''ObservationRecorded'' turn call_id None) (\<lambda>r.
     and_then (inside ''ObservationRecorded({call_id}) {error}'' [ArgText call_id]
       (validate_observation_matches_call (rcd_call r) obs)) (\<lambda>_.
     and_then (controller_of st ''ObservationRecorded appears before controller base'') (\<lambda>c.
     and_then (caused ''invalid ObservationRecorded({call_id}): {error}'' [ArgText call_id]
       (transition (apply_observation turn obs c))) (\<lambda>c'.
       set_controller_call_record ''ObservationRecorded'' RecObservation (st\<lparr>tv_controller := Some c'\<rparr>))))))"

definition check_block :: "tool_call \<Rightarrow> string \<Rightarrow> string \<Rightarrow> controller_block \<Rightarrow> structure_error check" where
  "check_block call call_id tool b =
     (if cb_reason b = RepeatedCheck \<or> (cb_reason b = UnsupportedMutation \<and> cb_check_name b \<noteq> None) then
        (if tool \<noteq> ''run_check''
         then Inl (Msg ''check ControllerBlocked({call_id}) does not match run_check'' [ArgText call_id])
         else if Option.bind (json_get (tc_args call) ''name'') json_as_str \<noteq> cb_check_name b
         then Inl (Msg ''ControllerBlocked({call_id}) check name does not match ToolCall args'' [ArgText call_id])
         else ok)
      else require (cb_check_name b = None)
             (Msg ''non-check ControllerBlocked({call_id}) carries a check name'' [ArgText call_id]))"

definition observe_controller_block ::
  "nat \<Rightarrow> string \<Rightarrow> string \<Rightarrow> controller_block \<Rightarrow> trace_structure \<Rightarrow> trace_structure checked" where
  "observe_controller_block turn call_id tool b st =
     and_then (ensure_evidence_harness st ''ControllerBlocked'') (\<lambda>_.
     and_then (controller_call st ''ControllerBlocked'' turn call_id (Some tool)) (\<lambda>r.
     and_then (inside ''ControllerBlocked({call_id}) {error}'' [ArgText call_id]
       (validate_block_paths_match_call (rcd_call r) b)) (\<lambda>_.
     and_then (check_block (rcd_call r) call_id tool b) (\<lambda>_.
     and_then (controller_of st ''ControllerBlocked appears before controller base'') (\<lambda>c.
     and_then (caused ''invalid ControllerBlocked({call_id}): {error}'' [ArgText call_id]
       (validate_block c turn b)) (\<lambda>_.
       set_controller_call_record ''ControllerBlocked'' (RecBlocked (cb_reason b)) st))))))"

definition observe_workspace_effect ::
  "nat \<Rightarrow> string \<Rightarrow> string \<Rightarrow> workspace_effect \<Rightarrow> trace_structure \<Rightarrow> trace_structure checked" where
  "observe_workspace_effect turn call_id tool eff st =
     and_then (ensure_evidence_harness st ''WorkspaceEffectRecorded'') (\<lambda>_.
     and_then (require (is_effect_recording_tool tool)
       (Msg ''WorkspaceEffectRecorded({call_id}) uses unsupported effect tool {tool:?}''
          [ArgText call_id, ArgText tool])) (\<lambda>_.
     and_then (controller_call st ''WorkspaceEffectRecorded'' turn call_id (Some tool)) (\<lambda>r.
     and_then (inside ''WorkspaceEffectRecorded({call_id}) {error}'' [ArgText call_id]
       (validate_effect_paths_match_call (rcd_call r) (map pe_path (we_effects eff)))) (\<lambda>_.
     and_then (controller_of st ''WorkspaceEffectRecorded appears before controller base'') (\<lambda>c.
     and_then (caused ''invalid WorkspaceEffectRecorded({call_id}): {error}'' [ArgText call_id]
       (transition (apply_workspace_effect turn eff c))) (\<lambda>c'.
       set_controller_call_record ''WorkspaceEffectRecorded'' RecEffect
         (st\<lparr>tv_controller := Some c', tv_mutation_epoch := mutation_epoch c', tv_passed_checks := passed_checks c'\<rparr>)))))))"

definition observe_verification_check ::
  "nat \<Rightarrow> string \<Rightarrow> verification_check \<Rightarrow> trace_structure \<Rightarrow> trace_structure checked" where
  "observe_verification_check turn call_id check st =
     and_then (ensure_evidence_harness st ''VerificationCheckRecorded'') (\<lambda>_.
     and_then (controller_call st ''VerificationCheckRecorded'' turn call_id (Some ''run_check'')) (\<lambda>r.
     and_then (require (Option.bind (json_get (tc_args (rcd_call r)) ''name'') json_as_str = Some (vc_name check))
       (Msg ''VerificationCheckRecorded({call_id}) name does not match ToolCall args'' [ArgText call_id])) (\<lambda>_.
     and_then (controller_of st ''VerificationCheckRecorded appears before controller base'') (\<lambda>c.
     and_then (caused ''invalid VerificationCheckRecorded({call_id}): {error}'' [ArgText call_id]
       (transition (apply_verification_check turn check c))) (\<lambda>c'.
       set_controller_call_record ''VerificationCheckRecorded'' (RecVerification (vc_name check) (vc_outcome check))
         (st\<lparr>tv_controller := Some c', tv_passed_checks := passed_checks c'\<rparr>))))))"

section \<open>Bases, checkpoints, recovery packets\<close>

definition observe_session_prompt :: "trace_structure \<Rightarrow> trace_structure checked" where
  "observe_session_prompt st =
     (if tv_base st \<noteq> NoBase \<or> tv_saw_turn st
      then Inl (Msg ''SessionPrompt conflicts with an existing state base'' [])
      else let st1 = st\<lparr>tv_base := FreshBase, tv_expected_first_turn := Some 0\<rparr>
        in Inr (if evidence_trace st then st1\<lparr>tv_pending_controller_checkpoint := Some CtxInitial\<rparr> else st1))"

definition import_checkpoint :: "recovery_checkpoint \<Rightarrow> trace_structure \<Rightarrow> trace_structure" where
  "import_checkpoint cp st =
     (let st1 = st\<lparr>tv_mutation_epoch := rc_mutation_epoch cp, tv_passed_checks := rc_passed_checks cp\<rparr>
      in if tv_saw_turn st then st1
         else st1\<lparr>tv_projected_controller_blocks :=
                foldl (\<lambda>m g. bt_insert (gt_turn g) (gt_controller_blocks g) m) [] (rc_guard_history cp)\<rparr>)"

definition check_guard_blocks :: "(nat, nat) btree_map \<Rightarrow> guard_turn \<Rightarrow> structure_error check" where
  "check_guard_blocks projected g =
     (case bt_get projected (gt_turn g) of
        None \<Rightarrow> ok
      | Some n \<Rightarrow>
          if \<not> gt_controller_blocks_was_present g
          then require (gt_controller_blocks g = 0)
                 (Msg ''checkpoint guard turn {} has an absent but nonzero controller-block count'' [ArgNat (gt_turn g)])
          else require (gt_controller_blocks g = n)
                 (Msg ''checkpoint guard turn {} controller-block count {} differs from typed event count {projected}''
                    [ArgNat (gt_turn g), ArgNat (gt_controller_blocks g), ArgNat n]))"

definition validate_checkpoint_controller_blocks ::
  "trace_structure \<Rightarrow> recovery_checkpoint \<Rightarrow> structure_error check" where
  "validate_checkpoint_controller_blocks st cp = checks [
     require (evidence_trace st \<or> \<not> list_ex (\<lambda>g. gt_controller_blocks g \<noteq> 0) (rc_guard_history cp))
       (Msg ''non-evidence checkpoint contains a controller-block count'' []),
     check_all (check_guard_blocks (tv_projected_controller_blocks st)) (rc_guard_history cp)]"

definition validate_core_controller_parity :: "trace_structure \<Rightarrow> recovery_checkpoint \<Rightarrow> structure_error check" where
  "validate_core_controller_parity st cp =
     and_then (controller_of st ''RecoveryCheckpoint appears before controller base'') (\<lambda>c.
       require (rc_mutation_epoch cp = mutation_epoch c \<and> rc_passed_checks cp = passed_checks c)
         (Msg ''RecoveryCheckpoint mutation/check coordinates disagree with controller state'' []))"

definition observe_final_checkpoint ::
  "string \<Rightarrow> recovery_checkpoint \<Rightarrow> trace_structure \<Rightarrow> trace_structure checked" where
  "observe_final_checkpoint reason cp st =
     (if is_success_reason reason then Inl (Msg ''successful sessions cannot carry a recovery checkpoint'' [])
      else if tv_checkpoint_after_end st \<or> tv_paused st
      then Inl (Msg ''duplicate or late recovery checkpoint after SessionEnd'' [])
      else let st1 = st\<lparr>tv_checkpoint_after_end := True\<rparr>
        in if evidence_trace st
           then and_then (validate_core_controller_parity st cp) (\<lambda>_.
                  Inr (import_checkpoint cp (st1\<lparr>tv_pending_controller_checkpoint := Some (CtxPause reason)\<rparr>)))
           else Inr (import_checkpoint cp st1))"

definition observe_base_checkpoint :: "recovery_checkpoint \<Rightarrow> trace_structure \<Rightarrow> trace_structure checked" where
  "observe_base_checkpoint cp st =
     (let st1 = st\<lparr>tv_base := ResumedBase, tv_expected_first_turn := Some (rc_next_turn cp)\<rparr>
      in Inr (import_checkpoint cp
           (if evidence_trace st
            then st1\<lparr>tv_resumed_pending_input := (rc_pending_input cp \<noteq> None),
                     tv_pending_controller_checkpoint :=
                       Some (CtxResumeBase (rc_mutation_epoch cp) (rc_passed_checks cp))\<rparr>
            else st1)))"

definition observe_anchor_checkpoint :: "recovery_checkpoint \<Rightarrow> trace_structure \<Rightarrow> trace_structure checked" where
  "observe_anchor_checkpoint cp st =
     (if Some (rc_next_turn cp) \<noteq> tv_expected_first_turn st
      then Inl (Msg ''answer anchor changes the checkpoint next_turn'' [])
      else if rc_pending_input cp \<noteq> None
      then Inl (Msg ''answer anchor retains a pending input request'' [])
      else and_then (if evidence_trace st then validate_core_controller_parity st cp else ok) (\<lambda>_.
        Inr (import_checkpoint cp
          ((if evidence_trace st then st\<lparr>tv_pending_controller_checkpoint := Some CtxResumeAnchor\<rparr> else st)
             \<lparr>tv_answer_anchor_seen := True\<rparr>))))"

definition observe_checkpoint :: "recovery_checkpoint \<Rightarrow> trace_structure \<Rightarrow> trace_structure checked" where
  "observe_checkpoint cp st =
     and_then (require (tv_active st = None) (Msg ''RecoveryCheckpoint appears inside an active turn'' [])) (\<lambda>_.
     and_then (validate_recovery_checkpoint_shape cp) (\<lambda>_.
     and_then (validate_checkpoint_controller_blocks st cp) (\<lambda>_.
       case tv_ended_reason st of
         Some reason \<Rightarrow> observe_final_checkpoint reason cp st
       | None \<Rightarrow>
           if tv_saw_turn st then Inl (Msg ''RecoveryCheckpoint appears after turns without SessionEnd'' [])
           else case tv_base st of
             NoBase \<Rightarrow> observe_base_checkpoint cp st
           | FreshBase \<Rightarrow> Inl (Msg ''fresh SessionPrompt cannot be mixed with a recovery checkpoint'' [])
           | ResumedBase \<Rightarrow>
               if tv_resume_prompt_seen st \<and> \<not> tv_answer_anchor_seen st then observe_anchor_checkpoint cp st
               else Inl (Msg ''duplicate recovery state base'' []))))"


definition evidence_retained :: "controller_checkpoint \<Rightarrow> bool" where
  "evidence_retained cp \<longleftrightarrow>
     list_ex (\<lambda>e. fe_fresh e \<or> fe_complete e \<or> fe_covered_ranges e \<noteq> []) (cp_file_evidence cp)"

definition check_context ::
  "checkpoint_context \<Rightarrow> controller_checkpoint \<Rightarrow> trace_structure \<Rightarrow> structure_error check" where
  "check_context anchor cp st =
     (case anchor of
        CtxInitial \<Rightarrow>
          and_then (caused ''invalid initial ControllerCheckpoint: {error}'' []
            (controller_new Evidence (cp_required_checks cp))) (\<lambda>c.
            require (cp = checkpoint c) (Msg ''initial ControllerCheckpoint is not a pristine controller base'' []))
      | CtxResumeBase epoch passed \<Rightarrow> checks [
          require (cp_mutation_epoch cp = epoch \<and> cp_passed_checks cp = passed)
            (Msg ''resumed ControllerCheckpoint disagrees with core recovery coordinates'' []),
          require (\<not> (cp_inherited_pause_reason cp = None \<or> evidence_retained cp))
            (Msg ''resumed ControllerCheckpoint did not conservatively invalidate inherited file coverage'' [])]
      | CtxResumeAnchor \<Rightarrow>
          and_then (controller_of st ''controller answer anchor has no resume base'') (\<lambda>c.
            require (cp = checkpoint c) (Msg ''controller answer anchor differs from resumed controller state'' []))
      | CtxPause reason \<Rightarrow>
          and_then (controller_of st ''pause ControllerCheckpoint has no controller state'') (\<lambda>c.
          and_then (caused ''invalid pause ControllerCheckpoint: {error}'' [] (checkpoint_for_pause c reason)) (\<lambda>expected.
            require (cp = expected) (Msg ''pause ControllerCheckpoint differs from projected controller state'' []))))"

definition observe_controller_checkpoint ::
  "controller_checkpoint \<Rightarrow> trace_structure \<Rightarrow> trace_structure checked" where
  "observe_controller_checkpoint cp st =
     and_then (ensure_evidence_harness st ''ControllerCheckpoint'') (\<lambda>_.
     and_then (require (tv_active st = None) (Msg ''ControllerCheckpoint appears inside an active turn'' [])) (\<lambda>_.
     and_then (require (cp_harness_policy cp = Evidence)
       (Msg ''ControllerCheckpoint policy differs from PolicySelected'' [])) (\<lambda>_.
     and_then (ok_or (tv_pending_controller_checkpoint st)
       (Msg ''ControllerCheckpoint has no matching state anchor'' [])) (\<lambda>anchor.
     and_then (caused ''invalid ControllerCheckpoint: {error}'' [] (from_checkpoint cp)) (\<lambda>c.
     and_then (check_context anchor cp st) (\<lambda>_.
       Inr (st\<lparr>tv_pending_controller_checkpoint := None, tv_mutation_epoch := mutation_epoch c,
               tv_passed_checks := passed_checks c, tv_controller := Some c\<rparr>)))))))"

definition observe_recovery_packet ::
  "(string \<Rightarrow> string) \<Rightarrow> recovery_packet \<Rightarrow> string \<Rightarrow> trace_structure \<Rightarrow> trace_structure checked" where
  "observe_recovery_packet to_json packet message st =
     and_then (ensure_evidence_harness st ''RecoveryPacketInjected'') (\<lambda>_.
     and_then (checks [
       require (\<not> (tv_base st \<noteq> ResumedBase \<or> tv_saw_turn st \<or> tv_active st \<noteq> None))
         (Msg ''RecoveryPacketInjected must appear in a resumed base before the first turn'' []),
       require (\<not> (tv_resume_prompt_seen st \<and> \<not> tv_answer_anchor_seen st))
         (Msg ''RecoveryPacketInjected appears before the ResumePrompt state anchors'' []),
       require (\<not> tv_resumed_pending_input st)
         (Msg ''clarification-answer continuation cannot inject a generic recovery packet'' []),
       require (\<not> tv_recovery_packet_seen st)
         (Msg ''trace contains more than one RecoveryPacketInjected'' [])]) (\<lambda>_.
     and_then (controller_of st ''RecoveryPacketInjected appears before controller base'') (\<lambda>c.
     and_then (ok_or (cp_inherited_pause_reason (checkpoint c))
       (Msg ''resumed controller state omits its pause reason'' [])) (\<lambda>reason.
     and_then (caused ''invalid RecoveryPacketInjected: {error}'' [] (controller_recovery_packet c reason)) (\<lambda>expected.
     and_then (require (packet = expected)
       (Msg ''RecoveryPacketInjected facts differ from projected controller state'' [])) (\<lambda>_.
     and_then (caused ''invalid RecoveryPacketInjected message: {error}'' [] (render_recovery_packet to_json packet)) (\<lambda>m.
     and_then (require (message = m)
       (Msg ''RecoveryPacketInjected message differs from its deterministic typed facts'' [])) (\<lambda>_.
       Inr (st\<lparr>tv_recovery_packet_seen := True\<rparr>)))))))))"

definition observe_resume_prompt :: "trace_structure \<Rightarrow> trace_structure checked" where
  "observe_resume_prompt st =
     (if tv_base st \<noteq> ResumedBase \<or> tv_saw_turn st \<or> tv_resume_prompt_seen st
      then Inl (Msg ''ResumePrompt requires one recovery base before the first turn'' [])
      else if tv_recovery_packet_seen st
      then Inl (Msg ''ResumePrompt cannot appear after RecoveryPacketInjected'' [])
      else Inr (st\<lparr>tv_resume_prompt_seen := True\<rparr>))"

section \<open>Turns and calls\<close>

definition ready_for_turn :: "nat \<Rightarrow> trace_structure \<Rightarrow> structure_error check" where
  "ready_for_turn turn st = checks [
     (case tv_awaiting_end st of
        Some reason \<Rightarrow> Inl (Msg ''TurnStart({turn}) appears after terminal TurnCommitted({reason})'' [ArgNat turn, ArgText reason])
      | None \<Rightarrow> ok),
     require (tv_base st \<noteq> NoBase) (Msg ''TurnStart appears before SessionPrompt or RecoveryCheckpoint'' []),
     require (\<not> (tv_base st = ResumedBase \<and> tv_resume_prompt_seen st \<and> \<not> tv_answer_anchor_seen st))
       (Msg ''TurnStart appears before the ResumePrompt answer anchor'' []),
     require (\<not> (tv_base st = ResumedBase \<and> tv_resumed_pending_input st \<and> \<not> tv_resume_prompt_seen st))
       (Msg ''TurnStart appears before the pending clarification received a ResumePrompt'' []),
     require (\<not> (evidence_trace st \<and> tv_controller st = None))
       (Msg ''TurnStart appears before the controller base'' []),
     require (\<not> (evidence_trace st \<and> tv_base st = ResumedBase \<and> \<not> tv_resumed_pending_input st
                \<and> \<not> tv_recovery_packet_seen st))
       (Msg ''resumed evidence TurnStart lacks RecoveryPacketInjected'' []),
     (case tv_active st of
        Some a \<Rightarrow>
          require (\<not> is_modern a)
            (Msg ''TurnStart({turn}) overwrites modern turn {} without TurnCommitted'' [ArgNat turn, ArgNat (at_turn a)])
      | None \<Rightarrow> ok)]"

definition expected_turn :: "trace_structure \<Rightarrow> nat option checked" where
  "expected_turn st =
     (if tv_saw_turn st then
        (case tv_last_turn st of
           None \<Rightarrow> Inr None
         | Some prior \<Rightarrow>
             (case checked_add u32_max prior 1 of
                None \<Rightarrow> Inl (Msg ''turn coordinate cannot advance beyond u32::MAX'' [])
              | Some n \<Rightarrow> Inr (Some n)))
      else Inr (tv_expected_first_turn st))"

definition observe_turn_start :: "nat \<Rightarrow> trace_structure \<Rightarrow> trace_structure checked" where
  "observe_turn_start turn st =
     and_then (ready_for_turn turn st) (\<lambda>_.
     and_then (expected_turn st) (\<lambda>expected.
     and_then (case expected of
                 None \<Rightarrow> ok
               | Some n \<Rightarrow> require (turn = n)
                   (Msg ''TurnStart({turn}) expected TurnStart({expected})'' [ArgNat turn, ArgNat n])) (\<lambda>_.
       Inr (st\<lparr>tv_saw_turn := True, tv_last_turn := Some turn, tv_active := Some (active_new turn)\<rparr>))))"

definition observe_turn_end :: "nat \<Rightarrow> trace_structure \<Rightarrow> trace_structure checked" where
  "observe_turn_end turn st =
     and_then (active_mut st ''TurnEnd'') (\<lambda>a.
       if at_turn a \<noteq> turn
       then Inl (Msg ''TurnEnd({turn}) does not match active turn {}'' [ArgNat turn, ArgNat (at_turn a)])
       else if at_ended a then Inl (Msg ''turn {turn} has more than one TurnEnd'' [ArgNat turn])
       else Inr (put_active (a\<lparr>at_ended := True\<rparr>) st))"

definition observe_actions_proposed :: "nat \<Rightarrow> tool_call list \<Rightarrow> trace_structure \<Rightarrow> trace_structure checked" where
  "observe_actions_proposed turn calls st =
     and_then (active_mut st ''ActionsProposed'') (\<lambda>a.
       if at_turn a \<noteq> turn \<or> \<not> at_ended a
       then Inl (Msg ''ActionsProposed({turn}) appears outside its ended turn'' [ArgNat turn])
       else if at_proposed a \<noteq> None then Inl (Msg ''turn {turn} has duplicate ActionsProposed'' [ArgNat turn])
       else if at_calls a \<noteq> [] then Inl (Msg ''turn {turn} records ToolCall before ActionsProposed'' [ArgNat turn])
       else Inr (put_active (a\<lparr>at_proposed := Some calls\<rparr>) st))"

definition call_new :: "tool_call \<Rightarrow> recorded_call" where
  "call_new call = \<lparr>rcd_call = call, rcd_result = None, rcd_mutation_recorded = False,
     rcd_check_recorded = None, rcd_controller_record = None\<rparr>"

definition unresolved_external :: "recorded_call \<Rightarrow> bool" where
  "unresolved_external r \<longleftrightarrow> rcd_result r = None \<and> \<not> is_completion_control (tc_name (rcd_call r))"

definition check_proposed :: "active_turn \<Rightarrow> tool_call \<Rightarrow> structure_error check" where
  "check_proposed a call =
     (case at_proposed a of
        None \<Rightarrow> ok
      | Some proposed \<Rightarrow>
          (let i = length (at_calls a)
           in if length proposed \<le> i
              then Inl (Msg ''turn {} dispatches more calls than it proposed'' [ArgNat (at_turn a)])
              else require (proposed ! i = call)
                     (Msg ''turn {} dispatched call {:?} but proposed {:?} at index {index}''
                        [ArgNat (at_turn a), ArgCall call, ArgCall (proposed ! i), ArgNat i])))"

definition observe_tool_call :: "tool_call \<Rightarrow> trace_structure \<Rightarrow> trace_structure checked" where
  "observe_tool_call call st =
     and_then (active_mut st ''ToolCall'') (\<lambda>a.
     and_then (checks [
       require (at_ended a) (Msg ''ToolCall({}) appears before TurnEnd'' [ArgText (tc_id call)]),
       require (\<not> list_ex (\<lambda>r. tc_id (rcd_call r) = tc_id call) (at_calls a))
         (Msg ''duplicate ToolCall id {:?}'' [ArgText (tc_id call)]),
       require (\<not> (at_calls a \<noteq> [] \<and> unresolved_external (last (at_calls a))))
         (Msg ''ToolCall({}) appears before ToolCall({}) received a result''
            [ArgText (tc_id call), ArgText (tc_id (rcd_call (last (at_calls a))))]),
       check_proposed a call]) (\<lambda>_.
       Inr (put_active (a\<lparr>at_calls := at_calls a @ [call_new call]\<rparr>) st)))"


section \<open>Results and evidence\<close>

definition typed_effect_mirror :: "trace_structure \<Rightarrow> recorded_call \<Rightarrow> bool" where
  "typed_effect_mirror st r \<longleftrightarrow>
     evidence_trace st \<and> rcd_mutation_recorded r \<and> rcd_controller_record r = Some RecEffect"

definition check_result_record :: "string \<Rightarrow> bool \<Rightarrow> recorded_call \<Rightarrow> structure_error check" where
  "check_result_record i is_error r =
     (case rcd_controller_record r of
        Some RecObservation \<Rightarrow>
          require (\<not> is_error) (Msg ''failed ToolCall({id}) carries a successful observation record'' [ArgText i])
      | Some (RecBlocked _) \<Rightarrow>
          require is_error (Msg ''ControllerBlocked ToolCall({id}) has a successful ToolResult'' [ArgText i])
      | Some (RecVerification name outcome) \<Rightarrow> checks [
          require (is_error = (outcome = Failed))
            (Msg ''ToolCall({id}) result disagrees with verification outcome {outcome:?}'' [ArgText i, ArgOutcome outcome]),
          (case outcome of
             Passed \<Rightarrow>
               require (rcd_check_recorded r = Some name)
                 (Msg ''passing VerificationCheckRecorded({id}) lacks its compatibility VerificationCheckPassed'' [ArgText i])
           | Failed \<Rightarrow>
               require (rcd_check_recorded r = None)
                 (Msg ''failed VerificationCheckRecorded({id}) carries passing compatibility evidence'' [ArgText i]))]
      | Some RecEffect \<Rightarrow>
          require (rcd_mutation_recorded r)
            (Msg ''WorkspaceEffectRecorded({id}) lacks its compatibility WorkspaceMutation'' [ArgText i])
      | None \<Rightarrow> ok)"

definition observe_tool_result :: "string \<Rightarrow> string \<Rightarrow> bool \<Rightarrow> trace_structure \<Rightarrow> trace_structure checked" where
  "observe_tool_result i name is_error st =
     and_then (active_mut st ''ToolResult'') (\<lambda>a.
       case position (\<lambda>r. tc_id (rcd_call r) = i) (at_calls a) of
         None \<Rightarrow> Inl (Msg ''ToolResult({id}) has no matching ToolCall'' [ArgText i])
       | Some k \<Rightarrow>
           (let r = at_calls a ! k
            in and_then (checks [
                 require (tc_name (rcd_call r) = name)
                   (Msg ''ToolResult({id}) name {name:?} does not match {:?}''
                      [ArgText i, ArgText name, ArgText (tc_name (rcd_call r))]),
                 require (rcd_result r = None) (Msg ''ToolCall({id}) has more than one result'' [ArgText i]),
                 require (\<not> (is_error \<and> (rcd_mutation_recorded r \<or> rcd_check_recorded r \<noteq> None)
                            \<and> \<not> typed_effect_mirror st r))
                   (Msg ''failed ToolCall({id}) carries successful mutation/check evidence'' [ArgText i]),
                 check_result_record i is_error r,
                 require (\<not> (evidence_trace st \<and> \<not> is_error \<and> rcd_controller_record r = None
                            \<and> \<not> is_unmeasured_read_only_or_control name))
                   (Msg ''successful evidence-policy ToolCall({id}) lacks a typed controller record'' [ArgText i])]) (\<lambda>_.
                 Inr (put_active (a\<lparr>at_calls := (at_calls a)[k := r\<lparr>rcd_result := Some is_error\<rparr>]\<rparr>) st))))"

text \<open>The call that an event about evidence belongs to: the last one of the ended turn.\<close>

definition evidence_call :: "string \<Rightarrow> nat \<Rightarrow> trace_structure \<Rightarrow> (active_turn \<times> recorded_call) checked" where
  "evidence_call event_name turn st =
     and_then (active_mut st event_name) (\<lambda>a.
       if at_turn a \<noteq> turn \<or> \<not> at_ended a
       then Inl (Msg ''{event}({turn}) appears outside its ended turn'' [ArgText event_name, ArgNat turn])
       else if at_calls a = [] then Inl (Msg ''{event} has no matching ToolCall'' [ArgText event_name])
       else Inr (a, last (at_calls a)))"

definition observe_evidence_mutation ::
  "nat \<Rightarrow> string \<Rightarrow> nat \<Rightarrow> trace_structure \<Rightarrow> trace_structure checked" where
  "observe_evidence_mutation turn tool epoch st =
     and_then (evidence_call ''WorkspaceMutation'' turn st) (\<lambda>(a, r).
       if tc_name (rcd_call r) \<noteq> tool \<or> rcd_result r \<noteq> None \<or> rcd_mutation_recorded r
          \<or> rcd_controller_record r \<noteq> Some RecEffect \<or> epoch \<noteq> tv_mutation_epoch st
       then Inl (Msg ''evidence WorkspaceMutation({tool}) is not an exact mirror of the active typed effect'' [ArgText tool])
       else Inr (put_active (update_last (\<lambda>q. q\<lparr>rcd_mutation_recorded := True\<rparr>) a) st))"

definition observe_legacy_mutation ::
  "nat \<Rightarrow> string \<Rightarrow> nat \<Rightarrow> trace_structure \<Rightarrow> trace_structure checked" where
  "observe_legacy_mutation turn tool epoch st =
     and_then (ok_or (checked_add u64_max (tv_mutation_epoch st) 1)
       (Msg ''WorkspaceMutation epoch cannot advance beyond u64::MAX'' [])) (\<lambda>expected.
     and_then (evidence_call ''WorkspaceMutation'' turn st) (\<lambda>(a, r).
       if tc_name (rcd_call r) \<noteq> tool \<or> rcd_result r \<noteq> None \<or> rcd_mutation_recorded r
       then Inl (Msg ''WorkspaceMutation({tool}) does not match the active unresolved call'' [ArgText tool])
       else if epoch \<noteq> expected
       then Inl (Msg ''WorkspaceMutation advances epoch from {} to {mutation_epoch}''
              [ArgNat (tv_mutation_epoch st), ArgNat epoch])
       else Inr ((put_active (update_last (\<lambda>q. q\<lparr>rcd_mutation_recorded := True\<rparr>) a) st)
              \<lparr>tv_mutation_epoch := epoch\<rparr>)))"

definition observe_mutation :: "nat \<Rightarrow> string \<Rightarrow> nat \<Rightarrow> trace_structure \<Rightarrow> trace_structure checked" where
  "observe_mutation turn tool epoch st =
     (if evidence_trace st then observe_evidence_mutation turn tool epoch st
      else observe_legacy_mutation turn tool epoch st)"

definition observe_evidence_check ::
  "nat \<Rightarrow> string \<Rightarrow> nat \<Rightarrow> trace_structure \<Rightarrow> trace_structure checked" where
  "observe_evidence_check turn name epoch st =
     and_then (evidence_call ''VerificationCheckPassed'' turn st) (\<lambda>(a, r).
       if tc_name (rcd_call r) \<noteq> ''run_check'' \<or> rcd_result r \<noteq> None \<or> rcd_check_recorded r \<noteq> None
          \<or> rcd_controller_record r \<noteq> Some (RecVerification name Passed) \<or> epoch \<noteq> tv_mutation_epoch st
       then Inl (Msg ''evidence VerificationCheckPassed({name}) is not an exact mirror of the active typed pass'' [ArgText name])
       else Inr (put_active (update_last (\<lambda>q. q\<lparr>rcd_check_recorded := Some name\<rparr>) a) st))"

definition observe_legacy_check ::
  "nat \<Rightarrow> string \<Rightarrow> nat \<Rightarrow> trace_structure \<Rightarrow> trace_structure checked" where
  "observe_legacy_check turn name epoch st =
     and_then (evidence_call ''VerificationCheckPassed'' turn st) (\<lambda>(a, r).
       if tc_name (rcd_call r) \<noteq> ''run_check''
          \<or> Option.bind (json_get (tc_args (rcd_call r)) ''name'') json_as_str \<noteq> Some name
          \<or> rcd_result r \<noteq> None \<or> rcd_check_recorded r \<noteq> None
       then Inl (Msg ''VerificationCheckPassed({name}) does not match the active run_check call'' [ArgText name])
       else if epoch \<noteq> tv_mutation_epoch st
       then Inl (Msg ''VerificationCheckPassed({name}) uses epoch {mutation_epoch}, current epoch is {current_epoch}''
              [ArgText name, ArgNat epoch, ArgNat (tv_mutation_epoch st)])
       else Inr ((put_active (update_last (\<lambda>q. q\<lparr>rcd_check_recorded := Some name\<rparr>) a) st)
              \<lparr>tv_passed_checks := bt_insert name epoch (tv_passed_checks st)\<rparr>))"

definition observe_check :: "nat \<Rightarrow> string \<Rightarrow> nat \<Rightarrow> trace_structure \<Rightarrow> trace_structure checked" where
  "observe_check turn name epoch st =
     (if evidence_trace st then observe_evidence_check turn name epoch st
      else observe_legacy_check turn name epoch st)"

definition expected_fresh :: "trace_structure \<Rightarrow> string list \<Rightarrow> string list" where
  "expected_fresh st required =
     filter (\<lambda>n. bt_get (tv_passed_checks st) n = Some (tv_mutation_epoch st)) required"

definition observe_gate ::
  "nat \<Rightarrow> string list \<Rightarrow> string list \<Rightarrow> string \<Rightarrow> trace_structure \<Rightarrow> trace_structure checked" where
  "observe_gate epoch required fresh decision st =
     and_then (active_mut st ''CompletionGate'') (\<lambda>a.
     and_then (checks [
       require (at_ended a) (Msg ''CompletionGate appears before TurnEnd'' []),
       require (at_completion_gate a = None) (Msg ''turn contains more than one CompletionGate'' []),
       (if evidence_trace st
        then and_then (controller_of st ''CompletionGate appears before controller base'') (\<lambda>c.
               require (required = required_checks c)
                 (Msg ''CompletionGate required checks differ from controller configuration'' []))
        else ok),
       require (epoch = tv_mutation_epoch st)
         (Msg ''CompletionGate uses epoch {mutation_epoch}, current epoch is {}''
            [ArgNat epoch, ArgNat (tv_mutation_epoch st)]),
       require (length (bs_of_list required) = length required)
         (Msg ''CompletionGate repeats a required check name'' []),
       require (fresh = expected_fresh st required)
         (Msg ''CompletionGate fresh checks {fresh_checks:?} do not match recorded evidence {expected_fresh:?}''
            [ArgNames fresh, ArgNames (expected_fresh st required)]),
       require (decision = (if length (expected_fresh st required) = length required then ''passed'' else ''blocked''))
         (Msg ''CompletionGate decision {decision:?} should be {expected_decision:?}'' [ArgText decision])]) (\<lambda>_.
       Inr (put_active (a\<lparr>at_completion_gate :=
              Some \<lparr>cg_mutation_epoch = epoch, cg_passed = (decision = ''passed'')\<rparr>\<rparr>) st)))"

section \<open>Committing and ending\<close>

definition check_shape_of_calls :: "nat \<Rightarrow> active_turn \<Rightarrow> tool_call list \<Rightarrow> structure_error check" where
  "check_shape_of_calls turn a proposed =
     (if at_pre_dispatch_stopped a
      then require (at_calls a = []) (Msg ''guard-stopped turn {turn} records dispatched calls'' [ArgNat turn])
      else require (length (at_calls a) = length proposed)
             (Msg ''turn {turn} committed {} call(s) after proposing {}''
                [ArgNat turn, ArgNat (length (at_calls a)), ArgNat (length proposed)]))"

definition check_resolved :: "nat \<Rightarrow> active_turn \<Rightarrow> structure_error check" where
  "check_resolved turn a =
     check_all (\<lambda>r. require (\<not> (rcd_result r = None
         \<and> (\<not> is_completion_control (tc_name (rcd_call r)) \<or> tc_name (rcd_call r) = REQUEST_USER_INPUT)))
       (Msg ''TurnCommitted({turn}) leaves ToolCall({}) unresolved'' [ArgNat turn, ArgText (tc_id (rcd_call r))]))
       (at_calls a)"

definition result_count :: "active_turn \<Rightarrow> nat" where
  "result_count a = as_u32 (length (filter (\<lambda>r. rcd_result r \<noteq> None) (at_calls a)))"

definition error_count :: "active_turn \<Rightarrow> nat" where
  "error_count a = as_u32 (length (filter (\<lambda>r. rcd_result r = Some True) (at_calls a)))"

fun is_blocked_record :: "controller_call_record option \<Rightarrow> bool" where
  "is_blocked_record (Some (RecBlocked _)) = True"
| "is_blocked_record _ = False"

definition block_count :: "active_turn \<Rightarrow> nat" where
  "block_count a = as_u32 (length (filter (\<lambda>r. is_blocked_record (rcd_controller_record r)) (at_calls a)))"

definition check_stop :: "active_turn \<Rightarrow> tool_call list \<Rightarrow> string option \<Rightarrow> structure_error check" where
  "check_stop a proposed stop = checks [
     require (\<not> (stop = Some ''needs_input''
        \<and> (length proposed \<noteq> 1 \<or> tc_name (hd proposed) \<noteq> REQUEST_USER_INPUT \<or> length (at_calls a) \<noteq> 1
            \<or> rcd_result (hd (at_calls a)) \<noteq> Some False)))
       (Msg ''needs_input commit lacks one successful request_user_input result'' []),
     require (\<not> (stop = Some ''task_complete'' \<and> \<not> list_ex (\<lambda>c. tc_name c = TASK_COMPLETE) proposed))
       (Msg ''task_complete commit lacks task_complete proposal'' []),
     require (\<not> (stop = Some ''plan_submitted'' \<and> \<not> list_ex (\<lambda>c. tc_name c = SUBMIT_PLAN) proposed))
       (Msg ''plan_submitted commit lacks submit_plan proposal'' []),
     require (\<not> (stop = Some ''final_text'' \<and> proposed \<noteq> []))
       (Msg ''final_text commit contains proposed actions'' [])]"

definition check_success_gate :: "trace_structure \<Rightarrow> active_turn \<Rightarrow> string option \<Rightarrow> structure_error check" where
  "check_success_gate st a stop =
     (if evidence_trace st \<and> (stop = Some ''task_complete'' \<or> stop = Some ''final_text'')
      then and_then (controller_of st ''successful evidence commit has no controller state'') (\<lambda>c.
             require (required_checks c = []
                 \<or> (case at_completion_gate a of
                      None \<Rightarrow> False
                    | Some g \<Rightarrow> cg_passed g \<and> cg_mutation_epoch g = tv_mutation_epoch st))
               (Msg ''successful evidence commit lacks a current passed CompletionGate'' []))
      else ok)"

definition observe_commit ::
  "nat \<Rightarrow> nat \<Rightarrow> nat \<Rightarrow> string option \<Rightarrow> trace_structure \<Rightarrow> trace_structure checked" where
  "observe_commit turn dispatched errored stop st =
     and_then (require (tv_awaiting_end st = None) (Msg ''a terminal turn was already committed'' [])) (\<lambda>_.
     and_then (ok_or (tv_active st) (Msg ''TurnCommitted({turn}) has no active turn'' [ArgNat turn])) (\<lambda>a.
     and_then (require (at_turn a = turn \<and> at_ended a)
       (Msg ''TurnCommitted({turn}) does not match an ended active turn'' [ArgNat turn])) (\<lambda>_.
     and_then (ok_or (at_proposed a) (Msg ''TurnCommitted({turn}) has no ActionsProposed'' [ArgNat turn])) (\<lambda>proposed.
     and_then (checks [
       check_shape_of_calls turn a proposed,
       check_resolved turn a,
       require (dispatched = result_count a \<and> errored = error_count a)
         (Msg ''TurnCommitted({turn}) reports {dispatched}/{errored} dispatched/errors, recorded {result_count}/{error_count}''
            [ArgNat turn, ArgNat dispatched, ArgNat errored, ArgNat (result_count a), ArgNat (error_count a)]),
       check_stop a proposed stop,
       check_success_gate st a stop]) (\<lambda>_.
       let st1 = st\<lparr>tv_active := None, tv_last_turn := Some turn,
                    tv_projected_controller_blocks := bt_insert turn (block_count a) (tv_projected_controller_blocks st)\<rparr>
       in Inr (case stop of
            None \<Rightarrow> st1
          | Some reason \<Rightarrow> st1\<lparr>tv_awaiting_end := Some reason, tv_committed_terminal := Some reason\<rparr>))))))"

definition observe_session_end :: "string \<Rightarrow> trace_structure \<Rightarrow> trace_structure checked" where
  "observe_session_end reason st =
     and_then (checks [
       require (tv_ended_reason st = None) (Msg ''trace contains more than one SessionEnd'' []),
       (case tv_active st of
          None \<Rightarrow> ok
        | Some a \<Rightarrow>
            require (\<not> (is_modern a \<and> \<not> (reason = ''provider_error'' \<and> \<not> at_ended a \<and> at_calls a = [])))
              (Msg ''SessionEnd({reason}) closes modern turn {} without TurnCommitted'' [ArgText reason, ArgNat (at_turn a)])),
       (case tv_awaiting_end st of
          None \<Rightarrow> ok
        | Some committed \<Rightarrow>
            require (committed = reason)
              (Msg ''terminal TurnCommitted({committed}) differs from SessionEnd({reason})'' [ArgText committed, ArgText reason]))])
       (\<lambda>_. Inr (st\<lparr>tv_active := None, tv_awaiting_end := None, tv_ended_reason := Some reason\<rparr>))"

definition observe_session_paused :: "string \<Rightarrow> trace_structure \<Rightarrow> trace_structure checked" where
  "observe_session_paused reason st =
     and_then (ok_or (tv_ended_reason st) (Msg ''SessionPaused appears before SessionEnd'' [])) (\<lambda>ended.
     and_then (checks [
       require (\<not> is_success_reason ended) (Msg ''successful sessions cannot be paused'' []),
       require (ended = reason) (Msg ''SessionPaused({reason}) differs from SessionEnd({ended})'' [ArgText reason, ArgText ended]),
       require (tv_checkpoint_after_end st) (Msg ''SessionPaused lacks a preceding recovery checkpoint'' []),
       require (\<not> tv_paused st) (Msg ''trace contains more than one SessionPaused'' [])]) (\<lambda>_.
       Inr (st\<lparr>tv_paused := True\<rparr>)))"

definition observe_guard_stop :: "string \<Rightarrow> trace_structure \<Rightarrow> trace_structure checked" where
  "observe_guard_stop action st =
     (if action \<noteq> ''stopped'' then Inr st
      else and_then (active_mut st ''guard stop'') (\<lambda>a.
        if \<not> at_ended a then Inl (Msg ''guard stopped before TurnEnd'' [])
        else if at_pre_dispatch_stopped a
        then Inl (Msg ''more than one pre-dispatch guard stopped a turn'' [])
        else Inr (put_active (a\<lparr>at_pre_dispatch_stopped := True\<rparr>) st)))"

section \<open>Observing a trace\<close>

fun observe_event :: "(string \<Rightarrow> string) \<Rightarrow> event \<Rightarrow> trace_structure \<Rightarrow> trace_structure checked" where
  "observe_event j (EvPolicySelected _ _ pol _ _ _ _ _ _) st = observe_policy_selected pol st"
| "observe_event j (EvSessionPrompt _ _ _) st = observe_session_prompt st"
| "observe_event j (EvRecoveryCheckpoint cp) st = observe_checkpoint cp st"
| "observe_event j (EvResumePrompt _ _) st = observe_resume_prompt st"
| "observe_event j (EvTurnStart turn) st = observe_turn_start turn st"
| "observe_event j (EvTurnEnd turn _ _ _ _ _) st = observe_turn_end turn st"
| "observe_event j (EvActionsProposed turn calls) st = observe_actions_proposed turn calls st"
| "observe_event j (EvToolCall i name args) st = observe_tool_call \<lparr>tc_id = i, tc_name = name, tc_args = args\<rparr> st"
| "observe_event j (EvToolResult i name _ is_error _) st = observe_tool_result i name is_error st"
| "observe_event j (EvObservationRecorded turn i obs) st = observe_controller_observation turn i obs st"
| "observe_event j (EvControllerBlocked turn i tool b) st = observe_controller_block turn i tool b st"
| "observe_event j (EvWorkspaceEffectRecorded turn i tool eff) st = observe_workspace_effect turn i tool eff st"
| "observe_event j (EvVerificationCheckRecorded turn i check) st = observe_verification_check turn i check st"
| "observe_event j (EvControllerCheckpoint cp) st = observe_controller_checkpoint cp st"
| "observe_event j (EvRecoveryPacketInjected packet m) st = observe_recovery_packet j packet m st"
| "observe_event j (EvWorkspaceMutation turn tool epoch) st = observe_mutation turn tool epoch st"
| "observe_event j (EvVerificationCheckPassed turn name epoch) st = observe_check turn name epoch st"
| "observe_event j (EvCompletionGate epoch required fresh decision) st = observe_gate epoch required fresh decision st"
| "observe_event j (EvRepetitionGuard action) st = observe_guard_stop action st"
| "observe_event j (EvNoProgressGuard action) st = observe_guard_stop action st"
| "observe_event j (EvOscillationGuard action) st = observe_guard_stop action st"
| "observe_event j (EvTurnCommitted turn dispatched errored stop _) st = observe_commit turn dispatched errored stop st"
| "observe_event j (EvSessionEnd reason) st = observe_session_end reason st"
| "observe_event j (EvSessionPaused reason) st = observe_session_paused reason st"
| "observe_event j _ st = Inr st"

fun is_controller_checkpoint :: "event \<Rightarrow> bool" where
  "is_controller_checkpoint (EvControllerCheckpoint _) = True"
| "is_controller_checkpoint _ = False"

fun allowed_after_end :: "event \<Rightarrow> bool" where
  "allowed_after_end (EvNote _) = True"
| "allowed_after_end (EvRecoveryCheckpoint _) = True"
| "allowed_after_end (EvControllerCheckpoint _) = True"
| "allowed_after_end (EvSessionPaused _) = True"
| "allowed_after_end _ = False"

definition observe :: "(string \<Rightarrow> string) \<Rightarrow> event \<Rightarrow> trace_structure \<Rightarrow> trace_structure checked" where
  "observe j ev st =
     (if tv_pending_controller_checkpoint st \<noteq> None \<and> \<not> is_controller_checkpoint ev
      then Inl (Msg ''controller checkpoint must immediately follow its state anchor, got {event:?}'' [ArgEvent ev])
      else if tv_ended_reason st \<noteq> None \<and> \<not> allowed_after_end ev
      then Inl (Msg ''event appears after SessionEnd: {event:?}'' [ArgEvent ev])
      else observe_event j ev st)"

definition finish_structure :: "trace_structure \<Rightarrow> structure_error check" where
  "finish_structure st =
     (if tv_pending_controller_checkpoint st \<noteq> None
      then Inl (Msg ''trace ends before its required ControllerCheckpoint'' [])
      else if evidence_trace st \<and> tv_base st \<noteq> NoBase \<and> tv_controller st = None
      then Inl (Msg ''evidence trace ends without a controller base'' [])
      else ok)"

definition structure_checkpoint :: "trace_structure \<Rightarrow> controller_checkpoint option" where
  "structure_checkpoint st = map_option checkpoint (tv_controller st)"

text \<open>Reading a whole list of events.\<close>

fun observe_all :: "(string \<Rightarrow> string) \<Rightarrow> event list \<Rightarrow> trace_structure \<Rightarrow> trace_structure checked" where
  "observe_all j [] st = Inr st"
| "observe_all j (ev # evs) st = and_then (observe j ev st) (observe_all j evs)"

lemma observe_all_append: "observe_all j (xs @ ys) st = and_then (observe_all j xs st) (observe_all j ys)"
  by (induction xs arbitrary: st) (auto simp: and_then_def split: sum.splits)

end
