(* ===== verification/Structure_Inv.thy ===== *)
theory Structure_Inv
  imports Trace_Structure Controller_History
begin

text \<open>
  What the structural validator keeps while it reads a trace: its turns only advance, and under the
  evidence policy the controller it carries from a fresh base is one that a session reaches with exactly
  the observations, effects and checks the trace has recorded.
\<close>

section \<open>The recorded transitions\<close>

fun typed_event :: "Trace_Events.event \<Rightarrow> bool" where
  "typed_event (EvObservationRecorded _ _ obs) = typed_observation obs"
| "typed_event (EvWorkspaceEffectRecorded _ _ _ eff) = typed_effect eff"
| "typed_event _ = True"

fun transition_of :: "Trace_Events.event \<Rightarrow> (nat \<times> Controller_Session.event) option" where
  "transition_of (EvObservationRecorded turn _ obs) = Some (turn, Observed obs)"
| "transition_of (EvWorkspaceEffectRecorded turn _ _ eff) = Some (turn, Effected eff)"
| "transition_of (EvVerificationCheckRecorded turn _ chk) = Some (turn, Checked chk)"
| "transition_of _ = None"

definition history :: "Trace_Events.event list \<Rightarrow> (nat \<times> Controller_Session.event) list" where
  "history evs = rev (List.map_filter transition_of evs)"

lemma history_snoc [simp]:
  "history (evs @ [ev]) = (case transition_of ev of None \<Rightarrow> history evs | Some x \<Rightarrow> x # history evs)"
  by (simp add: history_def List.map_filter_def split: option.splits)

lemma history_Nil [simp]: "history [] = []"
  by (simp add: history_def List.map_filter_def)

section \<open>Turns\<close>

definition turns_ok :: "trace_structure \<Rightarrow> bool" where
  "turns_ok st \<longleftrightarrow>
     (tv_saw_turn st \<longleftrightarrow> tv_last_turn st \<noteq> None) \<and> (tv_saw_turn st \<longrightarrow> tv_base st \<noteq> NoBase)
     \<and> (\<forall>a. tv_active st = Some a \<longrightarrow> tv_saw_turn st \<and> tv_last_turn st = Some (at_turn a))"

definition last_turn_of :: "trace_structure \<Rightarrow> nat" where
  "last_turn_of st = (case tv_last_turn st of None \<Rightarrow> 0 | Some t \<Rightarrow> t)"

text \<open>An event that keeps the coordinates: the policy, the base, the turn, the end and the controller.\<close>

definition same_place :: "trace_structure \<Rightarrow> trace_structure \<Rightarrow> bool" where
  "same_place st st' \<longleftrightarrow>
     tv_base st' = tv_base st \<and> tv_saw_turn st' = tv_saw_turn st \<and> tv_last_turn st' = tv_last_turn st
     \<and> map_option at_turn (tv_active st') = map_option at_turn (tv_active st)
     \<and> tv_harness_policy st' = tv_harness_policy st \<and> tv_controller st' = tv_controller st
     \<and> tv_pending_controller_checkpoint st' = tv_pending_controller_checkpoint st
     \<and> tv_ended_reason st' = tv_ended_reason st"

lemma same_place_refl [simp]: "same_place st st"
  by (simp add: same_place_def)

named_theorems place_intros \<open>events that keep the coordinates\<close>

lemma put_active_place [simp]:
  "tv_active st = Some a \<Longrightarrow> at_turn a' = at_turn a \<Longrightarrow> same_place st (put_active a' st)"
  by (simp add: same_place_def put_active_def)

lemma update_last_turn [simp]: "at_turn (update_last f a) = at_turn a"
  by (simp add: update_last_def)

lemma same_place_fields [simp]:
  "same_place st (st'\<lparr>tv_passed_checks := x\<rparr>) = same_place st st'"
  "same_place st (st'\<lparr>tv_mutation_epoch := y\<rparr>) = same_place st st'"
  "same_place st (st'\<lparr>tv_paused := b\<rparr>) = same_place st st'"
  "same_place st (st'\<lparr>tv_resume_prompt_seen := b\<rparr>) = same_place st st'"
  "same_place st (st'\<lparr>tv_recovery_packet_seen := b\<rparr>) = same_place st st'"
  by (simp_all add: same_place_def)

lemmas active_simps = active_mut_def evidence_call_def controller_of_def result_simps

lemma turn_end_place [place_intros]: "observe_turn_end turn st = Inr st' \<Longrightarrow> same_place st st'"
  by (auto simp: observe_turn_end_def active_simps split: if_splits)

lemma actions_proposed_place [place_intros]: "observe_actions_proposed turn calls st = Inr st' \<Longrightarrow> same_place st st'"
  by (auto simp: observe_actions_proposed_def active_simps split: if_splits)

lemma tool_call_place [place_intros]: "observe_tool_call call st = Inr st' \<Longrightarrow> same_place st st'"
  by (auto simp: observe_tool_call_def active_simps simp del: checks.simps split: if_splits)

lemma tool_result_place [place_intros]: "observe_tool_result i name e st = Inr st' \<Longrightarrow> same_place st st'"
  by (auto simp: observe_tool_result_def active_simps Let_def simp del: checks.simps split: option.splits)

lemma mutation_place [place_intros]: "observe_mutation turn tool epoch st = Inr st' \<Longrightarrow> same_place st st'"
  by (auto simp: observe_mutation_def observe_evidence_mutation_def observe_legacy_mutation_def active_simps
      split: if_splits)

lemma check_place [place_intros]: "observe_check turn name epoch st = Inr st' \<Longrightarrow> same_place st st'"
  by (auto simp: observe_check_def observe_evidence_check_def observe_legacy_check_def active_simps split: if_splits)

lemma gate_place [place_intros]: "observe_gate epoch required fresh decision st = Inr st' \<Longrightarrow> same_place st st'"
  by (auto simp: observe_gate_def active_simps simp del: checks.simps)

lemma guard_stop_place [place_intros]: "observe_guard_stop action st = Inr st' \<Longrightarrow> same_place st st'"
  by (auto simp: observe_guard_stop_def active_simps split: if_splits)

lemma paused_place [place_intros]: "observe_session_paused reason st = Inr st' \<Longrightarrow> same_place st st'"
  by (auto simp: observe_session_paused_def active_simps simp del: checks.simps)

lemma resume_prompt_place [place_intros]: "observe_resume_prompt st = Inr st' \<Longrightarrow> same_place st st'"
  by (auto simp: observe_resume_prompt_def split: if_splits)

lemma packet_place [place_intros]: "observe_recovery_packet j packet m st = Inr st' \<Longrightarrow> same_place st st'"
  by (auto simp: observe_recovery_packet_def active_simps simp del: checks.simps)

lemma block_place [place_intros]: "observe_controller_block turn i tool b st = Inr st' \<Longrightarrow> same_place st st'"
  by (auto simp: observe_controller_block_def set_controller_call_record_def active_simps split: if_splits)

section \<open>The session behind a trace\<close>

text \<open>From a fresh evidence base and until the session ends: first the base checkpoint is due, then the
  controller is the state a session reaches by the recorded transitions.\<close>

definition audited :: "Trace_Events.event list \<Rightarrow> trace_structure \<Rightarrow> bool" where
  "audited evs st \<longleftrightarrow> turns_ok st
     \<and> (tv_base st = NoBase \<longrightarrow>
          history evs = [] \<and> tv_controller st = None \<and> tv_pending_controller_checkpoint st = None)
     \<and> (tv_base st = FreshBase \<and> evidence_trace st \<and> tv_ended_reason st = None \<longrightarrow>
          (case tv_controller st of
             None \<Rightarrow> tv_pending_controller_checkpoint st = Some CtxInitial \<and> \<not> tv_saw_turn st \<and> history evs = []
           | Some c \<Rightarrow> tv_pending_controller_checkpoint st = None
               \<and> (\<exists>t. session (history evs) t c \<and> t \<le> last_turn_of st)))"

lemma audited_place:
  assumes "audited evs st" "same_place st st'" "transition_of ev = None"
  shows "audited (evs @ [ev]) st'"
proof -
  have "turns_ok st'" using assms(1,2)
    by (cases "tv_active st'"; cases "tv_active st") (auto simp: audited_def turns_ok_def same_place_def)
  then show ?thesis using assms
    by (auto simp: audited_def same_place_def evidence_trace_def last_turn_of_def split: option.splits)
qed

lemma audited_active:
  assumes "audited evs st" "tv_active st = Some a"
  shows "tv_saw_turn st" "last_turn_of st = at_turn a" "tv_base st \<noteq> NoBase"
  using assms by (auto simp: audited_def turns_ok_def last_turn_of_def)

lemma transition_ok: "transition r = Inr c \<longleftrightarrow> r = (c, ok)"
  by (auto simp: transition_def split: sum.splits prod.splits)

lemma caused_ok: "caused t args r = Inr v \<longleftrightarrow> r = Inr v"
  by (auto simp: caused_def split: sum.splits)

lemma inside_ok: "inside t args r = Inr v \<longleftrightarrow> r = Inr v"
  by (auto simp: inside_def split: sum.splits)

lemma set_record_place:
  assumes "set_controller_call_record n rec (st\<lparr>tv_controller := Some c\<rparr>) = Inr st'"
  shows "same_place (st\<lparr>tv_controller := Some c\<rparr>) st'"
  using assms by (auto simp: set_controller_call_record_def active_simps split: if_splits)

lemma controller_call_active:
  "controller_call st n turn i tool = Inr r \<Longrightarrow> \<exists>a. tv_active st = Some a \<and> at_turn a = turn"
  by (auto simp: controller_call_def active_simps Let_def split: if_splits)

text \<open>A recorded transition that the validator's controller accepts is a step of the session.\<close>

lemma audited_transition:
  assumes "audited evs st" "tv_active st = Some a" "tv_controller st = Some c"
    and step: "\<And>tr t. session tr t c \<Longrightarrow> t \<le> at_turn a \<Longrightarrow> session (x # tr) (at_turn a) c'"
    and "transition_of ev = Some x" "same_place (st\<lparr>tv_controller := Some c'\<rparr>) st'"
  shows "audited (evs @ [ev]) st'"
proof -
  have t: "turns_ok st'" using assms(1,2,6)
    by (cases "tv_active st'") (auto simp: audited_def turns_ok_def same_place_def)
  have base: "tv_base st' \<noteq> NoBase" using audited_active(3)[OF assms(1,2)] assms(6) by (simp add: same_place_def)
  have last: "last_turn_of st' = at_turn a"
    using audited_active(2)[OF assms(1,2)] assms(6) by (simp add: same_place_def last_turn_of_def)
  have "\<exists>t. session (x # history evs) t c' \<and> t \<le> last_turn_of st'"
    if fresh: "tv_base st' = FreshBase" "evidence_trace st'" "tv_ended_reason st' = None"
  proof -
    obtain t where "session (history evs) t c" "t \<le> last_turn_of st"
      using assms(1,3,6) fresh by (auto simp: audited_def same_place_def evidence_trace_def)
    then show ?thesis using step[of "history evs" t] audited_active(2)[OF assms(1,2)] last by auto
  qed
  then show ?thesis using t base assms
    by (auto simp: audited_def same_place_def evidence_trace_def split: option.splits)
qed

lemma audited_observation:
  assumes "audited evs st" "observe_controller_observation turn i obs st = Inr st'" "typed_observation obs"
  shows "audited (evs @ [EvObservationRecorded turn i obs]) st'"
proof -
  obtain r c c' where *: "controller_call st ''ObservationRecorded'' turn i None = Inr r" "tv_controller st = Some c"
    "apply_observation turn obs c = (c', ok)"
    "set_controller_call_record ''ObservationRecorded'' RecObservation (st\<lparr>tv_controller := Some c'\<rparr>) = Inr st'"
    using assms(2) by (auto simp: observe_controller_observation_def caused_ok inside_ok transition_ok active_simps)
  obtain a where a: "tv_active st = Some a" "at_turn a = turn" using controller_call_active[OF *(1)] by blast
  show ?thesis
    by (rule audited_transition[OF assms(1) a(1) *(2) _ _ set_record_place[OF *(4)]])
       (use assms(3) *(3) a(2) in \<open>auto intro: session.observe\<close>)
qed

lemma audited_effect:
  assumes "audited evs st" "observe_workspace_effect turn i tool eff st = Inr st'" "typed_effect eff"
  shows "audited (evs @ [EvWorkspaceEffectRecorded turn i tool eff]) st'"
proof -
  obtain r c c' where *: "controller_call st ''WorkspaceEffectRecorded'' turn i (Some tool) = Inr r" "tv_controller st = Some c"
    "apply_workspace_effect turn eff c = (c', ok)"
    "set_controller_call_record ''WorkspaceEffectRecorded'' RecEffect
       (st\<lparr>tv_controller := Some c', tv_mutation_epoch := mutation_epoch c', tv_passed_checks := passed_checks c'\<rparr>) = Inr st'"
    using assms(2) by (auto simp: observe_workspace_effect_def caused_ok inside_ok transition_ok active_simps)
  obtain a where a: "tv_active st = Some a" "at_turn a = turn" using controller_call_active[OF *(1)] by blast
  have "same_place (st\<lparr>tv_controller := Some c'\<rparr>) st'" using *(4)
    by (auto simp: set_controller_call_record_def active_simps same_place_def put_active_def split: if_splits)
  then show ?thesis
    by (rule audited_transition[OF assms(1) a(1) *(2), rotated 2])
       (use assms(3) *(3) a(2) in \<open>auto intro: session.mutate\<close>)
qed

lemma audited_verification:
  assumes "audited evs st" "observe_verification_check turn i chk st = Inr st'"
  shows "audited (evs @ [EvVerificationCheckRecorded turn i chk]) st'"
proof -
  obtain r c c' where *: "controller_call st ''VerificationCheckRecorded'' turn i (Some ''run_check'') = Inr r"
    "tv_controller st = Some c" "apply_verification_check turn chk c = (c', ok)"
    "set_controller_call_record ''VerificationCheckRecorded'' (RecVerification (vc_name chk) (vc_outcome chk))
       (st\<lparr>tv_controller := Some c', tv_passed_checks := passed_checks c'\<rparr>) = Inr st'"
    using assms(2) by (auto simp: observe_verification_check_def caused_ok inside_ok transition_ok active_simps)
  obtain a where a: "tv_active st = Some a" "at_turn a = turn" using controller_call_active[OF *(1)] by blast
  have "same_place (st\<lparr>tv_controller := Some c'\<rparr>) st'" using *(4)
    by (auto simp: set_controller_call_record_def active_simps same_place_def put_active_def split: if_splits)
  then show ?thesis
    by (rule audited_transition[OF assms(1) a(1) *(2), rotated 2])
       (use *(3) a(2) in \<open>auto intro: session.verify\<close>)
qed

lemma audited_policy:
  assumes "audited evs st" "observe_policy_selected pol st = Inr st'" "transition_of ev = None"
  shows "audited (evs @ [ev]) st'"
  using assms by (auto simp: observe_policy_selected_def audited_def turns_ok_def evidence_trace_def split: if_splits)

lemma audited_prompt:
  assumes "audited evs st" "observe_session_prompt st = Inr st'" "transition_of ev = None"
  shows "audited (evs @ [ev]) st'"
  using assms
  by (auto simp: observe_session_prompt_def audited_def turns_ok_def evidence_trace_def Let_def split: if_splits)

lemma audited_turn_start:
  assumes "audited evs st" "observe_turn_start turn st = Inr st'" "transition_of ev = None"
  shows "audited (evs @ [ev]) st'"
proof -
  from assms(2) obtain expected where r: "ready_for_turn turn st = ok" "expected_turn st = Inr expected"
    "\<forall>n. expected = Some n \<longrightarrow> turn = n"
    and st': "st' = st\<lparr>tv_saw_turn := True, tv_last_turn := Some turn, tv_active := Some (active_new turn)\<rparr>"
    by (auto simp: observe_turn_start_def result_simps split: option.splits)
  have base: "tv_base st \<noteq> NoBase" "evidence_trace st \<Longrightarrow> tv_controller st \<noteq> None"
    using r(1) by (auto simp: ready_for_turn_def result_simps simp del: checks.simps)
  have "last_turn_of st \<le> turn"
  proof (cases "tv_last_turn st")
    case (Some p)
    then have "tv_saw_turn st" using assms(1) by (simp add: audited_def turns_ok_def)
    then show ?thesis using r(2,3) Some
      by (auto simp: expected_turn_def last_turn_of_def checked_add_def split: if_splits)
  qed (simp add: last_turn_of_def)
  then show ?thesis using assms(1,3) base
    by (auto simp: audited_def turns_ok_def st' active_new_def evidence_trace_def last_turn_of_def split: option.splits
        intro: le_trans)
qed

lemma audited_commit:
  assumes "audited evs st" "observe_commit turn dispatched errored stop st = Inr st'" "transition_of ev = None"
  shows "audited (evs @ [ev]) st'"
proof -
  obtain a where a: "tv_active st = Some a" "at_turn a = turn"
    and st': "tv_base st' = tv_base st" "tv_saw_turn st' = tv_saw_turn st" "tv_last_turn st' = Some turn"
      "tv_active st' = None" "tv_harness_policy st' = tv_harness_policy st" "tv_controller st' = tv_controller st"
      "tv_pending_controller_checkpoint st' = tv_pending_controller_checkpoint st"
      "tv_ended_reason st' = tv_ended_reason st"
    using assms(2) by (auto simp: observe_commit_def result_simps Let_def simp del: checks.simps split: option.splits)
  have "tv_last_turn st = Some turn" using assms(1) a by (simp add: audited_def turns_ok_def)
  then show ?thesis using assms(1,3) st'
    by (auto simp: audited_def turns_ok_def evidence_trace_def last_turn_of_def split: option.splits)
qed

lemma audited_end:
  assumes "audited evs st" "observe_session_end reason st = Inr st'" "transition_of ev = None"
  shows "audited (evs @ [ev]) st'"
  using assms by (auto simp: observe_session_end_def result_simps audited_def turns_ok_def simp del: checks.simps)

text \<open>A checkpoint of the projected state does not occur inside a fresh session.\<close>

lemma import_place: "same_place st (import_checkpoint cp st')\<longleftrightarrow> same_place st st'"
  by (simp add: import_checkpoint_def same_place_def Let_def)

lemma import_fields [simp]:
  "tv_base (import_checkpoint cp st) = tv_base st" "tv_saw_turn (import_checkpoint cp st) = tv_saw_turn st"
  "tv_last_turn (import_checkpoint cp st) = tv_last_turn st" "tv_active (import_checkpoint cp st) = tv_active st"
  "tv_harness_policy (import_checkpoint cp st) = tv_harness_policy st"
  "tv_controller (import_checkpoint cp st) = tv_controller st"
  "tv_pending_controller_checkpoint (import_checkpoint cp st) = tv_pending_controller_checkpoint st"
  "tv_ended_reason (import_checkpoint cp st) = tv_ended_reason st"
  by (simp_all add: import_checkpoint_def Let_def)

lemma audited_checkpoint:
  assumes "audited evs st" "observe_checkpoint cp st = Inr st'" "transition_of ev = None"
  shows "audited (evs @ [ev]) st'"
  using assms
  by (auto simp: observe_checkpoint_def observe_final_checkpoint_def observe_base_checkpoint_def
      observe_anchor_checkpoint_def validate_core_controller_parity_def controller_of_def result_simps Let_def
      audited_def turns_ok_def evidence_trace_def simp del: checks.simps
      split: option.splits if_splits state_base.splits)

lemma from_fresh_checkpoint:
  assumes "controller_new Evidence names = Inr c"
  shows "from_checkpoint (checkpoint c) = Inr c"
  using validate_checkpoint_session(1)[OF inv_start[OF assms]] assms
  by (auto simp: from_checkpoint_def controller_new_Inr stale_empty_file_def pristine_def bt_values_def)

lemma audited_controller_checkpoint:
  assumes "audited evs st" "observe_controller_checkpoint cp st = Inr st'" "transition_of ev = None"
  shows "audited (evs @ [ev]) st'"
proof -
  obtain anchor c where *: "tv_pending_controller_checkpoint st = Some anchor" "from_checkpoint cp = Inr c"
    "check_context anchor cp st = ok" "tv_active st = None"
    and st': "st' = st\<lparr>tv_pending_controller_checkpoint := None, tv_mutation_epoch := mutation_epoch c,
               tv_passed_checks := passed_checks c, tv_controller := Some c\<rparr>"
    using assms(2) by (auto simp: observe_controller_checkpoint_def result_simps caused_ok)
  have base: "tv_base st \<noteq> NoBase" using assms(1) *(1) by (auto simp: audited_def)
  have "session (history evs) 0 c"
    if fresh: "tv_base st = FreshBase" "evidence_trace st" "tv_ended_reason st = None"
  proof -
    have "anchor = CtxInitial" "history evs = []"
      using assms(1) *(1) fresh by (auto simp: audited_def split: option.splits)
    then show ?thesis using *(2,3) from_fresh_checkpoint
      by (auto simp: check_context_def result_simps caused_ok intro: session.start)
  qed
  then show ?thesis using assms(1,3) base
    by (auto simp: audited_def turns_ok_def st' evidence_trace_def)
qed

text \<open>The events that move the validator; every other keeps its place.\<close>

fun moves_place :: "Trace_Events.event \<Rightarrow> bool" where
  "moves_place (EvPolicySelected _ _ _ _ _ _ _ _ _) = True"
| "moves_place (EvSessionPrompt _ _ _) = True"
| "moves_place (EvRecoveryCheckpoint _) = True"
| "moves_place (EvTurnStart _) = True"
| "moves_place (EvObservationRecorded _ _ _) = True"
| "moves_place (EvWorkspaceEffectRecorded _ _ _ _) = True"
| "moves_place (EvVerificationCheckRecorded _ _ _) = True"
| "moves_place (EvControllerCheckpoint _) = True"
| "moves_place (EvTurnCommitted _ _ _ _ _) = True"
| "moves_place (EvSessionEnd _) = True"
| "moves_place _ = False"

lemma observe_event_place:
  "observe_event j ev st = Inr st' \<Longrightarrow> \<not> moves_place ev \<Longrightarrow> same_place st st' \<and> transition_of ev = None"
  by (cases "(j, ev, st)" rule: observe_event.cases) (simp_all add: place_intros)

lemma observe_audited:
  assumes "audited evs st" "observe j ev st = Inr st'" "typed_event ev"
  shows "audited (evs @ [ev]) st'"
proof -
  have ev: "observe_event j ev st = Inr st'" using assms(2) by (simp add: observe_def split: if_splits)
  show ?thesis
  proof (cases "moves_place ev")
    case True
    then show ?thesis using ev assms(1,3)
      by (cases ev rule: moves_place.cases)
         (simp_all add: audited_observation audited_effect audited_verification audited_policy audited_prompt
            audited_turn_start audited_commit audited_end audited_checkpoint audited_controller_checkpoint)
  next
    case False
    then show ?thesis using audited_place[OF assms(1)] observe_event_place[OF ev] by blast
  qed
qed

lemma observe_all_audited:
  assumes "audited pre st" "observe_all j evs st = Inr st'" "list_all typed_event evs"
  shows "audited (pre @ evs) st'"
  using assms
proof (induction evs arbitrary: pre st)
  case (Cons ev evs)
  then obtain st1 where "observe j ev st = Inr st1" "observe_all j evs st1 = Inr st'"
    by (auto simp: result_simps)
  then show ?case using Cons.IH[OF observe_audited] Cons.prems by fastforce
qed simp

lemma structure_new_audited: "audited [] structure_new"
  by (simp add: audited_def structure_new_def turns_ok_def evidence_trace_def)

lemma accepted_session:
  assumes "observe_all j evs structure_new = Inr st" "list_all typed_event evs"
    and "tv_base st = FreshBase" "evidence_trace st" "tv_ended_reason st = None" "tv_controller st = Some c"
  obtains t where "session (history evs) t c" "t \<le> last_turn_of st"
  using observe_all_audited[OF structure_new_audited assms(1,2)] assms(3-6) by (auto simp: audited_def)

section \<open>One base per session\<close>

fun opens_base :: "Trace_Events.event \<Rightarrow> bool" where
  "opens_base (EvSessionPrompt _ _ _) = True"
| "opens_base (EvRecoveryCheckpoint _) = True"
| "opens_base _ = False"

lemma set_record_base:
  "set_controller_call_record n rec sv = Inr sv' \<Longrightarrow> tv_base sv' = tv_base sv \<and> tv_ended_reason sv' = tv_ended_reason sv"
  by (auto simp: set_controller_call_record_def active_simps put_active_def split: if_splits)

lemma controller_events_base:
  "observe_controller_observation turn i obs sv = Inr sv' \<Longrightarrow> tv_base sv' = tv_base sv \<and> tv_ended_reason sv' = tv_ended_reason sv"
  "observe_workspace_effect turn i tool eff sv = Inr sv' \<Longrightarrow> tv_base sv' = tv_base sv \<and> tv_ended_reason sv' = tv_ended_reason sv"
  "observe_verification_check turn i chk sv = Inr sv' \<Longrightarrow> tv_base sv' = tv_base sv \<and> tv_ended_reason sv' = tv_ended_reason sv"
  "observe_controller_checkpoint cp sv = Inr sv' \<Longrightarrow> tv_base sv' = tv_base sv \<and> tv_ended_reason sv' = tv_ended_reason sv"
  by (auto simp: observe_controller_observation_def observe_workspace_effect_def observe_verification_check_def
      observe_controller_checkpoint_def result_simps dest!: set_record_base)

lemma session_events_base:
  "observe_policy_selected pol sv = Inr sv' \<Longrightarrow> tv_base sv' = tv_base sv \<and> tv_ended_reason sv' = tv_ended_reason sv"
  "observe_turn_start turn sv = Inr sv' \<Longrightarrow> tv_base sv' = tv_base sv \<and> tv_ended_reason sv' = tv_ended_reason sv"
  by (auto simp: observe_policy_selected_def observe_turn_start_def result_simps split: if_splits)

lemma commit_base:
  "observe_commit turn d e stop sv = Inr sv' \<Longrightarrow> tv_base sv' = tv_base sv \<and> tv_ended_reason sv' = tv_ended_reason sv"
  by (auto simp: observe_commit_def result_simps Let_def simp del: checks.simps split: option.splits)

lemma end_base:
  "observe_session_end reason sv = Inr sv' \<Longrightarrow> tv_base sv' = tv_base sv \<and> tv_ended_reason sv' \<noteq> None"
  by (auto simp: observe_session_end_def result_simps simp del: checks.simps)

lemma observe_base:
  assumes "observe j ev sv = Inr sv'" "\<not> opens_base ev"
  shows "tv_base sv' = tv_base sv \<and> (tv_ended_reason sv' = None \<longrightarrow> tv_ended_reason sv = None)"
proof -
  have ev: "observe_event j ev sv = Inr sv'" using assms(1) by (simp add: observe_def split: if_splits)
  show ?thesis
  proof (cases "moves_place ev")
    case True
    then show ?thesis using ev assms(2)
      by (cases ev rule: moves_place.cases) (auto dest: controller_events_base session_events_base commit_base end_base)
  next
    case False
    then show ?thesis using observe_event_place[OF ev] by (simp add: same_place_def)
  qed
qed

text \<open>Until it ends, a session has a prompt or a recovery checkpoint behind it, never both.\<close>

definition one_base :: "Trace_Events.event list \<Rightarrow> trace_structure \<Rightarrow> bool" where
  "one_base evs sv \<longleftrightarrow> (tv_ended_reason sv = None \<longrightarrow>
     (case tv_base sv of
        NoBase \<Rightarrow> \<forall>ev \<in> set evs. \<not> opens_base ev
      | FreshBase \<Rightarrow> \<forall>cp. EvRecoveryCheckpoint cp \<notin> set evs
      | ResumedBase \<Rightarrow> \<forall>s u m. EvSessionPrompt s u m \<notin> set evs))"

lemma observe_one_base:
  assumes "one_base evs sv" "observe j ev sv = Inr sv'"
  shows "one_base (evs @ [ev]) sv'"
proof (cases "opens_base ev")
  case False
  then show ?thesis using assms(1) observe_base[OF assms(2)]
    by (auto simp: one_base_def split: state_base.splits)
next
  case True
  have ev: "observe_event j ev sv = Inr sv'" using assms(2) by (simp add: observe_def split: if_splits)
  from True show ?thesis
  proof (cases ev rule: opens_base.cases)
    case (1 s u m)
    then have "tv_base sv = NoBase" "tv_base sv' = FreshBase" "tv_ended_reason sv' = tv_ended_reason sv"
      using ev by (auto simp: observe_session_prompt_def Let_def split: if_splits)
    then show ?thesis using assms(1) 1 by (auto simp: one_base_def)
  next
    case (2 cp)
    then have "tv_ended_reason sv' = None \<longrightarrow> tv_ended_reason sv = None \<and> tv_base sv \<noteq> FreshBase \<and> tv_base sv' = ResumedBase"
      using ev by (auto simp: observe_checkpoint_def observe_final_checkpoint_def observe_base_checkpoint_def
          observe_anchor_checkpoint_def result_simps Let_def simp del: checks.simps
          split: option.splits if_splits state_base.splits)
    then show ?thesis using assms(1) 2 by (auto simp: one_base_def split: state_base.splits)
  qed auto
qed

lemma observe_all_one_base:
  "one_base pre sv \<Longrightarrow> observe_all j evs sv = Inr sv' \<Longrightarrow> one_base (pre @ evs) sv'"
proof (induction evs arbitrary: pre sv)
  case (Cons ev evs)
  then obtain sv1 where 1: "observe j ev sv = Inr sv1" "observe_all j evs sv1 = Inr sv'" by (auto simp: result_simps)
  show ?case using Cons.IH[OF observe_one_base[OF Cons.prems(1) 1(1)] 1(2)] by simp
qed simp

lemma fresh_session_no_checkpoint:
  assumes "observe_all j evs structure_new = Inr sv" "tv_ended_reason sv = None" "EvSessionPrompt s u m \<in> set evs"
  shows "EvRecoveryCheckpoint cp \<notin> set evs"
proof -
  have "one_base [] structure_new" by (simp add: one_base_def structure_new_def)
  from observe_all_one_base[OF this assms(1)] assms(2,3) show ?thesis
    by (force simp: one_base_def split: state_base.splits)
qed

lemma fresh_base:
  assumes "observe_all j evs structure_new = Inr sv" "EvSessionPrompt s u m \<in> set evs" "tv_ended_reason sv = None"
  shows "tv_base sv = FreshBase"
proof -
  have "one_base [] structure_new" by (simp add: one_base_def structure_new_def)
  from observe_all_one_base[OF this assms(1)] assms(2,3) show ?thesis
    by (force simp: one_base_def split: state_base.splits)
qed

end
