(* ===== verification/Dispatch_Props.thy ===== *)
theory Dispatch_Props
  imports Dispatch_Inv Structure_Inv Sample_World "HOL-Library.Code_Target_Nat"
begin

text \<open>
  The properties of the dispatch under evidence control: what stands between a call and a change of the
  world, that the changes it makes to existing files are never blind, what a dispatch writes to the
  trace, and that the controller it leaves behind is one a session reaches.
\<close>

section \<open>The session behind a dispatch\<close>




section \<open>Properties\<close>

text \<open>
  C2. A dispatch changes the world only when the call names a registered tool that evidence control
  supports, the guard admitted every path and command the tool declares, the controller admitted the
  prepared intent at this turn (a mutation by its evidence, a check by its epoch), the human who was asked
  agreed, and the sink policy of a contaminated run lets it pass; and what it does then is exactly the
  one execution that was prepared.
\<close>

theorem dispatch_gate:
  assumes "ds_world (snd (dispatch env turn call s)) \<noteq> ds_world s"
  shows "\<exists>t p. bt_get (rg_tools (de_registry env)) (tc_name call) = Some t
     \<and> controlled_offer t
     \<and> guarded (de_host env) (ds_world s) (de_workspace env) t (tc_args call)
     \<and> t_prepare t (ds_world s) (de_workspace env) (rg_truncation_limit (de_registry env)) (tc_args call) = Inr p
     \<and> (\<exists>attempt. admission turn (prep_intent p) (ds_controller s) = Inr (Inr attempt))
     \<and> (ts_permission (t_spec t) = Read \<or> (\<forall>approver. de_approver env = Some approver \<longrightarrow>
          approver (edit_preview_of (de_pretty env) call (de_provenance env = UntrustedIngested))))
     \<and> (de_provenance env = Clean \<or> ts_permission (t_spec t) = Read
          \<or> tainted_sink (de_sink_policy env) = SinkWarn
          \<or> (tainted_sink (de_sink_policy env) = SinkRequireApproval \<and> de_approver env \<noteq> None))
     \<and> ds_world (snd (dispatch env turn call s)) =
         snd (perform (de_host env) (ds_world s) t (de_workspace env) (tc_args call) (prep_execution p))"
proof -
  obtain c where c: "gated env turn call s c"
    "ds_world (snd (dispatch env turn call s)) = snd (performed env (ds_world s) c)"
    using dispatch_world[OF assms] by blast
  obtain t where t: "bt_get (rg_tools (de_registry env)) (tc_name call) = Some t" "pc_tool c = t"
    "pc_spec c = t_spec t" "pc_workspace c = de_workspace env" "pc_args c = tc_args call"
    "guarded (de_host env) (ds_world s) (de_workspace env) t (tc_args call)" "controlled_offer t"
    "t_prepare t (ds_world s) (de_workspace env) (rg_truncation_limit (de_registry env)) (tc_args call)
       = Inr (pc_preparation c)"
    using prepare_controlled_PoPrepared[OF c(1)[unfolded gated_def, THEN conjunct1]] by blast
  have "de_provenance env = Clean \<or> ts_permission (t_spec t) = Read
      \<or> tainted_sink (de_sink_policy env) = SinkWarn
      \<or> (tainted_sink (de_sink_policy env) = SinkRequireApproval \<and> de_approver env \<noteq> None)"
    using c(1) t(3) by (auto simp: gated_def sink_admitted_def sink_approver_of_def split: if_splits)
  moreover have "ds_world (snd (dispatch env turn call s)) = snd (perform (de_host env) (ds_world s) t
      (de_workspace env) (tc_args call) (prep_execution (pc_preparation c)))"
    using c(2) t(2,4,5) by (simp add: performed_def)
  moreover have "\<exists>attempt. admission turn (prep_intent (pc_preparation c)) (ds_controller s) = Inr (Inr attempt)"
    "ts_permission (t_spec t) = Read \<or> (\<forall>approver. de_approver env = Some approver \<longrightarrow>
       approver (edit_preview_of (de_pretty env) call (de_provenance env = UntrustedIngested)))"
    using c(1) t(3) by (simp_all add: gated_def pc_intent_def pc_permission_def)
  ultimately show ?thesis using t by blast
qed


lemma after_write_world: "ds_world after_write \<noteq> ds_world after_read"
  by code_simp

lemma after_write_run: "snd (dispatch sample_env 1 write_a after_read) = after_write"
  by (simp add: after_write_def)

lemma after_read_world: "ds_world after_read = sample_files"
  by code_simp

theorem dispatch_gate_witness:
  "ds_world after_write \<noteq> ds_world after_read
   \<and> guarded sample_host sample_files sample_workspace write_tool (tc_args write_a)
   \<and> (\<exists>p. write_file_prepare sample_host sample_files sample_workspace (tc_args write_a) = Inr p
        \<and> (\<exists>attempt. admission 1 (prep_intent p) (ds_controller after_read) = Inr (Inr attempt))
        \<and> ds_world after_write = snd (perform sample_host sample_files write_tool sample_workspace (tc_args write_a)
             (prep_execution p)))"
  using dispatch_gate[of sample_env 1 write_a after_read] after_write_world
  by (simp del: One_nat_def add: after_write_run after_read_world)




section \<open>The sample calls\<close>









end
