(* ===== verification/Agent_Loop.thy ===== *)
theory Agent_Loop
  imports Controlled_Dispatch Compaction
begin

text \<open>
  One turn of the agent and the loop around it, \<^verbatim>\<open>ferric-loop\<close>'s \<^verbatim>\<open>run.rs\<close>
  with the action parsers of \<^verbatim>\<open>ferric-iron\<close>'s and \<^verbatim>\<open>ferric-loop\<close>'s
  \<^verbatim>\<open>grammar.rs\<close>. The environment is the record \<open>loop_env\<close>: what the provider
  answers in a turn, the summarizer, the hooks, the snapshots, the interrupt flag and the two parsers of
  external libraries are its functions. Streaming to the terminal and log lines are left out. The loop
  has no fuel: it terminates because every turn that continues uses up one of the policy's turns.
\<close>

section \<open>Actions\<close>

definition thought_description :: string where
  "thought_description = ''CRITICAL: Scratchpad space. You MUST use this to draft pseudocode, consider edge cases, and plan the exact logic BEFORE picking a tool or writing code.''"

definition branch_for :: "tool_descriptor \<Rightarrow> json" where
  "branch_for t = JObj [
     (''type'', JStr ''object''),
     (''properties'', JObj [
        (''thought'', JObj [(''type'', JStr ''string''), (''description'', JStr thought_description)]),
        (''tool'', JObj [(''const'', JStr (td_name t))]),
        (''args'', td_input_schema t)]),
     (''required'', JArr [JStr ''thought'', JStr ''tool'', JStr ''args'']),
     (''additionalProperties'', JBool False)]"

definition action_schema :: "tool_descriptor list \<Rightarrow> json" where
  "action_schema tools = JObj [(''type'', JStr ''object''), (''anyOf'', JArr (map branch_for tools))]"

datatype action_parse_error =
    MalformedXml | NotJson string | MissingTool | MissingArgs | ArgsNotAnObject

fun action_parse_error_text :: "action_parse_error \<Rightarrow> string" where
  "action_parse_error_text MalformedXml = ''action did not match <tool_call> XML format''"
| "action_parse_error_text (NotJson e) = ''action arguments were not valid JSON: '' @ e"
| "action_parse_error_text MissingTool = ''action missing tool name''"
| "action_parse_error_text MissingArgs = ''action missing arguments JSON''"
| "action_parse_error_text ArgsNotAnObject =
     ''action '' @ [CHR 0x27] @ ''args'' @ [CHR 0x27] @ '' was not a JSON object''"

fun is_object :: "json \<Rightarrow> bool" where
  "is_object (JObj _) = True"
| "is_object _ = False"

definition synthesized_id :: "nat \<Rightarrow> string" where
  "synthesized_id turn = ''g-'' @ show_nat turn @ ''-0''"

definition parse_json_action ::
  "(string \<Rightarrow> string + json) \<Rightarrow> nat \<Rightarrow> string \<Rightarrow> action_parse_error + tool_call" where
  "parse_json_action from_str turn txt =
     (case from_str (trim txt) of
        Inl e \<Rightarrow> Inl (NotJson e)
      | Inr value \<Rightarrow>
          (case Option.bind (json_get value ''tool'') json_as_str of
             None \<Rightarrow> Inl MissingTool
           | Some name \<Rightarrow>
               if name = [] then Inl MissingTool
               else case json_get value ''args'' of
                 None \<Rightarrow> Inl MissingArgs
               | Some a \<Rightarrow>
                   if is_object a then Inr \<lparr>tc_id = synthesized_id turn, tc_name = name, tc_args = a\<rparr>
                   else Inl ArgsNotAnObject))"

text \<open>\<open>captures\<close> is the first match of the regular expression for a tool call in XML: the texts
  between the name tags and between the argument tags.\<close>

definition parse_xml_action ::
  "(string \<Rightarrow> (string \<times> string) option) \<Rightarrow> (string \<Rightarrow> string + json) \<Rightarrow> nat \<Rightarrow> string \<Rightarrow>
   action_parse_error + tool_call" where
  "parse_xml_action captures from_str turn txt =
     (case captures txt of
        None \<Rightarrow> Inl MalformedXml
      | Some (n, a) \<Rightarrow>
          if trim n = [] then Inl MissingTool
          else if trim a = [] then Inl MissingArgs
          else case from_str (trim a) of
            Inl e \<Rightarrow> Inl (NotJson e)
          | Inr value \<Rightarrow>
              if is_object value then Inr \<lparr>tc_id = synthesized_id turn, tc_name = trim n, tc_args = value\<rparr>
              else Inl ArgsNotAnObject)"

section \<open>Environment and state\<close>

record completion =
  co_text :: "string option"
  co_tool_calls :: "tool_call list"
  co_input_tokens :: "nat option"
  co_output_tokens :: "nat option"
  co_truncated :: bool

record provider_error =
  pv_retryable :: bool
  pv_text :: string

record hooks_config =
  hk_pre_turn :: "string option"
  hk_post_turn :: "string option"
  hk_on_error :: "string option"

record 'w loop_env =
  le_dispatch :: "'w dispatch_env"
  le_policy :: run_policy
  le_protocol :: action_protocol
  le_sampling :: sampling_params
  le_hooks :: hooks_config
  le_cancelled :: "nat \<Rightarrow> bool"
  le_run_hook :: "string \<Rightarrow> 'w \<Rightarrow> (string + string) \<times> 'w"
  le_answer :: "nat \<Rightarrow> completion_request \<Rightarrow> nat \<Rightarrow> provider_error + completion"
  le_summary :: "nat \<Rightarrow> completion_request \<Rightarrow> nat \<Rightarrow> provider_error + string option"
  le_snapshot :: "nat \<Rightarrow> 'w \<Rightarrow> string + string"
  le_from_str :: "string \<Rightarrow> string + json"
  le_captures :: "string \<Rightarrow> (string \<times> string) option"
  le_json_text :: "json \<Rightarrow> string"
  le_decode_error :: "json \<Rightarrow> string"

record 'w loop_state =
  ls_controller :: "controller_state option"
  ls_trace :: "event list"
  ls_projector :: trace_projector
  ls_world :: 'w
  ls_turns :: nat
  ls_turns_this_run :: nat
  ls_offered_names :: "string list"
  ls_native_tools :: "tool_descriptor list"
  ls_repetition :: repetition_guard
  ls_progress :: progress_guard
  ls_failure :: failure_guard
  ls_oscillation :: "string list"
  ls_nudged :: bool
  ls_truncated_once :: bool
  ls_last_input_tokens :: "nat option"

type_synonym ('w, 'a) lm = "('w loop_state, 'a) fm"

datatype turn_outcome = Continue | StopWith stop_reason

text \<open>The part of the state a recording or a dispatch works on. Without a controller (the legacy
  policy) none of the lifted operations reads the placeholder.\<close>

definition core_of :: "'w loop_state \<Rightarrow> 'w dispatch_state" where
  "core_of s = \<lparr>ds_controller = (case ls_controller s of Some c \<Rightarrow> c | None \<Rightarrow> pristine Legacy []),
     ds_trace = ls_trace s, ds_projector = ls_projector s, ds_world = ls_world s\<rparr>"

definition put_core :: "'w dispatch_state \<Rightarrow> 'w loop_state \<Rightarrow> 'w loop_state" where
  "put_core d s = s\<lparr>ls_controller := map_option (\<lambda>_. ds_controller d) (ls_controller s),
     ls_trace := ds_trace d, ls_projector := ds_projector d, ls_world := ds_world d\<rparr>"

definition in_core :: "('w, 'a) dm \<Rightarrow> ('w, 'a) lm" where
  "in_core m s = (case m (core_of s) of (r, d) \<Rightarrow> (r, put_core d s))"

section \<open>Recording\<close>

definition record_l :: "'w loop_env \<Rightarrow> event \<Rightarrow> ('w, unit) lm" where
  "record_l env ev = in_core (record_event (le_dispatch env) ev)"

text \<open>An event that is written without being projected.\<close>

definition write_l :: "'w loop_env \<Rightarrow> event \<Rightarrow> ('w, unit) lm" where
  "write_l env ev s =
     (case de_sink (le_dispatch env) (ls_trace s) ev of
        Some m \<Rightarrow> (Inl (SinkError m), s)
      | None \<Rightarrow> (Inr (), s\<lparr>ls_trace := ls_trace s @ [ev]\<rparr>))"

definition loop_commit ::
  "'w loop_env \<Rightarrow> nat \<Rightarrow> nat \<Rightarrow> nat \<Rightarrow> stop_reason option \<Rightarrow> string option \<Rightarrow> ('w, turn_outcome) lm" where
  "loop_commit env turn dispatched errored stop snapshot =
     then_d (record_l env (EvTurnCommitted turn (as_u32 dispatched) (as_u32 errored)
               (map_option stop_as_str stop) snapshot))
       (return_d (case stop of None \<Rightarrow> Continue | Some r \<Rightarrow> StopWith r))"

definition record_call :: "'w loop_env \<Rightarrow> tool_call \<Rightarrow> ('w, unit) lm" where
  "record_call env call = record_l env (EvToolCall (tc_id call) (tc_name call) (tc_args call))"

definition record_synthetic_result :: "'w loop_env \<Rightarrow> string \<Rightarrow> bool \<Rightarrow> tool_call \<Rightarrow> ('w, unit) lm" where
  "record_synthetic_result env out is_error call =
     then_d (record_call env call)
       (then_d (in_core (record_result (le_dispatch env) call out is_error 0)) (return_d ()))"

definition record_guard :: "'w loop_env \<Rightarrow> verdict \<Rightarrow> (string \<Rightarrow> event) \<Rightarrow> ('w, bool) lm" where
  "record_guard env v ev =
     (case v of
        Proceed \<Rightarrow> return_d False
      | Warn \<Rightarrow> then_d (record_l env (ev ''warned'')) (return_d False)
      | Stop \<Rightarrow> then_d (record_l env (ev ''stopped'')) (return_d True))"

definition fresh_of :: "string list \<Rightarrow> (string, nat) btree_map \<Rightarrow> nat \<Rightarrow> string list" where
  "fresh_of required passed epoch = filter (\<lambda>n. bt_get passed n = Some epoch) required"

definition completion_evidence :: "'w loop_env \<Rightarrow> 'w loop_state \<Rightarrow> string list \<times> string list" where
  "completion_evidence env s =
     (case ls_controller s of
        Some c \<Rightarrow> (required_checks c, fresh_of (required_checks c) (passed_checks c) (mutation_epoch c))
      | None \<Rightarrow>
          (let required = rg_required_checks (de_registry (le_dispatch env))
           in (required, fresh_of required (tp_passed_checks (ls_projector s)) (tp_mutation_epoch (ls_projector s)))))"

definition gate_epoch :: "'w loop_state \<Rightarrow> nat" where
  "gate_epoch s = (case ls_controller s of Some c \<Rightarrow> mutation_epoch c | None \<Rightarrow> tp_mutation_epoch (ls_projector s))"

text \<open>The completion gate: it is recorded when there are required checks, and passes when all of them
  are fresh.\<close>

definition completion_gate :: "'w loop_env \<Rightarrow> ('w, bool \<times> string list \<times> string list) lm" where
  "completion_gate env s =
     (case completion_evidence env s of
        (required, fresh) \<Rightarrow>
          (let passed = (length required = length fresh)
           in if required = [] then (Inr (passed, required, fresh), s)
              else then_d (record_l env (EvCompletionGate (gate_epoch s) required fresh
                             (if passed then ''passed'' else ''blocked'')))
                     (return_d (passed, required, fresh)) s))"

section \<open>Hooks\<close>

definition run_hook_l :: "'w loop_env \<Rightarrow> string \<Rightarrow> ('w, string option) lm" where
  "run_hook_l env cmd s =
     (case le_run_hook env cmd (ls_world s) of
        (Inr _, w') \<Rightarrow> (Inr None, s\<lparr>ls_world := w'\<rparr>)
      | (Inl e, w') \<Rightarrow> (Inr (Some e), s\<lparr>ls_world := w'\<rparr>))"

definition pre_turn_failed :: "'w loop_env \<Rightarrow> ('w, bool) lm" where
  "pre_turn_failed env =
     (case hk_pre_turn (le_hooks env) of
        None \<Rightarrow> return_d False
      | Some cmd \<Rightarrow>
          bind_d (run_hook_l env cmd) (\<lambda>failure.
            case failure of
              None \<Rightarrow> return_d False
            | Some e \<Rightarrow> then_d (record_l env (EvNote (''pre_turn hook failed: '' @ e))) (return_d True)))"

definition fire_post_turn :: "'w loop_env \<Rightarrow> ('w, unit) lm" where
  "fire_post_turn env =
     (case hk_post_turn (le_hooks env) of
        None \<Rightarrow> return_d ()
      | Some cmd \<Rightarrow>
          bind_d (run_hook_l env cmd) (\<lambda>failure.
            case failure of
              None \<Rightarrow> return_d ()
            | Some e \<Rightarrow> record_l env (EvNote (''post_turn hook failed: '' @ e))))"

text \<open>Committing a turn and then running the hook, which the source writes at five exits.\<close>

definition commit_and_fire ::
  "'w loop_env \<Rightarrow> nat \<Rightarrow> nat \<Rightarrow> nat \<Rightarrow> stop_reason option \<Rightarrow> string option \<Rightarrow> ('w, turn_outcome) lm" where
  "commit_and_fire env turn dispatched errored stop snapshot =
     bind_d (loop_commit env turn dispatched errored stop snapshot) (\<lambda>outcome.
       then_d (fire_post_turn env) (return_d outcome))"

section \<open>Legacy dispatch\<close>

fun execute_summary :: "execute_outcome \<Rightarrow> string \<times> bool \<times> nat \<times> check_record list" where
  "execute_summary (ExCompleted out ms cks) = (to_full out, to_is_error out, ms, cks)"
| "execute_summary (ExDenied reason cks) = (''DENIED: '' @ reason, True, 0, cks)"
| "execute_summary (ExUnknownTool name) = (''unknown tool: '' @ name, True, 0, [])"

definition legacy_evidence :: "'w loop_env \<Rightarrow> nat \<Rightarrow> tool_call \<Rightarrow> bool \<Rightarrow> bool \<Rightarrow> ('w, unit) lm" where
  "legacy_evidence env turn call mutating is_error s =
     (if is_error then return_d () s
      else if tc_name call = ''run_check'' then
        (case Option.bind (json_get (tc_args call) ''name'') json_as_str of
           Some name \<Rightarrow> record_l env (EvVerificationCheckPassed turn name (tp_mutation_epoch (ls_projector s))) s
         | None \<Rightarrow> return_d () s)
      else if mutating then
        record_l env (EvWorkspaceMutation turn (tc_name call)
          (saturating_add u64_max (tp_mutation_epoch (ls_projector s)) 1)) s
      else return_d () s)"

definition legacy_execute ::
  "'w loop_env \<Rightarrow> nat \<Rightarrow> tool_call \<Rightarrow> bool \<Rightarrow> bool \<Rightarrow> ('w, dispatch_result) lm" where
  "legacy_execute env turn call mutating approved s =
     (let de = le_dispatch env
      in case execute (de_host de) (ls_world s) (de_registry de) (de_workspace de) (tc_name call) (tc_args call)
                (de_provenance de) (de_sink_policy de) (sink_approver_of approved) of
           (outcome, w') \<Rightarrow>
             (case execute_summary outcome of
                (full, is_error, ms, cks) \<Rightarrow>
                  then_d (in_core (record_permission_checks de cks))
                    (then_d (legacy_evidence env turn call mutating is_error)
                       (in_core (record_result de call full is_error ms)))
                    (s\<lparr>ls_world := w'\<rparr>)))"

definition legacy_dispatch :: "'w loop_env \<Rightarrow> nat \<Rightarrow> tool_call \<Rightarrow> ('w, dispatch_result option) lm" where
  "legacy_dispatch env turn call =
     (let de = le_dispatch env;
          mutating = (case permission_of (de_registry de) (tc_name call) of
                        Some Write \<Rightarrow> True | Some Execute \<Rightarrow> True | _ \<Rightarrow> False)
      in case (if mutating then de_approver de else None) of
           Some approver \<Rightarrow>
             if approver (edit_preview_of (de_pretty de) call (de_provenance de = UntrustedIngested))
             then bind_d (legacy_execute env turn call mutating True) (\<lambda>r. return_d (Some r))
             else then_d (in_core (record_result de call EDIT_REJECTED True 0)) (return_d None)
         | None \<Rightarrow> bind_d (legacy_execute env turn call mutating False) (\<lambda>r. return_d (Some r)))"

section \<open>The calls of a turn\<close>

record turn_tally =
  tt_complete :: "(tool_call \<times> string) option"
  tt_plan :: "string option"
  tt_dispatched :: nat
  tt_errored :: nat
  tt_blocks :: nat

definition tally_init :: turn_tally where
  "tally_init = \<lparr>tt_complete = None, tt_plan = None, tt_dispatched = 0, tt_errored = 0, tt_blocks = 0\<rparr>"

definition tally_result :: "dispatch_result option \<Rightarrow> turn_tally \<Rightarrow> turn_tally" where
  "tally_result r t =
     (case r of
        None \<Rightarrow> t\<lparr>tt_dispatched := tt_dispatched t + 1, tt_errored := tt_errored t + 1\<rparr>
      | Some d \<Rightarrow> t\<lparr>tt_dispatched := tt_dispatched t + 1,
                   tt_errored := tt_errored t + (if dr_is_error d then 1 else 0),
                   tt_blocks := tt_blocks t + (if dr_controller_blocked d then 1 else 0)\<rparr>)"

definition dispatch_call :: "'w loop_env \<Rightarrow> nat \<Rightarrow> tool_call \<Rightarrow> ('w, dispatch_result option) lm" where
  "dispatch_call env turn call s =
     (case ls_controller s of
        Some _ \<Rightarrow> bind_d (in_core (dispatch (le_dispatch env) turn call)) (\<lambda>r. return_d (Some r)) s
      | None \<Rightarrow> legacy_dispatch env turn call s)"

fun dispatch_calls :: "'w loop_env \<Rightarrow> nat \<Rightarrow> turn_tally \<Rightarrow> tool_call list \<Rightarrow> ('w, turn_tally) lm" where
  "dispatch_calls env turn t [] = return_d t"
| "dispatch_calls env turn t (call # calls) =
     then_d (record_call env call)
       (if is_task_complete (tc_name call) then
          dispatch_calls env turn (t\<lparr>tt_complete := Some (call, summary_of (tc_args call))\<rparr>) calls
        else if is_submit_plan (tc_name call) then
          dispatch_calls env turn (t\<lparr>tt_plan := Some (plan_of (tc_args call))\<rparr>) calls
        else bind_d (dispatch_call env turn call) (\<lambda>r.
               dispatch_calls env turn (tally_result r t) calls))"

section \<open>Ending a turn\<close>

text \<open>A successful end also sets the text the run returns.\<close>

definition commit_success ::
  "'w loop_env \<Rightarrow> nat \<Rightarrow> nat \<Rightarrow> nat \<Rightarrow> stop_reason \<Rightarrow> string option \<Rightarrow> string \<Rightarrow> ('w, turn_outcome) lm" where
  "commit_success env turn dispatched errored stop snapshot txt =
     bind_d (loop_commit env turn dispatched errored (Some stop) snapshot) (\<lambda>outcome.
       then_d (\<lambda>s. (Inr (), s\<lparr>ls_projector := (ls_projector s)\<lparr>tp_last_text := Some txt\<rparr>\<rparr>))
         (then_d (fire_post_turn env) (return_d outcome)))"

definition observe_failures ::
  "'w loop_env \<Rightarrow> nat \<Rightarrow> nat \<Rightarrow> nat \<Rightarrow> bool \<Rightarrow> ('w, bool) lm" where
  "observe_failures env dispatched errored blocks completion_was_blocked s =
     (case failure_observation dispatched errored blocks completion_was_blocked of
        None \<Rightarrow> (Inr False, s)
      | Some ob \<Rightarrow>
          (case observe_turn (ls_failure s) ob of
             (g, v) \<Rightarrow> record_guard env v EvFailureGuard (s\<lparr>ls_failure := g\<rparr>)))"

text \<open>The last part of a turn: a submitted plan, the failure guard, the commit.\<close>

definition close_turn ::
  "'w loop_env \<Rightarrow> nat \<Rightarrow> string option \<Rightarrow> turn_tally \<Rightarrow> bool \<Rightarrow> ('w, turn_outcome) lm" where
  "close_turn env turn snapshot t completion_was_blocked =
     (case tt_plan t of
        Some plan \<Rightarrow> commit_success env turn (tt_dispatched t) (tt_errored t) PlanSubmitted snapshot plan
      | None \<Rightarrow>
          bind_d (observe_failures env (tt_dispatched t) (tt_errored t) (tt_blocks t) completion_was_blocked) (\<lambda>stopped.
            if stopped
            then loop_commit env turn (tt_dispatched t) (tt_errored t) (Some RepeatedFailure) snapshot
            else commit_and_fire env turn (tt_dispatched t) (tt_errored t) None snapshot))"

text \<open>The message about a blocked completion names the projector's epoch.\<close>

definition blocked_completion ::
  "'w loop_env \<Rightarrow> nat \<Rightarrow> string option \<Rightarrow> turn_tally \<Rightarrow> tool_call \<Rightarrow> string list \<Rightarrow> string list \<Rightarrow>
   ('w, turn_outcome) lm" where
  "blocked_completion env turn snapshot t call required fresh s =
     then_d (in_core (record_result (le_dispatch env) call
               (completion_gate_message (tp_mutation_epoch (ls_projector s)) required fresh) True 0))
       (close_turn env turn snapshot
          (t\<lparr>tt_dispatched := tt_dispatched t + 1, tt_errored := tt_errored t + 1\<rparr>) True) s"

definition finish_calls ::
  "'w loop_env \<Rightarrow> nat \<Rightarrow> string option \<Rightarrow> turn_tally \<Rightarrow> ('w, turn_outcome) lm" where
  "finish_calls env turn snapshot t =
     (case tt_complete t of
        None \<Rightarrow> close_turn env turn snapshot t False
      | Some (call, summary) \<Rightarrow>
          bind_d (completion_gate env) (\<lambda>(passed, required, fresh).
            if passed
            then commit_success env turn (tt_dispatched t) (tt_errored t) TaskComplete snapshot summary
            else blocked_completion env turn snapshot t call required fresh))"

section \<open>Turns without calls, clarifications, guards\<close>

definition no_action ::
  "'w loop_env \<Rightarrow> nat \<Rightarrow> string option \<Rightarrow> completion \<Rightarrow> action_parse_error option \<Rightarrow> ('w, turn_outcome) lm" where
  "no_action env turn snapshot co parse_error =
     then_d (case parse_error of
               None \<Rightarrow> return_d ()
             | Some e \<Rightarrow> record_l env (EvNote (''action parse failed: '' @ action_parse_error_text e)))
       (if le_protocol env = NativeTools \<and> (case co_text co of None \<Rightarrow> False | Some t \<Rightarrow> trim t \<noteq> [])
        then bind_d (completion_gate env) (\<lambda>(passed, _, _).
               commit_and_fire env turn 0 0 (if passed then Some FinalText else None) snapshot)
        else (\<lambda>s. loop_commit env turn 0 0 (if ls_nudged s then Some EmptyCompletion else None) snapshot
                   (s\<lparr>ls_nudged := True\<rparr>)))"

fun record_rejections :: "'w loop_env \<Rightarrow> string \<Rightarrow> tool_call list \<Rightarrow> ('w, unit) lm" where
  "record_rejections env m [] = return_d ()"
| "record_rejections env m (call # calls) =
     then_d (record_synthetic_result env m True call) (record_rejections env m calls)"

fun user_input_error_text :: "user_input_error \<Rightarrow> string" where
  "user_input_error_text EmptyQuestion = ''question must not be empty''"
| "user_input_error_text EmptyContext = ''context must not be empty''"
| "user_input_error_text (EmptyOption i) = ''option at index '' @ show_nat i @ '' must not be empty''"

text \<open>\<open>decode_error\<close> is the decoder's message about arguments of the wrong shape.\<close>

definition request_error_text :: "(json \<Rightarrow> string) \<Rightarrow> json \<Rightarrow> user_input_request_error \<Rightarrow> string" where
  "request_error_text decode_error args e =
     ''invalid request_user_input arguments: ''
     @ (case e of Shape \<Rightarrow> decode_error args | Validation v \<Rightarrow> user_input_error_text v)"

definition reject_clarification ::
  "'w loop_env \<Rightarrow> nat \<Rightarrow> string option \<Rightarrow> tool_call list \<Rightarrow> string \<Rightarrow> ('w, turn_outcome) lm" where
  "reject_clarification env turn snapshot actions m =
     then_d (record_rejections env m actions)
       (bind_d (\<lambda>s. case observe_turn (ls_failure s) (length actions, length actions) of
                     (g, v) \<Rightarrow> record_guard env v EvFailureGuard (s\<lparr>ls_failure := g\<rparr>)) (\<lambda>stopped.
          commit_and_fire env turn (length actions) (length actions)
            (if stopped then Some RepeatedFailure else None) snapshot))"

definition pause_for_input ::
  "'w loop_env \<Rightarrow> nat \<Rightarrow> string option \<Rightarrow> tool_call \<Rightarrow> user_input_request \<Rightarrow> ('w, turn_outcome) lm" where
  "pause_for_input env turn snapshot call request =
     then_d (record_synthetic_result env ''user input requested; session paused until an answer is supplied'' False call)
       (then_d (\<lambda>s. (Inr (), s\<lparr>ls_projector := (ls_projector s)\<lparr>tp_pending_input := Some request\<rparr>\<rparr>))
          (commit_and_fire env turn 1 0 (Some NeedsInput) snapshot))"

definition clarification ::
  "'w loop_env \<Rightarrow> nat \<Rightarrow> string option \<Rightarrow> tool_call list \<Rightarrow> ('w, turn_outcome) lm" where
  "clarification env turn snapshot actions =
     (case actions of
        [call] \<Rightarrow>
          (case request_of (tc_args call) of
             Inr request \<Rightarrow> pause_for_input env turn snapshot call request
           | Inl e \<Rightarrow> reject_clarification env turn snapshot actions
                       (request_error_text (le_decode_error env) (tc_args call) e))
      | _ \<Rightarrow> reject_clarification env turn snapshot actions
               ''request_user_input must be the only action in its turn; no calls were executed'')"

text \<open>The three guards on the shape of the actions, in the order of the source. The result is the stop
  of the first guard that stops.\<close>

definition guard_repetition :: "'w loop_env \<Rightarrow> tool_call list \<Rightarrow> ('w, bool) lm" where
  "guard_repetition env actions s =
     (case repetition_observe (le_json_text env) (ls_repetition s) actions of
        (g, v) \<Rightarrow> record_guard env v EvRepetitionGuard (s\<lparr>ls_repetition := g\<rparr>))"

definition guard_progress :: "'w loop_env \<Rightarrow> tool_call list \<Rightarrow> ('w, bool) lm" where
  "guard_progress env actions s =
     (case progress_observe (ls_progress s) actions of
        (g, v) \<Rightarrow> record_guard env v EvNoProgressGuard (s\<lparr>ls_progress := g\<rparr>))"

definition guard_oscillation :: "'w loop_env \<Rightarrow> tool_call list \<Rightarrow> ('w, bool) lm" where
  "guard_oscillation env actions s =
     (case oscillation_observe (le_json_text env) (ls_oscillation s) actions of
        (g, v) \<Rightarrow> record_guard env v EvOscillationGuard (s\<lparr>ls_oscillation := g\<rparr>))"

definition shape_guards :: "'w loop_env \<Rightarrow> tool_call list \<Rightarrow> ('w, stop_reason option) lm" where
  "shape_guards env actions =
     bind_d (guard_repetition env actions) (\<lambda>stopped.
       if stopped then return_d (Some RepetitionGuard)
       else bind_d (guard_progress env actions) (\<lambda>stopped'.
         if stopped' then return_d (Some NoProgress)
         else bind_d (guard_oscillation env actions) (\<lambda>stopped''.
           return_d (if stopped'' then Some Oscillation else None))))"

definition act ::
  "'w loop_env \<Rightarrow> nat \<Rightarrow> string option \<Rightarrow> tool_call list \<Rightarrow> ('w, turn_outcome) lm" where
  "act env turn snapshot actions =
     (if list_ex (\<lambda>c. is_request_user_input (tc_name c)) actions then clarification env turn snapshot actions
      else bind_d (shape_guards env actions) (\<lambda>stop.
        case stop of
          Some r \<Rightarrow> loop_commit env turn 0 0 (Some r) snapshot
        | None \<Rightarrow>
            bind_d (dispatch_calls env turn tally_init actions) (finish_calls env turn snapshot)))"

section \<open>One turn\<close>

definition actions_of :: "'w loop_env \<Rightarrow> nat \<Rightarrow> completion \<Rightarrow> tool_call list \<times> action_parse_error option" where
  "actions_of env turn co =
     (let txt = (case co_text co of None \<Rightarrow> [] | Some t \<Rightarrow> t);
          parsed = (\<lambda>r. case r of Inr call \<Rightarrow> ([call], None) | Inl e \<Rightarrow> ([], Some e))
      in case le_protocol env of
           NativeTools \<Rightarrow> (co_tool_calls co, None)
         | TextXml \<Rightarrow> parsed (parse_xml_action (le_captures env) (le_from_str env) turn txt)
         | _ \<Rightarrow> parsed (parse_json_action (le_from_str env) turn txt))"

definition truncated_turn ::
  "'w loop_env \<Rightarrow> nat \<Rightarrow> string option \<Rightarrow> ('w, turn_outcome) lm" where
  "truncated_turn env turn snapshot =
     then_d (record_l env (EvActionsProposed turn []))
       (\<lambda>s. loop_commit env turn 0 0 (if ls_truncated_once s then Some TruncatedAction else None) snapshot
             (s\<lparr>ls_truncated_once := True\<rparr>))"

definition decide_turn ::
  "'w loop_env \<Rightarrow> nat \<Rightarrow> string option \<Rightarrow> completion \<Rightarrow> ('w, turn_outcome) lm" where
  "decide_turn env turn snapshot co =
     (if constrained (le_protocol env) \<and> co_truncated co then truncated_turn env turn snapshot
      else case actions_of env turn co of
        (actions, parse_error) \<Rightarrow>
          then_d (record_l env (EvActionsProposed turn actions))
            (if actions = [] then no_action env turn snapshot co parse_error
             else act env turn snapshot actions))"

definition take_snapshot :: "'w loop_env \<Rightarrow> nat \<Rightarrow> ('w, string option) lm" where
  "take_snapshot env turn s =
     (case le_snapshot env turn (ls_world s) of
        Inr commit \<Rightarrow> (Inr (Some commit), s)
      | Inl e \<Rightarrow> then_d (write_l env (EvNote (''vcs snapshot failed: '' @ e))) (return_d None) s)"

definition after_completion :: "'w loop_env \<Rightarrow> nat \<Rightarrow> completion \<Rightarrow> ('w, turn_outcome) lm" where
  "after_completion env turn co =
     then_d (record_l env (EvTurnEnd turn (co_text co) (as_u32 (length (co_tool_calls co)))
               (co_input_tokens co) (co_output_tokens co) (co_truncated co)))
       (bind_d (take_snapshot env turn) (\<lambda>snapshot s.
          decide_turn env turn snapshot co (s\<lparr>ls_last_input_tokens := co_input_tokens co\<rparr>)))"

definition turn_request :: "'w loop_env \<Rightarrow> 'w loop_state \<Rightarrow> completion_request" where
  "turn_request env s =
     \<lparr>cr_messages = tp_messages (ls_projector s), cr_sampling = le_sampling env,
      cr_tools = (if le_protocol env = NativeTools then ls_native_tools s else []),
      cr_constraint = (if constrained (le_protocol env)
                       then Some (JsonSchema (action_schema (ls_native_tools s))) else None)\<rparr>"

definition action_budget :: "run_policy \<Rightarrow> nat \<Rightarrow> output_budget" where
  "action_budget p tokens =
     (case output_budget_of p of
        Some b \<Rightarrow>
          if effective b = tokens \<and> max_output_tokens p = tokens then b
          else \<lparr>requested = None, effective = tokens, declared_ctx = declared_ctx b,
                source = (if tokens = max_output_tokens p then Policy else Caller)\<rparr>
      | None \<Rightarrow> \<lparr>requested = None, effective = tokens, declared_ctx = None,
                 source = (if tokens = max_output_tokens p then Policy else Caller)\<rparr>)"

definition message_chars :: "message list \<Rightarrow> nat" where
  "message_chars ms = sum_list (map (\<lambda>m. case msg_text m of None \<Rightarrow> 0 | Some t \<Rightarrow> length t) ms)"

definition ask_provider :: "'w loop_env \<Rightarrow> nat \<Rightarrow> completion_request \<Rightarrow> ('w, turn_outcome) lm" where
  "ask_provider env turn request =
     (case fst (complete_with_backoff pv_retryable (le_answer env turn request)) of
        Inr co \<Rightarrow> after_completion env turn co
      | Inl e \<Rightarrow>
          then_d (write_l env (EvNote (''provider error: '' @ pv_text e))) (return_d (StopWith ProviderError)))"

definition send_request :: "'w loop_env \<Rightarrow> nat \<Rightarrow> ('w, turn_outcome) lm" where
  "send_request env turn s =
     (let request = turn_request env s
      in case validate_request request of
           Inl e \<Rightarrow>
             then_d (record_l env (EvNote (''invalid request constructed by loop: '' @ e)))
               (return_d (StopWith ProviderError)) s
         | Inr _ \<Rightarrow>
             then_d (record_l env (EvPromptAssembled turn (as_u32 (length (cr_messages request)))
                       (message_chars (cr_messages request)) (ls_offered_names s)))
               (then_d (if constrained (le_protocol env) then record_l env (EvConstraintApplied ''json_schema'')
                        else return_d ())
                  (then_d (write_l env (EvMainActionBudget turn
                             (action_budget (le_policy env) (max_tokens (le_sampling env)))))
                     (ask_provider env turn request))) s)"

definition compact_first :: "'w loop_env \<Rightarrow> nat \<Rightarrow> ('w, unit) lm" where
  "compact_first env turn s =
     (case maybe_compact pv_retryable pv_text (le_summary env turn) (ls_projector s) (le_policy env)
             (ls_last_input_tokens s) of
        Inl _ \<Rightarrow> fail_d Panic s
      | Inr None \<Rightarrow> return_d () s
      | Inr (Some ev) \<Rightarrow> record_l env ev s)"

definition begin_turn :: "'w loop_env \<Rightarrow> ('w, turn_outcome) lm" where
  "begin_turn env s =
     (let turn = ls_turns s
      in then_d (record_l env (EvTurnStart turn))
           (then_d (compact_first env turn) (send_request env turn))
           (s\<lparr>ls_turns := as_u32 (ls_turns s + 1), ls_turns_this_run := ls_turns_this_run s + 1\<rparr>))"

definition step :: "'w loop_env \<Rightarrow> ('w, turn_outcome) lm" where
  "step env s =
     (if le_cancelled env (ls_turns s) then (Inr (StopWith Interrupted), s)
      else if max_turns (le_policy env) \<le> ls_turns_this_run s then (Inr (StopWith MaxTurns), s)
      else bind_d (pre_turn_failed env) (\<lambda>failed.
             if failed then return_d (StopWith HookFailed) else begin_turn env) s)"

section \<open>The loop\<close>

text \<open>Computations that leave the count of this run's turns alone.\<close>

definition same_turns :: "'w loop_state \<Rightarrow> 'w loop_state \<Rightarrow> bool" where
  "same_turns s s' \<longleftrightarrow> ls_turns_this_run s' = ls_turns_this_run s"

interpretation turns: step_order same_turns
  by unfold_locales (simp_all add: same_turns_def)

abbreviation keeps_turns :: "('w, 'a) lm \<Rightarrow> bool" where
  "keeps_turns \<equiv> moves same_turns"

lemma keeps_turns_iff: "keeps_turns m \<longleftrightarrow> (\<forall>s. ls_turns_this_run (snd (m s)) = ls_turns_this_run s)"
  by (simp add: moves_def same_turns_def)

named_theorems keeps \<open>computations that keep the count of turns\<close>

lemmas [keeps] = turns.move_rules

lemma keeps_turnsI: "(\<And>s. ls_turns_this_run (snd (m s)) = ls_turns_this_run s) \<Longrightarrow> keeps_turns m"
  by (rule movesI) (simp add: same_turns_def)

lemma keeps_run: "keeps_turns m \<Longrightarrow> ls_turns_this_run (snd (m s)) = ls_turns_this_run s"
  using moves_run[of same_turns m s] by (simp add: same_turns_def)

lemma keeps_turnsD: "keeps_turns m \<Longrightarrow> m s = (r, s') \<Longrightarrow> ls_turns_this_run s' = ls_turns_this_run s"
  using keeps_run[of m s] by simp

lemma keeps_core [keeps]: "keeps_turns (in_core m)"
  by (simp add: keeps_turns_iff in_core_def put_core_def split: prod.splits)

lemma keeps_record [keeps]: "keeps_turns (record_l env ev)"
  by (simp add: record_l_def keeps_core)

lemma keeps_write [keeps]: "keeps_turns (write_l env ev)"
  by (simp add: keeps_turns_iff write_l_def split: option.splits)

lemma keeps_commit [keeps]: "keeps_turns (loop_commit env turn d e stop snap)"
  unfolding loop_commit_def by (intro keeps)

lemma keeps_call [keeps]: "keeps_turns (record_call env call)"
  unfolding record_call_def by (intro keeps)

lemma keeps_synthetic [keeps]: "keeps_turns (record_synthetic_result env out e call)"
  unfolding record_synthetic_result_def by (intro keeps)

lemma keeps_guard [keeps]: "keeps_turns (record_guard env v ev)"
  unfolding record_guard_def by (cases v) (simp_all add: keeps)

lemma keeps_gate [keeps]: "keeps_turns (completion_gate env)"
  by (rule keeps_turnsI) (simp add: completion_gate_def Let_def keeps_run keeps split: prod.split)

lemma keeps_hook [keeps]: "keeps_turns (run_hook_l env cmd)"
  by (auto simp: keeps_turns_iff run_hook_l_def split: prod.split sum.split)

lemma keeps_pre [keeps]: "keeps_turns (pre_turn_failed env)"
  unfolding pre_turn_failed_def by (auto intro!: keeps split: option.split)

lemma keeps_post [keeps]: "keeps_turns (fire_post_turn env)"
  unfolding fire_post_turn_def by (auto intro!: keeps split: option.split)

lemma keeps_commit_fire [keeps]: "keeps_turns (commit_and_fire env turn d e stop snap)"
  unfolding commit_and_fire_def by (intro keeps)

lemma keeps_legacy [keeps]: "keeps_turns (legacy_dispatch env turn call)"
proof -
  have evidence: "keeps_turns (legacy_evidence env turn call mutating is_error)" for mutating is_error
    by (rule keeps_turnsI) (simp add: legacy_evidence_def keeps_run keeps split: option.split)
  have "keeps_turns (legacy_execute env turn call mutating approved)" for mutating approved
    by (rule keeps_turnsI)
       (simp add: legacy_execute_def Let_def keeps_run keeps evidence split: prod.split)
  then show ?thesis unfolding legacy_dispatch_def Let_def by (auto intro!: keeps split: option.split)
qed

lemma keeps_dispatch_call [keeps]: "keeps_turns (dispatch_call env turn call)"
  by (rule keeps_turnsI) (simp add: dispatch_call_def keeps_run keeps split: option.split)

lemma keeps_dispatch_calls [keeps]: "keeps_turns (dispatch_calls env turn t calls)"
  by (induction calls arbitrary: t) (auto intro!: keeps)

lemma keeps_success [keeps]: "keeps_turns (commit_success env turn d e stop snap txt)"
  unfolding commit_success_def by (intro keeps) (simp add: keeps_turns_iff)

lemma keeps_failures [keeps]: "keeps_turns (observe_failures env d e b c)"
  by (rule keeps_turnsI) (simp add: observe_failures_def keeps_run keeps split: option.split prod.split)

lemma keeps_close [keeps]: "keeps_turns (close_turn env turn snap t b)"
  unfolding close_turn_def by (auto intro!: keeps split: option.split)

lemma keeps_finish [keeps]: "keeps_turns (finish_calls env turn snap t)"
proof -
  have "keeps_turns (blocked_completion env turn snap t call required fresh)" for call required fresh
    by (rule keeps_turnsI) (simp add: blocked_completion_def keeps_run keeps)
  then show ?thesis unfolding finish_calls_def by (auto intro!: keeps split: option.split)
qed

lemma keeps_no_action [keeps]: "keeps_turns (no_action env turn snap co err)"
proof -
  have "keeps_turns (\<lambda>s. loop_commit env turn 0 0 (if ls_nudged s then Some EmptyCompletion else None) snap
      (s\<lparr>ls_nudged := True\<rparr>))"
    by (rule keeps_turnsI) (simp add: keeps_run keeps)
  then show ?thesis unfolding no_action_def
    by (auto intro!: keeps split: option.split)
qed

lemma keeps_clarification [keeps]: "keeps_turns (clarification env turn snap actions)"
proof -
  have rejections: "keeps_turns (record_rejections env m calls)" for m calls
    by (induction calls) (auto intro!: keeps)
  have guard: "keeps_turns (\<lambda>s. case observe_turn (ls_failure s) ob of
      (g, v) \<Rightarrow> record_guard env v EvFailureGuard (s\<lparr>ls_failure := g\<rparr>))" for ob
    by (rule keeps_turnsI) (simp add: keeps_run keeps split: prod.split)
  have "keeps_turns (reject_clarification env turn snap as m)" for as m
    unfolding reject_clarification_def by (intro keeps rejections guard)
  moreover have "keeps_turns (pause_for_input env turn snap call request)" for call request
    unfolding pause_for_input_def by (intro keeps) (simp add: keeps_turns_iff)
  ultimately show ?thesis unfolding clarification_def by (auto split: list.split sum.split)
qed

lemma keeps_shape [keeps]: "keeps_turns (shape_guards env actions)"
proof -
  have "keeps_turns (guard_repetition env actions)" "keeps_turns (guard_progress env actions)"
    "keeps_turns (guard_oscillation env actions)"
    by (rule keeps_turnsI, simp add: guard_repetition_def guard_progress_def guard_oscillation_def
          keeps_run keeps split: prod.split)+
  then show ?thesis unfolding shape_guards_def by (auto intro!: keeps)
qed

lemma keeps_act [keeps]: "keeps_turns (act env turn snap actions)"
  unfolding act_def by (auto intro!: keeps split: option.split)

lemma keeps_decide [keeps]: "keeps_turns (decide_turn env turn snap co)"
proof -
  have "keeps_turns (\<lambda>s. loop_commit env turn 0 0 (if ls_truncated_once s then Some TruncatedAction else None) snap
      (s\<lparr>ls_truncated_once := True\<rparr>))"
    by (rule keeps_turnsI) (simp add: keeps_run keeps)
  then have "keeps_turns (truncated_turn env turn snap)"
    unfolding truncated_turn_def by (intro keeps)
  then show ?thesis unfolding decide_turn_def by (auto intro!: keeps split: prod.split)
qed

lemma keeps_after [keeps]: "keeps_turns (after_completion env turn co)"
proof -
  have "keeps_turns (take_snapshot env turn)"
    by (rule keeps_turnsI) (simp add: take_snapshot_def keeps_run keeps split: sum.split)
  moreover have "keeps_turns (\<lambda>s. decide_turn env turn snap co (s\<lparr>ls_last_input_tokens := v\<rparr>))" for snap v
    by (rule keeps_turnsI) (simp add: keeps_run keeps)
  ultimately show ?thesis unfolding after_completion_def by (intro keeps)
qed

lemma keeps_send [keeps]: "keeps_turns (send_request env turn)"
proof -
  have "keeps_turns (ask_provider env turn request)" for request
    unfolding ask_provider_def by (auto intro!: keeps split: sum.split)
  then show ?thesis
    by (intro keeps_turnsI) (simp add: send_request_def Let_def keeps_run keeps split: sum.split)
qed

lemma keeps_compact [keeps]: "keeps_turns (compact_first env turn)"
  by (rule keeps_turnsI) (simp add: compact_first_def keeps_run keeps split: sum.split option.split)

lemma begin_turn_counts: "ls_turns_this_run (snd (begin_turn env s)) = ls_turns_this_run s + 1"
  by (simp add: begin_turn_def Let_def keeps_run keeps)

text \<open>A turn that continues has used up one of the turns that were left.\<close>

lemma step_Continue:
  assumes "step env s = (Inr Continue, s')"
  shows "ls_turns_this_run s' = ls_turns_this_run s + 1 \<and> ls_turns_this_run s < max_turns (le_policy env)"
proof -
  have lt: "\<not> le_cancelled env (ls_turns s)" "ls_turns_this_run s < max_turns (le_policy env)"
    using assms by (auto simp: step_def split: if_splits)
  then obtain failed s1 where pre: "pre_turn_failed env s = (Inr failed, s1)"
    and rest: "(if failed then return_d (StopWith HookFailed) else begin_turn env) s1 = (Inr Continue, s')"
    using assms by (auto simp: step_def bind_d_def split: prod.splits sum.splits)
  then have "begin_turn env s1 = (Inr Continue, s')" by (cases failed) (auto simp: return_d_def)
  then show ?thesis
    using lt keeps_turnsD[OF keeps_pre pre] begin_turn_counts[of env s1] by simp
qed

function run_loop :: "'w loop_env \<Rightarrow> ('w, stop_reason) lm" where
  "run_loop env s =
     (case step env s of
        (Inl e, s') \<Rightarrow> (Inl e, s')
      | (Inr (StopWith r), s') \<Rightarrow> (Inr r, s')
      | (Inr Continue, s') \<Rightarrow> run_loop env s')"
  by pat_completeness auto
termination
  by (relation "measure (\<lambda>(env, s). max_turns (le_policy env) - ls_turns_this_run s)")
     (auto dest!: step_Continue[OF sym])

declare run_loop.simps [simp del]

end
