(* ===== verification/Trace_File.thy ===== *)
theory Trace_File
  imports Trace_Events Rust_Utf8 "HOL-Library.Sublist"
begin

text \<open>
  Trace files, \<^verbatim>\<open>ferric-trace\<close>'s \<^verbatim>\<open>sink.rs\<close> and \<^verbatim>\<open>reader.rs\<close>: the sink that
  stamps, prints and appends events, and the reader that splits a file into lines, decodes them and, for
  replay, tolerates a record that a crash cut off. The bytes of the file are a list of characters. The JSON
  library is the record \<open>codec\<close>; its errors are classified the way the reader asks for (an
  unexpected end of the text, or anything else). Writing a chunk may fail after some of its bytes:
  \<open>io\<close> says at which length of the file and after how many.
\<close>

section \<open>Records and the JSON library\<close>

record trace_event =
  te_v :: nat
  te_ts_ms :: nat
  te_session :: string
  te_seq :: nat
  te_event :: event

datatype parsed_event = Known event | Unknown json

record trace_record =
  tr_v :: nat
  tr_ts_ms :: nat
  tr_session :: string
  tr_seq :: nat
  tr_event :: parsed_event

record raw_record =
  rw_v :: nat
  rw_ts_ms :: nat
  rw_session :: string
  rw_seq :: nat
  rw_event :: json

datatype trace_read_mode = Strict | ReplayRecovery

datatype json_error = JsonEof string | JsonOther string

fun is_eof :: "json_error \<Rightarrow> bool" where
  "is_eof (JsonEof _) = True"
| "is_eof (JsonOther _) = False"

record codec =
  cd_print :: "trace_event \<Rightarrow> json_error + string"
  cd_raw :: "string \<Rightarrow> json_error + raw_record"
  cd_value :: "string \<Rightarrow> json_error + json"
  cd_event :: "json \<Rightarrow> json_error + event"

datatype trace_error =
    TraceJson json_error
  | TraceUtf8 utf8_error
  | TraceIo string

section \<open>The sink\<close>

record jsonl_sink =
  js_file :: string
  js_session :: string
  js_next_seq :: nat

definition sink_open :: "string \<Rightarrow> string \<Rightarrow> jsonl_sink" where
  "sink_open bytes session = \<lparr>js_file = bytes, js_session = session, js_next_seq = 0\<rparr>"

definition sink_from_file :: "bool \<Rightarrow> string \<Rightarrow> string \<Rightarrow> trace_error + jsonl_sink" where
  "sink_from_file is_file bytes session =
     (if \<not> is_file \<or> length bytes \<noteq> 0 then Inl (TraceIo ''a new trace requires an empty regular file'')
      else Inr (sink_open bytes session))"

type_synonym io_faults = "nat \<Rightarrow> (nat \<times> string) option"

definition write_all :: "io_faults \<Rightarrow> string \<Rightarrow> jsonl_sink \<Rightarrow> jsonl_sink \<times> trace_error check" where
  "write_all io chunk s =
     (case io (length (js_file s)) of
        None \<Rightarrow> (s\<lparr>js_file := js_file s @ chunk\<rparr>, ok)
      | Some (n, m) \<Rightarrow> (s\<lparr>js_file := js_file s @ take n chunk\<rparr>, Inl (TraceIo m)))"

definition stamp :: "nat \<Rightarrow> event \<Rightarrow> jsonl_sink \<Rightarrow> trace_event" where
  "stamp now ev s = \<lparr>te_v = TRACE_SCHEMA_VERSION, te_ts_ms = now, te_session = js_session s,
     te_seq = js_next_seq s, te_event = ev\<rparr>"

definition write_event ::
  "codec \<Rightarrow> io_faults \<Rightarrow> nat \<Rightarrow> event \<Rightarrow> jsonl_sink \<Rightarrow> jsonl_sink \<times> (trace_error + nat)" where
  "write_event cd io now ev s =
     (case cd_print cd (stamp now ev s) of
        Inl e \<Rightarrow> (s, Inl (TraceJson e))
      | Inr line \<Rightarrow>
          (case write_all io line s of
             (s1, Inl e) \<Rightarrow> (s1, Inl e)
           | (s1, Inr _) \<Rightarrow>
               (case write_all io [CHR 0x0A] s1 of
                  (s2, Inl e) \<Rightarrow> (s2, Inl e)
                | (s2, Inr _) \<Rightarrow> (s2\<lparr>js_next_seq := js_next_seq s2 + 1\<rparr>, Inr (js_next_seq s)))))"

text \<open>Writing a list of timed events, up to the first failure.\<close>

fun write_events ::
  "codec \<Rightarrow> io_faults \<Rightarrow> (nat \<times> event) list \<Rightarrow> jsonl_sink \<Rightarrow> jsonl_sink \<times> trace_error check" where
  "write_events cd io [] s = (s, ok)"
| "write_events cd io ((now, ev) # evs) s =
     (case write_event cd io now ev s of
        (s1, Inl e) \<Rightarrow> (s1, Inl e)
      | (s1, Inr _) \<Rightarrow> write_events cd io evs s1)"

section \<open>The reader\<close>

text \<open>\<^verbatim>\<open>read_until(b'\n')\<close>: the line with its terminator, and the rest.\<close>

fun read_until :: "string \<Rightarrow> string \<times> string" where
  "read_until [] = ([], [])"
| "read_until (c # s) =
     (if c = CHR 0x0A then ([c], s) else (case read_until s of (line, rest) \<Rightarrow> (c # line, rest)))"

definition is_recovery_checkpoint :: "json \<Rightarrow> bool" where
  "is_recovery_checkpoint j \<longleftrightarrow>
     Option.bind (json_get j ''type'') json_as_str = Some ''recovery_checkpoint''"

definition parse_line :: "codec \<Rightarrow> string \<Rightarrow> json_error + trace_record" where
  "parse_line cd line =
     (case cd_raw cd line of
        Inl e \<Rightarrow> Inl e
      | Inr raw \<Rightarrow>
          (let rec = (\<lambda>ev. \<lparr>tr_v = rw_v raw, tr_ts_ms = rw_ts_ms raw, tr_session = rw_session raw,
                          tr_seq = rw_seq raw, tr_event = ev\<rparr>)
           in case cd_event cd (rw_event raw) of
                Inr ev \<Rightarrow> Inr (rec (Known ev))
              | Inl e \<Rightarrow>
                  if is_recovery_checkpoint (rw_event raw) then Inl e else Inr (rec (Unknown (rw_event raw)))))"

definition incomplete_utf8_follows_incomplete_json :: "codec \<Rightarrow> string \<Rightarrow> utf8_error \<Rightarrow> bool" where
  "incomplete_utf8_follows_incomplete_json cd line e =
     (if error_len e \<noteq> None then False
      else case cd_value cd (take (valid_up_to e) line) of Inl j \<Rightarrow> is_eof j | Inr _ \<Rightarrow> False)"

datatype line_outcome = LineSkipped | LineEnds | LineRecord trace_record | LineError trace_error

definition read_line :: "codec \<Rightarrow> trace_read_mode \<Rightarrow> string \<Rightarrow> line_outcome" where
  "read_line cd mode line =
     (let torn = (mode = ReplayRecovery \<and> \<not> ends_with line [CHR 0x0A])
      in case from_utf8 line of
           Some e \<Rightarrow>
             if torn \<and> incomplete_utf8_follows_incomplete_json cd line e then LineEnds
             else LineError (TraceUtf8 e)
         | None \<Rightarrow>
             if trim line = [] then LineSkipped
             else (case parse_line cd line of
                     Inr r \<Rightarrow> LineRecord r
                   | Inl e \<Rightarrow> if torn \<and> is_eof e then LineEnds else LineError (TraceJson e)))"

lemma read_until_split: "read_until s = (line, rest) \<Longrightarrow> s = line @ rest \<and> (s \<noteq> [] \<longrightarrow> line \<noteq> [])"
  by (induction s arbitrary: line rest) (auto split: if_splits prod.splits)

text \<open>What the iterator yields, to its end. It goes on after an error.\<close>

function read_trace :: "codec \<Rightarrow> trace_read_mode \<Rightarrow> string \<Rightarrow> (trace_error + trace_record) list" where
  "read_trace cd mode bytes =
     (if bytes = [] then []
      else case read_until bytes of
        (line, rest) \<Rightarrow>
          (case read_line cd mode line of
             LineSkipped \<Rightarrow> read_trace cd mode rest
           | LineEnds \<Rightarrow> []
           | LineRecord r \<Rightarrow> Inr r # read_trace cd mode rest
           | LineError e \<Rightarrow> Inl e # read_trace cd mode rest))"
  by pat_completeness auto
termination
  by (relation "measure (\<lambda>(cd, mode, bytes). length bytes)") (auto dest!: read_until_split[OF sym])

declare read_trace.simps [simp del]

end
