(* ===== verification/Incremental.thy ===== *)
theory Incremental
  imports Ferric_Prelude
begin

text \<open>
  Consumers of input that arrives in pieces. A consumer takes a piece in a state and fails or answers with
  output and its next state. Its contract is that a piece may be cut anywhere: feeding the parts one after
  the other is feeding the whole. What it gives its clients is that only the concatenation of the pieces
  matters, however they were cut.
\<close>

locale consumer =
  fixes feed :: "'i list \<Rightarrow> 's \<Rightarrow> 'e + ('o \<times> 's)"
    and ready :: "'s \<Rightarrow> bool"
    and plus :: "'o \<Rightarrow> 'o \<Rightarrow> 'o"
    and zero :: 'o
  assumes feed_Nil: "ready s \<Longrightarrow> feed [] s = Inr (zero, s)"
    and feed_append: "ready s \<Longrightarrow> feed (a @ b) s =
          and_then (feed a s) (\<lambda>(x, s1). and_then (feed b s1) (\<lambda>(y, s2). Inr (plus x y, s2)))"
    and feed_ready: "ready s \<Longrightarrow> feed a s = Inr (x, s1) \<Longrightarrow> ready s1"
begin

fun feed_all :: "'i list list \<Rightarrow> 's \<Rightarrow> 'e + ('o \<times> 's)" where
  "feed_all [] s = Inr (zero, s)"
| "feed_all (a # as) s = and_then (feed a s) (\<lambda>(x, s1). and_then (feed_all as s1) (\<lambda>(y, s2). Inr (plus x y, s2)))"

lemma feed_all_concat: "ready s \<Longrightarrow> feed_all as s = feed (concat as) s"
proof (induction as arbitrary: s)
  case (Cons a as)
  have "feed_all as s1 = feed (concat as) s1" if "feed a s = Inr (x, s1)" for x s1
    using Cons.IH feed_ready[OF Cons.prems that] by blast
  then show ?case using feed_append[OF Cons.prems, of a "concat as"] by (cases "feed a s") auto
qed (simp add: feed_Nil)

corollary cut_anywhere: "ready s \<Longrightarrow> concat as = concat bs \<Longrightarrow> feed_all as s = feed_all bs s"
  by (simp add: feed_all_concat)

end

end
