(* ===== verification/Wire_Formats.thy ===== *)
theory Wire_Formats
  imports Rust_Utf8 Incremental
begin

text \<open>
  The wire shapes of \<^verbatim>\<open>ferric-iron\<close>: the decoder of server-sent events and the request
  fragments of \<^verbatim>\<open>wire.rs\<close>, the adapter of a caller's tools of \<^verbatim>\<open>openai_tools.rs\<close>, and the
  choice of the action protocol of \<^verbatim>\<open>protocol.rs\<close>. The JSON parser is the parameter
  \<open>from_str\<close>; a \<^verbatim>\<open>Vec<u8>\<close> is the list of its bytes.
\<close>

section \<open>Server-sent events\<close>

datatype sse_line = SseData json | SseDone | SseOther

definition classify :: "(string \<Rightarrow> string + json) \<Rightarrow> string \<Rightarrow> sse_line" where
  "classify from_str line =
     (case strip_prefix ''data:'' line of
        None \<Rightarrow> SseOther
      | Some rest \<Rightarrow>
          (let payload = trim rest
           in if payload = ''[DONE]'' then SseDone
              else case from_str payload of Inl _ \<Rightarrow> SseOther | Inr v \<Rightarrow> SseData v))"

record sse_decoder =
  sd_pending :: string
  sd_scanned :: nat
  sd_done :: bool

definition sse_new :: sse_decoder where
  "sse_new = \<lparr>sd_pending = [], sd_scanned = 0, sd_done = False\<rparr>"

text \<open>One pass over the complete lines of the buffer: \<open>consumed\<close> is where the current line starts and
  \<open>search_from\<close> where the search for its end goes on. The answer has the lines, the bytes consumed
  and whether the terminator was met, behind which nothing is decoded.\<close>

function sse_lines ::
  "(string \<Rightarrow> string + json) \<Rightarrow> string \<Rightarrow> nat \<Rightarrow> nat \<Rightarrow> utf8_error + (sse_line list \<times> nat \<times> bool)" where
  "sse_lines from_str buf consumed search_from =
     (case position (\<lambda>b. b = CHR 0x0A) (drop search_from buf) of
        None \<Rightarrow> Inr ([], consumed, False)
      | Some offset \<Rightarrow>
          (let end_at = search_from + offset; text = drop consumed (take end_at buf)
           in case from_utf8 text of
                Some e \<Rightarrow> Inl e
              | None \<Rightarrow>
                  (let line = classify from_str text
                   in if line = SseDone then Inr ([line], end_at + 1, True)
                      else and_then (sse_lines from_str buf (end_at + 1) (end_at + 1))
                        (\<lambda>(ls, c, d). Inr (line # ls, c, d)))))"
  by pat_completeness auto
termination
  by (relation "measure (\<lambda>(_, buf, _, k). length buf - k)") (auto dest!: position_Some)

declare sse_lines.simps [simp del]

definition sse_push ::
  "(string \<Rightarrow> string + json) \<Rightarrow> string \<Rightarrow> sse_decoder \<Rightarrow> utf8_error + (sse_line list \<times> sse_decoder)" where
  "sse_push from_str bytes d =
     (if sd_done d then Inr ([], d)
      else let buf = sd_pending d @ bytes
           in and_then (sse_lines from_str buf 0 (sd_scanned d)) (\<lambda>(ls, consumed, stop).
                Inr (ls, if stop then \<lparr>sd_pending = [], sd_scanned = 0, sd_done = True\<rparr>
                         else let rest = drop consumed buf
                              in d\<lparr>sd_pending := rest, sd_scanned := length rest\<rparr>)))"

definition sse_finish :: "sse_decoder \<Rightarrow> utf8_error check" where
  "sse_finish d = (case from_utf8 (sd_pending d) of Some e \<Rightarrow> Inl e | None \<Rightarrow> ok)"

section \<open>Request fragments\<close>

definition response_format :: "string \<Rightarrow> json \<Rightarrow> json" where
  "response_format name schema = JObj [(''type'', JStr ''json_schema''),
     (''json_schema'', JObj [(''name'', JStr name), (''schema'', schema), (''strict'', JBool True)])]"

definition openai_tool :: "tool_descriptor \<Rightarrow> json" where
  "openai_tool t = JObj [(''type'', JStr ''function''),
     (''function'', JObj [(''name'', JStr (td_name t)), (''description'', JStr (td_description t)),
        (''parameters'', td_input_schema t)])]"

definition openai_tool_call :: "string \<Rightarrow> string \<Rightarrow> string \<Rightarrow> json" where
  "openai_tool_call i name arguments = JObj [(''id'', JStr i), (''type'', JStr ''function''),
     (''function'', JObj [(''name'', JStr name), (''arguments'', JStr arguments)])]"

section \<open>Tools of a caller\<close>

definition RESERVED_CONTROL_NAMES :: "string list" where
  "RESERVED_CONTROL_NAMES = [TASK_COMPLETE, REQUEST_USER_INPUT, SUBMIT_PLAN]"

datatype openai_tools_error =
    NotAnArray
  | NotAFunction nat string
  | MissingName nat
  | DuplicateName nat string
  | ReservedName nat string
  | ParametersNotObject nat string

definition str_or_empty :: "json option \<Rightarrow> string" where
  "str_or_empty v = (case Option.bind v json_as_str of Some s \<Rightarrow> s | None \<Rightarrow> [])"

definition no_parameters :: json where
  "no_parameters = JObj [(''type'', JStr ''object''), (''properties'', JObj [])]"

definition parameters_of :: "nat \<Rightarrow> string \<Rightarrow> json \<Rightarrow> openai_tools_error + json" where
  "parameters_of index name function =
     (case json_get function ''parameters'' of
        None \<Rightarrow> Inr no_parameters
      | Some JNull \<Rightarrow> Inr no_parameters
      | Some (JObj m) \<Rightarrow> Inr (JObj m)
      | Some _ \<Rightarrow> Inl (ParametersNotObject index name))"

definition adapt_tool :: "nat \<Rightarrow> string list \<Rightarrow> json \<Rightarrow> openai_tools_error + tool_descriptor" where
  "adapt_tool index seen entry =
     (let kind = str_or_empty (json_get entry ''type'');
          function = (case json_get entry ''function'' of Some f \<Rightarrow> f | None \<Rightarrow> JNull);
          name = str_or_empty (json_get function ''name'')
      in and_then (checks [
           require (kind = ''function'') (NotAFunction index kind),
           require (name \<noteq> []) (MissingName index),
           require (name \<notin> set RESERVED_CONTROL_NAMES) (ReservedName index name),
           require (name \<notin> set seen) (DuplicateName index name)]) (\<lambda>_.
         and_then (parameters_of index name function) (\<lambda>schema.
           Inr \<lparr>td_name = name, td_description = str_or_empty (json_get function ''description''),
                td_input_schema = schema\<rparr>)))"

fun adapt_tools :: "nat \<Rightarrow> string list \<Rightarrow> json list \<Rightarrow> openai_tools_error + tool_descriptor list" where
  "adapt_tools index seen [] = Inr []"
| "adapt_tools index seen (entry # entries) =
     and_then (adapt_tool index seen entry) (\<lambda>d.
       and_then (adapt_tools (index + 1) (seen @ [td_name d]) entries) (\<lambda>ds. Inr (d # ds)))"

definition descriptors_from_openai_tools :: "json \<Rightarrow> openai_tools_error + tool_descriptor list" where
  "descriptors_from_openai_tools tools =
     (case json_as_array tools of None \<Rightarrow> Inl NotAnArray | Some entries \<Rightarrow> adapt_tools 0 [] entries)"

section \<open>The action protocol\<close>

record capabilities =
  supports_native_tool_calls :: bool
  supports_constraint :: bool
  supports_media :: bool

definition select_protocol :: "capabilities \<Rightarrow> action_protocol option \<Rightarrow> action_protocol" where
  "select_protocol caps override_protocol =
     (case override_protocol of
        Some p \<Rightarrow> p
      | None \<Rightarrow>
          if supports_constraint caps then ConstrainedJson
          else if supports_native_tool_calls caps then NativeTools
          else TextXml)"

section \<open>The decoder reads lines however they arrive\<close>

text \<open>The same pass as a recursion over the text that is left.\<close>

function lines_left :: "(string \<Rightarrow> string + json) \<Rightarrow> string \<Rightarrow> utf8_error + (sse_line list \<times> string \<times> bool)" where
  "lines_left from_str s =
     (case position (\<lambda>b. b = CHR 0x0A) s of
        None \<Rightarrow> Inr ([], s, False)
      | Some k \<Rightarrow>
          (case from_utf8 (take k s) of
             Some e \<Rightarrow> Inl e
           | None \<Rightarrow>
               if classify from_str (take k s) = SseDone then Inr ([SseDone], [], True)
               else and_then (lines_left from_str (drop (k + 1) s))
                 (\<lambda>(ls, rest, stop). Inr (classify from_str (take k s) # ls, rest, stop))))"
  by pat_completeness auto
termination
  by (relation "measure (length \<circ> snd)") (auto dest!: position_Some)

declare lines_left.simps [simp del]

lemma position_append:
  "position p (a @ b) = (case position p a of Some k \<Rightarrow> Some k | None \<Rightarrow> map_option ((+) (length a)) (position p b))"
  by (cases "position p b"; induction a) (auto split: option.splits)

lemma sse_lines_left:
  assumes "c \<le> k" "k \<le> length buf" "CHR 0x0A \<notin> set (drop c (take k buf))"
  shows "(case sse_lines from_str buf c k of
       Inl e \<Rightarrow> lines_left from_str (drop c buf) = Inl e
     | Inr (ls, c', stop) \<Rightarrow> lines_left from_str (drop c buf) = Inr (ls, if stop then [] else drop c' buf, stop))"
  using assms
proof (induction from_str buf c k rule: sse_lines.induct)
  case (1 from_str buf c k)
  let ?nl = "\<lambda>b. b = CHR 0x0A"
  have split: "drop c buf = drop c (take k buf) @ drop k buf"
    using "1.prems"(1,2) by (metis append_take_drop_id drop_append diff_is_0_eq drop0 length_take min.absorb2)
  have quiet: "position ?nl (drop c (take k buf)) = None" using "1.prems"(3) by (auto simp: position_None)
  have pos: "position ?nl (drop c buf) = map_option ((+) (k - c)) (position ?nl (drop k buf))"
    using "1.prems"(1,2) quiet by (simp add: split position_append del: drop_append)
  show ?case
  proof (cases "position ?nl (drop k buf)")
    case None
    then show ?thesis by (subst sse_lines.simps, subst lines_left.simps) (simp add: pos)
  next
    case (Some off)
    let ?e = "k + off" and ?text = "drop c (take (k + off) buf)"
    have line: "take (k - c + off) (drop c buf) = ?text" using "1.prems"(1) by (simp add: drop_take)
    have e: "?e < length buf" using position_Some[OF Some] by auto
    have rest: "drop (k - c + off + 1) (drop c buf) = drop (?e + 1) buf" using "1.prems"(1) by simp
    have IH: "from_utf8 ?text = None \<Longrightarrow> classify from_str ?text \<noteq> SseDone \<Longrightarrow>
       (case sse_lines from_str buf (?e + 1) (?e + 1) of
         Inl e \<Rightarrow> lines_left from_str (drop (?e + 1) buf) = Inl e
       | Inr (ls, c', stop) \<Rightarrow> lines_left from_str (drop (?e + 1) buf) = Inr (ls, if stop then [] else drop c' buf, stop))"
      using 1(1)[OF Some refl refl _ refl] e by simp
    have pos': "position ?nl (drop c buf) = Some (k - c + off)" by (simp add: pos Some)
    show ?thesis
    proof (cases "from_utf8 ?text = None \<and> classify from_str ?text \<noteq> SseDone")
      case True
      have "sse_lines from_str buf c k = and_then (sse_lines from_str buf (?e + 1) (?e + 1))
          (\<lambda>(ls, c, d). Inr (classify from_str ?text # ls, c, d))"
        using True by (subst sse_lines.simps) (simp add: Some Let_def)
      moreover have "lines_left from_str (drop c buf) = and_then (lines_left from_str (drop (?e + 1) buf))
          (\<lambda>(ls, rest, stop). Inr (classify from_str ?text # ls, rest, stop))"
        using True by (subst lines_left.simps) (simp only: pos' line rest option.case if_False simp_thms)
      ultimately show ?thesis using IH True by (cases "sse_lines from_str buf (?e + 1) (?e + 1)") auto
    next
      case False
      then have "sse_lines from_str buf c k =
          (case from_utf8 ?text of Some e \<Rightarrow> Inl e | None \<Rightarrow> Inr ([SseDone], ?e + 1, True))"
        by (subst sse_lines.simps) (auto simp: Some Let_def split: option.splits)
      moreover have "lines_left from_str (drop c buf) =
          (case from_utf8 ?text of Some e \<Rightarrow> Inl e | None \<Rightarrow> Inr ([SseDone], [], True))"
        using False by (subst lines_left.simps) (auto simp only: pos' line rest option.case split: option.splits if_splits)
      ultimately show ?thesis by (cases "from_utf8 ?text") simp_all
    qed
  qed
qed

definition sse_ready :: "sse_decoder \<Rightarrow> bool" where
  "sse_ready d \<longleftrightarrow> sd_done d \<or> (sd_scanned d = length (sd_pending d) \<and> CHR 0x0A \<notin> set (sd_pending d))"

definition sse_after :: "sse_decoder \<Rightarrow> string \<Rightarrow> bool \<Rightarrow> sse_decoder" where
  "sse_after d rest stop =
     (if stop then \<lparr>sd_pending = [], sd_scanned = 0, sd_done = True\<rparr>
      else d\<lparr>sd_pending := rest, sd_scanned := length rest\<rparr>)"

lemma sse_after_simps [simp]:
  "sse_after (sse_after d rest False) rest' stop = sse_after d rest' stop"
  "sd_done (sse_after d rest stop) \<longleftrightarrow> stop \<or> sd_done d" "sd_pending (sse_after d rest False) = rest"
  by (cases d; simp add: sse_after_def)+

lemma sse_push_left:
  assumes "sse_ready d"
  shows "sse_push from_str bytes d =
    (if sd_done d then Inr ([], d)
     else and_then (lines_left from_str (sd_pending d @ bytes)) (\<lambda>(ls, rest, stop). Inr (ls, sse_after d rest stop)))"
proof (cases "sd_done d")
  case False
  then have "case sse_lines from_str (sd_pending d @ bytes) 0 (sd_scanned d) of
      Inl e \<Rightarrow> lines_left from_str (sd_pending d @ bytes) = Inl e
    | Inr (ls, c', stop) \<Rightarrow> lines_left from_str (sd_pending d @ bytes)
        = Inr (ls, if stop then [] else drop c' (sd_pending d @ bytes), stop)"
    using sse_lines_left[of 0 "sd_scanned d" "sd_pending d @ bytes" from_str] assms
    by (auto simp: sse_ready_def split: sum.splits prod.splits)
  then show ?thesis using False
    by (auto simp: sse_push_def sse_after_def Let_def split: sum.splits prod.splits)
qed (simp add: sse_push_def)

lemma lines_left_append:
  "lines_left from_str (a @ b) =
     and_then (lines_left from_str a) (\<lambda>(ls, rest, stop).
       if stop then Inr (ls, rest, True)
       else and_then (lines_left from_str (rest @ b)) (\<lambda>(ls', rest', stop'). Inr (ls @ ls', rest', stop')))"
proof (induction from_str a rule: lines_left.induct)
  case (1 from_str a)
  show ?case
  proof (cases "position (\<lambda>b. b = CHR 0x0A) a")
    case None
    then show ?thesis by (subst (2) lines_left.simps) (cases "lines_left from_str (a @ b)"; auto)
  next
    case (Some k)
    then have k: "k < length a" "position (\<lambda>b. b = CHR 0x0A) (a @ b) = Some k"
      using position_Some[OF Some] by (simp_all add: position_append)
    let ?l = "take k a"
    have take: "take k (a @ b) = ?l" "drop (k + 1) (a @ b) = drop (k + 1) a @ b" using k by simp_all
    show ?thesis
    proof (cases "from_utf8 ?l = None \<and> classify from_str ?l \<noteq> SseDone")
      case True
      then have IH: "lines_left from_str (drop (k + 1) a @ b) = and_then (lines_left from_str (drop (k + 1) a))
          (\<lambda>(ls, rest, stop). if stop then Inr (ls, rest, True)
             else and_then (lines_left from_str (rest @ b)) (\<lambda>(ls', rest', stop'). Inr (ls @ ls', rest', stop')))"
        using 1[OF Some] by simp
      have step: "lines_left from_str a = and_then (lines_left from_str (drop (k + 1) a))
          (\<lambda>(ls, rest, stop). Inr (classify from_str ?l # ls, rest, stop))"
        using True by (subst lines_left.simps) (simp add: Some)
      have "lines_left from_str (a @ b) = and_then (lines_left from_str (drop (k + 1) a @ b))
          (\<lambda>(ls, rest, stop). Inr (classify from_str ?l # ls, rest, stop))"
        using True by (subst lines_left.simps) (simp only: k(2) take option.case if_False simp_thms)
      then show ?thesis unfolding step IH
        by (simp only: and_then_def) (simp split: sum.splits prod.splits)
    next
      case False
      then show ?thesis
        by (subst lines_left.simps, subst (2) lines_left.simps) (auto simp: Some k(2) take simp del: take_append drop_append split: option.splits)
    qed
  qed
qed

lemma lines_left_none: "CHR 0x0A \<notin> set s \<Longrightarrow> lines_left from_str s = Inr ([], s, False)"
proof -
  assume "CHR 0x0A \<notin> set s"
  then have "position (\<lambda>b. b = CHR 0x0A) s = None" by (auto simp: position_None)
  then show ?thesis by (subst lines_left.simps) simp
qed

lemma lines_left_rest: "lines_left from_str s = Inr (ls, rest, stop) \<Longrightarrow> CHR 0x0A \<notin> set rest"
proof (induction from_str s arbitrary: ls rule: lines_left.induct)
  case (1 from_str s)
  then show ?case
    by (subst (asm) (2) lines_left.simps) (auto simp: position_None result_simps split: option.splits if_splits)
qed

interpretation sse: consumer "sse_push from_str" sse_ready "(@)" "[]"
proof
  fix s :: sse_decoder and a b x s1
  assume ready: "sse_ready s"
  show "sse_push from_str [] s = Inr ([], s)"
    using ready sse_push_left[OF ready, of from_str "[]"] lines_left_none[of "sd_pending s" from_str]
    by (auto simp: sse_ready_def sse_after_def)
  have after: "sse_ready s1" if "sse_push from_str a s = Inr (x, s1)" for a x s1
    using that ready sse_push_left[OF ready, of from_str a] lines_left_rest[of from_str "sd_pending s @ a"]
    by (auto simp: sse_ready_def sse_after_def result_simps split: if_splits prod.splits)
  then show "sse_push from_str a s = Inr (x, s1) \<Longrightarrow> sse_ready s1" .
  show "sse_push from_str (a @ b) s = and_then (sse_push from_str a s)
     (\<lambda>(x, s1). and_then (sse_push from_str b s1) (\<lambda>(y, s2). Inr (x @ y, s2)))"
  proof (cases "sd_done s")
    case False
    note push = sse_push_left[OF ready]
    show ?thesis
    proof (cases "lines_left from_str (sd_pending s @ a)")
      case (Inl e)
      then show ?thesis using False lines_left_append[of from_str "sd_pending s @ a" b] by (simp add: push)
    next
      case (Inr r)
      obtain ls rest stop where r: "r = (ls, rest, stop)" by (cases r)
      let ?s1 = "sse_after s rest stop"
      have first: "sse_push from_str a s = Inr (ls, ?s1)" using False Inr r by (simp add: push)
      have ready1: "sse_ready ?s1" by (rule after[OF first])
      have whole: "sse_push from_str (a @ b) s = and_then (lines_left from_str ((sd_pending s @ a) @ b))
          (\<lambda>(ls, rest, stop). Inr (ls, sse_after s rest stop))" using False by (simp add: push)
      show ?thesis
      proof (cases stop)
        case True
        then have "sse_push from_str b ?s1 = Inr ([], ?s1)" by (simp add: sse_push_def sse_after_def)
        then show ?thesis unfolding whole lines_left_append[of from_str "sd_pending s @ a"] Inr r first
          using True by simp
      next
        case go: False
        have "sse_push from_str b ?s1 = and_then (lines_left from_str (rest @ b))
            (\<lambda>(ls, rest, stop). Inr (ls, sse_after s rest stop))"
          using go False sse_push_left[OF ready1, of from_str b] by simp
        then show ?thesis unfolding whole lines_left_append[of from_str "sd_pending s @ a"] Inr r first
          using go by (cases "lines_left from_str (rest @ b)") auto
      qed
    qed
  qed (simp add: sse_push_def)
qed

end
