(* ===== verification/Replay.thy ===== *)
theory Replay
  imports Trace_Structure Trace_Projector Trace_File Wire_Formats
begin

text \<open>
  Replay, \<^verbatim>\<open>replay.rs\<close>: a recorded trace is read, validated and projected to the state from
  which a run continues. Sessions that ended in success are refused, a checkpoint inside the trace must be
  what the projection derives at its place, and a turn that a crash cut off is retried, committed or
  refused as ambiguous. The checks a resume makes on the replayed state follow.
\<close>

section \<open>Results\<close>

record replayed_state =
  rs_core :: recovery_checkpoint
  rs_protocol :: action_protocol
  rs_harness_policy :: harness_policy
  rs_truncation_limit :: nat
  rs_source_session :: string
  rs_workspace :: path
  rs_pause_reason :: "string option"
  rs_controller_checkpoint :: "controller_checkpoint option"

datatype replay_error =
    TraceFailure trace_error
  | MissingSessionPrompt
  | AlreadyStopped string
  | UnknownEvent nat
  | MixedSessions string string
  | MissingWorkspace
  | UnsupportedCheckpoint nat
  | InvalidStructure structure_error
  | AmbiguousTail nat "string list"
  | ProtocolMismatch action_protocol action_protocol
  | HarnessPolicyMismatch harness_policy harness_policy
  | WorkspaceMismatch path path
  | MissingControllerCheckpoint
  | UnexpectedControllerCheckpoint
  | InvalidControllerCheckpoint structure_error
  | RequiredChecksMismatch "string list" "string list"

definition controller_text :: "controller_error \<Rightarrow> structure_error" where
  "controller_text e = Msg ''{error}'' [ArgCause e]"

definition planner_text :: structure_error where
  "planner_text = Msg ''evidence_planner is unsupported until a planner trace protocol is defined'' []"

definition invalid_structure :: "'a checked \<Rightarrow> replay_error + 'a" where
  "invalid_structure r = (case r of Inl e \<Rightarrow> Inl (InvalidStructure e) | Inr v \<Rightarrow> Inr v)"

section \<open>Checkpoints\<close>

text \<open>Equality of checkpoints in the source: it does not look at the mark of a count that was absent.\<close>

definition unmarked :: "guard_turn \<Rightarrow> guard_turn" where
  "unmarked g = g\<lparr>gt_controller_blocks_was_present := False\<rparr>"

definition checkpoint_eq :: "recovery_checkpoint \<Rightarrow> recovery_checkpoint \<Rightarrow> bool" where
  "checkpoint_eq a b \<longleftrightarrow>
     a\<lparr>rc_guard_history := map unmarked (rc_guard_history a)\<rparr> = b\<lparr>rc_guard_history := map unmarked (rc_guard_history b)\<rparr>"

definition reconcile_turn :: "guard_turn \<Rightarrow> guard_turn \<Rightarrow> guard_turn option" where
  "reconcile_turn stored projected =
     (if gt_turn stored \<noteq> gt_turn projected \<or> gt_calls stored \<noteq> gt_calls projected
         \<or> gt_dispatched stored \<noteq> gt_dispatched projected \<or> gt_errored stored \<noteq> gt_errored projected then None
      else if gt_controller_blocks stored \<noteq> gt_controller_blocks projected then
        (if gt_controller_blocks stored \<noteq> 0 \<or> gt_controller_blocks_was_present stored
            \<or> gt_controller_blocks projected = 0 then None
         else Some (stored\<lparr>gt_controller_blocks := gt_controller_blocks projected,
                           gt_controller_blocks_was_present := True\<rparr>))
      else Some stored)"

fun reconcile_turns :: "guard_turn list \<Rightarrow> guard_turn list \<Rightarrow> guard_turn list option" where
  "reconcile_turns (s # ss) (p # ps) =
     (case reconcile_turn s p of
        None \<Rightarrow> None
      | Some t \<Rightarrow> map_option ((#) t) (reconcile_turns ss ps))"
| "reconcile_turns ss _ = Some ss"

definition reconcile_legacy_checkpoint ::
  "recovery_checkpoint \<Rightarrow> recovery_checkpoint \<Rightarrow> recovery_checkpoint option" where
  "reconcile_legacy_checkpoint recorded derived =
     (if length (rc_guard_history recorded) \<noteq> length (rc_guard_history derived) then None
      else
        let r1 = (if rc_nudged_for_no_action recorded \<and> \<not> rc_nudged_for_no_action derived \<and> rc_truncated_once derived
                  then recorded\<lparr>rc_nudged_for_no_action := False\<rparr> else recorded)
        in case reconcile_turns (rc_guard_history r1) (rc_guard_history derived) of
             None \<Rightarrow> None
           | Some turns \<Rightarrow>
               (let r2 = r1\<lparr>rc_guard_history := turns\<rparr> in if checkpoint_eq r2 derived then Some r2 else None))"

definition validate_checkpoint_version :: "recovery_checkpoint \<Rightarrow> replay_error check" where
  "validate_checkpoint_version cp =
     (if rc_version cp \<noteq> RECOVERY_CHECKPOINT_VERSION then Inl (UnsupportedCheckpoint (rc_version cp))
      else invalid_structure (validate_recovery_checkpoint_shape cp))"

section \<open>Reading the records\<close>

record replay_state =
  rv_source_session :: "string option"
  rv_workspace :: "path option"
  rv_projector :: trace_projector
  rv_pause_reason :: "string option"
  rv_end_reason :: "string option"
  rv_saw_session_prompt :: bool
  rv_saw_state_base :: bool
  rv_saw_modern_turn :: bool
  rv_harness_policy :: "harness_policy option"
  rv_saw_session_paused :: bool
  rv_structure :: trace_structure

definition replay_new :: replay_state where
  "replay_new = \<lparr>rv_source_session = None, rv_workspace = None, rv_projector = projector_new,
     rv_pause_reason = None, rv_end_reason = None, rv_saw_session_prompt = False, rv_saw_state_base = False,
     rv_saw_modern_turn = False, rv_harness_policy = None, rv_saw_session_paused = False,
     rv_structure = structure_new\<rparr>"

definition check_session :: "trace_record \<Rightarrow> replay_state \<Rightarrow> replay_error + replay_state" where
  "check_session r st =
     (case rv_source_session st of
        None \<Rightarrow> Inr (st\<lparr>rv_source_session := Some (tr_session r)\<rparr>)
      | Some expected \<Rightarrow>
          if expected \<noteq> tr_session r then Inl (MixedSessions expected (tr_session r)) else Inr st)"

definition known_event :: "trace_record \<Rightarrow> replay_error + event" where
  "known_event r = (case tr_event r of Known ev \<Rightarrow> Inr ev | Unknown _ \<Rightarrow> Inl (UnknownEvent (tr_seq r)))"

fun checked_version :: "event \<Rightarrow> replay_error check" where
  "checked_version (EvRecoveryCheckpoint cp) = validate_checkpoint_version cp"
| "checked_version _ = ok"

text \<open>A checkpoint after the base is an anchor: it must be the derived state, up to what older writers
  left out.\<close>

fun anchored :: "replay_state \<Rightarrow> event \<Rightarrow> replay_error + event" where
  "anchored st (EvRecoveryCheckpoint cp) =
     (let derived = projector_checkpoint (rv_projector st)
      in if \<not> rv_saw_state_base st \<or> checkpoint_eq cp derived then Inr (EvRecoveryCheckpoint cp)
         else case reconcile_legacy_checkpoint cp derived of
           None \<Rightarrow> Inl (InvalidStructure
             (Msg ''recovery checkpoint differs from the projector-derived state anchor'' []))
         | Some cp' \<Rightarrow> and_then (validate_checkpoint_version cp') (\<lambda>_. Inr (EvRecoveryCheckpoint cp')))"
| "anchored st ev = Inr ev"

fun note_event :: "event \<Rightarrow> replay_state \<Rightarrow> replay_error + replay_state" where
  "note_event (EvSessionStart recorded _) st =
     (if rv_workspace st \<noteq> None then Inl (InvalidStructure (Msg ''more than one SessionStart event'' []))
      else Inr (st\<lparr>rv_workspace := Some (components recorded)\<rparr>))"
| "note_event (EvSessionPrompt _ _ _) st = Inr (st\<lparr>rv_saw_session_prompt := True, rv_saw_state_base := True\<rparr>)"
| "note_event (EvPolicySelected _ _ pol _ _ _ _ _ _) st = Inr (st\<lparr>rv_harness_policy := Some pol\<rparr>)"
| "note_event (EvRecoveryCheckpoint _) st = Inr (st\<lparr>rv_saw_state_base := True\<rparr>)"
| "note_event (EvActionsProposed _ _) st = Inr (st\<lparr>rv_saw_modern_turn := True\<rparr>)"
| "note_event (EvTurnCommitted _ _ _ _ _) st = Inr (st\<lparr>rv_saw_modern_turn := True\<rparr>)"
| "note_event (EvSessionPaused reason) st =
     Inr (st\<lparr>rv_pause_reason := Some reason, rv_saw_session_paused := True\<rparr>)"
| "note_event (EvSessionEnd reason) st =
     (if is_success_reason reason then Inl (AlreadyStopped reason)
      else if stop_parse reason = None
      then Inl (InvalidStructure (Msg ''unknown SessionEnd reason {reason:?}'' [ArgText reason]))
      else Inr (st\<lparr>rv_end_reason := Some reason\<rparr>))"
| "note_event _ st = Inr st"

definition replay_record ::
  "(string \<Rightarrow> string) \<Rightarrow> trace_record \<Rightarrow> replay_state \<Rightarrow> replay_error + replay_state" where
  "replay_record j r st =
     and_then (check_session r st) (\<lambda>st1.
     and_then (known_event r) (\<lambda>ev.
     and_then (checked_version ev) (\<lambda>_.
     and_then (invalid_structure (observe j ev (rv_structure st1))) (\<lambda>sv.
     and_then (anchored st1 ev) (\<lambda>ev'.
     and_then (note_event ev' (st1\<lparr>rv_structure := sv\<rparr>)) (\<lambda>st2.
       Inr (st2\<lparr>rv_projector := projector_step (rv_projector st2) ev'\<rparr>)))))))"

fun replay_records ::
  "(string \<Rightarrow> string) \<Rightarrow> (trace_error + trace_record) list \<Rightarrow> replay_state \<Rightarrow> replay_error + replay_state" where
  "replay_records j [] st = Inr st"
| "replay_records j (item # items) st =
     (case item of
        Inl e \<Rightarrow> Inl (TraceFailure e)
      | Inr r \<Rightarrow> and_then (replay_record j r st) (replay_records j items))"

section \<open>The end of the trace\<close>

definition unresolved_calls :: "pending_turn \<Rightarrow> (string \<times> bool) list" where
  "unresolved_calls t =
     (let result_ids = bs_of_list (map fst (pt_tool_results t))
      in map (\<lambda>c. (tc_id c @ '':'' @ tc_name c, tc_name c \<in> set RESERVED_CONTROL_NAMES))
           (filter (\<lambda>c. \<not> bs_contains result_ids (tc_id c)) (pt_tool_calls t)))"

definition settle_tail :: "pending_turn \<Rightarrow> tool_call list \<Rightarrow> trace_projector \<Rightarrow> replay_error + trace_projector" where
  "settle_tail t proposed p =
     (let unresolved = unresolved_calls t; results = pt_tool_results t
      in if list_ex (\<lambda>(_, control). \<not> control) unresolved
            \<or> (results \<noteq> [] \<and> list_ex (\<lambda>(_, control). control) unresolved)
         then Inl (AmbiguousTail (pt_turn t) (map fst unresolved))
         else if results \<noteq> [] \<and> length (pt_tool_calls t) \<noteq> length proposed
         then Inl (AmbiguousTail (pt_turn t) [''partially dispatched multi-call batch''])
         else if results \<noteq> []
         then Inr (commit_pending_with (as_u32 (length results))
                (as_u32 (length (filter (\<lambda>(_, _, _, is_error). is_error) results))) None p)
         else Inr p)"

definition end_reason_is_legacy_pause :: "string option \<Rightarrow> bool \<Rightarrow> bool" where
  "end_reason_is_legacy_pause reason saw_modern_turn \<longleftrightarrow> reason \<noteq> None \<and> \<not> saw_modern_turn"

definition close_tail :: "replay_state \<Rightarrow> string option \<Rightarrow> replay_error + trace_projector" where
  "close_tail st reason =
     (let p = rv_projector st
      in case tp_pending p of
           Some t \<Rightarrow>
             (case pt_actions_proposed t of
                Some proposed \<Rightarrow> settle_tail t proposed p
              | None \<Rightarrow> Inr (if end_reason_is_legacy_pause reason (rv_saw_modern_turn st) then commit_pending p else p))
         | None \<Rightarrow> Inr (if end_reason_is_legacy_pause reason (rv_saw_modern_turn st) then commit_pending p else p))"

definition projected_controller_checkpoint ::
  "trace_structure \<Rightarrow> trace_projector \<Rightarrow> harness_policy \<Rightarrow> string option \<Rightarrow> bool \<Rightarrow>
   replay_error + (string option \<times> controller_checkpoint option)" where
  "projected_controller_checkpoint sv p pol pause paused =
     (case pol of
        Legacy \<Rightarrow>
          if structure_checkpoint sv \<noteq> None then Inl UnexpectedControllerCheckpoint else Inr (pause, None)
      | Evidence \<Rightarrow>
          and_then (ok_or (structure_checkpoint sv) MissingControllerCheckpoint) (\<lambda>cp.
            case from_checkpoint cp of
              Inl e \<Rightarrow> Inl (InvalidControllerCheckpoint (controller_text e))
            | Inr c \<Rightarrow>
                (let reason = (case pause of None \<Rightarrow> ''process_crash'' | Some r \<Rightarrow> r)
                 in and_then
                      (if paused then
                         (if cp_inherited_pause_reason cp \<noteq> Some reason
                          then Inl (InvalidControllerCheckpoint
                            (Msg ''durable pause reason differs from projected controller state'' []))
                          else Inr cp)
                       else (case checkpoint_for_pause c reason of
                               Inl e \<Rightarrow> Inl (InvalidControllerCheckpoint (controller_text e))
                             | Inr cp' \<Rightarrow> Inr cp'))
                      (\<lambda>final.
                         if cp_mutation_epoch final \<noteq> tp_mutation_epoch p \<or> cp_passed_checks final \<noteq> tp_passed_checks p
                         then Inl (InvalidStructure
                           (Msg ''projected core/controller mutation-check coordinates disagree'' []))
                         else Inr (Some reason, Some final))))
      | EvidencePlanner \<Rightarrow> Inl (InvalidStructure planner_text))"

definition terminal_pause :: "replay_state \<Rightarrow> string option" where
  "terminal_pause st =
     (if rv_pause_reason st \<noteq> None then rv_pause_reason st
      else if rv_end_reason st \<noteq> None then rv_end_reason st
      else tv_awaiting_end (rv_structure st))"

definition completed_unclosed :: "replay_state \<Rightarrow> string option" where
  "completed_unclosed st =
     (if rv_end_reason st = None
      then (case tv_committed_terminal (rv_structure st) of
              Some reason \<Rightarrow> if is_success_reason reason then Some reason else None
            | None \<Rightarrow> None)
      else None)"

definition conclude :: "replay_state \<Rightarrow> replay_error + replayed_state" where
  "conclude st =
     and_then (invalid_structure (finish_structure (rv_structure st))) (\<lambda>_.
     and_then (case completed_unclosed st of Some reason \<Rightarrow> Inl (AlreadyStopped reason) | None \<Rightarrow> ok) (\<lambda>_.
     and_then (close_tail st (terminal_pause st)) (\<lambda>p.
     and_then (require (\<not> (\<not> rv_saw_state_base st \<or> (tp_head_len p = 0 \<and> \<not> rv_saw_session_prompt st)))
       MissingSessionPrompt) (\<lambda>_.
     and_then (ok_or (tp_protocol p) MissingSessionPrompt) (\<lambda>protocol.
     and_then (ok_or (rv_harness_policy st) MissingSessionPrompt) (\<lambda>pol.
     and_then (ok_or (rv_source_session st) MissingSessionPrompt) (\<lambda>session.
     and_then (projected_controller_checkpoint (rv_structure st) p pol (terminal_pause st)
       (rv_saw_session_paused st)) (\<lambda>(reason, cp).
     and_then (ok_or (rv_workspace st) MissingWorkspace) (\<lambda>ws.
       Inr \<lparr>rs_core = projector_checkpoint p, rs_protocol = protocol, rs_harness_policy = pol,
            rs_truncation_limit = tp_truncation_limit p, rs_source_session = session, rs_workspace = ws,
            rs_pause_reason = reason, rs_controller_checkpoint = cp\<rparr>)))))))))"

definition replay_trace ::
  "codec \<Rightarrow> (string \<Rightarrow> string) \<Rightarrow> string \<Rightarrow> replay_error + replayed_state" where
  "replay_trace cd j bytes =
     and_then (replay_records j (read_trace cd ReplayRecovery bytes) replay_new) conclude"

section \<open>Resuming\<close>

definition validate_resume_target ::
  "canonicalizer \<Rightarrow> replayed_state \<Rightarrow> path \<Rightarrow> action_protocol \<Rightarrow> harness_policy option \<Rightarrow> replay_error check" where
  "validate_resume_target canonicalize st ws protocol hp =
     (if rs_protocol st \<noteq> protocol then Inl (ProtocolMismatch (rs_protocol st) protocol)
      else if (case hp of None \<Rightarrow> False | Some p \<Rightarrow> rs_harness_policy st \<noteq> p)
      then Inl (HarnessPolicyMismatch (rs_harness_policy st) (the hp))
      else case canonicalize (rs_workspace st) of
        None \<Rightarrow> Inl (WorkspaceMismatch (rs_workspace st) ws)
      | Some recorded \<Rightarrow>
          (case canonicalize ws of
             None \<Rightarrow> Inl (WorkspaceMismatch (rs_workspace st) ws)
           | Some req \<Rightarrow> if recorded \<noteq> req then Inl (WorkspaceMismatch recorded req) else ok))"

definition resume_evidence ::
  "replayed_state \<Rightarrow> string list \<Rightarrow> controller_checkpoint \<Rightarrow> replay_error + controller_state" where
  "resume_evidence st names cp =
     (case cp_inherited_pause_reason cp of
        None \<Rightarrow> Inl (InvalidControllerCheckpoint (Msg ''resumed evidence checkpoint omits its pause reason'' []))
      | Some reason \<Rightarrow>
          if rs_pause_reason st \<noteq> Some reason
          then Inl (InvalidControllerCheckpoint (Msg ''replayed pause reason differs from controller checkpoint'' []))
          else if cp_required_checks cp \<noteq> names then Inl (RequiredChecksMismatch (cp_required_checks cp) names)
          else case resume_conservatively cp of
            Inl e \<Rightarrow> Inl (InvalidControllerCheckpoint (controller_text e))
          | Inr c \<Rightarrow> Inr c)"

definition resume_controller_state ::
  "replayed_state \<Rightarrow> string list \<Rightarrow> replay_error + controller_state option" where
  "resume_controller_state st names =
     (case rs_harness_policy st of
        Legacy \<Rightarrow>
          (if rs_controller_checkpoint st \<noteq> None then Inl UnexpectedControllerCheckpoint else Inr None)
      | Evidence \<Rightarrow>
          (case rs_controller_checkpoint st of
             None \<Rightarrow> Inl MissingControllerCheckpoint
           | Some cp \<Rightarrow> and_then (resume_evidence st names cp) (\<lambda>c. Inr (Some c)))
      | EvidencePlanner \<Rightarrow> Inl (InvalidStructure planner_text))"

end
