(* ===== verification/Agent_Run.thy ===== *)
theory Agent_Run
  imports Agent_Loop Replay
begin

text \<open>
  A whole run, the function \<^verbatim>\<open>run\<close> of \<^verbatim>\<open>run.rs\<close>: which requests are refused before anything is written, the events that open a
  fresh or a resumed session, how the guards are seeded from the inherited history, the loop, and the
  events that close the session. A refusal keeps its typed cause.
\<close>

section \<open>Arguments and refusals\<close>

record 'w run_args =
  ra_env :: "'w loop_env"
  ra_session :: string
  ra_harness_policy :: "harness_policy option"
  ra_system_prompt :: "string option"
  ra_prompt_lineage :: "(string \<times> string \<times> (string \<times> string) list) option"
  ra_media :: "media_part list"
  ra_resume :: "replayed_state option"
  ra_answer :: "string option"

datatype run_error =
    RunFerric ferric_error
  | RunReplay replay_error
  | RunController controller_error

definition ra_registry :: "'w run_args \<Rightarrow> 'w registry" where
  "ra_registry a = de_registry (le_dispatch (ra_env a))"

definition ra_workspace :: "'w run_args \<Rightarrow> workspace" where
  "ra_workspace a = de_workspace (le_dispatch (ra_env a))"

definition invalid_input :: "string \<Rightarrow> run_error" where
  "invalid_input m = RunFerric (InvalidInput m)"

definition check_answer :: "user_input_request option \<Rightarrow> string option \<Rightarrow> run_error check" where
  "check_answer pending answer =
     (case (pending, answer) of
        (Some _, None) \<Rightarrow>
          Inl (invalid_input ''this continuation is waiting for user input; supply a non-empty answer'')
      | (Some _, Some txt) \<Rightarrow>
          require (trim txt \<noteq> []) (invalid_input ''the clarification answer must not be empty'')
      | (None, Some _) \<Rightarrow>
          Inl (invalid_input ''--answer is only valid for a continuation waiting for user input'')
      | (None, None) \<Rightarrow> ok)"

definition check_arguments :: "'w run_args \<Rightarrow> 'w \<Rightarrow> string option \<Rightarrow> run_error check" where
  "check_arguments a w prompt =
     (if prompt \<noteq> None \<and> ra_answer a \<noteq> None
      then Inl (invalid_input ''a resume cannot supply both a generic prompt and --answer'')
      else case ra_resume a of
        Some st \<Rightarrow>
          (case validate_resume_target (h_canonicalize (de_host (le_dispatch (ra_env a))) w) st
                  (ws_root (ra_workspace a)) (le_protocol (ra_env a)) (ra_harness_policy a) of
             Inl e \<Rightarrow> Inl (RunReplay e)
           | Inr _ \<Rightarrow> check_answer (rc_pending_input (rs_core st)) (ra_answer a))
      | None \<Rightarrow>
          require (ra_answer a = None) (invalid_input ''--answer requires a resumed session''))"

definition effective_harness_policy :: "'w run_args \<Rightarrow> harness_policy" where
  "effective_harness_policy a =
     (case ra_harness_policy a of
        Some p \<Rightarrow> p
      | None \<Rightarrow> (case ra_resume a of Some st \<Rightarrow> rs_harness_policy st | None \<Rightarrow> Legacy))"

definition initial_controller :: "'w run_args \<Rightarrow> run_error + controller_state option" where
  "initial_controller a =
     (let names = rg_required_checks (ra_registry a)
      in case effective_harness_policy a of
           EvidencePlanner \<Rightarrow>
             Inl (invalid_input ''harness policy evidence_planner is not implemented yet'')
         | hp \<Rightarrow>
             (case ra_resume a of
                Some st \<Rightarrow>
                  (case resume_controller_state st names of
                     Inl e \<Rightarrow> Inl (RunReplay e)
                   | Inr c \<Rightarrow> Inr c)
              | None \<Rightarrow>
                  if hp = Legacy then Inr None
                  else (case controller_new Evidence names of
                          Inl e \<Rightarrow> Inl (RunController e)
                        | Inr c \<Rightarrow> Inr (Some c))))"

section \<open>Opening the session\<close>

definition DEFAULT_SYSTEM_PROMPT :: string where
  "DEFAULT_SYSTEM_PROMPT = ''You are Ferric, a coding agent. Use the available tools to act on the workspace. For each tool call, write out your reasoning in the `thought` field before executing the tool. When the task is done, call task_complete with a one-sentence summary. Never describe a tool call in prose - actually call the tool.''"

definition GENERAL_EVIDENCE_GUIDANCE_V2 :: string where
  "GENERAL_EVIDENCE_GUIDANCE_V2 = join [CHR 0x0A] [
     ''[Ferric general evidence guidance v2]'',
     ''Before the first mutation, completely inspect every existing task-scoped workspace file explicitly named by the task and permitted for modification; paginate incomplete reads until coverage is complete.'',
     ''Genuinely absent paths may be created directly without a prior file read.'',
     ''After a failed authorized check, inspect and repair the implementation implicated by its diagnostic in a later turn; do not change unrelated tests or files.'',
     ''Do not rerun the same named check until a material workspace mutation advances the evidence epoch.'']"

definition format_clarification_answer :: "user_input_request \<Rightarrow> string \<Rightarrow> string" where
  "format_clarification_answer r answer = join [CHR 0x0A] [
     ''[goal amendment: clarification answer]'',
     ''Question: '' @ question r,
     ''Context: '' @ ui_context r,
     ''User answer: '' @ trim answer,
     ''Continue the original objective; this answer amends it and does not replace it.'']"

definition registry_tools ::
  "'w registry \<Rightarrow> run_policy \<Rightarrow> action_protocol \<Rightarrow> harness_policy \<Rightarrow> tool_descriptor list" where
  "registry_tools r p protocol hp =
     (let specs = (if hp = Legacy then tools_for_policy r p else tools_for_controlled_policy r p)
      in map descriptor_of_spec (filter (\<lambda>s. protocol = Plan \<longrightarrow> ts_permission s = Read) specs))"

definition record_controller_checkpoint :: "'w loop_env \<Rightarrow> ('w, unit) lm" where
  "record_controller_checkpoint env s =
     (case ls_controller s of
        Some c \<Rightarrow> record_l env (EvControllerCheckpoint (checkpoint c)) s
      | None \<Rightarrow> return_d () s)"

definition amendment :: "'w run_args \<Rightarrow> replayed_state \<Rightarrow> string option \<Rightarrow> string option" where
  "amendment a st prompt =
     (case (rc_pending_input (rs_core st), ra_answer a) of
        (Some request, Some answer) \<Rightarrow> Some (format_clarification_answer request answer)
      | _ \<Rightarrow> prompt)"

definition record_amendment :: "'w run_args \<Rightarrow> string \<Rightarrow> ('w, unit) lm" where
  "record_amendment a user =
     (let env = ra_env a
      in then_d (record_l env (EvResumePrompt user (ra_media a)))
           (then_d (\<lambda>s. record_l env (EvRecoveryCheckpoint (projector_checkpoint (ls_projector s))) s)
              (record_controller_checkpoint env)))"

definition other_error :: "controller_error + 'a \<Rightarrow> ferric_error + 'a" where
  "other_error r = (case r of Inl e \<Rightarrow> Inl (ContractError [] (ControllerCause e)) | Inr v \<Rightarrow> Inr v)"

definition inject_recovery_packet :: "'w loop_env \<Rightarrow> ('w, unit) lm" where
  "inject_recovery_packet env s =
     (case ls_controller s of
        None \<Rightarrow> return_d () s
      | Some c \<Rightarrow>
          (case cp_inherited_pause_reason (checkpoint c) of
             None \<Rightarrow> fail_d (InvalidInput ''resumed evidence controller omits its pause reason'') s
           | Some reason \<Rightarrow>
               bind_d (lift_d (other_error (controller_recovery_packet c reason))) (\<lambda>packet.
               bind_d (lift_d (other_error (render_recovery_packet (h_json_str (de_host (le_dispatch env))) packet))) (\<lambda>m.
                 record_l env (EvRecoveryPacketInjected packet m))) s))"

definition open_resumed :: "'w run_args \<Rightarrow> replayed_state \<Rightarrow> string option \<Rightarrow> ('w, nat) lm" where
  "open_resumed a st prompt =
     (let env = ra_env a;
          clarified = (rc_pending_input (rs_core st) \<noteq> None \<and> ra_answer a \<noteq> None)
      in then_d (record_l env (EvRecoveryCheckpoint ((rs_core st)\<lparr>rc_version := RECOVERY_CHECKPOINT_VERSION\<rparr>)))
         (then_d (record_controller_checkpoint env)
         (then_d (case amendment a st prompt of None \<Rightarrow> return_d () | Some user \<Rightarrow> record_amendment a user)
         (then_d (if clarified then return_d () else inject_recovery_packet env)
            (return_d (rc_next_turn (rs_core st)))))))"

definition session_system :: "'w run_args \<Rightarrow> tool_descriptor list \<Rightarrow> string" where
  "session_system a tools =
     (case ra_system_prompt a of
        Some t \<Rightarrow> t
      | None \<Rightarrow> DEFAULT_SYSTEM_PROMPT @ render_tool_listing (tools @ control_descriptors (le_protocol (ra_env a))))
     @ (if effective_harness_policy a = Evidence
        then [CHR 0x0A, CHR 0x0A] @ GENERAL_EVIDENCE_GUIDANCE_V2 else [])"

definition open_fresh :: "'w run_args \<Rightarrow> tool_descriptor list \<Rightarrow> string option \<Rightarrow> ('w, nat) lm" where
  "open_fresh a tools prompt =
     (case prompt of
        None \<Rightarrow> fail_d (InvalidInput ''run() requires a prompt when not resuming a session'')
      | Some user \<Rightarrow>
          then_d (record_l (ra_env a) (EvSessionPrompt (session_system a tools) user (ra_media a)))
            (then_d (record_controller_checkpoint (ra_env a)) (return_d 0)))"

definition policy_event :: "'w run_args \<Rightarrow> event" where
  "policy_event a =
     (let p = le_policy (ra_env a)
      in EvPolicySelected (rp_tier p) (le_protocol (ra_env a)) (effective_harness_policy a) (max_turns p)
           (max_tools p) (prompt_budget_tokens p) (max_output_tokens p)
           (case ra_resume a of
              None \<Rightarrow> rg_truncation_limit (ra_registry a)
            | Some st \<Rightarrow> rs_truncation_limit st)
           (tier_source_label (rp_tier_source p)))"

definition open_session :: "'w run_args \<Rightarrow> tool_descriptor list \<Rightarrow> string option \<Rightarrow> ('w, nat) lm" where
  "open_session a tools prompt =
     (let env = ra_env a
      in then_d (record_l env (EvSessionStart (display_path (ws_root (ra_workspace a)))
                   (map_option rs_source_session (ra_resume a))))
         (then_d (record_l env (policy_event a))
         (then_d (case ra_prompt_lineage a of
                    None \<Rightarrow> return_d ()
                  | Some (i, v, parts) \<Rightarrow> record_l env (EvPromptComposed i v parts))
            (case ra_resume a of
               Some st \<Rightarrow> open_resumed a st prompt
             | None \<Rightarrow> open_fresh a tools prompt))))"

section \<open>Seeding the guards\<close>

text \<open>A past turn whose completion was blocked: it called \<^verbatim>\<open>task_complete\<close> and has an error
  among its results.\<close>

definition was_blocked :: "guard_turn \<Rightarrow> bool" where
  "was_blocked g \<longleftrightarrow> 0 < gt_dispatched g \<and> 0 < gt_errored g
     \<and> list_ex (\<lambda>c. is_task_complete (tc_name c)) (gt_calls g)"

definition seed_turn :: "'w loop_env \<Rightarrow> guard_turn \<Rightarrow> 'w loop_state \<Rightarrow> 'w loop_state" where
  "seed_turn env g s =
     s\<lparr>ls_repetition := fst (repetition_observe (le_json_text env) (ls_repetition s) (gt_calls g)),
       ls_progress := fst (progress_observe (ls_progress s) (gt_calls g)),
       ls_oscillation := fst (oscillation_observe (le_json_text env) (ls_oscillation s) (gt_calls g)),
       ls_failure := (case failure_observation (gt_dispatched g) (gt_errored g) (gt_controller_blocks g) (was_blocked g) of
                        None \<Rightarrow> ls_failure s
                      | Some ob \<Rightarrow> fst (observe_turn (ls_failure s) ob))\<rparr>"

definition seed_state :: "'w run_args \<Rightarrow> tool_descriptor list \<Rightarrow> nat \<Rightarrow> 'w loop_state \<Rightarrow> 'w loop_state" where
  "seed_state a tools turns s =
     (let controls = control_descriptors (le_protocol (ra_env a));
          s1 = foldl (\<lambda>t g. seed_turn (ra_env a) g t)
                 (s\<lparr>ls_repetition := repetition_init, ls_progress := progress_init, ls_failure := failure_init,
                    ls_oscillation := []\<rparr>)
                 (tp_guard_history (ls_projector s))
      in s1\<lparr>ls_turns := turns, ls_turns_this_run := 0,
            ls_offered_names := map td_name tools @ map td_name controls, ls_native_tools := tools @ controls,
            ls_nudged := tp_nudged (ls_projector s), ls_truncated_once := tp_truncated_once (ls_projector s),
            ls_last_input_tokens := tp_last_input_tokens (ls_projector s)\<rparr>)"

definition blank_state :: "controller_state option \<Rightarrow> 'w \<Rightarrow> 'w loop_state" where
  "blank_state c w =
     \<lparr>ls_controller = c, ls_trace = [], ls_projector = projector_new, ls_world = w, ls_turns = 0,
      ls_turns_this_run = 0, ls_offered_names = [], ls_native_tools = [], ls_repetition = repetition_init,
      ls_progress = progress_init, ls_failure = failure_init, ls_oscillation = [], ls_nudged = False,
      ls_truncated_once = False, ls_last_input_tokens = None\<rparr>"

section \<open>Closing the session\<close>

record loop_outcome =
  lo_final_text :: "string option"
  lo_stop :: stop_reason
  lo_turns :: nat
  lo_needs_input :: "(user_input_request \<times> string) option"

definition pause_controller :: "'w loop_env \<Rightarrow> stop_reason \<Rightarrow> ('w, unit) lm" where
  "pause_controller env stop s =
     (case ls_controller s of
        None \<Rightarrow> return_d () s
      | Some c \<Rightarrow>
          bind_d (lift_d (other_error (checkpoint_for_pause c (stop_as_str stop)))) (\<lambda>cp.
            then_d (record_l env (EvControllerCheckpoint cp))
              (bind_d (lift_d (other_error (from_checkpoint cp))) (\<lambda>c' s.
                 (Inr (), s\<lparr>ls_controller := Some c'\<rparr>)))) s)"

definition close_session :: "'w loop_env \<Rightarrow> stop_reason \<Rightarrow> ('w, unit) lm" where
  "close_session env stop =
     then_d (record_l env (EvSessionEnd (stop_as_str stop)))
       (if is_success stop then return_d ()
        else then_d (\<lambda>s. record_l env (EvRecoveryCheckpoint (projector_checkpoint (ls_projector s))) s)
               (then_d (pause_controller env stop)
                  (record_l env (EvSessionPaused (stop_as_str stop)))))"

text \<open>The note about a failing hook is written if it can be.\<close>

definition fire_on_error :: "'w loop_env \<Rightarrow> stop_reason \<Rightarrow> ('w, unit) lm" where
  "fire_on_error env stop =
     (case (if is_failure stop then hk_on_error (le_hooks env) else None) of
        None \<Rightarrow> return_d ()
      | Some cmd \<Rightarrow>
          bind_d (run_hook_l env cmd) (\<lambda>failure s.
            case failure of
              None \<Rightarrow> (Inr (), s)
            | Some e \<Rightarrow> (Inr (), snd (write_l env (EvNote (''on_error hook failed: '' @ e)) s))))"

definition outcome_of :: "'w run_args \<Rightarrow> stop_reason \<Rightarrow> 'w loop_state \<Rightarrow> loop_outcome" where
  "outcome_of a stop s =
     \<lparr>lo_final_text = (if stop = NeedsInput then None else tp_last_text (ls_projector s)),
      lo_stop = stop, lo_turns = ls_turns s,
      lo_needs_input = (if stop = NeedsInput
        then map_option (\<lambda>r. (r, ra_session a)) (tp_pending_input (ls_projector s)) else None)\<rparr>"

definition run_session :: "'w run_args \<Rightarrow> string option \<Rightarrow> ('w, loop_outcome) lm" where
  "run_session a prompt =
     (let tools = registry_tools (ra_registry a) (le_policy (ra_env a)) (le_protocol (ra_env a))
                    (effective_harness_policy a)
      in bind_d (open_session a tools prompt) (\<lambda>turns.
         bind_d (\<lambda>s. run_loop (ra_env a) (seed_state a tools turns s)) (\<lambda>stop.
         then_d (close_session (ra_env a) stop)
         (then_d (fire_on_error (ra_env a) stop)
            (\<lambda>s. (Inr (outcome_of a stop s), s))))))"

definition run :: "'w run_args \<Rightarrow> 'w \<Rightarrow> string option \<Rightarrow> (run_error + loop_outcome) \<times> 'w loop_state" where
  "run a w prompt =
     (case check_arguments a w prompt of
        Inl e \<Rightarrow> (Inl e, blank_state None w)
      | Inr _ \<Rightarrow>
          (case initial_controller a of
             Inl e \<Rightarrow> (Inl e, blank_state None w)
           | Inr c \<Rightarrow>
               (case run_session a prompt (blank_state c w) of
                  (Inl e, s) \<Rightarrow> (Inl (RunFerric e), s)
                | (Inr out, s) \<Rightarrow> (Inr out, s))))"

end
