(* ===== verification/Run_Inv.thy ===== *)
theory Run_Inv
  imports Agent_Run Dispatch_Inv
begin

text \<open>
  Invariants of the turn loop: the evidence a completion needs survives from the completion gate to the
  stop, the live projector stays the projection of the trace, and the pending turn keeps its identity
  until it is committed. Each is an interpretation of \<open>step_order\<close>.
\<close>

section \<open>Completion\<close>

definition all_fresh :: "'w loop_env \<Rightarrow> 'w loop_state \<Rightarrow> bool" where
  "all_fresh env s \<longleftrightarrow>
     (case ls_controller s of
        Some c \<Rightarrow> \<forall>n \<in> set (required_checks c). bt_get (passed_checks c) n = Some (mutation_epoch c)
      | None \<Rightarrow> \<forall>n \<in> set (rg_required_checks (de_registry (le_dispatch env))).
          bt_get (tp_passed_checks (ls_projector s)) n = Some (tp_mutation_epoch (ls_projector s)))"

lemma all_fresh_iff:
  "all_fresh env s \<longleftrightarrow> length (fst (completion_evidence env s)) = length (snd (completion_evidence env s))"
proof -
  have len: "length xs = length (filter P xs) \<longleftrightarrow> (\<forall>x \<in> set xs. P x)" for P and xs :: "string list"
    using length_filter_less[of _ xs P] by fastforce
  show ?thesis
    by (simp add: len all_fresh_def completion_evidence_def fresh_of_def Let_def split: option.split)
qed

definition same_evidence :: "'w loop_env \<Rightarrow> 'w loop_state \<Rightarrow> 'w loop_state \<Rightarrow> bool" where
  "same_evidence env s s' \<longleftrightarrow> completion_evidence env s' = completion_evidence env s"

interpretation evid: step_order "same_evidence env"
  by unfold_locales (simp_all add: same_evidence_def)

definition bystander :: "Trace_Events.event \<Rightarrow> bool" where
  "bystander ev \<longleftrightarrow> (\<forall>p. tp_passed_checks (projector_step p ev) = tp_passed_checks p
     \<and> tp_mutation_epoch (projector_step p ev) = tp_mutation_epoch p)"

lemma commit_pending_with_evidence [simp]:
  "tp_passed_checks (commit_pending_with d e st p) = tp_passed_checks p"
  "tp_mutation_epoch (commit_pending_with d e st p) = tp_mutation_epoch p"
  by (simp_all add: commit_pending_with_def commit_turn_def Let_def split: option.split)

lemma bystanders [simp]:
  "bystander (EvCompletionGate a b c dec)" "bystander (EvNote m)" "bystander (EvTurnCommitted t d e st sn)"
  by (simp_all add: bystander_def with_pending_def split: option.split)

lemma record_l_run:
  "snd (record_l env ev s) = s \<or>
   snd (record_l env ev s) =
     s\<lparr>ls_trace := ls_trace s @ [ev], ls_projector := projector_step (ls_projector s) ev\<rparr>"
  by (cases "ls_controller s")
     (auto simp: record_l_def in_core_def record_event_def core_of_def put_core_def split: option.split)

lemma record_l_Inr:
  "record_l env ev s = (Inr u, s') \<Longrightarrow>
     s' = s\<lparr>ls_trace := ls_trace s @ [ev], ls_projector := projector_step (ls_projector s) ev\<rparr>"
  by (cases "ls_controller s")
     (auto simp: record_l_def in_core_def record_event_def core_of_def put_core_def split: option.splits)

lemma same_evidenceI:
  assumes "ls_controller s' = ls_controller s" "tp_passed_checks (ls_projector s') = tp_passed_checks (ls_projector s)"
    "tp_mutation_epoch (ls_projector s') = tp_mutation_epoch (ls_projector s)"
  shows "same_evidence env s s'"
  using assms by (cases "ls_controller s") (simp_all add: same_evidence_def completion_evidence_def Let_def)

lemma record_same_evidence: "bystander ev \<Longrightarrow> moves (same_evidence env) (record_l env' ev)"
proof (rule movesI)
  fix s
  assume "bystander ev"
  then show "same_evidence env s (snd (record_l env' ev s))"
    using record_l_run[of env' ev s] by (intro same_evidenceI) (auto simp: bystander_def)
qed

lemma run_hook_same_evidence: "moves (same_evidence env) (run_hook_l env' cmd)"
  by (rule movesI, rule same_evidenceI) (simp_all add: run_hook_l_def split: prod.split sum.split)

lemma post_turn_same_evidence: "moves (same_evidence env) (fire_post_turn env')"
  unfolding fire_post_turn_def
  by (simp add: evid.move_rules run_hook_same_evidence record_same_evidence split: option.split)

lemma commit_same_evidence:
  "moves (same_evidence env) (loop_commit env' turn d e stop snap)"
  "moves (same_evidence env) (commit_and_fire env' turn d e stop snap)"
  "moves (same_evidence env) (commit_success env' turn d e r snap txt)"
proof -
  show 1: "moves (same_evidence env) (loop_commit env' turn d e stop snap)" for stop
    unfolding loop_commit_def by (simp add: evid.move_rules record_same_evidence)
  have 2: "moves (same_evidence env) (\<lambda>s. (Inr () :: ferric_error + unit, s\<lparr>ls_projector := (ls_projector s)\<lparr>tp_last_text := t\<rparr>\<rparr>))" for t
    by (rule movesI, rule same_evidenceI) simp_all
  show "moves (same_evidence env) (commit_and_fire env' turn d e stop snap)"
    unfolding commit_and_fire_def by (simp add: evid.move_rules 1 post_turn_same_evidence)
  show "moves (same_evidence env) (commit_success env' turn d e r snap txt)"
    unfolding commit_success_def by (simp add: evid.move_rules 1 2 post_turn_same_evidence)
qed

text \<open>A turn that reports a completion leaves every required check fresh.\<close>

definition fresh_if_complete :: "'w loop_env \<Rightarrow> turn_outcome \<Rightarrow> 'w loop_state \<Rightarrow> bool" where
  "fresh_if_complete env out s \<longleftrightarrow> (out \<in> {StopWith TaskComplete, StopWith FinalText} \<longrightarrow> all_fresh env s)"

definition completes :: "'w loop_env \<Rightarrow> ('w, turn_outcome) lm \<Rightarrow> bool" where
  "completes env m \<longleftrightarrow> (\<forall>s. on_ok (fresh_if_complete env) (m s))"

lemma completesI: "(\<And>s. on_ok (fresh_if_complete env) (m s)) \<Longrightarrow> completes env m"
  by (simp add: completes_def)

lemma completes_run: "completes env m \<Longrightarrow> on_ok (fresh_if_complete env) (m s)"
  by (simp add: completes_def)

lemma completesD:
  "completes env m \<Longrightarrow> m s = (Inr (StopWith r), s') \<Longrightarrow> r \<in> {TaskComplete, FinalText} \<Longrightarrow> all_fresh env s'"
  using completes_run[of env m s] by (auto simp: on_ok_def fresh_if_complete_def)

lemma completes_okI:
  "(\<And>s r s'. m s = (Inr (StopWith r), s') \<Longrightarrow> r \<in> {TaskComplete, FinalText} \<Longrightarrow> all_fresh env s') \<Longrightarrow> completes env m"
  unfolding completes_def on_ok_def fresh_if_complete_def
  by (metis insertE prod.collapse singletonD insertI1 insertI2)

lemma completes_bind: "(\<And>v. completes env (f v)) \<Longrightarrow> completes env (bind_d m f)"
  by (rule completes_okI) (auto simp: bind_d_Inr dest: completesD)

lemma completes_then: "completes env n \<Longrightarrow> completes env (then_d m n)"
  unfolding then_d_def by (rule completes_bind)

lemma completes_return: "v \<notin> {StopWith TaskComplete, StopWith FinalText} \<Longrightarrow> completes env (return_d v)"
  by (rule completes_okI) (auto simp: return_d_Inr)

lemma completes_fail: "completes env (fail_d e)"
  by (rule completes_okI) (simp add: fail_d_Inr)

lemma completes_commit:
  assumes "stop \<notin> {Some TaskComplete, Some FinalText}"
  shows "completes env (loop_commit env' turn d e stop snap)" "completes env (commit_and_fire env' turn d e stop snap)"
proof -
  have "completes env (loop_commit env' turn d e stop snap)"
    unfolding loop_commit_def using assms
    by (cases stop) (auto intro!: completes_then completes_return)
  moreover have "completes env (commit_and_fire env' turn d e stop snap)"
    unfolding commit_and_fire_def loop_commit_def
    by (rule completes_okI) (use assms in \<open>auto simp: run_simps split: option.splits\<close>)
  ultimately show "completes env (loop_commit env' turn d e stop snap)"
    "completes env (commit_and_fire env' turn d e stop snap)" .
qed

lemma completes_success:
  assumes "r \<notin> {TaskComplete, FinalText}"
  shows "completes env (commit_success env' turn d e r snap txt)"
  unfolding commit_success_def loop_commit_def
  by (rule completes_okI) (use assms in \<open>auto simp: run_simps split: option.splits\<close>)

text \<open>The gate decides exactly whether every required check is fresh.\<close>

lemma completion_gate_run:
  assumes "completion_gate env s = (Inr (passed, required, fresh), s')"
  shows "passed = all_fresh env s'" "same_evidence env s s'"
proof -
  obtain req fr where ev: "completion_evidence env s = (req, fr)" by force
  have "s' = s \<or> (\<exists>u m. record_l env (EvCompletionGate (gate_epoch s) req fr m) s = (Inr u, s'))"
    using assms ev by (auto simp: completion_gate_def Let_def run_simps split: if_splits)
  then show se: "same_evidence env s s'"
    using movesD[OF record_same_evidence[OF bystanders(1)]] evid.R_refl by metis
  have "passed \<longleftrightarrow> length req = length fr"
    using assms ev by (auto simp: completion_gate_def Let_def run_simps split: if_splits)
  then show "passed = all_fresh env s'"
    using se ev by (simp add: all_fresh_iff same_evidence_def)
qed

lemma all_fresh_moves: "moves (same_evidence env) m \<Longrightarrow> m s = (r, s') \<Longrightarrow> all_fresh env s' = all_fresh env s"
  using movesD[of "same_evidence env" m s r s'] by (simp add: all_fresh_iff same_evidence_def)

lemma gate_completes:
  assumes "\<And>required fresh. completes env (f False required fresh)"
    and "\<And>required fresh. moves (same_evidence env) (f True required fresh)"
  shows "completes env (bind_d (completion_gate env) (\<lambda>(passed, required, fresh). f passed required fresh))"
proof (rule completes_okI)
  fix s r s'
  assume run: "bind_d (completion_gate env) (\<lambda>(passed, required, fresh). f passed required fresh) s = (Inr (StopWith r), s')"
    and r: "r \<in> {TaskComplete, FinalText}"
  from run obtain passed required fresh t where t: "completion_gate env s = (Inr (passed, required, fresh), t)"
    "f passed required fresh t = (Inr (StopWith r), s')"
    by (auto simp: bind_d_Inr)
  show "all_fresh env s'"
  proof (cases passed)
    case True
    then show ?thesis
      using t(2) completion_gate_run(1)[OF t(1)] all_fresh_moves[OF assms(2)[of required fresh]] by simp
  next
    case False
    then show ?thesis using completesD[OF assms(1)[of required fresh]] t(2) r by simp
  qed
qed

lemmas complete_rules = completes_bind completes_then completes_return completes_fail completes_commit completes_success

lemma completes_close: "completes env (close_turn env' turn snap t b)"
  unfolding close_turn_def by (auto intro!: complete_rules split: option.split)

lemma completes_finish: "completes env (finish_calls env turn snap t)"
proof -
  have blocked: "completes env (blocked_completion env turn snap t' call required fresh)" for t' call required fresh
    by (rule completesI) (simp add: blocked_completion_def completes_run completes_then completes_close)
  show ?thesis unfolding finish_calls_def
    by (cases "tt_complete t")
       (auto simp: completes_close intro!: gate_completes[where f = "\<lambda>passed required fresh.
          if passed then _ else _ required fresh"] commit_same_evidence blocked)
qed

lemma completes_no_action: "completes env (no_action env turn snap co err)"
proof -
  have "completes env (bind_d (completion_gate env) (\<lambda>(passed, r, f).
      commit_and_fire env turn 0 0 (if passed then Some FinalText else None) snap))"
    by (rule gate_completes) (simp_all add: commit_same_evidence completes_commit)
  moreover have "completes env (\<lambda>s. loop_commit env turn 0 0 (if ls_nudged s then Some EmptyCompletion else None) snap
      (s\<lparr>ls_nudged := True\<rparr>))"
    by (rule completesI) (simp add: completes_run completes_commit)
  ultimately show ?thesis unfolding no_action_def by (simp add: completes_then)
qed

lemma completes_clarification: "completes env (clarification env' turn snap actions)"
proof -
  have "completes env (reject_clarification env' turn snap as m)" for as m
    unfolding reject_clarification_def by (simp add: complete_rules)
  moreover have "completes env (pause_for_input env' turn snap call request)" for call request
    unfolding pause_for_input_def by (simp add: complete_rules)
  ultimately show ?thesis unfolding clarification_def by (auto split: list.split sum.split)
qed

lemma shape_guards_stop:
  assumes "shape_guards env actions s = (Inr (Some r), s')"
  shows "r \<in> {RepetitionGuard, NoProgress, Oscillation}"
  using assms by (auto simp: shape_guards_def run_simps split: if_splits)

lemma completes_act: "completes env (act env turn snap actions)"
proof -
  have "completes env (bind_d (shape_guards env actions) (\<lambda>stop.
      case stop of Some r \<Rightarrow> loop_commit env turn 0 0 (Some r) snap
      | None \<Rightarrow> bind_d (dispatch_calls env turn tally_init actions) (finish_calls env turn snap)))"
  proof (rule completes_okI)
    fix s r s'
    assume "bind_d (shape_guards env actions) (\<lambda>stop.
      case stop of Some r \<Rightarrow> loop_commit env turn 0 0 (Some r) snap
      | None \<Rightarrow> bind_d (dispatch_calls env turn tally_init actions) (finish_calls env turn snap)) s
        = (Inr (StopWith r), s')" and r: "r \<in> {TaskComplete, FinalText}"
    then obtain stop t where stop: "shape_guards env actions s = (Inr stop, t)"
      "(case stop of Some r \<Rightarrow> loop_commit env turn 0 0 (Some r) snap
        | None \<Rightarrow> bind_d (dispatch_calls env turn tally_init actions) (finish_calls env turn snap)) t
          = (Inr (StopWith r), s')"
      by (auto simp: bind_d_Inr)
    show "all_fresh env s'"
    proof (cases stop)
      case None
      with stop(2) r show ?thesis by (auto intro: completesD[OF completes_bind[OF completes_finish]])
    next
      case (Some g)
      with stop r show ?thesis
        using shape_guards_stop[of env actions s g t] by (auto simp: loop_commit_def run_simps)
    qed
  qed
  then show ?thesis unfolding act_def by (simp add: completes_clarification)
qed

lemma completes_step: "completes env (step env)"
proof -
  have trunc: "completes env (\<lambda>s. loop_commit env turn 0 0 (if ls_truncated_once s then Some TruncatedAction else None) snap
      (s\<lparr>ls_truncated_once := True\<rparr>))" for turn snap
    by (rule completesI) (simp add: completes_run completes_commit)
  have decide: "completes env (decide_turn env turn snap co)" for turn snap co
    unfolding decide_turn_def truncated_turn_def
    by (auto intro!: completes_then trunc completes_no_action completes_act split: prod.split)
  have "completes env (\<lambda>s. decide_turn env turn snap co (s\<lparr>ls_last_input_tokens := v\<rparr>))" for turn snap co v
    by (rule completesI) (simp add: completes_run decide)
  then have "completes env (after_completion env turn co)" for turn co
    unfolding after_completion_def by (intro completes_then completes_bind)
  then have "completes env (ask_provider env turn request)" for turn request
    unfolding ask_provider_def by (auto intro!: complete_rules split: sum.split)
  then have "completes env (send_request env turn)" for turn
    by (intro completesI) (simp add: send_request_def Let_def completes_run complete_rules split: sum.split)
  then have "completes env (begin_turn env)"
    by (intro completesI) (simp add: begin_turn_def Let_def completes_run completes_then)
  then show ?thesis
    by (intro completesI)
       (simp add: step_def completes_run complete_rules, simp add: on_ok_def fresh_if_complete_def)
qed

section \<open>The live projector\<close>

text \<open>A stretch of the loop that appended events of one kind, all of them projected.\<close>

definition steps ::
  "(Trace_Events.event \<Rightarrow> bool) \<Rightarrow> 'w loop_state \<Rightarrow> 'w loop_state \<Rightarrow> bool" where
  "steps P s s' \<longleftrightarrow>
     (\<exists>evs. ls_trace s' = ls_trace s @ evs \<and> ls_projector s' = project (ls_projector s) evs
        \<and> (\<forall>ev \<in> set evs. P ev))"

interpretation st: step_order "steps P"
proof
  fix s t u :: "'a loop_state"
  show "steps P s s" by (simp add: steps_def)
  assume "steps P s t" "steps P t u"
  then obtain a b where "ls_trace t = ls_trace s @ a" "ls_projector t = project (ls_projector s) a" "\<forall>ev \<in> set a. P ev"
    "ls_trace u = ls_trace t @ b" "ls_projector u = project (ls_projector t) b" "\<forall>ev \<in> set b. P ev"
    unfolding steps_def by blast
  then show "steps P s u" unfolding steps_def
    by (intro exI[of _ "a @ b"]) (auto simp: project_append)
qed

text \<open>Events that keep the protocol and the pending question, and those that in addition keep the
  pending turn open.\<close>

fun calm_event :: "Trace_Events.event \<Rightarrow> bool" where
  "calm_event (EvPolicySelected _ _ _ _ _ _ _ _ _) = False"
| "calm_event (EvRecoveryCheckpoint _) = False"
| "calm_event (EvResumePrompt _ _) = False"
| "calm_event (EvTurnCommitted _ _ _ stop _) = (stop \<noteq> Some ''needs_input'')"
| "calm_event _ = True"

fun inner_event :: "Trace_Events.event \<Rightarrow> bool" where
  "inner_event (EvTurnStart _) = False"
| "inner_event (EvTurnCommitted _ _ _ _ _) = False"
| "inner_event ev = calm_event ev"

lemma inner_calm: "inner_event ev \<Longrightarrow> calm_event ev"
  by (cases ev) simp_all

lemma steps_mono: "steps P s s' \<Longrightarrow> (\<And>ev. P ev \<Longrightarrow> Q ev) \<Longrightarrow> steps Q s s'"
  unfolding steps_def by blast

lemma inner_steps_calm: "steps inner_event s s' \<Longrightarrow> steps calm_event s s'"
  by (erule steps_mono) (rule inner_calm)

lemma succeeds_mono: "succeeds (steps P) m \<Longrightarrow> (\<And>ev. P ev \<Longrightarrow> Q ev) \<Longrightarrow> succeeds (steps Q) m"
  by (rule succeedsI) (blast dest: succeedsD intro: steps_mono)

lemma commit_keeps_question:
  "stop \<noteq> Some ''needs_input'' \<Longrightarrow> tp_pending_input (commit_pending_with d e stop p) = tp_pending_input p"
  "tp_protocol (commit_pending_with d e stop p) = tp_protocol p"
  by (simp_all add: commit_pending_with_def commit_turn_def commit_input_def Let_def split: option.split)

lemma compact_keeps [simp]:
  "tp_pending_input (compact_history c m p) = tp_pending_input p"
  "tp_protocol (compact_history c m p) = tp_protocol p" "tp_pending (compact_history c m p) = tp_pending p"
  by (simp_all add: compact_history_def Let_def split: option.split list.split)

lemma calm_step:
  "calm_event ev \<Longrightarrow> tp_pending_input (projector_step p ev) = tp_pending_input p
     \<and> tp_protocol (projector_step p ev) = tp_protocol p"
  by (cases ev) (auto simp: Let_def commit_pending_def commit_keeps_question with_turn_def with_pending_def
      split: option.split prod.split)

lemma inner_step:
  "inner_event ev \<Longrightarrow> map_option pt_turn (tp_pending (projector_step p ev)) = map_option pt_turn (tp_pending p)"
  by (cases ev) (auto simp: with_turn_def with_pending_def option.map_comp comp_def Let_def
      intro!: option.map_cong0)

definition ready :: "nat \<Rightarrow> 'w loop_state \<Rightarrow> bool" where
  "ready turn s \<longleftrightarrow> tp_pending_input (ls_projector s) = None \<and> tp_protocol (ls_projector s) \<noteq> None
     \<and> map_option pt_turn (tp_pending (ls_projector s)) = Some turn"

lemma project_calm:
  "\<forall>ev \<in> set evs. calm_event ev \<Longrightarrow>
   tp_pending_input (project p evs) = tp_pending_input p \<and> tp_protocol (project p evs) = tp_protocol p"
  by (induction evs arbitrary: p) (simp_all add: calm_step)

lemma project_inner:
  "\<forall>ev \<in> set evs. inner_event ev \<Longrightarrow>
   map_option pt_turn (tp_pending (project p evs)) = map_option pt_turn (tp_pending p)"
  by (induction evs arbitrary: p) (simp_all add: inner_step)

lemma ready_steps: "ready turn s \<Longrightarrow> steps inner_event s s' \<Longrightarrow> ready turn s'"
  using project_calm project_inner inner_calm unfolding ready_def steps_def by metis

section \<open>What a turn records before its commit\<close>

abbreviation inner :: "('w, 'a) lm \<Rightarrow> bool" where
  "inner \<equiv> succeeds (steps inner_event)"

named_theorems inner_rules \<open>computations that only record inside the open turn\<close>

lemmas [inner_rules] = st.success_rules

lemma record_steps: "P ev \<Longrightarrow> succeeds (steps P) (record_l env ev)"
  by (rule succeedsI) (auto dest!: record_l_Inr simp: steps_def intro!: exI[of _ "[ev]"])

lemma inner_record [inner_rules]: "inner_event ev \<Longrightarrow> inner (record_l env ev)"
  by (rule record_steps)

lemma write_steps: "P ev \<Longrightarrow> (\<And>p. projector_step p ev = p) \<Longrightarrow> succeeds (steps P) (write_l env ev)"
  by (rule succeedsI) (auto simp: write_l_def steps_def split: option.splits intro!: exI[of _ "[ev]"])

lemma inner_write [inner_rules]: "inner (write_l env (EvNote m))" "inner (write_l env (EvMainActionBudget t b))"
  by (rule write_steps; simp)+

lemma inner_core:
  assumes "\<And>d v d'. m d = (Inr v, d') \<Longrightarrow>
    \<exists>evs. ds_trace d' = ds_trace d @ evs \<and> ds_projector d' = project (ds_projector d) evs \<and> (\<forall>ev \<in> set evs. inner_event ev)"
  shows "inner (in_core m)"
proof (rule succeedsI)
  fix s v s'
  assume "in_core m s = (Inr v, s')"
  then obtain d where "m (core_of s) = (Inr v, d)" "s' = put_core d s"
    by (auto simp: in_core_def split: prod.splits)
  then show "steps inner_event s s'"
    using assms[of "core_of s" v d] by (auto simp: steps_def core_of_def put_core_def)
qed

lemma dispatch_event_inner: "dispatch_event turn call ev \<Longrightarrow> inner_event ev"
  by (cases ev) simp_all

lemma inner_tracked:
  assumes "succeeds (tracked (dispatch_event turn call)) m"
  shows "inner (in_core m)"
proof (rule inner_core)
  fix d v d'
  assume "m d = (Inr v, d')"
  then have "tracked (dispatch_event turn call) d d'" using assms by (rule succeedsD[rotated])
  then show "\<exists>evs. ds_trace d' = ds_trace d @ evs \<and> ds_projector d' = project (ds_projector d) evs
      \<and> (\<forall>ev \<in> set evs. inner_event ev)"
    unfolding tracked_def using dispatch_event_inner by blast
qed

lemma inner_answers: "answers turn call m \<Longrightarrow> inner (in_core m)"
proof (rule inner_core)
  fix d v d'
  assume "answers turn call m" "m d = (Inr v, d')"
  then obtain evs where "ds_trace d' = ds_trace d @ evs @ [result_event call v]"
    "ds_projector d' = project (ds_projector d) (evs @ [result_event call v])" "\<forall>ev \<in> set evs. dispatch_event turn call ev"
    using answersD unfolding answered_def by blast
  then show "\<exists>evs. ds_trace d' = ds_trace d @ evs \<and> ds_projector d' = project (ds_projector d) evs
      \<and> (\<forall>ev \<in> set evs. inner_event ev)"
    by (intro exI[of _ "evs @ [result_event call v]"]) (auto simp: result_event_def dest: dispatch_event_inner)
qed

lemma inner_result [inner_rules]: "inner (in_core (record_result de call full e ms))"
  by (rule inner_answers[OF answers_result(1)])

lemma inner_state:
  assumes "\<And>s. ls_trace (f s) = ls_trace s \<and> ls_projector (f s) = ls_projector s" "inner m"
  shows "on_ok (\<lambda>_. steps inner_event s) (m (f s))"
  using succeeds_run[OF assms(2), of "f s"] assms(1)[of s] by (auto simp: on_ok_def steps_def)

lemma inner_hook [inner_rules]: "inner (run_hook_l env cmd)"
  by (rule succeedsI) (auto simp: run_hook_l_def steps_def split: prod.splits sum.splits)

lemma inner_call [inner_rules]: "inner (record_call env call)" "inner (record_synthetic_result env out e call)"
  unfolding record_call_def record_synthetic_result_def by (simp_all add: inner_rules)

lemma inner_guard [inner_rules]: "(\<And>m. inner_event (ev m)) \<Longrightarrow> inner (record_guard env v ev)"
  unfolding record_guard_def by (cases v) (simp_all add: inner_rules)

lemma inner_gate [inner_rules]: "inner (completion_gate env)"
  by (rule succeeds_atI)
     (simp add: completion_gate_def Let_def succeeds_run inner_rules split: prod.split,
      simp add: on_ok_def steps_def)

lemma inner_legacy [inner_rules]: "inner (legacy_dispatch env turn call)"
proof -
  have evidence: "inner (legacy_evidence env turn call mutating is_error)" for mutating is_error
    by (rule succeeds_atI) (simp add: legacy_evidence_def succeeds_run inner_rules split: option.split)
  have checks: "inner (in_core (record_permission_checks de cks))" for de cks
    by (rule inner_tracked[OF permission_checks_moves(3)])
  have "inner (legacy_execute env turn call mutating approved)" for mutating approved
    by (rule succeeds_atI)
       (simp add: legacy_execute_def Let_def inner_state inner_rules evidence checks split: prod.split)
  then show ?thesis unfolding legacy_dispatch_def Let_def by (simp add: inner_rules split: option.split)
qed

lemma inner_dispatch_calls [inner_rules]: "inner (dispatch_calls env turn t calls)"
proof -
  have "inner (dispatch_call env turn call)" for call
    by (rule succeeds_atI)
       (simp add: dispatch_call_def succeeds_run inner_rules inner_answers[OF dispatch_answers] split: option.split)
  then show ?thesis by (induction calls arbitrary: t) (simp_all add: inner_rules)
qed

lemma inner_failures [inner_rules]: "inner (observe_failures env d e b c)"
  by (rule succeeds_atI)
     (simp add: observe_failures_def inner_state inner_rules split: option.split prod.split,
      simp add: on_ok_def steps_def)

lemma inner_shape [inner_rules]: "inner (shape_guards env actions)"
proof -
  have "inner (guard_repetition env actions)" "inner (guard_progress env actions)" "inner (guard_oscillation env actions)"
    by (rule succeeds_atI, simp add: guard_repetition_def guard_progress_def guard_oscillation_def
          inner_state inner_rules split: prod.split)+
  then show ?thesis unfolding shape_guards_def by (simp add: inner_rules)
qed

lemma inner_snapshot [inner_rules]: "inner (take_snapshot env turn)"
  by (rule succeeds_atI)
     (simp add: take_snapshot_def succeeds_run inner_rules split: sum.split, simp add: on_ok_def steps_def)

lemma maybe_compact_event:
  "maybe_compact retry txt answer p pol n = Inr (Some ev) \<Longrightarrow> inner_event ev"
  by (auto simp: maybe_compact_def fold_event_def Let_def split: option.splits if_splits sum.splits)

lemma inner_compact [inner_rules]: "inner (compact_first env turn)"
proof (rule succeedsI)
  fix s v s'
  assume "compact_first env turn s = (Inr v, s')"
  then show "steps inner_event s s'"
    using succeedsD[OF inner_record[OF maybe_compact_event]]
    by (auto simp: compact_first_def run_simps st.R_refl split: sum.splits option.splits)
qed

section \<open>The end of a turn\<close>

text \<open>A turn that continues has recorded calm events only; one that stops without success has recorded
  everything it changed in the projector.\<close>

definition turn_post :: "'w loop_state \<Rightarrow> turn_outcome \<Rightarrow> 'w loop_state \<Rightarrow> bool" where
  "turn_post s out s' \<longleftrightarrow>
     (case out of
        Continue \<Rightarrow> steps calm_event s s'
      | StopWith r \<Rightarrow> is_success r \<or> steps (\<lambda>_. True) s s')"

definition settles :: "('w loop_state \<Rightarrow> bool) \<Rightarrow> ('w, turn_outcome) lm \<Rightarrow> bool" where
  "settles P m \<longleftrightarrow> (\<forall>s. P s \<longrightarrow> on_ok (turn_post s) (m s))"

lemma settlesI: "(\<And>s. P s \<Longrightarrow> on_ok (turn_post s) (m s)) \<Longrightarrow> settles P m"
  by (simp add: settles_def)

lemma settles_run: "ready turn s \<Longrightarrow> settles (ready turn) m \<Longrightarrow> on_ok (turn_post s) (m s)"
  by (simp add: settles_def)

lemma settlesD: "settles P m \<Longrightarrow> P s \<Longrightarrow> m s = (Inr out, s') \<Longrightarrow> turn_post s out s'"
  by (auto simp: settles_def on_ok_def)

lemma settles_okI: "(\<And>s out s'. P s \<Longrightarrow> m s = (Inr out, s') \<Longrightarrow> turn_post s out s') \<Longrightarrow> settles P m"
  unfolding settles_def on_ok_def by (metis prod.collapse)

lemma turn_post_after: "steps calm_event s t \<Longrightarrow> turn_post t out s' \<Longrightarrow> turn_post s out s'"
  unfolding turn_post_def using st.R_trans steps_mono[of calm_event s t "\<lambda>_. True"]
  by (auto split: turn_outcome.splits)

lemma settles_bind:
  assumes "inner m" "\<And>v. settles (ready turn) (f v)"
  shows "settles (ready turn) (bind_d m f)"
proof (rule settles_okI)
  fix s out s'
  assume r: "ready turn s" and "bind_d m f s = (Inr out, s')"
  then obtain v t where t: "m s = (Inr v, t)" "f v t = (Inr out, s')" by (auto simp: bind_d_Inr)
  have st: "steps inner_event s t" using assms(1) t(1) by (rule succeedsD)
  then show "turn_post s out s'"
    using settlesD[OF assms(2) ready_steps[OF r st] t(2)] turn_post_after[OF inner_steps_calm[OF st]] by blast
qed

lemma settles_then: "inner m \<Longrightarrow> settles (ready turn) n \<Longrightarrow> settles (ready turn) (then_d m n)"
  unfolding then_d_def by (rule settles_bind)

lemma stop_as_str_needs_input: "stop_as_str r = ''needs_input'' \<longleftrightarrow> r = NeedsInput"
  by (cases r) simp_all

lemma fire_inner: "inner (fire_post_turn env)"
  unfolding fire_post_turn_def by (simp add: inner_rules split: option.split)

lemma settles_commit:
  assumes "stop \<noteq> Some NeedsInput"
  shows "settles P (loop_commit env turn d e stop snap)" "settles P (commit_and_fire env turn d e stop snap)"
proof -
  let ?ev = "EvTurnCommitted turn (as_u32 d) (as_u32 e) (map_option stop_as_str stop) snap"
  have ev: "calm_event ?ev" using assms by (cases stop) (auto simp: stop_as_str_needs_input)
  have post: "turn_post s (case stop of None \<Rightarrow> Continue | Some r \<Rightarrow> StopWith r) s'" if "steps calm_event s s'"
    for s s' :: "'a loop_state"
    using that steps_mono[OF that, of "\<lambda>_. True"] by (auto simp: turn_post_def split: option.split)
  have fire: "succeeds (steps calm_event) (fire_post_turn env)"
    using fire_inner inner_calm by (rule succeeds_mono)
  show "settles P (loop_commit env turn d e stop snap)"
    by (rule settles_okI)
       (auto simp: loop_commit_def run_simps intro!: post dest: succeedsD[OF record_steps[of calm_event, OF ev]])
  show "settles P (commit_and_fire env turn d e stop snap)"
  proof (rule settles_okI)
    fix s out s'
    assume "commit_and_fire env turn d e stop snap s = (Inr out, s')"
    then obtain t where t: "record_l env ?ev s = (Inr (), t)" "fire_post_turn env t = (Inr (), s')"
      "out = (case stop of None \<Rightarrow> Continue | Some r \<Rightarrow> StopWith r)"
      by (auto simp: commit_and_fire_def loop_commit_def run_simps)
    then show "turn_post s out s'"
      using succeedsD[OF record_steps[of calm_event, OF ev] t(1)] succeedsD[OF fire t(2)] st.R_trans post by metis
  qed
qed

lemma success_reasons [simp]: "is_success TaskComplete" "is_success FinalText" "is_success PlanSubmitted"
  by (simp_all add: is_success_def)

lemma settles_success: "is_success r \<Longrightarrow> settles P (commit_success env turn d e r snap txt)"
  by (rule settles_okI) (auto simp: commit_success_def loop_commit_def run_simps turn_post_def)

lemma settles_return: "v \<noteq> Continue \<Longrightarrow> settles P (return_d v)"
  by (rule settles_okI) (auto simp: return_d_Inr turn_post_def st.R_refl split: turn_outcome.split)

lemma settles_fail: "settles P (fail_d e)"
  by (rule settles_okI) (simp add: fail_d_Inr)

lemmas settle_rules = settles_bind settles_then settles_commit settles_success settles_return settles_fail inner_rules

lemma settles_state:
  assumes "\<And>s. ls_trace (f s) = ls_trace s \<and> ls_projector (f s) = ls_projector s" "settles (ready turn) m" "ready turn s"
  shows "on_ok (turn_post s) (m (f s))"
proof -
  have "ready turn (f s)" using assms(1,3) by (simp add: ready_def)
  then have "on_ok (turn_post (f s)) (m (f s))" using assms(2) by (simp add: settles_def)
  moreover have "turn_post (f s) = turn_post s" using assms(1)
    by (intro ext) (simp add: turn_post_def steps_def split: turn_outcome.split)
  ultimately show ?thesis by simp
qed

lemma settles_close: "settles (ready turn) (close_turn env turn snap t b)"
  unfolding close_turn_def by (simp add: settle_rules split: option.split)

lemma settles_finish: "settles (ready turn) (finish_calls env turn snap t)"
proof -
  have "settles (ready turn) (blocked_completion env turn snap t call required fresh)" for call required fresh
    unfolding blocked_completion_def
    by (rule settlesI) (simp add: settles_run settles_then inner_result settles_close)
  then show ?thesis unfolding finish_calls_def
    by (auto intro!: settle_rules settles_close split: option.split)
qed

lemma settles_no_action: "settles (ready turn) (no_action env turn snap co err)"
proof -
  have "settles (ready turn) (\<lambda>s. loop_commit env turn 0 0 (if ls_nudged s then Some EmptyCompletion else None) snap
      (s\<lparr>ls_nudged := True\<rparr>))"
    by (rule settlesI) (simp add: settles_state settles_commit)
  then show ?thesis unfolding no_action_def
    by (auto intro!: settle_rules split: option.split if_splits)
qed

text \<open>The pause for a question: the live update of the pending question is what the commit of the turn
  derives from the proposed calls.\<close>

definition proposed :: "nat \<Rightarrow> tool_call list \<Rightarrow> 'w loop_state \<Rightarrow> bool" where
  "proposed turn actions s \<longleftrightarrow> ready turn s
     \<and> Option.bind (tp_pending (ls_projector s)) pt_actions_proposed = Some actions"

lemma commit_question:
  assumes "tp_pending_input p = None" "tp_protocol p = Some proto" "tp_pending p = Some t" "pt_turn t = turn"
    "pt_actions_proposed t = Some [call]" "is_request_user_input (tc_name call)" "request_of (tc_args call) = Inr request"
  shows "projector_step (p\<lparr>tp_pending_input := Some request\<rparr>) (EvTurnCommitted turn d e (Some ''needs_input'') snap)
    = projector_step p (EvTurnCommitted turn d e (Some ''needs_input'') snap)"
proof -
  have input: "commit_input (Some ''needs_input'') [call] None = Some request"
    "commit_input (Some ''needs_input'') [call] (Some request) = Some request"
    using assms(6,7) by (simp_all add: commit_input_def)
  show ?thesis using assms(1-5) input
    by (simp add: commit_pending_with_def commit_turn_def Let_def split: option.split)
qed

definition noted :: "Trace_Events.event \<Rightarrow> 'w loop_state \<Rightarrow> 'w loop_state" where
  "noted ev s = s\<lparr>ls_trace := ls_trace s @ [ev], ls_projector := projector_step (ls_projector s) ev\<rparr>"

lemma synthetic_result_run:
  assumes "record_synthetic_result env out e call s = (Inr u, s')"
  shows "s' = noted (EvToolResult (tc_id call) (tc_name call) out e 0) (noted (EvToolCall (tc_id call) (tc_name call) (tc_args call)) s)"
proof -
  have "s' = noted (EvToolResult (tc_id call) (tc_name call) out e 0) s"
    if "in_core (record_result de call out e 0) s = (Inr r, s')" for de r and s s' :: "'a loop_state"
    using that by (cases "ls_controller s")
      (auto simp: noted_def in_core_def record_result_def run_simps record_event_Inr core_of_def put_core_def
        split: prod.splits)
  then show ?thesis using assms record_l_Inr
    by (fastforce simp: record_synthetic_result_def record_call_def run_simps noted_def)
qed

lemma proposed_noted:
  "proposed turn actions s \<Longrightarrow> proposed turn actions (noted (EvToolCall i n a) s)"
  "proposed turn actions s \<Longrightarrow> proposed turn actions (noted (EvToolResult i n txt e ms) s)"
  by (cases "tp_pending (ls_projector s)"; simp add: proposed_def ready_def noted_def with_pending_def)+

lemma settles_pause:
  assumes "is_request_user_input (tc_name call)" "request_of (tc_args call) = Inr request"
  shows "settles (proposed turn [call]) (pause_for_input env turn snap call request)"
proof (rule settles_okI)
  fix s out s'
  assume pre: "proposed turn [call] s" and run: "pause_for_input env turn snap call request s = (Inr out, s')"
  let ?ev = "EvTurnCommitted turn (as_u32 1) (as_u32 0) (Some ''needs_input'') snap"
  obtain t t' where t: "record_synthetic_result env ''user input requested; session paused until an answer is supplied'' False call s
      = (Inr (), t)"
    and r: "record_l env ?ev (t\<lparr>ls_projector := (ls_projector t)\<lparr>tp_pending_input := Some request\<rparr>\<rparr>) = (Inr (), t')"
      "fire_post_turn env t' = (Inr (), s')" and out: "out = StopWith NeedsInput"
    using run by (auto simp: pause_for_input_def commit_and_fire_def loop_commit_def run_simps)
  have st: "steps (\<lambda>_. True) s t"
    using succeedsD[OF inner_call(2) t] by (rule steps_mono) simp
  have "proposed turn [call] t"
    unfolding synthetic_result_run[OF t] using pre by (intro proposed_noted)
  then obtain proto z where "tp_pending_input (ls_projector t) = None" "tp_protocol (ls_projector t) = Some proto"
    "tp_pending (ls_projector t) = Some z" "pt_turn z = turn" "pt_actions_proposed z = Some [call]"
    by (auto simp: proposed_def ready_def bind_eq_Some_conv)
  then have "projector_step ((ls_projector t)\<lparr>tp_pending_input := Some request\<rparr>) ?ev = projector_step (ls_projector t) ?ev"
    by (rule commit_question[OF _ _ _ _ _ assms])
  then have "steps (\<lambda>_. True) t t'"
    using record_l_Inr[OF r(1)] by (auto simp: steps_def intro!: exI[of _ "[?ev]"])
  moreover have "steps (\<lambda>_. True) t' s'"
    using succeedsD[OF fire_inner r(2)] by (rule steps_mono) simp
  ultimately have "steps (\<lambda>_. True) s s'" by (rule st.R_trans[OF st.R_trans[OF st]])
  then show "turn_post s out s'" by (simp add: turn_post_def out)
qed

lemma settles_weaken: "settles (ready turn) m \<Longrightarrow> settles (proposed turn actions) m"
  by (simp add: settles_def proposed_def)

lemma settles_clarification:
  assumes "list_ex (\<lambda>c. is_request_user_input (tc_name c)) actions"
  shows "settles (proposed turn actions) (clarification env turn snap actions)"
proof -
  have rejections: "inner (record_rejections env m calls)" for m calls
    by (induction calls) (simp_all add: inner_rules)
  have guard: "inner (\<lambda>s. case observe_turn (ls_failure s) ob of
      (g, v) \<Rightarrow> record_guard env v EvFailureGuard (s\<lparr>ls_failure := g\<rparr>))" for ob
    by (rule succeeds_atI) (simp add: inner_state inner_rules split: prod.split)
  have reject: "settles (proposed turn actions) (reject_clarification env turn snap as m)" for as m
    unfolding reject_clarification_def
    by (rule settles_weaken) (auto intro!: settle_rules rejections guard split: if_splits)
  show ?thesis
  proof (cases actions rule: remdups_adj.cases)
    case (2 call)
    then show ?thesis using reject assms
      by (cases "request_of (tc_args call)") (auto simp: clarification_def intro: settles_pause)
  qed (use reject in \<open>auto simp: clarification_def\<close>)
qed

lemma settles_act: "settles (proposed turn actions) (act env turn snap actions)"
proof (cases "list_ex (\<lambda>c. is_request_user_input (tc_name c)) actions")
  case True
  then show ?thesis using settles_clarification[OF True] by (simp add: act_def)
next
  case False
  have "settles (ready turn) (bind_d (shape_guards env actions) (\<lambda>stop.
      case stop of Some r \<Rightarrow> loop_commit env turn 0 0 (Some r) snap
      | None \<Rightarrow> bind_d (dispatch_calls env turn tally_init actions) (finish_calls env turn snap)))"
  proof (rule settles_okI)
    fix s out s'
    assume r: "ready turn s" and "bind_d (shape_guards env actions) (\<lambda>stop.
      case stop of Some r \<Rightarrow> loop_commit env turn 0 0 (Some r) snap
      | None \<Rightarrow> bind_d (dispatch_calls env turn tally_init actions) (finish_calls env turn snap)) s = (Inr out, s')"
    then obtain stop t where t: "shape_guards env actions s = (Inr stop, t)"
      "(case stop of Some r \<Rightarrow> loop_commit env turn 0 0 (Some r) snap
        | None \<Rightarrow> bind_d (dispatch_calls env turn tally_init actions) (finish_calls env turn snap)) t = (Inr out, s')"
      by (auto simp: bind_d_Inr)
    have st: "steps inner_event s t" using inner_shape t(1) by (rule succeedsD)
    have "turn_post t out s'"
    proof (cases stop)
      case None
      then show ?thesis
        using t(2) settlesD[OF settles_bind[OF inner_dispatch_calls settles_finish] ready_steps[OF r st]] by simp
    next
      case (Some g)
      then have "g \<noteq> NeedsInput" using shape_guards_stop t(1) by fastforce
      with Some t(2) show ?thesis using settlesD[OF settles_commit(1)[of "Some g" "\<lambda>_. True"]] by simp
    qed
    then show "turn_post s out s'" using turn_post_after[OF inner_steps_calm[OF st]] by blast
  qed
  then show ?thesis using False by (simp add: act_def settles_weaken)
qed

lemma settles_decide: "settles (ready turn) (decide_turn env turn snap co)"
proof -
  have "settles (ready turn) (\<lambda>s. loop_commit env turn 0 0 (if ls_truncated_once s then Some TruncatedAction else None) snap
      (s\<lparr>ls_truncated_once := True\<rparr>))"
    by (rule settlesI) (simp add: settles_state settles_commit)
  then have trunc: "settles (ready turn) (truncated_turn env turn snap)"
    unfolding truncated_turn_def by (simp add: settle_rules)
  have acts: "settles (ready turn) (then_d (record_l env (EvActionsProposed turn actions)) (act env turn snap actions))" for actions
  proof (rule settles_okI)
    fix s out s'
    assume r: "ready turn s"
      and "then_d (record_l env (EvActionsProposed turn actions)) (act env turn snap actions) s = (Inr out, s')"
    then obtain t where t: "record_l env (EvActionsProposed turn actions) s = (Inr (), t)"
      "act env turn snap actions t = (Inr out, s')"
      by (auto simp: run_simps)
    have st: "steps inner_event s t" using succeedsD[OF inner_record t(1)] by simp
    have "proposed turn actions t"
      unfolding proposed_def
    proof
      show "ready turn t" using r st by (rule ready_steps)
      obtain z where "tp_pending (ls_projector s) = Some z" "pt_turn z = turn" using r by (auto simp: ready_def)
      then show "Option.bind (tp_pending (ls_projector t)) pt_actions_proposed = Some actions"
        by (simp add: record_l_Inr[OF t(1)] with_turn_def with_pending_def)
    qed
    then have "turn_post t out s'" using t(2) by (rule settlesD[OF settles_act])
    then show "turn_post s out s'" by (rule turn_post_after[OF inner_steps_calm[OF st]])
  qed
  have none: "settles (ready turn) (then_d (record_l env (EvActionsProposed turn actions)) (no_action env turn snap co err))"
    for actions err
    by (simp add: settles_then settles_no_action inner_record)
  show ?thesis unfolding decide_turn_def by (simp add: trunc acts none split: prod.split)
qed

lemma settles_send: "settles (ready turn) (send_request env turn)"
proof -
  have "settles (ready turn) (\<lambda>s. decide_turn env turn snap co (s\<lparr>ls_last_input_tokens := v\<rparr>))" for snap co v
    by (rule settlesI, rule settles_state[OF _ settles_decide]) simp_all
  then have "settles (ready turn) (after_completion env turn co)" for co
    unfolding after_completion_def by (intro settles_then settles_bind inner_rules) simp
  then have "settles (ready turn) (ask_provider env turn request)" for request
    unfolding ask_provider_def by (auto intro!: settle_rules split: sum.split)
  then show ?thesis
    by (intro settlesI) (simp add: send_request_def Let_def settles_run settle_rules split: sum.split)
qed

text \<open>Between turns no question is pending and the protocol is known.\<close>

definition idle :: "'w loop_state \<Rightarrow> bool" where
  "idle s \<longleftrightarrow> tp_pending_input (ls_projector s) = None \<and> tp_protocol (ls_projector s) \<noteq> None"

lemma idle_steps: "idle s \<Longrightarrow> steps calm_event s s' \<Longrightarrow> idle s'"
  using project_calm unfolding idle_def steps_def by metis

lemma settles_begin: "settles idle (begin_turn env)"
proof (rule settles_okI)
  fix s s' :: "'a loop_state" and out
  let ?s = "s\<lparr>ls_turns := as_u32 (ls_turns s + 1), ls_turns_this_run := ls_turns_this_run s + 1\<rparr>"
  assume idle: "idle s" and run: "begin_turn env s = (Inr out, s')"
  then obtain t where t: "record_l env (EvTurnStart (ls_turns s)) ?s = (Inr (), t)"
    "then_d (compact_first env (ls_turns s)) (send_request env (ls_turns s)) t = (Inr out, s')"
    by (auto simp: begin_turn_def Let_def then_d_Inr[of _ "then_d _ _"])
  have st: "steps calm_event s t"
    using record_l_Inr[OF t(1)] by (auto simp: steps_def intro!: exI[of _ "[EvTurnStart (ls_turns s)]"])
  have "ready (ls_turns s) t"
    using idle_steps[OF idle st] record_l_Inr[OF t(1)] by (simp add: ready_def idle_def Let_def pending_new_def)
  then show "turn_post s out s'"
    using settlesD[OF settles_then[OF inner_compact settles_send] _ t(2)] turn_post_after[OF st] by blast
qed

lemma settles_step: "settles idle (step env)"
proof (rule settles_okI)
  fix s out s'
  assume idle: "idle s" and run: "step env s = (Inr out, s')"
  have pre: "inner (pre_turn_failed env)"
    unfolding pre_turn_failed_def by (simp add: inner_rules split: option.split)
  show "turn_post s out s'"
  proof (cases "le_cancelled env (ls_turns s) \<or> max_turns (le_policy env) \<le> ls_turns_this_run s")
    case True
    then show ?thesis using run by (auto simp: step_def turn_post_def st.R_refl split: if_splits)
  next
    case False
    then obtain failed t where t: "pre_turn_failed env s = (Inr failed, t)"
      "(if failed then return_d (StopWith HookFailed) else begin_turn env) t = (Inr out, s')"
      using run by (auto simp: step_def bind_d_Inr)
    have st: "steps calm_event s t" using succeedsD[OF pre t(1)] by (rule inner_steps_calm)
    have "turn_post t out s'"
      using t(2) settlesD[OF settles_begin idle_steps[OF idle st]] settlesD[OF settles_return[of "StopWith HookFailed" "\<lambda>_. True"]]
      by (cases failed) auto
    then show ?thesis by (rule turn_post_after[OF st])
  qed
qed

lemma run_loop_live:
  assumes "idle s" "run_loop env s = (Inr r, s')" "\<not> is_success r"
  shows "steps (\<lambda>_. True) s s'"
  using assms
proof (induction env s arbitrary: s' rule: run_loop.induct)
  case (1 env s)
  obtain out t where step: "step env s = (Inr out, t)"
    using "1.prems"(2) by (subst (asm) run_loop.simps) (auto split: prod.splits sum.splits)
  note post = settlesD[OF settles_step "1.prems"(1) step]
  show ?case
  proof (cases out)
    case Continue
    then have "steps calm_event s t" using post by (simp add: turn_post_def)
    moreover have "run_loop env t = (Inr r, s')"
      using "1.prems"(2) step Continue by (simp add: run_loop.simps[of env s])
    ultimately show ?thesis
      using "1.IH"[OF step[symmetric] refl Continue idle_steps[OF "1.prems"(1)] _ "1.prems"(3)]
        st.R_trans[OF steps_mono[of calm_event s t "\<lambda>_. True"]] by simp
  next
    case (StopWith q)
    then show ?thesis using post "1.prems"(2,3) step by (simp add: run_loop.simps[of env s] turn_post_def)
  qed
qed

lemma run_loop_completes:
  assumes "run_loop env s = (Inr r, s')" "r \<in> {TaskComplete, FinalText}"
  shows "all_fresh env s'"
  using assms
proof (induction env s arbitrary: s' rule: run_loop.induct)
  case (1 env s)
  obtain out t where step: "step env s = (Inr out, t)"
    using "1.prems"(1) by (subst (asm) run_loop.simps) (auto split: prod.splits sum.splits)
  show ?case
  proof (cases out)
    case Continue
    then show ?thesis using "1.IH"[OF step[symmetric] refl Continue] "1.prems" step
      by (simp add: run_loop.simps[of env s])
  next
    case (StopWith q)
    then show ?thesis using completesD[OF completes_step] "1.prems" step
      by (simp add: run_loop.simps[of env s])
  qed
qed

section \<open>Opening and closing a session\<close>

lemma keeps_run_parts [keeps]:
  "keeps_turns (open_session a tools prompt)" "keeps_turns (close_session env stop)" "keeps_turns (fire_on_error env stop)"
proof -
  have checkpoint: "keeps_turns (record_controller_checkpoint env)" for env :: "'w loop_env"
    by (rule keeps_turnsI) (simp add: record_controller_checkpoint_def keeps_run keeps split: option.split)
  have now: "keeps_turns (\<lambda>s. record_l env (EvRecoveryCheckpoint (projector_checkpoint (ls_projector s))) s)" for env :: "'w loop_env"
    by (rule keeps_turnsI) (simp add: keeps_run keeps)
  have packet: "keeps_turns (inject_recovery_packet env)" for env :: "'w loop_env"
    by (rule keeps_turnsI) (simp add: inject_recovery_packet_def keeps_run keeps split: option.split)
  have amendment: "keeps_turns (record_amendment a user)" for a :: "'w run_args" and user
    unfolding record_amendment_def Let_def by (intro keeps now checkpoint)
  have resumed: "keeps_turns (open_resumed a st prompt)" for a :: "'w run_args" and st prompt
    unfolding open_resumed_def Let_def by (auto intro!: keeps checkpoint amendment packet split: option.split)
  have fresh: "keeps_turns (open_fresh a tools prompt)" for a :: "'w run_args" and tools prompt
    unfolding open_fresh_def by (auto intro!: keeps checkpoint split: option.split)
  show "keeps_turns (open_session a tools prompt)"
    unfolding open_session_def Let_def by (auto intro!: keeps resumed fresh split: option.split)
  have pause: "keeps_turns (pause_controller env stop)" for env :: "'w loop_env" and stop
  proof -
    have "keeps_turns (\<lambda>s :: 'w loop_state. (Inr () :: ferric_error + unit, s\<lparr>ls_controller := c\<rparr>))" for c
      by (simp add: keeps_turns_iff)
    then show ?thesis
      by (intro keeps_turnsI) (simp add: pause_controller_def keeps_run keeps split: option.split)
  qed
  show "keeps_turns (close_session env stop)"
    unfolding close_session_def by (auto intro!: keeps now pause)
  have "keeps_turns (\<lambda>s. case failure of None \<Rightarrow> (Inr () :: ferric_error + unit, s)
      | Some e \<Rightarrow> (Inr (), snd (write_l env (EvNote (''on_error hook failed: '' @ e)) s)))" for failure
    by (rule keeps_turnsI) (simp add: keeps_run keeps split: option.split)
  then show "keeps_turns (fire_on_error env stop)"
    unfolding fire_on_error_def by (auto intro!: keeps split: option.split)
qed

lemma step_bounded:
  assumes "ls_turns_this_run s \<le> max_turns (le_policy env)"
  shows "ls_turns_this_run (snd (step env s)) \<le> max_turns (le_policy env)"
proof (cases "le_cancelled env (ls_turns s) \<or> max_turns (le_policy env) \<le> ls_turns_this_run s")
  case True
  then show ?thesis using assms by (auto simp: step_def)
next
  case False
  obtain r t where t: "pre_turn_failed env s = (r, t)" by force
  have "ls_turns_this_run t = ls_turns_this_run s" using keeps_turnsD[OF keeps_pre t] .
  then show ?thesis using False t begin_turn_counts[of env t]
    by (auto simp: step_def bind_d_def return_d_def split: sum.split)
qed

lemma run_loop_bounded:
  assumes "ls_turns_this_run s \<le> max_turns (le_policy env)"
  shows "ls_turns_this_run (snd (run_loop env s)) \<le> max_turns (le_policy env)"
  using assms
proof (induction env s rule: run_loop.induct)
  case (1 env s)
  obtain out t where step: "step env s = (out, t)" by force
  have t: "ls_turns_this_run t \<le> max_turns (le_policy env)" using step_bounded[OF "1.prems"] step by simp
  show ?case
  proof (cases "out = Inr Continue")
    case True
    then show ?thesis using "1.IH"[OF step[symmetric] True refl t] step by (simp add: run_loop.simps[of env s])
  next
    case False
    then have "snd (run_loop env s) = t"
      using step by (subst run_loop.simps) (auto split: sum.split turn_outcome.split)
    then show ?thesis using t by simp
  qed
qed

lemma seed_frame [simp]:
  "ls_trace (seed_state a tools n s) = ls_trace s" "ls_projector (seed_state a tools n s) = ls_projector s"
  "ls_controller (seed_state a tools n s) = ls_controller s" "ls_turns_this_run (seed_state a tools n s) = 0"
proof -
  have fold: "ls_trace (foldl (\<lambda>t g. seed_turn env g t) s gs) = ls_trace s
      \<and> ls_projector (foldl (\<lambda>t g. seed_turn env g t) s gs) = ls_projector s
      \<and> ls_controller (foldl (\<lambda>t g. seed_turn env g t) s gs) = ls_controller s" for env s gs
    by (induction gs arbitrary: s) (simp_all add: seed_turn_def)
  show "ls_trace (seed_state a tools n s) = ls_trace s" "ls_projector (seed_state a tools n s) = ls_projector s"
    "ls_controller (seed_state a tools n s) = ls_controller s" "ls_turns_this_run (seed_state a tools n s) = 0"
    by (simp_all add: seed_state_def Let_def fold)
qed

section \<open>The live projector of a run\<close>

definition live :: "'w loop_state \<Rightarrow> bool" where
  "live s \<longleftrightarrow> ls_projector s = project projector_new (ls_trace s)"

lemma live_steps: "live s \<Longrightarrow> steps P s s' \<Longrightarrow> live s'"
  by (auto simp: live_def steps_def project_append)

lemma calm_checkpoint: "succeeds (steps calm_event) (record_controller_checkpoint env)"
proof -
  have "calm_event (EvControllerCheckpoint c)" for c by simp
  then show ?thesis
    by (intro succeeds_atI)
       (simp add: record_controller_checkpoint_def succeeds_run st.success_rules record_steps split: option.split)
qed

lemma calm_packet: "succeeds (steps calm_event) (inject_recovery_packet env)"
proof -
  have "calm_event (EvRecoveryPacketInjected p m)" for p m by simp
  then show ?thesis
    by (intro succeeds_atI)
       (simp add: inject_recovery_packet_def succeeds_run st.success_rules record_steps split: option.split)
qed

lemma record_amendment_idle:
  assumes "tp_protocol (ls_projector s) \<noteq> None" "record_amendment a user s = (Inr u, s')"
  shows "idle s'"
proof -
  let ?resume = "EvResumePrompt user (ra_media a)"
  obtain t1 t2 where 1: "record_l (ra_env a) ?resume s = (Inr (), t1)"
    and 2: "record_l (ra_env a) (EvRecoveryCheckpoint (projector_checkpoint (ls_projector t1))) t1 = (Inr (), t2)"
    and 3: "record_controller_checkpoint (ra_env a) t2 = (Inr (), s')"
    using assms(2) by (auto simp: record_amendment_def Let_def run_simps)
  have "idle t2"
    using assms(1) by (simp add: idle_def record_l_Inr[OF 2] record_l_Inr[OF 1] restore_checkpoint_def projector_checkpoint_def)
  then show ?thesis using succeedsD[OF calm_checkpoint 3] by (rule idle_steps)
qed

lemma open_resumed_idle:
  assumes proto: "tp_protocol (ls_projector s) \<noteq> None" and "open_resumed a st prompt s = (Inr n, s')"
    and answer: "check_answer (rc_pending_input (rs_core st)) (ra_answer a) = ok"
  shows "idle s'"
proof -
  let ?base = "EvRecoveryCheckpoint ((rs_core st)\<lparr>rc_version := RECOVERY_CHECKPOINT_VERSION\<rparr>)"
  obtain t1 t2 t3 where 1: "record_l (ra_env a) ?base s = (Inr (), t1)"
    and 2: "record_controller_checkpoint (ra_env a) t1 = (Inr (), t2)"
    and 3: "(case amendment a st prompt of None \<Rightarrow> return_d () | Some user \<Rightarrow> record_amendment a user) t2 = (Inr (), t3)"
    and 4: "(if rc_pending_input (rs_core st) \<noteq> None \<and> ra_answer a \<noteq> None then return_d ()
             else inject_recovery_packet (ra_env a)) t3 = (Inr (), s')"
    using assms(2) by (auto simp: open_resumed_def Let_def run_simps)
  have p1: "tp_protocol (ls_projector t1) \<noteq> None"
    "tp_pending_input (ls_projector t1) = rc_pending_input (rs_core st)"
    using proto by (simp_all add: record_l_Inr[OF 1] restore_checkpoint_def)
  have p2: "tp_protocol (ls_projector t2) \<noteq> None"
    "tp_pending_input (ls_projector t2) = rc_pending_input (rs_core st)"
    using succeedsD[OF calm_checkpoint 2] project_calm p1 by (auto simp: steps_def)
  have "idle t3"
  proof (cases "amendment a st prompt")
    case None
    then have "rc_pending_input (rs_core st) = None"
      using answer by (auto simp: amendment_def check_answer_def split: option.splits)
    with None 3 p2 show ?thesis by (simp add: idle_def return_d_Inr)
  next
    case (Some user)
    with 3 show ?thesis using record_amendment_idle[OF p2(1)] by simp
  qed
  moreover have "steps calm_event t3 s'"
    using 4 succeedsD[OF calm_packet] st.R_refl by (auto simp: return_d_Inr split: if_splits)
  ultimately show ?thesis by (rule idle_steps)
qed

lemma open_session_live: "succeeds (steps (\<lambda>_. True)) (open_session a tools prompt)"
proof -
  have any: "succeeds (steps (\<lambda>_. True)) (record_l env ev)" for env :: "'w loop_env" and ev
    by (rule record_steps) simp
  have calm: "succeeds (steps (\<lambda>_. True)) m" if "succeeds (steps calm_event) m" for m :: "('w, 'b) lm"
    using that by (rule succeeds_mono) simp
  have now: "succeeds (steps (\<lambda>_. True)) (\<lambda>s. record_l env (EvRecoveryCheckpoint (projector_checkpoint (ls_projector s))) s)"
    for env :: "'w loop_env"
    by (rule succeeds_atI) (simp add: succeeds_run any)
  note rules = st.success_rules any calm[OF calm_checkpoint] calm[OF calm_packet] now
  have amend: "succeeds (steps (\<lambda>_. True)) (record_amendment a user)" for a :: "'w run_args" and user
    unfolding record_amendment_def Let_def by (simp add: rules)
  show ?thesis
    unfolding open_session_def open_resumed_def open_fresh_def Let_def
    by (simp add: rules amend split: option.split prod.split)
qed

lemma open_session_idle:
  assumes "open_session a tools prompt s = (Inr n, s')" "tp_pending_input (ls_projector s) = None"
    and "check_arguments a w prompt = ok"
  shows "idle s'"
proof -
  obtain t1 t2 t3 where 1: "record_l (ra_env a) (EvSessionStart (display_path (ws_root (ra_workspace a)))
        (map_option rs_source_session (ra_resume a))) s = (Inr (), t1)"
    and 2: "record_l (ra_env a) (policy_event a) t1 = (Inr (), t2)"
    and 3: "(case ra_prompt_lineage a of None \<Rightarrow> return_d ()
             | Some (i, v, parts) \<Rightarrow> record_l (ra_env a) (EvPromptComposed i v parts)) t2 = (Inr (), t3)"
    and 4: "(case ra_resume a of Some st \<Rightarrow> open_resumed a st prompt | None \<Rightarrow> open_fresh a tools prompt) t3 = (Inr n, s')"
    using assms(1) by (auto simp: open_session_def Let_def run_simps)
  have "idle t2"
    using assms(2) by (simp add: idle_def record_l_Inr[OF 2] record_l_Inr[OF 1] policy_event_def Let_def)
  moreover have "steps calm_event t2 t3"
  proof (cases "ra_prompt_lineage a")
    case None
    with 3 show ?thesis by (simp add: return_d_Inr st.R_refl)
  next
    case (Some l)
    obtain i v parts where l: "l = (i, v, parts)" by (cases l)
    have "record_l (ra_env a) (EvPromptComposed i v parts) t2 = (Inr (), t3)" using 3 Some l by simp
    then show ?thesis by (rule succeedsD[OF record_steps, rotated]) simp
  qed
  ultimately have idle: "idle t3" by (rule idle_steps)
  show ?thesis
  proof (cases "ra_resume a")
    case (Some st)
    then have "check_answer (rc_pending_input (rs_core st)) (ra_answer a) = ok"
      using assms(3) by (auto simp: check_arguments_def split: if_splits sum.splits)
    moreover have "tp_protocol (ls_projector t3) \<noteq> None" using idle by (simp add: idle_def)
    ultimately show ?thesis using Some 4 open_resumed_idle[of t3 a st prompt n s'] by simp
  next
    case None
    then obtain user t4 where "record_l (ra_env a) (EvSessionPrompt (session_system a tools) user (ra_media a)) t3 = (Inr (), t4)"
      "record_controller_checkpoint (ra_env a) t4 = (Inr (), s')"
      using 4 by (cases prompt) (auto simp: open_fresh_def run_simps)
    moreover from this(1) have "steps calm_event t3 t4" by (rule succeedsD[OF record_steps, rotated]) simp
    ultimately show ?thesis by (intro idle_steps[OF idle_steps[OF idle] succeedsD[OF calm_checkpoint]])
  qed
qed


lemma record_live: "record_l env ev s = (Inr u, s') \<Longrightarrow> live s \<Longrightarrow> live s' \<and> ls_trace s' = ls_trace s @ [ev]"
  by (drule record_l_Inr) (simp add: live_def project_append)

lemma pause_controller_trace:
  assumes "pause_controller env stop s = (Inr u, s')" "live s"
  shows "live s' \<and> (\<exists>cps. ls_trace s' = ls_trace s @ map EvControllerCheckpoint cps)"
proof (cases "ls_controller s")
  case None
  then show ?thesis using assms by (auto simp: pause_controller_def run_simps intro: exI[of _ "[]"])
next
  case (Some c)
  then obtain cp t where "record_l env (EvControllerCheckpoint cp) s = (Inr (), t)"
    "ls_trace s' = ls_trace t" "ls_projector s' = ls_projector t"
    using assms(1) by (auto simp: pause_controller_def run_simps)
  then show ?thesis using record_live[of env "EvControllerCheckpoint cp" s] assms(2)
    by (auto simp: live_def intro!: exI[of _ "[cp]"])
qed

text \<open>The note that a failing hook leaves does not move the projector.\<close>

lemma fire_on_error_trace:
  "\<exists>ns. ls_trace (snd (fire_on_error env stop s)) = ls_trace s @ map EvNote ns
     \<and> ls_projector (snd (fire_on_error env stop s)) = ls_projector s"
proof -
  have noted: "\<exists>ns. ls_trace (snd (write_l env (EvNote n) (s\<lparr>ls_world := x\<rparr>))) = ls_trace s @ map EvNote ns" for n x
    by (auto simp: write_l_def split: option.splits intro: exI[of _ "[]"] exI[of _ "[n]"])
  have still: "ls_projector (snd (write_l env ev t)) = ls_projector t" for ev t
    by (auto simp: write_l_def split: option.splits)
  have quiet: "\<exists>ns. ls_trace t = ls_trace s @ map EvNote ns \<and> ls_projector t = ls_projector s"
    if "ls_trace t = ls_trace s" "ls_projector t = ls_projector s" for t :: "'a loop_state"
    using that by (intro exI[of _ "[]"]) simp
  show ?thesis
    unfolding fire_on_error_def
    by (auto simp: run_hook_l_def return_d_def bind_d_def still intro!: quiet noted split: option.splits sum.splits prod.splits)
qed

lemma close_session_pause:
  assumes "close_session env stop s = (Inr u, s')" "\<not> is_success stop" "live s"
  shows "live s' \<and> (\<exists>cps. ls_trace s' = ls_trace s @ EvSessionEnd (stop_as_str stop)
      # EvRecoveryCheckpoint (projector_checkpoint (project projector_new (ls_trace s @ [EvSessionEnd (stop_as_str stop)])))
      # map EvControllerCheckpoint cps @ [EvSessionPaused (stop_as_str stop)])"
proof -
  let ?ended = "EvSessionEnd (stop_as_str stop)"
  obtain t1 t2 t3 where 1: "record_l env ?ended s = (Inr (), t1)"
    and 2: "record_l env (EvRecoveryCheckpoint (projector_checkpoint (ls_projector t1))) t1 = (Inr (), t2)"
    and 3: "pause_controller env stop t2 = (Inr (), t3)"
    and 4: "record_l env (EvSessionPaused (stop_as_str stop)) t3 = (Inr (), s')"
    using assms(1,2) by (auto simp: close_session_def run_simps)
  note l1 = record_live[OF 1 assms(3)] and l2 = record_live[OF 2] and l4 = record_live[OF 4]
  have p: "ls_projector t1 = project projector_new (ls_trace s @ [?ended])"
    using l1 by (simp add: live_def)
  have 5: "live t2" "ls_trace t2 = ls_trace s @ [?ended, EvRecoveryCheckpoint (projector_checkpoint (ls_projector t1))]"
    using l1 l2 by simp_all
  from pause_controller_trace[OF 3 5(1)] show ?thesis
    using l4 5(2) by (auto simp: p)
qed

end
