(* ===== verification/Sample_Run.thy ===== *)
theory Sample_Run
  imports Run_Inv Sample_World "HOL-Library.Code_Target_Nat"
begin

text \<open>
  Complete runs in the sample world: a model that runs the required check and reports completion, and one
  that cannot be reached.
\<close>

definition check_tool :: "files tool" where
  "check_tool =
     \<lparr>t_spec = spec_of ''run_check'' Execute 0, t_capability = CapVerification,
      t_prepare = (\<lambda>_ _ _ args. with_args (arg_string args ''name'') (\<lambda>n. Inr (prep_verification n))),
      t_target_paths = (\<lambda>_. []), t_target_commands = (\<lambda>_. []), t_run = (\<lambda>fs _ _. (Inr ''passed'', fs))\<rparr>"

definition run_registry :: "files registry" where
  "run_registry = set_required_checks [''t''] (register check_tool sample_registry)"

definition answer_of :: "string option \<Rightarrow> tool_call list \<Rightarrow> provider_error + completion" where
  "answer_of txt calls = Inr \<lparr>co_text = txt, co_tool_calls = calls, co_input_tokens = Some 10,
     co_output_tokens = Some 5, co_truncated = False\<rparr>"

definition run_t :: tool_call where
  "run_t = sample_call ''c2'' ''run_check'' [(''name'', JStr ''t'')]"

definition finish :: tool_call where
  "finish = sample_call ''c3'' ''task_complete'' [(''summary'', JStr ''done'')]"

definition diligent :: "nat \<Rightarrow> completion_request \<Rightarrow> nat \<Rightarrow> provider_error + completion" where
  "diligent turn request attempt =
     answer_of None [run_t, finish]"

definition unreachable :: "nat \<Rightarrow> completion_request \<Rightarrow> nat \<Rightarrow> provider_error + completion" where
  "unreachable turn request attempt = Inl \<lparr>pv_retryable = False, pv_text = ''down''\<rparr>"

definition sample_loop_env :: "(nat \<Rightarrow> completion_request \<Rightarrow> nat \<Rightarrow> provider_error + completion) \<Rightarrow> files loop_env" where
  "sample_loop_env model =
     \<lparr>le_dispatch = sample_env\<lparr>de_registry := run_registry\<rparr>, le_policy = small_policy, le_protocol = NativeTools,
      le_sampling = default_sampling,
      le_hooks = \<lparr>hk_pre_turn = None, hk_post_turn = None, hk_on_error = None\<rparr>,
      le_cancelled = (\<lambda>_. False), le_run_hook = (\<lambda>_ fs. (Inr [], fs)), le_answer = model,
      le_summary = (\<lambda>_ _ _. Inr None), le_snapshot = (\<lambda>_ _. Inr ''snap''), le_from_str = (\<lambda>_. Inl ''bad''),
      le_captures = (\<lambda>_. None), le_json_text = (\<lambda>_. []), le_decode_error = (\<lambda>_. [])\<rparr>"

definition sample_args :: "(nat \<Rightarrow> completion_request \<Rightarrow> nat \<Rightarrow> provider_error + completion) \<Rightarrow> files run_args" where
  "sample_args model =
     \<lparr>ra_env = sample_loop_env model, ra_session = ''s1'', ra_harness_policy = None,
      ra_system_prompt = Some ''go'', ra_prompt_lineage = None, ra_media = [], ra_resume = None, ra_answer = None\<rparr>"

lemma sample_loop_sel [simp]:
  "le_dispatch (sample_loop_env model) = sample_env\<lparr>de_registry := run_registry\<rparr>"
  "le_policy (sample_loop_env model) = small_policy" "le_protocol (sample_loop_env model) = NativeTools"
  "le_sampling (sample_loop_env model) = default_sampling"
  "le_hooks (sample_loop_env model) = \<lparr>hk_pre_turn = None, hk_post_turn = None, hk_on_error = None\<rparr>"
  "le_cancelled (sample_loop_env model) = (\<lambda>_. False)" "le_answer (sample_loop_env model) = model"
  "le_snapshot (sample_loop_env model) = (\<lambda>_ _. Inr ''snap'')" "le_json_text (sample_loop_env model) = (\<lambda>_. [])"
  by (simp_all add: sample_loop_env_def)

lemma sample_args_sel [simp]:
  "ra_env (sample_args model) = sample_loop_env model" "ra_session (sample_args model) = ''s1''"
  "ra_harness_policy (sample_args model) = None" "ra_system_prompt (sample_args model) = Some ''go''"
  "ra_prompt_lineage (sample_args model) = None" "ra_media (sample_args model) = []"
  "ra_resume (sample_args model) = None" "ra_answer (sample_args model) = None"
  by (simp_all add: sample_args_def)

lemma run_registry_sel [simp]:
  "rg_required_checks run_registry = [''t'']"
  "bt_get (rg_tools run_registry) ''run_check'' = Some check_tool"
  "rg_truncation_limit run_registry = DEFAULT_TRUNCATION_LIMIT"
  by (simp_all add: run_registry_def set_required_checks_def register_def sample_registry_def registry_new_def
        with_truncation_limit_def check_tool_def spec_of_def)

lemma small_policy_tier: "tier_for_params (Finite 7) = Small"
  by code_simp

lemma small_policy_turns: "max_turns small_policy = 20"
  by (simp add: small_policy_def policy_for_def policy_for_with_override_def tier_decision_def small_policy_tier)


section \<open>Evaluating runs\<close>

lemma sample_sink [simp]: "de_sink sample_env = (\<lambda>_ _. None)"
  by (simp add: sample_env_def)

lemma record_l_ok:
  "de_sink (le_dispatch env) = (\<lambda>_ _. None) \<Longrightarrow>
    record_l env ev s = (Inr (), s\<lparr>ls_trace := ls_trace s @ [ev], ls_projector := projector_step (ls_projector s) ev\<rparr>)"
  by (cases "ls_controller s") (auto simp: record_l_def in_core_def record_event_def core_of_def put_core_def)

lemma write_l_ok:
  "de_sink (le_dispatch env) = (\<lambda>_ _. None) \<Longrightarrow> write_l env ev s = (Inr (), s\<lparr>ls_trace := ls_trace s @ [ev]\<rparr>)"
  by (simp add: write_l_def)

lemma record_event_ok:
  "de_sink env = (\<lambda>_ _. None) \<Longrightarrow>
    record_event env ev s = (Inr (), s\<lparr>ds_trace := ds_trace s @ [ev], ds_projector := projector_step (ds_projector s) ev\<rparr>)"
  by (simp add: record_event_def)

lemma backoff_first: "attempt 0 = Inr v \<Longrightarrow> fst (complete_with_backoff retryable attempt) = Inr v"
  by (simp add: complete_with_backoff_def backoff_loop.simps)

lemma open_fresh_ok:
  assumes "de_sink (le_dispatch (ra_env a)) = (\<lambda>_ _. None)" "ra_resume a = None" "ra_prompt_lineage a = None"
    and "ls_controller s = None"
  shows "open_session a tools (Some p) s =
    (let evs = [EvSessionStart (display_path (ws_root (ra_workspace a))) None, policy_event a,
                EvSessionPrompt (session_system a tools) p (ra_media a)]
     in (Inr 0, s\<lparr>ls_trace := ls_trace s @ evs, ls_projector := project (ls_projector s) evs\<rparr>))"
  using assms by (simp add: open_session_def open_fresh_def record_l_ok then_d_def bind_d_def return_d_def
      record_controller_checkpoint_def Let_def)

lemmas monad_eval = Let_def then_d_def bind_d_def return_d_def record_l_ok write_l_ok record_event_ok

lemmas session_eval = run_def check_arguments_def initial_controller_def run_session_def open_fresh_ok ra_registry_def
  ra_workspace_def effective_harness_policy_def close_session_def pause_controller_def fire_on_error_def
  is_failure_def outcome_of_def require_def blank_state_def

definition interrupted :: "files run_args" where
  "interrupted = (sample_args unreachable)\<lparr>ra_env := (sample_loop_env unreachable)\<lparr>le_cancelled := \<lambda>_. True\<rparr>\<rparr>"

lemma interrupted_run:
  "\<exists>out s'. run interrupted sample_files (Some ''hi'') = (Inr out, s') \<and> lo_stop out = Interrupted"
  by (simp add: interrupted_def monad_eval session_eval run_loop.simps step_def)

definition sample_tools :: "tool_descriptor list" where
  "sample_tools = registry_tools run_registry small_policy NativeTools Legacy"

definition first_events :: "Trace_Events.event list" where
  "first_events = [EvSessionStart (display_path sample_root) None, policy_event (sample_args diligent),
     EvSessionPrompt (session_system (sample_args diligent) sample_tools) ''hi'' []]"

definition at_start :: "files loop_state" where
  "at_start = seed_state (sample_args diligent) sample_tools 0
     ((blank_state None sample_files)\<lparr>ls_trace := first_events, ls_projector := project projector_new first_events\<rparr>)"

lemma at_start_sel:
  "ls_controller at_start = None" "ls_turns at_start = 0" "ls_turns_this_run at_start = 0"
  "ls_last_input_tokens at_start = None" "ls_world at_start = sample_files"
  "tp_passed_checks (ls_projector at_start) = []" "tp_mutation_epoch (ls_projector at_start) = 0"
  "ls_repetition at_start = repetition_init" "ls_progress at_start = progress_init" "ls_oscillation at_start = []"
  "tp_pending (ls_projector at_start) = None"
  by (simp_all add: at_start_def first_events_def seed_state_def Let_def blank_state_def policy_event_def projector_new_def)

lemma just_t: "bt_get [(''t'', n)] ''t'' = Some n"
  by (simp add: bt_get_def)

lemmas request_eval = pre_turn_failed_def begin_turn_def compact_first_def maybe_compact_def send_request_def
  validate_request_def require_def turn_request_def constrained_def ask_provider_def answer_of_def
  after_completion_def take_snapshot_def decide_turn_def actions_of_def

lemmas guard_eval = shape_guards_def guard_repetition_def repetition_observe_def repetition_init_def
  guard_progress_def progress_observe_def progress_init_def guard_oscillation_def oscillation_observe_def
  OSC_STOP_AT_def OSC_WARN_AT_def record_guard_def

lemmas call_eval = act_def record_call_def is_request_user_input_def is_task_complete_def is_submit_plan_def
  TASK_COMPLETE_def SUBMIT_PLAN_def REQUEST_USER_INPUT_def dispatch_call_def legacy_dispatch_def
  permission_of_def legacy_execute_def execute_def guard_def and_then_def sink_gate_def decide_def
  legacy_evidence_def in_core_def core_of_def put_core_def record_result_def output_of_def
  tally_result_def tally_init_def

lemmas finish_eval = finish_calls_def completion_gate_def completion_evidence_def fresh_of_def gate_epoch_def
  commit_success_def loop_commit_def fire_post_turn_def with_pending_def with_turn_def pending_new_def

lemma first_step: "\<exists>s'. step (sample_loop_env diligent) at_start = (Inr (StopWith TaskComplete), s')"
proof -
  let ?co = "\<lparr>co_text = None, co_tool_calls = [run_t, finish], co_input_tokens = Some 10,
    co_output_tokens = Some 5, co_truncated = False\<rparr>"
  show ?thesis
    by (simp add: step_def at_start_sel small_policy_turns monad_eval request_eval backoff_first[where v = "?co"]
          diligent_def run_t_def finish_def check_tool_def spec_of_def guard_eval call_eval finish_eval just_t)
qed

lemma diligent_run:
  "\<exists>out s'. run (sample_args diligent) sample_files (Some ''hi'') = (Inr out, s') \<and> lo_stop out = TaskComplete"
proof -
  obtain s' where "step (sample_loop_env diligent) at_start = (Inr (StopWith TaskComplete), s')"
    using first_step by blast
  then have "run_loop (sample_loop_env diligent) at_start = (Inr TaskComplete, s')"
    by (simp add: run_loop.simps)
  then show ?thesis
    by (simp add: monad_eval session_eval at_start_def first_events_def sample_tools_def sample_workspace_def)
qed

end
