(* ===== verification/Run_Props.thy ===== *)
theory Run_Props
  imports Sample_Run
begin

text \<open>
  The properties of a whole run: it ends within its budget of turns, it reports completion only with
  fresh checks, and the checkpoint it writes when it pauses is the one a reader of the trace derives.
\<close>

section \<open>The parts of a run\<close>

lemma run_cases:
  obtains (refused) e where "run a w prompt = (Inl e, blank_state None w)"
  | (session) c where "check_arguments a w prompt = ok" "initial_controller a = Inr c"
      "snd (run a w prompt) = snd (run_session a prompt (blank_state c w))"
      "\<And>out. fst (run a w prompt) = Inr out \<longleftrightarrow> fst (run_session a prompt (blank_state c w)) = Inr out"
proof (cases "check_arguments a w prompt")
  case (Inr u)
  show ?thesis
  proof (cases "initial_controller a")
    case (Inr c)
    obtain r s where "run_session a prompt (blank_state c w) = (r, s)" by force
    with Inr \<open>check_arguments a w prompt = Inr u\<close> show ?thesis
      by (intro session[of c]) (auto simp: run_def split: sum.splits)
  qed (use refused \<open>check_arguments a w prompt = Inr u\<close> in \<open>simp add: run_def\<close>)
qed (use refused in \<open>simp add: run_def\<close>)

definition run_tools :: "'w run_args \<Rightarrow> tool_descriptor list" where
  "run_tools a = registry_tools (ra_registry a) (le_policy (ra_env a)) (le_protocol (ra_env a)) (effective_harness_policy a)"

lemma run_session_Inr:
  assumes "run_session a prompt s = (Inr out, s')"
  obtains turns s1 s2 s3 where "open_session a (run_tools a) prompt s = (Inr turns, s1)"
    "run_loop (ra_env a) (seed_state a (run_tools a) turns s1) = (Inr (lo_stop out), s2)"
    "close_session (ra_env a) (lo_stop out) s2 = (Inr (), s3)"
    "fire_on_error (ra_env a) (lo_stop out) s3 = (Inr (), s')"
  using assms by (auto simp: run_session_def Let_def run_simps outcome_of_def run_tools_def)

section \<open>Properties\<close>

text \<open>
  C8. A run always returns, and whatever happens in it, refusals and errors included, it has begun no more
  turns than the policy allows.
\<close>

theorem run_within_budget:
  "ls_turns_this_run (snd (run a w prompt)) \<le> max_turns (le_policy (ra_env a))"
proof (cases rule: run_cases[of a w prompt])
  case (refused e)
  then show ?thesis by (simp add: blank_state_def)
next
  case (session c)
  let ?s = "blank_state c w"
  obtain r s1 where opened: "open_session a (run_tools a) prompt ?s = (r, s1)" by force
  have s1: "ls_turns_this_run s1 = 0"
    using keeps_turnsD[OF keeps_run_parts(1) opened] by (simp add: blank_state_def)
  show ?thesis
  proof (cases r)
    case (Inl e)
    then show ?thesis using opened s1 session(3)
      by (simp add: run_session_def Let_def bind_d_def run_tools_def)
  next
    case (Inr turns)
    define q where "q = seed_state a (run_tools a) turns s1"
    obtain r2 s2 where loop: "run_loop (ra_env a) q = (r2, s2)" by force
    have s2: "ls_turns_this_run s2 \<le> max_turns (le_policy (ra_env a))"
      using run_loop_bounded[of q "ra_env a"] loop by (simp add: q_def)
    have rest: "keeps_turns (then_d (close_session (ra_env a) stop) (then_d (fire_on_error (ra_env a) stop)
        (\<lambda>s. (Inr (outcome_of a stop s), s))))" for stop
      by (intro keeps keeps_run_parts) (simp add: keeps_turns_iff)
    have "ls_turns_this_run (snd (run_session a prompt ?s)) = ls_turns_this_run s2"
    proof (cases r2)
      case (Inl e)
      then show ?thesis using opened Inr loop
        by (simp add: run_session_def Let_def bind_d_def run_tools_def q_def)
    next
      case (Inr stop)
      have "snd (run_session a prompt ?s) = snd (then_d (close_session (ra_env a) stop) (then_d (fire_on_error (ra_env a) stop)
          (\<lambda>s. (Inr (outcome_of a stop s), s))) s2)"
        using opened \<open>r = Inr turns\<close> loop Inr
        by (simp add: run_session_def Let_def bind_d_def run_tools_def q_def)
      then show ?thesis using keeps_run[OF rest[of stop], of s2] by simp
    qed
    then show ?thesis using s2 session(3) by simp
  qed
qed

text \<open>
  C3. A run that reports the task complete, or ends with a final text, leaves every required check passed
  at the current mutation epoch: by the controller's account under evidence control, by the trace's
  account otherwise. No mutation happened after the checks that count.
\<close>

theorem completion_needs_checks:
  assumes "run a w prompt = (Inr out, s')" "lo_stop out \<in> {TaskComplete, FinalText}"
  shows "case ls_controller s' of
      Some c \<Rightarrow> \<forall>n \<in> set (required_checks c). bt_get (passed_checks c) n = Some (mutation_epoch c)
    | None \<Rightarrow> \<forall>n \<in> set (rg_required_checks (ra_registry a)).
        bt_get (tp_passed_checks (ls_projector s')) n = Some (tp_mutation_epoch (ls_projector s'))"
proof (cases rule: run_cases[of a w prompt])
  case (refused e)
  then show ?thesis using assms(1) by simp
next
  case (session c)
  then have "run_session a prompt (blank_state c w) = (Inr out, s')"
    using assms(1) by (metis fst_conv prod.collapse snd_conv)
  then obtain turns s1 s2 s3 where
    loop: "run_loop (ra_env a) (seed_state a (run_tools a) turns s1) = (Inr (lo_stop out), s2)"
    and close: "close_session (ra_env a) (lo_stop out) s2 = (Inr (), s3)"
    and fire: "fire_on_error (ra_env a) (lo_stop out) s3 = (Inr (), s')"
    by (rule run_session_Inr)
  have success: "is_success (lo_stop out)" using assms(2) by auto
  then have "s' = s3" using fire by (simp add: fire_on_error_def is_failure_def return_d_Inr)
  moreover have "record_l (ra_env a) (EvSessionEnd (stop_as_str (lo_stop out))) s2 = (Inr (), s3)"
    using close success by (auto simp: close_session_def run_simps)
  moreover have "bystander (EvSessionEnd m)" for m by (simp add: bystander_def)
  ultimately have "all_fresh (ra_env a) s'"
    using all_fresh_moves[OF record_same_evidence] run_loop_completes[OF loop assms(2)] by metis
  then show ?thesis by (cases "ls_controller s'") (simp_all add: all_fresh_def ra_registry_def)
qed

theorem completion_needs_checks_witness:
  "\<exists>out s'. run (sample_args diligent) sample_files (Some ''hi'') = (Inr out, s') \<and> lo_stop out = TaskComplete
    \<and> (case ls_controller s' of
        Some c \<Rightarrow> \<forall>n \<in> set (required_checks c). bt_get (passed_checks c) n = Some (mutation_epoch c)
      | None \<Rightarrow> \<forall>n \<in> set [''t''].
          bt_get (tp_passed_checks (ls_projector s')) n = Some (tp_mutation_epoch (ls_projector s')))"
proof -
  obtain out s' where r: "run (sample_args diligent) sample_files (Some ''hi'') = (Inr out, s')"
    and stop: "lo_stop out = TaskComplete" using diligent_run by blast
  have names: "rg_required_checks (ra_registry (sample_args diligent)) = [''t'']" by (simp add: ra_registry_def)
  from completion_needs_checks[OF r, unfolded names] stop r show ?thesis by blast
qed

text \<open>A fresh session opens with its prompt.\<close>

lemma open_session_prompt:
  assumes "open_session a tools prompt s = (Inr n, s')" "ra_resume a = None"
  shows "\<exists>sys user. EvSessionPrompt sys user (ra_media a) \<in> set (ls_trace s')"
proof -
  obtain t3 where "open_fresh a tools prompt t3 = (Inr n, s')"
    using assms by (auto simp: open_session_def Let_def run_simps)
  then obtain user t4 where 4: "record_l (ra_env a) (EvSessionPrompt (session_system a tools) user (ra_media a)) t3 = (Inr (), t4)"
    "record_controller_checkpoint (ra_env a) t4 = (Inr (), s')"
    by (cases prompt) (auto simp: open_fresh_def run_simps)
  obtain evs where "ls_trace s' = ls_trace t4 @ evs"
    using succeedsD[OF calm_checkpoint 4(2)] by (auto simp: steps_def)
  then show ?thesis using record_l_Inr[OF 4(1)] by auto
qed

text \<open>The trace of a run that stops without success, and its projector.\<close>

lemma paused_run_trace:
  assumes "run a w prompt = (Inr out, s')" "\<not> is_success (lo_stop out)"
  obtains pre cps ns where "ls_trace s' = pre @ EvSessionEnd (stop_as_str (lo_stop out))
      # EvRecoveryCheckpoint (projector_checkpoint (project projector_new (pre @ [EvSessionEnd (stop_as_str (lo_stop out))])))
      # map EvControllerCheckpoint cps @ EvSessionPaused (stop_as_str (lo_stop out)) # map EvNote ns"
    "live s'" "ra_resume a = None \<longrightarrow> (\<exists>sys user. EvSessionPrompt sys user (ra_media a) \<in> set pre)"
proof (cases rule: run_cases[of a w prompt])
  case (refused e)
  then show ?thesis using assms(1) by simp
next
  case (session c)
  then have "run_session a prompt (blank_state c w) = (Inr out, s')"
    using assms(1) by (metis fst_conv prod.collapse snd_conv)
  then obtain turns s1 s2 s3 where opened: "open_session a (run_tools a) prompt (blank_state c w) = (Inr turns, s1)"
    and loop: "run_loop (ra_env a) (seed_state a (run_tools a) turns s1) = (Inr (lo_stop out), s2)"
    and close: "close_session (ra_env a) (lo_stop out) s2 = (Inr (), s3)"
    and fire: "fire_on_error (ra_env a) (lo_stop out) s3 = (Inr (), s')"
    by (rule run_session_Inr)
  let ?q = "seed_state a (run_tools a) turns s1"
  have blank: "live (blank_state c w)" by (simp add: live_def blank_state_def)
  have "live s1" by (rule live_steps[OF blank succeedsD[OF open_session_live opened]])
  then have q: "live ?q" by (simp add: live_def)
  have "idle s1" by (rule open_session_idle[OF opened _ session(1)]) (simp add: blank_state_def projector_new_def)
  then have "idle ?q" by (simp add: idle_def)
  then have s2: "live s2" using live_steps[OF q run_loop_live] loop assms(2) by blast
  obtain cps where s3: "live s3" "ls_trace s3 = ls_trace s2 @ EvSessionEnd (stop_as_str (lo_stop out))
      # EvRecoveryCheckpoint (projector_checkpoint (project projector_new (ls_trace s2 @ [EvSessionEnd (stop_as_str (lo_stop out))])))
      # map EvControllerCheckpoint cps @ [EvSessionPaused (stop_as_str (lo_stop out))]"
    using close_session_pause[OF close assms(2) s2] by blast
  obtain ns where ns: "ls_trace s' = ls_trace s3 @ map EvNote ns" "ls_projector s' = ls_projector s3"
    using fire_on_error_trace[of "ra_env a" "lo_stop out" s3] fire by auto
  have silent: "project p (map EvNote ns) = p" for p by (induction ns) (simp_all add: project_def)
  have "live s'" using s3(1) by (simp add: live_def ns project_append silent)
  moreover obtain evs where "ls_trace s2 = ls_trace s1 @ evs"
    using run_loop_live[OF _ loop assms(2)] \<open>idle ?q\<close> by (auto simp: steps_def)
  then have "ra_resume a = None \<longrightarrow> (\<exists>sys user. EvSessionPrompt sys user (ra_media a) \<in> set (ls_trace s2))"
    using open_session_prompt[OF opened] by auto
  ultimately show ?thesis using that[of "ls_trace s2" cps ns] s3(2) ns(1) by simp
qed

text \<open>
  C7. A run that stops without success writes, right after the event that names the reason, a recovery
  checkpoint that equals what a reader derives by replaying everything written before it, and then the
  pause marker. So the session can be resumed from the trace alone.
\<close>

theorem pause_checkpoint_is_replay:
  assumes "run a w prompt = (Inr out, s')" "\<not> is_success (lo_stop out)"
  shows "\<exists>pre post. ls_trace s' = pre @ EvRecoveryCheckpoint (projector_checkpoint (project projector_new pre)) # post
    \<and> pre \<noteq> [] \<and> last pre = EvSessionEnd (stop_as_str (lo_stop out))
    \<and> EvSessionPaused (stop_as_str (lo_stop out)) \<in> set post"
proof -
  obtain pre cps ns where "ls_trace s' = pre @ EvSessionEnd (stop_as_str (lo_stop out))
      # EvRecoveryCheckpoint (projector_checkpoint (project projector_new (pre @ [EvSessionEnd (stop_as_str (lo_stop out))])))
      # map EvControllerCheckpoint cps @ EvSessionPaused (stop_as_str (lo_stop out)) # map EvNote ns"
    using paused_run_trace[OF assms] .
  then show ?thesis
    by (intro exI[of _ "pre @ [EvSessionEnd (stop_as_str (lo_stop out))]"]
          exI[of _ "map EvControllerCheckpoint cps @ EvSessionPaused (stop_as_str (lo_stop out)) # map EvNote ns"]) simp
qed

theorem pause_checkpoint_is_replay_witness:
  "\<exists>out s'. run interrupted sample_files (Some ''hi'') = (Inr out, s') \<and> lo_stop out = Interrupted
    \<and> (\<exists>pre post. ls_trace s' = pre @ EvRecoveryCheckpoint (projector_checkpoint (project projector_new pre)) # post
         \<and> pre \<noteq> [] \<and> last pre = EvSessionEnd (stop_as_str Interrupted)
         \<and> EvSessionPaused (stop_as_str Interrupted) \<in> set post)"
proof -
  obtain out s' where r: "run interrupted sample_files (Some ''hi'') = (Inr out, s')"
    and stop: "lo_stop out = Interrupted" using interrupted_run by blast
  moreover have "\<not> is_success (lo_stop out)" by (simp add: stop is_success_def)
  note pause_checkpoint_is_replay[OF r this, unfolded stop]
  ultimately show ?thesis by blast
qed

end
