(* ===== verification/Trace_File_Props.thy ===== *)
theory Trace_File_Props
  imports Trace_File
begin

text \<open>
  What survives a crash: whatever prefix of the written bytes reaches the disk, the recovering reader
  returns the records of a prefix of the written events, and every record whose line is complete is among
  them.
\<close>

section \<open>What the JSON library promises\<close>

text \<open>A controller-block count of zero is not printed, and its absence is noted when it is read.\<close>

definition wire_turn :: "guard_turn \<Rightarrow> guard_turn" where
  "wire_turn g = g\<lparr>gt_controller_blocks_was_present := (gt_controller_blocks g \<noteq> 0)\<rparr>"

fun as_read :: "event \<Rightarrow> event" where
  "as_read (EvRecoveryCheckpoint cp) =
     EvRecoveryCheckpoint (cp\<lparr>rc_guard_history := map wire_turn (rc_guard_history cp)\<rparr>)"
| "as_read ev = ev"

definition record_of :: "trace_event \<Rightarrow> trace_record" where
  "record_of te = \<lparr>tr_v = te_v te, tr_ts_ms = te_ts_ms te, tr_session = te_session te, tr_seq = te_seq te,
     tr_event = Known (as_read (te_event te))\<rparr>"

text \<open>The printed record is one line of valid text that starts with a brace; it is decoded with and
  without its newline; and what is left of it after a cut is an unexpected end of the text.\<close>

definition codec_reads :: "codec \<Rightarrow> trace_event \<Rightarrow> bool" where
  "codec_reads cd te \<longleftrightarrow>
     (\<exists>line j. cd_print cd te = Inr line \<and> CHR 0x0A \<notin> set line \<and> from_utf8 line = None
        \<and> line \<noteq> [] \<and> hd line = CHR 0x7B
        \<and> (\<forall>nl \<in> {[], [CHR 0x0A]}. cd_raw cd (line @ nl) = Inr \<lparr>rw_v = te_v te, rw_ts_ms = te_ts_ms te,
              rw_session = te_session te, rw_seq = te_seq te, rw_event = j\<rparr>)
        \<and> cd_event cd j = Inr (as_read (te_event te))
        \<and> (\<forall>n. 0 < n \<and> n < length line \<longrightarrow>
              (\<exists>m. cd_value cd (take n line) = Inl (JsonEof m)) \<and> (\<exists>m. cd_raw cd (take n line) = Inl (JsonEof m))))"

fun stamped :: "string \<Rightarrow> nat \<Rightarrow> (nat \<times> event) list \<Rightarrow> trace_event list" where
  "stamped session seq [] = []"
| "stamped session seq ((now, ev) # evs) =
     \<lparr>te_v = TRACE_SCHEMA_VERSION, te_ts_ms = now, te_session = session, te_seq = seq, te_event = ev\<rparr>
     # stamped session (seq + 1) evs"

definition line_of :: "codec \<Rightarrow> trace_event \<Rightarrow> string" where
  "line_of cd te = (case cd_print cd te of Inr line \<Rightarrow> line | Inl _ \<Rightarrow> [])"

definition file_of :: "codec \<Rightarrow> trace_event list \<Rightarrow> string" where
  "file_of cd tes = concat (map (\<lambda>te. line_of cd te @ [CHR 0x0A]) tes)"

lemma file_of_simps [simp]:
  "file_of cd [] = []" "file_of cd (te # tes) = line_of cd te @ CHR 0x0A # file_of cd tes"
  by (simp_all add: file_of_def)

lemma length_stamped [simp]: "length (stamped session seq evs) = length evs"
  by (induction session seq evs rule: stamped.induct) simp_all

lemma stamped_events: "map te_event (stamped session seq evs) = map snd evs"
  by (induction session seq evs rule: stamped.induct) simp_all

section \<open>Cutting a text\<close>

lemma utf8_tail_take:
  "utf8_tail n seen s = SequenceOk \<Longrightarrow> utf8_tail n seen (take m s) = (if n \<le> m then SequenceOk else SequenceShort)"
proof (induction n seen s arbitrary: m rule: utf8_tail.induct)
  case (3 n seen c s)
  then show ?case by (cases m) (auto split: if_splits)
qed auto

lemma utf8_sequence_take:
  assumes "utf8_sequence a s = SequenceOk"
  shows "utf8_sequence a (take m s) = (if utf8_width a - 1 \<le> m then SequenceOk else SequenceShort)"
proof (cases "utf8_width a \<le> 1")
  case False
  then obtain b s' where s: "s = b # s'" and b: "if utf8_width a = 2 then is_continuation b else utf8_second_ok a b"
    and tail: "utf8_tail (utf8_width a - 2) 2 s' = SequenceOk"
    using assms by (auto simp: utf8_sequence_def split: list.splits if_splits)
  show ?thesis
  proof (cases m)
    case (Suc k)
    have "utf8_width a - 2 \<le> k \<longleftrightarrow> utf8_width a - 1 \<le> m" using False Suc by auto
    then show ?thesis using False Suc s b utf8_tail_take[OF tail, of k] by (simp add: utf8_sequence_def)
  qed (use False in \<open>auto simp: utf8_sequence_def\<close>)
qed (use assms in \<open>auto simp: utf8_sequence_def split: if_splits\<close>)

text \<open>A cut text is valid, or it breaks off inside its last character.\<close>

lemma from_utf8_at_take:
  "from_utf8_at i s = None \<Longrightarrow>
     from_utf8_at i (take n s) = None \<or> (\<exists>v. from_utf8_at i (take n s) = Some \<lparr>valid_up_to = v, error_len = None\<rparr>)"
proof (induction i s arbitrary: n rule: from_utf8_at.induct)
  case (2 i a s)
  then have seq: "utf8_sequence a s = SequenceOk" by (auto split: sequence_check.splits)
  show ?case
  proof (cases n)
    case (Suc m)
    show ?thesis
    proof (cases "utf8_width a - 1 \<le> m")
      case True
      have "drop (utf8_width a - 1) (take m s) = take (m - (utf8_width a - 1)) (drop (utf8_width a - 1) s)"
        by (simp add: drop_take)
      then show ?thesis
        using 2 seq Suc True utf8_sequence_take[OF seq, of m] by simp
    qed (use Suc utf8_sequence_take[OF seq, of m] in simp)
  qed simp
qed simp

lemma from_utf8_at_newline: "from_utf8_at i s = None \<Longrightarrow> from_utf8_at i (s @ [CHR 0x0A]) = None"
proof (induction i s rule: from_utf8_at.induct)
  case (1 i)
  then show ?case by (simp add: utf8_sequence_def utf8_width_def byte_def)
next
  case (2 i a s)
  then have seq: "utf8_sequence a s = SequenceOk" by (auto split: sequence_check.splits)
  have short: "utf8_width a - 1 \<le> length s" using utf8_sequence_short[OF seq] by simp
  have "utf8_sequence a (take (length s) (s @ [CHR 0x0A])) = SequenceOk" using seq by simp
  then have "utf8_sequence a (s @ [CHR 0x0A]) = SequenceOk"
  proof -
    have tail: "utf8_tail k seen (t @ u) = SequenceOk" if "utf8_tail k seen t = SequenceOk" for k seen t u
      using that by (induction k seen t rule: utf8_tail.induct) (auto split: if_splits)
    show ?thesis
      using seq by (auto simp: utf8_sequence_def tail split: if_splits list.splits)
  qed
  then show ?case using 2 seq short by simp
qed

section \<open>One line\<close>

lemma read_until_line:
  "CHR 0x0A \<notin> set line \<Longrightarrow> read_until (line @ CHR 0x0A # rest) = (line @ [CHR 0x0A], rest)"
  by (induction line) auto

lemma read_until_last: "CHR 0x0A \<notin> set line \<Longrightarrow> read_until line = (line, [])"
  by (induction line) auto

lemma trim_rev_brace: "trim_rev (s @ [CHR 0x7B]) \<noteq> []"
proof (induction s rule: trim_rev.induct)
  case (2 c s)
  have brace: "\<not> is_ws2 (CHR 0x7B) x" "\<not> is_ws3 (CHR 0x7B) x y" "\<not> is_ws3 x (CHR 0x7B) y" for x y
    by (auto simp: is_ws2_def is_ws3_def byte_def)
  show ?case
  proof (cases "is_ascii_ws c")
    case True
    with 2(1) show ?thesis by simp
  next
    case False
    note IH = 2(2)[OF False] 2(3)[OF False]
    show ?thesis
    proof (cases s)
      case Nil
      with False brace show ?thesis by simp
    next
      case (Cons b s')
      show ?thesis
      proof (cases s')
        case Nil
        with False Cons brace IH(1)[OF Cons] show ?thesis by simp
      next
        case (Cons a s'')
        with \<open>s = b # s'\<close> False IH(1)[OF \<open>s = b # s'\<close>] IH(2)[OF \<open>s = b # s'\<close> _ Cons] show ?thesis by simp
      qed
    qed
  qed
qed (simp add: is_ascii_ws_def in_range_def byte_def)

lemma trim_brace: "s \<noteq> [] \<Longrightarrow> hd s = CHR 0x7B \<Longrightarrow> trim s \<noteq> []"
proof -
  assume s: "s \<noteq> []" "hd s = CHR 0x7B"
  then have "trim_start s = s" by (intro trim_start_id) (simp_all add: is_ascii_ws_def in_range_def byte_def)
  moreover obtain t where "s = CHR 0x7B # t" using s by (cases s) auto
  ultimately show ?thesis using trim_rev_brace[of "rev t"] by (simp add: trim_def trim_end_def)
qed

lemma read_line_complete:
  assumes "codec_reads cd te" "nl = [] \<or> nl = [CHR 0x0A]"
  shows "read_line cd mode (line_of cd te @ nl) = LineRecord (record_of te)"
proof -
  obtain line j where line: "cd_print cd te = Inr line" "from_utf8 line = None" "line \<noteq> []" "hd line = CHR 0x7B"
    "cd_raw cd (line @ nl) = Inr \<lparr>rw_v = te_v te, rw_ts_ms = te_ts_ms te, rw_session = te_session te,
       rw_seq = te_seq te, rw_event = j\<rparr>" "cd_event cd j = Inr (as_read (te_event te))"
    using assms unfolding codec_reads_def by blast
  have "from_utf8 (line @ nl) = None"
    using assms(2) line(2) from_utf8_at_newline by (auto simp: from_utf8_def)
  moreover have "trim (line @ nl) \<noteq> []" using line(3,4) by (intro trim_brace) simp_all
  ultimately show ?thesis
    using line by (simp add: read_line_def line_of_def parse_line_def record_of_def Let_def)
qed

lemma read_line_torn:
  assumes "codec_reads cd te" "0 < n" "n < length (line_of cd te)"
  shows "read_line cd ReplayRecovery (take n (line_of cd te)) = LineEnds"
proof -
  obtain line where line: "cd_print cd te = Inr line" "from_utf8 line = None" "CHR 0x0A \<notin> set line"
    "line \<noteq> []" "hd line = CHR 0x7B"
    and cut: "\<And>n. 0 < n \<Longrightarrow> n < length line \<Longrightarrow> \<exists>m. cd_value cd (take n line) = Inl (JsonEof m)"
      "\<And>n. 0 < n \<Longrightarrow> n < length line \<Longrightarrow> \<exists>m. cd_raw cd (take n line) = Inl (JsonEof m)"
    using assms(1) unfolding codec_reads_def by blast
  have eq: "line_of cd te = line" using line(1) by (simp add: line_of_def)
  let ?p = "take n line"
  have open_end: "\<not> ends_with ?p [CHR 0x0A]"
  proof (cases "rev ?p")
    case (Cons c t)
    then have "c \<in> set ?p" by (metis list.set_intros(1) set_rev)
    then have "c \<noteq> CHR 0x0A" using line(3) in_set_takeD by metis
    with Cons show ?thesis by (simp add: ends_with_def starts_with_def)
  qed (use assms(2) line(4) in simp)
  show ?thesis
  proof (cases "from_utf8 ?p")
    case None
    have "trim ?p \<noteq> []" using line(4,5) assms(2) by (intro trim_brace) auto
    moreover obtain m where "cd_raw cd ?p = Inl (JsonEof m)" using cut(2) assms eq by blast
    ultimately show ?thesis using None open_end eq by (simp add: read_line_def Let_def parse_line_def)
  next
    case (Some e)
    then obtain v where e: "e = \<lparr>valid_up_to = v, error_len = None\<rparr>"
      using from_utf8_at_take[of 0 line n] line(2) by (auto simp: from_utf8_def)
    have "v < n" using from_utf8_at_valid_up_to[of 0 ?p e] Some e by (simp add: from_utf8_def)
    have "0 < v"
    proof (rule ccontr)
      assume "\<not> 0 < v"
      moreover obtain t where "?p = CHR 0x7B # t" using line(4,5) assms(2) by (cases line; cases n) auto
      ultimately show False
        using Some e from_utf8_at_valid_up_to[of 1 t e] by (simp add: from_utf8_def utf8_sequence_def utf8_width_def byte_def)
    qed
    then obtain m where "cd_value cd (take v ?p) = Inl (JsonEof m)"
      using cut(1)[of v] \<open>v < n\<close> assms(3) eq by (auto simp: min_def)
    then show ?thesis
      using Some e open_end eq by (simp add: read_line_def Let_def incomplete_utf8_follows_incomplete_json_def)
  qed
qed


section \<open>Files\<close>

lemma write_all_prefix:
  "\<exists>m. js_file (fst (write_all io chunk s)) = js_file s @ take m chunk
     \<and> js_session (fst (write_all io chunk s)) = js_session s
     \<and> js_next_seq (fst (write_all io chunk s)) = js_next_seq s"
  "snd (write_all io chunk s) = ok \<Longrightarrow> fst (write_all io chunk s) = s\<lparr>js_file := js_file s @ chunk\<rparr>"
  by (auto simp: write_all_def intro: exI[of _ "length chunk"] split: option.splits prod.splits)

lemma write_event_ok:
  assumes "write_event cd io now ev s = (s', Inr n)"
  shows "s' = s\<lparr>js_file := js_file s @ line_of cd (stamp now ev s) @ [CHR 0x0A], js_next_seq := js_next_seq s + 1\<rparr>"
proof -
  obtain line where line: "cd_print cd (stamp now ev s) = Inr line"
    using assms by (auto simp: write_event_def split: sum.splits)
  obtain s1 where 1: "write_all io line s = (s1, ok)"
    using assms line by (auto simp: write_event_def split: prod.splits sum.splits)
  obtain s2 where 2: "write_all io [CHR 0x0A] s1 = (s2, ok)"
    using assms line 1 by (auto simp: write_event_def split: prod.splits sum.splits)
  have "s1 = s\<lparr>js_file := js_file s @ line\<rparr>" using write_all_prefix(2)[of io line s] 1 by simp
  moreover have "s2 = s1\<lparr>js_file := js_file s1 @ [CHR 0x0A]\<rparr>" using write_all_prefix(2)[of io "[CHR 0x0A]" s1] 2 by simp
  ultimately show ?thesis using assms line 1 2 by (auto simp: write_event_def line_of_def)
qed

lemma write_event_prefix:
  "\<exists>m. js_file (fst (write_event cd io now ev s)) = js_file s @ take m (line_of cd (stamp now ev s) @ [CHR 0x0A])"
proof (cases "cd_print cd (stamp now ev s)")
  case (Inl e)
  then show ?thesis by (intro exI[of _ 0]) (simp add: write_event_def)
next
  case (Inr line)
  obtain s1 r1 where 1: "write_all io line s = (s1, r1)" by force
  obtain m where m: "js_file s1 = js_file s @ take m line" using write_all_prefix(1)[of io line s] 1 by auto
  show ?thesis
  proof (cases r1)
    case (Inl e)
    then show ?thesis using Inr 1 m
      by (intro exI[of _ "min m (length line)"]) (simp add: write_event_def line_of_def min_def)
  next
    case (Inr u)
    then have s1: "s1 = s\<lparr>js_file := js_file s @ line\<rparr>" using write_all_prefix(2)[of io line s] 1 by simp
    obtain s2 r2 where 2: "write_all io [CHR 0x0A] s1 = (s2, r2)" by force
    obtain k where "js_file s2 = js_file s1 @ take k [CHR 0x0A]" using write_all_prefix(1)[of io "[CHR 0x0A]" s1] 2 by auto
    then show ?thesis
      using Inr \<open>cd_print cd (stamp now ev s) = Inr line\<close> 1 2 s1
      by (intro exI[of _ "length line + k"]) (cases r2; simp add: write_event_def line_of_def)
  qed
qed

lemma write_events_file:
  "write_events cd io evs s = (s', r) \<Longrightarrow>
     prefix (js_file s') (js_file s @ file_of cd (stamped (js_session s) (js_next_seq s) evs))
     \<and> (r = ok \<longrightarrow> js_file s' = js_file s @ file_of cd (stamped (js_session s) (js_next_seq s) evs))"
proof (induction cd io evs s arbitrary: s' r rule: write_events.induct)
  case (2 cd io now ev evs s)
  obtain s1 r1 where 1: "write_event cd io now ev s = (s1, r1)" by force
  let ?line = "line_of cd (stamp now ev s)"
  show ?case
  proof (cases r1)
    case (Inl e)
    then have "s' = s1" "r = Inl e" using 2(2) 1 by simp_all
    moreover obtain m where "js_file s1 = js_file s @ take m (?line @ [CHR 0x0A])"
      using write_event_prefix[of cd io now ev s] 1 by auto
    moreover have "prefix (take m (?line @ [CHR 0x0A]))
        ((?line @ [CHR 0x0A]) @ file_of cd (stamped (js_session s) (js_next_seq s + 1) evs))"
      using take_is_prefix prefix_prefix by blast
    ultimately show ?thesis by (simp add: stamp_def)
  next
    case (Inr n)
    then have "s1 = s\<lparr>js_file := js_file s @ ?line @ [CHR 0x0A], js_next_seq := js_next_seq s + 1\<rparr>"
      using write_event_ok 1 by blast
    then show ?thesis using 2(1)[OF 1[symmetric] Inr, of s' r] 2(2) 1 Inr by (simp add: stamp_def)
  qed
qed simp

lemma read_cut_file:
  assumes "\<forall>te \<in> set tes. codec_reads cd te"
  shows "\<exists>k \<le> length tes. read_trace cd ReplayRecovery (take n (file_of cd tes)) = map (Inr \<circ> record_of) (take k tes)
     \<and> (\<forall>i \<le> length tes. length (file_of cd (take i tes)) \<le> n \<longrightarrow> i \<le> k)"
  using assms
proof (induction tes arbitrary: n)
  case Nil
  then show ?case by (simp add: read_trace.simps)
next
  case (Cons te tes)
  let ?line = "line_of cd te"
  have reads: "codec_reads cd te" using Cons.prems by simp
  then have line: "CHR 0x0A \<notin> set ?line" "?line \<noteq> []" by (auto simp: codec_reads_def line_of_def)
  have behind: "i = 0" if "length (file_of cd (take i (te # tes))) \<le> length ?line" for i
    using that by (cases i) auto
  consider "n = 0" | "0 < n" "n < length ?line" | "n = length ?line" | "length ?line < n" by linarith
  then show ?case
  proof cases
    case 1
    then show ?thesis using behind line(2) by (intro exI[of _ 0]) (auto simp: read_trace.simps)
  next
    case 2
    have "CHR 0x0A \<notin> set (take n ?line)" using line(1) by (meson in_set_takeD)
    then have "read_trace cd ReplayRecovery (take n (file_of cd (te # tes))) = []"
      using 2 line(2) read_line_torn[OF reads 2] by (simp add: read_trace.simps[of cd _ "take n ?line"] read_until_last)
    then show ?thesis using behind 2 by (intro exI[of _ 0]) auto
  next
    case 3
    have "read_trace cd ReplayRecovery ?line = [Inr (record_of te)]"
      using line read_line_complete[OF reads, of "[]"]
      by (simp add: read_trace.simps[of cd _ ?line] read_trace.simps[of cd _ "[]"] read_until_last)
    then show ?thesis using behind 3 by (intro exI[of _ 1]) auto
  next
    case 4
    let ?m = "n - length ?line - 1"
    obtain k where k: "k \<le> length tes" "read_trace cd ReplayRecovery (take ?m (file_of cd tes)) = map (Inr \<circ> record_of) (take k tes)"
      "\<forall>i \<le> length tes. length (file_of cd (take i tes)) \<le> ?m \<longrightarrow> i \<le> k"
      using Cons.IH[of ?m] Cons.prems by auto
    have split: "take n (file_of cd (te # tes)) = ?line @ CHR 0x0A # take ?m (file_of cd tes)"
      using 4 by (cases "n - length ?line") auto
    have "read_trace cd ReplayRecovery (?line @ CHR 0x0A # take ?m (file_of cd tes))
        = Inr (record_of te) # read_trace cd ReplayRecovery (take ?m (file_of cd tes))"
      using line read_line_complete[OF reads, of "[CHR 0x0A]"]
      by (simp add: read_trace.simps[of cd _ "?line @ _"] read_until_line)
    moreover have "i \<le> Suc k" if "i \<le> length (te # tes)" "length (file_of cd (take i (te # tes))) \<le> n" for i
      using that k(3) 4 by (cases i) auto
    ultimately show ?thesis using k split by (intro exI[of _ "Suc k"]) auto
  qed
qed


section \<open>Properties\<close>

text \<open>
  C28. A crash or a failing write loses no complete record and invents none: however the writing of events
  ends, and wherever the file is cut afterwards, the recovering reader returns, without an error, exactly
  the records of a prefix of the events, which has every event whose line survived, and all of them when
  nothing failed and nothing was cut. It rests on what the JSON library says of each record.
\<close>

theorem crash_leaves_prefix:
  assumes "\<forall>te \<in> set (stamped session 0 evs). codec_reads cd te"
    and "write_events cd io evs (sink_open [] session) = (s, r)"
  shows "\<exists>k \<le> length evs.
    read_trace cd ReplayRecovery (take n (js_file s)) = map (Inr \<circ> record_of) (take k (stamped session 0 evs))
    \<and> (\<forall>i \<le> length evs. prefix (file_of cd (take i (stamped session 0 evs))) (take n (js_file s)) \<longrightarrow> i \<le> k)
    \<and> (r = ok \<and> length (js_file s) \<le> n \<longrightarrow> k = length evs)"
proof -
  let ?tes = "stamped session 0 evs"
  have pre: "prefix (js_file s) (file_of cd ?tes)" and all: "r = ok \<Longrightarrow> js_file s = file_of cd ?tes"
    using write_events_file[OF assms(2)] by (simp_all add: sink_open_def)
  define m where "m = min n (length (js_file s))"
  have cut: "take n (js_file s) = take m (file_of cd ?tes)"
    using pre by (auto simp: m_def prefix_def min_def)
  obtain k where k: "k \<le> length ?tes"
    "read_trace cd ReplayRecovery (take m (file_of cd ?tes)) = map (Inr \<circ> record_of) (take k ?tes)"
    "\<forall>i \<le> length ?tes. length (file_of cd (take i ?tes)) \<le> m \<longrightarrow> i \<le> k"
    using read_cut_file[OF assms(1), of m] by blast
  have "i \<le> k" if "i \<le> length evs" "prefix (file_of cd (take i ?tes)) (take n (js_file s))" for i
    using k(3) that prefix_length_le[OF that(2)] by (simp add: m_def min_def split: if_splits)
  moreover have "k = length evs" if "r = ok" "length (js_file s) \<le> n"
    using k(1) k(3)[rule_format, of "length evs"] all[OF that(1)] that(2) by (simp add: m_def)
  ultimately show ?thesis using k cut by auto
qed

text \<open>A codec for the witnesses: a record is printed as its number in a table of records.\<close>

definition table_codec :: "trace_event list \<Rightarrow> codec" where
  "table_codec tes =
     \<lparr>cd_print = (\<lambda>te. Inr (CHR 0x7B # replicate (te_seq te) (CHR ''a'') @ [CHR 0x7D])),
      cd_raw = (\<lambda>line.
        let body = (if last line = CHR 0x0A then butlast line else line); te = tes ! (length body - 2)
        in if last body = CHR 0x7D
           then Inr \<lparr>rw_v = te_v te, rw_ts_ms = te_ts_ms te, rw_session = te_session te, rw_seq = te_seq te, rw_event = JStr body\<rparr>
           else Inl (JsonEof [])),
      cd_value = (\<lambda>_. Inl (JsonEof [])),
      cd_event = (\<lambda>j. case json_as_str j of
          Some body \<Rightarrow> Inr (as_read (te_event (tes ! (length body - 2)))) | None \<Rightarrow> Inl (JsonOther []))\<rparr>"

lemma last_take_line: "0 < n \<Longrightarrow> n < k + 2 \<Longrightarrow> last (take n (CHR 0x7B # replicate k (CHR ''a'') @ [CHR 0x7D])) \<noteq> CHR 0x7D
    \<and> last (take n (CHR 0x7B # replicate k (CHR ''a'') @ [CHR 0x7D])) \<noteq> CHR 0x0A"
  by (cases n) (auto simp: take_Cons' min_def last_replicate split: if_splits)

lemma table_codec_entry:
  assumes "tes ! te_seq te = te"
  shows "codec_reads (table_codec tes) te"
proof -
  let ?line = "CHR 0x7B # replicate (te_seq te) (CHR ''a'') @ [CHR 0x7D]"
  have "from_utf8 ?line = None"
    unfolding from_utf8_def by (rule from_utf8_ascii) (auto simp: byte_def)
  then show ?thesis unfolding codec_reads_def
    using assms last_take_line[of _ "te_seq te"]
    by (intro exI[of _ ?line] exI[of _ "JStr ?line"]) (auto simp: table_codec_def Let_def butlast_append)
qed

lemma stamped_nth: "k < length evs \<Longrightarrow> te_seq (stamped session seq evs ! k) = seq + k"
proof (induction session seq evs arbitrary: k rule: stamped.induct)
  case (2 session seq now ev evs)
  then show ?case by (cases k) simp_all
qed simp

lemma table_codec_reads: "\<forall>te \<in> set (stamped session 0 evs). codec_reads (table_codec (stamped session 0 evs)) te"
proof
  fix te assume "te \<in> set (stamped session 0 evs)"
  then obtain k where "k < length evs" "te = stamped session 0 evs ! k" by (auto simp: in_set_conv_nth)
  then show "codec_reads (table_codec (stamped session 0 evs)) te"
    using stamped_nth[of k evs session 0] by (intro table_codec_entry) simp
qed

lemma table_codec_write:
  "\<exists>s. write_events (table_codec tes) (\<lambda>_. None) evs s0 = (s, ok)"
  by (induction evs arbitrary: s0) (auto simp: write_event_def write_all_def table_codec_def)

text \<open>A file written without a failure is read back whole, in both modes.\<close>

lemma read_file_of:
  "\<forall>te \<in> set tes. codec_reads cd te \<Longrightarrow> read_trace cd mode (file_of cd tes) = map (Inr \<circ> record_of) tes"
proof (induction tes)
  case (Cons te tes)
  then have reads: "codec_reads cd te" by simp
  then have "CHR 0x0A \<notin> set (line_of cd te)" "line_of cd te \<noteq> []" by (auto simp: codec_reads_def line_of_def)
  moreover have "read_line cd mode (line_of cd te @ [CHR 0x0A]) = LineRecord (record_of te)"
    using reads by (rule read_line_complete) simp
  ultimately show ?case using Cons by (subst read_trace.simps) (simp add: read_until_line)
qed (simp add: read_trace.simps)

lemma read_whole_file:
  assumes "\<forall>te \<in> set (stamped session 0 evs). codec_reads cd te" "write_events cd io evs (sink_open [] session) = (s, ok)"
  shows "read_trace cd mode (js_file s) = map (Inr \<circ> record_of) (stamped session 0 evs)"
  using write_events_file[OF assms(2)] read_file_of[OF assms(1)] by (simp add: sink_open_def)

definition two_notes :: "(nat \<times> event) list" where
  "two_notes = [(5, EvNote ''a''), (5, EvNote ''b'')]"

theorem crash_leaves_prefix_witness:
  "\<exists>s. write_events (table_codec (stamped ''s'' 0 two_notes)) (\<lambda>_. None) two_notes (sink_open [] ''s'') = (s, ok)
    \<and> (\<exists>k \<le> length two_notes. read_trace (table_codec (stamped ''s'' 0 two_notes)) ReplayRecovery (take 5 (js_file s))
         = map (Inr \<circ> record_of) (take k (stamped ''s'' 0 two_notes)))"
proof -
  obtain s where s: "write_events (table_codec (stamped ''s'' 0 two_notes)) (\<lambda>_. None) two_notes (sink_open [] ''s'') = (s, ok)"
    using table_codec_write by blast
  from crash_leaves_prefix[OF table_codec_reads s, of 5] s show ?thesis by blast
qed

end
