(* ===== verification/Replay_Inv.thy ===== *)
theory Replay_Inv
  imports Replay Structure_Inv Trace_File_Props
begin

text \<open>
  The validator and the projector read the same trace in step: while a turn is open, both hold the same
  turn with the same proposed calls, the same dispatched calls and the same results. What replay decides
  about a trace that was cut off rests on it.
\<close>

section \<open>The open turn, seen by both\<close>

definition active_view :: "trace_structure \<Rightarrow> (nat \<times> tool_call list option \<times> (tool_call \<times> bool option) list) option" where
  "active_view sv = map_option (\<lambda>a. (at_turn a, at_proposed a, map (\<lambda>r. (rcd_call r, rcd_result r)) (at_calls a))) (tv_active sv)"

definition pending_view ::
  "trace_projector \<Rightarrow> (nat \<times> tool_call list option \<times> tool_call list \<times> (string \<times> string \<times> string \<times> bool) list) option" where
  "pending_view p =
     map_option (\<lambda>t. (pt_turn t, pt_actions_proposed t, pt_tool_calls t, pt_tool_results t)) (tp_pending p)"

definition in_step :: "trace_structure \<Rightarrow> trace_projector \<Rightarrow> bool" where
  "in_step sv p \<longleftrightarrow>
     (\<forall>turn proposed calls. active_view sv = Some (turn, proposed, calls) \<longrightarrow>
        (\<exists>results. pending_view p = Some (turn, proposed, map fst calls, results)
           \<and> (\<forall>(c, r) \<in> set calls. tc_id c \<in> fst ` set results \<longleftrightarrow> r \<noteq> None)
           \<and> fst ` set results \<subseteq> tc_id ` fst ` set calls))"

fun shows_turn :: "Trace_Events.event \<Rightarrow> bool" where
  "shows_turn (EvRecoveryCheckpoint _) = True"
| "shows_turn (EvTurnStart _) = True"
| "shows_turn (EvActionsProposed _ _) = True"
| "shows_turn (EvToolCall _ _ _) = True"
| "shows_turn (EvToolResult _ _ _ _ _) = True"
| "shows_turn (EvTurnCommitted _ _ _ _ _) = True"
| "shows_turn (EvSessionEnd _) = True"
| "shows_turn _ = False"

lemma put_active_view [simp]:
  "active_view (put_active a sv) = Some (at_turn a, at_proposed a, map (\<lambda>r. (rcd_call r, rcd_result r)) (at_calls a))"
  by (simp add: active_view_def put_active_def)

lemma active_view_fields [simp]:
  "active_view (sv\<lparr>tv_passed_checks := x\<rparr>) = active_view sv"
  "active_view (sv\<lparr>tv_mutation_epoch := y\<rparr>) = active_view sv"
  "active_view (sv\<lparr>tv_controller := z\<rparr>) = active_view sv"
  by (simp_all add: active_view_def)

lemma update_last_view [simp]:
  assumes "at_calls a \<noteq> []" "\<And>r. rcd_call (f r) = rcd_call r" "\<And>r. rcd_result (f r) = rcd_result r"
  shows "map (\<lambda>r. (rcd_call r, rcd_result r)) (at_calls (update_last f a)) = map (\<lambda>r. (rcd_call r, rcd_result r)) (at_calls a)"
proof -
  have "at_calls a = butlast (at_calls a) @ [last (at_calls a)]" using assms(1) by simp
  then have "map (\<lambda>r. (rcd_call r, rcd_result r)) (at_calls a) =
      map (\<lambda>r. (rcd_call r, rcd_result r)) (butlast (at_calls a)) @ [(rcd_call (last (at_calls a)), rcd_result (last (at_calls a)))]"
    by (metis (no_types, lifting) list.map(1) list.simps(9) map_append)
  then show ?thesis using assms(2,3) by (simp add: update_last_def)
qed

lemma update_last_proposed [simp]: "at_proposed (update_last f a) = at_proposed a"
  by (simp add: update_last_def)

lemma active_view_Some: "tv_active sv = Some a \<Longrightarrow>
    active_view sv = Some (at_turn a, at_proposed a, map (\<lambda>r. (rcd_call r, rcd_result r)) (at_calls a))"
  by (simp add: active_view_def)

lemma set_record_view:
  "set_controller_call_record n rec sv = Inr sv' \<Longrightarrow> active_view sv' = active_view sv"
  by (auto simp: set_controller_call_record_def active_simps active_view_Some split: if_splits)

lemma mutation_view: "observe_mutation turn tool epoch sv = Inr sv' \<Longrightarrow> active_view sv' = active_view sv"
  by (auto simp: observe_mutation_def observe_evidence_mutation_def observe_legacy_mutation_def active_simps
      active_view_Some split: if_splits)

lemma check_view: "observe_check turn name epoch sv = Inr sv' \<Longrightarrow> active_view sv' = active_view sv"
  by (auto simp: observe_check_def observe_evidence_check_def observe_legacy_check_def active_simps
      active_view_Some split: if_splits)

lemma turn_end_view: "observe_turn_end turn sv = Inr sv' \<Longrightarrow> active_view sv' = active_view sv"
  by (auto simp: observe_turn_end_def active_simps active_view_Some split: if_splits)

lemma gate_view: "observe_gate epoch required fresh decision sv = Inr sv' \<Longrightarrow> active_view sv' = active_view sv"
  by (auto simp: observe_gate_def active_simps active_view_Some simp del: checks.simps)

lemma guard_stop_view: "observe_guard_stop action sv = Inr sv' \<Longrightarrow> active_view sv' = active_view sv"
  by (auto simp: observe_guard_stop_def active_simps active_view_Some split: if_splits)

lemma controller_views:
  "observe_controller_observation turn i obs sv = Inr sv' \<Longrightarrow> active_view sv' = active_view sv"
  "observe_controller_block turn i tool b sv = Inr sv' \<Longrightarrow> active_view sv' = active_view sv"
  "observe_workspace_effect turn i tool eff sv = Inr sv' \<Longrightarrow> active_view sv' = active_view sv"
  "observe_verification_check turn i chk sv = Inr sv' \<Longrightarrow> active_view sv' = active_view sv"
  by (auto simp: observe_controller_observation_def observe_controller_block_def observe_workspace_effect_def
      observe_verification_check_def result_simps dest!: set_record_view)

lemma base_views:
  "observe_policy_selected pol sv = Inr sv' \<Longrightarrow> active_view sv' = active_view sv"
  "observe_session_prompt sv = Inr sv' \<Longrightarrow> active_view sv' = active_view sv"
  "observe_resume_prompt sv = Inr sv' \<Longrightarrow> active_view sv' = active_view sv"
  "observe_recovery_packet j packet m sv = Inr sv' \<Longrightarrow> active_view sv' = active_view sv"
  "observe_controller_checkpoint cp sv = Inr sv' \<Longrightarrow> active_view sv' = active_view sv"
  "observe_session_paused reason sv = Inr sv' \<Longrightarrow> active_view sv' = active_view sv"
  by (auto simp: observe_policy_selected_def observe_session_prompt_def observe_resume_prompt_def
      observe_recovery_packet_def observe_controller_checkpoint_def observe_session_paused_def
      active_view_def result_simps Let_def simp del: checks.simps split: if_splits)

lemma observe_event_view:
  "observe_event j ev sv = Inr sv' \<Longrightarrow> \<not> shows_turn ev \<Longrightarrow> active_view sv' = active_view sv"
  by (cases "(j, ev, sv)" rule: observe_event.cases)
     (simp_all add: mutation_view check_view turn_end_view gate_view guard_stop_view controller_views base_views)

lemma with_pending_view:
  assumes "\<And>t. pt_turn (f t) = pt_turn t" "\<And>t. pt_actions_proposed (f t) = pt_actions_proposed t"
    "\<And>t. pt_tool_calls (f t) = pt_tool_calls t" "\<And>t. pt_tool_results (f t) = pt_tool_results t"
  shows "pending_view (with_pending f p) = pending_view p"
  using assms by (cases "tp_pending p") (simp_all add: pending_view_def with_pending_def)

lemma compact_history_pending [simp]: "tp_pending (compact_history n m p) = tp_pending p"
  by (simp add: compact_history_def Let_def split: option.splits)

lemma projector_step_view: "\<not> shows_turn ev \<Longrightarrow> pending_view (projector_step p ev) = pending_view p"
  by (cases "(p, ev)" rule: projector_step.cases)
     (simp_all add: with_turn_def with_pending_view Let_def,
      auto simp: pending_view_def with_pending_def option.map_comp comp_def)

section \<open>In step\<close>

definition matches :: "active_turn \<Rightarrow> pending_turn \<Rightarrow> bool" where
  "matches a t \<longleftrightarrow> pt_turn t = at_turn a \<and> pt_actions_proposed t = at_proposed a
     \<and> pt_tool_calls t = map rcd_call (at_calls a)
     \<and> (\<forall>r \<in> set (at_calls a). tc_id (rcd_call r) \<in> fst ` set (pt_tool_results t) \<longleftrightarrow> rcd_result r \<noteq> None)
     \<and> fst ` set (pt_tool_results t) \<subseteq> (\<lambda>r. tc_id (rcd_call r)) ` set (at_calls a)"

lemma in_step_closed: "tv_active sv = None \<Longrightarrow> in_step sv p"
  by (simp add: in_step_def active_view_def)

lemma in_step_iff:
  assumes "tv_active sv = Some a"
  shows "in_step sv p \<longleftrightarrow> (\<exists>t. tp_pending p = Some t \<and> matches a t)"
  using assms
  by (cases "tp_pending p")
     (auto simp: in_step_def active_view_def pending_view_def matches_def image_image comp_def)

lemma in_step_view:
  "in_step sv p \<Longrightarrow> active_view sv' = active_view sv \<Longrightarrow> pending_view p' = pending_view p \<Longrightarrow> in_step sv' p'"
  by (simp add: in_step_def)

lemma in_step_put: "tp_pending p = Some t \<Longrightarrow> matches a t \<Longrightarrow> in_step (put_active a sv) p"
  by (simp add: in_step_iff[of _ a] put_active_def)

lemma in_step_start:
  assumes "observe_turn_start turn sv = Inr sv'"
  shows "in_step sv' (projector_step p (EvTurnStart turn))"
proof -
  have "tv_active sv' = Some (active_new turn)"
    using assms by (auto simp: observe_turn_start_def result_simps)
  then show ?thesis
    by (simp add: in_step_iff matches_def active_new_def pending_new_def Let_def)
qed

lemma in_step_proposed:
  assumes "in_step sv p" "observe_actions_proposed turn calls sv = Inr sv'"
  shows "in_step sv' (projector_step p (EvActionsProposed turn calls))"
proof -
  obtain a where a: "tv_active sv = Some a" "at_turn a = turn" and
    sv': "sv' = put_active (a\<lparr>at_proposed := Some calls\<rparr>) sv"
    using assms(2) by (auto simp: observe_actions_proposed_def active_simps split: if_splits)
  then obtain t where t: "tp_pending p = Some t" "matches a t" using assms(1) in_step_iff by blast
  have "tp_pending (projector_step p (EvActionsProposed turn calls)) = Some (t\<lparr>pt_actions_proposed := Some calls\<rparr>)"
    using t a(2) by (simp add: with_turn_def with_pending_def matches_def)
  then show ?thesis unfolding sv' by (rule in_step_put) (use t(2) in \<open>simp add: matches_def\<close>)
qed

lemma tool_call_okE:
  assumes "observe_tool_call c sv = Inr sv'"
  obtains a where "tv_active sv = Some a" "tc_id c \<notin> (\<lambda>r. tc_id (rcd_call r)) ` set (at_calls a)"
    "sv' = put_active (a\<lparr>at_calls := at_calls a @ [call_new c]\<rparr>) sv"
proof -
  obtain a where a: "tv_active sv = Some a" "\<forall>r \<in> set (at_calls a). tc_id (rcd_call r) \<noteq> tc_id c"
    "sv' = put_active (a\<lparr>at_calls := at_calls a @ [call_new c]\<rparr>) sv"
    using assms by (auto simp: observe_tool_call_def active_simps list_ex_iff simp del: checks.simps)
  then have "tc_id c \<notin> (\<lambda>r. tc_id (rcd_call r)) ` set (at_calls a)" by auto
  then show ?thesis using that a by blast
qed

lemma tool_result_okE:
  assumes "observe_tool_result i name e sv = Inr sv'"
  obtains a k where "tv_active sv = Some a" "position (\<lambda>r. tc_id (rcd_call r) = i) (at_calls a) = Some k"
    "sv' = put_active (a\<lparr>at_calls := (at_calls a)[k := (at_calls a ! k)\<lparr>rcd_result := Some e\<rparr>]\<rparr>) sv"
  using assms by (auto simp: observe_tool_result_def active_simps Let_def simp del: checks.simps split: option.splits)

lemma in_step_call:
  assumes "in_step sv p" "observe_tool_call \<lparr>tc_id = i, tc_name = name, tc_args = args\<rparr> sv = Inr sv'"
  shows "in_step sv' (projector_step p (EvToolCall i name args))"
proof -
  let ?c = "\<lparr>tc_id = i, tc_name = name, tc_args = args\<rparr>"
  obtain a where a: "tv_active sv = Some a" "i \<notin> (\<lambda>r. tc_id (rcd_call r)) ` set (at_calls a)" and
    sv': "sv' = put_active (a\<lparr>at_calls := at_calls a @ [call_new ?c]\<rparr>) sv"
    using tool_call_okE[OF assms(2)] by auto
  then obtain t where t: "tp_pending p = Some t" "matches a t" using assms(1) in_step_iff by blast
  have "fst ` set (pt_tool_results t) \<subseteq> (\<lambda>r. tc_id (rcd_call r)) ` set (at_calls a)"
    using t(2) by (simp only: matches_def)
  then have "i \<notin> fst ` set (pt_tool_results t)" using a(2) by (rule contra_subsetD)
  then have m: "matches (a\<lparr>at_calls := at_calls a @ [call_new ?c]\<rparr>) (t\<lparr>pt_tool_calls := pt_tool_calls t @ [?c]\<rparr>)"
    using t(2) by (simp add: matches_def call_new_def subset_insertI2)
  show ?thesis unfolding sv' by (rule in_step_put[OF _ m]) (simp add: t(1) with_pending_def)
qed

text \<open>Results are given once: call identifiers of a turn are distinct.\<close>

definition distinct_calls :: "trace_structure \<Rightarrow> bool" where
  "distinct_calls sv \<longleftrightarrow>
     (\<forall>turn proposed calls. active_view sv = Some (turn, proposed, calls) \<longrightarrow> distinct (map (\<lambda>(c, _). tc_id c) calls))"

lemma distinct_calls_active:
  "distinct_calls sv \<Longrightarrow> tv_active sv = Some a \<Longrightarrow> distinct (map (\<lambda>r. tc_id (rcd_call r)) (at_calls a))"
  by (simp add: distinct_calls_def active_view_def comp_def)

lemma matches_result:
  assumes "matches a t" "distinct (map (\<lambda>r. tc_id (rcd_call r)) (at_calls a))"
    and k: "position (\<lambda>r. tc_id (rcd_call r) = i) (at_calls a) = Some k"
  shows "matches (a\<lparr>at_calls := (at_calls a)[k := (at_calls a ! k)\<lparr>rcd_result := Some e\<rparr>]\<rparr>)
    (t\<lparr>pt_tool_results := pt_tool_results t @ [(i, name, out, e)]\<rparr>)"
proof -
  let ?xs = "(at_calls a)[k := (at_calls a ! k)\<lparr>rcd_result := Some e\<rparr>]"
  have kl: "k < length (at_calls a)" "tc_id (rcd_call (at_calls a ! k)) = i" using position_Some[OF k] by auto
  have nth: "?xs ! m = (if m = k then (at_calls a ! k)\<lparr>rcd_result := Some e\<rparr> else at_calls a ! m)"
    for m using kl(1) by (simp add: nth_list_update)
  have calls: "map rcd_call ?xs = map rcd_call (at_calls a)" using kl(1) by (intro nth_equalityI) (simp_all add: nth_list_update)
  have one: "tc_id (rcd_call (at_calls a ! m)) = i \<longleftrightarrow> m = k" if "m < length (at_calls a)" for m
    using assms(2) that kl nth_eq_iff_index_eq[of "map (\<lambda>r. tc_id (rcd_call r)) (at_calls a)" m k] by auto
  have "\<forall>r \<in> set ?xs. tc_id (rcd_call r) \<in> insert i (fst ` set (pt_tool_results t)) \<longleftrightarrow> rcd_result r \<noteq> None"
  proof
    fix r assume "r \<in> set ?xs"
    then obtain m where m: "m < length (at_calls a)" "r = ?xs ! m" by (auto simp: in_set_conv_nth)
    show "tc_id (rcd_call r) \<in> insert i (fst ` set (pt_tool_results t)) \<longleftrightarrow> rcd_result r \<noteq> None"
      using assms(1) nth[of m] one[OF m(1)] kl m(2) nth_mem[OF m(1)]
      by (cases "m = k") (simp_all add: matches_def)
  qed
  moreover have "(\<lambda>r. tc_id (rcd_call r)) ` set ?xs = (\<lambda>r. tc_id (rcd_call r)) ` set (at_calls a)"
  proof -
    have "(\<lambda>r. tc_id (rcd_call r)) ` set ?xs = tc_id ` set (map rcd_call ?xs)" by (simp add: image_image)
    also have "\<dots> = (\<lambda>r. tc_id (rcd_call r)) ` set (at_calls a)" unfolding calls by (simp add: image_image)
    finally show ?thesis .
  qed
  moreover have "i \<in> (\<lambda>r. tc_id (rcd_call r)) ` set (at_calls a)" using kl nth_mem[OF kl(1)] by force
  ultimately show ?thesis using assms(1) calls by (simp add: matches_def)
qed

lemma in_step_result:
  assumes "in_step sv p" "observe_tool_result i name e sv = Inr sv'" "distinct_calls sv"
  shows "in_step sv' (projector_step p (EvToolResult i name out e d))"
proof -
  obtain a k where a: "tv_active sv = Some a" and k: "position (\<lambda>r. tc_id (rcd_call r) = i) (at_calls a) = Some k" and
    sv': "sv' = put_active (a\<lparr>at_calls := (at_calls a)[k := (at_calls a ! k)\<lparr>rcd_result := Some e\<rparr>]\<rparr>) sv"
    using tool_result_okE[OF assms(2)] by blast
  then obtain t where t: "tp_pending p = Some t" "matches a t" using assms(1) in_step_iff by blast
  show ?thesis unfolding sv'
    by (rule in_step_put[OF _ matches_result[OF t(2) distinct_calls_active[OF assms(3) a] k]])
       (simp add: t(1) with_pending_def)
qed

section \<open>Every accepted event\<close>

lemma closing_events:
  "observe_commit turn dispatched errored stop sv = Inr sv' \<Longrightarrow> tv_active sv' = None"
  "observe_session_end reason sv = Inr sv' \<Longrightarrow> tv_active sv' = None"
  "observe_checkpoint cp sv = Inr sv' \<Longrightarrow> tv_active sv' = None"
  by (auto simp: observe_commit_def observe_session_end_def observe_checkpoint_def observe_final_checkpoint_def
      observe_base_checkpoint_def observe_anchor_checkpoint_def result_simps Let_def simp del: checks.simps
      split: option.splits if_splits state_base.splits)

lemma observe_in_step:
  assumes "observe j ev sv = Inr sv'" "in_step sv p" "distinct_calls sv" "\<And>cp. ev \<noteq> EvRecoveryCheckpoint cp"
  shows "in_step sv' (projector_step p ev)"
proof -
  have ev: "observe_event j ev sv = Inr sv'" using assms(1) by (simp add: observe_def split: if_splits)
  show ?thesis
  proof (cases "shows_turn ev")
    case True
    then show ?thesis using ev assms(2-4)
      by (cases ev rule: shows_turn.cases)
         (simp_all add: in_step_start in_step_proposed in_step_call in_step_result in_step_closed closing_events
            del: projector_step.simps)
  next
    case False
    then show ?thesis using in_step_view[OF assms(2)] observe_event_view[OF ev] projector_step_view by blast
  qed
qed

lemma distinct_calls_result:
  assumes "observe_tool_result i name e sv = Inr sv'" "distinct_calls sv"
  shows "distinct_calls sv'"
proof -
  obtain a k where a: "tv_active sv = Some a" and k: "position (\<lambda>r. tc_id (rcd_call r) = i) (at_calls a) = Some k" and
    sv': "sv' = put_active (a\<lparr>at_calls := (at_calls a)[k := (at_calls a ! k)\<lparr>rcd_result := Some e\<rparr>]\<rparr>) sv"
    using tool_result_okE[OF assms(1)] by blast
  have "map (\<lambda>r. tc_id (rcd_call r)) ((at_calls a)[k := (at_calls a ! k)\<lparr>rcd_result := Some e\<rparr>])
      = map (\<lambda>r. tc_id (rcd_call r)) (at_calls a)"
    using position_Some[OF k] by (intro nth_equalityI) (simp_all add: nth_list_update)
  then show ?thesis using distinct_calls_active[OF assms(2) a] by (simp add: distinct_calls_def sv' comp_def)
qed

lemma distinct_calls_call:
  assumes "observe_tool_call c sv = Inr sv'" "distinct_calls sv"
  shows "distinct_calls sv'"
proof -
  obtain a where a: "tv_active sv = Some a" "tc_id c \<notin> (\<lambda>r. tc_id (rcd_call r)) ` set (at_calls a)" and
    sv': "sv' = put_active (a\<lparr>at_calls := at_calls a @ [call_new c]\<rparr>) sv"
    using tool_call_okE[OF assms(1)] by auto
  then show ?thesis using distinct_calls_active[OF assms(2) a(1)]
    by (simp add: distinct_calls_def comp_def call_new_def)
qed

lemma distinct_calls_closed: "tv_active sv = None \<Longrightarrow> distinct_calls sv"
  by (simp add: distinct_calls_def active_view_def)

lemma distinct_calls_start: "observe_turn_start turn sv = Inr sv' \<Longrightarrow> distinct_calls sv'"
  by (auto simp: observe_turn_start_def result_simps distinct_calls_def active_view_def active_new_def)

lemma distinct_calls_proposed: "observe_actions_proposed turn calls sv = Inr sv' \<Longrightarrow> distinct_calls sv \<Longrightarrow> distinct_calls sv'"
  by (auto simp: observe_actions_proposed_def active_simps distinct_calls_def active_view_Some split: if_splits)

lemma observe_distinct_calls:
  assumes "observe j ev sv = Inr sv'" "distinct_calls sv"
  shows "distinct_calls sv'"
proof -
  have ev: "observe_event j ev sv = Inr sv'" using assms(1) by (simp add: observe_def split: if_splits)
  show ?thesis
  proof (cases "shows_turn ev")
    case True
    then show ?thesis using ev assms(2)
      by (cases ev rule: shows_turn.cases)
         (simp_all add: distinct_calls_start distinct_calls_proposed distinct_calls_call distinct_calls_result
            distinct_calls_closed closing_events)
  next
    case False
    then show ?thesis using assms(2) observe_event_view[OF ev] by (simp add: distinct_calls_def)
  qed
qed

section \<open>A call without a result\<close>

text \<open>A dispatched call of an open turn that proposed its actions, outside the control calls, with no result.\<close>

definition hanging :: "string \<Rightarrow> trace_structure \<Rightarrow> bool" where
  "hanging i sv \<longleftrightarrow>
     (\<exists>turn proposed calls c. active_view sv = Some (turn, Some proposed, calls) \<and> (c, None) \<in> set calls
        \<and> tc_id c = i \<and> tc_name c \<notin> set RESERVED_CONTROL_NAMES)"

lemma hangingE:
  assumes "hanging i sv"
  obtains a r where "tv_active sv = Some a" "is_modern a" "r \<in> set (at_calls a)" "tc_id (rcd_call r) = i"
    "rcd_result r = None" "tc_name (rcd_call r) \<notin> set RESERVED_CONTROL_NAMES"
  using assms by (auto simp: hanging_def active_view_def is_modern_def)

lemma hangingI:
  assumes "tv_active sv = Some a" "is_modern a" "r \<in> set (at_calls a)" "tc_id (rcd_call r) = i"
    "rcd_result r = None" "tc_name (rcd_call r) \<notin> set RESERVED_CONTROL_NAMES"
  shows "hanging i sv"
  using assms by (force simp: hanging_def active_view_def is_modern_def)

lemma hanging_not_closed:
  assumes "hanging i sv"
  shows "observe_turn_start turn sv \<noteq> Inr sv'" "observe_actions_proposed turn calls sv \<noteq> Inr sv'"
    "observe_commit turn dispatched errored stop sv \<noteq> Inr sv'" "observe_session_end reason sv \<noteq> Inr sv'"
    "observe_checkpoint cp sv \<noteq> Inr sv'"
proof -
  obtain a r where a: "tv_active sv = Some a" "is_modern a" "r \<in> set (at_calls a)" "rcd_result r = None"
    "tc_name (rcd_call r) \<notin> set RESERVED_CONTROL_NAMES" using hangingE[OF assms] by metis
  show "observe_turn_start turn sv \<noteq> Inr sv'"
    using a by (auto simp: observe_turn_start_def ready_for_turn_def result_simps simp del: checks.simps)
  show "observe_actions_proposed turn calls sv \<noteq> Inr sv'" using a
    by (auto simp: observe_actions_proposed_def active_simps is_modern_def split: if_splits)
  show "observe_commit turn dispatched errored stop sv \<noteq> Inr sv'" using a
    by (auto simp: observe_commit_def check_resolved_def result_simps RESERVED_CONTROL_NAMES_def
        is_completion_control_def Let_def simp del: checks.simps)
  show "observe_session_end reason sv \<noteq> Inr sv'" using a
    by (auto simp: observe_session_end_def result_simps simp del: checks.simps)
  show "observe_checkpoint cp sv \<noteq> Inr sv'" using a by (auto simp: observe_checkpoint_def result_simps)
qed

lemma hanging_call: "observe_tool_call c sv = Inr sv' \<Longrightarrow> hanging i sv \<Longrightarrow> hanging i sv'"
  by (erule hangingE) (auto simp: observe_tool_call_def active_simps put_active_def is_modern_def
      simp del: checks.simps intro!: hangingI)

lemma hanging_result:
  assumes "observe_tool_result i' name e sv = Inr sv'" "hanging i sv" "i' \<noteq> i"
  shows "hanging i sv'"
proof -
  obtain a r where a: "tv_active sv = Some a" "is_modern a" "r \<in> set (at_calls a)" "tc_id (rcd_call r) = i"
    "rcd_result r = None" "tc_name (rcd_call r) \<notin> set RESERVED_CONTROL_NAMES" using hangingE[OF assms(2)] by metis
  then obtain k where k: "position (\<lambda>r. tc_id (rcd_call r) = i') (at_calls a) = Some k" and
    sv': "sv' = put_active (a\<lparr>at_calls := (at_calls a)[k := (at_calls a ! k)\<lparr>rcd_result := Some e\<rparr>]\<rparr>) sv"
    using tool_result_okE[OF assms(1)] by (metis option.inject)
  obtain m where m: "m < length (at_calls a)" "r = at_calls a ! m" using a(3) by (auto simp: in_set_conv_nth)
  have "m \<noteq> k" using position_Some[OF k] m a(4) assms(3) by auto
  then have "r \<in> set ((at_calls a)[k := (at_calls a ! k)\<lparr>rcd_result := Some e\<rparr>])"
    using m by (metis length_list_update nth_list_update_neq nth_mem)
  then show ?thesis using a by (intro hangingI[of _ "a\<lparr>at_calls := (at_calls a)[k := (at_calls a ! k)\<lparr>rcd_result := Some e\<rparr>]\<rparr>" r])
    (simp_all add: sv' put_active_def is_modern_def)
qed

definition result_for :: "string \<Rightarrow> Trace_Events.event \<Rightarrow> bool" where
  "result_for i ev \<longleftrightarrow> (\<exists>name out e d. ev = EvToolResult i name out e d)"

lemma observe_hanging:
  assumes "observe j ev sv = Inr sv'" "hanging i sv" "\<not> result_for i ev"
  shows "hanging i sv'"
proof -
  have ev: "observe_event j ev sv = Inr sv'" using assms(1) by (simp add: observe_def split: if_splits)
  show ?thesis
  proof (cases "shows_turn ev")
    case True
    then show ?thesis using ev assms(2,3)
      by (cases ev rule: shows_turn.cases) (auto simp: hanging_not_closed result_for_def hanging_call hanging_result)
  next
    case False
    then show ?thesis using assms(2) observe_event_view[OF ev] by (simp add: hanging_def)
  qed
qed

lemma observe_all_hanging:
  "observe_all j evs sv = Inr sv' \<Longrightarrow> hanging i sv \<Longrightarrow> list_all (\<lambda>ev. \<not> result_for i ev) evs \<Longrightarrow> hanging i sv'"
  by (induction evs arbitrary: sv) (auto simp: result_simps dest: observe_hanging)

text \<open>A turn that has proposed its actions stays such a turn until the next one starts.\<close>

definition modern :: "trace_structure \<Rightarrow> bool" where
  "modern sv \<longleftrightarrow> (\<forall>turn proposed calls. active_view sv = Some (turn, proposed, calls) \<longrightarrow> proposed \<noteq> None)"

lemma modern_closed: "tv_active sv = None \<Longrightarrow> modern sv"
  by (simp add: modern_def active_view_def)

lemma modern_put: "modern sv \<Longrightarrow> tv_active sv = Some a \<Longrightarrow> at_proposed a' = at_proposed a \<Longrightarrow> modern (put_active a' sv)"
  by (simp add: modern_def active_view_Some)

lemma modern_call: "observe_tool_call c sv = Inr sv' \<Longrightarrow> modern sv \<Longrightarrow> modern sv'"
  by (erule tool_call_okE) (simp add: modern_put)

lemma modern_result: "observe_tool_result i name e sv = Inr sv' \<Longrightarrow> modern sv \<Longrightarrow> modern sv'"
  by (erule tool_result_okE) (simp add: modern_put)

lemma modern_proposed: "observe_actions_proposed turn calls sv = Inr sv' \<Longrightarrow> modern sv'"
  by (auto simp: observe_actions_proposed_def active_simps modern_def split: if_splits)

lemma proposed_modern: "observe j (EvActionsProposed turn calls) sv = Inr sv' \<Longrightarrow> modern sv'"
  by (auto simp: observe_def modern_proposed split: if_splits)

lemma observe_modern:
  assumes "observe j ev sv = Inr sv'" "modern sv" "\<forall>t. ev \<noteq> EvTurnStart t"
  shows "modern sv'"
proof -
  have ev: "observe_event j ev sv = Inr sv'" using assms(1) by (simp add: observe_def split: if_splits)
  show ?thesis
  proof (cases "shows_turn ev")
    case True
    then show ?thesis using ev assms(2,3)
      by (cases ev rule: shows_turn.cases) (simp_all add: modern_call modern_result modern_proposed modern_closed closing_events)
  next
    case False
    then show ?thesis using assms(2) observe_event_view[OF ev] by (simp add: modern_def)
  qed
qed

lemma observe_all_modern:
  "observe_all j evs sv = Inr sv' \<Longrightarrow> modern sv \<Longrightarrow> \<forall>t. EvTurnStart t \<notin> set evs \<Longrightarrow> modern sv'"
  by (induction evs arbitrary: sv) (auto simp: result_simps dest: observe_modern)

lemma call_hanging:
  assumes "observe j (EvToolCall i name args) sv = Inr sv'" "modern sv" "name \<notin> set RESERVED_CONTROL_NAMES"
  shows "hanging i sv'"
proof -
  let ?c = "\<lparr>tc_id = i, tc_name = name, tc_args = args\<rparr>"
  have "observe_tool_call ?c sv = Inr sv'" using assms(1) by (simp add: observe_def split: if_splits)
  then obtain a where "tv_active sv = Some a" "sv' = put_active (a\<lparr>at_calls := at_calls a @ [call_new ?c]\<rparr>) sv"
    by (rule tool_call_okE)
  then show ?thesis using assms(2,3)
    by (intro hangingI[of _ "a\<lparr>at_calls := at_calls a @ [call_new ?c]\<rparr>" "call_new ?c"])
       (simp_all add: put_active_def is_modern_def modern_def active_view_Some call_new_def)
qed

section \<open>Reading the records\<close>

definition recorded_events :: "(trace_error + trace_record) list \<Rightarrow> Trace_Events.event list" where
  "recorded_events items =
     List.map_filter (\<lambda>item. case item of
        Inr r \<Rightarrow> (case tr_event r of Known ev \<Rightarrow> Some ev | Unknown _ \<Rightarrow> None)
      | Inl _ \<Rightarrow> None) items"

lemma recorded_events_Cons:
  "tr_event r = Known ev \<Longrightarrow> recorded_events (Inr r # items) = ev # recorded_events items"
  by (simp add: recorded_events_def List.map_filter_def)

lemma note_event_structure: "note_event ev st = Inr st' \<Longrightarrow> rv_structure st' = rv_structure st \<and> rv_projector st' = rv_projector st"
  by (cases ev) (auto split: if_splits)

lemma invalid_structure_ok: "invalid_structure r = Inr v \<longleftrightarrow> r = Inr v"
  by (auto simp: invalid_structure_def split: sum.splits)

lemma replay_record_okE:
  assumes "replay_record j r st = Inr st'"
  obtains ev ev' where "tr_event r = Known ev" "observe j ev (rv_structure st) = Inr (rv_structure st')"
    "rv_projector st' = projector_step (rv_projector st) ev'"
    "ev' = ev \<or> (\<exists>cp cp'. ev = EvRecoveryCheckpoint cp \<and> ev' = EvRecoveryCheckpoint cp')"
proof -
  from assms obtain st1 ev sv ev' st2 where *: "check_session r st = Inr st1" "known_event r = Inr ev"
    "observe j ev (rv_structure st1) = Inr sv" "anchored st1 ev = Inr ev'"
    "note_event ev' (st1\<lparr>rv_structure := sv\<rparr>) = Inr st2"
    "st' = st2\<lparr>rv_projector := projector_step (rv_projector st2) ev'\<rparr>"
    by (auto simp: replay_record_def result_simps invalid_structure_ok)
  have 1: "rv_structure st1 = rv_structure st" "rv_projector st1 = rv_projector st"
    using *(1) by (auto simp: check_session_def split: option.splits if_splits)
  have ev: "tr_event r = Known ev" using *(2) by (auto simp: known_event_def split: parsed_event.splits)
  have "ev' = ev \<or> (\<exists>cp cp'. ev = EvRecoveryCheckpoint cp \<and> ev' = EvRecoveryCheckpoint cp')"
    using *(4) by (cases "(st1, ev)" rule: anchored.cases) (auto simp: Let_def result_simps split: if_splits option.splits)
  then show ?thesis using that[OF ev] * 1 note_event_structure[OF *(5)] by simp
qed

lemma replay_records_in_step:
  assumes "replay_records j items st = Inr st'" "in_step (rv_structure st) (rv_projector st)" "distinct_calls (rv_structure st)"
  shows "observe_all j (recorded_events items) (rv_structure st) = Inr (rv_structure st')
     \<and> in_step (rv_structure st') (rv_projector st')"
  using assms
proof (induction items arbitrary: st)
  case (Cons item items)
  then obtain r st1 where item: "item = Inr r" "replay_record j r st = Inr st1" "replay_records j items st1 = Inr st'"
    by (auto simp: result_simps split: sum.splits)
  obtain ev ev' where ev: "tr_event r = Known ev" "observe j ev (rv_structure st) = Inr (rv_structure st1)"
    "rv_projector st1 = projector_step (rv_projector st) ev'"
    "ev' = ev \<or> (\<exists>cp cp'. ev = EvRecoveryCheckpoint cp \<and> ev' = EvRecoveryCheckpoint cp')"
    by (rule replay_record_okE[OF item(2)])
  have "in_step (rv_structure st1) (rv_projector st1)"
  proof (cases "\<exists>cp. ev = EvRecoveryCheckpoint cp")
    case True
    then have "tv_active (rv_structure st1) = None"
      using ev(2) by (auto simp: observe_def dest: closing_events split: if_splits)
    then show ?thesis by (rule in_step_closed)
  next
    case False
    then show ?thesis using ev observe_in_step[OF ev(2) Cons.prems(2,3)] by auto
  qed
  from Cons.IH[OF item(3) this observe_distinct_calls[OF ev(2) Cons.prems(3)]] ev(2) show ?case
    by (simp add: item(1) recorded_events_Cons[OF ev(1)])
qed (simp add: recorded_events_def List.map_filter_def)

lemma replay_new_in_step:
  "in_step (rv_structure replay_new) (rv_projector replay_new)" "distinct_calls (rv_structure replay_new)"
  by (simp_all add: replay_new_def structure_new_def in_step_closed distinct_calls_closed)

text \<open>A trace whose last turn has a call without a result is not replayed.\<close>

lemma conclude_hanging:
  assumes "hanging i (rv_structure st)" "in_step (rv_structure st) (rv_projector st)"
  shows "conclude st \<noteq> Inr rs"
proof -
  obtain a r where a: "tv_active (rv_structure st) = Some a" "is_modern a" "r \<in> set (at_calls a)"
    "rcd_result r = None" "tc_name (rcd_call r) \<notin> set RESERVED_CONTROL_NAMES" using hangingE[OF assms(1)] by metis
  then obtain t where t: "tp_pending (rv_projector st) = Some t" "matches a t" using assms(2) in_step_iff by blast
  obtain proposed where p: "pt_actions_proposed t = Some proposed" using t(2) a(2) by (auto simp: matches_def is_modern_def)
  have "tc_id (rcd_call r) \<notin> fst ` set (pt_tool_results t)" "rcd_call r \<in> set (pt_tool_calls t)"
    using t(2) a(3,4) by (auto simp: matches_def)
  then have "list_ex (\<lambda>(_, control). \<not> control) (unresolved_calls t)"
    using a(5) by (auto simp: unresolved_calls_def Let_def list_ex_iff bs_contains_def intro!: bexI[of _ "rcd_call r"])
  then have "close_tail st reason = Inl (AmbiguousTail (pt_turn t) (map fst (unresolved_calls t)))" for reason
    using t(1) p by (simp add: close_tail_def settle_tail_def Let_def)
  then show ?thesis by (auto simp: conclude_def result_simps)
qed

section \<open>Replaying what a run wrote\<close>

text \<open>A record read back carries its event; a checkpoint comes back equal, in the sense of the source.\<close>

lemma replay_records_append:
  "replay_records j (xs @ ys) st = and_then (replay_records j xs st) (replay_records j ys)"
  by (induction xs arbitrary: st) (auto simp: and_then_def split: sum.splits)

lemma record_known [simp]: "tr_event (record_of te) = Known (as_read (te_event te))"
  by (simp add: record_of_def)

lemma as_read_other: "(\<And>cp. ev \<noteq> EvRecoveryCheckpoint cp) \<Longrightarrow> as_read ev = ev"
  by (cases ev) auto

lemma replay_records_project:
  assumes "replay_records j (map (\<lambda>te. Inr (record_of te)) tes) st = Inr st'"
    and "\<forall>te \<in> set tes. \<forall>cp. te_event te \<noteq> EvRecoveryCheckpoint cp"
  shows "rv_projector st' = project (rv_projector st) (map te_event tes)
     \<and> observe_all j (map te_event tes) (rv_structure st) = Inr (rv_structure st')"
  using assms
proof (induction tes arbitrary: st)
  case (Cons te tes)
  then obtain st1 where 1: "replay_record j (record_of te) st = Inr st1"
    "replay_records j (map (\<lambda>te. Inr (record_of te)) tes) st1 = Inr st'" by (auto simp: result_simps)
  have "as_read (te_event te) = te_event te" using Cons.prems(2) by (intro as_read_other) simp
  then have "rv_projector st1 = projector_step (rv_projector st) (te_event te)"
    "observe j (te_event te) (rv_structure st) = Inr (rv_structure st1)"
    using replay_record_okE[OF 1(1)] Cons.prems(2) by (metis list.set_intros(1) parsed_event.inject(1) record_known)+
  then show ?case using Cons.IH[OF 1(2)] Cons.prems(2) by (simp add: project_def)
qed (simp add: project_def)

lemma recorded_events_read: "recorded_events (map (\<lambda>te. Inr (record_of te)) tes) = map (\<lambda>te. as_read (te_event te)) tes"
  by (induction tes) (simp_all add: recorded_events_Cons recorded_events_def[of "[]"] List.map_filter_def)

lemma as_read_prompt [simp]: "as_read ev = EvSessionPrompt s u m \<longleftrightarrow> ev = EvSessionPrompt s u m"
  by (cases ev) simp_all

text \<open>Up to its end, an accepted fresh session has no recovery checkpoint.\<close>

lemma accepted_before_end:
  assumes "replay_records j (map (\<lambda>te. Inr (record_of te)) tes) replay_new = Inr st"
    and "map te_event tes = pre @ [EvSessionEnd r]" "EvSessionPrompt s u m \<in> set pre"
  shows "\<forall>te \<in> set tes. \<forall>cp. te_event te \<noteq> EvRecoveryCheckpoint cp"
proof -
  have "map (\<lambda>te. as_read (te_event te)) tes = map as_read (map te_event tes)" by simp
  then have read: "map (\<lambda>te. as_read (te_event te)) tes = map as_read pre @ [EvSessionEnd r]" by (simp add: assms(2))
  have "observe_all j (map as_read pre @ [EvSessionEnd r]) structure_new = Inr (rv_structure st)"
    using replay_records_in_step[OF assms(1) replay_new_in_step] by (simp add: recorded_events_read read replay_new_def)
  then obtain sv where sv: "observe_all j (map as_read pre) structure_new = Inr sv" "tv_ended_reason sv = None"
    by (auto simp: observe_all_append result_simps observe_def split: if_splits)
  have "EvSessionPrompt s u m \<in> set (map as_read pre)" using assms(3) by force
  then have read_none: "EvRecoveryCheckpoint cp \<notin> set (map as_read pre)" for cp
    by (rule fresh_session_no_checkpoint[OF sv])
  have "EvRecoveryCheckpoint cp \<notin> set pre" for cp
  proof
    assume "EvRecoveryCheckpoint cp \<in> set pre"
    then have "as_read (EvRecoveryCheckpoint cp) \<in> set (map as_read pre)" by (simp only: list.set_map imageI)
    then show False using read_none by simp
  qed
  then have "\<forall>ev \<in> set (map te_event tes). \<forall>cp. ev \<noteq> EvRecoveryCheckpoint cp" by (auto simp: assms(2))
  then show ?thesis by simp
qed

lemma checkpoint_eq_read: "checkpoint_eq (cp\<lparr>rc_guard_history := map wire_turn (rc_guard_history cp)\<rparr>) cp"
  by (simp add: checkpoint_eq_def unmarked_def wire_turn_def comp_def)

lemma boundary_eta: "map (\<lambda>x. \<lparr>tb_turn = tb_turn x, tb_message_index = tb_message_index x\<rparr>) bs = bs"
  by (simp add: map_idI)

lemma checkpoint_version [simp]: "rc_version (projector_checkpoint p) = RECOVERY_CHECKPOINT_VERSION"
  by (simp add: projector_checkpoint_def)

lemma restored_checkpoint: "rc_version cp = RECOVERY_CHECKPOINT_VERSION \<Longrightarrow> projector_checkpoint (restore_checkpoint cp p) = cp"
  by (cases cp) (simp add: projector_checkpoint_def restore_checkpoint_def comp_def boundary_eta)

lemma replay_live_checkpoint:
  assumes "replay_record j (record_of te) st = Inr st'" "te_event te = EvRecoveryCheckpoint (projector_checkpoint (rv_projector st))"
  shows "checkpoint_eq (projector_checkpoint (rv_projector st')) (projector_checkpoint (rv_projector st))
     \<and> tp_pending (rv_projector st') = None"
proof -
  let ?cp = "projector_checkpoint (rv_projector st)"
  let ?read = "?cp\<lparr>rc_guard_history := map wire_turn (rc_guard_history ?cp)\<rparr>"
  from assms obtain st1 sv ev' st2 where *: "check_session (record_of te) st = Inr st1"
    "anchored st1 (EvRecoveryCheckpoint ?read) = Inr ev'"
    "note_event ev' (st1\<lparr>rv_structure := sv\<rparr>) = Inr st2"
    "st' = st2\<lparr>rv_projector := projector_step (rv_projector st2) ev'\<rparr>"
    by (auto simp: replay_record_def result_simps invalid_structure_ok known_event_def)
  have p: "rv_projector st1 = rv_projector st" using *(1) by (auto simp: check_session_def split: option.splits if_splits)
  have ev': "ev' = EvRecoveryCheckpoint ?read" using *(2) p checkpoint_eq_read[of ?cp] by (simp add: Let_def)
  have v: "rc_version ?read = RECOVERY_CHECKPOINT_VERSION" by (simp add: projector_checkpoint_def)
  have "rv_projector st' = restore_checkpoint ?read (rv_projector st2)" using *(4) v by (simp add: ev')
  then show ?thesis using restored_checkpoint[OF v] checkpoint_eq_read[of ?cp] by (simp add: restore_checkpoint_def)
qed

text \<open>The events behind the checkpoint of a pause leave the projected state alone.\<close>

fun pause_tail :: "Trace_Events.event \<Rightarrow> bool" where
  "pause_tail (EvControllerCheckpoint _) = True"
| "pause_tail (EvSessionPaused _) = True"
| "pause_tail (EvNote _) = True"
| "pause_tail _ = False"

fun pause_of :: "Trace_Events.event list \<Rightarrow> string option \<Rightarrow> string option" where
  "pause_of [] r = r"
| "pause_of (EvSessionPaused r' # evs) r = pause_of evs (Some r')"
| "pause_of (ev # evs) r = pause_of evs r"

lemma pause_of_run:
  "pause_of (map EvControllerCheckpoint cps @ EvSessionPaused r # map EvNote ns) x = Some r"
proof -
  have "pause_of (map EvNote ns) x = x" for x by (induction ns) simp_all
  then show ?thesis by (induction cps) simp_all
qed

lemma replay_pause_tail:
  assumes "replay_records j (map (\<lambda>te. Inr (record_of te)) tes) st = Inr st'" "\<forall>te \<in> set tes. pause_tail (te_event te)"
  shows "rv_projector st' = rv_projector st
     \<and> rv_pause_reason st' = pause_of (map te_event tes) (rv_pause_reason st)"
  using assms
proof (induction tes arbitrary: st)
  case (Cons te tes)
  then obtain st1 where 1: "replay_record j (record_of te) st = Inr st1"
    "replay_records j (map (\<lambda>te. Inr (record_of te)) tes) st1 = Inr st'" by (auto simp: result_simps)
  have te: "pause_tail (te_event te)" using Cons.prems(2) by simp
  have step: "rv_projector st1 = rv_projector st
     \<and> pause_of (map te_event tes) (rv_pause_reason st1) = pause_of (map te_event (te # tes)) (rv_pause_reason st)"
    using 1(1) te
    by (cases "te_event te" rule: pause_tail.cases)
       (auto simp: replay_record_def result_simps invalid_structure_ok known_event_def check_session_def
         split: option.splits if_splits)
  then show ?case using Cons.IH[OF 1(2)] Cons.prems(2) by simp
qed simp

lemma project_pause_tail: "\<forall>ev \<in> set evs. pause_tail ev \<Longrightarrow> project p evs = p"
proof (induction evs)
  case (Cons ev evs)
  then have "projector_step p ev = p" by (cases ev rule: pause_tail.cases) simp_all
  then show ?case using Cons by (simp add: project_def)
qed (simp add: project_def)

lemma map_split:
  "map f xs = as @ b # bs \<Longrightarrow> \<exists>ys y zs. xs = ys @ y # zs \<and> map f ys = as \<and> f y = b \<and> map f zs = bs"
  by (auto simp: map_eq_append_conv map_eq_Cons_conv)

lemma projected_pause_reason:
  assumes "projected_controller_checkpoint sv p pol (Some r) paused = Inr (reason, cp)"
  shows "reason = Some r"
proof (cases pol)
  case Evidence
  then obtain w where w: "structure_checkpoint sv = Some w"
    using assms by (auto simp: projected_controller_checkpoint_def result_simps)
  show ?thesis
  proof (cases "from_checkpoint w")
    case (Inr c)
    then show ?thesis using assms Evidence w
      by (auto simp: projected_controller_checkpoint_def ok_or_def Let_def result_simps split: if_splits)
  qed (use assms Evidence w in \<open>simp add: projected_controller_checkpoint_def ok_or_def\<close>)
qed (use assms in \<open>auto simp: projected_controller_checkpoint_def split: if_splits\<close>)

lemma conclude_closed:
  assumes "conclude st = Inr rs" "tp_pending (rv_projector st) = None"
  shows "rs_core rs = projector_checkpoint (rv_projector st)"
    "rv_pause_reason st = Some r \<Longrightarrow> rs_pause_reason rs = Some r" "rv_source_session st = Some (rs_source_session rs)"
proof -
  have p: "commit_pending (rv_projector st) = rv_projector st"
    using assms(2) by (cases "rv_projector st") (simp add: commit_pending_def commit_pending_with_def)
  have "close_tail st reason = Inr (rv_projector st)" for reason
    using assms(2) p by (simp add: close_tail_def Let_def)
  then obtain pol reason cp where c: "rs_core rs = projector_checkpoint (rv_projector st)"
    "projected_controller_checkpoint (rv_structure st) (rv_projector st) pol (terminal_pause st)
       (rv_saw_session_paused st) = Inr (reason, cp)" "rs_pause_reason rs = reason"
    "rv_source_session st = Some (rs_source_session rs)"
    using assms(1) by (auto simp: conclude_def result_simps)
  then show "rs_core rs = projector_checkpoint (rv_projector st)" "rv_source_session st = Some (rs_source_session rs)"
    by simp_all
  show "rs_pause_reason rs = Some r" if "rv_pause_reason st = Some r"
    using projected_pause_reason c(2,3) that by (auto simp: terminal_pause_def)
qed

end
