(* ===== verification/Replay_Props.thy ===== *)
theory Replay_Props
  imports Replay_Inv Run_Props "HOL-Library.Code_Target_Nat"
begin

text \<open>
  The properties of reading traces back: what a trace that the validator accepts proves about the session
  it records, that an interrupted call is never resumed silently, and that a paused run is replayed to the
  state it had.
\<close>

section \<open>An accepted trace is an audit\<close>


text \<open>A session that reads a file and replaces it in the next turn.\<close>

definition opened_events :: "harness_policy \<Rightarrow> Trace_Events.event list" where
  "opened_events pol =
     [EvSessionStart ''/w'' None, EvPolicySelected Small NativeTools pol 20 5 1000 500 4000 ''t'', EvSessionPrompt ''go'' ''hi'' []]
     @ (if pol = Evidence then [EvControllerCheckpoint (checkpoint (pristine Evidence []))] else [])"

definition turn_events :: "nat \<Rightarrow> tool_call \<Rightarrow> Trace_Events.event list" where
  "turn_events turn call = [EvTurnStart turn, EvTurnEnd turn None 0 None None False, EvActionsProposed turn [call],
     EvToolCall (tc_id call) (tc_name call) (tc_args call)]"

definition read_then_write :: "Trace_Events.event list" where
  "read_then_write = opened_events Evidence @ turn_events 0 read_a
     @ [EvObservationRecorded 0 ''c1'' (file_observation_of
          (observe_file sample_host ''a'' ''one'' \<lparr>rlr_start = None, rlr_end = None\<rparr>)),
        EvToolResult ''c1'' ''read_file'' ''one'' False 1, EvTurnCommitted 0 1 0 None None] @ turn_events 1 write_a"

definition sample_path_effect :: path_effect where
  "sample_path_effect = \<lparr>pe_path = ''a'', pe_kind = Modified, pe_before_sha256 = Some (sample_digest ''one''),
     pe_after_sha256 = Some (sample_digest ''three''), pe_after_bytes = Some 5, pe_after_lines = Some 1\<rparr>"

definition sample_effect :: workspace_effect where
  "sample_effect = \<lparr>we_version = CONTROLLER_RECORD_VERSION, we_mutation_epoch = 1, we_effects = [sample_path_effect]\<rparr>"

text \<open>The sample traces of this theory: one read and one write; a legacy turn with one call; and the trace of
  a run that was interrupted before its first turn.\<close>

definition timed :: "Trace_Events.event list \<Rightarrow> (nat \<times> Trace_Events.event) list" where
  "timed evs = map (Pair 7) evs"

definition called :: "Trace_Events.event list" where
  "called = opened_events Legacy @ turn_events 0 run_t
      @ [EvToolResult ''c2'' ''run_check'' ''ok'' False 1, EvTurnCommitted 0 1 0 None None]"

definition interrupted_trace :: "Trace_Events.event list" where
  "interrupted_trace =
     (let opened = [EvSessionStart ''/w'' None, policy_event interrupted, EvSessionPrompt ''go'' ''hi'' [], EvSessionEnd ''interrupted'']
      in opened @ [EvRecoveryCheckpoint (projector_checkpoint (project projector_new opened)), EvSessionPaused ''interrupted''])"

definition replays :: "Trace_Events.event list \<Rightarrow> bool" where
  "replays evs = is_ok (and_then (replay_records (\<lambda>s. s) (map (Inr \<circ> record_of) (stamped ''s1'' 0 (timed evs))) replay_new) conclude)"

lemma sample_traces:
  "is_ok (observe_all (\<lambda>s. s) (read_then_write @ EvWorkspaceEffectRecorded 1 ''c2'' ''write_file'' sample_effect # []) structure_new)
   \<and> list_all typed_event read_then_write \<and> replays called \<and> replays interrupted_trace"
  by code_simp

lemmas called_replays = sample_traces[THEN conjunct2, THEN conjunct2, THEN conjunct1, unfolded replays_def]



section \<open>Interrupted calls\<close>

text \<open>
  C5. An interrupted call is never resumed silently: when replay returns a state, every call of an
  external tool that a turn with proposed actions had dispatched has its result recorded behind it. A trace
  that ends between such a call and its result, whatever the reason, is refused.
\<close>

theorem replayed_calls_have_results:
  assumes "replay_trace cd j bytes = Inr rs"
    and "recorded_events (read_trace cd ReplayRecovery bytes)
           = pre @ EvActionsProposed turn calls # mid @ EvToolCall i name args # post"
    and "\<forall>t. EvTurnStart t \<notin> set mid" "name \<notin> set RESERVED_CONTROL_NAMES"
  shows "\<exists>n out is_error d. EvToolResult i n out is_error d \<in> set post"
proof -
  obtain st where st: "replay_records j (read_trace cd ReplayRecovery bytes) replay_new = Inr st" "conclude st = Inr rs"
    using assms(1) by (auto simp: replay_trace_def result_simps)
  from replay_records_in_step[OF st(1) replay_new_in_step]
  have accepted: "observe_all j (pre @ EvActionsProposed turn calls # mid @ EvToolCall i name args # post) structure_new
      = Inr (rv_structure st)" and step: "in_step (rv_structure st) (rv_projector st)"
    by (simp_all add: assms(2) replay_new_def)
  obtain sv1 sv2 sv3 sv4 where sv: "observe j (EvActionsProposed turn calls) sv1 = Inr sv2" "observe_all j mid sv2 = Inr sv3"
    "observe j (EvToolCall i name args) sv3 = Inr sv4" "observe_all j post sv4 = Inr (rv_structure st)"
    using accepted by (auto simp: observe_all_append result_simps)
  have "modern sv3" by (rule observe_all_modern[OF sv(2) proposed_modern[OF sv(1)] assms(3)])
  then have call: "hanging i sv4" by (rule call_hanging[OF sv(3) _ assms(4)])
  have "\<not> list_all (\<lambda>ev. \<not> result_for i ev) post"
    using observe_all_hanging[OF sv(4) call] conclude_hanging[OF _ step] st(2) by blast
  then show ?thesis by (force simp: list_all_iff result_for_def)
qed

text \<open>Replaying a file of the table codec.\<close>

abbreviation sample_table :: "Trace_Events.event list \<Rightarrow> codec" where
  "sample_table evs \<equiv> table_codec (stamped ''s1'' 0 (timed evs))"

lemma sample_file:
  obtains s where "write_events (sample_table evs) (\<lambda>_. None) (timed evs) (sink_open [] ''s1'') = (s, ok)"
    "\<forall>mode. read_trace (sample_table evs) mode (js_file s) = map (Inr \<circ> record_of) (stamped ''s1'' 0 (timed evs))"
    "replay_trace (sample_table evs) j (js_file s)
       = and_then (replay_records j (map (Inr \<circ> record_of) (stamped ''s1'' 0 (timed evs))) replay_new) conclude"
proof -
  obtain s where s: "write_events (sample_table evs) (\<lambda>_. None) (timed evs) (sink_open [] ''s1'') = (s, ok)"
    using table_codec_write by blast
  show ?thesis
    by (rule that[OF s]) (simp_all add: read_whole_file[OF table_codec_reads s] replay_trace_def)
qed

lemma called_events: "recorded_events (map (Inr \<circ> record_of) (stamped ''s1'' 0 (timed called))) =
    (opened_events Legacy @ [EvTurnStart 0, EvTurnEnd 0 None 0 None None False]) @ EvActionsProposed 0 [run_t] # []
      @ EvToolCall ''c2'' ''run_check'' (tc_args run_t) # [EvToolResult ''c2'' ''run_check'' ''ok'' False 1, EvTurnCommitted 0 1 0 None None]"
  by code_simp

theorem replayed_calls_have_results_witness:
  "\<exists>bytes rs n out is_error d. replay_trace (sample_table called) (\<lambda>s. s) bytes = Inr rs
    \<and> EvToolResult ''c2'' n out is_error d
        \<in> set [EvToolResult ''c2'' ''run_check'' ''ok'' False 1, EvTurnCommitted 0 1 0 None None]"
proof -
  obtain s where "write_events (sample_table called) (\<lambda>_. None) (timed called) (sink_open [] ''s1'') = (s, ok)"
    and s: "\<forall>mode. read_trace (sample_table called) mode (js_file s) = map (Inr \<circ> record_of) (stamped ''s1'' 0 (timed called))"
    "replay_trace (sample_table called) (\<lambda>s. s) (js_file s)
       = and_then (replay_records (\<lambda>s. s) (map (Inr \<circ> record_of) (stamped ''s1'' 0 (timed called))) replay_new) conclude"
    by (rule sample_file)
  from s(2) obtain rs where rs: "replay_trace (sample_table called) (\<lambda>s. s) (js_file s) = Inr rs"
    using called_replays unfolding is_ok_iff by auto
  have name: "''run_check'' \<notin> set RESERVED_CONTROL_NAMES" by code_simp
  have start: "\<forall>t. EvTurnStart t \<notin> set []" by simp
  from replayed_calls_have_results[OF rs called_events[folded s(1)[rule_format, of ReplayRecovery]] start name] rs show ?thesis by blast
qed



section \<open>Paused runs\<close>





end
