(* ===== verification/Trace_Verify.thy ===== *)
theory Trace_Verify
  imports Trace_Structure Trace_File
begin

text \<open>
  The verifier of traces, \<^verbatim>\<open>trace_verify.rs\<close> of the command line: it reads a trace strictly,
  without running anything, feeds every known event to the structural validator and adds the rules about
  sequence numbers, sessions, declared calls and terminators that the validator does not make. Opening the
  file and printing the summary are left out: the verifier starts from the bytes.
\<close>

section \<open>State\<close>

datatype verify_error =
    VerifyMsg string "msg_arg list"
  | RecordUnreadable nat trace_error
  | RecordStructure nat structure_error
  | FinalStructure structure_error

type_synonym 'a verified = "verify_error + 'a"

datatype pre_dispatch_stop = StopRepetition | StopNoProgress | StopOscillation

fun stop_reason_of :: "pre_dispatch_stop \<Rightarrow> string" where
  "stop_reason_of StopRepetition = ''repetition_guard''"
| "stop_reason_of StopNoProgress = ''no_progress''"
| "stop_reason_of StopOscillation = ''oscillation''"

record verified_call =
  vrc_name :: string
  vrc_has_result :: bool

record turn_state =
  vt_number :: nat
  vt_ended :: bool
  vt_modern :: bool
  vt_pre_response_only :: bool
  vt_declared_calls :: nat
  vt_calls :: "(string, verified_call) btree_map"
  vt_pre_dispatch_stop :: "pre_dispatch_stop option"

definition turn_state_new :: "nat \<Rightarrow> turn_state" where
  "turn_state_new turn = \<lparr>vt_number = turn, vt_ended = False, vt_modern = False, vt_pre_response_only = True,
     vt_declared_calls = 0, vt_calls = [], vt_pre_dispatch_stop = None\<rparr>"

record verification_summary =
  vs_records :: nat
  vs_turns :: nat
  vs_tool_calls :: nat
  vs_unknown_events :: nat
  vs_stop_reason :: "string option"

record verification_state =
  vf_structure :: trace_structure
  vf_session :: "string option"
  vf_next_seq :: nat
  vf_saw_start :: bool
  vf_saw_policy :: bool
  vf_protocol :: "action_protocol option"
  vf_current_turn :: "turn_state option"
  vf_saw_turn :: bool
  vf_saw_task_complete :: bool
  vf_saw_submit_plan :: bool
  vf_expected_stop :: "string option"
  vf_mutation_epoch :: nat
  vf_summary :: verification_summary

definition verification_new :: verification_state where
  "verification_new = \<lparr>vf_structure = structure_new, vf_session = None, vf_next_seq = 0, vf_saw_start = False,
     vf_saw_policy = False, vf_protocol = None, vf_current_turn = None, vf_saw_turn = False,
     vf_saw_task_complete = False, vf_saw_submit_plan = False, vf_expected_stop = None, vf_mutation_epoch = 0,
     vf_summary = \<lparr>vs_records = 0, vs_turns = 0, vs_tool_calls = 0, vs_unknown_events = 0, vs_stop_reason = None\<rparr>\<rparr>"

definition count_turn :: "verification_state \<Rightarrow> verification_state" where
  "count_turn s = s\<lparr>vf_summary := (vf_summary s)\<lparr>vs_turns := vs_turns (vf_summary s) + 1\<rparr>\<rparr>"

section \<open>Guards\<close>

definition require_started :: "nat \<Rightarrow> verification_state \<Rightarrow> verify_error check" where
  "require_started index s =
     require (vf_saw_start s) (VerifyMsg ''record {index} appears before session_start'' [ArgNat index])"

definition require_policy :: "nat \<Rightarrow> verification_state \<Rightarrow> verify_error check" where
  "require_policy index s = checks [
     require_started index s,
     require (vf_saw_policy s) (VerifyMsg ''record {index} appears before policy_selected'' [ArgNat index])]"

definition current_turn :: "nat \<Rightarrow> verification_state \<Rightarrow> turn_state verified" where
  "current_turn index s =
     ok_or (vf_current_turn s) (VerifyMsg ''record {index} is turn-scoped but no turn is active'' [ArgNat index])"

definition set_turn :: "turn_state \<Rightarrow> verification_state \<Rightarrow> verification_state" where
  "set_turn t s = s\<lparr>vf_current_turn := Some t\<rparr>"

definition mark_open_turn_ambiguous :: "verification_state \<Rightarrow> verification_state" where
  "mark_open_turn_ambiguous s =
     (case vf_current_turn s of
        Some t \<Rightarrow> if \<not> vt_ended t then set_turn (t\<lparr>vt_pre_response_only := False\<rparr>) s else s
      | None \<Rightarrow> s)"

definition record_pre_dispatch_stop ::
  "nat \<Rightarrow> string \<Rightarrow> pre_dispatch_stop \<Rightarrow> verification_state \<Rightarrow> verification_state verified" where
  "record_pre_dispatch_stop index action stop s =
     and_then (current_turn index s) (\<lambda>t.
       if \<not> vt_ended t
       then Inl (VerifyMsg ''record {index} contains a guard decision before turn {} ended'' [ArgNat index, ArgNat (vt_number t)])
       else if action = ''warned'' then Inr s
       else if action = ''stopped'' then Inr (set_turn (t\<lparr>vt_pre_dispatch_stop := Some stop\<rparr>) s)
       else Inl (VerifyMsg ''record {index} contains unknown {} guard action {other:?}''
              [ArgNat index, ArgText (stop_reason_of stop), ArgText action]))"

section \<open>The end of a turn\<close>

definition check_declared :: "bool \<Rightarrow> turn_state \<Rightarrow> verify_error check" where
  "check_declared eof t =
     (let retryable = (eof \<and> vt_modern t \<and> vt_calls t = []);
          guarded = (vt_pre_dispatch_stop t \<noteq> None \<and> vt_calls t = [] \<and> 0 < vt_declared_calls t)
      in checks [
           require (\<not> (length (vt_calls t) \<noteq> vt_declared_calls t \<and> \<not> guarded \<and> \<not> retryable))
             (VerifyMsg ''turn {} declares {} tool call(s), but {} were recorded''
                [ArgNat (vt_number t), ArgNat (vt_declared_calls t), ArgNat (length (vt_calls t))]),
           require (\<not> (vt_pre_dispatch_stop t \<noteq> None \<and> \<not> guarded))
             (VerifyMsg ''turn {} records a pre-dispatch guard stop with an impossible native call count''
                [ArgNat (vt_number t)])])"

fun settle_calls ::
  "nat \<Rightarrow> (string \<times> verified_call) list \<Rightarrow> verification_state \<Rightarrow> verification_state verified" where
  "settle_calls turn [] s = Inr s"
| "settle_calls turn ((i, c) # calls) s =
     (if vrc_name c = TASK_COMPLETE then settle_calls turn calls (s\<lparr>vf_saw_task_complete := True\<rparr>)
      else if vrc_name c = SUBMIT_PLAN then settle_calls turn calls (s\<lparr>vf_saw_submit_plan := True\<rparr>)
      else if \<not> vrc_has_result c
      then Inl (VerifyMsg ''turn {} tool call {id:?} ({:?}) has no tool_result'' [ArgNat turn, ArgText i, ArgText (vrc_name c)])
      else settle_calls turn calls s)"

definition expect_stop :: "turn_state \<Rightarrow> verification_state \<Rightarrow> verification_state verified" where
  "expect_stop t s =
     (case vt_pre_dispatch_stop t of
        None \<Rightarrow> Inr s
      | Some stop \<Rightarrow>
          if vf_expected_stop s \<noteq> None
          then Inl (VerifyMsg ''trace contains more than one pre-dispatch guard stop'' [])
          else Inr (s\<lparr>vf_expected_stop := Some (stop_reason_of stop)\<rparr>))"

definition finish_turn :: "bool \<Rightarrow> verification_state \<Rightarrow> verification_state verified" where
  "finish_turn eof s0 =
     (case vf_current_turn s0 of
        None \<Rightarrow> Inr s0
      | Some t \<Rightarrow>
          (let s = s0\<lparr>vf_current_turn := None\<rparr>; stop = vs_stop_reason (vf_summary s)
           in if \<not> vt_ended t then
                (if eof \<and> stop = None \<and> vt_pre_response_only t then Inr s
                 else if stop = Some ''provider_error'' \<and> vt_calls t = [] then Inr (count_turn s)
                 else Inl (VerifyMsg ''turn {} has no turn_end'' [ArgNat (vt_number t)]))
              else
                and_then (expect_stop t s) (\<lambda>s1.
                and_then (if vf_protocol s1 = Some NativeTools then check_declared eof t else ok) (\<lambda>_.
                and_then (settle_calls (vt_number t) (vt_calls t) s1) (\<lambda>s2.
                  Inr (count_turn s2))))))"

section \<open>One event\<close>

definition check_prompt_turn :: "nat \<Rightarrow> nat \<Rightarrow> verification_state \<Rightarrow> verification_state verified" where
  "check_prompt_turn index turn s =
     and_then (current_turn index s) (\<lambda>t. and_then (checks [
       require (vt_number t = turn)
         (VerifyMsg ''record {index} names turn {turn}, but active turn is {}'' [ArgNat index, ArgNat turn, ArgNat (vt_number t)]),
       require (\<not> vt_ended t)
         (VerifyMsg ''record {index} records request metadata after turn {turn} ended'' [ArgNat index, ArgNat turn])]) (\<lambda>_. Inr s))"

definition outside_turn :: "nat \<Rightarrow> verification_state \<Rightarrow> verification_state verified" where
  "outside_turn index s = and_then (checks [
     require_started index s,
     require (vf_current_turn s = None)
       (VerifyMsg ''record {index} contains prompt metadata inside a turn'' [ArgNat index])]) (\<lambda>_. Inr s)"

definition note_started :: "nat \<Rightarrow> verification_state \<Rightarrow> verification_state verified" where
  "note_started index s = and_then (require_started index s) (\<lambda>_. Inr (mark_open_turn_ambiguous s))"

definition verify_checkpoint :: "nat \<Rightarrow> recovery_checkpoint \<Rightarrow> verification_state \<Rightarrow> verification_state verified" where
  "verify_checkpoint index cp s =
     and_then (checks [
       require_policy index s,
       require (rc_version cp = RECOVERY_CHECKPOINT_VERSION)
         (VerifyMsg ''record {index} has unsupported checkpoint version {}'' [ArgNat index, ArgNat (rc_version cp)]),
       require (\<not> (vf_saw_turn s \<and> rc_mutation_epoch cp \<noteq> vf_mutation_epoch s))
         (VerifyMsg ''record {index} checkpoint mutation epoch {} differs from projected {}''
            [ArgNat index, ArgNat (rc_mutation_epoch cp), ArgNat (vf_mutation_epoch s)])]) (\<lambda>_.
     Inr (s\<lparr>vf_mutation_epoch := rc_mutation_epoch cp\<rparr>))"

fun apply_event :: "nat \<Rightarrow> event \<Rightarrow> verification_state \<Rightarrow> verification_state verified" where
  "apply_event index (EvSessionStart _ _) s =
     and_then (checks [
       require (index = 0) (VerifyMsg ''session_start must be record 0, found at record {index}'' [ArgNat index]),
       require (\<not> vf_saw_start s) (VerifyMsg ''trace contains more than one session_start'' [])]) (\<lambda>_.
     Inr (s\<lparr>vf_saw_start := True\<rparr>))"
| "apply_event index (EvPolicySelected _ protocol _ _ _ _ _ _ _) s =
     and_then (require_started index s) (\<lambda>_. Inr (s\<lparr>vf_saw_policy := True, vf_protocol := Some protocol\<rparr>))"
| "apply_event index (EvSessionPrompt _ _ _) s = outside_turn index s"
| "apply_event index (EvResumePrompt _ _) s = outside_turn index s"
| "apply_event index (EvPromptComposed _ _ _) s = outside_turn index s"
| "apply_event index (EvTurnStart turn) s =
     and_then (require_policy index s) (\<lambda>_.
     and_then (finish_turn False s) (\<lambda>s1.
       Inr (set_turn (turn_state_new turn) (s1\<lparr>vf_saw_turn := True\<rparr>))))"
| "apply_event index (EvPromptAssembled turn _ _ _) s = check_prompt_turn index turn s"
| "apply_event index (EvMainActionBudget turn _) s = check_prompt_turn index turn s"
| "apply_event index (EvTurnEnd _ _ tool_call_count _ _ _) s =
     and_then (current_turn index s) (\<lambda>t.
       Inr (set_turn (t\<lparr>vt_pre_response_only := False, vt_ended := True, vt_declared_calls := tool_call_count\<rparr>) s))"
| "apply_event index (EvActionsProposed turn calls) s =
     and_then (current_turn index s) (\<lambda>t.
       if vf_protocol s = Some NativeTools \<and> length calls \<noteq> vt_declared_calls t
       then Inl (VerifyMsg ''turn {turn} proposed {} actions but declared {}''
              [ArgNat turn, ArgNat (length calls), ArgNat (vt_declared_calls t)])
       else Inr (set_turn (t\<lparr>vt_modern := True\<rparr>) s))"
| "apply_event index (EvToolCall i name _) s =
     and_then (current_turn index s) (\<lambda>t.
       Inr ((set_turn (t\<lparr>vt_calls := bt_insert i \<lparr>vrc_name = name, vrc_has_result = False\<rparr> (vt_calls t)\<rparr>) s)
              \<lparr>vf_summary := (vf_summary s)\<lparr>vs_tool_calls := vs_tool_calls (vf_summary s) + 1\<rparr>\<rparr>))"
| "apply_event index (EvToolResult i _ _ _ _) s =
     and_then (current_turn index s) (\<lambda>t.
       Inr (case bt_get (vt_calls t) i of
              Some c \<Rightarrow> set_turn (t\<lparr>vt_calls := bt_insert i (c\<lparr>vrc_has_result := True\<rparr>) (vt_calls t)\<rparr>) s
            | None \<Rightarrow> s))"
| "apply_event index (EvWorkspaceMutation _ _ epoch) s = Inr (s\<lparr>vf_mutation_epoch := epoch\<rparr>)"
| "apply_event index (EvCompletionGate epoch _ _ _) s =
     and_then (require (epoch = vf_mutation_epoch s)
       (VerifyMsg ''record {index} has an out-of-state completion gate'' [ArgNat index])) (\<lambda>_. Inr s)"
| "apply_event index (EvTurnCommitted _ _ _ _ _) s = finish_turn False s"
| "apply_event index (EvSessionEnd reason) s =
     and_then (require_policy index s) (\<lambda>_.
       finish_turn False (s\<lparr>vf_summary := (vf_summary s)\<lparr>vs_stop_reason := Some reason\<rparr>\<rparr>))"
| "apply_event index (EvRecoveryCheckpoint cp) s = verify_checkpoint index cp s"
| "apply_event index (EvRepetitionGuard action) s = record_pre_dispatch_stop index action StopRepetition s"
| "apply_event index (EvNoProgressGuard action) s = record_pre_dispatch_stop index action StopNoProgress s"
| "apply_event index (EvOscillationGuard action) s = record_pre_dispatch_stop index action StopOscillation s"
| "apply_event index (EvConstraintApplied _) s = and_then (require_started index s) (\<lambda>_. Inr s)"
| "apply_event index (EvHistoryCompacted _ _ _) s = and_then (require_started index s) (\<lambda>_. Inr s)"
| "apply_event index (EvVerificationCheckPassed _ _ _) s = Inr s"
| "apply_event index (EvSessionPaused _) s = Inr s"
| "apply_event index _ s = note_started index s"

definition validate_event ::
  "(string \<Rightarrow> string) \<Rightarrow> nat \<Rightarrow> event \<Rightarrow> verification_state \<Rightarrow> verification_state verified" where
  "validate_event j index ev s =
     (case observe j ev (vf_structure s) of
        Inl e \<Rightarrow> Inl (RecordStructure index e)
      | Inr sv \<Rightarrow> apply_event index ev (s\<lparr>vf_structure := sv\<rparr>))"

section \<open>The whole trace\<close>

definition validate_stop_terminator :: "verification_state \<Rightarrow> verify_error check" where
  "validate_stop_terminator s =
     (let stop = vs_stop_reason (vf_summary s)
      in checks [
           (case vf_expected_stop s of
              None \<Rightarrow> ok
            | Some expected \<Rightarrow> require (stop = Some expected)
                (VerifyMsg ''pre-dispatch guard stop requires session_end({expected}), found {:?}''
                   [ArgText expected, ArgOptText stop])),
           require (\<not> (stop = Some ''task_complete'' \<and> \<not> vf_saw_task_complete s))
             (VerifyMsg ''session ended task_complete without a task_complete tool call'' []),
           require (\<not> (stop = Some ''plan_submitted'' \<and> \<not> vf_saw_submit_plan s))
             (VerifyMsg ''session ended plan_submitted without a submit_plan tool call'' [])])"

definition count_record :: "verification_state \<Rightarrow> verification_state" where
  "count_record s = s\<lparr>vf_summary := (vf_summary s)\<lparr>vs_records := vs_records (vf_summary s) + 1\<rparr>\<rparr>"

definition verify_record ::
  "(string \<Rightarrow> string) \<Rightarrow> nat \<Rightarrow> trace_record \<Rightarrow> verification_state \<Rightarrow> verification_state verified" where
  "verify_record j index r s0 =
     (let s = count_record s0
      in and_then (checks [
           require (tr_v r = TRACE_SCHEMA_VERSION)
             (VerifyMsg ''record {index} uses schema v{}, expected v{}'' [ArgNat index, ArgNat (tr_v r)]),
           require (tr_seq r = vf_next_seq s)
             (VerifyMsg ''record {index} has sequence {}, expected {}'' [ArgNat index, ArgNat (tr_seq r), ArgNat (vf_next_seq s)]),
           require (vf_session s = None \<or> vf_session s = Some (tr_session r))
             (VerifyMsg ''record {index} changes session from {session:?} to {:?}'' [ArgNat index, ArgText (tr_session r)])]) (\<lambda>_.
         let s1 = s\<lparr>vf_next_seq := vf_next_seq s + 1, vf_session := Some (tr_session r)\<rparr>
         in case tr_event r of
              Known ev \<Rightarrow> validate_event j index ev s1
            | Unknown _ \<Rightarrow>
                (let s2 = mark_open_turn_ambiguous s1
                 in Inr (s2\<lparr>vf_summary := (vf_summary s2)\<lparr>vs_unknown_events := vs_unknown_events (vf_summary s2) + 1\<rparr>\<rparr>))))"

fun verify_records ::
  "(string \<Rightarrow> string) \<Rightarrow> nat \<Rightarrow> (trace_error + trace_record) list \<Rightarrow> verification_state \<Rightarrow> verification_state verified" where
  "verify_records j index [] s = Inr s"
| "verify_records j index (item # items) s =
     (case item of
        Inl e \<Rightarrow> Inl (RecordUnreadable index e)
      | Inr r \<Rightarrow> and_then (verify_record j index r s) (verify_records j (index + 1) items))"

definition verify_end :: "verification_state \<Rightarrow> verification_summary verified" where
  "verify_end s =
     and_then (checks [
       require (vs_records (vf_summary s) \<noteq> 0) (VerifyMsg ''trace contains no records'' []),
       require (vf_saw_start s) (VerifyMsg ''trace has no session_start event'' []),
       require (vf_saw_policy s) (VerifyMsg ''trace has no policy_selected event'' []),
       (case finish_structure (vf_structure s) of Inl e \<Rightarrow> Inl (FinalStructure e) | Inr _ \<Rightarrow> ok)]) (\<lambda>_.
     and_then (finish_turn True s) (\<lambda>s1.
     and_then (validate_stop_terminator s1) (\<lambda>_. Inr (vf_summary s1))))"

definition verify_trace :: "codec \<Rightarrow> (string \<Rightarrow> string) \<Rightarrow> string \<Rightarrow> verification_summary verified" where
  "verify_trace cd j bytes =
     and_then (verify_records j 0 (read_trace cd Strict bytes) verification_new) verify_end"

end
