(* ===== verification/Verify_Props.thy ===== *)
theory Verify_Props
  imports Trace_Verify Replay_Props
begin

text \<open>
  What a successful verification establishes about the file: every line is a record, none is missing,
  doubled or out of order, and their events are a trace the structural validator accepts to its end.
\<close>

section \<open>What the verifier keeps\<close>

definition frame :: "verification_state \<Rightarrow> verification_state \<Rightarrow> bool" where
  "frame s s' \<longleftrightarrow> vf_structure s' = vf_structure s \<and> vf_session s' = vf_session s \<and> vf_next_seq s' = vf_next_seq s
     \<and> vs_records (vf_summary s') = vs_records (vf_summary s) \<and> vf_saw_start s' = vf_saw_start s"

lemma frame_refl [simp]: "frame s s"
  by (simp add: frame_def)

lemma frame_trans: "frame s t \<Longrightarrow> frame t u \<Longrightarrow> frame s u"
  by (simp add: frame_def)

lemma frame_fields [simp]:
  "frame s (set_turn t s') = frame s s'" "frame s (count_turn s') = frame s s'"
  "frame s (s'\<lparr>vf_current_turn := x\<rparr>) = frame s s'" "frame (s\<lparr>vf_current_turn := x\<rparr>) s' = frame s s'"
  by (simp_all add: frame_def set_turn_def count_turn_def)

lemma settle_calls_frame: "settle_calls turn calls s = Inr s' \<Longrightarrow> frame s s'"
proof (induction turn calls s rule: settle_calls.induct)
  case (2 turn i c calls s)
  then show ?case by (auto simp: frame_def split: if_splits)
qed simp

lemma expect_stop_frame: "expect_stop t s = Inr s' \<Longrightarrow> frame s s'"
  by (auto simp: expect_stop_def frame_def split: option.splits if_splits)

lemma finish_turn_frame:
  assumes "finish_turn eof s = Inr s'"
  shows "frame s s'"
proof (cases "vf_current_turn s")
  case (Some t)
  show ?thesis
  proof (cases "vt_ended t")
    case True
    then obtain s1 s2 where "expect_stop t (s\<lparr>vf_current_turn := None\<rparr>) = Inr s1"
      "settle_calls (vt_number t) (vt_calls t) s1 = Inr s2" "s' = count_turn s2"
      using assms Some by (auto simp: finish_turn_def Let_def result_simps)
    then show ?thesis using frame_trans[OF expect_stop_frame settle_calls_frame] by fastforce
  qed (use assms Some in \<open>auto simp: finish_turn_def Let_def split: if_splits\<close>)
qed (use assms in \<open>simp add: finish_turn_def\<close>)

lemma mark_frame [simp]: "frame s (mark_open_turn_ambiguous s)"
  by (simp add: mark_open_turn_ambiguous_def split: option.splits)

lemmas turn_rules = current_turn_def result_simps

lemma apply_event_frame:
  assumes "apply_event index ev s = Inr s'" "\<And>p q. ev \<noteq> EvSessionStart p q"
  shows "frame s s'"
  using assms
  by (cases "(index, ev, s)" rule: apply_event.cases)
     (auto simp: turn_rules outside_turn_def check_prompt_turn_def record_pre_dispatch_stop_def note_started_def
        verify_checkpoint_def simp del: checks.simps split: if_splits option.splits dest!: finish_turn_frame,
      auto simp: frame_def set_turn_def)

section \<open>The records read so far\<close>

definition intact :: "(string \<Rightarrow> string) \<Rightarrow> trace_record list \<Rightarrow> verification_state \<Rightarrow> bool" where
  "intact j recs s \<longleftrightarrow>
     vf_next_seq s = length recs \<and> vs_records (vf_summary s) = length recs \<and> map tr_seq recs = [0..<length recs]
     \<and> (\<forall>r \<in> set recs. vf_session s = Some (tr_session r) \<and> tr_v r = TRACE_SCHEMA_VERSION)
     \<and> observe_all j (recorded_events (map Inr recs)) structure_new = Inr (vf_structure s)
     \<and> (vf_saw_start s \<longrightarrow> (\<exists>p q. recs \<noteq> [] \<and> tr_event (hd recs) = Known (EvSessionStart p q)))"

lemma recorded_events_append: "recorded_events (xs @ ys) = recorded_events xs @ recorded_events ys"
  by (simp add: recorded_events_def List.map_filter_def)

lemma recorded_events_Nil [simp]: "recorded_events [] = []"
  by (simp add: recorded_events_def List.map_filter_def)

lemma count_record_fields [simp]:
  "vf_next_seq (count_record s) = vf_next_seq s" "vf_session (count_record s) = vf_session s"
  "vf_structure (count_record s) = vf_structure s" "vf_saw_start (count_record s) = vf_saw_start s"
  "vs_records (vf_summary (count_record s)) = vs_records (vf_summary s) + 1"
  by (simp_all add: count_record_def)

lemma recorded_events_one:
  "recorded_events [Inr r] = (case tr_event r of Known ev \<Rightarrow> [ev] | Unknown _ \<Rightarrow> [])"
  by (simp add: recorded_events_def List.map_filter_def split: parsed_event.splits)

lemma intact_frame:
  assumes "intact j recs s" "frame (s\<lparr>vf_structure := sv, vf_next_seq := vf_next_seq s + 1, vf_session := Some (tr_session r),
      vf_summary := (vf_summary s)\<lparr>vs_records := vs_records (vf_summary s) + 1\<rparr>\<rparr>) s'"
    and "tr_v r = TRACE_SCHEMA_VERSION" "tr_seq r = vf_next_seq s" "vf_session s = None \<or> vf_session s = Some (tr_session r)"
    and "observe_all j (recorded_events [Inr r]) (vf_structure s) = Inr sv"
  shows "intact j (recs @ [r]) s'"
  using assms by (cases "recs = []") (auto simp: intact_def frame_def recorded_events_append observe_all_append)

lemma verify_record_intact:
  assumes "verify_record j (length recs) r s = Inr s'" "intact j recs s"
  shows "intact j (recs @ [r]) s'"
proof -
  let ?s1 = "(count_record s)\<lparr>vf_next_seq := vf_next_seq s + 1, vf_session := Some (tr_session r)\<rparr>"
  have checks: "tr_v r = TRACE_SCHEMA_VERSION" "tr_seq r = vf_next_seq s" "vf_session s = None \<or> vf_session s = Some (tr_session r)"
    using assms(1) by (auto simp: verify_record_def Let_def result_simps simp del: checks.simps)
  show ?thesis
  proof (cases "tr_event r")
    case (Unknown x)
    then have "s' = (mark_open_turn_ambiguous ?s1)\<lparr>vf_summary := (vf_summary (mark_open_turn_ambiguous ?s1))
        \<lparr>vs_unknown_events := vs_unknown_events (vf_summary (mark_open_turn_ambiguous ?s1)) + 1\<rparr>\<rparr>"
      using assms(1) by (simp add: verify_record_def Let_def result_simps del: checks.simps)
    then have "frame (?s1\<lparr>vf_structure := vf_structure s\<rparr>) s'"
      using mark_frame[of ?s1] by (auto simp: frame_def)
    then show ?thesis using checks Unknown assms(2)
      by (intro intact_frame[where s = s and sv = "vf_structure s"]) (simp_all add: count_record_def recorded_events_one frame_def)
  next
    case (Known ev)
    then have "validate_event j (length recs) ev ?s1 = Inr s'"
      using assms(1) by (simp add: verify_record_def Let_def result_simps del: checks.simps)
    then obtain sv where sv: "observe j ev (vf_structure s) = Inr sv"
      "apply_event (length recs) ev (?s1\<lparr>vf_structure := sv\<rparr>) = Inr s'"
      by (auto simp: validate_event_def split: sum.splits)
    have all: "observe_all j (recorded_events [Inr r]) (vf_structure s) = Inr sv"
      using Known sv(1) by (simp add: recorded_events_one)
    show ?thesis
    proof (cases "\<exists>p q. ev = EvSessionStart p q")
      case False
      then show ?thesis using apply_event_frame[OF sv(2)] checks assms(2) all
        by (intro intact_frame[where s = s and sv = sv]) (simp_all add: count_record_def frame_def)
    next
      case True
      then have "recs = []" "s' = ?s1\<lparr>vf_structure := sv, vf_saw_start := True\<rparr>"
        using sv(2) by (auto simp: result_simps simp del: checks.simps)
      then show ?thesis using True Known checks assms(2) all
        by (auto simp: intact_def)
    qed
  qed
qed

lemma verify_records_intact:
  assumes "verify_records j (length recs) items s = Inr s'" "intact j recs s"
  shows "\<exists>rs. items = map Inr rs \<and> intact j (recs @ rs) s'"
  using assms
proof (induction items arbitrary: recs s)
  case (Cons item items)
  then obtain r s1 where r: "item = Inr r" "verify_record j (length recs) r s = Inr s1"
    "verify_records j (length (recs @ [r])) items s1 = Inr s'"
    by (auto simp: result_simps split: sum.splits)
  from Cons.IH[OF r(3) verify_record_intact[OF r(2) Cons.prems(2)]] obtain rs
    where "items = map Inr rs" "intact j (recs @ r # rs) s'" by auto
  then show ?case using r(1) by (intro exI[of _ "r # rs"]) simp
qed simp

section \<open>Properties\<close>

text \<open>
  C29. A trace that verifies is intact: every line of the file is a record of the current schema and of one
  session, the records are numbered from zero without a gap, a repetition or an exchange, the first one
  starts the session, the summary counts them, and the structural validator accepts their events to the
  end of the trace.
\<close>

theorem verified_trace_intact:
  assumes "verify_trace cd j bytes = Inr summary"
  shows "\<exists>recs st. read_trace cd Strict bytes = map Inr recs \<and> map tr_seq recs = [0..<length recs]
     \<and> (\<exists>name. \<forall>r \<in> set recs. tr_session r = name \<and> tr_v r = TRACE_SCHEMA_VERSION)
     \<and> (\<exists>p q. recs \<noteq> [] \<and> tr_event (hd recs) = Known (EvSessionStart p q))
     \<and> vs_records summary = length recs
     \<and> observe_all j (recorded_events (map Inr recs)) structure_new = Inr st \<and> finish_structure st = ok"
proof -
  obtain s where s: "verify_records j 0 (read_trace cd Strict bytes) verification_new = Inr s" "verify_end s = Inr summary"
    using assms by (auto simp: verify_trace_def result_simps)
  have "intact j [] verification_new"
    by (simp add: intact_def verification_new_def recorded_events_def List.map_filter_def)
  then obtain recs where recs: "read_trace cd Strict bytes = map Inr recs" "intact j recs s"
    using verify_records_intact[of j "[]" "read_trace cd Strict bytes" verification_new s] s(1) by auto
  obtain s1 where e: "vf_saw_start s" "finish_structure (vf_structure s) = ok" "finish_turn True s = Inr s1" "summary = vf_summary s1"
    using s(2) by (auto simp: verify_end_def result_simps simp del: checks.simps split: sum.splits)
  have "vs_records summary = length recs"
    using finish_turn_frame[OF e(3)] recs(2) e(4) by (simp add: frame_def intact_def)
  moreover have "\<forall>r \<in> set recs. tr_session r = the (vf_session s) \<and> tr_v r = TRACE_SCHEMA_VERSION"
    using recs(2) by (auto simp: intact_def)
  ultimately show ?thesis using recs e(1,2) unfolding intact_def by blast
qed

lemma interrupted_verifies:
  "is_ok (and_then (verify_records (\<lambda>s. s) 0 (map (Inr \<circ> record_of) (stamped ''s1'' 0 (timed interrupted_trace))) verification_new) verify_end)"
  by code_simp

theorem verified_trace_intact_witness:
  "\<exists>bytes summary recs. verify_trace (sample_table interrupted_trace) (\<lambda>s. s) bytes = Inr summary
     \<and> read_trace (sample_table interrupted_trace) Strict bytes = map Inr recs \<and> map tr_seq recs = [0..<length recs]
     \<and> vs_records summary = length recs"
proof -
  obtain s where "write_events (sample_table interrupted_trace) (\<lambda>_. None) (timed interrupted_trace) (sink_open [] ''s1'') = (s, ok)"
    and r: "\<forall>mode. read_trace (sample_table interrupted_trace) mode (js_file s)
       = map (Inr \<circ> record_of) (stamped ''s1'' 0 (timed interrupted_trace))"
    and "replay_trace (sample_table interrupted_trace) (\<lambda>s. s) (js_file s)
       = and_then (replay_records (\<lambda>s. s) (map (Inr \<circ> record_of) (stamped ''s1'' 0 (timed interrupted_trace))) replay_new) conclude"
    by (rule sample_file)
  from r obtain summary where v: "verify_trace (sample_table interrupted_trace) (\<lambda>s. s) (js_file s) = Inr summary"
    using interrupted_verifies unfolding is_ok_iff by (auto simp: verify_trace_def)
  from verified_trace_intact[OF v] v show ?thesis by blast
qed

end
