(* ===== verification/Stream_Scan.thy ===== *)
theory Stream_Scan
  imports Messages "HOL-Library.Sublist"
begin

text \<open>
  The scanner of streamed actions, \<^verbatim>\<open>ferric-iron\<close>'s \<^verbatim>\<open>stream_scan.rs\<close>: while an
  action object arrives, it reports the thought, the name of the tool and, for the final answer, the
  summary. It is called with all the text so far and remembers what it has reported. The source walks over
  characters; every character it looks for is ASCII, and in UTF-8 no byte of another character is, so the
  model walks over bytes. White space is the exception, and is recognised by its encodings.
\<close>

section \<open>Decoding a string as far as it has arrived\<close>

datatype stream_delta =
    DeltaText string
  | DeltaToolNamed string
  | DeltaToolCompleted string string
  | DeltaThought string

text \<open>\<^verbatim>\<open>char::from_u32\<close> and the encoding of the character, for numbers of four
  hexadecimal digits: surrogates are not characters.\<close>

definition char_from_u32 :: "nat \<Rightarrow> string option" where
  "char_from_u32 cp =
     (if 0xD800 \<le> cp \<and> cp \<le> 0xDFFF then None
      else if cp < 0x80 then Some [char_of cp]
      else if cp < 0x800 then Some [char_of (0xC0 + cp div 64), char_of (0x80 + cp mod 64)]
      else Some [char_of (0xE0 + cp div 4096), char_of (0x80 + cp div 64 mod 64), char_of (0x80 + cp mod 64)])"

definition hex_digit_value :: "char \<Rightarrow> nat" where
  "hex_digit_value c =
     (if is_ascii_digit c then byte c - 48 else if in_range 97 102 c then byte c - 87 else byte c - 55)"

definition hex_number :: "string \<Rightarrow> nat" where
  "hex_number s = foldl (\<lambda>n c. 16 * n + hex_digit_value c) 0 s"

datatype hex_scan = HexIncomplete | HexMalformed | HexDigits string

definition scan_hex :: "string \<Rightarrow> hex_scan" where
  "scan_hex s =
     (let ds = takeWhile is_ascii_hexdigit (take 4 s)
      in if length ds = 4 then HexDigits ds else if length ds = length s then HexIncomplete else HexMalformed)"

definition simple_escape :: "char \<Rightarrow> char option" where
  "simple_escape c =
     (if c \<in> {CHR 0x22, CHR 0x5C, CHR ''/''} then Some c
      else if c = CHR ''n'' then Some (CHR 0x0A)
      else if c = CHR ''t'' then Some (CHR 0x09)
      else if c = CHR ''r'' then Some (CHR 0x0D)
      else if c = CHR ''b'' then Some (CHR 0x08)
      else if c = CHR ''f'' then Some (CHR 0x0C)
      else None)"

fun emit :: "string \<Rightarrow> string \<times> bool \<times> nat \<Rightarrow> string \<times> bool \<times> nat" where
  "emit p (out, ended, consumed) = (p @ out, ended, consumed)"

text \<open>The text decoded so far, whether the string has ended, and the offset behind its end. An escape
  that may still be completed is held back; one that cannot be ends the string; an unknown one loses its
  backslash.\<close>

function decode_from :: "nat \<Rightarrow> string \<Rightarrow> string \<times> bool \<times> nat" where
  "decode_from i [] = ([], False, 0)"
| "decode_from i (c # s) =
     (if c = CHR 0x22 then ([], True, i + 1)
      else if c = CHR 0x5C then
        (case s of
           [] \<Rightarrow> ([], False, 0)
         | n # s' \<Rightarrow>
             (case simple_escape n of
                Some e \<Rightarrow> emit [e] (decode_from (i + 2) s')
              | None \<Rightarrow>
                  if n = CHR ''u'' then
                    (case scan_hex s' of
                       HexIncomplete \<Rightarrow> ([], False, 0)
                     | HexMalformed \<Rightarrow> ([], True, i)
                     | HexDigits ds \<Rightarrow>
                         emit (case char_from_u32 (hex_number ds) of Some bs \<Rightarrow> bs | None \<Rightarrow> [])
                           (decode_from (i + 6) (drop 4 s')))
                  else decode_from (i + 1) s))
      else emit [c] (decode_from (i + 1) s))"
  by pat_completeness auto
termination
  by (relation "measure (length \<circ> snd)") auto

definition decode_json_string_prefix :: "string \<Rightarrow> string \<times> bool \<times> nat" where
  "decode_json_string_prefix raw = decode_from 0 raw"

section \<open>Finding the values\<close>

text \<open>The width of the white-space character at the start of a text; zero if there is none.\<close>

definition ws_width :: "string \<Rightarrow> nat" where
  "ws_width s =
     (case s of
        [] \<Rightarrow> 0
      | a # s' \<Rightarrow>
          if is_ascii_ws a then 1
          else case s' of
            [] \<Rightarrow> 0
          | b # s'' \<Rightarrow>
              if is_ws2 a b then 2
              else case s'' of [] \<Rightarrow> 0 | c # _ \<Rightarrow> if is_ws3 a b c then 3 else 0)"

function value_quote :: "bool \<Rightarrow> nat \<Rightarrow> string \<Rightarrow> nat option" where
  "value_quote found_colon i s =
     (if s = [] then None
      else if 0 < ws_width s then value_quote found_colon (i + ws_width s) (drop (ws_width s) s)
      else if hd s = CHR '':'' \<and> \<not> found_colon then value_quote True (i + 1) (tl s)
      else if hd s = CHR 0x22 \<and> found_colon then Some i
      else None)"
  by pat_completeness auto
termination
  by (relation "measure (\<lambda>(_, _, s). length s)") auto

declare value_quote.simps [simp del]

definition find_key_value_start :: "string \<Rightarrow> nat \<Rightarrow> string \<Rightarrow> nat option" where
  "find_key_value_start accumulated start_offset key =
     (if length accumulated \<le> start_offset then None
      else case find_str key (drop start_offset accumulated) of
        None \<Rightarrow> None
      | Some k \<Rightarrow>
          (let after_key = start_offset + k + length key
           in map_option (\<lambda>i. after_key + i + 1) (value_quote False 0 (drop after_key accumulated))))"

definition quoted :: "string \<Rightarrow> string" where
  "quoted s = CHR 0x22 # s @ [CHR 0x22]"

definition extract_tool_name :: "string \<Rightarrow> nat \<Rightarrow> string option" where
  "extract_tool_name accumulated start_offset =
     (case find_key_value_start accumulated start_offset (quoted ''tool'') of
        None \<Rightarrow> None
      | Some start \<Rightarrow>
          (let rest = drop start accumulated
           in map_option (\<lambda>end_at. take end_at rest) (find_str [CHR 0x22] rest)))"

definition find_thought_value_start :: "string \<Rightarrow> nat option" where
  "find_thought_value_start accumulated = find_key_value_start accumulated 0 (quoted ''thought'')"

definition find_summary_value_start :: "string \<Rightarrow> nat \<Rightarrow> nat option" where
  "find_summary_value_start accumulated start_offset =
     find_key_value_start accumulated start_offset (quoted ''summary'')"

section \<open>The scanner\<close>

record scanner =
  thought_value_start :: "nat option"
  thought_emitted_len :: nat
  thought_done :: bool
  thought_value_end :: "nat option"
  tool_name :: "string option"
  summary_value_start :: "nat option"
  summary_emitted_len :: nat
  summary_done :: bool

definition scanner_new :: scanner where
  "scanner_new = \<lparr>thought_value_start = None, thought_emitted_len = 0, thought_done = False,
     thought_value_end = None, tool_name = None, summary_value_start = None, summary_emitted_len = 0,
     summary_done = False\<rparr>"

definition locate_thought :: "string \<Rightarrow> scanner \<Rightarrow> scanner" where
  "locate_thought accumulated s =
     (if thought_value_start s \<noteq> None then s
      else case find_str (quoted ''tool'') accumulated of
        Some ti \<Rightarrow>
          (if (case find_str (quoted ''thought'') accumulated of None \<Rightarrow> True | Some hi \<Rightarrow> ti < hi)
           then s\<lparr>thought_done := True\<rparr>
           else s\<lparr>thought_value_start := find_thought_value_start accumulated\<rparr>)
      | None \<Rightarrow> s\<lparr>thought_value_start := find_thought_value_start accumulated\<rparr>)"

definition report_thought :: "string \<Rightarrow> scanner \<Rightarrow> stream_delta list \<times> scanner" where
  "report_thought accumulated s =
     (case thought_value_start s of
        None \<Rightarrow> ([], s)
      | Some start \<Rightarrow>
          if length accumulated < start then ([], s)
          else case decode_json_string_prefix (drop start accumulated) of
            (decoded, ended, consumed_bytes) \<Rightarrow>
              (let new = length decoded > thought_emitted_len s;
                   ds = (if new then [DeltaThought (drop (thought_emitted_len s) decoded)] else []);
                   s1 = (if new then s\<lparr>thought_emitted_len := length decoded\<rparr> else s)
               in (ds, if ended then s1\<lparr>thought_done := True, thought_value_end := Some (start + consumed_bytes)\<rparr>
                       else s1)))"

definition scan_thought :: "string \<Rightarrow> scanner \<Rightarrow> stream_delta list \<times> scanner" where
  "scan_thought accumulated s =
     (if thought_done s then ([], s) else report_thought accumulated (locate_thought accumulated s))"

text \<open>\<open>None\<close>: the name is not complete yet, and the scan ends.\<close>

definition scan_tool :: "string \<Rightarrow> nat \<Rightarrow> scanner \<Rightarrow> (stream_delta list \<times> scanner) option" where
  "scan_tool accumulated offset s =
     (case tool_name s of
        Some _ \<Rightarrow> Some ([], s)
      | None \<Rightarrow> map_option (\<lambda>name. ([DeltaToolNamed name], s\<lparr>tool_name := Some name\<rparr>))
          (extract_tool_name accumulated offset))"

definition report_summary :: "string \<Rightarrow> nat \<Rightarrow> scanner \<Rightarrow> stream_delta list \<times> scanner" where
  "report_summary accumulated offset s0 =
     (let s = (if summary_value_start s0 = None
               then s0\<lparr>summary_value_start := find_summary_value_start accumulated offset\<rparr> else s0)
      in case summary_value_start s of
        None \<Rightarrow> ([], s)
      | Some start \<Rightarrow>
          if length accumulated < start then ([], s)
          else case decode_json_string_prefix (drop start accumulated) of
            (decoded, ended, _) \<Rightarrow>
              (let new = length decoded > summary_emitted_len s;
                   ds = (if new then [DeltaText (drop (summary_emitted_len s) decoded)] else []);
                   s1 = (if new then s\<lparr>summary_emitted_len := length decoded\<rparr> else s)
               in (ds, if ended then s1\<lparr>summary_done := True\<rparr> else s1)))"

definition scan_summary :: "string \<Rightarrow> nat \<Rightarrow> scanner \<Rightarrow> stream_delta list \<times> scanner" where
  "scan_summary accumulated offset s =
     (if tool_name s \<noteq> Some TASK_COMPLETE \<or> summary_done s then ([], s)
      else report_summary accumulated offset s)"

definition scan :: "string \<Rightarrow> scanner \<Rightarrow> stream_delta list \<times> scanner" where
  "scan accumulated s =
     (case scan_thought accumulated s of
        (ds1, s1) \<Rightarrow>
          if \<not> thought_done s1 then (ds1, s1)
          else let offset = (case thought_value_end s1 of None \<Rightarrow> 0 | Some e \<Rightarrow> e)
               in case scan_tool accumulated offset s1 of
                 None \<Rightarrow> (ds1, s1)
               | Some (ds2, s2) \<Rightarrow>
                   (case scan_summary accumulated offset s2 of (ds3, s3) \<Rightarrow> (ds1 @ ds2 @ ds3, s3)))"

end
