(* ===== verification/Stream_Inv.thy ===== *)
theory Stream_Inv
  imports Stream_Scan Incremental
begin

text \<open>
  What the scanner reports is a function of the text alone: each of its searches is stable when the text
  grows, so that scanning in steps leaves the state of one scan and reports the same thought, name and
  summary.
\<close>

section \<open>Searches in a growing text\<close>

lemma find_str_nth:
  assumes "find_str pat s = Some i"
  shows "i + length pat \<le> length s" "j < length pat \<Longrightarrow> s ! (i + j) = pat ! j"
proof -
  obtain r where r: "s = take i s @ pat @ r" "i \<le> length s" using find_str_Some[OF assms] by blast
  then have len: "length s = i + length pat + length r"
    by (metis length_append length_take min.absorb2 add.assoc)
  then show "i + length pat \<le> length s" by simp
  show "s ! (i + j) = pat ! j" if "j < length pat"
    using that r len by (metis add_diff_cancel_left' le_add1 length_take min.absorb2 not_add_less1 nth_append)
qed

lemma find_str_occurs:
  assumes "i + length pat \<le> length s" "\<forall>j < length pat. s ! (i + j) = pat ! j"
  shows "\<exists>k \<le> i. find_str pat s = Some k"
proof -
  have pat: "take (length pat) (drop i s) = pat"
    using assms by (intro nth_equalityI) auto
  have "s = take i s @ take (length pat) (drop i s) @ drop (length pat) (drop i s)" by (simp only: append_take_drop_id)
  then have s: "s = take i s @ pat @ drop (length pat) (drop i s)" by (simp only: pat)
  then obtain k where k: "find_str pat s = Some k" using find_str_None[of pat s] by (cases "find_str pat s") blast+
  have "k \<le> length (take i s)" by (rule find_str_leftmost[OF k s])
  then show ?thesis using k by auto
qed

lemma find_str_in_prefix:
  assumes "find_str pat (s @ u) = Some i" "i + length pat \<le> length s"
  shows "find_str pat s = Some i"
proof -
  have nth: "s ! (i + j) = pat ! j" if "j < length pat" for j
    using find_str_nth(2)[OF assms(1) that] assms(2) that by (simp add: nth_append)
  then obtain k where k: "k \<le> i" "find_str pat s = Some k" using find_str_occurs[OF assms(2)] by blast
  have "s = take k s @ pat @ drop (k + length pat) s"
    using find_str_Some[OF k(2)] by (metis append_eq_conv_conj append_take_drop_id drop_drop add.commute)
  then have "s @ u = take k s @ pat @ (drop (k + length pat) s @ u)" by (metis append_assoc)
  from find_str_leftmost[OF assms(1) this] k find_str_nth(1)[OF k(2)] have "i = k" by simp
  then show ?thesis using k by simp
qed

lemma find_str_stable:
  assumes "find_str pat s = Some i"
  shows "find_str pat (s @ u) = Some i"
proof -
  have len: "i + length pat \<le> length s" using find_str_nth(1)[OF assms] .
  obtain k where k: "k \<le> i" "find_str pat (s @ u) = Some k"
    using find_str_occurs[of i pat "s @ u"] find_str_nth[OF assms] by (auto simp: nth_append)
  then have "find_str pat s = Some k" using find_str_in_prefix[of pat s u k] len by simp
  then show ?thesis using k assms by simp
qed

lemma ws_width_stable: "0 < ws_width s \<Longrightarrow> ws_width (s @ u) = ws_width s \<and> ws_width s \<le> length s"
  by (auto simp: ws_width_def split: list.splits if_splits)

lemma ws_width_ascii: "s \<noteq> [] \<Longrightarrow> byte (hd s) < 128 \<Longrightarrow> ws_width (s @ u) = ws_width s"
  by (cases s) (auto simp: ws_width_def is_ws2_def is_ws3_def split: list.splits)

lemma value_quote_stable: "value_quote b i s = Some r \<Longrightarrow> value_quote b i (s @ u) = Some r"
proof (induction b i s rule: value_quote.induct)
  case (1 b i s)
  note cases = "1.prems"[unfolded value_quote.simps[of b i s]]
  have s: "s \<noteq> []" using cases by (simp split: if_splits)
  show ?case
  proof (cases "0 < ws_width s")
    case True
    then show ?thesis using 1(1)[OF s True] cases s ws_width_stable[OF True, of u]
      by (subst value_quote.simps) simp
  next
    case ws: False
    then have hd: "hd s = CHR '':'' \<or> hd s = CHR 0x22" using cases s by (auto split: if_splits)
    then have w: "ws_width (s @ u) = 0" using ws ws_width_ascii[OF s, of u] by (auto simp: byte_def)
    show ?thesis using 1(2)[OF s ws] cases s ws w
      by (subst value_quote.simps) (auto split: if_splits)
  qed
qed

lemma find_key_stable:
  assumes "find_key_value_start t off key = Some r"
  shows "find_key_value_start (t @ u) off key = Some r"
proof -
  have off: "off < length t" using assms by (simp add: find_key_value_start_def split: if_splits)
  obtain k i where k: "find_str key (drop off t) = Some k"
    and i: "value_quote False 0 (drop (off + k + length key) t) = Some i" "r = off + k + length key + i + 1"
    using assms by (auto simp: find_key_value_start_def Let_def split: if_splits option.splits)
  have "off + k + length key \<le> length t" using find_str_nth(1)[OF k] off by simp
  then have d: "drop (off + k + length key) (t @ u) = drop (off + k + length key) t @ u" "drop off (t @ u) = drop off t @ u"
    using off by simp_all
  show ?thesis using off find_str_stable[OF k, of u] value_quote_stable[OF i(1), of u] i(2)
    by (simp add: find_key_value_start_def Let_def d del: drop_append)
qed

lemma value_quote_bound: "value_quote b i s = Some r \<Longrightarrow> r < i + length s"
proof (induction b i s rule: value_quote.induct)
  case (1 b i s)
  note cases = "1.prems"[unfolded value_quote.simps[of b i s]]
  have s: "s \<noteq> []" using cases by (simp split: if_splits)
  show ?case
  proof (cases "0 < ws_width s")
    case True
    then show ?thesis using 1(1)[OF s True] cases s ws_width_stable[OF True, of "[]"] by simp
  next
    case False
    then show ?thesis using 1(2)[OF s False] cases s by (cases s) (auto split: if_splits)
  qed
qed

lemma find_key_bound: "find_key_value_start t off key = Some r \<Longrightarrow> r \<le> length t"
  using value_quote_bound
  by (fastforce simp: find_key_value_start_def Let_def split: if_splits option.splits dest: find_str_nth(1))

lemma extract_tool_name_stable:
  assumes "extract_tool_name t off = Some n"
  shows "extract_tool_name (t @ u) off = Some n"
proof -
  obtain st e where st: "find_key_value_start t off (quoted ''tool'') = Some st"
    and e: "find_str [CHR 0x22] (drop st t) = Some e" "n = take e (drop st t)"
    using assms by (auto simp: extract_tool_name_def Let_def split: option.splits)
  have d: "drop st (t @ u) = drop st t @ u" using find_key_bound[OF st] by simp
  show ?thesis using find_key_stable[OF st, of u] find_str_stable[OF e(1), of u] e(2) find_str_nth(1)[OF e(1)]
    by (simp add: extract_tool_name_def Let_def d del: drop_append)
qed

section \<open>Decoding a growing string\<close>

lemma emit_prefix: "emit p r = (p @ fst r, fst (snd r), snd (snd r))"
  by (cases r) simp

lemma scan_hex_stable: "scan_hex s \<noteq> HexIncomplete \<Longrightarrow> scan_hex (s @ u) = scan_hex s"
proof -
  let ?ds = "takeWhile is_ascii_hexdigit (take 4 s)"
  assume "scan_hex s \<noteq> HexIncomplete"
  then consider "length ?ds = 4" | "length ?ds \<noteq> 4" "length ?ds \<noteq> length s" by (auto simp: scan_hex_def Let_def split: if_splits)
  then show ?thesis
  proof cases
    case 1
    then have "4 \<le> length s" using length_takeWhile_le[of is_ascii_hexdigit "take 4 s"] by simp
    then show ?thesis using 1 by (simp add: scan_hex_def)
  next
    case 2
    have le: "length ?ds \<le> length (take 4 s)" by (rule length_takeWhile_le)
    have "length ?ds \<noteq> length (take 4 s)" using 2 by (cases "length s \<le> 4") auto
    then have "?ds \<noteq> take 4 s" by metis
    then obtain x where "x \<in> set (take 4 s)" "\<not> is_ascii_hexdigit x" by (meson takeWhile_eq_all_conv)
    then have "takeWhile is_ascii_hexdigit (take 4 (s @ u)) = ?ds" by simp
    then show ?thesis using 2 le by (simp add: scan_hex_def)
  qed
qed

definition extends :: "string \<times> bool \<times> nat \<Rightarrow> string \<times> bool \<times> nat \<Rightarrow> bool" where
  "extends r r' \<longleftrightarrow> prefix (fst r) (fst r') \<and> (fst (snd r) \<longrightarrow> r' = r)"

lemma extends_emit: "extends r r' \<Longrightarrow> extends (emit p r) (emit p r')"
  by (auto simp: extends_def emit_prefix)

lemma extends_start: "extends ([], False, 0) r"
  by (simp add: extends_def)

lemma extends_refl: "extends r r"
  by (simp add: extends_def)

lemma scan_hex_length: "scan_hex s = HexDigits ds \<Longrightarrow> length ds = 4 \<and> 4 \<le> length s"
  using length_takeWhile_le[of is_ascii_hexdigit "take 4 s"] by (auto simp: scan_hex_def Let_def split: if_splits)

lemma decode_from_stable: "extends (decode_from i s) (decode_from i (s @ u))"
proof (induction i s rule: decode_from.induct)
  case (2 i c s)
  show ?case
  proof (cases "c = CHR 0x5C")
    case False
    then show ?thesis using 2(4) by (auto intro: extends_emit extends_refl)
  next
    case esc: True
    show ?thesis
    proof (cases s)
      case Nil
      then show ?thesis using esc by (simp add: extends_start)
    next
      case (Cons n s')
      show ?thesis
      proof (cases "simple_escape n")
        case (Some e)
        then show ?thesis using 2(3)[OF _ esc Cons Some] esc Cons by (simp add: extends_emit)
      next
        case None
        show ?thesis
        proof (cases "n = CHR ''u''")
          case False
          then show ?thesis using 2(2)[OF _ esc Cons None False] esc Cons None False by simp
        next
          case True
          show ?thesis
          proof (cases "scan_hex s'")
            case (HexDigits ds)
            then have d: "drop 4 (s' @ u) = drop 4 s' @ u" using scan_hex_length by simp
            show ?thesis
              using 2(1)[OF _ esc Cons None True HexDigits] esc Cons None True HexDigits scan_hex_stable[of s' u]
              by (simp add: d extends_emit del: drop_append)
          next
            case HexIncomplete
            then show ?thesis using esc Cons None True by (simp add: extends_start)
          next
            case HexMalformed
            then show ?thesis using esc Cons None True scan_hex_stable[of s' u] by (simp add: extends_refl)
          qed
        qed
      qed
    qed
  qed
qed (simp add: extends_start)

section \<open>Scanning in steps\<close>

text \<open>What a list of deltas reports of the thought, the tool and the summary.\<close>

fun thought_part :: "stream_delta \<Rightarrow> string" where
  "thought_part (DeltaThought t) = t"
| "thought_part _ = []"

fun text_part :: "stream_delta \<Rightarrow> string" where
  "text_part (DeltaText t) = t"
| "text_part _ = []"

fun name_part :: "stream_delta \<Rightarrow> string list" where
  "name_part (DeltaToolNamed n) = [n]"
| "name_part _ = []"

definition reported :: "stream_delta list \<Rightarrow> string \<times> string list \<times> string" where
  "reported ds = (concat (map thought_part ds), concat (map name_part ds), concat (map text_part ds))"

fun plus3 :: "string \<times> string list \<times> string \<Rightarrow> string \<times> string list \<times> string \<Rightarrow> string \<times> string list \<times> string" where
  "plus3 (a, b, c) (a', b', c') = (a @ a', b @ b', c @ c')"

lemma reported_append: "reported (ds @ ds') = plus3 (reported ds) (reported ds')"
  by (simp add: reported_def)

lemma reported_Nil [simp]: "reported [] = ([], [], [])"
  by (simp add: reported_def)

lemma tool_not_before_thought:
  assumes "find_str (quoted ''tool'') t = Some ti" "find_str (quoted ''thought'') (t @ u) = Some hi" "hi \<le> ti"
  shows "\<exists>hi. find_str (quoted ''thought'') t = Some hi \<and> hi \<le> ti"
proof -
  let ?h = "quoted ''thought''" and ?t = "quoted ''tool''"
  have tool: "ti + 6 \<le> length t" "\<And>j. j < 6 \<Longrightarrow> (t @ u) ! (ti + j) = ?t ! j"
    using find_str_nth[OF assms(1)] by (auto simp: quoted_def nth_append)
  have thought: "(t @ u) ! (hi + j) = ?h ! j" if "j < 9" for j
    using find_str_nth(2)[OF assms(2)] that by (simp add: quoted_def)
  have "hi \<noteq> ti" using tool(2)[of 2] thought[of 2] by (auto simp: quoted_def)
  moreover have "ti \<noteq> hi + 1" using tool(2)[of 0] thought[of 1] by (auto simp: quoted_def)
  moreover have "ti \<noteq> hi + 2" using tool(2)[of 0] thought[of 2] by (auto simp: quoted_def)
  ultimately have "hi + 3 \<le> ti" using assms(3) by linarith
  then have "hi + length ?h \<le> length t" using tool(1) by (simp add: quoted_def)
  from find_str_in_prefix[OF assms(2) this] show ?thesis using assms(3) by auto
qed

text \<open>Where the thought starts, once it is known, does not change.\<close>

lemma locate_stable:
  assumes "locate_thought t scanner_new \<noteq> scanner_new"
  shows "locate_thought (t @ u) scanner_new = locate_thought t scanner_new"
proof (cases "find_str (quoted ''tool'') t")
  case tool: (Some ti)
  then have tool': "find_str (quoted ''tool'') (t @ u) = Some ti" by (rule find_str_stable)
  show ?thesis
  proof (cases "find_str (quoted ''thought'') t")
    case None
    then have "\<nexists>hi. find_str (quoted ''thought'') (t @ u) = Some hi \<and> hi \<le> ti"
      using tool_not_before_thought[OF tool] by auto
    then show ?thesis using tool tool' None
      by (auto simp: locate_thought_def scanner_new_def not_le split: option.splits)
  next
    case (Some hi)
    then show ?thesis using tool tool' find_str_stable[OF Some, of u] assms find_key_stable
      by (cases "find_thought_value_start t")
        (auto simp: locate_thought_def scanner_new_def find_thought_value_start_def)
  qed
next
  case None
  then obtain st where st: "find_thought_value_start t = Some st"
    using assms by (cases "find_thought_value_start t") (auto simp: locate_thought_def scanner_new_def)
  then have st': "find_thought_value_start (t @ u) = Some st"
    using find_key_stable by (simp add: find_thought_value_start_def)
  from st obtain hi where hi: "find_str (quoted ''thought'') t = Some hi"
    by (auto simp: find_thought_value_start_def find_key_value_start_def split: if_splits option.splits)
  have "\<not> ti < hi" if ti: "find_str (quoted ''tool'') (t @ u) = Some ti" for ti
    using find_str_in_prefix[OF ti] find_str_nth(1)[OF hi] None by (fastforce simp: quoted_def)
  then show ?thesis using None st st' find_str_stable[OF hi, of u]
    by (auto simp: locate_thought_def scanner_new_def split: option.splits)
qed

lemma locate_cases:
  obtains "locate_thought t scanner_new = scanner_new"
  | "locate_thought t scanner_new = scanner_new\<lparr>thought_done := True\<rparr>"
  | st where "locate_thought t scanner_new = scanner_new\<lparr>thought_value_start := Some st\<rparr>" "st \<le> length t"
proof -
  have "st \<le> length t" if "find_thought_value_start t = Some st" for st
    using that find_key_bound by (simp add: find_thought_value_start_def)
  moreover have "locate_thought t scanner_new = scanner_new\<lparr>thought_done := True\<rparr>
      \<or> locate_thought t scanner_new = scanner_new\<lparr>thought_value_start := find_thought_value_start t\<rparr>"
    by (auto simp: locate_thought_def scanner_new_def split: option.splits)
  moreover have "scanner_new\<lparr>thought_value_start := None\<rparr> = scanner_new" by (simp add: scanner_new_def)
  ultimately show ?thesis using that by (cases "find_thought_value_start t") auto
qed

text \<open>The states of a scanner that reads the thought, and of one that reads the summary.\<close>

fun thought_state :: "nat \<Rightarrow> string \<times> bool \<times> nat \<Rightarrow> scanner" where
  "thought_state st (out, ended, consumed) = scanner_new\<lparr>thought_value_start := Some st,
     thought_emitted_len := length out, thought_done := ended,
     thought_value_end := (if ended then Some (st + consumed) else None)\<rparr>"

fun summary_state :: "scanner \<Rightarrow> nat \<Rightarrow> string \<times> bool \<times> nat \<Rightarrow> scanner" where
  "summary_state s st (out, ended, consumed) = s\<lparr>summary_value_start := Some st,
     summary_emitted_len := length out, summary_done := ended\<rparr>"

definition increment :: "(string \<Rightarrow> stream_delta) \<Rightarrow> string \<Rightarrow> string \<Rightarrow> stream_delta list" where
  "increment d out out' = (if length out < length out' then [d (drop (length out) out')] else [])"

lemma increment_reported:
  assumes "prefix out out'"
  shows "reported (increment DeltaThought out out') = (drop (length out) out', [], [])"
    "reported (increment DeltaText out out') = ([], [], drop (length out) out')"
  using assms by (auto simp: increment_def reported_def)

lemma prefix_drop: "prefix a b \<Longrightarrow> a @ drop (length a) b = b"
  by (auto simp: prefix_def)

lemma report_thought_new:
  assumes "st \<le> length t"
  shows "report_thought t (scanner_new\<lparr>thought_value_start := Some st\<rparr>)
    = (increment DeltaThought [] (fst (decode_from 0 (drop st t))), thought_state st (decode_from 0 (drop st t)))"
  using assms
  by (cases "decode_from 0 (drop st t)")
     (auto simp: report_thought_def decode_json_string_prefix_def increment_def scanner_new_def Let_def)

lemma report_thought_again:
  assumes "st \<le> length t" "\<not> ended"
  shows "scan_thought t (thought_state st (out, ended, k))
    = (increment DeltaThought out (fst (decode_from 0 (drop st t))),
       thought_state st (if length out < length (fst (decode_from 0 (drop st t))) then decode_from 0 (drop st t)
         else (out, snd (decode_from 0 (drop st t)))))"
  using assms
  by (cases "decode_from 0 (drop st t)")
     (auto simp: scan_thought_def locate_thought_def report_thought_def decode_json_string_prefix_def increment_def
        scanner_new_def Let_def)
lemma thought_again:
  assumes "extends r (decode_from 0 (drop st t))" "st \<le> length t"
  shows "scan_thought t (thought_state st r)
    = (increment DeltaThought (fst r) (fst (decode_from 0 (drop st t))), thought_state st (decode_from 0 (drop st t)))"
proof (cases "fst (snd r)")
  case True
  then have "decode_from 0 (drop st t) = r" using assms(1) by (simp add: extends_def)
  then show ?thesis using True by (cases r) (simp add: scan_thought_def increment_def)
next
  case False
  have "prefix (fst r) (fst (decode_from 0 (drop st t)))" using assms(1) by (simp add: extends_def)
  then have "\<not> length (fst r) < length (fst (decode_from 0 (drop st t))) \<Longrightarrow> fst (decode_from 0 (drop st t)) = fst r"
    by (auto simp: prefix_def)
  then show ?thesis using report_thought_again[OF assms(2), of "fst (snd r)" "fst r" "snd (snd r)"] False
    by (cases r; cases "decode_from 0 (drop st t)") auto
qed

lemma scan_thought_step:
  assumes "scan_thought t scanner_new = (d1, s1)"
  obtains d2 d3 s2 where "scan_thought (t @ u) s1 = (d2, s2)" "scan_thought (t @ u) scanner_new = (d3, s2)"
    "reported d3 = plus3 (reported d1) (reported d2)" "thought_done s1 \<longrightarrow> s2 = s1 \<and> d2 = [] \<and> d3 = d1"
    "\<exists>r. reported d1 = (r, [], [])"
proof (cases rule: locate_cases[of t])
  case 1
  have new: "scan_thought t scanner_new = ([], scanner_new)" "\<not> thought_done scanner_new"
    using 1 by (simp_all add: scan_thought_def report_thought_def scanner_new_def)
  then show ?thesis using assms that[of _ _ "fst (scan_thought (t @ u) scanner_new)"]
    by (cases "scan_thought (t @ u) scanner_new"; cases "reported (fst (scan_thought (t @ u) scanner_new))") auto
next
  case 2
  then have "locate_thought (t @ u) scanner_new = scanner_new\<lparr>thought_done := True\<rparr>"
    using locate_stable[of t u] by (simp add: scanner_new_def)
  moreover have s1: "s1 = scanner_new\<lparr>thought_done := True\<rparr>" "d1 = []"
    using assms 2 by (simp_all add: scan_thought_def report_thought_def scanner_new_def)
  ultimately have "scan_thought (t @ u) s1 = ([], s1)" "scan_thought (t @ u) scanner_new = ([], s1)"
    by (simp_all add: scan_thought_def report_thought_def scanner_new_def)
  then show ?thesis using that s1 by simp
next
  case (3 st)
  let ?r = "decode_from 0 (drop st t)" and ?r' = "decode_from 0 (drop st (t @ u))"
  have ext: "extends ?r ?r'" using decode_from_stable[of 0 "drop st t" u] 3(2) by simp
  have le: "st \<le> length (t @ u)" using 3(2) by simp
  have "locate_thought (t @ u) scanner_new = scanner_new\<lparr>thought_value_start := Some st\<rparr>"
    using locate_stable[of t u] 3(1) by (simp add: scanner_new_def)
  then have whole: "scan_thought (t @ u) scanner_new = (increment DeltaThought [] (fst ?r'), thought_state st ?r')"
    using report_thought_new[OF le] by (simp add: scan_thought_def scanner_new_def)
  have first: "d1 = increment DeltaThought [] (fst ?r)" "s1 = thought_state st ?r"
    using assms 3 report_thought_new[OF 3(2)] by (simp_all add: scan_thought_def scanner_new_def)
  have again: "scan_thought (t @ u) s1 = (increment DeltaThought (fst ?r) (fst ?r'), thought_state st ?r')"
    using thought_again[OF ext le] first by simp
  have "thought_done s1 \<longrightarrow> ?r' = ?r" using ext first(2) by (cases ?r) (auto simp: extends_def)
  then show ?thesis using that[OF again whole] ext increment_reported(1)[of "fst ?r" "fst ?r'"] first
    by (auto simp: increment_reported extends_def prefix_drop) (auto simp: increment_def)
qed

lemma report_summary_new:
  assumes "summary_value_start s = None" "summary_emitted_len s = 0" "\<not> summary_done s"
    and "find_summary_value_start t off = Some st"
  shows "report_summary t off s
    = (increment DeltaText [] (fst (decode_from 0 (drop st t))), summary_state s st (decode_from 0 (drop st t)))"
  using assms find_key_bound[of t off _ st]
  by (cases "decode_from 0 (drop st t)")
     (auto simp: report_summary_def find_summary_value_start_def decode_json_string_prefix_def increment_def Let_def
        intro!: scanner.equality)

lemma report_summary_again:
  assumes "st \<le> length t" "tool_name s = Some TASK_COMPLETE" "decode_from 0 (drop st t) = (out', ended', k')"
  shows "scan_summary t off (summary_state s st (out, False, k))
    = (increment DeltaText out out', summary_state s st (if length out < length out' then out' else out, ended', k'))"
  using assms by (simp add: scan_summary_def report_summary_def decode_json_string_prefix_def increment_def Let_def)

lemma summary_again:
  assumes "extends r (decode_from 0 (drop st t))" "st \<le> length t" "tool_name s = Some TASK_COMPLETE"
  shows "scan_summary t off (summary_state s st r)
    = (increment DeltaText (fst r) (fst (decode_from 0 (drop st t))), summary_state s st (decode_from 0 (drop st t)))"
proof (cases "fst (snd r)")
  case True
  then have "decode_from 0 (drop st t) = r" using assms(1) by (simp add: extends_def)
  then show ?thesis using True by (cases r) (simp add: scan_summary_def increment_def)
next
  case False
  obtain out' ended' k' where r': "decode_from 0 (drop st t) = (out', ended', k')" by (cases "decode_from 0 (drop st t)")
  obtain out k where r: "r = (out, False, k)" using False by (cases r) auto
  have "prefix out out'" using assms(1) r r' by (simp add: extends_def)
  then have "(if length out < length out' then out' else out) = out'" by (auto simp: prefix_def)
  then show ?thesis using report_summary_again[OF assms(2,3) r'] r r' by simp
qed

lemma summary_step:
  assumes "summary_value_start s = None" "summary_emitted_len s = 0" "\<not> summary_done s"
    and "tool_name s = Some TASK_COMPLETE" "scan_summary t off s = (d1, s1)"
  obtains d2 d3 s2 where "scan_summary (t @ u) off s1 = (d2, s2)" "scan_summary (t @ u) off s = (d3, s2)"
    "reported d3 = plus3 (reported d1) (reported d2)"
    "thought_done s1 = thought_done s" "thought_value_end s1 = thought_value_end s" "tool_name s1 = tool_name s"
proof (cases "find_summary_value_start t off")
  case None
  then have "report_summary t off s = ([], s)" using assms(1) by (simp add: report_summary_def)
  then have "s1 = s" "d1 = []" using assms(3-5) by (simp_all add: scan_summary_def)
  then show ?thesis using that[of "fst (scan_summary (t @ u) off s)" "snd (scan_summary (t @ u) off s)" "fst (scan_summary (t @ u) off s)"]
    by (cases "reported (fst (scan_summary (t @ u) off s))") simp
next
  case (Some st)
  let ?r = "decode_from 0 (drop st t)" and ?r' = "decode_from 0 (drop st (t @ u))"
  have st: "st \<le> length t" "find_summary_value_start (t @ u) off = Some st"
    using Some find_key_bound find_key_stable by (simp_all add: find_summary_value_start_def)
  have ext: "extends ?r ?r'" using decode_from_stable[of 0 "drop st t" u] st(1) by simp
  have le: "st \<le> length (t @ u)" using st(1) by simp
  have first: "d1 = increment DeltaText [] (fst ?r)" "s1 = summary_state s st ?r"
    using assms report_summary_new[OF assms(1-3) Some] by (simp_all add: scan_summary_def)
  have whole: "scan_summary (t @ u) off s = (increment DeltaText [] (fst ?r'), summary_state s st ?r')"
    using assms report_summary_new[OF assms(1-3) st(2)] by (simp add: scan_summary_def)
  have again: "scan_summary (t @ u) off s1 = (increment DeltaText (fst ?r) (fst ?r'), summary_state s st ?r')"
    using summary_again[OF ext le assms(4)] first(2) by simp
  have frame: "thought_done (summary_state s st r) = thought_done s" "tool_name (summary_state s st r) = tool_name s"
    "thought_value_end (summary_state s st r) = thought_value_end s" for r by (cases r; simp)+
  show ?thesis using that[OF again whole] ext increment_reported(2)[of "fst ?r" "fst ?r'"] first frame
    by (simp add: increment_reported extends_def prefix_drop)
qed

lemma scan_thought_frame:
  assumes "scan_thought t scanner_new = (d, s)"
  shows "tool_name s = None" "summary_value_start s = None" "summary_emitted_len s = 0" "\<not> summary_done s"
  using assms
  by (auto simp: scan_thought_def locate_thought_def report_thought_def scanner_new_def Let_def
        split: if_splits option.splits prod.splits)

text \<open>The scan behind the thought.\<close>

definition scan_rest :: "string \<Rightarrow> scanner \<Rightarrow> stream_delta list \<times> scanner" where
  "scan_rest t s =
     (let offset = (case thought_value_end s of None \<Rightarrow> 0 | Some e \<Rightarrow> e)
      in case scan_tool t offset s of
           None \<Rightarrow> ([], s)
         | Some (ds, s') \<Rightarrow> (case scan_summary t offset s' of (ds', s'') \<Rightarrow> (ds @ ds', s'')))"

lemma scan_eq:
  "scan_thought t s = (ds, s1) \<Longrightarrow>
     scan t s = (if thought_done s1 then (ds @ fst (scan_rest t s1), snd (scan_rest t s1)) else (ds, s1))"
  by (auto simp: scan_def scan_rest_def Let_def split: option.splits prod.splits)

lemma rest_step:
  assumes "tool_name s = None" "summary_value_start s = None" "summary_emitted_len s = 0" "\<not> summary_done s"
    and "scan_rest t s = (d1, s1)"
  obtains d2 d3 s2 where "scan_rest (t @ u) s1 = (d2, s2)" "scan_rest (t @ u) s = (d3, s2)"
    "reported d3 = plus3 (reported d1) (reported d2)"
    "thought_done s1 = thought_done s" "thought_value_end s1 = thought_value_end s"
proof -
  let ?off = "case thought_value_end s of None \<Rightarrow> 0 | Some e \<Rightarrow> e"
  show ?thesis
  proof (cases "extract_tool_name t ?off")
    case None
    then have "s1 = s" "d1 = []" using assms(1,5) by (simp_all add: scan_rest_def scan_tool_def)
    then show ?thesis using that[of "fst (scan_rest (t @ u) s)" "snd (scan_rest (t @ u) s)" "fst (scan_rest (t @ u) s)"]
      by (cases "reported (fst (scan_rest (t @ u) s))") simp
  next
    case (Some n)
    let ?s = "s\<lparr>tool_name := Some n\<rparr>"
    have first: "scan_rest t s = (case scan_summary t ?off ?s of (d, s') \<Rightarrow> (DeltaToolNamed n # d, s'))"
      using Some assms(1) by (simp add: scan_rest_def scan_tool_def)
    have whole: "scan_rest (t @ u) s = (case scan_summary (t @ u) ?off ?s of (d, s') \<Rightarrow> (DeltaToolNamed n # d, s'))"
      using extract_tool_name_stable[OF Some] assms(1) by (simp add: scan_rest_def scan_tool_def)
    have rep: "reported (DeltaToolNamed n # d) = plus3 ([], [n], []) (reported d)" for d by (simp add: reported_def)
    show ?thesis
    proof (cases "n = TASK_COMPLETE")
      case False
      then have skip: "scan_summary x ?off ?s = ([], ?s)" for x by (simp add: scan_summary_def)
      have again: "scan_rest (t @ u) ?s = ([], ?s)" using skip by (simp add: scan_rest_def scan_tool_def)
      have "d1 = [DeltaToolNamed n]" "s1 = ?s" using first assms(5) skip by simp_all
      moreover have "scan_rest (t @ u) s = ([DeltaToolNamed n], ?s)" using whole skip by simp
      ultimately show ?thesis using again that[of "[]" ?s "[DeltaToolNamed n]"] by (simp add: reported_def)
    next
      case True
      have s: "summary_value_start ?s = None" "summary_emitted_len ?s = 0" "\<not> summary_done ?s" "tool_name ?s = Some TASK_COMPLETE"
        using True assms by simp_all
      obtain e1 where e1: "scan_summary t ?off ?s = (e1, s1)" "d1 = DeltaToolNamed n # e1"
        using first assms(5) by (auto split: prod.splits)
      obtain e2 e3 s2 where e: "scan_summary (t @ u) ?off s1 = (e2, s2)" "scan_summary (t @ u) ?off ?s = (e3, s2)"
        "reported e3 = plus3 (reported e1) (reported e2)"
        and f: "thought_done s1 = thought_done ?s" "thought_value_end s1 = thought_value_end ?s" "tool_name s1 = tool_name ?s"
        using summary_step[OF s e1(1)] by metis
      have "scan_rest (t @ u) s1 = (e2, s2)" using e(1) f by (simp add: scan_rest_def scan_tool_def)
      then show ?thesis using that[of e2 s2 "DeltaToolNamed n # e3"] whole e e1(2) f
        by (cases "reported e1"; cases "reported e2") (simp add: rep)
    qed
  qed
qed

theorem scan_step:
  assumes "scan t scanner_new = (d1, s1)"
  obtains d2 d3 s2 where "scan (t @ u) s1 = (d2, s2)" "scan (t @ u) scanner_new = (d3, s2)"
    "reported d3 = plus3 (reported d1) (reported d2)"
proof -
  obtain e1 s1' where e1: "scan_thought t scanner_new = (e1, s1')" by (cases "scan_thought t scanner_new")
  obtain e2 e3 s2' where e: "scan_thought (t @ u) s1' = (e2, s2')" "scan_thought (t @ u) scanner_new = (e3, s2')"
    "reported e3 = plus3 (reported e1) (reported e2)" "thought_done s1' \<longrightarrow> s2' = s1' \<and> e2 = [] \<and> e3 = e1"
    and r: "\<exists>r. reported e1 = (r, [], [])"
    using scan_thought_step[OF e1] by metis
  show ?thesis
  proof (cases "thought_done s1'")
    case False
    then have s1: "s1 = s1'" "d1 = e1" using assms scan_eq[OF e1] by simp_all
    show ?thesis
      using that[of "fst (scan (t @ u) s1)" "snd (scan (t @ u) s1)" "fst (scan (t @ u) scanner_new)"]
        scan_eq[OF e(1)] scan_eq[OF e(2)] e(3) s1 r
      by (cases "reported e2"; cases "reported (fst (scan_rest (t @ u) s2'))") (auto simp: reported_append)
  next
    case True
    obtain g1 where g1: "scan_rest t s1' = (g1, s1)" "d1 = e1 @ g1"
      using assms scan_eq[OF e1] True by (cases "scan_rest t s1'") simp
    obtain g2 g3 s2 where g: "scan_rest (t @ u) s1 = (g2, s2)" "scan_rest (t @ u) s1' = (g3, s2)"
      "reported g3 = plus3 (reported g1) (reported g2)" "thought_done s1 = thought_done s1'"
      using rest_step[OF scan_thought_frame[OF e1] g1(1)] by metis
    have "scan_thought (t @ u) s1 = ([], s1)" using g(4) True by (simp add: scan_thought_def)
    from scan_eq[OF this] scan_eq[OF e(2)] have "scan (t @ u) s1 = (g2, s2)" "scan (t @ u) scanner_new = (e1 @ g3, s2)"
      using g e(4) True by simp_all
    then show ?thesis using that g(3) g1(2)
      by (cases "reported e1"; cases "reported g1"; cases "reported g2") (simp add: reported_append)
  qed
qed

end
