(* ===== verification/Provider_Client.thy ===== *)
theory Provider_Client
  imports Agent_Loop Wire_Formats Stream_Inv
begin

text \<open>
  The HTTP provider, \<^verbatim>\<open>ferric-provider\<close>'s \<^verbatim>\<open>openai.rs\<close>: the request body, the reading of a
  whole answer, and the accumulator that builds the same answer from a stream of events. The transport is
  left outside: what a request is answered with (\<open>http_outcome\<close>, \<open>stream_item\<close>) is an argument,
  in the order in which the client awaits it, and so are the JSON library (\<open>from_str\<close>,
  \<open>to_string\<close>, \<open>number_of_f32\<close>) and the URL parser.
\<close>

section \<open>Errors and cancellation\<close>

datatype backend_error =
    ScriptExhausted nat
  | Backend string
  | RetryableBackend string
  | InvalidRequest string

fun is_retryable :: "backend_error \<Rightarrow> bool" where
  "is_retryable (RetryableBackend _) = True"
| "is_retryable _ = False"

fun backend_error_text :: "backend_error \<Rightarrow> string" where
  "backend_error_text (ScriptExhausted n) = ''mock script exhausted after '' @ show_nat n @ '' completions''"
| "backend_error_text (Backend e) = ''backend error: '' @ e"
| "backend_error_text (RetryableBackend e) = ''retryable backend error: '' @ e"
| "backend_error_text (InvalidRequest e) = ''request invalid: '' @ e"

text \<open>\<open>polls\<close> are the values of the flag at the start and at every tick before the operation ends.\<close>

definition with_cancellation :: "bool list option \<Rightarrow> backend_error + 'a \<Rightarrow> backend_error + 'a" where
  "with_cancellation polls result =
     (case polls of
        None \<Rightarrow> result
      | Some seen \<Rightarrow> if list_ex (\<lambda>b. b) seen then Inl (Backend ''Interrupted'') else result)"

section \<open>Request bodies\<close>

record openai_config =
  base_url :: string
  api_key :: string
  config_model :: string

text \<open>Indexing a value by a key or a position gives null where there is nothing; assigning to a key of an
  object replaces its value or appends the key.\<close>

definition json_at :: "json \<Rightarrow> string \<Rightarrow> json" where
  "json_at v k = (case json_get v k of Some x \<Rightarrow> x | None \<Rightarrow> JNull)"

definition json_idx :: "json \<Rightarrow> nat \<Rightarrow> json" where
  "json_idx v i = (case json_as_array v of Some xs \<Rightarrow> if i < length xs then xs ! i else JNull | None \<Rightarrow> JNull)"

fun set_key :: "(string \<times> json) list \<Rightarrow> string \<Rightarrow> json \<Rightarrow> (string \<times> json) list" where
  "set_key [] k v = [(k, v)]"
| "set_key ((k', v') # m) k v = (if k' = k then (k, v) # m else (k', v') # set_key m k v)"

fun json_set :: "string \<Rightarrow> json \<Rightarrow> json \<Rightarrow> json" where
  "json_set k v (JObj m) = JObj (set_key m k v)"
| "json_set k v other = other"

fun role_key :: "role \<Rightarrow> string" where
  "role_key System = ''system''"
| "role_key User = ''user''"
| "role_key Assistant = ''assistant''"
| "role_key Tool = ''tool''"

definition media_part_json :: "media_part \<Rightarrow> json" where
  "media_part_json part =
     (case strip_prefix ''audio/'' (mime part) of
        Some subtype \<Rightarrow>
          JObj [(''type'', JStr ''input_audio''),
            (''input_audio'', JObj [(''data'', JStr (media_data part)),
               (''format'', JStr (if subtype = ''mpeg'' then ''mp3'' else subtype))])]
      | None \<Rightarrow>
          JObj [(''type'', JStr ''image_url''),
            (''image_url'', JObj [(''url'', JStr (''data:'' @ mime part @ '';base64,'' @ media_data part))])])"

definition content_json :: "message \<Rightarrow> json option" where
  "content_json msg =
     (if msg_media msg \<noteq> [] then
        Some (JArr ((case msg_text msg of Some t \<Rightarrow> [JObj [(''type'', JStr ''text''), (''text'', JStr t)]] | None \<Rightarrow> [])
          @ map media_part_json (msg_media msg)))
      else case msg_text msg of
        Some t \<Rightarrow> Some (JStr t)
      | None \<Rightarrow> if msg_role msg = Assistant \<and> msg_tool_calls msg \<noteq> [] then Some (JStr []) else None)"

definition map_message :: "(json \<Rightarrow> string) \<Rightarrow> message \<Rightarrow> json" where
  "map_message to_string msg =
     (let out0 = JObj [(''role'', JStr (role_key (msg_role msg)))];
          out1 = (case content_json msg of Some c \<Rightarrow> json_set ''content'' c out0 | None \<Rightarrow> out0);
          out2 = (if msg_tool_calls msg \<noteq> []
                  then json_set ''tool_calls''
                    (JArr (map (\<lambda>tc. openai_tool_call (tc_id tc) (tc_name tc) (to_string (tc_args tc))) (msg_tool_calls msg))) out1
                  else out1)
      in case msg_tool_call_id msg of Some i \<Rightarrow> json_set ''tool_call_id'' (JStr i) out2 | None \<Rightarrow> out2)"

definition regex_refused :: string where
  "regex_refused = ''a regex constraint cannot be transmitted to an OpenAI-compatible backend; refusing to send an unconstrained request''"

definition build_body ::
  "(json \<Rightarrow> string) \<Rightarrow> (f32 \<Rightarrow> json) \<Rightarrow> string \<Rightarrow> completion_request \<Rightarrow> backend_error + json" where
  "build_body to_string number_of_f32 model request =
     (let sampling = cr_sampling request;
          body = JObj [(''model'', JStr model), (''messages'', JArr (map (map_message to_string) (cr_messages request))),
            (''max_tokens'', JNum (show_nat (max_tokens sampling))),
            (''temperature'', number_of_f32 (temperature sampling)), (''top_p'', number_of_f32 (top_p sampling))]
      in case cr_constraint request of
           Some (JsonSchema schema) \<Rightarrow> Inr (json_set ''response_format'' (response_format ''ferric_action'' schema) body)
         | Some (Lark grammar) \<Rightarrow> Inr (json_set ''grammar'' (JStr grammar) body)
         | Some (Regex _) \<Rightarrow> Inl (InvalidRequest regex_refused)
         | None \<Rightarrow>
             Inr (if cr_tools request \<noteq> []
                  then json_set ''tool_choice'' (JStr ''auto'')
                    (json_set ''tools'' (JArr (map openai_tool (cr_tools request))) body)
                  else body))"

record http_request =
  rq_url :: string
  rq_authorization :: string
  rq_content_type :: string
  rq_body :: json

definition post_request :: "openai_config \<Rightarrow> json \<Rightarrow> http_request" where
  "post_request config body =
     \<lparr>rq_url = rev (dropWhile (\<lambda>c. c = CHR ''/'') (rev (base_url config))) @ ''/chat/completions'',
      rq_authorization = ''Bearer '' @ api_key config, rq_content_type = ''application/json'', rq_body = body\<rparr>"

text \<open>What a request is answered with.\<close>

datatype 'b http_outcome =
    NetworkFailed string
  | HttpStatus string string
  | HttpOk 'b

fun post :: "'b http_outcome \<Rightarrow> backend_error + 'b" where
  "post (NetworkFailed e) = Inl (RetryableBackend (''Network error: '' @ e))"
| "post (HttpStatus status body) = Inl (Backend (''HTTP '' @ status @ '': '' @ body))"
| "post (HttpOk b) = Inr b"

section \<open>Prepared endpoints\<close>

record url =
  url_scheme :: string
  url_host :: "string option"
  url_username :: string
  url_password :: "string option"
  url_query :: "string option"
  url_fragment :: "string option"

record client =
  follows_redirects :: bool
  uses_proxy :: bool

text \<open>The client that reqwest builds by default follows redirects and uses the proxies of the
  environment.\<close>

definition default_client :: client where
  "default_client = \<lparr>follows_redirects = True, uses_proxy = True\<rparr>"

definition prepared_client_builder :: "(string \<Rightarrow> url option) \<Rightarrow> string \<Rightarrow> client \<Rightarrow> backend_error + client" where
  "prepared_client_builder parse base builder =
     (case parse base of
        None \<Rightarrow> Inl (InvalidRequest ''Invalid prepared endpoint'')
      | Some u \<Rightarrow>
          if url_scheme u \<notin> {''http'', ''https''} \<or> url_host u = None \<or> url_username u \<noteq> [] \<or> url_password u \<noteq> None
             \<or> url_query u \<noteq> None \<or> url_fragment u \<noteq> None
          then Inl (InvalidRequest ''Prepared endpoint requires HTTP(S) without embedded credentials or query parameters'')
          else let b = builder\<lparr>follows_redirects := False\<rparr>
               in Inr (if url_host u \<in> {Some ''127.0.0.1'', Some ''localhost'', Some ''[::1]''}
                       then b\<lparr>uses_proxy := False\<rparr> else b))"

section \<open>The answer\<close>

definition toolcall_from_content :: "(string \<Rightarrow> string + json) \<Rightarrow> string \<Rightarrow> tool_call option" where
  "toolcall_from_content from_str content =
     (let trimmed = trim content
      in if \<not> starts_with trimmed ''{'' then None
         else case from_str trimmed of
           Inl _ \<Rightarrow> None
         | Inr v \<Rightarrow>
             (case (case json_get v ''name'' of Some n \<Rightarrow> Some n | None \<Rightarrow> json_get v ''tool'') of
                Some (JStr name) \<Rightarrow>
                  if name = [] then None
                  else (case (case json_get v ''arguments'' of Some a \<Rightarrow> Some a | None \<Rightarrow> json_get v ''args'') of
                     None \<Rightarrow> None
                   | Some (JStr s) \<Rightarrow>
                       (case from_str s of
                          Inl _ \<Rightarrow> None
                        | Inr a \<Rightarrow> Some \<lparr>tc_id = [], tc_name = name, tc_args = a\<rparr>)
                   | Some other \<Rightarrow> Some \<lparr>tc_id = [], tc_name = name, tc_args = other\<rparr>)
              | _ \<Rightarrow> None))"

definition parsed_call :: "(string \<Rightarrow> string + json) \<Rightarrow> string \<times> string \<times> string \<Rightarrow> tool_call" where
  "parsed_call from_str call =
     (case call of (i, name, arguments) \<Rightarrow>
        \<lparr>tc_id = i, tc_name = name,
         tc_args = (case from_str arguments of Inr v \<Rightarrow> v | Inl _ \<Rightarrow> JStr arguments)\<rparr>)"

definition assemble ::
  "(string \<Rightarrow> string + json) \<Rightarrow> string option \<Rightarrow> (string \<times> string \<times> string) list \<Rightarrow> string \<Rightarrow>
   nat option \<Rightarrow> nat option \<Rightarrow> completion" where
  "assemble from_str txt calls finish_reason input_tokens output_tokens =
     (let native = map (parsed_call from_str) calls;
          tool_calls = (if native = []
            then (case Option.bind txt (toolcall_from_content from_str) of Some tc \<Rightarrow> [tc] | None \<Rightarrow> [])
            else native)
      in \<lparr>co_text = txt, co_tool_calls = tool_calls, co_input_tokens = input_tokens,
          co_output_tokens = output_tokens, co_truncated = (finish_reason = ''length'')\<rparr>)"

definition json_field :: "json \<Rightarrow> string" where
  "json_field v = (case json_as_str v of Some s \<Rightarrow> s | None \<Rightarrow> [])"

definition json_token_count :: "json \<Rightarrow> nat option" where
  "json_token_count v = map_option as_u32 (json_as_u64 v)"

definition read_answer :: "(string \<Rightarrow> string + json) \<Rightarrow> json \<Rightarrow> backend_error + completion" where
  "read_answer from_str json_res =
     (case json_as_array (json_at json_res ''choices'') of
        Some (choice # _) \<Rightarrow>
          (let message = json_at choice ''message''; usage = json_at json_res ''usage'';
               calls = map (\<lambda>tc. (json_field (json_at tc ''id''), json_field (json_at (json_at tc ''function'') ''name''),
                         json_field (json_at (json_at tc ''function'') ''arguments'')))
                    (case json_as_array (json_at message ''tool_calls'') of Some xs \<Rightarrow> xs | None \<Rightarrow> [])
           in Inr (assemble from_str (json_as_str (json_at message ''content'')) calls
                 (json_field (json_at choice ''finish_reason''))
                 (json_token_count (json_at usage ''prompt_tokens'')) (json_token_count (json_at usage ''completion_tokens''))))
      | _ \<Rightarrow> Inl (Backend ''Response carried no choices''))"

definition checked_request :: "completion_request \<Rightarrow> backend_error check" where
  "checked_request request = (case validate_request request of Inl e \<Rightarrow> Inl (InvalidRequest e) | Inr _ \<Rightarrow> ok)"

text \<open>\<open>answer\<close> is what a request is answered with: the parsed body of the response, or the
  parser's error.\<close>

definition complete_request ::
  "(string \<Rightarrow> string + json) \<Rightarrow> (json \<Rightarrow> string) \<Rightarrow> (f32 \<Rightarrow> json) \<Rightarrow> openai_config \<Rightarrow>
   (http_request \<Rightarrow> (string + json) http_outcome) \<Rightarrow> bool list option \<Rightarrow> completion_request \<Rightarrow> backend_error + completion" where
  "complete_request from_str to_string number_of_f32 config answer polls request =
     and_then (checked_request request) (\<lambda>_.
     and_then (build_body to_string number_of_f32 (config_model config) request) (\<lambda>body.
     with_cancellation polls
       (and_then (post (answer (post_request config body))) (\<lambda>parsed.
          case parsed of
            Inl e \<Rightarrow> Inl (Backend (''Failed to parse response JSON: '' @ e))
          | Inr v \<Rightarrow> read_answer from_str v))))"

section \<open>Streaming\<close>

record partial_call =
  pc_id :: string
  pc_name :: string
  pc_args :: string

definition partial_new :: partial_call where
  "partial_new = \<lparr>pc_id = [], pc_name = [], pc_args = []\<rparr>"

record accumulator =
  ac_content :: string
  ac_tool_calls :: "partial_call list"
  ac_finish_reason :: string
  ac_input_tokens :: "nat option"
  ac_output_tokens :: "nat option"
  ac_constrained :: bool
  ac_scanner :: scanner

definition accumulator_new :: "bool \<Rightarrow> accumulator" where
  "accumulator_new grammar = \<lparr>ac_content = [], ac_tool_calls = [], ac_finish_reason = [],
     ac_input_tokens = None, ac_output_tokens = None, ac_constrained = grammar, ac_scanner = scanner_new\<rparr>"

text \<open>A piece of content: appended, and either all of it scanned or the piece passed on.\<close>

definition feed_content :: "string \<Rightarrow> accumulator \<Rightarrow> stream_delta list \<times> accumulator" where
  "feed_content piece acc =
     (let content = ac_content acc @ piece
      in if ac_constrained acc
         then (case scan content (ac_scanner acc) of
                 (ds, sc) \<Rightarrow> (ds, acc\<lparr>ac_content := content, ac_scanner := sc\<rparr>))
         else ([DeltaText piece], acc\<lparr>ac_content := content\<rparr>))"

definition extend_call :: "json \<Rightarrow> partial_call \<Rightarrow> partial_call" where
  "extend_call tc e =
     \<lparr>pc_id = pc_id e @ json_field (json_at tc ''id''),
      pc_name = pc_name e @ json_field (json_at (json_at tc ''function'') ''name''),
      pc_args = pc_args e @ json_field (json_at (json_at tc ''function'') ''arguments'')\<rparr>"

definition feed_call :: "json \<Rightarrow> partial_call list \<Rightarrow> partial_call list" where
  "feed_call tc calls =
     (let index = (case json_as_u64 (json_at tc ''index'') of Some i \<Rightarrow> i | None \<Rightarrow> 0);
          padded = calls @ replicate (index + 1 - length calls) partial_new
      in padded[index := extend_call tc (padded ! index)])"

definition feed :: "(json \<Rightarrow> string) \<Rightarrow> json \<Rightarrow> accumulator \<Rightarrow> backend_error + (stream_delta list \<times> accumulator)" where
  "feed to_string chunk acc =
     (case json_get chunk ''error'' of
        Some e \<Rightarrow> Inl (Backend (''stream error event: '' @ to_string e))
      | None \<Rightarrow>
          (let choice = json_idx (json_at chunk ''choices'') 0; delta = json_at choice ''delta'';
               (ds, a1) = (case json_as_str (json_at delta ''content'') of
                  Some piece \<Rightarrow> feed_content piece acc
                | None \<Rightarrow> ([], acc));
               a2 = (case json_as_array (json_at delta ''tool_calls'') of
                  Some tcs \<Rightarrow> a1\<lparr>ac_tool_calls := fold feed_call tcs (ac_tool_calls a1)\<rparr>
                | None \<Rightarrow> a1);
               a3 = (case json_as_str (json_at choice ''finish_reason'') of
                  Some fr \<Rightarrow> a2\<lparr>ac_finish_reason := fr\<rparr>
                | None \<Rightarrow> a2);
               usage = json_at chunk ''usage'';
               a4 = (case json_token_count (json_at usage ''prompt_tokens'') of
                  Some v \<Rightarrow> a3\<lparr>ac_input_tokens := Some v\<rparr>
                | None \<Rightarrow> a3);
               a5 = (case json_token_count (json_at usage ''completion_tokens'') of
                  Some v \<Rightarrow> a4\<lparr>ac_output_tokens := Some v\<rparr>
                | None \<Rightarrow> a4)
           in Inr (ds, a5)))"

definition finish :: "(string \<Rightarrow> string + json) \<Rightarrow> accumulator \<Rightarrow> completion" where
  "finish from_str acc =
     assemble from_str (if ac_content acc = [] then None else Some (ac_content acc))
       (map (\<lambda>c. (pc_id c, pc_name c, pc_args c)) (filter (\<lambda>c. pc_name c \<noteq> []) (ac_tool_calls acc)))
       (ac_finish_reason acc) (ac_input_tokens acc) (ac_output_tokens acc)"

definition sse_utf8_error :: "utf8_error \<Rightarrow> backend_error" where
  "sse_utf8_error e = Backend (''Malformed UTF-8 in SSE response: '' @ utf8_error_text e)"

text \<open>The lines of one read, up to an error or to the terminator (\<open>True\<close>); what was passed on before
  either of them stays passed on.\<close>

fun feed_lines ::
  "(json \<Rightarrow> string) \<Rightarrow> sse_line list \<Rightarrow> accumulator \<Rightarrow> stream_delta list \<times> (backend_error + (accumulator \<times> bool))" where
  "feed_lines to_string [] acc = ([], Inr (acc, False))"
| "feed_lines to_string (SseData chunk # ls) acc =
     (case feed to_string chunk acc of
        Inl e \<Rightarrow> ([], Inl e)
      | Inr (ds, acc') \<Rightarrow> (case feed_lines to_string ls acc' of (ds', r) \<Rightarrow> (ds @ ds', r)))"
| "feed_lines to_string (SseDone # ls) acc = ([], Inr (acc, True))"
| "feed_lines to_string (SseOther # ls) acc = feed_lines to_string ls acc"

text \<open>What the client awaits while it reads the body: bytes, a failure of the transport, or the
  interrupt flag; the end of the list is the end of the body.\<close>

datatype stream_item = Chunk string | StreamFailed string | StreamInterrupted

fun read_stream ::
  "(string \<Rightarrow> string + json) \<Rightarrow> (json \<Rightarrow> string) \<Rightarrow> stream_item list \<Rightarrow> sse_decoder \<Rightarrow> accumulator \<Rightarrow>
   stream_delta list \<times> (backend_error + completion)" where
  "read_stream from_str to_string [] d acc =
     ([], case sse_finish d of Inl e \<Rightarrow> Inl (sse_utf8_error e) | Inr _ \<Rightarrow> Inr (finish from_str acc))"
| "read_stream from_str to_string (StreamFailed e # items) d acc = ([], Inl (RetryableBackend (''stream error: '' @ e)))"
| "read_stream from_str to_string (StreamInterrupted # items) d acc = ([], Inl (Backend ''Interrupted''))"
| "read_stream from_str to_string (Chunk bytes # items) d acc =
     (case sse_push from_str bytes d of
        Inl e \<Rightarrow> ([], Inl (sse_utf8_error e))
      | Inr (ls, d') \<Rightarrow>
          (case feed_lines to_string ls acc of
             (ds, Inl e) \<Rightarrow> (ds, Inl e)
           | (ds, Inr (acc', True)) \<Rightarrow> (ds, Inr (finish from_str acc'))
           | (ds, Inr (acc', False)) \<Rightarrow>
               (case read_stream from_str to_string items d' acc' of (ds', r) \<Rightarrow> (ds @ ds', r))))"

text \<open>\<open>cancelled\<close>: the interrupt flag is set when the request is made.\<close>

definition complete_streaming ::
  "(string \<Rightarrow> string + json) \<Rightarrow> (json \<Rightarrow> string) \<Rightarrow> (f32 \<Rightarrow> json) \<Rightarrow> openai_config \<Rightarrow>
   (http_request \<Rightarrow> stream_item list http_outcome) \<Rightarrow> bool \<Rightarrow> completion_request \<Rightarrow>
   stream_delta list \<times> (backend_error + completion)" where
  "complete_streaming from_str to_string number_of_f32 config answer cancelled request =
     (case and_then (checked_request request)
             (\<lambda>_. build_body to_string number_of_f32 (config_model config) request) of
        Inl e \<Rightarrow> ([], Inl e)
      | Inr body \<Rightarrow>
          if cancelled then ([], Inl (Backend ''Interrupted''))
          else case post (answer (post_request config (json_set ''stream'' (JBool True) body))) of
            Inl e \<Rightarrow> ([], Inl e)
          | Inr items \<Rightarrow>
              read_stream from_str to_string items sse_new (accumulator_new (cr_constraint request \<noteq> None)))"

end
