(* ===== verification/Wire_Props.thy ===== *)
theory Wire_Props
  imports Provider_Client
begin

text \<open>
  The properties of streamed answers: how the network cuts a body is invisible, what the scanner shows
  while an action arrives is what the action says, and the accumulated answer is the one that the same
  response gives in one piece; and the round trip of tool descriptors.
\<close>

section \<open>Cuts of the network\<close>

lemma feed_lines_append:
  "feed_lines to_string (ls @ ls') acc =
     (case feed_lines to_string ls acc of
        (ds, Inr (acc', False)) \<Rightarrow> (case feed_lines to_string ls' acc' of (ds', r) \<Rightarrow> (ds @ ds', r))
      | (ds, r) \<Rightarrow> (ds, r))"
  by (induction to_string ls acc rule: feed_lines.induct)
     (auto split: sum.splits prod.splits bool.splits)

lemma feed_lines_done:
  "feed_lines to_string ls acc = (ds, Inr (acc', b)) \<Longrightarrow> b \<longleftrightarrow> SseDone \<in> set ls"
  by (induction to_string ls acc arbitrary: ds rule: feed_lines.induct) (auto split: sum.splits prod.splits)

lemma lines_left_done: "lines_left from_str s = Inr (ls, rest, stop) \<Longrightarrow> stop \<longleftrightarrow> SseDone \<in> set ls"
proof (induction from_str s arbitrary: ls rule: lines_left.induct)
  case (1 from_str s)
  then show ?case
    by (subst (asm) (2) lines_left.simps) (auto simp: result_simps split: option.splits if_splits)
qed

lemma push_done:
  assumes "sse_ready d" "\<not> sd_done d" "sse_push from_str bytes d = Inr (ls, d')"
  shows "sd_done d' \<longleftrightarrow> SseDone \<in> set ls"
  using assms lines_left_done by (fastforce simp: sse_push_left result_simps)

lemma pushes_after_done: "sd_done d \<Longrightarrow> sse.feed_all from_str cs d = Inr ([], d)"
  by (induction cs) (simp_all add: sse_push_def)

lemma read_chunks_iff:
  assumes "sse_ready d" "\<not> sd_done d"
  shows "read_stream from_str to_string (map Chunk cs) d acc = (ds, Inr co) \<longleftrightarrow>
    (\<exists>ls d' acc' b. sse.feed_all from_str cs d = Inr (ls, d') \<and> feed_lines to_string ls acc = (ds, Inr (acc', b))
       \<and> (b \<or> sse_finish d' = ok) \<and> co = finish from_str acc')"
  using assms
proof (induction cs arbitrary: d acc ds)
  case Nil
  then show ?case by (auto simp: sse_finish_def split: option.splits)
next
  case (Cons c cs)
  show ?case
  proof (cases "sse_push from_str c d")
    case (Inr r)
    obtain ls d1 where r: "r = (ls, d1)" by (cases r)
    have push: "sse_push from_str c d = Inr (ls, d1)" using Inr r by simp
    have ready: "sse_ready d1" by (rule sse.feed_ready[OF Cons.prems(1) push])
    obtain ds1 q where q: "feed_lines to_string ls acc = (ds1, q)" by (cases "feed_lines to_string ls acc")
    show ?thesis
    proof (cases q)
      case (Inl e)
      then show ?thesis by (auto simp: push q feed_lines_append result_simps)
    next
      case (Inr p)
      obtain acc1 b where p: "p = (acc1, b)" by (cases p)
      have b: "b \<longleftrightarrow> sd_done d1"
        using feed_lines_done[of to_string ls acc] q Inr p push_done[OF Cons.prems push] by auto
      show ?thesis
      proof (cases b)
        case True
        then show ?thesis using b pushes_after_done[of d1 from_str cs] by (auto simp: push q Inr p)
      next
        case False
        have IH: "read_stream from_str to_string (map Chunk cs) d1 acc1 = (ds2, Inr co) \<longleftrightarrow>
          (\<exists>ls d' acc' b. sse.feed_all from_str cs d1 = Inr (ls, d') \<and> feed_lines to_string ls acc1 = (ds2, Inr (acc', b))
             \<and> (b \<or> sse_finish d' = ok) \<and> co = finish from_str acc')" for ds2
          using Cons.IH[OF ready] False b by blast
        have read: "read_stream from_str to_string (map Chunk (c # cs)) d acc = (ds, Inr co) \<longleftrightarrow>
            (\<exists>ds2. ds = ds1 @ ds2 \<and> read_stream from_str to_string (map Chunk cs) d1 acc1 = (ds2, Inr co))"
          by (auto simp: push q Inr p False split: prod.splits)
        have all: "sse.feed_all from_str (c # cs) d = Inr (ls', d') \<longleftrightarrow>
            (\<exists>ls2. ls' = ls @ ls2 \<and> sse.feed_all from_str cs d1 = Inr (ls2, d'))" for ls' d'
          by (auto simp: push result_simps)
        have lines: "feed_lines to_string (ls @ ls2) acc = (ds, Inr r) \<longleftrightarrow>
            (\<exists>ds2. ds = ds1 @ ds2 \<and> feed_lines to_string ls2 acc1 = (ds2, Inr r))" for ls2 r
          by (auto simp: feed_lines_append q Inr p False split: prod.splits)
        show ?thesis unfolding read all IH using lines by blast
      qed
    qed
  qed simp
qed

text \<open>
  C21. How the network cuts the body of a streamed answer is invisible: when a request succeeds with the
  bytes of the body in some chunks, it succeeds with the same bytes in any other chunks, and passes on the same
  deltas and returns the same completion. A cut inside a character or inside a line changes nothing.
\<close>

theorem network_cuts_invisible:
  assumes "complete_streaming from_str to_string number_of_f32 config (\<lambda>_. HttpOk (map Chunk cs)) cancelled request
      = (ds, Inr co)"
    and "concat cs' = concat cs"
  shows "complete_streaming from_str to_string number_of_f32 config (\<lambda>_. HttpOk (map Chunk cs')) cancelled request
      = (ds, Inr co)"
proof -
  have new: "sse_ready sse_new" "\<not> sd_done sse_new" by (simp_all add: sse_ready_def sse_new_def)
  have "sse.feed_all from_str cs' sse_new = sse.feed_all from_str cs sse_new"
    by (rule sse.cut_anywhere[OF new(1) assms(2)])
  then have "read_stream from_str to_string (map Chunk cs') sse_new acc = (ds, Inr co)
      \<longleftrightarrow> read_stream from_str to_string (map Chunk cs) sse_new acc = (ds, Inr co)" for acc
    by (simp add: read_chunks_iff[OF new])
  then show ?thesis using assms(1) by (auto simp: complete_streaming_def split: sum.splits if_splits)
qed

definition content_chunk :: "string \<Rightarrow> json" where
  "content_chunk piece = JObj [(''choices'', JArr [JObj [(''delta'', JObj [(''content'', JStr piece)])]])]"

definition toy_config :: openai_config where
  "toy_config = \<lparr>base_url = ''http://h/'', api_key = ''k'', config_model = ''m''\<rparr>"

definition toy_request :: completion_request where
  "toy_request = \<lparr>cr_messages = [user_message ''hi''], cr_sampling = default_sampling, cr_tools = [], cr_constraint = None\<rparr>"

definition toy_answer :: completion where
  "toy_answer = \<lparr>co_text = Some ''ok'', co_tool_calls = [], co_input_tokens = None, co_output_tokens = None,
     co_truncated = False\<rparr>"

abbreviation toy_stream :: "string list \<Rightarrow> stream_delta list \<times> (backend_error + completion)" where
  "toy_stream cs \<equiv> complete_streaming (\<lambda>s. if s = ''x'' then Inr (content_chunk ''ok'') else Inl []) (\<lambda>_. [])
     (\<lambda>_. JNull) toy_config (\<lambda>_. HttpOk (map Chunk cs)) False toy_request"

theorem network_cuts_invisible_witness:
  "toy_stream [''da'', ''ta:x'' @ [CHR 0x0A] @ ''data: [DON'', ''E]'' @ [CHR 0x0A]] = ([DeltaText ''ok''], Inr toy_answer)"
proof -
  have whole: "toy_stream [''data:x'' @ [CHR 0x0A] @ ''data: [DONE]'' @ [CHR 0x0A]] = ([DeltaText ''ok''], Inr toy_answer)"
    by code_simp
  show ?thesis by (rule network_cuts_invisible[OF whole]) simp
qed

section \<open>What is shown while an action arrives\<close>

lemma plus3_zero [simp]: "plus3 ([], [], []) x = x"
  by (cases x) simp









lemma scan_hex_digits: "length ds = 4 \<Longrightarrow> list_all is_ascii_hexdigit ds \<Longrightarrow> scan_hex (ds @ r) = HexDigits ds"
  by (simp add: scan_hex_def list_all_iff takeWhile_eq_all_conv[THEN iffD2])







lemma ws_width_mark: "ws_width (CHR '':'' # s) = 0" "ws_width (CHR 0x22 # s) = 0"
  using ws_width_ascii[of "[CHR '':'']" s] ws_width_ascii[of "[CHR 0x22]" s]
  by (simp_all add: ws_width_def is_ascii_ws_def in_range_def byte_def)

lemma value_quote_colon [simp]: "value_quote False i (CHR '':'' # s) = value_quote True (Suc i) s"
  by (subst value_quote.simps) (simp add: ws_width_mark)

lemma value_quote_quote [simp]: "value_quote True i (CHR 0x22 # s) = Some i"
  by (subst value_quote.simps) (simp add: ws_width_mark)









lemma feed_content_chunk [simp]: "feed to_string (content_chunk p) acc = Inr (feed_content p acc)"
  by (simp add: feed_def content_chunk_def json_at_def json_idx_def json_token_count_def Let_def split: prod.splits)





text \<open>A character that is escaped as a pair of surrogates is lost on the way to the display.\<close>

lemma surrogates_dropped:
  "decode_json_string_prefix (''a'' @ [CHR 0x5C] @ ''ud83d'' @ [CHR 0x5C] @ ''ude00'' @ [CHR 0x22]) = (''a'', True, 14)"
proof -
  have "scan_hex (''d83d'' @ u) = HexDigits ''d83d''" "scan_hex (''de00'' @ u) = HexDigits ''de00''" for u
    by (rule scan_hex_digits; code_simp)+
  moreover have "char_from_u32 (hex_number ''d83d'') = None" "char_from_u32 (hex_number ''de00'') = None"
    by (simp_all add: char_from_u32_def hex_number_def hex_digit_value_def is_ascii_digit_def in_range_def byte_def)
  ultimately show ?thesis by (simp add: decode_json_string_prefix_def simple_escape_def)
qed

section \<open>Streaming builds the answer that one response gives\<close>

lemma decimal_value_snoc: "decimal_value (s @ [c]) = 10 * decimal_value s + digit_value c"
  by (simp add: decimal_value_def)

lemma decimal_value_show: "decimal_value (show_nat n) = n"
proof (induction n rule: show_nat.induct)
  case (1 n)
  show ?case
  proof (cases "n < 10")
    case True
    then show ?thesis by (subst show_nat.simps) (simp add: decimal_value_def digit_value_def)
  next
    case False
    then show ?thesis using 1 by (subst show_nat.simps) (simp add: decimal_value_snoc digit_value_def)
  qed
qed

lemma json_as_u64_show: "n \<le> u64_max \<Longrightarrow> json_as_u64 (JNum (show_nat n)) = Some n"
  using show_nat_digits by (simp add: decimal_value_show list_all_iff)

definition tool_chunk :: "json \<Rightarrow> json" where
  "tool_chunk tc = JObj [(''choices'', JArr [JObj [(''delta'', JObj [(''tool_calls'', JArr [tc])])]])]"

definition call_head :: "nat \<Rightarrow> string \<Rightarrow> string \<Rightarrow> json" where
  "call_head i cid name = JObj [(''index'', JNum (show_nat i)), (''id'', JStr cid),
     (''function'', JObj [(''name'', JStr name), (''arguments'', JStr [])])]"

definition call_piece :: "nat \<Rightarrow> string \<Rightarrow> json" where
  "call_piece i piece = JObj [(''index'', JNum (show_nat i)), (''function'', JObj [(''arguments'', JStr piece)])]"

fun call_chunks :: "nat \<Rightarrow> string \<times> string \<times> string list \<Rightarrow> json list" where
  "call_chunks i (cid, name, pieces) = map tool_chunk (call_head i cid name # map (call_piece i) pieces)"

fun calls_chunks :: "nat \<Rightarrow> (string \<times> string \<times> string list) list \<Rightarrow> json list" where
  "calls_chunks i [] = []"
| "calls_chunks i (c # cs) = call_chunks i c @ calls_chunks (i + 1) cs"

definition last_chunk :: "string \<Rightarrow> nat \<Rightarrow> nat \<Rightarrow> json" where
  "last_chunk reason prompt_tokens answer_tokens = JObj [
     (''choices'', JArr [JObj [(''delta'', JObj []), (''finish_reason'', JStr reason)]]),
     (''usage'', JObj [(''prompt_tokens'', JNum (show_nat prompt_tokens)), (''completion_tokens'', JNum (show_nat answer_tokens))])]"

definition whole_answer :: "string \<Rightarrow> (string \<times> string \<times> string) list \<Rightarrow> string \<Rightarrow> nat \<Rightarrow> nat \<Rightarrow> json" where
  "whole_answer content calls reason prompt_tokens answer_tokens = JObj [
     (''choices'', JArr [JObj [
        (''message'', JObj [(''content'', JStr content),
           (''tool_calls'', JArr (map (\<lambda>(cid, name, arguments). openai_tool_call cid name arguments) calls))]),
        (''finish_reason'', JStr reason)]]),
     (''usage'', JObj [(''prompt_tokens'', JNum (show_nat prompt_tokens)), (''completion_tokens'', JNum (show_nat answer_tokens))])]"

lemma feed_tool_chunk [simp]:
  "feed to_string (tool_chunk tc) acc = Inr ([], acc\<lparr>ac_tool_calls := feed_call tc (ac_tool_calls acc)\<rparr>)"
  by (simp add: feed_def tool_chunk_def json_at_def json_idx_def json_token_count_def)

lemma feed_lines_data:
  "feed_lines to_string (map SseData (c # cs)) acc =
     (case feed to_string c acc of
        Inl e \<Rightarrow> ([], Inl e)
      | Inr (ds, acc') \<Rightarrow> (case feed_lines to_string (map SseData cs) acc' of (ds', r) \<Rightarrow> (ds @ ds', r)))"
  by simp

lemma feed_call_head:
  assumes "length cs \<le> u64_max"
  shows "feed_call (call_head (length cs) cid name) cs = cs @ [\<lparr>pc_id = cid, pc_name = name, pc_args = []\<rparr>]"
  using assms json_as_u64_show[OF assms]
  by (simp add: feed_call_def call_head_def json_at_def extend_call_def json_field_def partial_new_def nth_append
        list_update_append)

lemma feed_call_piece:
  assumes "length cs \<le> u64_max"
  shows "feed_call (call_piece (length cs) p) (cs @ [c]) = cs @ [c\<lparr>pc_args := pc_args c @ p\<rparr>]"
  using assms json_as_u64_show[OF assms]
  by (cases c) (simp add: feed_call_def call_piece_def json_at_def extend_call_def json_field_def nth_append list_update_append)

lemma feed_call_pieces:
  assumes "length cs \<le> u64_max"
  shows "ac_tool_calls acc = cs @ [c] \<Longrightarrow>
    feed_lines to_string (map SseData (map tool_chunk (map (call_piece (length cs)) ps))) acc
      = ([], Inr (acc\<lparr>ac_tool_calls := cs @ [c\<lparr>pc_args := pc_args c @ concat ps\<rparr>]\<rparr>, False))"
proof (induction ps arbitrary: acc c)
  case (Cons p ps)
  show ?case using Cons.IH[of "acc\<lparr>ac_tool_calls := cs @ [c\<lparr>pc_args := pc_args c @ p\<rparr>]\<rparr>" "c\<lparr>pc_args := pc_args c @ p\<rparr>"]
      Cons.prems feed_call_piece[OF assms, of p c] by simp
qed (cases acc, cases c, simp)

definition joined_call :: "string \<times> string \<times> string list \<Rightarrow> string \<times> string \<times> string" where
  "joined_call c = (case c of (cid, name, pieces) \<Rightarrow> (cid, name, concat pieces))"

definition finished_call :: "string \<times> string \<times> string list \<Rightarrow> partial_call" where
  "finished_call c = (case c of (cid, name, pieces) \<Rightarrow> \<lparr>pc_id = cid, pc_name = name, pc_args = concat pieces\<rparr>)"

lemma feed_one_call:
  assumes "ac_tool_calls acc = cs" "length cs \<le> u64_max"
  shows "feed_lines to_string (map SseData (call_chunks (length cs) c)) acc
    = ([], Inr (acc\<lparr>ac_tool_calls := cs @ [finished_call c]\<rparr>, False))"
proof -
  obtain cid name ps where c: "c = (cid, name, ps)" by (cases c)
  let ?acc = "acc\<lparr>ac_tool_calls := cs @ [\<lparr>pc_id = cid, pc_name = name, pc_args = []\<rparr>]\<rparr>"
  show ?thesis
    using feed_call_pieces[OF assms(2), of ?acc _ to_string ps] assms(1) feed_call_head[OF assms(2), of cid name]
    by (simp add: c finished_call_def)
qed

lemma feed_calls:
  assumes "length cs + length calls \<le> u64_max + 1" "ac_tool_calls acc = cs"
  shows "feed_lines to_string (map SseData (calls_chunks (length cs) calls)) acc
    = ([], Inr (acc\<lparr>ac_tool_calls := cs @ map finished_call calls\<rparr>, False))"
  using assms
proof (induction calls arbitrary: cs acc)
  case Nil
  then show ?case by (cases acc) simp
next
  case (Cons c calls)
  have le: "length cs \<le> u64_max" using Cons.prems(1) by simp
  let ?acc = "acc\<lparr>ac_tool_calls := cs @ [finished_call c]\<rparr>"
  have "feed_lines to_string (map SseData (calls_chunks (Suc (length cs)) calls)) ?acc
      = ([], Inr (?acc\<lparr>ac_tool_calls := (cs @ [finished_call c]) @ map finished_call calls\<rparr>, False))"
    using Cons.IH[of "cs @ [finished_call c]" ?acc] Cons.prems(1) by simp
  then show ?case using feed_one_call[OF Cons.prems(2) le, of to_string c] by (simp add: feed_lines_append)
qed

lemma feed_contents:
  "\<exists>ds sc. feed_lines to_string (map SseData (map content_chunk ps)) acc
    = (ds, Inr (acc\<lparr>ac_content := ac_content acc @ concat ps, ac_scanner := sc\<rparr>, False))"
proof (induction ps arbitrary: acc)
  case Nil
  then show ?case by (cases acc) auto
next
  case (Cons p ps)
  have keep: "acc\<lparr>ac_content := ac_content acc @ p, ac_scanner := ac_scanner acc\<rparr> = acc\<lparr>ac_content := ac_content acc @ p\<rparr>"
    by (cases acc) simp
  obtain ds sc where first: "feed_content p acc = (ds, acc\<lparr>ac_content := ac_content acc @ p, ac_scanner := sc\<rparr>)"
  proof (cases "ac_constrained acc")
    case True
    then show ?thesis using that by (cases "scan (ac_content acc @ p) (ac_scanner acc)") (simp add: feed_content_def)
  next
    case False
    then show ?thesis using that[of "[DeltaText p]" "ac_scanner acc"] by (simp add: feed_content_def keep)
  qed
  from Cons.IH[of "acc\<lparr>ac_content := ac_content acc @ p, ac_scanner := sc\<rparr>"] show ?case by (auto simp: first)
qed

lemma feed_last:
  assumes "i \<le> u64_max" "o_count \<le> u64_max"
  shows "feed to_string (last_chunk reason i o_count) acc
    = Inr ([], acc\<lparr>ac_finish_reason := reason, ac_input_tokens := Some (as_u32 i), ac_output_tokens := Some (as_u32 o_count)\<rparr>)"
  using json_as_u64_show[OF assms(1)] json_as_u64_show[OF assms(2)]
  by (simp add: feed_def last_chunk_def json_at_def json_idx_def json_token_count_def)

lemma joined_calls:
  "\<forall>c \<in> set calls. fst (snd c) \<noteq> [] \<Longrightarrow>
   map (\<lambda>c. (pc_id c, pc_name c, pc_args c)) (filter (\<lambda>c. pc_name c \<noteq> []) (map finished_call calls)) = map joined_call calls"
  by (induction calls) (auto simp: finished_call_def joined_call_def)

lemma read_whole_answer:
  assumes "i \<le> u64_max" "o_count \<le> u64_max"
  shows "read_answer from_str (whole_answer content calls reason i o_count)
    = Inr (assemble from_str (Some content) calls reason (Some (as_u32 i)) (Some (as_u32 o_count)))"
proof -
  have "map (\<lambda>tc. (json_field (json_at tc ''id''), json_field (json_at (json_at tc ''function'') ''name''),
      json_field (json_at (json_at tc ''function'') ''arguments'')))
      (map (\<lambda>(cid, name, arguments). openai_tool_call cid name arguments) calls) = calls"
    by (induction calls) (auto simp: json_field_def json_at_def openai_tool_call_def)
  then show ?thesis using json_as_u64_show[OF assms(1)] json_as_u64_show[OF assms(2)]
    by (simp add: read_answer_def whole_answer_def json_at_def json_token_count_def json_field_def Let_def)
qed

text \<open>
  C24. A streamed answer is the answer that one response gives: when the content arrives in pieces, then
  each tool call with its arguments in pieces, then the reason and the usage, the accumulated completion is
  the one that the client reads from the whole response with the joined content and arguments. The content is
  not empty and every call has a name.
\<close>

theorem streaming_is_complete:
  assumes "concat pieces \<noteq> []" "\<forall>c \<in> set calls. fst (snd c) \<noteq> []" "length calls \<le> u64_max + 1"
    and "i \<le> u64_max" "o_count \<le> u64_max"
  shows "\<exists>ds acc. feed_lines to_string
      (map SseData (map content_chunk pieces @ calls_chunks 0 calls @ [last_chunk reason i o_count])) (accumulator_new grammar)
        = (ds, Inr (acc, False))
    \<and> read_answer from_str (whole_answer (concat pieces) (map joined_call calls) reason i o_count) = Inr (finish from_str acc)"
proof -
  let ?new = "accumulator_new grammar"
  obtain ds sc where 1: "feed_lines to_string (map SseData (map content_chunk pieces)) ?new
      = (ds, Inr (?new\<lparr>ac_content := concat pieces, ac_scanner := sc\<rparr>, False))"
    using feed_contents[of to_string pieces ?new] by (auto simp: accumulator_new_def)
  let ?a = "?new\<lparr>ac_content := concat pieces, ac_scanner := sc\<rparr>"
  have 2: "feed_lines to_string (map SseData (calls_chunks 0 calls)) ?a
      = ([], Inr (?a\<lparr>ac_tool_calls := map finished_call calls\<rparr>, False))"
    using feed_calls[of "[]" calls ?a to_string] assms(3) by (simp add: accumulator_new_def)
  let ?b = "?a\<lparr>ac_tool_calls := map finished_call calls, ac_finish_reason := reason,
      ac_input_tokens := Some (as_u32 i), ac_output_tokens := Some (as_u32 o_count)\<rparr>"
  have "feed_lines to_string (map SseData (map content_chunk pieces @ calls_chunks 0 calls @ [last_chunk reason i o_count])) ?new
      = (ds, Inr (?b, False))"
    using 1 2 feed_last[OF assms(4,5), of to_string reason] by (simp add: feed_lines_append)
  moreover have "finish from_str ?b = assemble from_str (Some (concat pieces)) (map joined_call calls) reason
      (Some (as_u32 i)) (Some (as_u32 o_count))"
    using assms(1) joined_calls[OF assms(2)] by (auto simp: finish_def)
  ultimately show ?thesis using read_whole_answer[OF assms(4,5)] by auto
qed

theorem streaming_is_complete_witness:
  "\<exists>ds acc. feed_lines (\<lambda>_. []) (map SseData (map content_chunk [''h'', ''i'']
        @ calls_chunks 0 [(''c1'', ''read_file'', [''{'', ''}''])] @ [last_chunk ''stop'' 7 5])) (accumulator_new False)
        = (ds, Inr (acc, False))
    \<and> read_answer (\<lambda>_. Inl []) (whole_answer ''hi'' [(''c1'', ''read_file'', ''{}'')] ''stop'' 7 5)
        = Inr (finish (\<lambda>_. Inl []) acc)"
proof -
  have pieces: "concat [''h'', ''i''] \<noteq> []" by simp
  have names: "\<forall>c \<in> set [(''c1'', ''read_file'', [''{'', ''}''])]. fst (snd c) \<noteq> []" by simp
  have bounds: "length [(''c1'', ''read_file'', [''{'', ''}''])] \<le> u64_max + 1" "(7::nat) \<le> u64_max" "(5::nat) \<le> u64_max"
    by (simp_all add: u64_max_def)
  have "map joined_call [(''c1'', ''read_file'', [''{'', ''}''])] = [(''c1'', ''read_file'', ''{}'')]" "concat [''h'', ''i''] = ''hi''"
    by (simp_all add: joined_call_def)
  with streaming_is_complete[OF pieces names bounds, of "\<lambda>_. []" "''stop''" False "\<lambda>_. Inl []"] show ?thesis by simp
qed

section \<open>Tools of a caller\<close>

lemma adapt_openai_tool:
  "adapt_tool i seen (openai_tool t) = Inr t \<longleftrightarrow>
     is_object (td_input_schema t) \<and> td_name t \<noteq> [] \<and> td_name t \<notin> set RESERVED_CONTROL_NAMES \<and> td_name t \<notin> set seen"
proof -
  have fields: "str_or_empty (json_get (openai_tool t) ''type'') = ''function''"
    "json_get (openai_tool t) ''function'' = Some (JObj [(''name'', JStr (td_name t)),
       (''description'', JStr (td_description t)), (''parameters'', td_input_schema t)])"
    by (simp_all add: openai_tool_def str_or_empty_def)
  let ?f = "JObj [(''name'', JStr (td_name t)), (''description'', JStr (td_description t)), (''parameters'', td_input_schema t)]"
  have upd: "t\<lparr>td_input_schema := v\<rparr> = \<lparr>td_name = td_name t, td_description = td_description t, td_input_schema = v\<rparr>" for v
    by (cases t) simp
  have step: "adapt_tool i seen (openai_tool t) =
      and_then (checks [require (td_name t \<noteq> []) (MissingName i), require (td_name t \<notin> set RESERVED_CONTROL_NAMES) (ReservedName i (td_name t)),
        require (td_name t \<notin> set seen) (DuplicateName i (td_name t))]) (\<lambda>_.
      and_then (parameters_of i (td_name t) ?f) (\<lambda>v. Inr (t\<lparr>td_input_schema := v\<rparr>)))"
    using fields by (simp add: adapt_tool_def Let_def str_or_empty_def upd require_def)
  have "parameters_of i (td_name t) ?f = Inr v \<Longrightarrow> t\<lparr>td_input_schema := v\<rparr> = t \<Longrightarrow> is_object (td_input_schema t)" for v
    by (cases "td_input_schema t"; cases t) (auto simp: parameters_of_def no_parameters_def)
  moreover have "is_object (td_input_schema t) \<Longrightarrow> parameters_of i (td_name t) ?f = Inr (td_input_schema t)"
    by (cases "td_input_schema t") (simp_all add: parameters_of_def)
  ultimately show ?thesis by (auto simp: step result_simps require_def split: if_splits)
qed

lemma adapt_openai_tools:
  "adapt_tools i seen (map openai_tool ts) = Inr ts \<longleftrightarrow>
     (\<forall>t \<in> set ts. is_object (td_input_schema t) \<and> td_name t \<noteq> [] \<and> td_name t \<notin> set RESERVED_CONTROL_NAMES
        \<and> td_name t \<notin> set seen) \<and> distinct (map td_name ts)"
proof (induction ts arbitrary: i seen)
  case (Cons t ts)
  have "adapt_tools i seen (map openai_tool (t # ts)) = Inr (t # ts) \<longleftrightarrow>
      adapt_tool i seen (openai_tool t) = Inr t \<and> adapt_tools (i + 1) (seen @ [td_name t]) (map openai_tool ts) = Inr ts"
    by (auto simp: result_simps)
  also have "\<dots> \<longleftrightarrow> (is_object (td_input_schema t) \<and> td_name t \<noteq> [] \<and> td_name t \<notin> set RESERVED_CONTROL_NAMES \<and> td_name t \<notin> set seen)
      \<and> (\<forall>t' \<in> set ts. is_object (td_input_schema t') \<and> td_name t' \<noteq> [] \<and> td_name t' \<notin> set RESERVED_CONTROL_NAMES
        \<and> td_name t' \<notin> set seen \<and> td_name t' \<noteq> td_name t) \<and> distinct (map td_name ts)"
    unfolding Cons.IH adapt_openai_tool by auto
  finally have step: "adapt_tools i seen (map openai_tool (t # ts)) = Inr (t # ts) \<longleftrightarrow> \<dots>" .
  have "(\<forall>t' \<in> set ts. td_name t' \<noteq> td_name t) \<longleftrightarrow> td_name t \<notin> td_name ` set ts" by (auto simp: image_iff)
  then show ?case unfolding step by (simp add: ball_conj_distrib) blast
qed simp

text \<open>
  The adapter of a caller's tools reads back what the client writes, exactly for the lists of tools a
  grammar can tell apart: the names are distinct, not empty and not those of the control actions, and every
  schema is an object. Any other list is refused or changed.
\<close>

theorem openai_tools_roundtrip:
  "descriptors_from_openai_tools (JArr (map openai_tool ts)) = Inr ts \<longleftrightarrow>
     distinct (map td_name ts) \<and> [] \<notin> td_name ` set ts \<and> set RESERVED_CONTROL_NAMES \<inter> td_name ` set ts = {}
     \<and> list_all (is_object \<circ> td_input_schema) ts"
  unfolding descriptors_from_openai_tools_def list_all_iff by (simp add: adapt_openai_tools) force

section \<open>Prepared endpoints\<close>

lemma prepared_client_safe:
  assumes "prepared_client_builder parse base default_client = Inr cl"
  shows "\<not> follows_redirects cl \<and> (\<exists>u. parse base = Some u \<and> url_username u = [] \<and> url_password u = None
     \<and> (url_host u \<in> {Some ''127.0.0.1'', Some ''localhost'', Some ''[::1]''} \<longrightarrow> \<not> uses_proxy cl))"
  using assms by (auto simp: prepared_client_builder_def Let_def split: option.splits if_splits)

end
