(* ===== verification/Valve.thy ===== *)
theory Valve
  imports Provider_Client
begin

text \<open>
  The valve, \<^verbatim>\<open>ferric-valve\<close>: an endpoint that turns a chat request with tools into one
  constrained action, and the action back into an ordinary answer. The request transform is
  \<^verbatim>\<open>transform.rs\<close>, the translation of the answer \<^verbatim>\<open>translate.rs\<close>, the frames
  \<^verbatim>\<open>sse.rs\<close>, the exchange with the upstream \<^verbatim>\<open>upstream.rs\<close>, the receipts
  \<^verbatim>\<open>receipt.rs\<close> and their verdict in \<^verbatim>\<open>server.rs\<close>, and the probe of the upstream
  \<^verbatim>\<open>probe.rs\<close>. The JSON library and SHA-256 are parameters; what the exchange awaits is a list of
  items; a floating-point number is kept as the text of the JSON number.
\<close>

section \<open>The request transform\<close>

definition newline :: string where "newline = [CHR 0x0A]"

definition CONSTRAINED_TEACHING :: string where
  "CONSTRAINED_TEACHING =
     ''You act by emitting exactly one JSON object and nothing else: no prose, no markdown fences. ''
     @ ''The object has three keys, in this order:'' @ newline
     @ ''1. '' @ quoted ''thought'' @ '': your brief reasoning about what to do next.'' @ newline
     @ ''2. '' @ quoted ''tool'' @ '': the name of one tool listed below.'' @ newline
     @ ''3. '' @ quoted ''args'' @ '': an object with that tool'' @ [CHR 0x27] @ ''s arguments.'' @ newline
     @ ''To reply to the user, whether answering, asking a question, or reporting that the work is done, ''
     @ ''use the tool '' @ quoted ''task_complete'' @ '' with your complete reply in '' @ quoted ''summary'' @ ''.''"

datatype transform_error =
    NotAnObject
  | BadMessages
  | BadTools openai_tools_error
  | UnsupportedToolChoice json
  | ToolChoiceNotOffered string
  | OrphanToolResult nat string
  | ArgumentsNotObject nat string
  | ToolCallWithoutName nat

record constrained_request =
  vc_upstream_body :: json
  vc_client_stream :: bool
  vc_admitted :: "string list"
  vc_tools_offered :: nat
  vc_tool_catalog_hash :: string
  vc_schema_hash :: string

datatype transformed = Constrained constrained_request | PassThrough

definition upstream_messages :: "constrained_request \<Rightarrow> json list" where
  "upstream_messages c =
     (case Option.bind (json_get (vc_upstream_body c) ''messages'') json_as_array of Some ms \<Rightarrow> ms | None \<Rightarrow> [])"

definition prefix_hash :: "(string \<Rightarrow> string) \<Rightarrow> (json \<Rightarrow> string) \<Rightarrow> json list \<Rightarrow> string" where
  "prefix_hash sha256_hex to_string messages = sha256_hex (to_string (JArr messages))"

definition message_hashes :: "(string \<Rightarrow> string) \<Rightarrow> (json \<Rightarrow> string) \<Rightarrow> json list \<Rightarrow> string list" where
  "message_hashes sha256_hex to_string messages = map (sha256_hex \<circ> to_string) messages"

definition final_answer_descriptor :: tool_descriptor where
  "final_answer_descriptor = \<lparr>td_name = TASK_COMPLETE,
     td_description = ''Reply to the user: answer, ask a clarifying question, or report that the work is done. Args: {''
       @ quoted ''summary'' @ '': string} - your complete reply to the user.'',
     td_input_schema = JObj [(''type'', JStr ''object''),
       (''properties'', JObj [(''summary'', JObj [(''type'', JStr ''string''),
          (''description'', JStr ''Your complete reply to the user'')])]),
       (''required'', JArr [JStr ''summary''])]\<rparr>"

definition with_reply :: "tool_descriptor list \<Rightarrow> tool_descriptor list" where
  "with_reply descriptors = descriptors @ [final_answer_descriptor]"

definition text_of :: "json option \<Rightarrow> string" where
  "text_of content =
     (case content of
        Some (JStr t) \<Rightarrow> t
      | Some (JArr parts) \<Rightarrow> concat (List.map_filter (\<lambda>part. Option.bind (json_get part ''text'') json_as_str) parts)
      | _ \<Rightarrow> [])"

definition valve_action_text :: "(json \<Rightarrow> string) \<Rightarrow> string \<Rightarrow> string \<Rightarrow> json \<Rightarrow> string" where
  "valve_action_text to_string thought tool args =
     to_string (JObj [(''thought'', JStr thought), (''tool'', JStr tool), (''args'', args)])"

definition role_message :: "string \<Rightarrow> json \<Rightarrow> json" where
  "role_message role content = JObj [(''role'', JStr role), (''content'', content)]"

type_synonym call_names = "(string \<times> string) list"

text \<open>The calls of one assistant message: each becomes an action of its own, and only the first carries
  the thought.\<close>

definition project_call ::
  "(string \<Rightarrow> string + json) \<Rightarrow> (json \<Rightarrow> string) \<Rightarrow> nat \<Rightarrow> string \<Rightarrow> json \<Rightarrow> call_names \<Rightarrow>
   transform_error + (json \<times> call_names)" where
  "project_call from_str to_string index thought call names =
     (let function = (case json_get call ''function'' of Some f \<Rightarrow> f | None \<Rightarrow> JNull)
      in case Option.bind (json_get function ''name'') json_as_str of
           None \<Rightarrow> Inl (ToolCallWithoutName index)
         | Some name \<Rightarrow>
             if name = [] then Inl (ToolCallWithoutName index)
             else let arguments = (case Option.bind (json_get function ''arguments'') json_as_str of Some a \<Rightarrow> a | None \<Rightarrow> ''{}'')
             in case from_str arguments of
                  Inl _ \<Rightarrow> Inl (ArgumentsNotObject index name)
                | Inr args \<Rightarrow>
                    if \<not> is_object args then Inl (ArgumentsNotObject index name)
                    else Inr (role_message ''assistant'' (JStr (valve_action_text to_string thought name args)),
                      (case Option.bind (json_get call ''id'') json_as_str of Some i \<Rightarrow> bt_insert i name names | None \<Rightarrow> names)))"

fun project_calls ::
  "(string \<Rightarrow> string + json) \<Rightarrow> (json \<Rightarrow> string) \<Rightarrow> nat \<Rightarrow> string \<Rightarrow> json list \<Rightarrow> call_names \<Rightarrow>
   transform_error + (json list \<times> call_names)" where
  "project_calls from_str to_string index thought [] names = Inr ([], names)"
| "project_calls from_str to_string index thought (call # calls) names =
     and_then (project_call from_str to_string index thought call names) (\<lambda>(m, names1).
       and_then (project_calls from_str to_string index [] calls names1) (\<lambda>(ms, names2). Inr (m # ms, names2)))"

definition project_message ::
  "(string \<Rightarrow> string + json) \<Rightarrow> (json \<Rightarrow> string) \<Rightarrow> string \<Rightarrow> nat \<Rightarrow> json \<Rightarrow> call_names \<times> bool \<Rightarrow>
   transform_error + (json list \<times> call_names \<times> bool)" where
  "project_message from_str to_string instructions index message st =
     (case st of (names, system_extended) \<Rightarrow>
        if \<not> is_object message then Inl BadMessages
        else let role = str_or_empty (json_get message ''role'')
        in if role = ''system'' \<and> \<not> system_extended then
             Inr ([role_message ''system'' (JStr (text_of (json_get message ''content'') @ newline @ newline @ instructions))],
                  names, True)
           else if role = ''assistant'' then
             (let thought = str_or_empty (json_get message ''reasoning_content'')
              in case Option.bind (json_get message ''tool_calls'') json_as_array of
                   Some (call # calls) \<Rightarrow>
                     and_then (project_calls from_str to_string index thought (call # calls) names) (\<lambda>(ms, names').
                       Inr (ms, names', system_extended))
                 | _ \<Rightarrow>
                     Inr ([role_message ''assistant'' (JStr (valve_action_text to_string thought TASK_COMPLETE
                            (JObj [(''summary'', JStr (text_of (json_get message ''content'')))])))],
                          names, system_extended))
           else if role = ''tool'' then
             (let i = str_or_empty (json_get message ''tool_call_id'')
              in case bt_get names i of
                   None \<Rightarrow> Inl (OrphanToolResult index i)
                 | Some name \<Rightarrow>
                     Inr ([role_message ''user'' (JStr (tool_result_text name (text_of (json_get message ''content''))))],
                          names, system_extended))
           else Inr ([role_message role (case json_get message ''content'' of Some c \<Rightarrow> c | None \<Rightarrow> JStr [])],
                     names, system_extended))"

fun project_from ::
  "(string \<Rightarrow> string + json) \<Rightarrow> (json \<Rightarrow> string) \<Rightarrow> string \<Rightarrow> nat \<Rightarrow> json list \<Rightarrow> call_names \<times> bool \<Rightarrow>
   transform_error + (json list \<times> call_names \<times> bool)" where
  "project_from from_str to_string instructions index [] st = Inr ([], st)"
| "project_from from_str to_string instructions index (m # ms) st =
     and_then (project_message from_str to_string instructions index m st) (\<lambda>(out, st1).
       and_then (project_from from_str to_string instructions (index + 1) ms st1) (\<lambda>(outs, st2). Inr (out @ outs, st2)))"

definition instructions_for :: "tool_descriptor list \<Rightarrow> string" where
  "instructions_for admitted = CONSTRAINED_TEACHING @ render_tool_listing admitted"

definition project_messages ::
  "(string \<Rightarrow> string + json) \<Rightarrow> (json \<Rightarrow> string) \<Rightarrow> json list \<Rightarrow> tool_descriptor list \<Rightarrow> transform_error + json list" where
  "project_messages from_str to_string messages admitted =
     and_then (project_from from_str to_string (instructions_for admitted) 0 messages ([], False)) (\<lambda>(out, _, system_extended).
       Inr (if system_extended then out else role_message ''system'' (JStr (instructions_for admitted)) # out))"

definition admitted_descriptors ::
  "json option \<Rightarrow> tool_descriptor list \<Rightarrow> transform_error + tool_descriptor list" where
  "admitted_descriptors tool_choice offered =
     (case tool_choice of
        None \<Rightarrow> Inr (with_reply offered)
      | Some (JStr choice) \<Rightarrow>
          if choice = ''auto'' then Inr (with_reply offered)
          else if choice = ''required'' then Inr offered
          else Inl (UnsupportedToolChoice (JStr choice))
      | Some (JObj m) \<Rightarrow>
          (let name = str_or_empty (Option.bind (map_of m ''function'') (\<lambda>f. json_get f ''name''));
               chosen = filter (\<lambda>d. td_name d = name) offered
           in if chosen = [] then Inl (ToolChoiceNotOffered name) else Inr chosen)
      | Some other \<Rightarrow> Inl (UnsupportedToolChoice other))"

definition dropped_keys :: "string list" where
  "dropped_keys = [''tools'', ''tool_choice'', ''parallel_tool_calls'', ''messages'', ''stream'']"

definition upstream_body :: "(string \<times> json) list \<Rightarrow> json list \<Rightarrow> json \<Rightarrow> json" where
  "upstream_body body projected schema =
     json_set ''response_format'' (response_format ''ferric_action'' schema)
       (json_set ''stream'' (JBool True)
          (json_set ''messages'' (JArr projected) (JObj (filter (\<lambda>(k, _). k \<notin> set dropped_keys) body))))"

definition passes_through :: "(string \<times> json) list \<Rightarrow> bool" where
  "passes_through body \<longleftrightarrow>
     (case Option.bind (map_of body ''tools'') json_as_array of None \<Rightarrow> True | Some tools \<Rightarrow> tools = [])
     \<or> map_of body ''tool_choice'' = Some (JStr ''none'') \<or> map_of body ''response_format'' \<noteq> None"

definition transform ::
  "(string \<Rightarrow> string + json) \<Rightarrow> (json \<Rightarrow> string) \<Rightarrow> (string \<Rightarrow> string) \<Rightarrow> json \<Rightarrow> transform_error + transformed" where
  "transform from_str to_string sha256_hex request =
     (case request of
        JObj body \<Rightarrow>
          if passes_through body then Inr PassThrough
          else let tools_value = (case map_of body ''tools'' of Some t \<Rightarrow> t | None \<Rightarrow> JNull)
          in case descriptors_from_openai_tools tools_value of
               Inl e \<Rightarrow> Inl (BadTools e)
             | Inr offered \<Rightarrow>
                 and_then (admitted_descriptors (map_of body ''tool_choice'') offered) (\<lambda>admitted.
                 and_then (ok_or (Option.bind (map_of body ''messages'') json_as_array) BadMessages) (\<lambda>messages.
                 and_then (project_messages from_str to_string messages admitted) (\<lambda>projected.
                   Inr (Constrained \<lparr>vc_upstream_body = upstream_body body projected (action_schema admitted),
                     vc_client_stream = (case Option.bind (map_of body ''stream'') json_as_bool of Some b \<Rightarrow> b | None \<Rightarrow> False),
                     vc_admitted = map td_name admitted, vc_tools_offered = length offered,
                     vc_tool_catalog_hash = sha256_hex (to_string tools_value),
                     vc_schema_hash = sha256_hex (to_string (action_schema admitted))\<rparr>))))
      | _ \<Rightarrow> Inl NotAnObject)"

section \<open>The translation of the answer\<close>

datatype action_error = Unparsable action_parse_error | ToolNotOffered string

record resolution =
  re_message :: json
  re_finish_reason :: string
  re_closing_deltas :: "json list"
  re_tool :: "string option"
  re_action_valid :: bool

record assembler =
  aa_admitted :: "string list"
  aa_call_id :: string
  aa_raw :: string
  aa_scanner :: scanner
  aa_named_tool :: "string option"
  aa_reasoning_streamed :: string
  aa_thought_streamed :: string

definition assembler_new :: "string list \<Rightarrow> string \<Rightarrow> assembler" where
  "assembler_new admitted call_id = \<lparr>aa_admitted = admitted, aa_call_id = call_id, aa_raw = [],
     aa_scanner = scanner_new, aa_named_tool = None, aa_reasoning_streamed = [], aa_thought_streamed = []\<rparr>"

definition reasoning_delta :: "string \<Rightarrow> json" where
  "reasoning_delta t = JObj [(''reasoning_content'', JStr t)]"

definition push_reasoning :: "string \<Rightarrow> assembler \<Rightarrow> json list \<times> assembler" where
  "push_reasoning txt a =
     (if txt = [] then ([], a)
      else ([reasoning_delta txt], a\<lparr>aa_reasoning_streamed := aa_reasoning_streamed a @ txt\<rparr>))"

definition named_call_delta :: "string \<Rightarrow> string \<Rightarrow> string \<Rightarrow> json" where
  "named_call_delta call_id name arguments = JObj [(''tool_calls'', JArr [JObj [(''index'', JNum ''0''),
     (''id'', JStr call_id), (''type'', JStr ''function''),
     (''function'', JObj [(''name'', JStr name), (''arguments'', JStr arguments)])]])]"

fun push_signal :: "stream_delta \<Rightarrow> assembler \<Rightarrow> json list \<times> assembler" where
  "push_signal (DeltaThought thought) a =
     (if thought = [] then ([], a)
      else ([reasoning_delta thought],
            a\<lparr>aa_reasoning_streamed := aa_reasoning_streamed a @ thought,
              aa_thought_streamed := aa_thought_streamed a @ thought\<rparr>))"
| "push_signal (DeltaToolNamed name) a =
     (if name \<noteq> TASK_COMPLETE \<and> aa_named_tool a = None \<and> name \<in> set (aa_admitted a)
      then ([named_call_delta (aa_call_id a) name []], a\<lparr>aa_named_tool := Some name\<rparr>)
      else ([], a))"
| "push_signal _ a = ([], a)"

fun push_signals :: "stream_delta list \<Rightarrow> assembler \<Rightarrow> json list \<times> assembler" where
  "push_signals [] a = ([], a)"
| "push_signals (d # ds) a =
     (case push_signal d a of (out, a1) \<Rightarrow> (case push_signals ds a1 of (outs, a2) \<Rightarrow> (out @ outs, a2)))"

definition push_content :: "string \<Rightarrow> assembler \<Rightarrow> json list \<times> assembler" where
  "push_content txt a =
     (let raw = aa_raw a @ txt
      in case scan raw (aa_scanner a) of
           (signals, sc) \<Rightarrow> push_signals signals (a\<lparr>aa_raw := raw, aa_scanner := sc\<rparr>))"

definition message_base :: "assembler \<Rightarrow> json" where
  "message_base a =
     (let m = JObj [(''role'', JStr ''assistant''), (''content'', JNull)]
      in if aa_reasoning_streamed a = [] then m
         else json_set ''reasoning_content'' (JStr (aa_reasoning_streamed a)) m)"

text \<open>The thought of the finished action that has not been streamed yet.\<close>

definition close_thought :: "string \<Rightarrow> assembler \<Rightarrow> json list \<times> assembler" where
  "close_thought thought a =
     (case strip_prefix (aa_thought_streamed a) thought of
        None \<Rightarrow> ([], a)
      | Some rest \<Rightarrow>
          if rest = [] then ([], a)
          else ([reasoning_delta rest],
                a\<lparr>aa_reasoning_streamed := aa_reasoning_streamed a @ rest,
                  aa_thought_streamed := aa_thought_streamed a @ rest\<rparr>))"

definition thought_of :: "(string \<Rightarrow> string + json) \<Rightarrow> string \<Rightarrow> string" where
  "thought_of from_str raw =
     (case from_str (trim raw) of Inr v \<Rightarrow> str_or_empty (json_get v ''thought'') | Inl _ \<Rightarrow> [])"

definition assembler_finish ::
  "(string \<Rightarrow> string + json) \<Rightarrow> (json \<Rightarrow> string) \<Rightarrow> string option \<Rightarrow> assembler \<Rightarrow> action_error + resolution" where
  "assembler_finish from_str to_string finish_reason a0 =
     (if finish_reason = Some ''length''
      then Inr \<lparr>re_message = message_base a0, re_finish_reason = ''length'', re_closing_deltas = [], re_tool = None,
                re_action_valid = False\<rparr>
      else case parse_json_action from_str 0 (aa_raw a0) of
        Inl e \<Rightarrow> Inl (Unparsable e)
      | Inr call \<Rightarrow>
          (case close_thought (thought_of from_str (aa_raw a0)) a0 of
             (closing, a) \<Rightarrow>
               if tc_name call = TASK_COMPLETE
               then let summary = summary_of (tc_args call)
                    in Inr \<lparr>re_message = json_set ''content'' (JStr summary) (message_base a),
                            re_finish_reason = ''stop'', re_closing_deltas = closing @ [JObj [(''content'', JStr summary)]],
                            re_tool = Some TASK_COMPLETE, re_action_valid = True\<rparr>
               else if tc_name call \<notin> set (aa_admitted a) then Inl (ToolNotOffered (tc_name call))
               else let arguments = to_string (tc_args call);
                        opening = (if aa_named_tool a = None then named_call_delta (aa_call_id a) (tc_name call) arguments
                          else JObj [(''tool_calls'', JArr [JObj [(''index'', JNum ''0''),
                                 (''function'', JObj [(''arguments'', JStr arguments)])]])])
                    in Inr \<lparr>re_message = json_set ''tool_calls''
                              (JArr [openai_tool_call (aa_call_id a) (tc_name call) arguments]) (message_base a),
                            re_finish_reason = ''tool_calls'', re_closing_deltas = closing @ [opening],
                            re_tool = Some (tc_name call), re_action_valid = True\<rparr>))"

section \<open>Frames\<close>

record chunk_identity =
  ci_id :: string
  ci_created :: nat
  ci_model :: string

datatype sse_frame = FrameData json | FrameDone

fun frame_text :: "(json \<Rightarrow> string) \<Rightarrow> sse_frame \<Rightarrow> string" where
  "frame_text to_string (FrameData v) = ''data: '' @ to_string v @ newline @ newline"
| "frame_text to_string FrameDone = ''data: [DONE]'' @ newline @ newline"

definition chunk :: "chunk_identity \<Rightarrow> json \<Rightarrow> string option \<Rightarrow> json" where
  "chunk identity delta finish_reason = JObj [(''id'', JStr (ci_id identity)), (''object'', JStr ''chat.completion.chunk''),
     (''created'', JNum (show_nat (ci_created identity))), (''model'', JStr (ci_model identity)),
     (''choices'', JArr [JObj [(''index'', JNum ''0''), (''delta'', delta),
        (''finish_reason'', case finish_reason of Some r \<Rightarrow> JStr r | None \<Rightarrow> JNull)]])]"

section \<open>The exchange with the upstream\<close>

definition ERROR_EXCERPT_BYTES :: nat where "ERROR_EXCERPT_BYTES = 2048"

datatype valve_error =
    UpstreamUnreachable string
  | UpstreamHttp nat string
  | UpstreamStream string
  | ActionFailed action_error
  | NotEnforced string

fun action_error_class :: "action_error \<Rightarrow> string" where
  "action_error_class (Unparsable _) = ''unparsable_action''"
| "action_error_class (ToolNotOffered _) = ''tool_not_offered''"

fun valve_error_class :: "valve_error \<Rightarrow> string" where
  "valve_error_class (UpstreamUnreachable _) = ''upstream_unreachable''"
| "valve_error_class (UpstreamHttp _ _) = ''upstream_http''"
| "valve_error_class (UpstreamStream _) = ''upstream_stream''"
| "valve_error_class (ActionFailed e) = action_error_class e"
| "valve_error_class (NotEnforced _) = ''not_enforced''"

text \<open>\<open>render\<close> is the displayed message of an error.\<close>

definition error_body :: "(valve_error \<Rightarrow> string) \<Rightarrow> valve_error \<Rightarrow> json" where
  "error_body render e =
     (let base = JObj [(''message'', JStr (render e)), (''type'', JStr ''ferric_valve_error''), (''code'', JStr (valve_error_class e))]
      in JObj [(''error'', case e of
           UpstreamHttp status _ \<Rightarrow> json_set ''upstream_status'' (JNum (show_nat status)) base
         | _ \<Rightarrow> base)])"

text \<open>A JSON pointer: keys of objects and positions of arrays.\<close>

definition pointer_index :: "string \<Rightarrow> nat option" where
  "pointer_index tok =
     (if tok \<noteq> [] \<and> list_all is_ascii_digit tok \<and> (tok = ''0'' \<or> hd tok \<noteq> CHR ''0'') then Some (decimal_value tok) else None)"

fun pointer_step :: "json \<Rightarrow> string \<Rightarrow> json option" where
  "pointer_step (JObj m) tok = map_of m tok"
| "pointer_step (JArr xs) tok =
     (case pointer_index tok of Some i \<Rightarrow> if i < length xs then Some (xs ! i) else None | None \<Rightarrow> None)"
| "pointer_step _ tok = None"

fun pointer :: "json \<Rightarrow> string list \<Rightarrow> json option" where
  "pointer v [] = Some v"
| "pointer v (tok # toks) = Option.bind (pointer_step v tok) (\<lambda>w. pointer w toks)"

fun json_as_f64 :: "json \<Rightarrow> string option" where
  "json_as_f64 (JNum s) = Some s"
| "json_as_f64 _ = None"

record upstream_stats =
  us_model :: "string option"
  us_prompt_tokens :: "nat option"
  us_prompt_eval_tokens :: "nat option"
  us_cached_tokens :: "nat option"
  us_predicted_tokens :: "nat option"
  us_prompt_ms :: "string option"
  us_predicted_ms :: "string option"

definition stats_new :: upstream_stats where
  "stats_new = \<lparr>us_model = None, us_prompt_tokens = None, us_prompt_eval_tokens = None, us_cached_tokens = None,
     us_predicted_tokens = None, us_prompt_ms = None, us_predicted_ms = None\<rparr>"

definition newer :: "'a option \<Rightarrow> 'a option \<Rightarrow> 'a option" where
  "newer found old = (case found of Some v \<Rightarrow> Some v | None \<Rightarrow> old)"

definition u64_at :: "json \<Rightarrow> string list \<Rightarrow> nat option" where
  "u64_at v path = Option.bind (pointer v path) json_as_u64"

definition absorb_usage :: "json \<Rightarrow> upstream_stats \<Rightarrow> upstream_stats" where
  "absorb_usage usage s = s\<lparr>
     us_prompt_tokens := newer (u64_at usage [''prompt_tokens'']) (us_prompt_tokens s),
     us_predicted_tokens := newer (u64_at usage [''completion_tokens'']) (us_predicted_tokens s),
     us_cached_tokens := newer (u64_at usage [''prompt_tokens_details'', ''cached_tokens'']) (us_cached_tokens s)\<rparr>"

text \<open>The addition is on unsigned 64-bit integers, which wrap.\<close>

definition add_u64 :: "nat \<Rightarrow> nat \<Rightarrow> nat" where
  "add_u64 a b = (a + b) mod (u64_max + 1)"

definition absorb_timings :: "json \<Rightarrow> upstream_stats \<Rightarrow> upstream_stats" where
  "absorb_timings timings s =
     (let s1 = s\<lparr>
            us_prompt_eval_tokens := newer (u64_at timings [''prompt_n'']) (us_prompt_eval_tokens s),
            us_cached_tokens := newer (u64_at timings [''cache_n'']) (us_cached_tokens s),
            us_predicted_tokens := newer (u64_at timings [''predicted_n'']) (us_predicted_tokens s),
            us_prompt_ms := newer (Option.bind (json_get timings ''prompt_ms'') json_as_f64) (us_prompt_ms s),
            us_predicted_ms := newer (Option.bind (json_get timings ''predicted_ms'') json_as_f64) (us_predicted_ms s)\<rparr>
      in case (us_prompt_tokens s1, us_prompt_eval_tokens s1, us_cached_tokens s1) of
           (None, Some evaluated, Some cached) \<Rightarrow> s1\<lparr>us_prompt_tokens := Some (add_u64 evaluated cached)\<rparr>
         | _ \<Rightarrow> s1)"

definition absorb :: "json \<Rightarrow> upstream_stats \<Rightarrow> upstream_stats" where
  "absorb v s =
     (let s1 = s\<lparr>us_model := newer (Option.bind (json_get v ''model'') json_as_str) (us_model s)\<rparr>;
          s2 = (case json_get v ''usage'' of Some u \<Rightarrow> if is_object u then absorb_usage u s1 else s1 | None \<Rightarrow> s1)
      in case json_get v ''timings'' of Some t \<Rightarrow> if is_object t then absorb_timings t s2 else s2 | None \<Rightarrow> s2)"

definition unavailable :: "upstream_stats \<Rightarrow> string list" where
  "unavailable s =
     (if us_model s = None then [''model''] else [])
     @ (if us_prompt_tokens s = None then [''prompt_tokens''] else [])
     @ (if us_prompt_eval_tokens s = None then [''prompt_eval_tokens''] else [])
     @ (if us_cached_tokens s = None then [''cached_tokens''] else [])
     @ (if us_predicted_tokens s = None then [''predicted_tokens''] else [])
     @ (if us_prompt_ms s = None then [''prompt_ms''] else [])
     @ (if us_predicted_ms s = None then [''predicted_ms''] else [])"

record exchange_outcome =
  eo_resolution :: "resolution option"
  eo_error :: "valve_error option"
  eo_cancelled :: bool
  eo_stats :: upstream_stats

text \<open>The state of an exchange: the frames the client was sent, the accumulated answer, and what ends the
  reading. \<open>progressed\<close>: the upstream sent something since the last frame.\<close>

record exchange_state =
  xs_frames :: "sse_frame list"
  xs_assembler :: assembler
  xs_decoder :: sse_decoder
  xs_finish_reason :: "string option"
  xs_done :: bool
  xs_progressed :: bool
  xs_error :: "valve_error option"
  xs_cancelled :: bool
  xs_stats :: upstream_stats

text \<open>What the exchange awaits: the client going away, bytes or a failure of the upstream, or a tick of
  the heartbeat (with whether it is due). The end of the list is the end of the body.\<close>

datatype exchange_item = ClientClosed | Read string | ReadFailed string | Tick bool

text \<open>Sending fails when the client has gone; \<open>accepts k\<close>: the send after \<open>k\<close> frames goes
  through.\<close>

fun send_frames :: "(nat \<Rightarrow> bool) \<Rightarrow> sse_frame list \<Rightarrow> sse_frame list \<Rightarrow> sse_frame list \<times> bool" where
  "send_frames accepts [] sent = (sent, True)"
| "send_frames accepts (f # fs) sent =
     (if accepts (length sent) then send_frames accepts fs (sent @ [f]) else (sent, False))"

definition send_all :: "(nat \<Rightarrow> bool) option \<Rightarrow> sse_frame list \<Rightarrow> exchange_state \<Rightarrow> exchange_state \<times> bool" where
  "send_all frames fs s =
     (case frames of
        None \<Rightarrow> (s, True)
      | Some accepts \<Rightarrow>
          (case send_frames accepts fs (xs_frames s) of
             (sent, ok') \<Rightarrow> (s\<lparr>xs_frames := sent, xs_cancelled := (xs_cancelled s \<or> \<not> ok')\<rparr>, ok')))"

text \<open>One event of the upstream: its statistics, reasoning, content and finish reason.\<close>

definition push_text ::
  "(string \<Rightarrow> assembler \<Rightarrow> json list \<times> assembler) \<Rightarrow> json option \<Rightarrow> assembler \<Rightarrow> json list \<times> assembler" where
  "push_text push found a = (case Option.bind found json_as_str of Some t \<Rightarrow> push t a | None \<Rightarrow> ([], a))"

definition take_event :: "json \<Rightarrow> exchange_state \<Rightarrow> json list \<times> exchange_state" where
  "take_event v s =
     (case push_text push_reasoning (pointer v [''choices'', ''0'', ''delta'', ''reasoning_content'']) (xs_assembler s) of
        (ds1, a1) \<Rightarrow>
          (case push_text push_content (pointer v [''choices'', ''0'', ''delta'', ''content'']) a1 of
             (ds2, a2) \<Rightarrow>
               (ds1 @ ds2, s\<lparr>xs_stats := absorb v (xs_stats s), xs_assembler := a2,
                  xs_finish_reason := newer (Option.bind (Option.bind (pointer v [''choices'', ''0''])
                     (\<lambda>c. json_get c ''finish_reason'')) json_as_str) (xs_finish_reason s)\<rparr>)))"

text \<open>The lines of one read. An error event ends the reading at once, and the deltas of the read are not
  sent.\<close>

fun take_lines ::
  "(json \<Rightarrow> string) \<Rightarrow> sse_line list \<Rightarrow> exchange_state \<Rightarrow> json list option \<times> exchange_state" where
  "take_lines to_string [] s = (Some [], s)"
| "take_lines to_string (SseData v # ls) s =
     (case json_get v ''error'' of
        Some e \<Rightarrow> (None, s\<lparr>xs_error := Some (UpstreamStream (to_string e))\<rparr>)
      | None \<Rightarrow>
          (case take_event v s of
             (ds, s1) \<Rightarrow> (case take_lines to_string ls s1 of (r, s2) \<Rightarrow> (map_option ((@) ds) r, s2))))"
| "take_lines to_string (SseDone # ls) s = take_lines to_string ls (s\<lparr>xs_done := True\<rparr>)"
| "take_lines to_string (SseOther # ls) s = take_lines to_string ls s"

text \<open>One turn of the loop; \<open>True\<close>: it goes on.\<close>

fun exchange_turn ::
  "(string \<Rightarrow> string + json) \<Rightarrow> (json \<Rightarrow> string) \<Rightarrow> chunk_identity \<Rightarrow> (nat \<Rightarrow> bool) option \<Rightarrow> exchange_item \<Rightarrow> exchange_state \<Rightarrow>
   exchange_state \<times> bool" where
  "exchange_turn from_str to_string identity frames ClientClosed s = (s\<lparr>xs_cancelled := True\<rparr>, False)"
| "exchange_turn from_str to_string identity frames (ReadFailed e) s = (s\<lparr>xs_error := Some (UpstreamStream e)\<rparr>, False)"
| "exchange_turn from_str to_string identity frames (Tick due) s =
     (if frames \<noteq> None \<and> xs_progressed s \<and> due
      then (case send_all frames [FrameData (chunk identity (JObj []) None)] s of
              (s1, sent) \<Rightarrow> if sent then (s1\<lparr>xs_progressed := False\<rparr>, True) else (s1, False))
      else (s, True))"
| "exchange_turn from_str to_string identity frames (Read bytes) s0 =
     (let s = s0\<lparr>xs_progressed := True\<rparr>
      in case sse_push from_str bytes (xs_decoder s) of
           Inl e \<Rightarrow> (s\<lparr>xs_error := Some (UpstreamStream (''malformed UTF-8: '' @ utf8_error_text e))\<rparr>, False)
         | Inr (ls, d) \<Rightarrow>
             (case take_lines to_string ls (s\<lparr>xs_decoder := d\<rparr>) of
                (None, s1) \<Rightarrow> (s1, False)
              | (Some ds, s1) \<Rightarrow>
                  (if frames \<noteq> None \<and> ds \<noteq> []
                   then (case send_all frames (map (\<lambda>delta. FrameData (chunk identity delta None)) ds) s1 of
                           (s2, sent) \<Rightarrow> if sent then (s2\<lparr>xs_progressed := False\<rparr>, \<not> xs_done s2) else (s2, False))
                   else (s1, \<not> xs_done s1))))"

fun exchange_loop ::
  "(string \<Rightarrow> string + json) \<Rightarrow> (json \<Rightarrow> string) \<Rightarrow> chunk_identity \<Rightarrow> (nat \<Rightarrow> bool) option \<Rightarrow> exchange_item list \<Rightarrow>
   exchange_state \<Rightarrow> exchange_state" where
  "exchange_loop from_str to_string identity frames [] s = s"
| "exchange_loop from_str to_string identity frames (item # items) s =
     (case exchange_turn from_str to_string identity frames item s of
        (s1, go) \<Rightarrow> if go then exchange_loop from_str to_string identity frames items s1 else s1)"

definition exchange_end ::
  "(string \<Rightarrow> string + json) \<Rightarrow> (json \<Rightarrow> string) \<Rightarrow> (valve_error \<Rightarrow> string) \<Rightarrow> chunk_identity \<Rightarrow> (nat \<Rightarrow> bool) option \<Rightarrow>
   exchange_state \<Rightarrow> resolution option \<times> exchange_state" where
  "exchange_end from_str to_string render identity frames s =
     (if xs_cancelled s then (None, s)
      else let s1 = (if xs_error s = None \<and> \<not> xs_done s \<and> xs_finish_reason s = None
                     then s\<lparr>xs_error := Some (UpstreamStream ''upstream stream ended before a finish reason'')\<rparr> else s);
               (res, s2) = (if xs_error s1 \<noteq> None then (None, s1)
                 else case assembler_finish from_str to_string (xs_finish_reason s1) (xs_assembler s1) of
                   Inl e \<Rightarrow> (None, s1\<lparr>xs_error := Some (ActionFailed e)\<rparr>)
                 | Inr r \<Rightarrow>
                     (case send_all frames (map (\<lambda>delta. FrameData (chunk identity delta None)) (re_closing_deltas r)
                         @ [FrameData (chunk identity (JObj []) (Some (re_finish_reason r))), FrameDone]) s1 of
                        (s', sent) \<Rightarrow> (if sent then Some r else None, s')))
           in if xs_cancelled s2 then (res, s2)
              else case xs_error s2 of
                None \<Rightarrow> (res, s2)
              | Some e \<Rightarrow> (res, fst (send_all frames [FrameData (error_body render e)] s2)))"

text \<open>How the upstream received the request: the client went away meanwhile, it could not be reached, it
  refused (the excerpt of the body, or the client gone while it is read), or it answers with a stream.\<close>

datatype exchange_start = ClosedEarly | Unreachable string | Refused nat "string option" | Streaming "exchange_item list"

definition exchange_state_new :: "string list \<Rightarrow> string \<Rightarrow> exchange_state" where
  "exchange_state_new admitted call_id = \<lparr>xs_frames = [], xs_assembler = assembler_new admitted call_id, xs_decoder = sse_new,
     xs_finish_reason = None, xs_done = False, xs_progressed = False, xs_error = None, xs_cancelled = False,
     xs_stats = stats_new\<rparr>"

text \<open>The first frame names the role of the speaker.\<close>

definition exchange_opened :: "string list \<Rightarrow> string \<Rightarrow> chunk_identity \<Rightarrow> (nat \<Rightarrow> bool) option \<Rightarrow> exchange_state \<times> bool" where
  "exchange_opened admitted call_id identity frames =
     send_all frames [FrameData (chunk identity (JObj [(''role'', JStr ''assistant'')]) None)]
       (exchange_state_new admitted call_id)"

definition outcome_of :: "resolution option \<Rightarrow> exchange_state \<Rightarrow> exchange_outcome" where
  "outcome_of res s = \<lparr>eo_resolution = res, eo_error = xs_error s, eo_cancelled = xs_cancelled s, eo_stats = xs_stats s\<rparr>"

definition failed_before_start :: "valve_error \<Rightarrow> exchange_outcome" where
  "failed_before_start e = \<lparr>eo_resolution = None, eo_error = Some e, eo_cancelled = False, eo_stats = stats_new\<rparr>"

definition cancelled_early :: exchange_outcome where
  "cancelled_early = \<lparr>eo_resolution = None, eo_error = None, eo_cancelled = True, eo_stats = stats_new\<rparr>"

definition run_constrained ::
  "(string \<Rightarrow> string + json) \<Rightarrow> (json \<Rightarrow> string) \<Rightarrow> (valve_error \<Rightarrow> string) \<Rightarrow> string list \<Rightarrow> string \<Rightarrow> chunk_identity \<Rightarrow>
   (nat \<Rightarrow> bool) option \<Rightarrow> exchange_start \<Rightarrow> exchange_outcome \<times> sse_frame list" where
  "run_constrained from_str to_string render admitted call_id identity frames start =
     (case start of
        ClosedEarly \<Rightarrow> (cancelled_early, [])
      | Unreachable e \<Rightarrow> (failed_before_start (UpstreamUnreachable e), [])
      | Refused status None \<Rightarrow> (cancelled_early, [])
      | Refused status (Some body) \<Rightarrow> (failed_before_start (UpstreamHttp status (take_chars ERROR_EXCERPT_BYTES body)), [])
      | Streaming items \<Rightarrow>
          (case exchange_opened admitted call_id identity frames of
             (s, False) \<Rightarrow> (outcome_of None s, xs_frames s)
           | (s, True) \<Rightarrow>
               (case exchange_end from_str to_string render identity frames
                       (exchange_loop from_str to_string identity frames items s) of
                  (res, s') \<Rightarrow> (outcome_of res s', xs_frames s'))))"

definition completion_object :: "chunk_identity \<Rightarrow> resolution \<Rightarrow> upstream_stats \<Rightarrow> json" where
  "completion_object identity r stats =
     (let body = JObj [(''id'', JStr (ci_id identity)), (''object'', JStr ''chat.completion''),
            (''created'', JNum (show_nat (ci_created identity))), (''model'', JStr (ci_model identity)),
            (''choices'', JArr [JObj [(''index'', JNum ''0''), (''message'', re_message r),
               (''finish_reason'', JStr (re_finish_reason r))]])]
      in case (us_prompt_tokens stats, us_predicted_tokens stats) of
           (Some p, Some c) \<Rightarrow>
             json_set ''usage'' (JObj [(''prompt_tokens'', JNum (show_nat p)), (''completion_tokens'', JNum (show_nat c)),
               (''total_tokens'', JNum (show_nat (add_u64 p c)))]) body
         | _ \<Rightarrow> body)"

section \<open>Receipts\<close>

text \<open>The metrics of the upstream are the fields of one record.\<close>

record receipt =
  rc_request_id :: string
  rc_mode :: string
  rc_stream :: bool
  rc_started_unix_ms :: nat
  rc_wall_ms :: nat
  rc_outcome :: string
  rc_http_status :: "nat option"
  rc_tools_offered :: "nat option"
  rc_tool_catalog_hash :: "string option"
  rc_schema_hash :: "string option"
  rc_prefix_hash :: "string option"
  rc_message_hashes :: "string list"
  rc_stats :: upstream_stats
  rc_finish_reason :: "string option"
  rc_action_valid :: "bool option"
  rc_tool :: "string option"
  rc_error_class :: "string option"
  rc_unavailable :: "string list"

definition absorb_stats :: "upstream_stats \<Rightarrow> receipt \<Rightarrow> receipt" where
  "absorb_stats stats r = r\<lparr>rc_stats := stats, rc_unavailable := unavailable stats\<rparr>"

definition identify_request :: "(string \<Rightarrow> string) \<Rightarrow> (json \<Rightarrow> string) \<Rightarrow> json \<Rightarrow> receipt \<Rightarrow> receipt" where
  "identify_request sha256_hex to_string request r =
     (let r1 = (case Option.bind (json_get request ''messages'') json_as_array of
            Some ms \<Rightarrow> r\<lparr>rc_message_hashes := message_hashes sha256_hex to_string ms,
                         rc_prefix_hash := Some (prefix_hash sha256_hex to_string ms)\<rparr>
          | None \<Rightarrow> r)
      in case json_get request ''tools'' of
           Some (JArr ts) \<Rightarrow> r1\<lparr>rc_tools_offered := Some (length ts), rc_tool_catalog_hash := Some (sha256_hex (to_string (JArr ts)))\<rparr>
         | _ \<Rightarrow> r1)"

definition identify_constrained :: "(string \<Rightarrow> string) \<Rightarrow> (json \<Rightarrow> string) \<Rightarrow> constrained_request \<Rightarrow> receipt \<Rightarrow> receipt" where
  "identify_constrained sha256_hex to_string c r = r\<lparr>rc_mode := ''constrained'', rc_tools_offered := Some (vc_tools_offered c),
     rc_tool_catalog_hash := Some (vc_tool_catalog_hash c), rc_schema_hash := Some (vc_schema_hash c),
     rc_message_hashes := message_hashes sha256_hex to_string (upstream_messages c),
     rc_prefix_hash := Some (prefix_hash sha256_hex to_string (upstream_messages c))\<rparr>"

text \<open>The name a response object or chunk gives its first tool call.\<close>

definition first_tool_name :: "json \<Rightarrow> string option" where
  "first_tool_name v =
     (case Option.bind
        (case pointer v [''choices'', ''0'', ''message'', ''tool_calls'', ''0'', ''function'', ''name''] of
           Some n \<Rightarrow> Some n
         | None \<Rightarrow> pointer v [''choices'', ''0'', ''delta'', ''tool_calls'', ''0'', ''function'', ''name'']) json_as_str of
        Some name \<Rightarrow> if name = [] then None else Some name
      | None \<Rightarrow> None)"

definition record_constrained :: "exchange_outcome \<Rightarrow> receipt \<Rightarrow> receipt" where
  "record_constrained out r0 =
     (let r = absorb_stats (eo_stats out) r0
      in case eo_resolution out of
           Some res \<Rightarrow>
             r\<lparr>rc_finish_reason := Some (re_finish_reason res), rc_action_valid := Some (re_action_valid res),
               rc_tool := re_tool res, rc_http_status := Some 200, rc_outcome := ''completed''\<rparr>
         | None \<Rightarrow>
             if eo_cancelled out then r\<lparr>rc_outcome := ''cancelled''\<rparr>
             else let before_start = (case eo_error out of
                        Some (UpstreamHttp _ _) \<Rightarrow> True | Some (UpstreamUnreachable _) \<Rightarrow> True | _ \<Rightarrow> False);
                      action = (case eo_error out of Some (ActionFailed _) \<Rightarrow> True | _ \<Rightarrow> False)
             in r\<lparr>rc_error_class := map_option valve_error_class (eo_error out),
                  rc_http_status := Some (if before_start \<or> \<not> rc_stream r then 502 else 200),
                  rc_action_valid := (if action then Some False else rc_action_valid r), rc_outcome := ''failed''\<rparr>)"

section \<open>The enforcement probe\<close>

definition probe_schema :: json where
  "probe_schema = JObj [(''type'', JStr ''object''), (''properties'', JObj [(''ok'', JObj [(''enum'', JArr [JStr ''yes''])])]),
     (''required'', JArr [JStr ''ok'']), (''additionalProperties'', JBool False)]"

definition probe_body :: json where
  "probe_body = JObj [(''model'', JStr ''ferric-valve-probe''),
     (''messages'', JArr [JObj [(''role'', JStr ''user''), (''content'', JStr ''Reply with the single word: hello'')]]),
     (''max_tokens'', JNum ''32''), (''temperature'', JNum ''0''), (''stream'', JBool False),
     (''chat_template_kwargs'', JObj [(''enable_thinking'', JBool False)]),
     (''response_format'', response_format ''ferric_probe'' probe_schema)]"

text \<open>\<open>answer\<close> is what the upstream answers the probe with: a status and a body, or that it could
  not be reached.\<close>

definition probe_enforcement :: "(string \<Rightarrow> string + json) \<Rightarrow> (json \<Rightarrow> string + (nat \<times> string)) \<Rightarrow> valve_error check" where
  "probe_enforcement from_str answer =
     (case answer probe_body of
        Inl e \<Rightarrow> Inl (UpstreamUnreachable e)
      | Inr (status, txt) \<Rightarrow>
          if \<not> (200 \<le> status \<and> status < 300) then Inl (UpstreamHttp status (take_chars 512 txt))
          else let content = (case from_str txt of
                     Inr body \<Rightarrow> str_or_empty (pointer body [''choices'', ''0'', ''message'', ''content''])
                   | Inl _ \<Rightarrow> [])
          in require (from_str (trim content) = Inr (JObj [(''ok'', JStr ''yes'')])) (NotEnforced content))"

end
