(* ===== verification/Valve_Props.thy ===== *)
theory Valve_Props
  imports Valve
begin

text \<open>
  The properties of the valve: a request that grows keeps the prefix it had, a constrained request offers
  no tools, and the client is shown nothing of an answer that does not parse as a whole.
\<close>

section \<open>Requests that grow\<close>

definition is_system :: "json \<Rightarrow> bool" where
  "is_system m \<longleftrightarrow> str_or_empty (json_get m ''role'') = ''system''"

lemma project_from_append:
  "project_from from_str to_string ins i (ms @ ms') st =
     and_then (project_from from_str to_string ins i ms st) (\<lambda>(out, st1).
       and_then (project_from from_str to_string ins (i + length ms) ms' st1) (\<lambda>(out', st2). Inr (out @ out', st2)))"
proof (induction ms arbitrary: i st)
  case Nil
  show ?case by (cases "project_from from_str to_string ins i ms' st") auto
next
  case (Cons m ms)
  show ?case
  proof (cases "project_message from_str to_string ins i m st")
    case (Inr r)
    obtain out st1 where r: "r = (out, st1)" by (cases r)
    show ?thesis using Cons.IH[of "i + 1" st1]
      by (cases "project_from from_str to_string ins (i + 1) ms st1"; cases "project_from from_str to_string ins (i + 1) (ms @ ms') st1")
         (auto simp: Inr r result_simps and_then_def split: sum.splits)
  qed simp
qed

lemma project_message_system:
  "project_message from_str to_string ins i m (names, ext) = Inr (out, names', ext') \<Longrightarrow> ext' \<longleftrightarrow> ext \<or> is_system m"
  by (auto simp: project_message_def is_system_def Let_def result_simps split: if_splits option.splits list.splits)

lemma project_from_system:
  "project_from from_str to_string ins i ms (names, ext) = Inr (out, names', ext') \<Longrightarrow> ext' \<longleftrightarrow> ext \<or> list_ex is_system ms"
proof (induction ms arbitrary: i names ext out)
  case (Cons m ms)
  then obtain out1 names1 ext1 out2 where 1: "project_message from_str to_string ins i m (names, ext) = Inr (out1, names1, ext1)"
    "project_from from_str to_string ins (i + 1) ms (names1, ext1) = Inr (out2, names', ext')"
    by (auto simp: result_simps)
  show ?case using project_message_system[OF 1(1)] Cons.IH[OF 1(2)] by auto
qed simp

text \<open>
  C26. Appending turns only appends: when a conversation that has a system message, or gets none later, grows by
  further messages and the same tools are offered, the rendered conversation of the longer request extends the
  rendered conversation of the shorter one, so the backend can keep what it has cached.
\<close>

theorem projection_extends:
  assumes "project_messages from_str to_string ms admitted = Inr out"
    and "project_messages from_str to_string (ms @ ms') admitted = Inr out'"
    and "list_ex is_system ms \<or> \<not> list_ex is_system ms'"
  shows "prefix out out'"
proof -
  let ?ins = "instructions_for admitted" and ?p = "project_from from_str to_string (instructions_for admitted)"
  obtain o1 names ext where 1: "?p 0 ms ([], False) = Inr (o1, names, ext)"
    "out = (if ext then o1 else role_message ''system'' (JStr ?ins) # o1)"
    using assms(1) by (auto simp: project_messages_def result_simps)
  obtain o2 names' ext' where 2: "?p (length ms) ms' (names, ext) = Inr (o2, names', ext')"
    "out' = (if ext' then o1 @ o2 else role_message ''system'' (JStr ?ins) # o1 @ o2)"
    using assms(2) 1(1) by (auto simp: project_messages_def project_from_append result_simps)
  have "ext' = ext" using project_from_system[OF 1(1)] project_from_system[OF 2(1)] assms(3) by auto
  then show ?thesis using 1(2) 2(2) by auto
qed

definition chat_user :: json where "chat_user = JObj [(''role'', JStr ''user''), (''content'', JStr ''hi'')]"
definition chat_system :: json where "chat_system = JObj [(''role'', JStr ''system''), (''content'', JStr ''be brief'')]"

theorem projection_extends_witness:
  "\<exists>out out'. project_messages (\<lambda>_. Inl []) (\<lambda>_. []) [chat_system, chat_user] [] = Inr out
    \<and> project_messages (\<lambda>_. Inl []) (\<lambda>_. []) ([chat_system, chat_user] @ [chat_user]) [] = Inr out' \<and> prefix out out'"
proof -
  have a: "is_ok (project_messages (\<lambda>_. Inl []) (\<lambda>_. []) [chat_system, chat_user] [])" by code_simp
  have b: "is_ok (project_messages (\<lambda>_. Inl []) (\<lambda>_. []) ([chat_system, chat_user] @ [chat_user]) [])" by code_simp
  from a b obtain out out' where o: "project_messages (\<lambda>_. Inl []) (\<lambda>_. []) [chat_system, chat_user] [] = Inr out"
    "project_messages (\<lambda>_. Inl []) (\<lambda>_. []) ([chat_system, chat_user] @ [chat_user]) [] = Inr out'"
    unfolding is_ok_iff by blast
  have s: "list_ex is_system [chat_system, chat_user] \<or> \<not> list_ex is_system [chat_user]" by code_simp
  from projection_extends[OF o s] o show ?thesis by blast
qed

text \<open>Without the condition it fails: a system message that comes later takes the instructions away from
  the start of the conversation.\<close>

lemma late_system_moves_instructions:
  "project_messages (\<lambda>_. Inl []) (\<lambda>_. []) [chat_user] [] = Inr [role_message ''system'' (JStr (instructions_for [])), chat_user]
   \<and> (case project_messages (\<lambda>_. Inl []) (\<lambda>_. []) ([chat_user] @ [chat_system]) [] of
        Inr out \<Rightarrow> hd out = chat_user | Inl _ \<Rightarrow> False)"
  by code_simp

section \<open>Constrained requests\<close>










section \<open>Nothing of a broken answer\<close>

text \<open>A delta that shows the client something of the answer itself: its content, or arguments of the
  call.\<close>

definition delta_arguments :: "json \<Rightarrow> string" where
  "delta_arguments d = str_or_empty (pointer d [''tool_calls'', ''0'', ''function'', ''arguments''])"

definition reveals :: "json \<Rightarrow> bool" where
  "reveals d \<longleftrightarrow> json_get d ''content'' \<noteq> None \<or> delta_arguments d \<noteq> []"

lemma quiet_deltas [simp]:
  "\<not> reveals (reasoning_delta t)" "\<not> reveals (named_call_delta i n [])" "\<not> reveals (JObj [])"
  "\<not> reveals (JObj [(''role'', JStr ''assistant'')])"
  by (simp_all add: reveals_def delta_arguments_def reasoning_delta_def named_call_delta_def str_or_empty_def pointer_index_def
        is_ascii_digit_def in_range_def byte_def decimal_value_def digit_value_def)

lemma push_signal_quiet: "push_signal d a = (out, a') \<Longrightarrow> \<forall>x \<in> set out. \<not> reveals x"
  by (cases d) (auto split: if_splits)

lemma push_signals_quiet: "push_signals ds a = (out, a') \<Longrightarrow> \<forall>x \<in> set out. \<not> reveals x"
proof (induction ds arbitrary: a out)
  case (Cons d ds)
  then show ?case using push_signal_quiet[of d a] by (fastforce split: prod.splits)
qed simp

lemma push_quiet:
  "push_content t a = (out, a') \<Longrightarrow> \<forall>x \<in> set out. \<not> reveals x"
  "push_reasoning t a = (out, a') \<Longrightarrow> \<forall>x \<in> set out. \<not> reveals x"
  using push_signals_quiet by (auto simp: push_content_def push_reasoning_def Let_def split: prod.splits if_splits)

lemma take_event_quiet: "take_event v s = (out, s') \<Longrightarrow> (\<forall>x \<in> set out. \<not> reveals x) \<and> xs_frames s' = xs_frames s"
  using push_quiet by (fastforce simp: take_event_def push_text_def split: prod.splits option.splits)

lemma take_lines_quiet:
  "take_lines to_string ls s = (r, s') \<Longrightarrow> (\<forall>out. r = Some out \<longrightarrow> (\<forall>x \<in> set out. \<not> reveals x)) \<and> xs_frames s' = xs_frames s"
proof (induction to_string ls s arbitrary: r rule: take_lines.induct)
  case (2 to_string v ls s)
  then show ?case using take_event_quiet[of v s] by (fastforce split: option.splits prod.splits)
qed auto

definition quiet_frame :: "chunk_identity \<Rightarrow> sse_frame \<Rightarrow> bool" where
  "quiet_frame identity f \<longleftrightarrow> (\<exists>d r. f = FrameData (chunk identity d r) \<and> \<not> reveals d)"

lemma send_frames_set: "send_frames accepts fs sent = (sent', b) \<Longrightarrow> set sent' \<subseteq> set sent \<union> set fs"
  by (induction accepts fs sent rule: send_frames.induct) (auto split: if_splits)

lemma send_all_set:
  "send_all frames fs s = (s', b) \<Longrightarrow> set (xs_frames s') \<subseteq> set (xs_frames s) \<union> set fs"
  using send_frames_set by (fastforce simp: send_all_def split: option.splits prod.splits)

lemma exchange_turn_quiet:
  assumes "exchange_turn from_str to_string identity frames item s = (s', b)" "\<forall>f \<in> set (xs_frames s). quiet_frame identity f"
  shows "\<forall>f \<in> set (xs_frames s'). quiet_frame identity f"
proof (cases item)
  case (Read bytes)
  let ?s = "s\<lparr>xs_progressed := True\<rparr>"
  show ?thesis
  proof (cases "sse_push from_str bytes (xs_decoder ?s)")
    case (Inl e)
    then show ?thesis using assms Read by auto
  next
    case (Inr p)
    obtain ls d where p: "p = (ls, d)" by (cases p)
    obtain r s1 where r: "take_lines to_string ls (?s\<lparr>xs_decoder := d\<rparr>) = (r, s1)"
      by (cases "take_lines to_string ls (?s\<lparr>xs_decoder := d\<rparr>)")
    have q: "\<forall>out. r = Some out \<longrightarrow> (\<forall>x \<in> set out. \<not> reveals x)" "xs_frames s1 = xs_frames s"
      using take_lines_quiet[OF r] by simp_all
    have "\<forall>f \<in> set (map (\<lambda>delta. FrameData (chunk identity delta None)) out). quiet_frame identity f" if "r = Some out" for out
      using q(1) that by (auto simp: quiet_frame_def)
    then show ?thesis using assms Read Inr p r q(2) send_all_set
      by (fastforce split: option.splits if_splits prod.splits)
  qed
next
  case (Tick due)
  have "quiet_frame identity (FrameData (chunk identity (JObj []) None))" by (auto simp: quiet_frame_def)
  then show ?thesis using assms Tick send_all_set by (fastforce split: if_splits prod.splits)
qed (use assms in auto)

lemma exchange_loop_quiet:
  "\<forall>f \<in> set (xs_frames s). quiet_frame identity f \<Longrightarrow>
   \<forall>f \<in> set (xs_frames (exchange_loop from_str to_string identity frames items s)). quiet_frame identity f"
proof (induction items arbitrary: s)
  case (Cons item items)
  obtain s1 b where t: "exchange_turn from_str to_string identity frames item s = (s1, b)"
    by (cases "exchange_turn from_str to_string identity frames item s")
  show ?case using Cons.IH[OF exchange_turn_quiet[OF t Cons.prems]] exchange_turn_quiet[OF t Cons.prems] by (simp add: t)
qed simp

lemma chunk_inject: "chunk identity d r = chunk identity d' r' \<Longrightarrow> d = d'"
  by (simp add: chunk_def)

lemma chunk_not_error: "chunk identity d r \<noteq> error_body render e"
  by (simp add: chunk_def error_body_def Let_def)

lemma closing_reveals:
  assumes "assembler_finish from_str to_string fr a = Inr r" "d \<in> set (re_closing_deltas r)" "reveals d"
  shows "fr \<noteq> Some ''length'' \<and> (\<exists>call. parse_json_action from_str 0 (aa_raw a) = Inr call
    \<and> (tc_name call = TASK_COMPLETE \<and> d = JObj [(''content'', JStr (summary_of (tc_args call)))]
       \<or> tc_name call \<in> set (aa_admitted a) \<and> json_get d ''content'' = None \<and> delta_arguments d = to_string (tc_args call)))"
proof -
  obtain call where call: "fr \<noteq> Some ''length''" "parse_json_action from_str 0 (aa_raw a) = Inr call"
    using assms(1,2) by (auto simp: assembler_finish_def split: if_splits sum.splits)
  obtain closing a' where c: "close_thought (thought_of from_str (aa_raw a)) a = (closing, a')"
    by (cases "close_thought (thought_of from_str (aa_raw a)) a")
  then have q: "\<forall>x \<in> set closing. \<not> reveals x" "aa_admitted a' = aa_admitted a"
    by (auto simp: close_thought_def split: option.splits if_splits)
  have args: "delta_arguments (named_call_delta i n t) = t" "json_get (named_call_delta i n t) ''content'' = None"
    "delta_arguments (JObj [(''tool_calls'', JArr [JObj [(''index'', JNum ''0''), (''function'', JObj [(''arguments'', JStr t)])]])]) = t"
    for i n t
    by (simp_all add: delta_arguments_def named_call_delta_def str_or_empty_def pointer_index_def
        is_ascii_digit_def in_range_def byte_def decimal_value_def digit_value_def)
  show ?thesis using assms call q c args
    by (auto simp: assembler_finish_def Let_def split: if_splits)
qed

text \<open>What an exchange admits is fixed when it starts.\<close>

lemma push_signal_admitted: "push_signal d a = (out, a') \<Longrightarrow> aa_admitted a' = aa_admitted a"
  by (cases d) (auto split: if_splits)

lemma push_signals_admitted: "push_signals ds a = (out, a') \<Longrightarrow> aa_admitted a' = aa_admitted a"
proof (induction ds arbitrary: a out)
  case (Cons d ds)
  then show ?case using push_signal_admitted[of d a] by (fastforce split: prod.splits)
qed simp

lemma push_admitted:
  "push_content t a = (out, a') \<Longrightarrow> aa_admitted a' = aa_admitted a"
  "push_reasoning t a = (out, a') \<Longrightarrow> aa_admitted a' = aa_admitted a"
  using push_signals_admitted by (fastforce simp: push_content_def push_reasoning_def Let_def split: prod.splits if_splits)+

lemma push_text_admitted:
  assumes "\<And>t b out' b'. push t b = (out', b') \<Longrightarrow> aa_admitted b' = aa_admitted b" "push_text push found a = (out, a')"
  shows "aa_admitted a' = aa_admitted a"
  using assms by (auto simp: push_text_def split: option.splits)

definition admitted_by :: "exchange_state \<Rightarrow> string list" where
  "admitted_by s = aa_admitted (xs_assembler s)"

lemma take_event_admitted:
  assumes "take_event v s = (out, s')"
  shows "admitted_by s' = admitted_by s"
proof -
  obtain ds1 a1 where 1: "push_text push_reasoning (pointer v [''choices'', ''0'', ''delta'', ''reasoning_content'']) (xs_assembler s) = (ds1, a1)"
    by (rule prod.exhaust)
  obtain ds2 a2 where 2: "push_text push_content (pointer v [''choices'', ''0'', ''delta'', ''content'']) a1 = (ds2, a2)"
    by (rule prod.exhaust)
  have "aa_admitted a2 = aa_admitted (xs_assembler s)"
    using push_text_admitted[OF push_admitted(2) 1] push_text_admitted[OF push_admitted(1) 2] by simp
  then show ?thesis using assms unfolding take_event_def 1 2 prod.case by (auto simp: admitted_by_def)
qed

lemma take_lines_admitted: "take_lines to_string ls s = (r, s') \<Longrightarrow> admitted_by s' = admitted_by s"
proof (induction to_string ls s arbitrary: r rule: take_lines.induct)
  case (2 to_string v ls s)
  show ?case
  proof (cases "json_get v ''error''")
    case None
    obtain ds s1 where e: "take_event v s = (ds, s1)" by (rule prod.exhaust)
    obtain q s2 where l: "take_lines to_string ls s1 = (q, s2)" by (rule prod.exhaust)
    have "admitted_by s2 = admitted_by s1" using 2(1)[OF None e[symmetric]] l 2(2) None e by simp
    then show ?thesis using 2(2) None e l take_event_admitted[OF e] by simp
  qed (use 2(2) in \<open>auto simp: admitted_by_def\<close>)
qed (auto simp: admitted_by_def)

lemma send_all_admitted: "send_all frames fs s = (s', b) \<Longrightarrow> admitted_by s' = admitted_by s"
  by (auto simp: admitted_by_def send_all_def split: option.splits prod.splits)

lemma admitted_by_update [simp]:
  "admitted_by (s\<lparr>xs_progressed := p\<rparr>) = admitted_by s" "admitted_by (s\<lparr>xs_decoder := d\<rparr>) = admitted_by s"
  "admitted_by (s\<lparr>xs_error := e\<rparr>) = admitted_by s" "admitted_by (s\<lparr>xs_cancelled := c\<rparr>) = admitted_by s"
  by (simp_all add: admitted_by_def)

lemma exchange_turn_admitted:
  assumes "exchange_turn from_str to_string identity frames item s = (s', b)"
  shows "admitted_by s' = admitted_by s"
proof (cases item)
  case (Read bytes)
  show ?thesis
  proof (cases "sse_push from_str bytes (xs_decoder (s\<lparr>xs_progressed := True\<rparr>))")
    case (Inr p)
    obtain ls d where p: "p = (ls, d)" by (cases p)
    obtain r s1 where r: "take_lines to_string ls (s\<lparr>xs_progressed := True, xs_decoder := d\<rparr>) = (r, s1)"
      by (cases "take_lines to_string ls (s\<lparr>xs_progressed := True, xs_decoder := d\<rparr>)")
    have "admitted_by s1 = admitted_by s" using take_lines_admitted[OF r] by (simp add: admitted_by_def)
    then show ?thesis using assms Read Inr p r send_all_admitted
      by (fastforce split: option.splits if_splits prod.splits)
  qed (use assms Read in auto)
next
  case (Tick due)
  then show ?thesis using assms send_all_admitted by (fastforce split: if_splits prod.splits)
qed (use assms in auto)

lemma exchange_loop_admitted:
  "admitted_by (exchange_loop from_str to_string identity frames items s) = admitted_by s"
proof (induction items arbitrary: s)
  case (Cons item items)
  obtain s1 b where t: "exchange_turn from_str to_string identity frames item s = (s1, b)"
    by (cases "exchange_turn from_str to_string identity frames item s")
  show ?case using Cons.IH[of s1] exchange_turn_admitted[OF t] by (simp add: t)
qed simp

lemma exchange_end_reveals:
  assumes ended: "exchange_end from_str to_string render identity frames s = (res, s')"
    and quiet: "\<forall>f \<in> set (xs_frames s). quiet_frame identity f"
    and sent: "FrameData (chunk identity d r) \<in> set (xs_frames s')" "reveals d"
  shows "\<exists>rn. assembler_finish from_str to_string (xs_finish_reason s) (xs_assembler s) = Inr rn \<and> d \<in> set (re_closing_deltas rn)"
proof -
  let ?f = "FrameData (chunk identity d r)"
  have old: "?f \<notin> set (xs_frames s)" using quiet sent(2) chunk_inject by (fastforce simp: quiet_frame_def)
  have err: "?f \<in> set (xs_frames t)" if "?f \<in> set (xs_frames (fst (send_all frames [FrameData (error_body render e)] t)))" for e t
    using that send_all_set[of frames "[FrameData (error_body render e)]" t] chunk_not_error
    by (cases "send_all frames [FrameData (error_body render e)] t") fastforce
  define s1 where "s1 = (if xs_error s = None \<and> \<not> xs_done s \<and> xs_finish_reason s = None
     then s\<lparr>xs_error := Some (UpstreamStream ''upstream stream ended before a finish reason'')\<rparr> else s)"
  have same: "xs_frames s1 = xs_frames s" "xs_finish_reason s1 = xs_finish_reason s" "xs_assembler s1 = xs_assembler s"
    by (simp_all add: s1_def)
  have live: "\<not> xs_cancelled s" using ended sent(1) old by (auto simp: exchange_end_def)
  show ?thesis
  proof (cases "xs_error s1 = None")
    case False
    then show ?thesis using ended sent(1) old same live err[of _ s1] unfolding exchange_end_def s1_def[symmetric]
      by (auto split: if_splits option.splits)
  next
    case True
    show ?thesis
    proof (cases "assembler_finish from_str to_string (xs_finish_reason s1) (xs_assembler s1)")
      case (Inl e)
      then show ?thesis using True ended sent(1) old same live err[of _ "s1\<lparr>xs_error := Some (ActionFailed e)\<rparr>"]
        unfolding exchange_end_def s1_def[symmetric] by (auto split: if_splits option.splits)
    next
      case (Inr rn)
      let ?fs = "map (\<lambda>delta. FrameData (chunk identity delta None)) (re_closing_deltas rn)
        @ [FrameData (chunk identity (JObj []) (Some (re_finish_reason rn))), FrameDone]"
      obtain s2 b where all: "send_all frames ?fs s1 = (s2, b)" by (rule prod.exhaust)
      have "?f \<in> set (xs_frames s2)" using Inr True ended sent(1) live all err[of _ s2]
        unfolding exchange_end_def s1_def[symmetric] by (auto split: if_splits option.splits)
      then have "?f \<in> set ?fs" using send_all_set[OF all] old same(1) by auto
      then have "d \<in> set (re_closing_deltas rn)" using sent(2) quiet_deltas(3) by (auto dest!: chunk_inject)
      then show ?thesis using Inr same by auto
    qed
  qed
qed

text \<open>
  C20. Nothing of an answer reaches the client before the whole of it is known to be good: when a frame of a
  constrained exchange shows content or arguments of a call, the text the upstream sent was not cut by its token
  limit and parses as one action of the protocol, and the frame is that action's: its summary when it is the
  reply, or the printed arguments of a tool that was admitted when the exchange began.
\<close>

theorem no_partial_answer:
  assumes ran: "run_constrained from_str to_string render admitted call_id identity frames start = (out, sent)"
    and shown: "FrameData (chunk identity d r) \<in> set sent" "reveals d"
  shows "\<exists>items st call. start = Streaming items
    \<and> st = exchange_loop from_str to_string identity frames items (fst (exchange_opened admitted call_id identity frames))
    \<and> xs_finish_reason st \<noteq> Some ''length''
    \<and> parse_json_action from_str 0 (aa_raw (xs_assembler st)) = Inr call
    \<and> (tc_name call = TASK_COMPLETE \<and> d = JObj [(''content'', JStr (summary_of (tc_args call)))]
       \<or> tc_name call \<in> set admitted \<and> json_get d ''content'' = None \<and> delta_arguments d = to_string (tc_args call))"
proof -
  obtain items where items: "start = Streaming items"
    using ran shown(1) by (cases start) (auto simp: run_constrained_def split: option.splits)
  obtain s b where o: "exchange_opened admitted call_id identity frames = (s, b)" by (rule prod.exhaust)
  have quiet: "\<forall>f \<in> set (xs_frames s). quiet_frame identity f"
    using send_all_set[OF o[unfolded exchange_opened_def]] quiet_deltas(4) by (fastforce simp: exchange_state_new_def quiet_frame_def)
  have admits: "admitted_by s = admitted"
    using send_all_admitted[OF o[unfolded exchange_opened_def]] by (simp add: admitted_by_def exchange_state_new_def assembler_new_def)
  let ?st = "exchange_loop from_str to_string identity frames items s"
  obtain res s' where e: "exchange_end from_str to_string render identity frames ?st = (res, s')" by (rule prod.exhaust)
  have b using ran items o quiet shown chunk_inject by (cases b) (fastforce simp: run_constrained_def quiet_frame_def)+
  then have "sent = xs_frames s'" using ran items o e by (simp add: run_constrained_def)
  then obtain rn where "assembler_finish from_str to_string (xs_finish_reason ?st) (xs_assembler ?st) = Inr rn"
    "d \<in> set (re_closing_deltas rn)"
    using exchange_end_reveals[OF e exchange_loop_quiet[OF quiet]] shown by blast
  from closing_reveals[OF this shown(2)] show ?thesis
    using items o exchange_loop_admitted[of from_str to_string identity frames items s] admits by (auto simp: admitted_by_def)
qed

definition reply_from_str :: "string \<Rightarrow> string + json" where
  "reply_from_str s =
     (if s = ''x'' then Inr (JObj [(''choices'', JArr [JObj [(''delta'', JObj [(''content'', JStr ''y'')])]])])
      else if s = ''y'' then Inr (JObj [(''tool'', JStr TASK_COMPLETE), (''args'', JObj [(''summary'', JStr ''ok'')])])
      else Inl [])"

definition sample_identity :: chunk_identity where
  "sample_identity = \<lparr>ci_id = ''c'', ci_created = 0, ci_model = ''m''\<rparr>"

abbreviation sample_exchange :: "exchange_outcome \<times> sse_frame list" where
  "sample_exchange \<equiv> run_constrained reply_from_str (\<lambda>_. []) (\<lambda>_. []) [] ''k'' sample_identity (Some (\<lambda>_. True))
     (Streaming [Read (''data:x'' @ newline), Tick True, Read (''data: [DONE]'' @ newline)])"

theorem no_partial_answer_witness:
  "FrameData (chunk sample_identity (JObj [(''content'', JStr ''ok'')]) None) \<in> set (snd sample_exchange)
   \<and> (\<exists>items st call. st = exchange_loop reply_from_str (\<lambda>_. []) sample_identity (Some (\<lambda>_. True)) items
          (fst (exchange_opened [] ''k'' sample_identity (Some (\<lambda>_. True))))
        \<and> parse_json_action reply_from_str 0 (aa_raw (xs_assembler st)) = Inr call \<and> tc_name call = TASK_COMPLETE)"
proof -
  let ?d = "JObj [(''content'', JStr ''ok'')]"
  have "list_ex (\<lambda>f. f = FrameData (chunk sample_identity ?d None)) (snd sample_exchange)" by code_simp
  then have sent: "FrameData (chunk sample_identity ?d None) \<in> set (snd sample_exchange)"
    unfolding list_ex_iff by blast
  have "reveals ?d" by (simp add: reveals_def)
  from no_partial_answer[OF prod.collapse[symmetric] sent this] sent show ?thesis
    unfolding list.set(1) empty_iff by blast
qed

end
