(* ===== verification/Valve_Stream.thy ===== *)
theory Valve_Stream
  imports Valve_Props
begin

text \<open>
  What a client assembles from the frames of a constrained exchange: its reasoning, its content and the
  arguments of its call are those of the final message, which a client that does not stream receives whole.
\<close>

definition reasoning_part :: "json \<Rightarrow> string" where
  "reasoning_part d = str_or_empty (json_get d ''reasoning_content'')"

definition content_part :: "json \<Rightarrow> string" where
  "content_part d = str_or_empty (json_get d ''content'')"

definition message_arguments :: "json \<Rightarrow> string" where
  "message_arguments m = str_or_empty (pointer m [''tool_calls'', ''0'', ''function'', ''arguments''])"

lemma message_arguments_delta: "message_arguments = delta_arguments"
  by (simp add: fun_eq_iff message_arguments_def delta_arguments_def)

text \<open>A part of the delta a frame carries.\<close>

definition frame_part :: "(json \<Rightarrow> string) \<Rightarrow> sse_frame \<Rightarrow> string" where
  "frame_part part f = (case f of
     FrameData v \<Rightarrow> (case pointer v [''choices'', ''0'', ''delta''] of Some d \<Rightarrow> part d | None \<Rightarrow> [])
   | FrameDone \<Rightarrow> [])"

definition shown :: "(json \<Rightarrow> string) \<Rightarrow> sse_frame list \<Rightarrow> string" where
  "shown part fs = concat (map (frame_part part) fs)"

lemma pointer_zero: "pointer (JArr xs) (''0'' # toks) = (case xs of [] \<Rightarrow> None | x # _ \<Rightarrow> pointer x toks)"
  by (cases xs) (simp_all add: pointer_index_def is_ascii_digit_def in_range_def byte_def decimal_value_def digit_value_def)

lemma frame_part_chunk [simp]: "frame_part part (FrameData (chunk identity d r)) = part d"
  by (simp add: frame_part_def chunk_def pointer_zero del: pointer.simps(2) add: pointer.simps(2)[of "JObj m" for m])

lemma shown_simps [simp]:
  "shown part [] = []" "shown part (fs @ gs) = shown part fs @ shown part gs" "shown part (f # fs) = frame_part part f @ shown part fs"
  "shown part (map (\<lambda>delta. FrameData (chunk identity delta None)) ds) = concat (map part ds)" "frame_part part FrameDone = []"
  by (simp_all add: shown_def comp_def) (simp add: frame_part_def)

lemma empty_parts [simp]:
  "reasoning_part (JObj []) = []" "content_part (JObj []) = []" "delta_arguments (JObj []) = []"
  "reasoning_part (JObj [(''role'', v)]) = []" "reasoning_part (reasoning_delta t) = t"
  "reasoning_part (named_call_delta i n t) = []" "reasoning_part (JObj [(''tool_calls'', v)]) = []"
  "reasoning_part (JObj [(''content'', v)]) = []" "content_part (JObj [(''content'', JStr t)]) = t"
  "content_part (named_call_delta i n t) = []" "content_part (JObj [(''tool_calls'', v)]) = []"
  "content_part (reasoning_delta t) = []" "delta_arguments (reasoning_delta t) = []"
  "delta_arguments (JObj [(''content'', v)]) = []" "delta_arguments (named_call_delta i n t) = t"
  "delta_arguments (JObj [(''tool_calls'', JArr [JObj [(''index'', JNum ''0''), (''function'', JObj [(''arguments'', JStr t)])]])]) = t"
  by (simp_all add: reasoning_part_def content_part_def delta_arguments_def reasoning_delta_def named_call_delta_def str_or_empty_def
        pointer_zero del: pointer.simps(2) add: pointer.simps(2)[of "JObj m" for m])

lemma quiet_parts: "\<not> reveals d \<Longrightarrow> content_part d = [] \<and> delta_arguments d = []"
  by (simp add: reveals_def content_part_def str_or_empty_def)

lemma quiet_frames: "\<forall>f \<in> set fs. quiet_frame identity f \<Longrightarrow> shown content_part fs = [] \<and> shown delta_arguments fs = []"
  using quiet_parts by (induction fs) (auto simp: quiet_frame_def)

section \<open>Reasoning is counted as it is sent\<close>

definition counts :: "json list \<Rightarrow> assembler \<Rightarrow> assembler \<Rightarrow> bool" where
  "counts out a a' \<longleftrightarrow> aa_reasoning_streamed a' = aa_reasoning_streamed a @ concat (map reasoning_part out)"

lemma counts_append: "counts out a a1 \<Longrightarrow> counts out' a1 a2 \<Longrightarrow> counts (out @ out') a a2"
  by (simp add: counts_def)

lemma push_signal_counts: "push_signal d a = (out, a') \<Longrightarrow> counts out a a'"
  by (cases d) (auto simp: counts_def split: if_splits)

lemma push_signals_counts: "push_signals ds a = (out, a') \<Longrightarrow> counts out a a'"
proof (induction ds arbitrary: a out)
  case (Cons d ds)
  then show ?case using push_signal_counts[of d a] counts_append by (fastforce split: prod.splits)
qed (simp add: counts_def)

lemma push_counts:
  "push_content t a = (out, a') \<Longrightarrow> counts out a a'"
  "push_reasoning t a = (out, a') \<Longrightarrow> counts out a a'"
  using push_signals_counts by (fastforce simp: push_content_def push_reasoning_def Let_def counts_def split: prod.splits if_splits)+

lemma close_thought_counts: "close_thought t a = (out, a') \<Longrightarrow> counts out a a'"
  by (auto simp: close_thought_def counts_def split: option.splits if_splits)

lemma push_text_counts:
  assumes "\<And>t b out' b'. push t b = (out', b') \<Longrightarrow> counts out' b b'" "push_text push found a = (out, a')"
  shows "counts out a a'"
  using assms by (auto simp: push_text_def counts_def split: option.splits)

lemma take_event_counts:
  assumes "take_event v s = (out, s')"
  shows "counts out (xs_assembler s) (xs_assembler s')"
proof -
  obtain ds1 a1 where 1: "push_text push_reasoning (pointer v [''choices'', ''0'', ''delta'', ''reasoning_content'']) (xs_assembler s) = (ds1, a1)"
    by (rule prod.exhaust)
  obtain ds2 a2 where 2: "push_text push_content (pointer v [''choices'', ''0'', ''delta'', ''content'']) a1 = (ds2, a2)"
    by (rule prod.exhaust)
  have "counts (ds1 @ ds2) (xs_assembler s) a2"
    by (rule counts_append[OF push_text_counts[OF push_counts(2) 1] push_text_counts[OF push_counts(1) 2]])
  then show ?thesis using assms unfolding take_event_def 1 2 prod.case by auto
qed

lemma take_lines_counts:
  "take_lines to_string ls s = (r, s') \<Longrightarrow>
   (case r of Some out \<Rightarrow> counts out (xs_assembler s) (xs_assembler s') | None \<Rightarrow> xs_error s' \<noteq> None)"
proof (induction to_string ls s arbitrary: r rule: take_lines.induct)
  case (2 to_string v ls s)
  show ?case
  proof (cases "json_get v ''error''")
    case None
    obtain ds s1 where e: "take_event v s = (ds, s1)" by (rule prod.exhaust)
    obtain q where l: "take_lines to_string ls s1 = (q, s')" "r = map_option ((@) ds) q"
      using 2(2) None e by (auto split: prod.splits)
    show ?thesis using 2(1)[OF None e[symmetric] l(1)] l(2) counts_append[OF take_event_counts[OF e]]
      by (auto split: option.splits)
  qed (use 2(2) in auto)
qed (auto simp: counts_def split: option.splits)

text \<open>A client that keeps reading receives every frame.\<close>

abbreviation listening :: "(nat \<Rightarrow> bool) option" where "listening \<equiv> Some (\<lambda>_. True)"

lemma send_frames_listening: "send_frames (\<lambda>_. True) fs sent = (sent @ fs, True)"
  by (induction fs arbitrary: sent) auto

lemma send_all_listening: "send_all listening fs s = (s\<lparr>xs_frames := xs_frames s @ fs\<rparr>, True)"
  by (simp add: send_all_def send_frames_listening)

definition counted :: "exchange_state \<Rightarrow> bool" where
  "counted s \<longleftrightarrow> shown reasoning_part (xs_frames s) = aa_reasoning_streamed (xs_assembler s)"

lemma exchange_turn_counted:
  assumes "exchange_turn from_str to_string identity listening item s = (s', b)" "counted s"
  shows "counted s' \<or> xs_error s' \<noteq> None \<and> \<not> b"
proof (cases item)
  case (Read bytes)
  show ?thesis
  proof (cases "sse_push from_str bytes (xs_decoder (s\<lparr>xs_progressed := True\<rparr>))")
    case (Inr p)
    obtain ls d where p: "p = (ls, d)" by (cases p)
    obtain r s1 where r: "take_lines to_string ls (s\<lparr>xs_progressed := True, xs_decoder := d\<rparr>) = (r, s1)"
      by (rule prod.exhaust)
    have "xs_frames s1 = xs_frames s" using take_lines_quiet[OF r] by simp
    then show ?thesis using assms Read Inr p r take_lines_counts[OF r]
      by (cases r) (auto simp: send_all_listening counted_def counts_def split: if_splits)
  qed (use assms Read in auto)
qed (use assms in \<open>auto simp: send_all_listening counted_def split: if_splits\<close>)

lemma exchange_loop_counted:
  "counted s \<Longrightarrow> counted (exchange_loop from_str to_string identity listening items s)
     \<or> xs_error (exchange_loop from_str to_string identity listening items s) \<noteq> None"
proof (induction items arbitrary: s)
  case (Cons item items)
  obtain s1 b where t: "exchange_turn from_str to_string identity listening item s = (s1, b)" by (rule prod.exhaust)
  show ?case using Cons.IH[of s1] exchange_turn_counted[OF t Cons.prems] by (auto simp: t)
qed simp

section \<open>The streamed answer is the answer\<close>

lemma message_base_parts [simp]:
  "reasoning_part (message_base a) = aa_reasoning_streamed a" "content_part (message_base a) = []" "delta_arguments (message_base a) = []"
  by (simp_all add: message_base_def reasoning_part_def content_part_def delta_arguments_def str_or_empty_def Let_def)

lemma message_base_set:
  "reasoning_part (json_set ''content'' (JStr t) (message_base a)) = aa_reasoning_streamed a"
  "content_part (json_set ''content'' (JStr t) (message_base a)) = t"
  "delta_arguments (json_set ''content'' (JStr t) (message_base a)) = []"
  "reasoning_part (json_set ''tool_calls'' (JArr [openai_tool_call i n t]) (message_base a)) = aa_reasoning_streamed a"
  "content_part (json_set ''tool_calls'' (JArr [openai_tool_call i n t]) (message_base a)) = []"
  "delta_arguments (json_set ''tool_calls'' (JArr [openai_tool_call i n t]) (message_base a)) = t"
  by (simp_all add: message_base_def reasoning_part_def content_part_def delta_arguments_def str_or_empty_def Let_def openai_tool_call_def
        pointer_zero del: pointer.simps(2) add: pointer.simps(2)[of "JObj m" for m])

lemma closing_message:
  assumes "assembler_finish from_str to_string fr a = Inr r"
  shows "reasoning_part (re_message r) = aa_reasoning_streamed a @ concat (map reasoning_part (re_closing_deltas r))"
    "content_part (re_message r) = concat (map content_part (re_closing_deltas r))"
    "delta_arguments (re_message r) = concat (map delta_arguments (re_closing_deltas r))"
proof -
  obtain closing a' where c: "close_thought (thought_of from_str (aa_raw a)) a = (closing, a')" by (rule prod.exhaust)
  have q: "concat (map content_part closing) = []" "concat (map delta_arguments closing) = []"
    using c by (auto simp: close_thought_def split: option.splits if_splits)
  have n: "aa_reasoning_streamed a' = aa_reasoning_streamed a @ concat (map reasoning_part closing)"
    using close_thought_counts[OF c] by (simp add: counts_def)
  show "reasoning_part (re_message r) = aa_reasoning_streamed a @ concat (map reasoning_part (re_closing_deltas r))"
    "content_part (re_message r) = concat (map content_part (re_closing_deltas r))"
    "delta_arguments (re_message r) = concat (map delta_arguments (re_closing_deltas r))"
    using assms c q n by (auto simp: assembler_finish_def Let_def message_base_set split: if_splits sum.splits)
qed

lemma exchange_end_listening:
  assumes "exchange_end from_str to_string render identity listening s = (Some r, s')"
  shows "xs_error s = None \<and> assembler_finish from_str to_string (xs_finish_reason s) (xs_assembler s) = Inr r
    \<and> xs_frames s' = xs_frames s @ map (\<lambda>delta. FrameData (chunk identity delta None)) (re_closing_deltas r)
        @ [FrameData (chunk identity (JObj []) (Some (re_finish_reason r))), FrameDone]"
  using assms by (auto simp: exchange_end_def Let_def send_all_listening split: if_splits sum.splits option.splits)

text \<open>
  C23. What a client assembles from the stream is the message itself: when a constrained exchange with a client
  that keeps reading ends in an answer, the reasoning, the content and the call's arguments of its frames, put
  together in order, are the reasoning, the content and the call's arguments of the final message, whatever the
  reads of the upstream, the heartbeats in between, and the point where a token limit cut it.
\<close>

theorem streamed_is_message:
  assumes "run_constrained from_str to_string render admitted call_id identity listening start = (out, sent)"
    and "eo_resolution out = Some r"
  shows "shown reasoning_part sent = reasoning_part (re_message r)
    \<and> shown content_part sent = content_part (re_message r)
    \<and> shown delta_arguments sent = message_arguments (re_message r)"
proof -
  let ?role = "[FrameData (chunk identity (JObj [(''role'', JStr ''assistant'')]) None)]"
  let ?s = "(exchange_state_new admitted call_id)\<lparr>xs_frames := ?role\<rparr>"
  obtain items s' where items: "start = Streaming items" and sent: "sent = xs_frames s'"
    and e: "exchange_end from_str to_string render identity listening
              (exchange_loop from_str to_string identity listening items ?s) = (Some r, s')"
    using assms by (auto simp: run_constrained_def exchange_opened_def send_all_listening exchange_state_new_def outcome_of_def
        failed_before_start_def cancelled_early_def split: exchange_start.splits option.splits prod.splits)
  let ?st = "exchange_loop from_str to_string identity listening items ?s"
  have "counted ?s" by (simp add: counted_def exchange_state_new_def assembler_new_def)
  then have counted: "counted ?st" using exchange_loop_counted exchange_end_listening[OF e] by blast
  have "\<forall>f \<in> set (xs_frames ?s). quiet_frame identity f" using quiet_deltas(4) by (fastforce simp: quiet_frame_def)
  from quiet_frames[OF exchange_loop_quiet[OF this]] have quiet: "shown content_part (xs_frames ?st) = []"
    "shown delta_arguments (xs_frames ?st) = []" by blast+
  have fin: "assembler_finish from_str to_string (xs_finish_reason ?st) (xs_assembler ?st) = Inr r"
    using exchange_end_listening[OF e] by blast
  have frames: "xs_frames s' = xs_frames ?st @ map (\<lambda>delta. FrameData (chunk identity delta None)) (re_closing_deltas r)
        @ [FrameData (chunk identity (JObj []) (Some (re_finish_reason r))), FrameDone]"
    using exchange_end_listening[OF e] by blast
  show ?thesis
    unfolding sent frames message_arguments_delta shown_simps closing_message[OF fin] frame_part_chunk empty_parts quiet
      counted[unfolded counted_def] by simp
qed

theorem streamed_is_message_witness:
  "case sample_exchange of (out, sent) \<Rightarrow>
     (case eo_resolution out of Some r \<Rightarrow> shown content_part sent = content_part (re_message r) \<and> content_part (re_message r) = ''ok''
      | None \<Rightarrow> False)"
proof -
  obtain out sent where x: "sample_exchange = (out, sent)" by (rule prod.exhaust)
  have "case eo_resolution (fst sample_exchange) of Some r \<Rightarrow> content_part (re_message r) = ''ok'' | None \<Rightarrow> False" by code_simp
  then obtain r where r: "eo_resolution out = Some r" "content_part (re_message r) = ''ok''"
    unfolding x fst_conv by (auto split: option.splits)
  show ?thesis unfolding x using streamed_is_message[OF x r(1)] r by simp
qed

text \<open>The name of the call is not covered: the name streamed early comes from the first \<open>tool\<close> key
  of the text, the message from the parsed object, whose last key wins.\<close>

definition twice_named :: string where
  "twice_named = ''{'' @ quoted ''tool'' @ '':'' @ quoted ''ls'' @ '','' @ quoted ''tool'' @ '':'' @ quoted ''rm'' @ '','' @ quoted ''args'' @ '':{}}''"

definition parsed_twice :: json where
  "parsed_twice = JObj [(''tool'', JStr ''rm''), (''args'', JObj [])]"

lemma streamed_name_differs:
  "case push_content twice_named (assembler_new [''ls'', ''rm''] ''k'') of (ds, a) \<Rightarrow>
     ds = [named_call_delta ''k'' ''ls'' []]
     \<and> (case assembler_finish (\<lambda>_. Inr parsed_twice) (\<lambda>_. ''{}'') (Some ''stop'') a of
          Inr r \<Rightarrow> re_tool r = Some ''rm'' \<and> list_all (\<lambda>d. pointer d [''tool_calls'', ''0'', ''function'', ''name''] = None) (re_closing_deltas r)
        | Inl _ \<Rightarrow> False)"
  by code_simp

end
