(* ===== verification/Spec2Isabelle.thy ===== *)
theory Spec2Isabelle
  imports Controller_Props Guard_Props Tunnel_Props Loop_Props Policy_Props Projector_Props Navigate
    Registry_Props Dispatch_Props Run_Props Trace_File_Props Replay_Props Verify_Props
    Wire_Props Valve_Stream
begin

text \<open>
  A verification library of Ferric, a harness that runs a language model as a coding agent.

  \<^bold>\<open>The program.\<close> One run is a loop of turns (ferric-loop). A turn asks a provider for a completion,
  offers the requested tool calls to a chain of gates, runs the admitted ones and appends typed events
  to a trace (ferric-trace). The trace is the only memory of a run: the projector folds it back into the
  model's window, and an interrupted run is resumed from it. Around the loop stand the evidence
  controller, which decides whether the model has seen enough of the files a mutation touches, the path
  guard and the sink gate (ferric-guard), the scale function that derives a run policy from the size of
  the model (ferric-core), the HTTP gate of the local services (ferric-gate) and the WireGuard tunnel
  plan of the command line (ferric-cli). Below the loop, the provider client (ferric-provider) speaks to an
  OpenAI-compatible server, over the wire formats of ferric-iron; the valve (ferric-valve) puts the same
  constrained protocol in front of a server for agents that are not Ferric.

  \<^bold>\<open>Layout.\<close> Every theory names the source it follows at its start; the definitions keep the names of
  the functions and types they translate, and stand in the order of the file.

  \<^item> Shared: Ferric_Prelude (result combinators, the collections of simplification rules, generic
    lemmas), Rust_Collections (ordered maps and sets, vectors and byte strings of the Rust library),
    Rust_Strings (the string operations: trimming, lines, splitting, numbers in decimal), Rust_Paths
    (lexical paths), Rust_Utf8 (decoding of UTF-8), Ferric_Monad (computations that return a result or an
    error with the state they leave behind, and the interface step_order that carries a relation between
    states through them).
  \<^item> Evidence controller: Harness_Policy (harness_policy.rs), Controller_Records (the controller records
    of event.rs), Controller_Validate and Evidence_Controller (controller.rs), Controller_Session (the
    step relation of a session: observations, effects, checks and resumes in any order, and the
    invariant every reachable state has), Controller_History (what a state remembers of the events
    that led to it), Controller_Props.
  \<^item> Guards: Path_Guard (denylist.rs, checker.rs, ignore.rs, workspace.rs, sink.rs), Guard_Props;
    Network_Gate (guard.rs, bind.rs, token.rs, layer.rs), Gate_Props.
  \<^item> Loop: Messages (message.rs, terminator.rs, the request types of the provider), Loop_Guards
    (repetition.rs, progress.rs, failure.rs, oscillation.rs, outcome.rs, backoff.rs), Loop_Props;
    Run_Policy (scale.rs, fit.rs, user_input.rs), Policy_Props.
  \<^item> Trace: Trace_Events (event.rs), Trace_Projector (projector.rs), Compaction (compact.rs),
    Projector_Inv (the invariant of the projector over the traces the loop writes), Projector_Props;
    Trace_Structure (trace_structure.rs: the validator that walks a trace record by record),
    Structure_Inv (what an accepted trace has: typed events, a controller that follows them, calls and
    results that agree); Trace_File (the sink and the reader of trace files), Trace_File_Props; Replay
    (replay.rs: from a file to the state a run continues from, and the checks of a resume), Replay_Inv
    (the trace a live run writes keeps in step with the validator), Replay_Props; Trace_Verify
    (trace_verify.rs of the command line), Verify_Props.
  \<^item> Tools: Tool_Control (control.rs, spec.rs: intents, preimages, effects), Controlled_File
    (controlled_file.rs, check_syntax.rs: preparation, comparison at commit, measured effects), File_Tools
    (the reader, the writers and the structural tools of builtin/), Navigate (navigate.rs, find_files.rs,
    search_files.rs), Tool_Registry (registry.rs), Registry_Props.
  \<^item> Run: Controlled_Dispatch (controlled_dispatch.rs), Dispatch_Inv (what every dispatch keeps: the trace
    and the live projector agree, the controller follows the events, the world moves only at a commit),
    Dispatch_Props; Agent_Loop (run.rs, the turn), Agent_Run (run.rs, the whole run),
    Run_Inv (the relations a turn keeps), Run_Props; Sample_World and Sample_Run, a small world in which
    the properties of the run are applied.
  \<^item> Wire: Incremental (the interface consumer: what a decoder makes of its input does not depend on
    how the input is cut), Wire_Formats (wire.rs, openai_tools.rs, protocol.rs), Stream_Scan
    (stream_scan.rs), Stream_Inv (the scanner along a growing text), Provider_Client (openai.rs),
    Wire_Props.
  \<^item> Valve: Valve (transform.rs, translate.rs, sse.rs, upstream.rs, probe.rs, the receipts), Valve_Props,
    Valve_Stream (what a streaming client assembles).
  \<^item> Tunnel: Tunnel_Plan (tunnel/plan.rs), Tunnel_Props.

  \<^bold>\<open>State and effects.\<close> A struct is a record, an enum a datatype, and a method that mutates its receiver
  returns the new state, beside its result when it has one. Errors are values: each message of the code
  is a constructor of an error type or the text itself. Machine integers whose wrap-around or saturation
  matters are words or are cut off explicitly. Strings are lists of characters that stand for bytes; a
  place where the code counts characters counts the bytes that do not continue a character.

  \<^bold>\<open>Parameters.\<close> Code outside the repository is an argument of the definitions that use it: the JSON
  printer, SHA-256, hexadecimal and base64 encodings, X25519, the file system's canonicalization, the
  operating system's random numbers, the answers of a model provider; the encoder and decoder of one
  trace line, with the faults of the writes, are such arguments of the trace files; the JSON parser, the
  URL parser and what the transport delivers are arguments of the provider client and of the valve, the latter as
  the sequence of reads, failures, ticks and closings an exchange awaits. The file system behind the tools is
  the record host: the operations the tools call on a state of the world, whose type is a variable. What the code relies on about them
  is a named hypothesis or a locale assumption, and each property that has one has a witness with a
  concrete function.

  \<^bold>\<open>Fuel and termination.\<close> No definition takes fuel: the loops of the modelled code run over lists, over
  a number of attempts or over the bytes of a text, and each recursion is structural or has its measure.

  \<^bold>\<open>What is shown.\<close>
  \<^item> The controller admits a mutation only with evidence of the content it replaces, keeps its invariant
    over every session, forgets evidence that an effect made stale, never lets one check satisfy two
    epochs, and resumes a checkpoint to a state that knows no more than the one that was saved.
  \<^item> A path that the guard resolves lies in the workspace and off the denylist; a contaminated run
    cannot mutate without an approval; a request without a known host, origin and token is refused.
  \<^item> The loop's guards stop exactly when their thresholds are met, the retry loop ends, and the run
    policy grows with the tier.
  \<^item> The projected window is well formed for every legal trace, a resumed projection equals the one that
    was never interrupted, a compaction keeps the turns it does not fold, and a turn is committed whole
    or not at all.
  \<^item> A tool call changes the world only after the guard, the controller, the human and the sink gate have
    let it pass, and what the controller admits was shown to the model before; every dispatch records what
    it did, and the controller and the projector are functions of that record.
  \<^item> A run ends within its turns, reports completion only with fresh checks, and pauses with a checkpoint
    that a reader of its trace derives as well.
  \<^item> A trace that the validator accepts is an audit: each mutation it reports was preceded by the evidence
    it needed, each call that is replayed has its result, and a trace whose last call was cut off before its
    result is refused rather than run again. A run that paused replays to the state it paused in. A crash
    in the middle of a write leaves a readable prefix of the events, and a trace the verifier passes has
    the records of one session, numbered without gaps, that the validator accepts to the end. A read recorded under an absolute path makes
    the trace that holds it impossible to replay.
  \<^item> Where the network cuts a streamed answer has no effect, a streamed answer is the whole one, and what is
    shown of an action while it arrives is the decoded text of its parts. The valve offers the upstream no
    tools but a schema of exactly the admitted ones, keeps the rendered prefix of a growing conversation,
    shows nothing of an answer that was cut off or does not parse, and what it streams is the message.
  \<^item> The tunnel plan that is written is the plan that is read back.

  \<^bold>\<open>Not modelled.\<close> The command line's rendering and process handling, the web server and its registration
  files, sockets and clocks, the HTTP handlers of the valve and its forwarding mode, the wire format that serde derives, the benchmark and the research tools: they are
  input and output or calls to libraries, with little state of their own. The tools that run programs
  (shell, git, checks) and the platform layer below the controlled mutations are parameters.
\<close>

end
